(* ===== verification/Prelude.thy ===== *)
theory Prelude
  imports Complex_Main "HOL-Library.AList" "HOL-Library.Sublist"
begin

text \<open>
  Shared vocabulary of the development.

  \<^item> Python values that are not given a record of their own: the JSON-like type \<open>pyval\<close>,
    insertion-ordered dictionaries as association lists, UUIDs, instants and strings.
  \<^item> The string operations the source uses (\<open>str.lower\<close>, \<open>str.strip\<close>, \<open>in\<close>, \<open>join\<close>, decimal
    printing of integers). A string is the list of its UTF-8 bytes; \<open>py_len\<close> counts code points.
    Case folding and stripping act on the ASCII range.
  \<^item> Exceptions as values and the state-and-exception computations of the asynchronous handlers:
    a computation maps a world to an exception or a result together with the world it leaves
    behind, so that an exception keeps every effect performed before it.
  \<^item> The generic lemmas the component proofs share and the collections they are declared into.
\<close>

named_theorems py_eval \<open>evaluation of the string and dictionary helpers\<close>
named_theorems io_simps \<open>unfolding of state-and-exception computations\<close>

section \<open>Identifiers, instants and values\<close>

text \<open>A UUID is its 128-bit integer value; an instant is a number of microseconds since the epoch.\<close>

type_synonym uuid = nat
type_synonym instant = int
type_synonym ('k, 'v) dict = "('k \<times> 'v) list"

text \<open>Dynamically typed values, as they occur inside evidence items and message data.\<close>

datatype pyval =
    VNone
  | VBool bool
  | VInt int
  | VFloat rat
  | VStr string
  | VList "pyval list"
  | VDict "(string \<times> pyval) list"

abbreviation dict_get :: "('k, 'v) dict \<Rightarrow> 'k \<Rightarrow> 'v option" where
  "dict_get d k \<equiv> map_of d k"

abbreviation dict_set :: "'k \<Rightarrow> 'v \<Rightarrow> ('k, 'v) dict \<Rightarrow> ('k, 'v) dict" where
  "dict_set k v d \<equiv> AList.update k v d"

lemma dict_get_set [simp]: "dict_get (dict_set k v d) k' = (if k' = k then Some v else dict_get d k')"
  by (simp add: update_conv')

lemma dict_set_keys [simp]: "fst ` set (dict_set k v d) = insert k (fst ` set d)"
  by (induction d) auto

lemma dict_set_distinct [simp]: "distinct (map fst d) \<Longrightarrow> distinct (map fst (dict_set k v d))"
  by (rule distinct_update)

lemma dict_set_in_setD:
  "(k', v') \<in> set (dict_set k v d) \<Longrightarrow> distinct (map fst d) \<Longrightarrow>
    (k' = k \<and> v' = v) \<or> (k' \<noteq> k \<and> (k', v') \<in> set d)"
  by (induction d) (force split: if_splits)+

section \<open>Strings\<close>

definition lower_char :: "char \<Rightarrow> char" where
  "lower_char c = (let n = (of_char c :: nat) in if 65 \<le> n \<and> n \<le> 90 then char_of (n + 32) else c)"

definition py_lower :: "string \<Rightarrow> string" where
  "py_lower s = map lower_char s"

definition is_space :: "char \<Rightarrow> bool" where
  "is_space c = (let n = (of_char c :: nat) in (9 \<le> n \<and> n \<le> 13) \<or> (28 \<le> n \<and> n \<le> 32))"

definition py_strip :: "string \<Rightarrow> string" where
  "py_strip s = rev (dropWhile is_space (rev (dropWhile is_space s)))"

text \<open>The number of code points: UTF-8 continuation bytes are not counted.\<close>

definition py_len :: "string \<Rightarrow> nat" where
  "py_len s = length (filter (\<lambda>c. \<not> (128 \<le> (of_char c :: nat) \<and> (of_char c :: nat) < 192)) s)"

text \<open>A slice \<^verbatim>\<open>text[:n]\<close> keeps \<open>n\<close> code points: every byte up to the next lead byte.\<close>

fun py_take :: "nat \<Rightarrow> string \<Rightarrow> string" where
  "py_take n [] = []"
| "py_take n (c # s) =
     (if 128 \<le> (of_char c :: nat) \<and> (of_char c :: nat) < 192 then c # py_take n s
      else case n of 0 \<Rightarrow> [] | Suc m \<Rightarrow> c # py_take m s)"

lemma py_take_prefix: "prefix (py_take n s) s"
  by (induction n s rule: py_take.induct) (auto split: nat.splits)

lemma py_take_len: "py_len (py_take n s) \<le> n"
  by (induction n s rule: py_take.induct) (auto simp: py_len_def split: nat.splits)

text \<open>Python's \<open>sub in s\<close> on strings.\<close>

fun py_in :: "string \<Rightarrow> string \<Rightarrow> bool" where
  "py_in sub [] = (sub = [])"
| "py_in sub (c # s) = (prefix sub (c # s) \<or> py_in sub s)"

lemma py_in_iff_sublist: "py_in sub s \<longleftrightarrow> sublist sub s"
  by (induction s) (auto simp: sublist_Cons_right)

fun py_join :: "string \<Rightarrow> string list \<Rightarrow> string" where
  "py_join sep [] = []"
| "py_join sep [s] = s"
| "py_join sep (s # t # ss) = s @ sep @ py_join sep (t # ss)"

definition digit_char :: "int \<Rightarrow> char" where
  "digit_char n = char_of (48 + n)"

fun show_pos :: "int \<Rightarrow> string" where
  "show_pos n = (if n < 10 then [digit_char n] else show_pos (n div 10) @ [digit_char (n mod 10)])"

declare show_pos.simps [simp del]

definition show_int :: "int \<Rightarrow> string" where
  "show_int i = (if i < 0 then ''-'' @ show_pos (- i) else show_pos i)"

abbreviation show_nat :: "nat \<Rightarrow> string" where
  "show_nat n \<equiv> show_int (int n)"

definition show_bool :: "bool \<Rightarrow> string" where
  "show_bool b = (if b then ''True'' else ''False'')"

text \<open>The non-ASCII characters that occur in message texts, as UTF-8 bytes.\<close>

definition em_dash :: string where
  "em_dash = [CHR 0xE2, CHR 0x80, CHR 0x94]"

definition right_arrow :: string where
  "right_arrow = [CHR 0xE2, CHR 0x86, CHR 0x92]"

definition leq_sign :: string where
  "leq_sign = [CHR 0xE2, CHR 0x89, CHR 0xA4]"

text \<open>
  \<open>repr\<close> of a string: single quotes unless the string holds a single quote and no double quote;
  backslash, the chosen quote and the ASCII control characters are escaped.
\<close>

definition hex_char :: "nat \<Rightarrow> char" where
  "hex_char n = (if n < 10 then char_of (48 + n) else char_of (87 + n))"

definition repr_char :: "char \<Rightarrow> char \<Rightarrow> string" where
  "repr_char q c =
     (let n = (of_char c :: nat) in
      if c = q \<or> n = 92 then [CHR 0x5C, c]
      else if n = 9 then [CHR 0x5C, CHR ''t'']
      else if n = 10 then [CHR 0x5C, CHR ''n'']
      else if n = 13 then [CHR 0x5C, CHR ''r'']
      else if n < 32 \<or> n = 127 then [CHR 0x5C, CHR ''x'', hex_char (n div 16), hex_char (n mod 16)]
      else [c])"

definition repr_str :: "string \<Rightarrow> string" where
  "repr_str s =
     (let q = (if CHR 0x27 \<in> set s \<and> CHR 0x22 \<notin> set s then CHR 0x22 else CHR 0x27)
      in q # concat (map (repr_char q) s) @ [q])"

definition quoted :: "string \<Rightarrow> string" where
  "quoted s = [CHR 0x27] @ s @ [CHR 0x27]"

text \<open>\<open>list(dict.fromkeys(xs))\<close>: duplicates removed, first occurrences kept in order.\<close>

fun dict_fromkeys :: "'a list \<Rightarrow> 'a list" where
  "dict_fromkeys [] = []"
| "dict_fromkeys (x # xs) = x # filter (\<lambda>y. y \<noteq> x) (dict_fromkeys xs)"

lemma set_dict_fromkeys [simp]: "set (dict_fromkeys xs) = set xs"
  by (induction xs) auto

lemma distinct_dict_fromkeys [simp]: "distinct (dict_fromkeys xs)"
  by (induction xs) auto

lemma dict_fromkeys_distinct [simp]: "distinct xs \<Longrightarrow> dict_fromkeys xs = xs"
  by (induction xs) (auto simp: filter_id_conv)

lemma dict_fromkeys_eq_Nil [simp]: "dict_fromkeys xs = [] \<longleftrightarrow> xs = []"
  by (cases xs) auto

section \<open>Instants\<close>

definition seconds :: "int \<Rightarrow> instant" where
  "seconds n = n * 1000000"

definition day_us :: int where
  "day_us = 86400 * 1000000"

text \<open>\<^verbatim>\<open>(a - b).days\<close>: a \<open>timedelta\<close> is normalised, so its day count is the floor.\<close>

definition delta_days :: "instant \<Rightarrow> instant \<Rightarrow> int" where
  "delta_days a b = (a - b) div day_us"

lemma delta_days_mono: "a \<le> a' \<Longrightarrow> delta_days a b \<le> delta_days a' b"
  by (simp add: delta_days_def day_us_def zdiv_mono1)

text \<open>The proleptic Gregorian date of a day number (days since 1970-01-01).\<close>

definition civil_date :: "int \<Rightarrow> int \<times> int \<times> int" where
  "civil_date z0 =
     (let z = z0 + 719468; era = z div 146097; doe = z - era * 146097;
          yoe = (doe - doe div 1460 + doe div 36524 - doe div 146096) div 365;
          doy = doe - (365 * yoe + yoe div 4 - yoe div 100);
          mp = (5 * doy + 2) div 153; d = doy - (153 * mp + 2) div 5 + 1;
          m = (if mp < 10 then mp + 3 else mp - 9); y = yoe + era * 400
      in (if m \<le> 2 then y + 1 else y, m, d))"

definition pad_int :: "nat \<Rightarrow> int \<Rightarrow> string" where
  "pad_int n i = (let s = show_pos i in replicate (n - length s) (CHR ''0'') @ s)"

text \<open>\<^verbatim>\<open>isoformat()\<close> of an aware UTC datetime.\<close>

definition isoformat :: "instant \<Rightarrow> string" where
  "isoformat t =
     (let us = t mod 1000000; secs = t div 1000000; sod = secs mod 86400;
          (y, m, d) = civil_date (secs div 86400)
      in pad_int 4 y @ ''-'' @ pad_int 2 m @ ''-'' @ pad_int 2 d @ ''T''
         @ pad_int 2 (sod div 3600) @ '':'' @ pad_int 2 ((sod div 60) mod 60) @ '':''
         @ pad_int 2 (sod mod 60) @ (if us = 0 then [] else ''.'' @ pad_int 6 us) @ ''+00:00'')"

section \<open>Exceptions and stateful computations\<close>

text \<open>The assistive runtime names the path a result came by (\<^verbatim>\<open>llm/result.py\<close>) and the reason of a failure,
  which its exceptions carry (\<^verbatim>\<open>llm/errors.py\<close>).\<close>

datatype ReasoningPath = ModelPath | CachePath | FallbackPath

datatype FailureReason =
    ModelUnavailable | Timeout | InvalidOutput | MissingInputs | ContextLimitExceeded | UnableToProduce

datatype exc =
    ValueError string
  | KeyError string
  | CaseSaveConflict string
  | RiskPeerUnavailable string
  | BillingPeerUnavailable string
  | UnknownEventType string
  | PayloadValidationError string
  | MissingCausation string
  | TransportError string
  | TimeoutError string
  | JSONDecodeError string
  | RecursionError string
  | ProviderError string
  | LLMRuntimeError string FailureReason

text \<open>\<open>str(exc)\<close>: the message; a \<open>KeyError\<close> prints the \<open>repr\<close> of its argument.\<close>

fun str_exc :: "exc \<Rightarrow> string" where
  "str_exc (ValueError m) = m"
| "str_exc (KeyError m) = repr_str m"
| "str_exc (CaseSaveConflict m) = m"
| "str_exc (RiskPeerUnavailable m) = m"
| "str_exc (BillingPeerUnavailable m) = m"
| "str_exc (UnknownEventType m) = repr_str m"
| "str_exc (PayloadValidationError m) = m"
| "str_exc (MissingCausation m) = m"
| "str_exc (TransportError m) = m"
| "str_exc (TimeoutError m) = m"
| "str_exc (JSONDecodeError m) = m"
| "str_exc (RecursionError m) = m"
| "str_exc (ProviderError m) = m"
| "str_exc (LLMRuntimeError m _) = m"

type_synonym ('w, 'a) io = "'w \<Rightarrow> (exc + 'a) \<times> 'w"

definition return_io :: "'a \<Rightarrow> ('w, 'a) io" where
  "return_io x = (\<lambda>w. (Inr x, w))"

definition raise_io :: "exc \<Rightarrow> ('w, 'a) io" where
  "raise_io e = (\<lambda>w. (Inl e, w))"

definition bind_io :: "('w, 'a) io \<Rightarrow> ('a \<Rightarrow> ('w, 'b) io) \<Rightarrow> ('w, 'b) io" where
  "bind_io m f = (\<lambda>w. case m w of (Inl e, w') \<Rightarrow> (Inl e, w') | (Inr x, w') \<Rightarrow> f x w')"

definition then_io :: "('w, 'a) io \<Rightarrow> ('w, 'b) io \<Rightarrow> ('w, 'b) io" where
  "then_io m n = bind_io m (\<lambda>_. n)"

definition try_io :: "('w, 'a) io \<Rightarrow> (exc \<Rightarrow> ('w, 'a) io) \<Rightarrow> ('w, 'a) io" where
  "try_io m h = (\<lambda>w. case m w of (Inl e, w') \<Rightarrow> h e w' | (Inr x, w') \<Rightarrow> (Inr x, w'))"

definition get_io :: "('w \<Rightarrow> 'a) \<Rightarrow> ('w, 'a) io" where
  "get_io f = (\<lambda>w. (Inr (f w), w))"

definition modify_io :: "('w \<Rightarrow> 'w) \<Rightarrow> ('w, unit) io" where
  "modify_io f = (\<lambda>w. (Inr (), f w))"

definition when_io :: "bool \<Rightarrow> ('w, unit) io \<Rightarrow> ('w, unit) io" where
  "when_io b m = (if b then m else return_io ())"

lemmas io_defs = return_io_def raise_io_def bind_io_def then_io_def try_io_def get_io_def
  modify_io_def when_io_def

declare io_defs [io_simps]

text \<open>
  An assertion about a computation: from every world that satisfies \<open>P\<close> the computation ends in a
  world that satisfies \<open>Q\<close> of its outcome, exceptions included. The rules below follow the
  structure of a handler, so that the effect of a handler on an invariant is the effect of its
  steps.
\<close>

definition triple :: "('w \<Rightarrow> bool) \<Rightarrow> ('w, 'a) io \<Rightarrow> (exc + 'a \<Rightarrow> 'w \<Rightarrow> bool) \<Rightarrow> bool" where
  "triple P m Q \<longleftrightarrow> (\<forall>w. P w \<longrightarrow> (case m w of (r, w') \<Rightarrow> Q r w'))"

lemma tripleI: "(\<And>w r w'. P w \<Longrightarrow> m w = (r, w') \<Longrightarrow> Q r w') \<Longrightarrow> triple P m Q"
  by (auto simp: triple_def split: prod.splits)

lemma tripleD: "triple P m Q \<Longrightarrow> P w \<Longrightarrow> m w = (r, w') \<Longrightarrow> Q r w'"
  by (auto simp: triple_def split: prod.splits)

lemma triple_weaken:
  "triple P' m Q' \<Longrightarrow> (\<And>w. P w \<Longrightarrow> P' w) \<Longrightarrow> (\<And>r w. Q' r w \<Longrightarrow> Q r w) \<Longrightarrow> triple P m Q"
  by (fastforce simp: triple_def split: prod.splits)

lemma triple_bind:
  assumes "triple P m (\<lambda>r w. case r of Inl e \<Rightarrow> Q (Inl e) w | Inr x \<Rightarrow> R x w)"
    and "\<And>x. triple (R x) (f x) Q"
  shows "triple P (bind_io m f) Q"
  using assms by (fastforce simp: triple_def bind_io_def split: prod.splits sum.splits)

lemma triple_then:
  assumes "triple P m (\<lambda>r w. case r of Inl e \<Rightarrow> Q (Inl e) w | Inr _ \<Rightarrow> R w)"
    and "triple R n Q"
  shows "triple P (then_io m n) Q"
  unfolding then_io_def by (rule triple_bind [OF assms(1)]) (rule assms(2))

lemma triple_try:
  assumes "triple P m (\<lambda>r w. case r of Inl e \<Rightarrow> R e w | Inr x \<Rightarrow> Q (Inr x) w)"
    and "\<And>e. triple (R e) (h e) Q"
  shows "triple P (try_io m h) Q"
  using assms by (fastforce simp: triple_def try_io_def split: prod.splits sum.splits)

lemma triple_return: "(\<And>w. P w \<Longrightarrow> Q (Inr x) w) \<Longrightarrow> triple P (return_io x) Q"
  by (simp add: triple_def return_io_def)

lemma triple_raise: "(\<And>w. P w \<Longrightarrow> Q (Inl e) w) \<Longrightarrow> triple P (raise_io e) Q"
  by (simp add: triple_def raise_io_def)

lemma triple_get: "(\<And>w. P w \<Longrightarrow> Q (Inr (f w)) w) \<Longrightarrow> triple P (get_io f) Q"
  by (simp add: triple_def get_io_def)

lemma triple_modify: "(\<And>w. P w \<Longrightarrow> Q (Inr ()) (f w)) \<Longrightarrow> triple P (modify_io f) Q"
  by (simp add: triple_def modify_io_def)

lemma triple_if:
  "(b \<Longrightarrow> triple P m Q) \<Longrightarrow> (\<not> b \<Longrightarrow> triple P n Q) \<Longrightarrow> triple P (if b then m else n) Q"
  by simp

end
