(* ===== verification/PyFloat.thy ===== *)
theory PyFloat
  imports Prelude
begin

text \<open>
  Python's \<open>float\<close>: IEEE 754 binary64. A finite float is the rational number it denotes; every
  arithmetic operation is the exact operation followed by rounding to the nearest binary64 value,
  ties to even (\<open>fl\<close>), with the gradual underflow of subnormals. Infinities, NaN and overflow are
  outside the model: the amounts, ratios and confidences of the program are finite and far below
  the overflow threshold. A decimal literal such as \<^verbatim>\<open>0.8\<close> is \<open>fl (8 / 10)\<close>.

  The theory also holds the conversions of floats to text the source uses: fixed-point formatting
  (\<^verbatim>\<open>:.3f\<close>), \<^verbatim>\<open>round(x, n)\<close> and the shortest round-trip \<^verbatim>\<open>repr\<close>.
\<close>

type_synonym pyfloat = rat
type_synonym decimal = rat

section \<open>Rounding to an integer, ties to even\<close>

definition round_half_even :: "rat \<Rightarrow> int" where
  "round_half_even r =
     (let f = \<lfloor>r\<rfloor>; d = r - of_int f in
      if d < 1 / 2 then f else if d > 1 / 2 then f + 1 else if even f then f else f + 1)"

lemma round_half_even_of_int [simp]: "round_half_even (of_int n) = n"
  by (simp add: round_half_even_def)

lemma round_half_even_bounds:
  "of_int (round_half_even r) - 1 / 2 \<le> r" "r \<le> of_int (round_half_even r) + 1 / 2"
proof -
  have "of_int \<lfloor>r\<rfloor> \<le> r" "r < of_int \<lfloor>r\<rfloor> + 1" by linarith+
  then show "of_int (round_half_even r) - 1 / 2 \<le> r" "r \<le> of_int (round_half_even r) + 1 / 2"
    unfolding round_half_even_def Let_def by (simp_all split: if_split) linarith+
qed

lemma round_half_even_floor: "\<lfloor>r\<rfloor> \<le> round_half_even r" "round_half_even r \<le> \<lfloor>r\<rfloor> + 1"
  by (simp_all add: round_half_even_def Let_def)

lemma round_half_even_mono:
  assumes "x \<le> y" shows "round_half_even x \<le> round_half_even y"
proof (cases "\<lfloor>x\<rfloor> = \<lfloor>y\<rfloor>")
  case True
  with assms show ?thesis by (auto simp: round_half_even_def Let_def)
next
  case False
  with assms have "\<lfloor>x\<rfloor> + 1 \<le> \<lfloor>y\<rfloor>" using floor_mono [OF assms] by linarith
  with round_half_even_floor [of x] round_half_even_floor [of y] show ?thesis by linarith
qed

lemma round_half_even_ge: "of_int n \<le> r \<Longrightarrow> n \<le> round_half_even r"
  using round_half_even_mono [of "of_int n" r] by simp

lemma round_half_even_le: "r \<le> of_int n \<Longrightarrow> round_half_even r \<le> n"
  using round_half_even_mono [of r "of_int n"] by simp

section \<open>The binary exponent of a positive rational\<close>

fun bit_len :: "int \<Rightarrow> int" where
  "bit_len n = (if n \<le> 0 then 0 else 1 + bit_len (n div 2))"

declare bit_len.simps [simp del]

lemma bit_len_nonneg: "0 \<le> bit_len n"
proof (induction n rule: bit_len.induct)
  case (1 n)
  then show ?case by (cases "n \<le> 0") (simp_all add: bit_len.simps [of n])
qed

definition pow2 :: "int \<Rightarrow> rat" where
  "pow2 e = (if 0 \<le> e then of_int (2 ^ nat e) else 1 / of_int (2 ^ nat (- e)))"

lemma pow2_pos [simp]: "0 < pow2 e"
  by (simp add: pow2_def)

lemma pow2_nonneg [simp]: "0 \<le> pow2 e"
  by (simp add: less_imp_le)

lemma pow2_powi: "pow2 e = 2 powi e"
  by (simp add: pow2_def power_int_def field_simps)

lemma pow2_add: "pow2 (a + b) = pow2 a * pow2 b"
  by (simp add: pow2_powi power_int_add)

lemma pow2_Suc: "pow2 (e + 1) = 2 * pow2 e"
  by (simp add: pow2_add) (simp add: pow2_def)

lemma pow2_mono: "a \<le> b \<Longrightarrow> pow2 a \<le> pow2 b"
  by (simp add: pow2_powi power_int_increasing)

lemma pow2_less: "pow2 a < pow2 b \<Longrightarrow> a < b"
  using pow2_mono [of b a] by (cases "a < b") auto

lemma pow2_nat [simp]: "pow2 (int n) = 2 ^ n"
  by (simp add: pow2_def)

text \<open>
  \<open>flog2 x\<close> is the \<open>e\<close> with \<open>2\<^sup>e \<le> x < 2\<^sup>e\<^sup>+\<^sup>1\<close>: the lengths of numerator and denominator leave two
  candidates.
\<close>

definition flog2 :: "rat \<Rightarrow> int" where
  "flog2 x =
     (case quotient_of x of (p, q) \<Rightarrow>
        let k = bit_len p - bit_len q in if pow2 k \<le> x then k else k - 1)"

lemma bit_len_rat: "n > 0 \<Longrightarrow> pow2 (bit_len n - 1) \<le> of_int n \<and> of_int n < pow2 (bit_len n)"
proof (induction n rule: bit_len.induct)
  case (1 n)
  have eq: "bit_len n = 1 + bit_len (n div 2)" using "1.prems" by (simp add: bit_len.simps [of n])
  show ?case
  proof (cases "n div 2 = 0")
    case True
    with "1.prems" have "n = 1" by auto
    then show ?thesis by (simp add: bit_len.simps pow2_def)
  next
    case False
    define h where "h = n div 2"
    from False "1.prems" have "0 < h" unfolding h_def by linarith
    with "1" have IH: "pow2 (bit_len h - 1) \<le> of_int h" "of_int h < pow2 (bit_len h)"
      unfolding h_def by auto
    have "pow2 (bit_len h) = of_int (2 ^ nat (bit_len h))" using bit_len_nonneg by (simp add: pow2_def)
    with IH(2) have "h + 1 \<le> 2 ^ nat (bit_len h)" by (metis of_int_less_iff add1_zle_eq)
    then have "of_int (h + 1) \<le> pow2 (bit_len h)"
      using \<open>pow2 (bit_len h) = _\<close> by (simp only: of_int_le_iff)
    then have hi: "2 * of_int h + 2 \<le> 2 * pow2 (bit_len h)" by simp
    have "2 * h \<le> n" "n \<le> 2 * h + 1" unfolding h_def by linarith+
    then have n: "(2 * of_int h :: rat) \<le> of_int n" "(of_int n :: rat) \<le> 2 * of_int h + 1"
      by linarith+
    have "pow2 (bit_len n - 1) = 2 * pow2 (bit_len h - 1)" "pow2 (bit_len n) = 2 * pow2 (bit_len h)"
      using pow2_Suc [of "bit_len h - 1"] pow2_Suc [of "bit_len h"]
      by (simp_all add: eq h_def add.commute)
    with IH(1) hi n show ?thesis by linarith
  qed
qed

lemma flog2_bounds:
  assumes "x > 0"
  shows "pow2 (flog2 x) \<le> x" "x < pow2 (flog2 x + 1)"
proof -
  obtain p q where pq: "quotient_of x = (p, q)" by (cases "quotient_of x")
  have q: "q > 0" and x: "x = of_int p / of_int q"
    using quotient_of_denom_pos [OF pq] quotient_of_div [OF pq] by auto
  with assms have p: "p > 0" by (simp add: zero_less_divide_iff)
  define P Q where "P = bit_len p" and "Q = bit_len q"
  have pb: "pow2 (P - 1) \<le> of_int p" "of_int p < pow2 P"
    using bit_len_rat [of p] p by (simp_all add: P_def)
  have qb: "pow2 (Q - 1) \<le> of_int q" "of_int q < pow2 Q"
    using bit_len_rat [of q] q by (simp_all add: Q_def)
  have qpos: "(0 :: rat) < of_int q" using q by simp
  have "pow2 (P - Q - 1) * of_int q \<le> pow2 (P - Q - 1) * pow2 Q"
    using qb(2) by (simp add: less_imp_le)
  also have "\<dots> = pow2 (P - 1)" by (simp flip: pow2_add add: algebra_simps)
  also note pb(1)
  finally have lo: "pow2 (P - Q - 1) \<le> x" using qpos by (simp add: x pos_le_divide_eq)
  have "of_int p < pow2 (P - Q + 1) * pow2 (Q - 1)" using pb(2) by (simp flip: pow2_add)
  also have "\<dots> \<le> pow2 (P - Q + 1) * of_int q" using qb(1) by simp
  finally have hi: "x < pow2 (P - Q + 1)" using qpos by (simp add: x pos_divide_less_eq)
  from lo hi show "pow2 (flog2 x) \<le> x" "x < pow2 (flog2 x + 1)"
    by (auto simp: flog2_def pq P_def Q_def Let_def)
qed

lemma flog2_mono:
  assumes "0 < x" "x \<le> y" shows "flog2 x \<le> flog2 y"
proof -
  have "pow2 (flog2 x) \<le> x" using flog2_bounds(1) [OF assms(1)] .
  also have "\<dots> \<le> y" by (rule assms(2))
  also have "\<dots> < pow2 (flog2 y + 1)" using flog2_bounds(2) [of y] assms by simp
  finally show ?thesis using pow2_less by fastforce
qed

section \<open>Rounding to binary64\<close>

text \<open>The exponent of the unit in the last place: 53 significant bits, at least the subnormal unit.\<close>

definition ulp_exp :: "rat \<Rightarrow> int" where
  "ulp_exp x = max (flog2 \<bar>x\<bar> - 52) (- 1074)"

definition fl :: "rat \<Rightarrow> pyfloat" where
  "fl x = (if x = 0 then 0
           else let u = pow2 (ulp_exp x) in of_int (round_half_even (x / u)) * u)"

definition f_add :: "pyfloat \<Rightarrow> pyfloat \<Rightarrow> pyfloat" where "f_add x y = fl (x + y)"
definition f_sub :: "pyfloat \<Rightarrow> pyfloat \<Rightarrow> pyfloat" where "f_sub x y = fl (x - y)"
definition f_mul :: "pyfloat \<Rightarrow> pyfloat \<Rightarrow> pyfloat" where "f_mul x y = fl (x * y)"
definition f_div :: "pyfloat \<Rightarrow> pyfloat \<Rightarrow> pyfloat" where "f_div x y = fl (x / y)"

lemma fl_zero [simp]: "fl 0 = 0"
  by (simp add: fl_def Let_def)

lemma fl_nonneg: "0 \<le> x \<Longrightarrow> 0 \<le> fl x"
  using round_half_even_ge [of 0 "x / pow2 (ulp_exp x)"] by (simp add: fl_def Let_def)

lemma fl_nonpos: "x \<le> 0 \<Longrightarrow> fl x \<le> 0"
  using round_half_even_le [of "x / pow2 (ulp_exp x)" 0]
  by (simp add: fl_def Let_def divide_nonpos_pos mult_nonpos_nonneg)

text \<open>A value on the rounding grid of \<open>x\<close> bounds \<open>fl x\<close> from the side it bounds \<open>x\<close> from.\<close>

lemma fl_le_grid:
  assumes "x \<noteq> 0" "x \<le> of_int m * pow2 (ulp_exp x)"
  shows "fl x \<le> of_int m * pow2 (ulp_exp x)"
proof -
  have "x / pow2 (ulp_exp x) \<le> of_int m" using assms(2) by (simp add: pos_divide_le_eq)
  then have "round_half_even (x / pow2 (ulp_exp x)) \<le> m" by (rule round_half_even_le)
  then show ?thesis using assms(1) by (simp add: fl_def Let_def)
qed

lemma fl_ge_grid:
  assumes "x \<noteq> 0" "of_int m * pow2 (ulp_exp x) \<le> x"
  shows "of_int m * pow2 (ulp_exp x) \<le> fl x"
proof -
  have "of_int m \<le> x / pow2 (ulp_exp x)" using assms(2) by (simp add: pos_le_divide_eq)
  then have "m \<le> round_half_even (x / pow2 (ulp_exp x))" by (rule round_half_even_ge)
  then show ?thesis using assms(1) by (simp add: fl_def Let_def)
qed

lemma pow2_multiple: "u \<le> e \<Longrightarrow> pow2 e = of_int (2 ^ nat (e - u)) * pow2 u"
  using pow2_add [of "e - u" u] by (simp add: pow2_def)

lemma flog2_le: "0 < x \<Longrightarrow> x \<le> pow2 e \<Longrightarrow> flog2 x \<le> e"
proof (rule ccontr)
  assume x: "0 < x" "x \<le> pow2 e" and "\<not> flog2 x \<le> e"
  then have "pow2 (e + 1) \<le> pow2 (flog2 x)" by (intro pow2_mono) simp
  with flog2_bounds(1) [OF x(1)] x(2) pow2_pos [of e] show False
    unfolding pow2_Suc by linarith
qed

lemma fl_le_pow2:
  assumes "0 < x" "x \<le> pow2 e" "- 1074 \<le> e"
  shows "fl x \<le> pow2 e"
proof -
  have u: "ulp_exp x \<le> e" using flog2_le [OF assms(1,2)] assms(1,3) by (simp add: ulp_exp_def)
  show ?thesis using fl_le_grid [of x "2 ^ nat (e - ulp_exp x)"] assms(1,2) pow2_multiple [OF u] by simp
qed

lemma fl_ge_pow2_flog2:
  assumes "0 < x" "- 1022 \<le> flog2 x"
  shows "pow2 (flog2 x) \<le> fl x"
proof -
  have u: "ulp_exp x \<le> flog2 x" using assms by (simp add: ulp_exp_def)
  show ?thesis
    using fl_ge_grid [of x "2 ^ nat (flog2 x - ulp_exp x)"] flog2_bounds(1) [OF assms(1)] assms(1)
      pow2_multiple [OF u] by simp
qed

lemma fl_mono_pos:
  assumes "0 < x" "x \<le> y"
  shows "fl x \<le> fl y"
proof (cases "ulp_exp x = ulp_exp y")
  case True
  have "x / pow2 (ulp_exp y) \<le> y / pow2 (ulp_exp y)" using assms(2) by (simp add: divide_right_mono)
  then have "round_half_even (x / pow2 (ulp_exp y)) \<le> round_half_even (y / pow2 (ulp_exp y))"
    by (rule round_half_even_mono)
  with True assms show ?thesis by (simp add: fl_def Let_def)
next
  case False
  have y: "0 < y" using assms by simp
  have "flog2 x \<le> flog2 y" using flog2_mono [OF assms] .
  with False assms y have lt: "flog2 x < flog2 y" and big: "- 1022 < flog2 y"
    by (auto simp: ulp_exp_def max_def split: if_splits)
  have "x \<le> pow2 (flog2 x + 1)" using flog2_bounds(2) [OF assms(1)] by simp
  also have "\<dots> \<le> pow2 (flog2 y)" using lt by (intro pow2_mono) simp
  finally have "fl x \<le> pow2 (flog2 y)" using fl_le_pow2 [OF assms(1)] big by simp
  also have "\<dots> \<le> fl y" using fl_ge_pow2_flog2 [OF y] big by simp
  finally show ?thesis .
qed

lemma round_half_even_minus: "round_half_even (- r) = - round_half_even r"
proof (cases "r = of_int \<lfloor>r\<rfloor>")
  case True
  then have "- r = of_int (- \<lfloor>r\<rfloor>)" by simp
  with True show ?thesis by (metis round_half_even_of_int)
next
  case False
  have "\<lfloor>- r\<rfloor> = - \<lfloor>r\<rfloor> - 1"
    using False by (intro floor_unique) (simp, linarith, simp, linarith)
  then show ?thesis by (auto simp: round_half_even_def Let_def)
qed

lemma fl_minus: "fl (- x) = - fl x"
  by (simp add: fl_def Let_def ulp_exp_def round_half_even_minus)

lemma fl_mono: "x \<le> y \<Longrightarrow> fl x \<le> fl y"
proof -
  assume le: "x \<le> y"
  consider "0 < x" | "y < 0" | "x \<le> 0" "0 \<le> y" by linarith
  then show "fl x \<le> fl y"
  proof cases
    case 1
    then show ?thesis using le by (rule fl_mono_pos)
  next
    case 2
    then have "fl (- y) \<le> fl (- x)" using le by (intro fl_mono_pos) auto
    then show ?thesis by (simp add: fl_minus)
  next
    case 3
    then show ?thesis using fl_nonpos fl_nonneg by (meson order_trans)
  qed
qed

section \<open>Representable numbers\<close>

text \<open>A number with at most 53 significant bits above the subnormal unit is its own rounding.\<close>

lemma fl_grid_exact: "x \<noteq> 0 \<Longrightarrow> x = of_int m * pow2 (ulp_exp x) \<Longrightarrow> fl x = x"
  using fl_le_grid [of x m] fl_ge_grid [of x m] by simp

lemma fl_exact_pos:
  assumes "0 < m" "m \<le> 2 ^ 53" "- 1074 \<le> e"
  shows "fl (of_int m * pow2 e) = of_int m * pow2 e"
proof -
  let ?x = "of_int m * pow2 e"
  have x: "0 < ?x" using assms(1) by simp
  show ?thesis
  proof (cases "m = 2 ^ 53")
    case True
    then have eq: "?x = pow2 (e + 53)" by (simp add: pow2_add) (simp add: pow2_def)
    have "flog2 ?x \<le> e + 53" using flog2_le [OF x, of "e + 53"] eq by simp
    then have u: "ulp_exp ?x \<le> e + 53" using x assms(3) by (simp add: ulp_exp_def)
    show ?thesis using fl_grid_exact [of ?x] x eq pow2_multiple [OF u] by (metis less_irrefl)
  next
    case False
    with assms(2) have "m + 1 \<le> 2 ^ 53" by simp
    have "?x < pow2 (e + 53)"
      using False assms(2) by (simp add: pow2_add) (simp add: pow2_def)
    with flog2_bounds(1) [OF x] have "flog2 ?x < e + 53" using pow2_less by fastforce
    then have u: "ulp_exp ?x \<le> e" using x assms(3) by (simp add: ulp_exp_def)
    have "?x = of_int (m * 2 ^ nat (e - ulp_exp ?x)) * pow2 (ulp_exp ?x)"
      using pow2_multiple [OF u] by simp
    then show ?thesis using fl_grid_exact [of ?x] x by (metis less_irrefl)
  qed
qed

lemma fl_exact:
  assumes "\<bar>m\<bar> \<le> 2 ^ 53" "- 1074 \<le> e"
  shows "fl (of_int m * pow2 e) = of_int m * pow2 e"
proof -
  consider "m = 0" | "0 < m" | "m < 0" by linarith
  then show ?thesis
  proof cases
    case 3
    then have "fl (of_int (- m) * pow2 e) = of_int (- m) * pow2 e"
      using assms by (intro fl_exact_pos) auto
    then show ?thesis using fl_minus [of "of_int m * pow2 e"] by simp
  qed (use assms fl_exact_pos [of m e] in auto)
qed

lemma fl_of_int: "\<bar>n\<bar> \<le> 2 ^ 53 \<Longrightarrow> fl (of_int n) = of_int n"
  using fl_exact [of n 0] by (simp add: pow2_def)

lemma fl_one [simp]: "fl 1 = 1"
  using fl_of_int [of 1] by simp

lemma fl_le_one: "x \<le> 1 \<Longrightarrow> fl x \<le> 1"
  using fl_mono [of x 1] by simp

section \<open>Floats as text\<close>

definition pow10 :: "int \<Rightarrow> rat" where
  "pow10 e = (if 0 \<le> e then of_int (10 ^ nat e) else 1 / of_int (10 ^ nat (- e)))"

definition pad_zeros :: "int \<Rightarrow> string \<Rightarrow> string" where
  "pad_zeros n s = replicate (nat n - length s) (CHR ''0'') @ s"

text \<open>\<^verbatim>\<open>f"{x:.nf}"\<close>: the exact value rounded to \<open>n\<close> decimals, ties to even.\<close>

definition fmt_fixed :: "int \<Rightarrow> pyfloat \<Rightarrow> string" where
  "fmt_fixed n x =
     (let k = round_half_even (\<bar>x\<bar> * pow10 n); d = 10 ^ nat n
      in (if x < 0 then ''-'' else []) @ show_pos (k div d)
         @ (if n = 0 then [] else ''.'' @ pad_zeros n (show_pos (k mod d))))"

text \<open>\<^verbatim>\<open>round(x, n)\<close>: correctly rounded to \<open>n\<close> decimals, then back to the nearest float.\<close>

definition py_round :: "pyfloat \<Rightarrow> int \<Rightarrow> pyfloat" where
  "py_round x n = fl (of_int (round_half_even (x * pow10 n)) / pow10 n)"

text \<open>
  The shortest decimal that reads back as the float: \<open>(s, e)\<close> stands for \<open>s * 10\<^sup>e\<close>. For one to
  seventeen digits, the nearest decimal with that many digits is tried first, then its neighbours.
\<close>

fun dec_len :: "int \<Rightarrow> int" where
  "dec_len n = (if n \<le> 0 then 0 else 1 + dec_len (n div 10))"

declare dec_len.simps [simp del]

definition flog10 :: "rat \<Rightarrow> int" where
  "flog10 x =
     (case quotient_of x of (p, q) \<Rightarrow>
        let k = dec_len p - dec_len q in if pow10 k \<le> x then k else k - 1)"

fun shortest_from :: "nat \<Rightarrow> int \<Rightarrow> pyfloat \<Rightarrow> int \<Rightarrow> int \<times> int" where
  "shortest_from 0 n x e = (round_half_even (x / pow10 (e - n + 1)), e - n + 1)"
| "shortest_from (Suc k) n x e =
     (let u = pow10 (e - n + 1); r = x / u in
      case find (\<lambda>s. fl (of_int s * u) = x) [round_half_even r, \<lfloor>r\<rfloor>, \<lceil>r\<rceil>] of
        Some s \<Rightarrow> (s, e - n + 1)
      | None \<Rightarrow> shortest_from k (n + 1) x e)"

definition shortest :: "pyfloat \<Rightarrow> int \<times> int" where
  "shortest x = shortest_from 16 1 x (flog10 x)"

text \<open>\<^verbatim>\<open>repr(x)\<close> and \<^verbatim>\<open>str(x)\<close>: positional between 1e-4 and 1e16, scientific outside.\<close>

definition strip_zeros :: "string \<Rightarrow> string" where
  "strip_zeros s = rev (dropWhile (\<lambda>c. c = CHR ''0'') (rev s))"

definition float_repr :: "pyfloat \<Rightarrow> string" where
  "float_repr x =
     (if x = 0 then ''0.0''
      else let (s, e) = shortest \<bar>x\<bar>; ds = show_pos s; p = int (length ds) + e;
               ds' = strip_zeros ds
           in (if x < 0 then ''-'' else []) @
              (if - 4 < p \<and> p \<le> 16 then
                 (if p \<le> 0 then ''0.'' @ replicate (nat (- p)) (CHR ''0'') @ ds'
                  else if int (length ds') \<le> p
                  then ds' @ replicate (nat p - length ds') (CHR ''0'') @ ''.0''
                  else take (nat p) ds' @ ''.'' @ drop (nat p) ds')
               else take 1 ds' @ (if length ds' = 1 then [] else ''.'' @ drop 1 ds') @
                    (if p - 1 < 0 then ''e-'' else ''e+'') @ pad_zeros 2 (show_pos \<bar>p - 1\<bar>)))"

text \<open>\<^verbatim>\<open>Decimal(str(x))\<close>: the decimal the shortest representation denotes.\<close>

definition decimal_of_float :: "pyfloat \<Rightarrow> decimal" where
  "decimal_of_float x =
     (if x = 0 then 0
      else let (s, e) = shortest \<bar>x\<bar> in (if x < 0 then - 1 else 1) * of_int s * pow10 e)"

end
