(* ===== verification/Contracts.thy ===== *)
theory Contracts
  imports PyFloat
begin

text \<open>
  The shared contracts: topic names (\<^verbatim>\<open>packages/contracts/topics.py\<close>) and the event payload
  models (\<^verbatim>\<open>packages/contracts/events/payloads.py\<close>). A payload class is a record; a class with
  a model validator also has a constructor function \<open>mk_\<dots>\<close> that raises what the validator raises.
  The deployment environment (\<^verbatim>\<open>AGENT_ENVIRONMENT\<close>) is an argument of every topic name.
\<close>

section \<open>Topic names\<close>

definition resolve_topic :: "string \<Rightarrow> string \<Rightarrow> string \<Rightarrow> string \<Rightarrow> string \<Rightarrow> string" where
  "resolve_topic environment domain entity action version =
     environment @ ''.'' @ domain @ ''.'' @ entity @ ''.'' @ action @ ''.v'' @ version"

definition topic_for :: "string \<Rightarrow> string \<Rightarrow> string \<Rightarrow> string \<Rightarrow> string" where
  "topic_for env domain entity action = resolve_topic env domain entity action ''1''"

definition processed_id_topic :: "string \<Rightarrow> string \<Rightarrow> string" where
  "processed_id_topic env consumer_name = env @ ''.system.processed-id.'' @ consumer_name @ ''.recorded.v1''"

definition TOPIC_AUDIT :: "string \<Rightarrow> string" where
  "TOPIC_AUDIT env = topic_for env ''audit'' ''envelope'' ''recorded''"

definition TOPIC_MESSAGE :: "string \<Rightarrow> string" where
  "TOPIC_MESSAGE env = topic_for env ''agent'' ''message'' ''sent''"

definition TOPIC_SAMPLE :: "string \<Rightarrow> string" where
  "TOPIC_SAMPLE env = topic_for env ''system'' ''sample'' ''published''"

definition TOPIC_AGENT_CARD :: "string \<Rightarrow> string" where
  "TOPIC_AGENT_CARD env = topic_for env ''agent'' ''agent-card'' ''published''"

definition TOPIC_TASK_RESULT :: "string \<Rightarrow> string" where
  "TOPIC_TASK_RESULT env = topic_for env ''agent'' ''task'' ''result''"

definition TOPIC_RESOLUTION_DECIDED :: "string \<Rightarrow> string" where
  "TOPIC_RESOLUTION_DECIDED env = topic_for env ''customer'' ''resolution'' ''decided''"

definition TOPIC_ISSUE_CLASSIFIED :: "string \<Rightarrow> string" where
  "TOPIC_ISSUE_CLASSIFIED env = topic_for env ''resolution'' ''customer-issue'' ''classified''"

definition TOPIC_REFUND_REVIEW_REQUESTED :: "string \<Rightarrow> string" where
  "TOPIC_REFUND_REVIEW_REQUESTED env = topic_for env ''resolution'' ''refund-review'' ''requested''"

definition TOPIC_BILLING_RESULT :: "string \<Rightarrow> string" where
  "TOPIC_BILLING_RESULT env = topic_for env ''billing'' ''refund-analysis'' ''completed''"

definition TOPIC_RISK_RESULT :: "string \<Rightarrow> string" where
  "TOPIC_RISK_RESULT env = topic_for env ''risk'' ''review'' ''completed''"

definition TOPIC_RESPONSE_DRAFTED :: "string \<Rightarrow> string" where
  "TOPIC_RESPONSE_DRAFTED env = topic_for env ''resolution'' ''customer-response'' ''drafted''"

definition TOPIC_LLM_INVOCATION_COMPLETED :: "string \<Rightarrow> string" where
  "TOPIC_LLM_INVOCATION_COMPLETED env = topic_for env ''audit'' ''llm.invocation'' ''completed''"

definition TOPIC_LLM_INVOCATION_FAILED :: "string \<Rightarrow> string" where
  "TOPIC_LLM_INVOCATION_FAILED env = topic_for env ''audit'' ''llm.invocation'' ''failed''"

definition TICKET_CREATED :: "string \<Rightarrow> string" where
  "TICKET_CREATED env = topic_for env ''support'' ''ticket'' ''created''"

definition endpoint_topic :: "string \<Rightarrow> string \<Rightarrow> string" where
  "endpoint_topic env agent_id = topic_for env ''agent'' agent_id ''task.requested''"

lemmas topic_defs = TOPIC_AUDIT_def TOPIC_MESSAGE_def TOPIC_SAMPLE_def TOPIC_AGENT_CARD_def
  TOPIC_TASK_RESULT_def TOPIC_RESOLUTION_DECIDED_def TOPIC_ISSUE_CLASSIFIED_def
  TOPIC_REFUND_REVIEW_REQUESTED_def TOPIC_BILLING_RESULT_def TOPIC_RISK_RESULT_def
  TOPIC_RESPONSE_DRAFTED_def TOPIC_LLM_INVOCATION_COMPLETED_def TOPIC_LLM_INVOCATION_FAILED_def
  TICKET_CREATED_def topic_for_def resolve_topic_def

text \<open>Distinct agents listen on distinct endpoints.\<close>

lemma endpoint_topic_inj: "endpoint_topic env a = endpoint_topic env b \<longleftrightarrow> a = b"
  by (simp add: endpoint_topic_def topic_for_def resolve_topic_def)

section \<open>Payload models\<close>

definition in_unit :: "pyfloat \<Rightarrow> bool" where
  "in_unit c \<longleftrightarrow> 0 \<le> c \<and> c \<le> 1"

record EvidenceItem =
  ev_source :: string
  ev_description :: string
  ev_value :: pyval

definition evidence :: "string \<Rightarrow> string \<Rightarrow> (string \<times> pyval) list \<Rightarrow> EvidenceItem" where
  "evidence src descr val = \<lparr>ev_source = src, ev_description = descr, ev_value = VDict val\<rparr>"

lemma evidence_sel [simp]:
  "ev_source (evidence s d v) = s" "ev_description (evidence s d v) = d"
  "ev_value (evidence s d v) = VDict v"
  by (simp_all add: evidence_def)

text \<open>\<^verbatim>\<open>model_dump()\<close> of an evidence item.\<close>

definition dump_evidence :: "EvidenceItem \<Rightarrow> pyval" where
  "dump_evidence e =
     VDict [(''source'', VStr (ev_source e)), (''description'', VStr (ev_description e)),
            (''value'', ev_value e)]"

record SupportTicketCreatedPayload =
  tk_ticket_id :: string
  tk_customer_id :: string
  tk_amount :: pyfloat
  tk_currency :: string
  tk_reason :: string
  tk_created_at :: instant

datatype ResolutionOutcome =
    APPROVE_REFUND | DENY_REFUND | ESCALATE_HUMAN | DIRECT_RESPONSE
  | OFFER_PARTIAL_CREDIT | REQUEST_MORE_INFORMATION

fun outcome_value :: "ResolutionOutcome \<Rightarrow> string" where
  "outcome_value APPROVE_REFUND = ''approve_refund''"
| "outcome_value DENY_REFUND = ''deny_refund''"
| "outcome_value ESCALATE_HUMAN = ''escalate_human''"
| "outcome_value DIRECT_RESPONSE = ''direct_response''"
| "outcome_value OFFER_PARTIAL_CREDIT = ''offer_partial_credit''"
| "outcome_value REQUEST_MORE_INFORMATION = ''request_more_information''"

record CustomerResponseDecisionPayload =
  dp_case_id :: uuid
  dp_ticket_id :: string
  dp_customer_id :: string
  dp_outcome :: ResolutionOutcome
  dp_customer_response :: string
  dp_escalation_reason :: "string option"
  dp_billing_summary :: "string option"
  dp_risk_summary :: "string option"
  dp_rationale :: string

text \<open>\<open>validate_escalation_reason\<close>: an escalation carries a non-empty reason.\<close>

definition validate_escalation_reason ::
  "CustomerResponseDecisionPayload \<Rightarrow> exc + CustomerResponseDecisionPayload" where
  "validate_escalation_reason p =
     (if dp_outcome p = ESCALATE_HUMAN \<and>
         (case dp_escalation_reason p of None \<Rightarrow> True | Some r \<Rightarrow> r = [])
      then Inl (ValueError ''escalation_reason is required when outcome is escalate_human'')
      else Inr p)"

record CustomerIssueClassifiedPayload =
  ic_case_id :: uuid
  ic_ticket_id :: string
  ic_customer_id :: string
  ic_issue_type :: string
  ic_confidence :: pyfloat
  ic_requires_billing_review :: bool
  ic_requires_risk_review :: bool
  ic_requires_human_review :: bool
  ic_reasoning_summary :: string

record RefundReviewRequestedPayload =
  rr_case_id :: uuid
  rr_ticket_id :: string
  rr_customer_id :: string
  rr_requested_reviews :: "string list"
  rr_billing_task_id :: uuid
  rr_risk_task_id :: uuid
  rr_timeout_seconds :: "int option"
  rr_requested_by_agent_id :: string
  rr_requested_at :: instant

definition validate_reviews ::
  "RefundReviewRequestedPayload \<Rightarrow> exc + RefundReviewRequestedPayload" where
  "validate_reviews p =
     (if rr_requested_reviews p = []
      then Inl (ValueError ''requested_reviews must be non-empty'')
      else if length (rr_requested_reviews p) \<noteq> card (set (rr_requested_reviews p))
      then Inl (ValueError ''requested_reviews must not contain duplicates'')
      else Inr p)"

record CustomerResponseDraftedPayload =
  dr_case_id :: uuid
  dr_ticket_id :: string
  dr_customer_id :: string
  dr_decision_event_id :: uuid
  dr_outcome :: ResolutionOutcome
  dr_draft_response :: string
  dr_requires_human_approval :: bool
  dr_drafted_by_agent_id :: string
  dr_drafted_at :: instant

definition validate_draft_payload ::
  "CustomerResponseDraftedPayload \<Rightarrow> exc + CustomerResponseDraftedPayload" where
  "validate_draft_payload p =
     (if py_strip (dr_draft_response p) = []
      then Inl (ValueError ''draft_response must be non-empty'')
      else if dr_outcome p = ESCALATE_HUMAN \<and> \<not> dr_requires_human_approval p
      then Inl (ValueError ''requires_human_approval must be True when outcome is escalate_human'')
      else Inr p)"

record BillingRefundAnalysisCompletedPayload =
  bp_ticket_id :: string
  bp_recommendation :: string
  bp_confidence :: pyfloat
  bp_evidence :: "EvidenceItem list"
  bp_reasoning_summary :: string
  bp_requires_human_review :: bool
  bp_case_id :: uuid
  bp_customer_id :: string
  bp_billing_account_id :: "string option"
  bp_subscription_status :: string
  bp_invoice_status :: string
  bp_payment_status :: string
  bp_entitlement_status :: string
  bp_usage_level :: string
  bp_refund_window_status :: string
  bp_eligible_refund_amount :: decimal
  bp_enriched_reasoning_summary :: "string option"
  bp_evidence_explanation :: "string option"

record RiskReviewCompletedPayload =
  rp_ticket_id :: string
  rp_recommendation :: string
  rp_confidence :: pyfloat
  rp_evidence :: "EvidenceItem list"
  rp_reasoning_summary :: string
  rp_requires_human_review :: bool
  rp_enriched_reasoning_summary :: "string option"
  rp_evidence_explanation :: "string option"

text \<open>The field constraint \<^verbatim>\<open>Field(ge=0.0, le=1.0)\<close> on the two confidence fields.\<close>

definition validate_billing_payload ::
  "BillingRefundAnalysisCompletedPayload \<Rightarrow> exc + BillingRefundAnalysisCompletedPayload" where
  "validate_billing_payload p =
     (if in_unit (bp_confidence p) then Inr p else Inl (ValueError ''confidence''))"

definition validate_risk_payload ::
  "RiskReviewCompletedPayload \<Rightarrow> exc + RiskReviewCompletedPayload" where
  "validate_risk_payload p =
     (if in_unit (rp_confidence p) then Inr p else Inl (ValueError ''confidence''))"

section \<open>Agent-to-agent messages and tasks\<close>

datatype part_type = TextPart | DataPart | FilePart

record A2APart =
  pt_type :: part_type
  pt_text :: "string option"
  pt_data :: "(string, pyval) dict option"
  pt_file_uri :: "string option"

definition validate_conditional_fields :: "A2APart \<Rightarrow> exc + A2APart" where
  "validate_conditional_fields p =
     (if pt_type p = TextPart \<and> pt_text p = None
      then Inl (ValueError (''text is required when type is '' @ quoted ''text''))
      else if pt_type p = DataPart \<and> pt_data p = None
      then Inl (ValueError (''data is required when type is '' @ quoted ''data''))
      else if pt_type p = FilePart \<and> pt_file_uri p = None
      then Inl (ValueError (''file_uri is required when type is '' @ quoted ''file''))
      else Inr p)"

datatype a2a_role = User | Agent

record A2AMessage =
  ms_role :: a2a_role
  ms_parts :: "A2APart list"
  ms_task_id :: "uuid option"

definition validate_parts_nonempty :: "A2AMessage \<Rightarrow> exc + A2AMessage" where
  "validate_parts_nonempty m =
     (if ms_parts m = [] then Inl (ValueError ''parts must be non-empty'') else Inr m)"

definition data_message :: "a2a_role \<Rightarrow> (string, pyval) dict \<Rightarrow> A2AMessage" where
  "data_message role d =
     \<lparr>ms_role = role,
      ms_parts = [\<lparr>pt_type = DataPart, pt_text = None, pt_data = Some d, pt_file_uri = None\<rparr>],
      ms_task_id = None\<rparr>"

lemma data_message_valid:
  "validate_parts_nonempty (data_message role d) = Inr (data_message role d)"
  "p \<in> set (ms_parts (data_message role d)) \<Longrightarrow> validate_conditional_fields p = Inr p"
  by (auto simp: data_message_def validate_parts_nonempty_def validate_conditional_fields_def)

datatype task_status = Completed | Failed | Rejected

fun task_status_value :: "task_status \<Rightarrow> string" where
  "task_status_value Completed = ''completed''"
| "task_status_value Failed = ''failed''"
| "task_status_value Rejected = ''rejected''"

datatype error_category = Validation | UnsupportedCapability | HandlerError | Duplicate | Internal

fun category_value :: "error_category \<Rightarrow> string" where
  "category_value Validation = ''validation''"
| "category_value UnsupportedCapability = ''unsupported_capability''"
| "category_value HandlerError = ''handler_error''"
| "category_value Duplicate = ''duplicate''"
| "category_value Internal = ''internal''"

record TaskError =
  te_category :: error_category
  te_message :: string

record TaskRequest =
  tq_task_id :: uuid
  tq_capability :: string
  tq_requester_agent_id :: string
  tq_target_agent_id :: string
  tq_input :: A2AMessage

record TaskResult =
  tr_task_id :: uuid
  tr_status :: task_status
  tr_performer_agent_id :: string
  tr_output :: "A2AMessage option"
  tr_error :: "TaskError option"

definition validate_status_fields :: "TaskResult \<Rightarrow> exc + TaskResult" where
  "validate_status_fields r =
     (case tr_status r of
        Completed \<Rightarrow>
          if tr_output r = None then Inl (ValueError (''output must be set when status is '' @ quoted ''completed''))
          else if tr_error r \<noteq> None
          then Inl (ValueError (''error must be null when status is '' @ quoted ''completed''))
          else Inr r
      | Failed \<Rightarrow>
          (case tr_error r of
             None \<Rightarrow> Inl (ValueError (''error must be set when status is '' @ quoted ''failed''))
           | Some e \<Rightarrow>
               if tr_output r \<noteq> None
               then Inl (ValueError (''output must be null when status is '' @ quoted ''failed''))
               else if te_category e \<notin> {HandlerError, Internal}
               then Inl (ValueError (''error.category must be handler_error or internal for failed, got ''
                 @ repr_str (category_value (te_category e))))
               else Inr r)
      | Rejected \<Rightarrow>
          (case tr_error r of
             None \<Rightarrow> Inl (ValueError (''error must be set when status is '' @ quoted ''rejected''))
           | Some e \<Rightarrow>
               if tr_output r \<noteq> None
               then Inl (ValueError (''output must be null when status is '' @ quoted ''rejected''))
               else if te_category e \<notin> {Validation, UnsupportedCapability, Duplicate}
               then Inl (ValueError
                 (''error.category must be validation/unsupported_capability/duplicate for rejected, got ''
                  @ repr_str (category_value (te_category e))))
               else Inr r))"

text \<open>A result that passes the validator carries an output exactly when it is completed.\<close>

lemma validated_result_shape:
  assumes "validate_status_fields r = Inr r'"
  shows "r' = r \<and> (tr_status r = Completed \<longleftrightarrow> tr_output r \<noteq> None)
    \<and> (tr_status r \<noteq> Completed \<longleftrightarrow> tr_error r \<noteq> None)"
  using assms
  by (cases "tr_status r") (auto simp: validate_status_fields_def split: option.splits if_splits)

end
