(* ===== verification/Py_Text.thy ===== *)
theory Py_Text
  imports Contracts "HOL-Library.Sublist"
begin

text \<open>
  The text of Python values: truth values, \<^verbatim>\<open>str\<close> and \<^verbatim>\<open>repr\<close> of JSON values, and UUIDs as text.

  \<^verbatim>\<open>UUID(text)\<close> is modelled on the canonical forms: hyphens, braces and the prefixes \<^verbatim>\<open>urn:\<close> and
  \<^verbatim>\<open>uuid:\<close> are dropped, and 32 hexadecimal digits must remain.
\<close>

section \<open>Values\<close>

fun truthy :: "pyval \<Rightarrow> bool" where
  "truthy VNone = False"
| "truthy (VBool b) = b"
| "truthy (VInt i) = (i \<noteq> 0)"
| "truthy (VFloat x) = (x \<noteq> 0)"
| "truthy (VStr s) = (s \<noteq> [])"
| "truthy (VList xs) = (xs \<noteq> [])"
| "truthy (VDict d) = (d \<noteq> [])"

fun py_repr :: "pyval \<Rightarrow> string" where
  "py_repr VNone = ''None''"
| "py_repr (VBool b) = show_bool b"
| "py_repr (VInt i) = show_int i"
| "py_repr (VFloat x) = float_repr x"
| "py_repr (VStr s) = repr_str s"
| "py_repr (VList vs) = ''['' @ py_join '', '' (map py_repr vs) @ '']''"
| "py_repr (VDict d) = ''{'' @ py_join '', '' (map (\<lambda>(k, v). repr_str k @ '': '' @ py_repr v) d) @ ''}''"

definition py_str :: "pyval \<Rightarrow> string" where
  "py_str v = (case v of VStr s \<Rightarrow> s | _ \<Rightarrow> py_repr v)"

section \<open>Identifiers as text\<close>

text \<open>The text of a UUID: 32 hexadecimal digits in groups of 8, 4, 4, 4 and 12.\<close>

fun hex_digits :: "nat \<Rightarrow> nat \<Rightarrow> string" where
  "hex_digits 0 n = []"
| "hex_digits (Suc k) n = hex_digits k (n div 16) @ [hex_char (n mod 16)]"

definition show_uuid :: "uuid \<Rightarrow> string" where
  "show_uuid u =
     (let h = hex_digits 32 u in
      take 8 h @ ''-'' @ take 4 (drop 8 h) @ ''-'' @ take 4 (drop 12 h) @ ''-'' @ take 4 (drop 16 h)
      @ ''-'' @ drop 20 h)"

definition hex_value :: "char \<Rightarrow> nat option" where
  "hex_value c = (let n = of_char c in
     if 48 \<le> n \<and> n \<le> 57 then Some (n - 48)
     else if 97 \<le> n \<and> n \<le> 102 then Some (n - 87)
     else if 65 \<le> n \<and> n \<le> 70 then Some (n - 55) else None)"

fun read_hex :: "nat \<Rightarrow> string \<Rightarrow> nat option" where
  "read_hex acc [] = Some acc"
| "read_hex acc (c # s) = (case hex_value c of None \<Rightarrow> None | Some d \<Rightarrow> read_hex (16 * acc + d) s)"

function remove_all :: "string \<Rightarrow> string \<Rightarrow> string" where
  "remove_all p [] = []"
| "remove_all p (c # s) =
     (if p \<noteq> [] \<and> prefix p (c # s) then remove_all p (drop (length p) (c # s)) else c # remove_all p s)"
  by pat_completeness auto

termination
  by (relation "measure (\<lambda>(p, s). length s)") auto

definition uuid_hex :: "string \<Rightarrow> string" where
  "uuid_hex text =
     (let t1 = remove_all ''uuid:'' (remove_all ''urn:'' text);
          brace = (\<lambda>c. c = CHR ''{'' \<or> c = CHR ''}'');
          t2 = rev (dropWhile brace (rev (dropWhile brace t1)))
      in filter (\<lambda>c. c \<noteq> CHR ''-'') t2)"

definition parse_uuid :: "string \<Rightarrow> uuid option" where
  "parse_uuid text = (if length (uuid_hex text) = 32 then read_hex 0 (uuid_hex text) else None)"

text \<open>The message of the \<^verbatim>\<open>ValueError\<close> for a text that is no UUID.\<close>

definition uuid_error :: "string \<Rightarrow> string" where
  "uuid_error text =
     (if length (uuid_hex text) = 32 then ''invalid literal for int() with base 16: '' @ repr_str (uuid_hex text)
      else ''badly formed hexadecimal UUID string'')"

lemma remove_all_absent: "c \<notin> set s \<Longrightarrow> remove_all (c # p) s = s"
  by (induction "c # p" s rule: remove_all.induct) auto

lemma read_hex_append: "read_hex a (s @ t) = Option.bind (read_hex a s) (\<lambda>b. read_hex b t)"
  by (induction a s rule: read_hex.induct) (auto split: option.splits)

lemma hex_value_char: "d < 16 \<Longrightarrow> hex_value (hex_char d) = Some d"
  by (auto simp: hex_value_def hex_char_def Let_def)

lemma read_hex_digits: "read_hex a (hex_digits k n) = Some (a * 16 ^ k + n mod 16 ^ k)"
proof (induction k arbitrary: n)
  case (Suc k)
  have "n mod 16 ^ Suc k = 16 * (n div 16 mod 16 ^ k) + n mod 16" by (simp add: mod_mult2_eq)
  with Suc show ?case by (simp add: read_hex_append hex_value_char algebra_simps)
qed simp

lemma hex_digits_in: "(\<And>d. d < 16 \<Longrightarrow> hex_char d \<in> S) \<Longrightarrow> set (hex_digits k n) \<subseteq> S"
  by (induction k arbitrary: n) auto

lemma set_hex_digits: "set (hex_digits k n) \<subseteq> set ''0123456789abcdef''"
proof (rule hex_digits_in)
  fix d :: nat
  assume "d < 16"
  then have "d \<in> set [0..<16]" by simp
  moreover have "\<forall>d \<in> set [0..<16]. hex_char d \<in> set ''0123456789abcdef''" by code_simp
  ultimately show "hex_char d \<in> set ''0123456789abcdef''" by (rule bspec [rotated])
qed

lemma length_hex_digits [simp]: "length (hex_digits k n) = k"
  by (induction k arbitrary: n) simp_all

lemma hex_digits_free: "c \<notin> set ''0123456789abcdef'' \<Longrightarrow> c \<notin> set (hex_digits k n)"
  using set_hex_digits by blast

lemma set_show_uuid: "set (show_uuid u) \<subseteq> insert CHR ''-'' (set (hex_digits 32 u))"
  by (auto simp: show_uuid_def Let_def dest: in_set_takeD in_set_dropD)

lemma show_uuid_digits: "filter (\<lambda>c. c \<noteq> CHR ''-'') (show_uuid u) = hex_digits 32 u"
proof -
  let ?h = "hex_digits 32 u"
  have free: "filter (\<lambda>c. c \<noteq> CHR ''-'') s = s" if "set s \<subseteq> set ?h" for s
    using that hex_digits_free [of "CHR ''-''" 32 u] by (auto simp: filter_id_conv)
  have "?h = take 8 ?h @ take 4 (drop 8 ?h) @ take 4 (drop 12 ?h) @ take 4 (drop 16 ?h) @ drop 20 ?h"
    using append_take_drop_id [of 8 ?h] append_take_drop_id [of 4 "drop 8 ?h"]
      append_take_drop_id [of 4 "drop 12 ?h"] append_take_drop_id [of 4 "drop 16 ?h"] by simp
  then show ?thesis
    by (simp add: show_uuid_def Let_def free set_take_subset set_drop_subset subset_trans [OF set_take_subset set_drop_subset])
qed

text \<open>A UUID, a number of 128 bits, printed in the canonical form is read back as the same number.\<close>

lemma parse_show_uuid: "u < 2 ^ 128 \<Longrightarrow> parse_uuid (show_uuid u) = Some u"
proof -
  assume u: "u < 2 ^ 128"
  have free: "c \<notin> set (show_uuid u)" if "c \<notin> set ''-0123456789abcdef''" for c
    using that set_show_uuid [of u] hex_digits_free [of c 32 u] by auto
  have "remove_all ''uuid:'' (remove_all ''urn:'' (show_uuid u)) = show_uuid u"
    by (simp add: remove_all_absent free)
  moreover have "dropWhile (\<lambda>c. c = CHR ''{'' \<or> c = CHR ''}'') s = s" if "set s \<subseteq> set (show_uuid u)" for s
    using that free [of "CHR ''{''"] free [of "CHR ''}''"] by (cases s) auto
  ultimately have "parse_uuid (show_uuid u) = read_hex 0 (hex_digits 32 u)"
    by (simp add: parse_uuid_def uuid_hex_def Let_def show_uuid_digits)
  with u show ?thesis by (simp add: read_hex_digits)
qed

end
