(* ===== verification/Case_Store.thy ===== *)
theory Case_Store
  imports Py_Text
begin

text \<open>
  The Customer-Resolution agent's case state: the domain models and the lifecycle table of
  \<^verbatim>\<open>apps/agents/customer_resolution/models.py\<close> and the in-memory store of \<^verbatim>\<open>state_store.py\<close>.

  A store operation runs under the store's lock and is one function on the store; the clock reading it
  stamps a case with is its argument \<open>now\<close>. A case that a handler holds is the object in the store, so
  the handlers address cases by their identifier.
\<close>

section \<open>Lifecycle\<close>

datatype CaseStatus =
    RECEIVED | CLASSIFIED | WAITING_FOR_PEER_REVIEWS | READY_FOR_DECISION | DECIDED
  | RESPONSE_DRAFTED | CLOSED | ESCALATED | FAILED

fun status_value :: "CaseStatus \<Rightarrow> string" where
  "status_value RECEIVED = ''received''"
| "status_value CLASSIFIED = ''classified''"
| "status_value WAITING_FOR_PEER_REVIEWS = ''waiting_for_peer_reviews''"
| "status_value READY_FOR_DECISION = ''ready_for_decision''"
| "status_value DECIDED = ''decided''"
| "status_value RESPONSE_DRAFTED = ''response_drafted''"
| "status_value CLOSED = ''closed''"
| "status_value ESCALATED = ''escalated''"
| "status_value FAILED = ''failed''"

fun ALLOWED_TRANSITIONS :: "CaseStatus \<Rightarrow> CaseStatus list" where
  "ALLOWED_TRANSITIONS RECEIVED = [CLASSIFIED, READY_FOR_DECISION, ESCALATED, FAILED]"
| "ALLOWED_TRANSITIONS CLASSIFIED = [WAITING_FOR_PEER_REVIEWS, DECIDED, ESCALATED, FAILED]"
| "ALLOWED_TRANSITIONS WAITING_FOR_PEER_REVIEWS = [READY_FOR_DECISION, ESCALATED, FAILED]"
| "ALLOWED_TRANSITIONS READY_FOR_DECISION = [DECIDED, ESCALATED, FAILED]"
| "ALLOWED_TRANSITIONS DECIDED = [RESPONSE_DRAFTED, ESCALATED, FAILED]"
| "ALLOWED_TRANSITIONS RESPONSE_DRAFTED = [CLOSED, ESCALATED]"
| "ALLOWED_TRANSITIONS CLOSED = []"
| "ALLOWED_TRANSITIONS ESCALATED = []"
| "ALLOWED_TRANSITIONS FAILED = []"

definition can_transition :: "CaseStatus \<Rightarrow> CaseStatus \<Rightarrow> bool" where
  "can_transition from_status to_status \<longleftrightarrow> to_status \<in> set (ALLOWED_TRANSITIONS from_status)"

definition assert_transition :: "CaseStatus \<Rightarrow> CaseStatus \<Rightarrow> exc + unit" where
  "assert_transition from_status to_status =
     (if can_transition from_status to_status then Inr ()
      else Inl (ValueError (''Illegal case transition: '' @ status_value from_status @ '' '' @ right_arrow
             @ '' '' @ status_value to_status)))"

definition is_terminal :: "CaseStatus \<Rightarrow> bool" where
  "is_terminal status \<longleftrightarrow> status \<in> {CLOSED, ESCALATED, FAILED}"

definition can_transition_to_ready :: "CaseStatus \<Rightarrow> bool" where
  "can_transition_to_ready status \<longleftrightarrow>
     status \<in> {RECEIVED, CLASSIFIED, WAITING_FOR_PEER_REVIEWS, READY_FOR_DECISION}"

section \<open>Cases and findings\<close>

record Triage =
  tg_needs_refund_review :: bool
  tg_ambiguous :: bool
  tg_matched_signals :: "string list"
  tg_rationale :: string
  tg_issue_type :: string
  tg_confidence :: pyfloat

datatype eligibility = Eligible | Partial | Ineligible | Indeterminate

fun eligibility_value :: "eligibility \<Rightarrow> string" where
  "eligibility_value Eligible = ''eligible''"
| "eligibility_value Partial = ''partial''"
| "eligibility_value Ineligible = ''ineligible''"
| "eligibility_value Indeterminate = ''indeterminate''"

record BillingFinding =
  fb_eligibility :: eligibility
  fb_requires_human_review :: bool
  fb_confidence :: "pyfloat option"
  fb_summary :: string
  fb_performer_agent_id :: string
  fb_task_id :: "uuid option"

datatype finding_level = Low | Elevated | High

fun finding_level_value :: "finding_level \<Rightarrow> string" where
  "finding_level_value Low = ''low''"
| "finding_level_value Elevated = ''elevated''"
| "finding_level_value High = ''high''"

record RiskFinding =
  fr_level :: finding_level
  fr_requires_human_review :: bool
  fr_score :: "pyfloat option"
  fr_summary :: string
  fr_performer_agent_id :: string
  fr_task_id :: "uuid option"

text \<open>The property \<open>failed\<close> of both finding classes.\<close>

definition billing_finding_failed :: "BillingFinding \<Rightarrow> bool" where
  "billing_finding_failed f = False"

definition risk_finding_failed :: "RiskFinding \<Rightarrow> bool" where
  "risk_finding_failed f = False"

datatype finding = FBilling BillingFinding | FRisk RiskFinding

record ResolutionCase =
  rc_case_id :: uuid
  rc_ticket_id :: string
  rc_customer_id :: string
  rc_correlation_id :: uuid
  rc_ticket_amount :: pyfloat
  rc_ticket_currency :: string
  rc_ticket_reason :: string
  rc_triage :: "Triage option"
  rc_billing_task_id :: "uuid option"
  rc_risk_task_id :: "uuid option"
  rc_pending_tasks :: "uuid set"
  rc_billing_result :: "BillingFinding option"
  rc_risk_result :: "RiskFinding option"
  rc_billing_slot_failed :: bool
  rc_risk_slot_failed :: bool
  rc_billing_failure_reason :: "string option"
  rc_risk_failure_reason :: "string option"
  rc_billing_result_event_id :: "uuid option"
  rc_risk_result_event_id :: "uuid option"
  rc_status :: CaseStatus
  rc_status_detail :: "string option"
  rc_decided_event_id :: "uuid option"
  rc_drafted_event_id :: "uuid option"
  rc_created_at :: instant
  rc_updated_at :: instant
  rc_deadline_at :: "instant option"
  rc_version :: int

definition is_ready_to_decide :: "ResolutionCase \<Rightarrow> bool" where
  "is_ready_to_decide c \<longleftrightarrow>
     (if rc_billing_slot_failed c \<or> rc_risk_slot_failed c then True else rc_pending_tasks c = {})"

definition needs_refund_review :: "ResolutionCase \<Rightarrow> bool" where
  "needs_refund_review c = (case rc_triage c of None \<Rightarrow> False | Some t \<Rightarrow> tg_needs_refund_review t)"

record PolicyContext =
  pc_max_auto_refund_amount :: pyfloat
  pc_partial_credit_fraction :: pyfloat

datatype review_kind = BillingReview | RiskReview

fun review_value :: "review_kind \<Rightarrow> string" where
  "review_value BillingReview = ''billing''"
| "review_value RiskReview = ''risk''"

record TimeoutStatus =
  ts_any_missing :: bool
  ts_missing_reviews :: "review_kind list"
  ts_deadline_exceeded :: bool

definition build_timeout_status :: "ResolutionCase \<Rightarrow> instant \<Rightarrow> TimeoutStatus" where
  "build_timeout_status c now =
     (let pending = (\<lambda>t. case t of None \<Rightarrow> False | Some tid \<Rightarrow> tid \<in> rc_pending_tasks c);
          missing = (if pending (rc_billing_task_id c) then [BillingReview] else [])
                    @ (if pending (rc_risk_task_id c) then [RiskReview] else []);
          exceeded = (case rc_deadline_at c of None \<Rightarrow> False | Some d \<Rightarrow> now > d)
      in \<lparr>ts_any_missing = 0 < length missing, ts_missing_reviews = missing, ts_deadline_exceeded = exceeded\<rparr>)"

record RiskAnalysisRequestInput =
  rai_case_id :: uuid
  rai_ticket_id :: string
  rai_customer_id :: string
  rai_requested_refund_amount :: pyfloat
  rai_customer_message_summary :: string

record BillingAnalysisRequestInput =
  bai_case_id :: uuid
  bai_ticket_id :: string
  bai_customer_id :: string
  bai_requested_refund_amount :: pyfloat
  bai_purchase_reference :: string
  bai_customer_message_summary :: string
  bai_policy_context :: string

definition build_risk_request_input :: "ResolutionCase \<Rightarrow> RiskAnalysisRequestInput" where
  "build_risk_request_input c =
     \<lparr>rai_case_id = rc_correlation_id c, rai_ticket_id = rc_ticket_id c, rai_customer_id = rc_customer_id c,
      rai_requested_refund_amount = rc_ticket_amount c, rai_customer_message_summary = rc_ticket_reason c\<rparr>"

definition build_billing_request_input :: "ResolutionCase \<Rightarrow> BillingAnalysisRequestInput" where
  "build_billing_request_input c =
     \<lparr>bai_case_id = rc_correlation_id c, bai_ticket_id = rc_ticket_id c, bai_customer_id = rc_customer_id c,
      bai_requested_refund_amount = rc_ticket_amount c, bai_purchase_reference = rc_ticket_id c,
      bai_customer_message_summary = rc_ticket_reason c, bai_policy_context = ''standard''\<rparr>"

section \<open>The in-memory store\<close>

definition PARKED_BUFFER_MAX :: nat where
  "PARKED_BUFFER_MAX = 200"

datatype AttachOutcome = ATTACHED | UNKNOWN_CASE | DUPLICATE

record case_store =
  st_cases :: "(uuid, ResolutionCase) dict"
  st_by_correlation :: "(uuid, uuid) dict"
  st_by_task_id :: "(uuid, uuid) dict"
  st_parked_billing :: "(uuid \<times> BillingRefundAnalysisCompletedPayload) list"
  st_parked_risk :: "(uuid \<times> RiskReviewCompletedPayload) list"

definition empty_store :: case_store where
  "empty_store = \<lparr>st_cases = [], st_by_correlation = [], st_by_task_id = [], st_parked_billing = [],
     st_parked_risk = []\<rparr>"

definition store_get :: "case_store \<Rightarrow> uuid \<Rightarrow> ResolutionCase option" where
  "store_get st cid = dict_get (st_cases st) cid"

text \<open>Assigning to fields of a case that is in the store.\<close>

definition upd_case :: "uuid \<Rightarrow> (ResolutionCase \<Rightarrow> ResolutionCase) \<Rightarrow> case_store \<Rightarrow> case_store" where
  "upd_case cid f st =
     (case store_get st cid of
        None \<Rightarrow> st
      | Some c \<Rightarrow> st\<lparr>st_cases := dict_set cid (f c) (st_cases st)\<rparr>)"

definition new_case ::
  "uuid \<Rightarrow> string \<Rightarrow> string \<Rightarrow> uuid \<Rightarrow> pyfloat \<Rightarrow> string \<Rightarrow> string \<Rightarrow> instant \<Rightarrow> ResolutionCase" where
  "new_case case_id ticket_id customer_id correlation_id amount currency reason created_at =
     \<lparr>rc_case_id = case_id, rc_ticket_id = ticket_id, rc_customer_id = customer_id,
      rc_correlation_id = correlation_id, rc_ticket_amount = amount, rc_ticket_currency = currency,
      rc_ticket_reason = reason, rc_triage = None, rc_billing_task_id = None, rc_risk_task_id = None,
      rc_pending_tasks = {}, rc_billing_result = None, rc_risk_result = None,
      rc_billing_slot_failed = False, rc_risk_slot_failed = False, rc_billing_failure_reason = None,
      rc_risk_failure_reason = None, rc_billing_result_event_id = None, rc_risk_result_event_id = None,
      rc_status = RECEIVED, rc_status_detail = None, rc_decided_event_id = None,
      rc_drafted_event_id = None, rc_created_at = created_at, rc_updated_at = created_at,
      rc_deadline_at = None, rc_version = 0\<rparr>"

definition get_or_create ::
  "uuid \<Rightarrow> string \<Rightarrow> string \<Rightarrow> uuid \<Rightarrow> pyfloat \<Rightarrow> string \<Rightarrow> string \<Rightarrow> instant \<Rightarrow> case_store \<Rightarrow>
   ResolutionCase \<times> case_store" where
  "get_or_create case_id ticket_id customer_id correlation_id amount currency reason created_at st =
     (case Option.bind (dict_get (st_by_correlation st) correlation_id) (store_get st) of
        Some c \<Rightarrow> (c, st)
      | None \<Rightarrow>
          (case store_get st case_id of
             Some c \<Rightarrow> (c, st)
           | None \<Rightarrow>
               let c = new_case case_id ticket_id customer_id correlation_id amount currency reason created_at
               in (c, st\<lparr>st_cases := dict_set case_id c (st_cases st),
                        st_by_correlation := dict_set correlation_id case_id (st_by_correlation st)\<rparr>)))"

definition get_by_correlation_id :: "case_store \<Rightarrow> uuid \<Rightarrow> ResolutionCase option" where
  "get_by_correlation_id st correlation_id =
     Option.bind (dict_get (st_by_correlation st) correlation_id) (store_get st)"

definition get_by_task_id :: "case_store \<Rightarrow> uuid \<Rightarrow> ResolutionCase option" where
  "get_by_task_id st task_id = Option.bind (dict_get (st_by_task_id st) task_id) (store_get st)"

definition save ::
  "instant \<Rightarrow> ResolutionCase \<Rightarrow> int option \<Rightarrow> case_store \<Rightarrow> exc + ResolutionCase \<times> case_store" where
  "save now c expected_version st =
     (let existing = store_get st (rc_case_id c);
          conflict = (case (existing, expected_version) of
                        (Some e, Some v) \<Rightarrow> rc_version e \<noteq> v | _ \<Rightarrow> False)
      in if conflict
         then Inl (CaseSaveConflict (''case '' @ show_uuid (rc_case_id c) @ '': expected version ''
                @ show_int (the expected_version) @ '', found '' @ show_int (rc_version (the existing))))
         else
           let c' = c\<lparr>rc_version := (case existing of Some e \<Rightarrow> rc_version e + 1 | None \<Rightarrow> 0),
                      rc_updated_at := now\<rparr>
           in Inr (c', st\<lparr>st_cases := dict_set (rc_case_id c) c' (st_cases st),
                         st_by_correlation := dict_set (rc_correlation_id c) (rc_case_id c) (st_by_correlation st)\<rparr>))"

definition transition ::
  "instant \<Rightarrow> uuid \<Rightarrow> CaseStatus \<Rightarrow> case_store \<Rightarrow> exc + ResolutionCase \<times> case_store" where
  "transition now cid to_status st =
     (case store_get st cid of
        None \<Rightarrow> Inl (KeyError (''Case not found: '' @ show_uuid cid))
      | Some c \<Rightarrow>
          (case assert_transition (rc_status c) to_status of
             Inl e \<Rightarrow> Inl e
           | Inr _ \<Rightarrow>
               let c' = c\<lparr>rc_status := to_status, rc_version := rc_version c + 1, rc_updated_at := now\<rparr>
               in Inr (c', upd_case cid (\<lambda>_. c') st)))"

definition add_pending_task :: "uuid \<Rightarrow> uuid \<Rightarrow> case_store \<Rightarrow> exc + case_store" where
  "add_pending_task cid task_id st =
     (case store_get st cid of
        None \<Rightarrow> Inl (KeyError (''Case not found: '' @ show_uuid cid))
      | Some c \<Rightarrow>
          Inr ((upd_case cid (\<lambda>c. c\<lparr>rc_pending_tasks := insert task_id (rc_pending_tasks c)\<rparr>) st)
                 \<lparr>st_by_task_id := dict_set task_id cid (st_by_task_id st)\<rparr>))"

definition set_finding :: "finding \<Rightarrow> ResolutionCase \<Rightarrow> ResolutionCase" where
  "set_finding f c =
     (case f of FBilling b \<Rightarrow> c\<lparr>rc_billing_result := Some b\<rparr> | FRisk r \<Rightarrow> c\<lparr>rc_risk_result := Some r\<rparr>)"

definition attach :: "instant \<Rightarrow> uuid \<Rightarrow> finding \<Rightarrow> ResolutionCase \<Rightarrow> ResolutionCase" where
  "attach now task_id f c =
     (let c1 = (set_finding f c)\<lparr>rc_pending_tasks := rc_pending_tasks c - {task_id}, rc_updated_at := now,
                rc_version := rc_version c + 1\<rparr>
      in if rc_pending_tasks c1 = {} \<and> can_transition_to_ready (rc_status c1)
         then c1\<lparr>rc_status := READY_FOR_DECISION\<rparr> else c1)"

definition apply_result ::
  "instant \<Rightarrow> uuid \<Rightarrow> uuid \<Rightarrow> finding \<Rightarrow> case_store \<Rightarrow> AttachOutcome \<times> case_store" where
  "apply_result now cid task_id f st =
     (case store_get st cid of
        None \<Rightarrow> (UNKNOWN_CASE, st)
      | Some c \<Rightarrow>
          if is_terminal (rc_status c) \<or> rc_status c = DECIDED then (DUPLICATE, st)
          else if task_id \<notin> rc_pending_tasks c then (DUPLICATE, st)
          else (ATTACHED, upd_case cid (attach now task_id f) st))"

definition claim_decision :: "instant \<Rightarrow> uuid \<Rightarrow> case_store \<Rightarrow> bool \<times> case_store" where
  "claim_decision now cid st =
     (case store_get st cid of
        None \<Rightarrow> (False, st)
      | Some c \<Rightarrow>
          if rc_status c = DECIDED \<or> is_terminal (rc_status c) then (False, st)
          else (True, upd_case cid
                  (\<lambda>c. c\<lparr>rc_status := DECIDED, rc_updated_at := now, rc_version := rc_version c + 1\<rparr>) st))"

definition fail_slot :: "instant \<Rightarrow> uuid \<Rightarrow> bool \<Rightarrow> string \<Rightarrow> ResolutionCase \<Rightarrow> ResolutionCase" where
  "fail_slot now task_id is_billing reason c =
     (let c1 = (if is_billing then c\<lparr>rc_billing_slot_failed := True, rc_billing_failure_reason := Some reason\<rparr>
                else c\<lparr>rc_risk_slot_failed := True, rc_risk_failure_reason := Some reason\<rparr>);
          c2 = c1\<lparr>rc_pending_tasks := rc_pending_tasks c - {task_id}, rc_updated_at := now,
                  rc_version := rc_version c + 1\<rparr>
      in if can_transition_to_ready (rc_status c2) then c2\<lparr>rc_status := READY_FOR_DECISION\<rparr> else c2)"

definition mark_slot_failed :: "instant \<Rightarrow> uuid \<Rightarrow> uuid \<Rightarrow> bool \<Rightarrow> string \<Rightarrow> case_store \<Rightarrow> case_store" where
  "mark_slot_failed now cid task_id is_billing reason st =
     (case store_get st cid of
        None \<Rightarrow> st
      | Some c \<Rightarrow>
          if is_terminal (rc_status c) then st else upd_case cid (fail_slot now task_id is_billing reason) st)"

text \<open>\<^verbatim>\<open>deque(maxlen=n).append\<close> drops from the left.\<close>

definition deque_append :: "nat \<Rightarrow> 'a \<Rightarrow> 'a list \<Rightarrow> 'a list" where
  "deque_append n x xs = (let ys = xs @ [x] in drop (length ys - n) ys)"

definition park_billing_result ::
  "uuid \<Rightarrow> BillingRefundAnalysisCompletedPayload \<Rightarrow> case_store \<Rightarrow> case_store" where
  "park_billing_result cid p st =
     st\<lparr>st_parked_billing := deque_append PARKED_BUFFER_MAX (cid, p) (st_parked_billing st)\<rparr>"

definition park_risk_result :: "uuid \<Rightarrow> RiskReviewCompletedPayload \<Rightarrow> case_store \<Rightarrow> case_store" where
  "park_risk_result cid p st =
     st\<lparr>st_parked_risk := deque_append PARKED_BUFFER_MAX (cid, p) (st_parked_risk st)\<rparr>"

definition set_deadline :: "uuid \<Rightarrow> instant \<Rightarrow> case_store \<Rightarrow> case_store" where
  "set_deadline cid deadline st = upd_case cid (\<lambda>c. c\<lparr>rc_deadline_at := Some deadline\<rparr>) st"

definition timed_out :: "instant \<Rightarrow> ResolutionCase \<Rightarrow> bool" where
  "timed_out now c \<longleftrightarrow> \<not> is_terminal (rc_status c) \<and> rc_status c \<noteq> DECIDED
     \<and> (case rc_deadline_at c of None \<Rightarrow> False | Some d \<Rightarrow> now > d) \<and> rc_pending_tasks c \<noteq> {}"

definition list_timed_out_cases :: "instant \<Rightarrow> case_store \<Rightarrow> ResolutionCase list" where
  "list_timed_out_cases now st = filter (timed_out now) (map snd (st_cases st))"

section \<open>Well-formed stores\<close>

text \<open>
  The indexes are sound: a case is stored under its own identifier, both secondary indexes point to
  stored cases, and the parking buffers are bounded.
\<close>

definition wf_store :: "case_store \<Rightarrow> bool" where
  "wf_store st \<longleftrightarrow>
     distinct (map fst (st_cases st))
     \<and> (\<forall>cid c. store_get st cid = Some c \<longrightarrow> rc_case_id c = cid)
     \<and> (\<forall>k cid. dict_get (st_by_correlation st) k = Some cid \<longrightarrow>
          (\<exists>c. store_get st cid = Some c \<and> rc_correlation_id c = k))
     \<and> (\<forall>t cid. dict_get (st_by_task_id st) t = Some cid \<longrightarrow> (\<exists>c. store_get st cid = Some c))
     \<and> length (st_parked_billing st) \<le> PARKED_BUFFER_MAX \<and> length (st_parked_risk st) \<le> PARKED_BUFFER_MAX"

lemma store_get_upd_case [simp]:
  "store_get (upd_case cid f st) k = (if k = cid then map_option f (store_get st cid) else store_get st k)"
  by (auto simp: upd_case_def store_get_def split: option.splits)

lemma upd_case_frame [simp]:
  "st_by_correlation (upd_case cid f st) = st_by_correlation st"
  "st_by_task_id (upd_case cid f st) = st_by_task_id st"
  "st_parked_billing (upd_case cid f st) = st_parked_billing st"
  "st_parked_risk (upd_case cid f st) = st_parked_risk st"
  by (simp_all add: upd_case_def split: option.splits)

lemma store_get_index_frame [simp]:
  "store_get (st\<lparr>st_by_correlation := x\<rparr>) k = store_get st k"
  "store_get (st\<lparr>st_by_task_id := y\<rparr>) k = store_get st k"
  "store_get (st\<lparr>st_parked_billing := z\<rparr>) k = store_get st k"
  "store_get (st\<lparr>st_parked_risk := v\<rparr>) k = store_get st k"
  "store_get (st\<lparr>st_cases := cs\<rparr>) k = dict_get cs k"
  by (simp_all add: store_get_def)

lemma wf_storeI:
  assumes "distinct (map fst (st_cases st))"
    and "\<And>cid c. store_get st cid = Some c \<Longrightarrow> rc_case_id c = cid"
    and "\<And>k cid. dict_get (st_by_correlation st) k = Some cid \<Longrightarrow>
      \<exists>c. store_get st cid = Some c \<and> rc_correlation_id c = k"
    and "\<And>t cid. dict_get (st_by_task_id st) t = Some cid \<Longrightarrow> \<exists>c. store_get st cid = Some c"
    and "length (st_parked_billing st) \<le> PARKED_BUFFER_MAX" "length (st_parked_risk st) \<le> PARKED_BUFFER_MAX"
  shows "wf_store st"
  unfolding wf_store_def using assms by blast

lemma wf_storeD:
  assumes "wf_store st"
  shows "distinct (map fst (st_cases st))"
    and "store_get st cid = Some c \<Longrightarrow> rc_case_id c = cid"
    and "dict_get (st_by_correlation st) k = Some cid \<Longrightarrow>
      \<exists>c. store_get st cid = Some c \<and> rc_correlation_id c = k"
    and "dict_get (st_by_task_id st) t = Some cid \<Longrightarrow> \<exists>c. store_get st cid = Some c"
    and "length (st_parked_billing st) \<le> PARKED_BUFFER_MAX" "length (st_parked_risk st) \<le> PARKED_BUFFER_MAX"
  using assms unfolding wf_store_def by blast+

lemma wf_upd_case:
  assumes wf: "wf_store st"
    and f: "\<And>c. store_get st cid = Some c \<Longrightarrow> rc_case_id (f c) = rc_case_id c \<and> rc_correlation_id (f c) = rc_correlation_id c"
  shows "wf_store (upd_case cid f st)"
proof (rule wf_storeI)
  show "distinct (map fst (st_cases (upd_case cid f st)))"
    using wf_storeD(1) [OF wf] by (simp add: upd_case_def split: option.splits)
  show "rc_case_id c = k" if "store_get (upd_case cid f st) k = Some c" for k c
    using that f wf_storeD(2) [OF wf] by (auto split: if_splits)
  show "\<exists>c. store_get (upd_case cid f st) k' = Some c \<and> rc_correlation_id c = k"
    if "dict_get (st_by_correlation (upd_case cid f st)) k = Some k'" for k k'
    using that f wf_storeD(3) [OF wf, of k k'] by auto
  show "\<exists>c. store_get (upd_case cid f st) k' = Some c"
    if "dict_get (st_by_task_id (upd_case cid f st)) t = Some k'" for t k'
    using that wf_storeD(4) [OF wf, of t k'] by auto
qed (use wf_storeD(5,6) [OF wf] in simp_all)

lemma wf_empty: "wf_store empty_store"
  by (rule wf_storeI) (simp_all add: empty_store_def store_get_def)

lemma deque_append_bound: "length (deque_append n x xs) \<le> n"
  by (simp add: deque_append_def)

section \<open>Exclusive claims\<close>

text \<open>
  The contract the handlers rely on when several loops may decide the same case: a claim succeeds
  only on an unsettled key and settles it, and no step unsettles a key. Whatever the interleaving, a
  key is then claimed at most once.
\<close>

fun labelled_run :: "('s \<Rightarrow> 'l \<Rightarrow> 's \<Rightarrow> bool) \<Rightarrow> 's \<Rightarrow> 'l list \<Rightarrow> 's \<Rightarrow> bool" where
  "labelled_run step s [] s' \<longleftrightarrow> s = s'"
| "labelled_run step s (l # ls) s' \<longleftrightarrow> (\<exists>m. step s l m \<and> labelled_run step m ls s')"

locale exclusive_claim =
  fixes step :: "'s \<Rightarrow> 'k option \<Rightarrow> 's \<Rightarrow> bool"
    and settled :: "'s \<Rightarrow> 'k \<Rightarrow> bool"
  assumes claim_unsettled: "step s (Some k) s' \<Longrightarrow> \<not> settled s k"
    and claim_settles: "step s (Some k) s' \<Longrightarrow> settled s' k"
    and settled_stable: "step s l s' \<Longrightarrow> settled s k \<Longrightarrow> settled s' k"
begin

lemma no_claim_when_settled:
  "labelled_run step s ls s' \<Longrightarrow> settled s k \<Longrightarrow> count_list ls (Some k) = 0"
proof (induction ls arbitrary: s)
  case (Cons l ls)
  then obtain m where m: "step s l m" "labelled_run step m ls s'" by auto
  with Cons.prems(2) have "l \<noteq> Some k" using claim_unsettled by auto
  with Cons.IH [OF m(2)] settled_stable [OF m(1) Cons.prems(2)] show ?case by simp
qed simp

lemma claimed_at_most_once: "labelled_run step s ls s' \<Longrightarrow> count_list ls (Some k) \<le> 1"
proof (induction ls arbitrary: s)
  case (Cons l ls)
  then obtain m where m: "step s l m" "labelled_run step m ls s'" by auto
  show ?case
  proof (cases "l = Some k")
    case True
    with m have "settled m k" using claim_settles by auto
    with no_claim_when_settled [OF m(2)] True show ?thesis by simp
  next
    case False
    with Cons.IH [OF m(2)] show ?thesis by simp
  qed
qed simp

end

section \<open>Steps of the store\<close>

text \<open>
  What can happen to the store between two moments: any store operation, and the field assignments
  of the handlers on a case they hold, which keep identity and correlation and never take a decided
  or terminal case back. The label names a case whose decision was claimed. The lifecycle step
  \<^verbatim>\<open>transition\<close> to \<^verbatim>\<open>response_drafted\<close> is left out: no handler performs it.
\<close>

definition settled_status :: "CaseStatus \<Rightarrow> bool" where
  "settled_status s \<longleftrightarrow> s = DECIDED \<or> is_terminal s"

definition settled_case :: "case_store \<Rightarrow> uuid \<Rightarrow> bool" where
  "settled_case st cid = (case store_get st cid of None \<Rightarrow> False | Some c \<Rightarrow> settled_status (rc_status c))"

inductive store_step :: "case_store \<Rightarrow> uuid option \<Rightarrow> case_store \<Rightarrow> bool" where
  step_create: "store_step st None (snd (get_or_create cid tk cu corr amt cur rsn ct st))"
| step_save: "save now c v st = Inr (c', st') \<Longrightarrow>
    (\<And>e. store_get st (rc_case_id c) = Some e \<Longrightarrow>
       rc_correlation_id c = rc_correlation_id e \<and> (settled_status (rc_status e) \<longrightarrow> settled_status (rc_status c))) \<Longrightarrow>
    store_step st None st'"
| step_transition: "transition now cid s st = Inr (c, st') \<Longrightarrow> s \<noteq> RESPONSE_DRAFTED \<Longrightarrow> store_step st None st'"
| step_add_pending: "add_pending_task cid t st = Inr st' \<Longrightarrow> store_step st None st'"
| step_apply: "store_step st None (snd (apply_result now cid t f st))"
| step_claim: "claim_decision now cid st = (True, st') \<Longrightarrow> store_step st (Some cid) st'"
| step_claim_refused: "claim_decision now cid st = (False, st') \<Longrightarrow> store_step st None st'"
| step_fail: "store_step st None (mark_slot_failed now cid t b r st)"
| step_park_billing: "store_step st None (park_billing_result corr p st)"
| step_park_risk: "store_step st None (park_risk_result corr q st)"
| step_deadline: "store_step st None (set_deadline cid d st)"
| step_assign:
    "(\<And>c. store_get st cid = Some c \<Longrightarrow> rc_case_id (f c) = rc_case_id c
       \<and> rc_correlation_id (f c) = rc_correlation_id c
       \<and> (settled_status (rc_status c) \<longrightarrow> settled_status (rc_status (f c)))) \<Longrightarrow>
     store_step st None (upd_case cid f st)"

inductive_cases claim_stepE: "store_step st (Some cid) st'"

lemma settled_upd_case:
  assumes "settled_case st k"
    and "\<And>c. store_get st cid = Some c \<Longrightarrow> settled_status (rc_status c) \<Longrightarrow> settled_status (rc_status (f c))"
  shows "settled_case (upd_case cid f st) k"
  using assms by (auto simp: settled_case_def split: option.splits)

lemma attach_status:
  "rc_status (attach now t f c) = (if rc_pending_tasks c - {t} = {} \<and> can_transition_to_ready (rc_status c)
     then READY_FOR_DECISION else rc_status c)"
  by (auto simp: attach_def set_finding_def Let_def split: finding.splits)

lemma attach_fields [simp]:
  "rc_case_id (attach now t f c) = rc_case_id c" "rc_correlation_id (attach now t f c) = rc_correlation_id c"
  "rc_pending_tasks (attach now t f c) = rc_pending_tasks c - {t}" "rc_version (attach now t f c) = rc_version c + 1"
  by (simp_all add: attach_def set_finding_def Let_def split: finding.splits)

lemma fail_slot_fields [simp]:
  "rc_case_id (fail_slot now t b r c) = rc_case_id c" "rc_correlation_id (fail_slot now t b r c) = rc_correlation_id c"
  "rc_status (fail_slot now t b r c) = (if can_transition_to_ready (rc_status c) then READY_FOR_DECISION else rc_status c)"
  by (simp_all add: fail_slot_def Let_def)

lemma settled_not_ready: "settled_status s \<Longrightarrow> \<not> can_transition_to_ready s"
  by (auto simp: settled_status_def is_terminal_def can_transition_to_ready_def)

lemma transition_settled:
  "can_transition s s' \<Longrightarrow> s' \<noteq> RESPONSE_DRAFTED \<Longrightarrow> settled_status s \<Longrightarrow> settled_status s'"
  by (cases s) (auto simp: can_transition_def settled_status_def is_terminal_def)

text \<open>A stored case survives every operation, under its identifier.\<close>

lemma save_ok:
  assumes "save now c v st = Inr (c', st')"
  shows "st' = st\<lparr>st_cases := dict_set (rc_case_id c) c' (st_cases st),
      st_by_correlation := dict_set (rc_correlation_id c) (rc_case_id c) (st_by_correlation st)\<rparr>"
    and "rc_case_id c' = rc_case_id c" "rc_correlation_id c' = rc_correlation_id c" "rc_status c' = rc_status c"
    and "rc_version c' = (case store_get st (rc_case_id c) of Some e \<Rightarrow> rc_version e + 1 | None \<Rightarrow> 0)"
  using assms by (auto simp: save_def Let_def split: if_splits)

lemma transition_ok:
  assumes "transition now cid s st = Inr (c', st')"
  obtains c where "store_get st cid = Some c" "can_transition (rc_status c) s"
    "c' = c\<lparr>rc_status := s, rc_version := rc_version c + 1, rc_updated_at := now\<rparr>"
    "st' = upd_case cid (\<lambda>_. c') st"
  using assms
  by (auto simp: transition_def assert_transition_def Let_def split: option.splits if_splits)

lemma add_pending_ok:
  assumes "add_pending_task cid t st = Inr st'"
  obtains c where "store_get st cid = Some c"
    "st' = (upd_case cid (\<lambda>c. c\<lparr>rc_pending_tasks := insert t (rc_pending_tasks c)\<rparr>) st)
        \<lparr>st_by_task_id := dict_set t cid (st_by_task_id st)\<rparr>"
  using assms by (auto simp: add_pending_task_def split: option.splits)

lemma claim_ok:
  assumes "claim_decision now cid st = (True, st')"
  obtains c where "store_get st cid = Some c" "\<not> settled_status (rc_status c)"
    "st' = upd_case cid (\<lambda>c. c\<lparr>rc_status := DECIDED, rc_updated_at := now, rc_version := rc_version c + 1\<rparr>) st"
  using assms by (auto simp: claim_decision_def settled_status_def split: option.splits if_splits)

lemma claim_refused: "claim_decision now cid st = (False, st') \<Longrightarrow> st' = st"
  by (auto simp: claim_decision_def split: option.splits if_splits)

lemma store_step_settled:
  assumes "store_step st l st'" "settled_case st k" shows "settled_case st' k"
  using assms
proof (induction rule: store_step.induct)
  case (step_create st cid tk cu corr amt cur rsn ct)
  then show ?case by (auto simp: get_or_create_def settled_case_def store_get_def Let_def split: option.splits)
next
  case (step_save now c v st c' st')
  then show ?case using save_ok [OF step_save(1)]
    by (auto simp: settled_case_def store_get_def split: option.splits)
next
  case (step_transition now cid s st c st')
  from step_transition(1) show ?case
    by (rule transition_ok)
      (use step_transition transition_settled in \<open>auto intro!: settled_upd_case\<close>)
next
  case (step_add_pending cid t st st')
  from step_add_pending(1) show ?case
    by (rule add_pending_ok) (use step_add_pending(2) in \<open>auto simp: settled_case_def split: option.splits\<close>)
next
  case (step_apply st now cid t f)
  then show ?case
    by (auto simp: apply_result_def attach_status settled_not_ready intro!: settled_upd_case split: option.splits)
next
  case (step_claim now cid st st')
  from step_claim(1) show ?case
    by (rule claim_ok) (use step_claim(2) in \<open>auto simp: settled_status_def intro!: settled_upd_case\<close>)
next
  case (step_claim_refused now cid st st')
  then show ?case using claim_refused by auto
next
  case (step_fail st now cid t b r)
  then show ?case
    by (auto simp: mark_slot_failed_def settled_not_ready intro!: settled_upd_case split: option.splits)
next
  case (step_park_billing st corr p)
  then show ?case by (simp add: park_billing_result_def settled_case_def)
next
  case (step_park_risk st corr q)
  then show ?case by (simp add: park_risk_result_def settled_case_def)
next
  case (step_deadline st cid d)
  then show ?case by (auto simp: set_deadline_def intro!: settled_upd_case)
next
  case (step_assign st cid f)
  then show ?case by (auto intro!: settled_upd_case)
qed

interpretation store_claims: exclusive_claim store_step settled_case
proof
  fix st st' :: case_store and cid :: uuid
  assume "store_step st (Some cid) st'"
  then show "\<not> settled_case st cid"
    by (rule claim_stepE) (auto elim!: claim_ok simp: settled_case_def)
next
  fix st st' :: case_store and cid :: uuid
  assume "store_step st (Some cid) st'"
  then show "settled_case st' cid"
    by (rule claim_stepE) (auto elim!: claim_ok simp: settled_case_def settled_status_def)
next
  fix st st' :: case_store and l k
  assume "store_step st l st'" "settled_case st k"
  then show "settled_case st' k" by (rule store_step_settled)
qed

section \<open>Invariants of the store\<close>

text \<open>Inserting a case under its own identifier and indexing its correlation.\<close>

lemma wf_insert_case:
  assumes wf: "wf_store st" and c: "rc_case_id c = cid" "rc_correlation_id c = corr"
    and e: "\<And>e. store_get st cid = Some e \<Longrightarrow> rc_correlation_id e = corr"
  shows "wf_store (st\<lparr>st_cases := dict_set cid c (st_cases st),
    st_by_correlation := dict_set corr cid (st_by_correlation st)\<rparr>)" (is "wf_store ?st")
proof -
  have g: "store_get ?st k = (if k = cid then Some c else store_get st k)" for k
    by (simp add: store_get_def)
  show ?thesis
  proof (rule wf_storeI)
    show "distinct (map fst (st_cases ?st))" using wf_storeD(1) [OF wf] by simp
    show "rc_case_id c' = k" if "store_get ?st k = Some c'" for k c'
      using that c(1) wf_storeD(2) [OF wf] unfolding g by (auto split: if_splits)
    show "\<exists>c'. store_get ?st k' = Some c' \<and> rc_correlation_id c' = k"
      if "dict_get (st_by_correlation ?st) k = Some k'" for k k'
      using that c(2) e wf_storeD(3) [OF wf, of k k'] unfolding g by (auto split: if_splits)
    show "\<exists>c'. store_get ?st k' = Some c'" if "dict_get (st_by_task_id ?st) t = Some k'" for t k'
      using that wf_storeD(4) [OF wf, of t k'] unfolding g by auto
  qed (use wf_storeD(5,6) [OF wf] in simp_all)
qed

lemma wf_index_task:
  assumes wf: "wf_store st" and "store_get st cid \<noteq> None"
  shows "wf_store (st\<lparr>st_by_task_id := dict_set t cid (st_by_task_id st)\<rparr>)"
  by (rule wf_storeI) (use wf_storeD [OF wf] assms(2) in \<open>auto split: if_splits\<close>)

lemma wf_park:
  assumes wf: "wf_store st"
  shows "wf_store (park_billing_result corr p st)" "wf_store (park_risk_result corr q st)"
proof -
  show "wf_store (park_billing_result corr p st)"
    by (rule wf_storeI) (use wf_storeD [OF wf] deque_append_bound in
      \<open>simp_all add: park_billing_result_def store_get_def\<close>)
  show "wf_store (park_risk_result corr q st)"
    by (rule wf_storeI) (use wf_storeD [OF wf] deque_append_bound in
      \<open>simp_all add: park_risk_result_def store_get_def\<close>)
qed

lemma store_step_wf:
  assumes "store_step st l st'" "wf_store st" shows "wf_store st'"
  using assms
proof (induction rule: store_step.induct)
  case (step_create st cid tk cu corr amt cur rsn ct)
  have "wf_store (st\<lparr>st_cases := dict_set cid (new_case cid tk cu corr amt cur rsn ct) (st_cases st),
    st_by_correlation := dict_set corr cid (st_by_correlation st)\<rparr>)" if "store_get st cid = None"
    by (rule wf_insert_case [OF step_create]) (simp_all add: new_case_def that)
  with step_create show ?case by (simp add: get_or_create_def Let_def split: option.split)
next
  case (step_save now c v st c' st')
  note ok = save_ok [OF step_save(1)]
  show ?case unfolding ok(1)
    by (rule wf_insert_case [OF step_save(3)]) (use ok(2,3) step_save(2) in auto)
next
  case (step_transition now cid s st c st')
  from step_transition(1) show ?case
    by (rule transition_ok) (use step_transition(3) in \<open>auto intro!: wf_upd_case\<close>)
next
  case (step_add_pending cid t st st')
  from step_add_pending(1) show ?case
  proof (rule add_pending_ok)
    fix c assume c: "store_get st cid = Some c" and st': "st' =
      (upd_case cid (\<lambda>c. c\<lparr>rc_pending_tasks := insert t (rc_pending_tasks c)\<rparr>) st)
        \<lparr>st_by_task_id := dict_set t cid (st_by_task_id st)\<rparr>"
    let ?u = "upd_case cid (\<lambda>c. c\<lparr>rc_pending_tasks := insert t (rc_pending_tasks c)\<rparr>) st"
    have "wf_store ?u" using step_add_pending(2) by (rule wf_upd_case) simp
    then have "wf_store (?u\<lparr>st_by_task_id := dict_set t cid (st_by_task_id ?u)\<rparr>)"
      by (rule wf_index_task) (simp add: c)
    then show ?thesis by (simp add: st')
  qed
next
  case (step_apply st now cid t f)
  have "wf_store (upd_case cid (attach now t f) st)" using step_apply by (rule wf_upd_case) simp
  with step_apply show ?case by (simp add: apply_result_def split: option.split)
next
  case (step_claim now cid st st')
  from step_claim(1) show ?case by (rule claim_ok) (use step_claim(2) in \<open>auto intro!: wf_upd_case\<close>)
next
  case (step_claim_refused now cid st st')
  then show ?case using claim_refused by auto
next
  case (step_fail st now cid t b r)
  have "wf_store (upd_case cid (fail_slot now t b r) st)" using step_fail by (rule wf_upd_case) simp
  with step_fail show ?case by (simp add: mark_slot_failed_def split: option.split)
next
  case (step_deadline st cid d)
  then show ?case by (auto simp: set_deadline_def intro!: wf_upd_case)
next
  case (step_assign st cid f)
  then show ?case by (auto intro!: wf_upd_case)
qed (simp_all add: wf_park)

lemma labelled_run_invariant:
  assumes "\<And>s l s'. step s l s' \<Longrightarrow> I s \<Longrightarrow> I s'"
  shows "labelled_run step s ls s' \<Longrightarrow> I s \<Longrightarrow> I s'"
  by (induction ls arbitrary: s) (auto dest: assms)

text \<open>The store stays well formed along any interleaving of store operations and handler
  assignments that starts from the empty store: cases sit under their identifiers, the correlation
  and task indexes never dangle, the parking buffers hold at most 200 entries.\<close>

theorem store_wf_invariant:
  assumes "labelled_run store_step empty_store ls st"
  shows "wf_store st"
  using labelled_run_invariant [of store_step wf_store] store_step_wf assms wf_empty by metis

text \<open>A run that creates a case, registers a task and claims the decision twice.\<close>

definition sample_store :: case_store where
  "sample_store = snd (get_or_create 1 ''T-1'' ''CUS-1'' 1 10 ''USD'' ''refund'' 0 empty_store)"

definition sample_claimed :: case_store where
  "sample_claimed = snd (claim_decision 5 1 sample_store)"

lemma sample_run: "labelled_run store_step empty_store [None, Some 1, None] sample_claimed"
proof -
  have "store_step empty_store None sample_store" unfolding sample_store_def by (rule step_create)
  moreover have "store_step sample_store (Some 1) sample_claimed"
    by (rule step_claim [of 5])
      (simp add: sample_claimed_def claim_decision_def sample_store_def get_or_create_def new_case_def
        empty_store_def store_get_def is_terminal_def Let_def)
  moreover have "store_step sample_claimed None sample_claimed"
    by (rule step_claim_refused [of 6])
      (simp add: sample_claimed_def claim_decision_def sample_store_def get_or_create_def new_case_def
        empty_store_def store_get_def is_terminal_def Let_def upd_case_def)
  ultimately show ?thesis by auto
qed

theorem store_wf_invariant_witness: "wf_store sample_claimed"
  by (rule store_wf_invariant [OF sample_run])

text \<open>Along a run of these steps the decision of a case is claimed at most once.\<close>

lemma decision_claimed_once: "labelled_run store_step st ls st' \<Longrightarrow> count_list ls (Some cid) \<le> 1"
  by (rule store_claims.claimed_at_most_once)

text \<open>The claim depends on the status \<^verbatim>\<open>response_drafted\<close> never being entered. The lifecycle
  table lets a decided case move there, and from there the claim succeeds a second time, although it
  promises to succeed for exactly one caller.\<close>

theorem claim_succeeds_again_after_draft:
  assumes "claim_decision t1 cid st = (True, st1)"
  shows "\<exists>c st2 st3. transition t2 cid RESPONSE_DRAFTED st1 = Inr (c, st2)
    \<and> claim_decision t3 cid st2 = (True, st3)"
  using assms
  by (rule claim_ok)
    (simp add: transition_def assert_transition_def can_transition_def claim_decision_def is_terminal_def Let_def)

theorem claim_succeeds_again_after_draft_witness:
  "\<exists>c st2 st3. transition 6 1 RESPONSE_DRAFTED sample_claimed = Inr (c, st2)
    \<and> claim_decision 7 1 st2 = (True, st3)"
  by (rule claim_succeeds_again_after_draft [of 5 _ sample_store])
    (simp add: sample_claimed_def claim_decision_def sample_store_def get_or_create_def new_case_def
      empty_store_def store_get_def is_terminal_def Let_def)

section \<open>Arbitrary sequences of store operations\<close>

text \<open>
  Every operation of the store with arbitrary arguments, and arbitrary assignments to a stored case, none of them
  excluded. An operation that raises leaves the store as it is; the flag says that a claim succeeded.
\<close>

datatype store_op =
    OpCreate uuid string string uuid pyfloat string string instant
  | OpSave instant ResolutionCase "int option"
  | OpTransition instant uuid CaseStatus
  | OpAddPending uuid uuid
  | OpApply instant uuid uuid finding
  | OpClaim instant uuid
  | OpFail instant uuid uuid bool string
  | OpParkBilling uuid BillingRefundAnalysisCompletedPayload
  | OpParkRisk uuid RiskReviewCompletedPayload
  | OpDeadline uuid instant
  | OpAssign uuid "ResolutionCase \<Rightarrow> ResolutionCase"

fun perform :: "store_op \<Rightarrow> case_store \<Rightarrow> bool \<times> case_store" where
  "perform (OpCreate cid tk cu corr amt cur rsn ct) st = (False, snd (get_or_create cid tk cu corr amt cur rsn ct st))"
| "perform (OpSave now c v) st = (False, case save now c v st of Inl _ \<Rightarrow> st | Inr (_, st') \<Rightarrow> st')"
| "perform (OpTransition now cid s) st = (False, case transition now cid s st of Inl _ \<Rightarrow> st | Inr (_, st') \<Rightarrow> st')"
| "perform (OpAddPending cid t) st = (False, case add_pending_task cid t st of Inl _ \<Rightarrow> st | Inr st' \<Rightarrow> st')"
| "perform (OpApply now cid t f) st = (False, snd (apply_result now cid t f st))"
| "perform (OpClaim now cid) st = claim_decision now cid st"
| "perform (OpFail now cid t b r) st = (False, mark_slot_failed now cid t b r st)"
| "perform (OpParkBilling corr p) st = (False, park_billing_result corr p st)"
| "perform (OpParkRisk corr q) st = (False, park_risk_result corr q st)"
| "perform (OpDeadline cid d) st = (False, set_deadline cid d st)"
| "perform (OpAssign cid f) st = (False, upd_case cid f st)"

definition claims_of :: "uuid \<Rightarrow> store_op \<Rightarrow> bool" where
  "claims_of k op \<longleftrightarrow> (case op of OpClaim _ cid \<Rightarrow> cid = k | _ \<Rightarrow> False)"

fun perform_all :: "store_op list \<Rightarrow> case_store \<Rightarrow> case_store" where
  "perform_all [] st = st"
| "perform_all (op # ops) st = perform_all ops (snd (perform op st))"

fun claims_won :: "uuid \<Rightarrow> store_op list \<Rightarrow> case_store \<Rightarrow> nat" where
  "claims_won k [] st = 0"
| "claims_won k (op # ops) st =
     of_bool (claims_of k op \<and> fst (perform op st)) + claims_won k ops (snd (perform op st))"

definition reopens :: "uuid \<Rightarrow> store_op \<Rightarrow> case_store \<Rightarrow> bool" where
  "reopens k op st \<longleftrightarrow> settled_case st k \<and> \<not> settled_case (snd (perform op st)) k"

fun reopenings :: "uuid \<Rightarrow> store_op list \<Rightarrow> case_store \<Rightarrow> nat" where
  "reopenings k [] st = 0"
| "reopenings k (op # ops) st = of_bool (reopens k op st) + reopenings k ops (snd (perform op st))"

text \<open>What can take a settled case back: the lifecycle step to \<^verbatim>\<open>response_drafted\<close>, saving a copy whose
  status is still open, or assigning such a status.\<close>

definition may_reopen :: "uuid \<Rightarrow> store_op \<Rightarrow> case_store \<Rightarrow> bool" where
  "may_reopen k op st \<longleftrightarrow>
     (case op of
        OpTransition _ cid s \<Rightarrow> cid = k \<and> s = RESPONSE_DRAFTED
      | OpSave _ c _ \<Rightarrow> rc_case_id c = k \<and> \<not> settled_status (rc_status c)
      | OpAssign cid f \<Rightarrow> cid = k \<and> (\<exists>c. store_get st k = Some c \<and> \<not> settled_status (rc_status (f c)))
      | _ \<Rightarrow> False)"

lemma settled_upd_other: "cid \<noteq> k \<Longrightarrow> settled_case (upd_case cid f st) k = settled_case st k"
  by (simp add: settled_case_def)

lemma store_step_keeps: "store_step st l st' \<Longrightarrow> \<not> (settled_case st k \<and> \<not> settled_case st' k)"
  using store_step_settled by blast

lemma reopening_transition:
  assumes "transition now cid s st = Inr (c', st')" "settled_case st k" "\<not> settled_case st' k"
  shows "cid = k \<and> s = RESPONSE_DRAFTED"
  using assms(1)
proof (rule transition_ok)
  fix c assume c: "store_get st cid = Some c" "can_transition (rc_status c) s"
    "c' = c\<lparr>rc_status := s, rc_version := rc_version c + 1, rc_updated_at := now\<rparr>" "st' = upd_case cid (\<lambda>_. c') st"
  have "cid = k" using assms(2,3) c(4) settled_upd_other by metis
  with c assms(2,3) show ?thesis using transition_settled by (auto simp: settled_case_def)
qed

lemma reopening_save:
  assumes "save now c v st = Inr (c', st')" "settled_case st k" "\<not> settled_case st' k"
  shows "rc_case_id c = k \<and> \<not> settled_status (rc_status c)"
  using save_ok [OF assms(1)] assms(2,3)
  by (cases "rc_case_id c = k") (auto simp: settled_case_def store_get_def split: option.splits)

lemma reopening_assign:
  assumes "settled_case st k" "\<not> settled_case (upd_case cid f st) k"
  shows "cid = k \<and> (\<exists>c. store_get st k = Some c \<and> \<not> settled_status (rc_status (f c)))"
  using assms settled_upd_other [of cid k f st]
  by (cases "cid = k") (auto simp: settled_case_def split: option.splits)

lemma reopens_only: "reopens k op st \<Longrightarrow> may_reopen k op st"
proof (cases op)
  case (OpCreate cid tk cu corr amt cur rsn ct)
  assume "reopens k op st"
  then show ?thesis using store_step_keeps [OF step_create] by (auto simp: reopens_def OpCreate)
next
  case (OpSave now c v)
  assume "reopens k op st"
  then show ?thesis
    using reopening_save [of now c v st] by (fastforce simp: reopens_def may_reopen_def OpSave split: sum.splits)
next
  case (OpTransition now cid s)
  assume "reopens k op st"
  then show ?thesis
    using reopening_transition [of now cid s st]
    by (fastforce simp: reopens_def may_reopen_def OpTransition split: sum.splits)
next
  case (OpAddPending cid t)
  assume "reopens k op st"
  then show ?thesis using store_step_keeps [OF step_add_pending]
    by (fastforce simp: reopens_def OpAddPending split: sum.splits)
next
  case (OpClaim now cid)
  assume "reopens k op st"
  then show ?thesis using store_step_keeps [OF step_claim] store_step_keeps [OF step_claim_refused]
    by (cases "claim_decision now cid st") (metis (full_types) OpClaim perform.simps(6) reopens_def snd_conv)
next
  case (OpAssign cid f)
  assume "reopens k op st"
  then show ?thesis using reopening_assign [of st k cid f] by (simp add: reopens_def may_reopen_def OpAssign)
next
  case (OpApply now cid t f)
  assume "reopens k op st"
  then show ?thesis using store_step_keeps [OF step_apply] by (auto simp: reopens_def OpApply)
next
  case (OpFail now cid t b r)
  assume "reopens k op st"
  then show ?thesis using store_step_keeps [OF step_fail] by (auto simp: reopens_def OpFail)
next
  case (OpParkBilling corr p)
  assume "reopens k op st"
  then show ?thesis using store_step_keeps [OF step_park_billing] by (auto simp: reopens_def OpParkBilling)
next
  case (OpParkRisk corr q)
  assume "reopens k op st"
  then show ?thesis using store_step_keeps [OF step_park_risk] by (auto simp: reopens_def OpParkRisk)
next
  case (OpDeadline cid d)
  assume "reopens k op st"
  then show ?thesis using store_step_keeps [OF step_deadline] by (auto simp: reopens_def OpDeadline)
qed

lemma won_claim:
  assumes "claims_of k op" "fst (perform op st)"
  shows "\<not> settled_case st k \<and> settled_case (snd (perform op st)) k"
proof -
  from assms obtain now st' where "op = OpClaim now k" "claim_decision now k st = (True, st')"
    by (cases op) (auto simp: claims_of_def prod_eq_iff)
  then have "store_step st (Some k) st'" "snd (perform op st) = st'" by (auto intro: step_claim)
  then show ?thesis using store_claims.claim_unsettled store_claims.claim_settles by blast
qed

lemma claims_ledger:
  "claims_won k ops st + of_bool (settled_case st k) \<le> of_bool (settled_case (perform_all ops st) k) + reopenings k ops st"
proof (induction ops arbitrary: st)
  case (Cons op ops)
  have "of_bool (claims_of k op \<and> fst (perform op st)) + of_bool (settled_case st k)
      \<le> of_bool (settled_case (snd (perform op st)) k) + (of_bool (reopens k op st) :: nat)"
    using won_claim [of k op st] by (auto simp: reopens_def)
  with Cons.IH [of "snd (perform op st)"] show ?case by simp
qed simp

text \<open>C5: exclusive claims. Over any sequence of store operations with any arguments, and of any assignments to
  stored cases, the claims of a case that succeed are at most one more than the steps that take the case
  from settled back to open, and one fewer again if it is settled at the start. Only three things take it back: the
  lifecycle step to \<^verbatim>\<open>response_drafted\<close>, saving a copy with an open status, assigning an open status. So
  between two successful claims there is always such a step. A claim succeeds exactly on a stored open case.\<close>

theorem claims_bounded_by_reopenings:
  "claims_won k ops st + of_bool (settled_case st k) \<le> 1 + reopenings k ops st
    \<and> (\<forall>op st. reopens k op st \<longrightarrow> may_reopen k op st)
    \<and> (\<forall>now st. fst (perform (OpClaim now k) st) \<longleftrightarrow> store_get st k \<noteq> None \<and> \<not> settled_case st k)"
proof -
  have "of_bool (settled_case (perform_all ops st) k) \<le> (1 :: nat)" by simp
  with claims_ledger [of k ops st]
  have "claims_won k ops st + of_bool (settled_case st k) \<le> 1 + reopenings k ops st" by linarith
  moreover have "fst (perform (OpClaim now k) st) \<longleftrightarrow> store_get st k \<noteq> None \<and> \<not> settled_case st k" for now st
    by (simp add: claim_decision_def settled_case_def settled_status_def split: option.split)
  ultimately show ?thesis using reopens_only by blast
qed

text \<open>Claim, claim again, draft, claim: the second claim fails, the third succeeds.\<close>

theorem claims_bounded_by_reopenings_witness:
  "claims_won 1 [OpClaim 5 1, OpClaim 6 1, OpTransition 7 1 RESPONSE_DRAFTED, OpClaim 8 1] sample_store = 2
    \<and> reopenings 1 [OpClaim 5 1, OpClaim 6 1, OpTransition 7 1 RESPONSE_DRAFTED, OpClaim 8 1] sample_store = 1
    \<and> may_reopen 1 (OpTransition 7 1 RESPONSE_DRAFTED) sample_claimed"
proof -
  have "claims_won 1 [OpClaim 5 1, OpClaim 6 1, OpTransition 7 1 RESPONSE_DRAFTED, OpClaim 8 1] sample_store = 2"
    and one: "reopenings 1 [OpClaim 5 1, OpClaim 6 1, OpTransition 7 1 RESPONSE_DRAFTED, OpClaim 8 1] sample_store = 1"
    and "reopens 1 (OpTransition 7 1 RESPONSE_DRAFTED) sample_claimed" by code_simp+
  then show ?thesis
    using claims_bounded_by_reopenings [of 1 "[OpClaim 5 1, OpClaim 6 1, OpTransition 7 1 RESPONSE_DRAFTED, OpClaim 8 1]" sample_store]
    by blast
qed

text \<open>The sample case waiting for two tasks.\<close>

definition sample_waiting :: case_store where
  "sample_waiting = upd_case 1 (\<lambda>c. c\<lparr>rc_status := WAITING_FOR_PEER_REVIEWS, rc_pending_tasks := {7, 8}\<rparr>) sample_store"

definition sample_billing :: BillingFinding where
  "sample_billing = \<lparr>fb_eligibility = Eligible, fb_requires_human_review = False, fb_confidence = None,
     fb_summary = ''ok'', fb_performer_agent_id = ''billing'', fb_task_id = Some 7\<rparr>"

definition sample_risk :: RiskFinding where
  "sample_risk = \<lparr>fr_level = Low, fr_requires_human_review = False, fr_score = None, fr_summary = ''ok'',
     fr_performer_agent_id = ''risk'', fr_task_id = Some 8\<rparr>"

lemma sample_waiting_get:
  "\<exists>c. store_get sample_waiting 1 = Some c \<and> rc_status c = WAITING_FOR_PEER_REVIEWS \<and> rc_pending_tasks c = {7, 8}"
proof -
  have "store_get sample_store 1 \<noteq> None"
    by (simp add: sample_store_def get_or_create_def new_case_def empty_store_def store_get_def Let_def)
  then show ?thesis by (auto simp: sample_waiting_def)
qed

text \<open>Results attach once. After a result for a task has been attached, any further result for
  the same task is a duplicate and leaves the store as it is.\<close>

theorem apply_result_once:
  assumes "apply_result t1 cid task f st = (ATTACHED, st1)"
  shows "apply_result t2 cid task g st1 = (DUPLICATE, st1)"
  using assms by (auto simp: apply_result_def split: option.splits if_splits)

theorem apply_result_once_witness:
  "apply_result 6 1 7 (FBilling sample_billing) (snd (apply_result 5 1 7 (FBilling sample_billing) sample_waiting))
   = (DUPLICATE, snd (apply_result 5 1 7 (FBilling sample_billing) sample_waiting))"
  by (rule apply_result_once [of 5 _ _ "FBilling sample_billing" sample_waiting])
    (use sample_waiting_get in \<open>auto simp: apply_result_def is_terminal_def\<close>)

text \<open>The case after two results arrived, with its time stamp erased.\<close>

definition both_results ::
  "instant \<Rightarrow> instant \<Rightarrow> uuid \<Rightarrow> uuid \<times> finding \<Rightarrow> uuid \<times> finding \<Rightarrow> case_store \<Rightarrow> ResolutionCase option" where
  "both_results t1 t2 cid x y st =
     map_option (\<lambda>c. c\<lparr>rc_updated_at := 0\<rparr>)
       (store_get (snd (apply_result t2 cid (fst y) (snd y) (snd (apply_result t1 cid (fst x) (snd x) st)))) cid)"

lemma attach_attach:
  "(attach t2 tr (FRisk r) (attach t1 tb (FBilling b) c))\<lparr>rc_updated_at := 0\<rparr>
   = (attach t4 tb (FBilling b) (attach t3 tr (FRisk r) c))\<lparr>rc_updated_at := 0\<rparr>"
proof -
  have s: "rc_pending_tasks c - {tb} - {tr} = rc_pending_tasks c - {tr} - {tb}" by auto
  show ?thesis
    by (rule ResolutionCase.equality)
      (auto simp: attach_def set_finding_def Let_def s can_transition_to_ready_def)
qed

lemma apply_result_pending:
  assumes "store_get st cid = Some c" "\<not> settled_status (rc_status c)" "task \<in> rc_pending_tasks c"
  shows "apply_result t cid task f st = (ATTACHED, upd_case cid (attach t task f) st)"
  using assms by (auto simp: apply_result_def settled_status_def)

text \<open>Results commute. For two pending tasks of an undecided case, the billing and the risk
  finding can arrive in either order: up to the time stamp the case is the same, and it is ready for
  decision exactly when nothing is pending any more.\<close>

theorem results_commute:
  assumes "store_get st cid = Some c" "\<not> settled_status (rc_status c)"
    and "tb \<in> rc_pending_tasks c" "tr \<in> rc_pending_tasks c" "tb \<noteq> tr"
  shows "both_results t1 t2 cid (tb, FBilling b) (tr, FRisk r) st
       = both_results t3 t4 cid (tr, FRisk r) (tb, FBilling b) st"
proof -
  have [simp]: "\<not> settled_status (rc_status (attach t task f c))" for t task f
    using assms(2) by (auto simp: attach_status settled_status_def is_terminal_def)
  show ?thesis
    using assms attach_attach
    by (auto simp: both_results_def apply_result_pending)
qed

theorem results_commute_witness:
  "both_results 1 2 1 (7, FBilling sample_billing) (8, FRisk sample_risk) sample_waiting
   = both_results 3 4 1 (8, FRisk sample_risk) (7, FBilling sample_billing) sample_waiting"
proof -
  obtain c where "store_get sample_waiting 1 = Some c" "rc_status c = WAITING_FOR_PEER_REVIEWS"
    "rc_pending_tasks c = {7, 8}" using sample_waiting_get by auto
  then show ?thesis
    by (intro results_commute [of _ _ c]) (simp_all add: settled_status_def is_terminal_def)
qed

end
