(* ===== verification/Transport.thy ===== *)
theory Transport
  imports Contracts
begin

text \<open>
  The event foundation: envelopes and their validators (\<^verbatim>\<open>agent_foundation/envelope.py\<close>), the
  payload registry (\<^verbatim>\<open>payloads/__init__.py\<close>), topic resolution (\<^verbatim>\<open>transport/topics.py\<close>), the
  publisher (\<^verbatim>\<open>transport/publisher.py\<close>) and the audit writers (\<^verbatim>\<open>audit/store.py\<close>).

  The broker, the clock and the UUID source are outside the program: \<open>runtime_env\<close> holds the
  successive clock readings and fresh UUIDs, which sends the broker acknowledges, and pydantic's
  \<^verbatim>\<open>model_dump(mode="json")\<close>. The state \<open>net\<close> counts how many of each have been used and keeps the
  log of acknowledged sends; a component's own state is an extension of it.
\<close>

section \<open>Envelopes\<close>

definition is_lower :: "char \<Rightarrow> bool" where
  "is_lower c = (let n = (of_char c :: nat) in 97 \<le> n \<and> n \<le> 122)"

definition is_digit :: "char \<Rightarrow> bool" where
  "is_digit c = (let n = (of_char c :: nat) in 48 \<le> n \<and> n \<le> 57)"

text \<open>
  Python's \<^verbatim>\<open>$\<close> also matches before one trailing newline; \<open>chop_newline\<close> drops it before the body
  of a pattern is matched.
\<close>

definition chop_newline :: "string \<Rightarrow> string" where
  "chop_newline s = (if s \<noteq> [] \<and> last s = CHR 0x0A then butlast s else s)"

definition ident_tail :: "string \<Rightarrow> char \<Rightarrow> bool" where
  "ident_tail extra c \<longleftrightarrow> is_lower c \<or> is_digit c \<or> c \<in> set extra"

definition matches_ident :: "string \<Rightarrow> string \<Rightarrow> bool" where
  "matches_ident extra s =
     (case s of [] \<Rightarrow> False
      | c # cs \<Rightarrow> is_lower c \<and> list_all (ident_tail extra) cs \<and> 1 \<le> length cs \<and> length cs \<le> 62)"

definition AGENT_ID_RE :: "string \<Rightarrow> bool" where
  "AGENT_ID_RE s \<longleftrightarrow> matches_ident ''_.-'' (chop_newline s)"

definition TENANT_ID_RE :: "string \<Rightarrow> bool" where
  "TENANT_ID_RE s \<longleftrightarrow> matches_ident ''_-'' (chop_newline s)"

fun split_dots :: "string \<Rightarrow> string list" where
  "split_dots [] = [[]]"
| "split_dots (c # s) =
     (if c = CHR ''.'' then [] # split_dots s
      else case split_dots s of [] \<Rightarrow> [[c]] | t # ts \<Rightarrow> (c # t) # ts)"

definition type_segment :: "string \<Rightarrow> bool" where
  "type_segment s =
     (case s of [] \<Rightarrow> False | c # cs \<Rightarrow> is_lower c \<and> list_all (ident_tail ''_-'') cs)"

definition version_segment :: "string \<Rightarrow> bool" where
  "version_segment s =
     (case s of [] \<Rightarrow> False | c # cs \<Rightarrow> c = CHR ''v'' \<and> cs \<noteq> [] \<and> list_all is_digit cs)"

definition EVENT_TYPE_RE :: "string \<Rightarrow> bool" where
  "EVENT_TYPE_RE s =
     (let segs = split_dots (chop_newline s) in
      3 \<le> length segs \<and> list_all type_segment (butlast segs) \<and> version_segment (last segs))"

definition SEMVER_RE :: "string \<Rightarrow> bool" where
  "SEMVER_RE s =
     (let segs = split_dots (chop_newline s) in
      length segs = 3 \<and> list_all (\<lambda>t. t \<noteq> [] \<and> list_all is_digit t) segs)"

record AgentIdentity =
  id_agent_id :: string
  id_display_name :: string
  id_tenant_id :: string

definition validate_identity :: "AgentIdentity \<Rightarrow> exc + AgentIdentity" where
  "validate_identity i =
     (if \<not> AGENT_ID_RE (id_agent_id i) then Inl (ValueError ''agent_id'')
      else if \<not> (1 \<le> py_len (id_display_name i) \<and> py_len (id_display_name i) \<le> 80)
      then Inl (ValueError ''display_name'')
      else if \<not> TENANT_ID_RE (id_tenant_id i) then Inl (ValueError ''tenant_id'')
      else Inr i)"

record EventEnvelope =
  en_event_id :: uuid
  en_correlation_id :: uuid
  en_causation_id :: "uuid option"
  en_agent_id :: string
  en_tenant_id :: string
  en_timestamp :: instant
  en_event_type :: string
  en_schema_version :: string
  en_trace_context :: "(string, string) dict option"
  en_payload :: "(string, pyval) dict"

definition ROOT_EVENT_TYPES :: "string \<Rightarrow> string list" where
  "ROOT_EVENT_TYPES env =
     [''agent.sample.v1'', ''agent.workflow_start.v1'', ''agent.agent_card.v1'',
      ''system.agent.heartbeat.v1'', env @ ''.support.ticket.created.v1'']"

definition validate_envelope :: "string \<Rightarrow> EventEnvelope \<Rightarrow> exc + EventEnvelope" where
  "validate_envelope env e =
     (if \<not> AGENT_ID_RE (en_agent_id e) then Inl (ValueError ''agent_id'')
      else if \<not> TENANT_ID_RE (en_tenant_id e) then Inl (ValueError ''tenant_id'')
      else if \<not> EVENT_TYPE_RE (en_event_type e) then Inl (ValueError ''event_type'')
      else if \<not> SEMVER_RE (en_schema_version e) then Inl (ValueError ''schema_version'')
      else if en_causation_id e = None \<and> en_event_type e \<notin> set (ROOT_EVENT_TYPES env)
      then Inl (MissingCausation (''causation_id is required for non-root event type ''
             @ repr_str (en_event_type e)))
      else Inr e)"

lemma validate_envelope_Inr:
  "validate_envelope env e = Inr e' \<longleftrightarrow>
     e' = e \<and> AGENT_ID_RE (en_agent_id e) \<and> TENANT_ID_RE (en_tenant_id e)
     \<and> EVENT_TYPE_RE (en_event_type e) \<and> SEMVER_RE (en_schema_version e)
     \<and> (en_causation_id e \<noteq> None \<or> en_event_type e \<in> set (ROOT_EVENT_TYPES env))"
  by (auto simp: validate_envelope_def)

section \<open>Payload registry\<close>

datatype audit_outcome = Accepted | AuditRejected | DuplicateSkipped | AuditCompleted | AuditFailed

record AuditPayload =
  au_original_envelope :: EventEnvelope
  au_outcome :: audit_outcome
  au_reason :: "string option"
  au_recorded_at :: instant
  au_task_id :: "uuid option"

definition validate_reason_required :: "AuditPayload \<Rightarrow> exc + AuditPayload" where
  "validate_reason_required a =
     (if au_outcome a \<in> {AuditRejected, AuditFailed} \<and> au_reason a = None
      then Inl (ValueError ''reason is required'') else Inr a)"

record Capability =
  cap_id :: string
  cap_name :: string
  cap_description :: string
  cap_tags :: "string list"

record AgentCard =
  card_agent_id :: string
  card_name :: string
  card_description :: string
  card_version :: string
  card_endpoint_topic :: string
  card_capabilities :: "Capability list"

definition validate_capability :: "Capability \<Rightarrow> bool" where
  "validate_capability c \<longleftrightarrow>
     AGENT_ID_RE (cap_id c) \<and> 1 \<le> py_len (cap_name c) \<and> py_len (cap_name c) \<le> 80
     \<and> 1 \<le> py_len (cap_description c) \<and> py_len (cap_description c) \<le> 280"

definition validate_card :: "AgentCard \<Rightarrow> exc + AgentCard" where
  "validate_card c =
     (if \<not> list_all validate_capability (card_capabilities c) then Inl (ValueError ''Capability'')
      else if \<not> AGENT_ID_RE (card_agent_id c) then Inl (ValueError ''AgentCard.agent_id'')
      else if \<not> SEMVER_RE (card_version c) then Inl (ValueError ''AgentCard.version'')
      else if card_capabilities c = []
      then Inl (ValueError ''AgentCard.capabilities must be non-empty'')
      else if length (map cap_id (card_capabilities c)) \<noteq> card (set (map cap_id (card_capabilities c)))
      then Inl (ValueError ''AgentCard.capabilities must have unique ids'')
      else Inr c)"

text \<open>The models a payload can be an instance of, and the class each belongs to.\<close>

datatype message =
    MMessage A2AMessage
  | MAudit AuditPayload
  | MSample string
  | MTaskRequest TaskRequest
  | MTaskResult TaskResult
  | MAgentCard AgentCard
  | MTicket SupportTicketCreatedPayload
  | MDecision CustomerResponseDecisionPayload
  | MClassified CustomerIssueClassifiedPayload
  | MReviewRequested RefundReviewRequestedPayload
  | MBilling BillingRefundAnalysisCompletedPayload
  | MRisk RiskReviewCompletedPayload
  | MDrafted CustomerResponseDraftedPayload
  | MLlmCompleted "(string, pyval) dict"
  | MLlmFailed "(string, pyval) dict"

fun class_name :: "message \<Rightarrow> string" where
  "class_name (MMessage _) = ''A2AMessage''"
| "class_name (MAudit _) = ''AuditPayload''"
| "class_name (MSample _) = ''SamplePayload''"
| "class_name (MTaskRequest _) = ''TaskRequest''"
| "class_name (MTaskResult _) = ''TaskResult''"
| "class_name (MAgentCard _) = ''AgentCard''"
| "class_name (MTicket _) = ''SupportTicketCreatedPayload''"
| "class_name (MDecision _) = ''CustomerResponseDecisionPayload''"
| "class_name (MClassified _) = ''CustomerIssueClassifiedPayload''"
| "class_name (MReviewRequested _) = ''RefundReviewRequestedPayload''"
| "class_name (MBilling _) = ''BillingRefundAnalysisCompletedPayload''"
| "class_name (MRisk _) = ''RiskReviewCompletedPayload''"
| "class_name (MDrafted _) = ''CustomerResponseDraftedPayload''"
| "class_name (MLlmCompleted _) = ''LlmInvocationCompletedPayload''"
| "class_name (MLlmFailed _) = ''LlmInvocationFailedPayload''"

definition PAYLOAD_REGISTRY :: "string \<Rightarrow> (string, string) dict" where
  "PAYLOAD_REGISTRY env =
     [(''agent.message.v1'', ''A2AMessage''),
      (''agent.audit.v1'', ''AuditPayload''),
      (''agent.sample.v1'', ''SamplePayload''),
      (''agent.task_request.v1'', ''TaskRequest''),
      (''agent.task_result.v1'', ''TaskResult''),
      (''agent.agent_card.v1'', ''AgentCard''),
      (TICKET_CREATED env, ''SupportTicketCreatedPayload''),
      (TOPIC_RESOLUTION_DECIDED env, ''CustomerResponseDecisionPayload''),
      (TOPIC_ISSUE_CLASSIFIED env, ''CustomerIssueClassifiedPayload''),
      (TOPIC_REFUND_REVIEW_REQUESTED env, ''RefundReviewRequestedPayload''),
      (TOPIC_BILLING_RESULT env, ''BillingRefundAnalysisCompletedPayload''),
      (TOPIC_RISK_RESULT env, ''RiskReviewCompletedPayload''),
      (TOPIC_RESPONSE_DRAFTED env, ''CustomerResponseDraftedPayload''),
      (TOPIC_LLM_INVOCATION_COMPLETED env, ''LlmInvocationCompletedPayload''),
      (TOPIC_LLM_INVOCATION_FAILED env, ''LlmInvocationFailedPayload'')]"

definition lookup :: "string \<Rightarrow> string \<Rightarrow> exc + string" where
  "lookup env event_type =
     (case dict_get (PAYLOAD_REGISTRY env) event_type of
        None \<Rightarrow> Inl (UnknownEventType (''No payload model registered for event_type='' @ repr_str event_type))
      | Some c \<Rightarrow> Inr c)"

definition TOPIC_NAMES :: "string \<Rightarrow> (string, string) dict" where
  "TOPIC_NAMES env =
     [(''agent.message.v1'', TOPIC_MESSAGE env),
      (''agent.audit.v1'', TOPIC_AUDIT env),
      (''agent.sample.v1'', TOPIC_SAMPLE env),
      (TICKET_CREATED env, TICKET_CREATED env),
      (TOPIC_RESOLUTION_DECIDED env, TOPIC_RESOLUTION_DECIDED env),
      (TOPIC_ISSUE_CLASSIFIED env, TOPIC_ISSUE_CLASSIFIED env),
      (TOPIC_REFUND_REVIEW_REQUESTED env, TOPIC_REFUND_REVIEW_REQUESTED env),
      (TOPIC_BILLING_RESULT env, TOPIC_BILLING_RESULT env),
      (TOPIC_RISK_RESULT env, TOPIC_RISK_RESULT env),
      (TOPIC_RESPONSE_DRAFTED env, TOPIC_RESPONSE_DRAFTED env),
      (TOPIC_LLM_INVOCATION_COMPLETED env, TOPIC_LLM_INVOCATION_COMPLETED env),
      (TOPIC_LLM_INVOCATION_FAILED env, TOPIC_LLM_INVOCATION_FAILED env)]"

section \<open>Publisher\<close>

record runtime_env =
  re_environment :: string
  re_clock :: "nat \<Rightarrow> instant"
  re_uuid4 :: "nat \<Rightarrow> uuid"
  re_send_ok :: "nat \<Rightarrow> bool"
  re_trace :: "(string, string) dict option"
  re_dump :: "message \<Rightarrow> (string, pyval) dict"

text \<open>
  An acknowledged send. \<open>sn_model\<close> is the model instance whose dump is the envelope's payload; the
  key is the event id or an explicit key.
\<close>

record sent =
  sn_topic :: string
  sn_key :: "uuid + string"
  sn_envelope :: EventEnvelope
  sn_model :: message

record net =
  nt_log :: "sent list"
  nt_ticks :: nat
  nt_uuids :: nat
  nt_sends :: nat

definition now_io :: "runtime_env \<Rightarrow> ('a net_scheme, instant) io" where
  "now_io E = (\<lambda>w. (Inr (re_clock E (nt_ticks w)), w\<lparr>nt_ticks := Suc (nt_ticks w)\<rparr>))"

definition uuid4_io :: "runtime_env \<Rightarrow> ('a net_scheme, uuid) io" where
  "uuid4_io E = (\<lambda>w. (Inr (re_uuid4 E (nt_uuids w)), w\<lparr>nt_uuids := Suc (nt_uuids w)\<rparr>))"

definition send_and_wait :: "runtime_env \<Rightarrow> sent \<Rightarrow> ('a net_scheme, unit) io" where
  "send_and_wait E m =
     (\<lambda>w. let w' = w\<lparr>nt_sends := Suc (nt_sends w)\<rparr> in
          if re_send_ok E (nt_sends w) then (Inr (), w'\<lparr>nt_log := nt_log w @ [m]\<rparr>)
          else (Inl (TransportError ''send failed''), w'))"

definition lift_exc :: "exc + 'b \<Rightarrow> ('w, 'b) io" where
  "lift_exc r = (case r of Inl e \<Rightarrow> raise_io e | Inr x \<Rightarrow> return_io x)"

definition build_envelope ::
  "runtime_env \<Rightarrow> AgentIdentity \<Rightarrow> message \<Rightarrow> string \<Rightarrow> uuid \<Rightarrow> uuid option \<Rightarrow>
   ('a net_scheme, EventEnvelope) io" where
  "build_envelope E ident m event_type correlation_id causation_id =
     bind_io (lift_exc (lookup (re_environment E) event_type)) (\<lambda>model_cls.
     if class_name m \<noteq> model_cls
     then raise_io (PayloadValidationError (''Payload validation failed for event_type=''
            @ repr_str event_type @ '': expected '' @ model_cls @ '', got '' @ class_name m))
     else
       bind_io (uuid4_io E) (\<lambda>eid.
       bind_io (now_io E) (\<lambda>now.
       lift_exc (validate_envelope (re_environment E)
         \<lparr>en_event_id = eid, en_correlation_id = correlation_id, en_causation_id = causation_id,
          en_agent_id = id_agent_id ident, en_tenant_id = id_tenant_id ident, en_timestamp = now,
          en_event_type = event_type, en_schema_version = ''1.0.0'', en_trace_context = None,
          en_payload = re_dump E m\<rparr>))))"

definition publisher_resolve_topic :: "string \<Rightarrow> string \<Rightarrow> exc + string" where
  "publisher_resolve_topic env event_type =
     (case dict_get (TOPIC_NAMES env) event_type of
        None \<Rightarrow> Inl (UnknownEventType (''No payload model registered for event_type='' @ repr_str event_type))
      | Some t \<Rightarrow> Inr t)"

definition publish ::
  "runtime_env \<Rightarrow> AgentIdentity \<Rightarrow> message \<Rightarrow> string \<Rightarrow> uuid \<Rightarrow> uuid option \<Rightarrow> string option \<Rightarrow>
   ('a net_scheme, EventEnvelope) io" where
  "publish E ident m event_type correlation_id causation_id topic =
     bind_io (build_envelope E ident m event_type correlation_id causation_id) (\<lambda>env0.
     let env = env0\<lparr>en_trace_context := re_trace E\<rparr> in
     bind_io (lift_exc (case topic of
                Some t \<Rightarrow> Inr t
              | None \<Rightarrow> publisher_resolve_topic (re_environment E) event_type)) (\<lambda>resolved_topic.
     then_io (send_and_wait E
         \<lparr>sn_topic = resolved_topic, sn_key = Inl (en_event_id env), sn_envelope = env, sn_model = m\<rparr>)
       (return_io env)))"

definition publish_raw ::
  "runtime_env \<Rightarrow> EventEnvelope \<Rightarrow> message \<Rightarrow> string \<Rightarrow> string option \<Rightarrow> ('a net_scheme, unit) io" where
  "publish_raw E envelope m topic key =
     (let env = envelope\<lparr>en_trace_context := re_trace E\<rparr> in
      send_and_wait E
        \<lparr>sn_topic = topic,
         sn_key = (case key of None \<Rightarrow> Inl (en_event_id env) | Some k \<Rightarrow> Inr k),
         sn_envelope = env, sn_model = m\<rparr>)"

section \<open>Audit records\<close>

definition write_task_audit ::
  "runtime_env \<Rightarrow> AgentIdentity \<Rightarrow> EventEnvelope \<Rightarrow> audit_outcome \<Rightarrow> uuid option \<Rightarrow> string option \<Rightarrow>
   ('a net_scheme, unit) io" where
  "write_task_audit E ident envelope outcome task_id reason =
     bind_io (now_io E) (\<lambda>recorded_at.
     bind_io (lift_exc (validate_reason_required
         \<lparr>au_original_envelope = envelope, au_outcome = outcome, au_reason = reason,
          au_recorded_at = recorded_at, au_task_id = task_id\<rparr>)) (\<lambda>audit_payload.
     bind_io (uuid4_io E) (\<lambda>eid.
     bind_io (lift_exc (validate_envelope (re_environment E)
         \<lparr>en_event_id = eid, en_correlation_id = en_correlation_id envelope,
          en_causation_id = Some (en_event_id envelope), en_agent_id = id_agent_id ident,
          en_tenant_id = id_tenant_id ident, en_timestamp = recorded_at,
          en_event_type = ''agent.audit.v1'', en_schema_version = ''1.0.0'',
          en_trace_context = None, en_payload = re_dump E (MAudit audit_payload)\<rparr>)) (\<lambda>audit_envelope.
     try_io (publish_raw E audit_envelope (MAudit audit_payload) (TOPIC_AUDIT (re_environment E)) None)
       (\<lambda>_. return_io ())))))"

definition write_audit ::
  "runtime_env \<Rightarrow> AgentIdentity \<Rightarrow> EventEnvelope \<Rightarrow> audit_outcome \<Rightarrow> string option \<Rightarrow>
   ('a net_scheme, unit) io" where
  "write_audit E ident envelope outcome reason = write_task_audit E ident envelope outcome None reason"

definition query_by_task_id :: "AuditPayload list \<Rightarrow> uuid \<Rightarrow> AuditPayload list" where
  "query_by_task_id records task_id = [r \<leftarrow> records. au_task_id r = Some task_id]"

definition query_by_correlation :: "AuditPayload list \<Rightarrow> uuid \<Rightarrow> AuditPayload list" where
  "query_by_correlation records cid = [r \<leftarrow> records. en_correlation_id (au_original_envelope r) = cid]"

definition query_by_window :: "AuditPayload list \<Rightarrow> instant \<Rightarrow> instant \<Rightarrow> AuditPayload list" where
  "query_by_window records start_dt end_dt =
     [r \<leftarrow> records. start_dt \<le> au_recorded_at r \<and> au_recorded_at r \<le> end_dt]"

section \<open>What publishing does\<close>

text \<open>A registered name that is shorter than the environment-specific suffix is a different name.\<close>

lemma literal_neq_topic: "length s < length t \<Longrightarrow> s \<noteq> e @ t" "length s < length t \<Longrightarrow> e @ t \<noteq> s"
  by auto

lemma split_dots_segment: "CHR ''.'' \<notin> set s \<Longrightarrow> split_dots (s @ CHR ''.'' # t) = s # split_dots t"
  by (induction s) auto

lemma type_segment_no_dot: "type_segment s \<Longrightarrow> CHR ''.'' \<notin> set s"
  by (auto simp: type_segment_def ident_tail_def is_lower_def is_digit_def list_all_iff split: list.splits)

lemma chop_newline_id: "s \<noteq> [] \<Longrightarrow> last s \<noteq> CHR 0x0A \<Longrightarrow> chop_newline s = s"
  by (simp add: chop_newline_def)

text \<open>In an environment with a plain name, the domain topics are valid event types that resolve to themselves.\<close>

definition domain_topics :: "string \<Rightarrow> (string \<times> string) list" where
  "domain_topics env =
     [(TICKET_CREATED env, ''SupportTicketCreatedPayload''),
      (TOPIC_RESOLUTION_DECIDED env, ''CustomerResponseDecisionPayload''),
      (TOPIC_ISSUE_CLASSIFIED env, ''CustomerIssueClassifiedPayload''),
      (TOPIC_REFUND_REVIEW_REQUESTED env, ''RefundReviewRequestedPayload''),
      (TOPIC_BILLING_RESULT env, ''BillingRefundAnalysisCompletedPayload''),
      (TOPIC_RISK_RESULT env, ''RiskReviewCompletedPayload''),
      (TOPIC_RESPONSE_DRAFTED env, ''CustomerResponseDraftedPayload'')]"

lemma env_event_type:
  assumes "type_segment env" "last rest \<noteq> CHR 0x0A" "rest \<noteq> []"
    and "2 \<le> length (split_dots rest)" "list_all type_segment (butlast (split_dots rest))"
      "version_segment (last (split_dots rest))"
  shows "EVENT_TYPE_RE (env @ CHR ''.'' # rest)"
proof -
  have "chop_newline (env @ CHR ''.'' # rest) = env @ CHR ''.'' # rest"
    using assms by (intro chop_newline_id) auto
  moreover have "split_dots (env @ CHR ''.'' # rest) = env # split_dots rest"
    using assms(1) by (intro split_dots_segment type_segment_no_dot)
  moreover have "split_dots rest \<noteq> []" using assms(4) by auto
  ultimately show ?thesis using assms by (simp add: EVENT_TYPE_RE_def)
qed

lemmas segment_defs = type_segment_def version_segment_def ident_tail_def is_lower_def is_digit_def

lemma domain_topic_valid:
  assumes "type_segment env" "(t, c) \<in> set (domain_topics env)"
  shows "EVENT_TYPE_RE t"
  using assms(2) unfolding domain_topics_def
  by (auto simp: topic_defs segment_defs intro!: env_event_type [OF assms(1)])

text \<open>The registry and the topic table have no duplicate keys, whatever the environment is called.\<close>

lemma distinct_env_keys:
  assumes "distinct lits" "distinct sufs" "\<And>l s. l \<in> set lits \<Longrightarrow> s \<in> set sufs \<Longrightarrow> length l < length s"
  shows "distinct (lits @ map ((@) (env :: string)) sufs)"
proof -
  have "set lits \<inter> (@) env ` set sufs = {}" using assms(3) literal_neq_topic by fastforce
  with assms(1,2) show ?thesis by (simp add: distinct_map inj_on_def)
qed

lemma registry_distinct: "distinct (map fst (PAYLOAD_REGISTRY env))" "distinct (map fst (TOPIC_NAMES env))"
proof -
  define topics where "topics =
    [''.support.ticket.created.v1'', ''.customer.resolution.decided.v1'',
     ''.resolution.customer-issue.classified.v1'', ''.resolution.refund-review.requested.v1'',
     ''.billing.refund-analysis.completed.v1'', ''.risk.review.completed.v1'',
     ''.resolution.customer-response.drafted.v1'', ''.audit.llm.invocation.completed.v1'',
     ''.audit.llm.invocation.failed.v1'']"
  have d: "distinct topics" "\<And>s. s \<in> set topics \<Longrightarrow> 22 \<le> length s" by (auto simp: topics_def)
  have "map fst (PAYLOAD_REGISTRY env) =
    [''agent.message.v1'', ''agent.audit.v1'', ''agent.sample.v1'', ''agent.task_request.v1'',
     ''agent.task_result.v1'', ''agent.agent_card.v1''] @ map ((@) env) topics"
    by (simp add: PAYLOAD_REGISTRY_def topic_defs topics_def)
  then show "distinct (map fst (PAYLOAD_REGISTRY env))"
    using d by (simp only:) (intro distinct_env_keys; force)
  have "map fst (TOPIC_NAMES env) =
    [''agent.message.v1'', ''agent.audit.v1'', ''agent.sample.v1''] @ map ((@) env) topics"
    by (simp add: TOPIC_NAMES_def topic_defs topics_def)
  then show "distinct (map fst (TOPIC_NAMES env))"
    using d by (simp only:) (intro distinct_env_keys; force)
qed

lemma domain_topic_registered:
  assumes "(t, c) \<in> set (domain_topics env)"
  shows "lookup env t = Inr c" "publisher_resolve_topic env t = Inr t"
proof -
  have "(t, c) \<in> set (PAYLOAD_REGISTRY env)" "(t, t) \<in> set (TOPIC_NAMES env)"
    using assms unfolding domain_topics_def PAYLOAD_REGISTRY_def TOPIC_NAMES_def by force+
  then show "lookup env t = Inr c" "publisher_resolve_topic env t = Inr t"
    using registry_distinct by (simp_all add: lookup_def publisher_resolve_topic_def)
qed

definition domain_envelope ::
  "runtime_env \<Rightarrow> AgentIdentity \<Rightarrow> message \<Rightarrow> string \<Rightarrow> uuid \<Rightarrow> uuid option \<Rightarrow> 'a net_scheme \<Rightarrow> EventEnvelope" where
  "domain_envelope E ident m event_type correlation_id causation_id w =
     \<lparr>en_event_id = re_uuid4 E (nt_uuids w), en_correlation_id = correlation_id,
      en_causation_id = causation_id, en_agent_id = id_agent_id ident, en_tenant_id = id_tenant_id ident,
      en_timestamp = re_clock E (nt_ticks w), en_event_type = event_type, en_schema_version = ''1.0.0'',
      en_trace_context = re_trace E, en_payload = re_dump E m\<rparr>"

lemma domain_envelope_sel [simp]:
  "en_event_id (domain_envelope E ident m et corr caus w) = re_uuid4 E (nt_uuids w)"
  "en_correlation_id (domain_envelope E ident m et corr caus w) = corr"
  "en_causation_id (domain_envelope E ident m et corr caus w) = caus"
  "en_agent_id (domain_envelope E ident m et corr caus w) = id_agent_id ident"
  "en_event_type (domain_envelope E ident m et corr caus w) = et"
  by (simp_all add: domain_envelope_def)

lemma SEMVER_initial [simp]: "SEMVER_RE ''1.0.0''"
  by code_simp

text \<open>
  A domain event is published under its own event type: if the broker acknowledges the send, the log
  grows by exactly this message; otherwise only the counters move and the transport error is raised.
\<close>

lemma publish_domain:
  assumes "type_segment (re_environment E)" "(et, class_name m) \<in> set (domain_topics (re_environment E))"
    and "AGENT_ID_RE (id_agent_id ident)" "TENANT_ID_RE (id_tenant_id ident)"
  shows "publish E ident m et corr (Some cause) None w =
    (let env = domain_envelope E ident m et corr (Some cause) w;
         w' = w\<lparr>nt_uuids := Suc (nt_uuids w), nt_ticks := Suc (nt_ticks w), nt_sends := Suc (nt_sends w)\<rparr>
     in if re_send_ok E (nt_sends w)
        then (Inr env, w'\<lparr>nt_log := nt_log w @
               [\<lparr>sn_topic = et, sn_key = Inl (en_event_id env), sn_envelope = env, sn_model = m\<rparr>]\<rparr>)
        else (Inl (TransportError ''send failed''), w'))"
  using assms(3,4) domain_topic_valid [OF assms(1,2)] domain_topic_registered [OF assms(2)]
  by (simp add: publish_def build_envelope_def lift_exc_def io_defs uuid4_io_def now_io_def
      validate_envelope_def send_and_wait_def domain_envelope_def Let_def)

text \<open>Publishing never touches the state of the component that publishes.\<close>

lemma publish_frame:
  assumes "publish E ident m et corr caus t w = (r, w')"
  shows "net.more w' = net.more w"
    and "\<exists>log. nt_log w' = nt_log w @ log \<and> (case r of Inl _ \<Rightarrow> log = [] | Inr env \<Rightarrow>
      (\<exists>topic. log = [\<lparr>sn_topic = topic, sn_key = Inl (en_event_id env), sn_envelope = env, sn_model = m\<rparr>])
      \<and> en_correlation_id env = corr \<and> en_causation_id env = caus \<and> en_event_type env = et
      \<and> en_agent_id env = id_agent_id ident)"
  using assms
  by (auto simp: publish_def build_envelope_def lift_exc_def io_defs uuid4_io_def now_io_def
      validate_envelope_def send_and_wait_def Let_def split: sum.splits if_splits option.splits prod.splits)

section \<open>A concrete environment\<close>

text \<open>A broker that acknowledges every send, and a task request, for concrete runs.\<close>

definition sample_env :: runtime_env where
  "sample_env = \<lparr>re_environment = ''local'', re_clock = int, re_uuid4 = id, re_send_ok = (\<lambda>_. True),
     re_trace = None, re_dump = (\<lambda>_. [])\<rparr>"

definition sample_net :: net where
  "sample_net = \<lparr>nt_log = [], nt_ticks = 0, nt_uuids = 100, nt_sends = 0\<rparr>"

definition sample_task :: "string \<Rightarrow> (string, pyval) dict \<Rightarrow> TaskRequest" where
  "sample_task cap d = \<lparr>tq_task_id = 7, tq_capability = cap, tq_requester_agent_id = ''customer-resolution-agent'',
     tq_target_agent_id = ''peer'', tq_input = data_message User d\<rparr>"

lemma sample_env_segment: "type_segment (re_environment sample_env)"
  by code_simp

end
