(* ===== verification/Response_Drafter.thy ===== *)
theory Response_Drafter
  imports Case_Store Transport
begin

text \<open>
  Customer-facing responses: \<^verbatim>\<open>apps/agents/customer_resolution/response_drafter.py\<close> with the
  constants of \<^verbatim>\<open>config.py\<close> it uses. The templates, the guard that fails closed when an internal
  field name occurs in a text for the customer, the structured drafter and its assistive variant.

  The assistive runtime is the parameter \<open>assist\<close> of \<open>draft_with_llm\<close>: given the fallback it returns
  the reasoning path it took and a value, which may be no \<open>ResponseDraft\<close>, or it raises.
\<close>

section \<open>Configuration\<close>

definition HUMAN_APPROVAL_OUTCOMES :: "ResolutionOutcome list" where
  "HUMAN_APPROVAL_OUTCOMES = [ESCALATE_HUMAN, APPROVE_REFUND]"

definition INTERNAL_ONLY_DRAFT_FIELDS :: "string list" where
  "INTERNAL_ONLY_DRAFT_FIELDS = [''rationale'', ''escalation_reason'', ''billing_summary'', ''risk_summary'']"

definition FRAUD_SCORING_FIELDS :: "string list" where
  "FRAUD_SCORING_FIELDS = [''score'', ''confidence'', ''risk_level'', ''evidence'', ''reasoning_summary'']"

definition MAX_SUMMARY_LENGTH :: nat where
  "MAX_SUMMARY_LENGTH = 200"

section \<open>Drafter types\<close>

fun OUTCOME_TO_RESPONSE_TYPE :: "ResolutionOutcome \<Rightarrow> string" where
  "OUTCOME_TO_RESPONSE_TYPE APPROVE_REFUND = ''refund_confirmation''"
| "OUTCOME_TO_RESPONSE_TYPE DENY_REFUND = ''refund_denial''"
| "OUTCOME_TO_RESPONSE_TYPE ESCALATE_HUMAN = ''escalation_acknowledgement''"
| "OUTCOME_TO_RESPONSE_TYPE DIRECT_RESPONSE = ''direct_answer''"
| "OUTCOME_TO_RESPONSE_TYPE OFFER_PARTIAL_CREDIT = ''partial_credit_offer''"
| "OUTCOME_TO_RESPONSE_TYPE REQUEST_MORE_INFORMATION = ''information_request''"

record ToneConfig =
  tn_brand_name :: string
  tn_greeting :: string
  tn_signoff :: string
  tn_formality :: string
  tn_apologetic :: bool

definition newline :: string where
  "newline = [CHR 0x0A]"

definition DEFAULT_TONE :: ToneConfig where
  "DEFAULT_TONE = \<lparr>tn_brand_name = ''Support'', tn_greeting = ''Dear Customer,'',
     tn_signoff = ''Best regards,'' @ newline @ ''The Support Team'', tn_formality = ''friendly'',
     tn_apologetic = True\<rparr>"

record AllowedFacts =
  af_refund_amount :: "pyfloat option"
  af_currency :: "string option"
  af_order_reference :: "string option"
  af_billing_outcome_summary :: "string option"
  af_eligibility :: "bool option"

record ResponseDraft =
  rd_subject :: string
  rd_body :: string
  rd_response_type :: string
  rd_requires_human_approval :: bool

definition validate_draft :: "ResponseDraft \<Rightarrow> exc + ResponseDraft" where
  "validate_draft d =
     (if py_strip (rd_subject d) = [] then Inl (ValueError ''subject must be non-empty'')
      else if py_strip (rd_body d) = [] then Inl (ValueError ''body must be non-empty'')
      else Inr d)"

section \<open>Templates and the leak guard\<close>

fun TEMPLATES :: "ResolutionOutcome \<Rightarrow> string" where
  "TEMPLATES APPROVE_REFUND =
     ''We have reviewed your request and are pleased to approve your refund. ''
     @ ''Please allow 3-5 business days for the amount to appear in your account.''"
| "TEMPLATES DENY_REFUND =
     ''We have reviewed your request. Based on our review, we are unable to process ''
     @ ''a refund at this time. If you have further questions, please contact our support team.''"
| "TEMPLATES ESCALATE_HUMAN =
     ''Thank you for contacting us. Your case has been forwarded to a specialist ''
     @ ''who will review your request and reach out to you shortly.''"
| "TEMPLATES DIRECT_RESPONSE =
     ''Thank you for reaching out. Our team is happy to assist you. ''
     @ ''Please let us know if you need any further information.''"
| "TEMPLATES OFFER_PARTIAL_CREDIT =
     ''We have reviewed your request. We are able to offer a partial credit ''
     @ ''to your account as a resolution. A specialist will reach out with details.''"
| "TEMPLATES REQUEST_MORE_INFORMATION =
     ''Thank you for contacting us. To better assist you, we need some additional ''
     @ ''information. A support specialist will be in touch shortly.''"

definition assert_no_internal_leak :: "string \<Rightarrow> exc + unit" where
  "assert_no_internal_leak text =
     (case find (\<lambda>field. py_in field (py_lower text)) INTERNAL_ONLY_DRAFT_FIELDS of
        Some field \<Rightarrow> Inl (ValueError (''Internal field '' @ quoted field @ '' leaked into customer draft''))
      | None \<Rightarrow>
          (case find (\<lambda>field. py_in field (py_lower text)) FRAUD_SCORING_FIELDS of
             Some field \<Rightarrow>
               Inl (ValueError (''Fraud-scoring field '' @ quoted field @ '' leaked into customer draft''))
           | None \<Rightarrow> Inr ()))"

definition draft_customer_response :: "ResolutionOutcome \<Rightarrow> exc + string" where
  "draft_customer_response outcome =
     (let text = TEMPLATES outcome in
      case assert_no_internal_leak text of Inl e \<Rightarrow> Inl e | Inr _ \<Rightarrow> Inr text)"

definition build_response_drafted_payload ::
  "CustomerResponseDecisionPayload \<Rightarrow> EventEnvelope \<Rightarrow> bool \<Rightarrow> instant \<Rightarrow> exc + CustomerResponseDraftedPayload" where
  "build_response_drafted_payload decision_payload decision_envelope requires_approval drafted_at =
     validate_draft_payload
       \<lparr>dr_case_id = en_correlation_id decision_envelope, dr_ticket_id = dp_ticket_id decision_payload,
        dr_customer_id = dp_customer_id decision_payload,
        dr_decision_event_id = en_event_id decision_envelope, dr_outcome = dp_outcome decision_payload,
        dr_draft_response = dp_customer_response decision_payload,
        dr_requires_human_approval = requires_approval,
        dr_drafted_by_agent_id = ''customer-resolution-agent'', dr_drafted_at = drafted_at\<rparr>"

section \<open>Structured drafts\<close>

text \<open>The property \<open>eligible\<close> of a billing finding.\<close>

definition finding_eligible :: "BillingFinding \<Rightarrow> bool" where
  "finding_eligible f \<longleftrightarrow> fb_eligibility f = Eligible"

definition build_allowed_facts :: "pyfloat \<Rightarrow> string \<Rightarrow> string \<Rightarrow> BillingFinding option \<Rightarrow> AllowedFacts" where
  "build_allowed_facts ticket_amount ticket_currency ticket_id billing =
     \<lparr>af_refund_amount = Some ticket_amount, af_currency = Some ticket_currency,
      af_order_reference = Some ticket_id,
      af_billing_outcome_summary =
        (case billing of None \<Rightarrow> None | Some b \<Rightarrow> if fb_summary b \<noteq> [] then Some (fb_summary b) else None),
      af_eligibility = map_option finding_eligible billing\<rparr>"

definition amount_line :: "ResolutionOutcome \<Rightarrow> AllowedFacts \<Rightarrow> string \<Rightarrow> string" where
  "amount_line outcome facts body =
     (case af_refund_amount facts of
        Some amount \<Rightarrow>
          if amount \<noteq> 0 \<and> outcome \<in> {APPROVE_REFUND, OFFER_PARTIAL_CREDIT}
          then py_strip (body @ '' Amount: '' @ float_repr amount @ '' ''
                 @ (case af_currency facts of None \<Rightarrow> [] | Some c \<Rightarrow> c))
          else body
      | None \<Rightarrow> body)"

definition draft_structured_response ::
  "string \<Rightarrow> ResolutionOutcome \<Rightarrow> AllowedFacts \<Rightarrow> ToneConfig option \<Rightarrow> exc + ResponseDraft" where
  "draft_structured_response ticket_summary outcome facts tone_config =
     (let tone = (case tone_config of Some t \<Rightarrow> t | None \<Rightarrow> DEFAULT_TONE);
          body = amount_line outcome facts (TEMPLATES outcome)
      in case assert_no_internal_leak body of
           Inl e \<Rightarrow> Inl e
         | Inr _ \<Rightarrow>
             validate_draft
               \<lparr>rd_subject = tn_brand_name tone @ '': Your support request has been reviewed'',
                rd_body = tn_greeting tone @ newline @ newline @ body @ newline @ newline @ tn_signoff tone,
                rd_response_type = OUTCOME_TO_RESPONSE_TYPE outcome,
                rd_requires_human_approval = (outcome \<in> set HUMAN_APPROVAL_OUTCOMES)\<rparr>)"

definition minimize_summary :: "string \<Rightarrow> string" where
  "minimize_summary text = (if text = [] then [] else py_take MAX_SUMMARY_LENGTH text)"

type_synonym draft_assist =
  "ResolutionOutcome \<Rightarrow> AllowedFacts \<Rightarrow> ToneConfig \<Rightarrow> string \<Rightarrow> (exc + ResponseDraft) \<Rightarrow>
   exc + ReasoningPath \<times> ResponseDraft option"

definition draft_with_llm ::
  "draft_assist \<Rightarrow> ResolutionOutcome \<Rightarrow> AllowedFacts \<Rightarrow> ToneConfig option \<Rightarrow> string \<Rightarrow> exc + ResponseDraft" where
  "draft_with_llm assist outcome facts tone_config ticket_summary =
     (let tone = (case tone_config of Some t \<Rightarrow> t | None \<Rightarrow> DEFAULT_TONE);
          fallback = draft_structured_response ticket_summary outcome facts (Some tone);
          approved = (\<lambda>d. validate_draft (d\<lparr>rd_requires_human_approval := True\<rparr>))
      in case assist outcome facts tone ticket_summary fallback of
           Inl e \<Rightarrow> Inl e
         | Inr (path, Some draft) \<Rightarrow>
             (case assert_no_internal_leak (rd_body draft) of
                Inl _ \<Rightarrow> (case fallback of Inl e \<Rightarrow> Inl e | Inr d \<Rightarrow> approved d)
              | Inr _ \<Rightarrow> if path = FallbackPath then approved draft else Inr draft)
         | Inr (path, None) \<Rightarrow> fallback)"

section \<open>What a customer can read\<close>

text \<open>A text in which no internal or fraud-scoring field name occurs, in any case.\<close>

definition leak_free :: "string \<Rightarrow> bool" where
  "leak_free text \<longleftrightarrow>
     (\<forall>field \<in> set (INTERNAL_ONLY_DRAFT_FIELDS @ FRAUD_SCORING_FIELDS). \<not> py_in field (py_lower text))"

lemma assert_no_internal_leak_iff: "assert_no_internal_leak text = Inr () \<longleftrightarrow> leak_free text"
  by (auto simp: assert_no_internal_leak_def leak_free_def find_None_iff find_Some_iff split: option.splits)

lemma leak_check_cases: "assert_no_internal_leak text = Inr u \<longleftrightarrow> leak_free text"
  by (cases u) (simp add: assert_no_internal_leak_iff)

lemma template_leak_free: "leak_free (TEMPLATES outcome)"
  by (cases outcome; simp; code_simp)

lemma draft_customer_response_ok [simp]: "draft_customer_response outcome = Inr (TEMPLATES outcome)"
  using template_leak_free [of outcome]
  by (simp add: draft_customer_response_def assert_no_internal_leak_iff [symmetric])

text \<open>A field name without line breaks cannot straddle a line break.\<close>

lemma prefix_append_sep: "x \<notin> set f \<Longrightarrow> prefix f (a @ x # b) \<Longrightarrow> prefix f a"
  by (induction a arbitrary: f) (auto simp: prefix_Cons)

lemma py_in_append_sep: "x \<notin> set f \<Longrightarrow> py_in f (a @ x # b) \<Longrightarrow> py_in f a \<or> py_in f b"
proof (induction a)
  case Nil
  then show ?case by (cases f) auto
next
  case (Cons c a)
  from Cons.prems(2) consider "prefix f ((c # a) @ x # b)" | "py_in f (a @ x # b)" by auto
  then show ?case
  proof cases
    case 1
    then show ?thesis using prefix_append_sep [OF Cons.prems(1), of "c # a" b] by simp
  next
    case 2
    then show ?thesis using Cons.IH [OF Cons.prems(1)] by auto
  qed
qed

lemma lower_newline [simp]: "lower_char (CHR 0x0A) = CHR 0x0A"
  by code_simp

lemma leak_free_lines: "leak_free a \<Longrightarrow> leak_free b \<Longrightarrow> leak_free (a @ newline @ b)"
proof -
  assume *: "leak_free a" "leak_free b"
  have "\<forall>f \<in> set (INTERNAL_ONLY_DRAFT_FIELDS @ FRAUD_SCORING_FIELDS). CHR 0x0A \<notin> set f"
    by code_simp
  with * show ?thesis
    unfolding leak_free_def newline_def py_lower_def by (auto dest!: py_in_append_sep)
qed

lemma leak_free_Nil [simp]: "leak_free []"
  by code_simp

lemma validate_draft_Inr: "validate_draft d = Inr d' \<Longrightarrow> d' = d"
  by (simp add: validate_draft_def split: if_splits)

text \<open>The structured drafter: the text, the approval flag, and the failure of the leak guard.\<close>

lemma structured_draft:
  assumes "draft_structured_response ts outcome facts (Some tone) = Inr d"
  shows "rd_body d = tn_greeting tone @ newline @ [] @ newline
      @ amount_line outcome facts (TEMPLATES outcome) @ newline @ [] @ newline @ tn_signoff tone"
    and "leak_free (amount_line outcome facts (TEMPLATES outcome))"
    and "rd_requires_human_approval d \<longleftrightarrow> outcome \<in> {APPROVE_REFUND, ESCALATE_HUMAN}"
    and "rd_response_type d = OUTCOME_TO_RESPONSE_TYPE outcome"
    and "rd_subject d = tn_brand_name tone @ '': Your support request has been reviewed''"
  using assms
  by (auto simp: draft_structured_response_def Let_def leak_check_cases HUMAN_APPROVAL_OUTCOMES_def
      dest!: validate_draft_Inr split: sum.splits)

lemma structured_draft_leak_free:
  assumes "draft_structured_response ts outcome facts (Some tone) = Inr d"
    and "leak_free (tn_greeting tone)" "leak_free (tn_signoff tone)"
  shows "leak_free (rd_body d)"
  unfolding structured_draft(1) [OF assms(1)]
  by (intro leak_free_lines leak_free_Nil assms(2,3) structured_draft(2) [OF assms(1)])

lemma draft_with_llm_cases:
  assumes "draft_with_llm assist outcome facts tone_config ts = Inr d"
    and tone: "tone = (case tone_config of Some t \<Rightarrow> t | None \<Rightarrow> DEFAULT_TONE)"
  obtains path draft where "assist outcome facts tone ts (draft_structured_response ts outcome facts (Some tone))
        = Inr (path, Some draft)"
      "leak_free (rd_body draft)" "rd_body d = rd_body draft"
      "rd_requires_human_approval d \<longleftrightarrow> path = FallbackPath \<or> rd_requires_human_approval draft"
    | d' where "draft_structured_response ts outcome facts (Some tone) = Inr d'" "rd_body d = rd_body d'"
      "rd_requires_human_approval d' \<longrightarrow> rd_requires_human_approval d"
  using assms(1) unfolding draft_with_llm_def Let_def tone [symmetric]
  by (auto simp: leak_check_cases dest!: validate_draft_Inr
      split: sum.splits option.splits prod.splits if_splits)

text \<open>C24: the leak guard of an assistive draft covers the body and not the subject. Whatever the assistive runtime
  proposes, the body of a draft that \<^verbatim>\<open>draft_with_llm\<close> returns contains no internal or fraud-scoring field name,
  provided the configured greeting and sign-off contain none; the default ones do not. The subject is the fixed
  one of the structured draft only if the runtime gave no draft or one whose body leaks; otherwise it is the
  model's subject, returned unchecked, whatever it contains.\<close>

theorem draft_leak_guard:
  assumes tone: "tone = (case tone_config of Some t \<Rightarrow> t | None \<Rightarrow> DEFAULT_TONE)"
    and clean: "leak_free (tn_greeting tone)" "leak_free (tn_signoff tone)"
    and v: "assist outcome facts tone ts (draft_structured_response ts outcome facts (Some tone)) = Inr (path, v)"
    and d: "draft_with_llm assist outcome facts tone_config ts = Inr d"
  shows "leak_free (rd_body d) \<and> rd_subject d =
    (case v of
       Some draft \<Rightarrow> if leak_free (rd_body draft) then rd_subject draft
                     else tn_brand_name tone @ '': Your support request has been reviewed''
     | None \<Rightarrow> tn_brand_name tone @ '': Your support request has been reviewed'')"
proof
  show "leak_free (rd_body d)"
    using d tone by (rule draft_with_llm_cases) (use structured_draft_leak_free clean in auto)
  have *: "assert_no_internal_leak t = (if leak_free t then Inr () else Inl (projl (assert_no_internal_leak t)))" for t
    using leak_check_cases [of t] by (cases "assert_no_internal_leak t") auto
  show "rd_subject d = (case v of
       Some draft \<Rightarrow> if leak_free (rd_body draft) then rd_subject draft
                     else tn_brand_name tone @ '': Your support request has been reviewed''
     | None \<Rightarrow> tn_brand_name tone @ '': Your support request has been reviewed'')"
    using d v structured_draft(5) [of ts outcome facts tone]
    unfolding draft_with_llm_def Let_def tone [symmetric]
    by (subst (asm) *) (auto dest!: validate_draft_Inr split: option.splits if_splits sum.splits)
qed

lemma default_tone_leak_free: "leak_free (tn_greeting DEFAULT_TONE)" "leak_free (tn_signoff DEFAULT_TONE)"
  by code_simp+

text \<open>A model that leaks the score and drops the approval flag.\<close>

definition sample_assist :: draft_assist where
  "sample_assist = (\<lambda>_ _ _ _ _. Inr (ModelPath, Some \<lparr>rd_subject = ''Hi'',
     rd_body = ''Your risk SCORE is 0.9'', rd_response_type = ''x'', rd_requires_human_approval = False\<rparr>))"

definition sample_draft :: "exc + ResponseDraft" where
  "sample_draft = draft_with_llm sample_assist APPROVE_REFUND (build_allowed_facts 10 ''USD'' ''T-1'' None) None []"

lemma sample_draft_returns: "sample_draft = Inr (projr sample_draft)"
proof -
  have "\<not> isl sample_draft" by code_simp
  then show ?thesis by (cases sample_draft) auto
qed

definition subject_assist :: draft_assist where
  "subject_assist = (\<lambda>_ _ _ _ _. Inr (ModelPath, Some \<lparr>rd_subject = ''Your risk score'',
     rd_body = ''Thank you'', rd_response_type = ''x'', rd_requires_human_approval = False\<rparr>))"

theorem draft_leak_guard_witness:
  "\<exists>d. draft_with_llm subject_assist DENY_REFUND (build_allowed_facts 10 ''USD'' ''T-1'' None) None [] = Inr d
    \<and> leak_free (rd_body d) \<and> rd_subject d = ''Your risk score'' \<and> \<not> leak_free (rd_subject d)"
proof -
  have "\<not> isl (draft_with_llm subject_assist DENY_REFUND (build_allowed_facts 10 ''USD'' ''T-1'' None) None [])"
    by code_simp
  then obtain d where d: "draft_with_llm subject_assist DENY_REFUND (build_allowed_facts 10 ''USD'' ''T-1'' None) None [] = Inr d"
    unfolding isl_def by (cases "draft_with_llm subject_assist DENY_REFUND (build_allowed_facts 10 ''USD'' ''T-1'' None) None []") auto
  have "leak_free ''Thank you''" "\<not> leak_free ''Your risk score''" by code_simp+
  with draft_leak_guard [OF refl _ _ _ d] default_tone_leak_free d show ?thesis
    by (simp add: subject_assist_def)
qed

text \<open>C25: the approval gate of an assistive draft. The draft asks for human approval exactly when the
  model's text leaked or the fallback path was taken, when the runtime returned no draft and the
  outcome is gated, or when the model itself asks for it. The outcome is not consulted for a text the
  model wrote, so an approved refund leaves \<^verbatim>\<open>draft_with_llm\<close> without the gate if the model says so.\<close>

theorem draft_approval_gate:
  assumes "tone = (case tone_config of Some t \<Rightarrow> t | None \<Rightarrow> DEFAULT_TONE)"
    and "assist outcome facts tone ts (draft_structured_response ts outcome facts (Some tone)) = Inr (path, v)"
    and "draft_with_llm assist outcome facts tone_config ts = Inr d"
  shows "rd_requires_human_approval d \<longleftrightarrow>
    (case v of None \<Rightarrow> outcome \<in> {APPROVE_REFUND, ESCALATE_HUMAN}
     | Some draft \<Rightarrow> \<not> leak_free (rd_body draft) \<or> path = FallbackPath \<or> rd_requires_human_approval draft)"
proof -
  have *: "assert_no_internal_leak t = (if leak_free t then Inr () else Inl (projl (assert_no_internal_leak t)))" for t
    using leak_check_cases [of t] by (cases "assert_no_internal_leak t") auto
  show ?thesis
    using assms(2,3) structured_draft(3) [of ts outcome facts tone]
    unfolding draft_with_llm_def Let_def assms(1) [symmetric]
    by (subst (asm) *) (auto dest!: validate_draft_Inr split: option.splits if_splits sum.splits)
qed

theorem draft_approval_gate_witness: "rd_requires_human_approval (projr sample_draft)"
proof -
  have "\<not> leak_free ''Your risk SCORE is 0.9''" by code_simp
  then show ?thesis
    using draft_approval_gate [of DEFAULT_TONE None sample_assist APPROVE_REFUND
        "build_allowed_facts 10 ''USD'' ''T-1'' None" "[]" ModelPath] sample_draft_returns
    unfolding sample_draft_def by (simp add: sample_assist_def)
qed

text \<open>A minimized summary is a prefix of the text of at most 200 code points.\<close>

lemma minimize_summary_bounded: "prefix (minimize_summary s) s" "py_len (minimize_summary s) \<le> MAX_SUMMARY_LENGTH"
  using py_take_prefix py_take_len by (auto simp: minimize_summary_def py_len_def)

end
