(* ===== verification/Peer_Contract.thy ===== *)
theory Peer_Contract
  imports Contracts
begin

text \<open>
  What the Customer-Resolution agent relies on in an opinion of a peer agent, as a locale: the
  confidence is a valid field value, the opinion is backed by evidence, its rule references are
  listed once, and an opinion the peer is unsure of is flagged for human review. Both policy
  engines interpret it; the decision engine's confidence row rests on it.
\<close>

text \<open>\<^verbatim>\<open>CONFIDENCE_THRESHOLD\<close> of \<^verbatim>\<open>apps/agents/customer_resolution/config.py\<close>.\<close>

definition CONFIDENCE_THRESHOLD :: pyfloat where
  "CONFIDENCE_THRESHOLD = fl (6 / 10)"

text \<open>The values of the float literals the engines use.\<close>

lemma float_literals:
  "fl (2 / 10) = 3602879701896397 / 18014398509481984"
  "fl (3 / 10) = 5404319552844595 / 18014398509481984"
  "fl (4 / 10) = 3602879701896397 / 9007199254740992"
  "fl (5 / 10) = 1 / 2"
  "fl (6 / 10) = 5404319552844595 / 9007199254740992"
  "fl (7 / 10) = 3152519739159347 / 4503599627370496"
  "fl (8 / 10) = 3602879701896397 / 4503599627370496"
  "fl (9 / 10) = 8106479329266893 / 9007199254740992"
  "fl (95 / 100) = 4278419646001971 / 4503599627370496"
  by code_simp+

lemma fl_tenths_simp [simp]:
  "fl (1 / 2) = 1 / 2" "fl (1 / 5) = 3602879701896397 / 18014398509481984"
  "fl (2 / 5) = 3602879701896397 / 9007199254740992"
  "fl (3 / 5) = 5404319552844595 / 9007199254740992"
  "fl (4 / 5) = 3602879701896397 / 4503599627370496"
  "fl (3 / 10) = 5404319552844595 / 18014398509481984"
  "fl (7 / 10) = 3152519739159347 / 4503599627370496"
  "fl (9 / 10) = 8106479329266893 / 9007199254740992"
  "fl (19 / 20) = 4278419646001971 / 4503599627370496"
  using float_literals by simp_all

locale peer_engine =
  fixes engine :: "'i \<Rightarrow> 'r"
    and conf :: "'r \<Rightarrow> pyfloat"
    and evid :: "'r \<Rightarrow> EvidenceItem list"
    and refs :: "'r \<Rightarrow> string list"
    and review :: "'r \<Rightarrow> bool"
  assumes conf_unit: "in_unit (conf (engine i))"
    and evid_nonempty: "evid (engine i) \<noteq> []"
    and refs_distinct: "distinct (refs (engine i))"
    and unsure_reviewed: "conf (engine i) < CONFIDENCE_THRESHOLD \<Longrightarrow> review (engine i)"
begin

lemma unflagged_confident:
  "\<not> review (engine i) \<Longrightarrow> CONFIDENCE_THRESHOLD \<le> conf (engine i)"
  using unsure_reviewed by (meson not_le)

text \<open>Routing certainty: what is left after the round trip through \<open>1 - (1 - c)\<close> stays a unit value.\<close>

lemma uncertainty_unit: "in_unit (f_sub 1 (conf (engine i)))"
proof -
  have c: "0 \<le> conf (engine i)" "conf (engine i) \<le> 1"
    using conf_unit [of i] by (auto simp: in_unit_def)
  have "fl (1 - conf (engine i)) \<le> fl 1" using c by (intro fl_mono) simp
  moreover have "0 \<le> fl (1 - conf (engine i))" using c by (intro fl_nonneg) simp
  ultimately show ?thesis by (simp add: in_unit_def f_sub_def)
qed

end

end
