(* ===== verification/Ticket_Classifier.thy ===== *)
theory Ticket_Classifier
  imports Case_Store Peer_Contract "HOL-Library.Multiset"
begin

text \<open>
  Triage of a ticket: \<^verbatim>\<open>apps/agents/customer_resolution/ticket_classifier.py\<close> with the vocabulary of
  \<^verbatim>\<open>config.py\<close>. The vocabulary is a \<^verbatim>\<open>frozenset\<close>, whose iteration order the language leaves open:
  the order is the argument \<open>signals\<close> of \<open>classify\<close>, a list with the vocabulary's elements. The
  assistive runtime is the parameter \<open>assist\<close> of \<open>classify_with_llm\<close>.
\<close>

section \<open>Deterministic classification\<close>

definition REFUND_INTENT_SIGNALS :: "string list" where
  "REFUND_INTENT_SIGNALS =
     [''refund'', ''refunded'', ''charged'', ''charge'', ''overcharge'', ''overcharged'',
      ''double charged'', ''double-charged'', ''charged twice'', ''dispute'', ''disputed'',
      ''chargeback'', ''money back'', ''reimburse'', ''reimbursement'', ''billing error'',
      ''wrong amount'', ''cancel and refund'']"

text \<open>An order in which the set may be iterated.\<close>

definition iteration_order :: "string list \<Rightarrow> bool" where
  "iteration_order signals \<longleftrightarrow> set signals = set REFUND_INTENT_SIGNALS \<and> distinct signals"

definition looks_ambiguous :: "string \<Rightarrow> bool" where
  "looks_ambiguous reason_lower \<longleftrightarrow> py_len (py_strip reason_lower) < 5"

text \<open>The dash of the rationale, with the encoding it has in the source file.\<close>

definition source_dash :: string where
  "source_dash = [CHR 0xC3, CHR 0x83, CHR 0xC2, CHR 0xA2, CHR 0xC3, CHR 0xA2, CHR 0xE2, CHR 0x80,
     CHR 0x9A, CHR 0xC2, CHR 0xAC, CHR 0xC3, CHR 0xA2, CHR 0xE2, CHR 0x82, CHR 0xAC, CHR 0xC2, CHR 0x9D]"

definition matched_signals :: "string list \<Rightarrow> string \<Rightarrow> string list" where
  "matched_signals signals reason_lower = filter (\<lambda>signal. py_in signal reason_lower) signals"

definition classify :: "string list \<Rightarrow> SupportTicketCreatedPayload \<Rightarrow> Triage" where
  "classify signals ticket =
     (let reason_lower = py_lower (tk_reason ticket);
          matched = matched_signals signals reason_lower
      in if matched \<noteq> []
         then \<lparr>tg_needs_refund_review = True, tg_ambiguous = False, tg_matched_signals = matched,
               tg_rationale = ''Refund intent detected: '' @ py_join '', '' matched,
               tg_issue_type = ''refund_request'', tg_confidence = 1\<rparr>
         else if reason_lower = [] \<or> looks_ambiguous reason_lower
         then \<lparr>tg_needs_refund_review = True, tg_ambiguous = True, tg_matched_signals = [],
               tg_rationale = ''Ambiguous intent '' @ source_dash @ '' defaulted to refund review'',
               tg_issue_type = ''unknown'', tg_confidence = fl (5 / 10)\<rparr>
         else \<lparr>tg_needs_refund_review = False, tg_ambiguous = False, tg_matched_signals = [],
               tg_rationale = ''No refund intent detected'', tg_issue_type = ''general_inquiry'',
               tg_confidence = fl (9 / 10)\<rparr>)"

definition build_issue_classified_payload ::
  "SupportTicketCreatedPayload \<Rightarrow> uuid \<Rightarrow> Triage \<Rightarrow> CustomerIssueClassifiedPayload" where
  "build_issue_classified_payload ticket correlation_id triage =
     \<lparr>ic_case_id = correlation_id, ic_ticket_id = tk_ticket_id ticket, ic_customer_id = tk_customer_id ticket,
      ic_issue_type = tg_issue_type triage, ic_confidence = tg_confidence triage,
      ic_requires_billing_review = tg_needs_refund_review triage,
      ic_requires_risk_review = tg_needs_refund_review triage,
      ic_requires_human_review = tg_ambiguous triage, ic_reasoning_summary = tg_rationale triage\<rparr>"

section \<open>Assistive classification\<close>

record TicketClassification =
  tc_issue_type :: string
  tc_needs_refund_review :: bool
  tc_confidence :: pyfloat
  tc_rationale :: string
  tc_matched_signals :: "string list"

text \<open>The field constraint on \<open>confidence\<close>.\<close>

definition validate_classification :: "TicketClassification \<Rightarrow> exc + TicketClassification" where
  "validate_classification c =
     (if in_unit (tc_confidence c) then Inr c else Inl (ValueError ''confidence''))"

definition to_triage :: "TicketClassification \<Rightarrow> Triage" where
  "to_triage c =
     \<lparr>tg_needs_refund_review = tc_needs_refund_review c, tg_ambiguous = (tc_confidence c < fl (7 / 10)),
      tg_matched_signals = tc_matched_signals c, tg_rationale = tc_rationale c,
      tg_issue_type = tc_issue_type c, tg_confidence = tc_confidence c\<rparr>"

definition classification_fallback :: "string list \<Rightarrow> SupportTicketCreatedPayload \<Rightarrow> exc + TicketClassification" where
  "classification_fallback signals ticket =
     validate_classification
       \<lparr>tc_issue_type = tg_issue_type (classify signals ticket),
        tc_needs_refund_review = tg_needs_refund_review (classify signals ticket),
        tc_confidence = tg_confidence (classify signals ticket),
        tc_rationale = tg_rationale (classify signals ticket),
        tc_matched_signals = tg_matched_signals (classify signals ticket)\<rparr>"

type_synonym classify_assist =
  "SupportTicketCreatedPayload \<Rightarrow> uuid \<Rightarrow> uuid \<Rightarrow> (exc + TicketClassification) \<Rightarrow> exc + TicketClassification option"

definition classify_with_llm ::
  "string list \<Rightarrow> classify_assist \<Rightarrow> SupportTicketCreatedPayload \<Rightarrow> uuid \<Rightarrow> uuid \<Rightarrow> exc + Triage" where
  "classify_with_llm signals assist ticket correlation_id causation_id =
     (case assist ticket correlation_id causation_id (classification_fallback signals ticket) of
        Inl e \<Rightarrow> Inl e
      | Inr (Some c) \<Rightarrow> Inr (to_triage c)
      | Inr None \<Rightarrow> Inr (classify signals ticket))"

section \<open>Facts about the classifier\<close>

text \<open>The vocabulary is redundant: seven stems decide whether a text carries a refund signal.\<close>

definition refund_stems :: "string list" where
  "refund_stems = [''refund'', ''charge'', ''dispute'', ''money back'', ''reimburse'', ''billing error'', ''wrong amount'']"

lemma signals_have_stems:
  "\<forall>s \<in> set REFUND_INTENT_SIGNALS. \<exists>t \<in> set refund_stems. py_in t s"
  "set refund_stems \<subseteq> set REFUND_INTENT_SIGNALS"
  by code_simp+

lemma py_in_trans: "py_in a b \<Longrightarrow> py_in b c \<Longrightarrow> py_in a c"
  unfolding py_in_iff_sublist by (rule sublist_order.order.trans)

definition refund_intent :: "string \<Rightarrow> bool" where
  "refund_intent reason \<longleftrightarrow> (\<exists>t \<in> set refund_stems. py_in t (py_lower reason))"

lemma matched_signals_iff:
  assumes "iteration_order signals"
  shows "matched_signals signals (py_lower r) \<noteq> [] \<longleftrightarrow> refund_intent r"
proof -
  have "matched_signals signals (py_lower r) \<noteq> [] \<longleftrightarrow> (\<exists>s \<in> set REFUND_INTENT_SIGNALS. py_in s (py_lower r))"
    using assms by (auto simp: matched_signals_def filter_empty_conv iteration_order_def)
  also have "\<dots> \<longleftrightarrow> refund_intent r"
    unfolding refund_intent_def using signals_have_stems py_in_trans by blast
  finally show ?thesis .
qed

text \<open>What every triage the classifier produces looks like.\<close>

lemma classify_cases:
  assumes "iteration_order signals"
  obtains
    (refund) "refund_intent (tk_reason ticket)" "tg_needs_refund_review (classify signals ticket)"
      "\<not> tg_ambiguous (classify signals ticket)" "tg_confidence (classify signals ticket) = 1"
      "tg_issue_type (classify signals ticket) = ''refund_request''"
  | (ambiguous) "\<not> refund_intent (tk_reason ticket)" "looks_ambiguous (py_lower (tk_reason ticket))"
      "tg_needs_refund_review (classify signals ticket)" "tg_ambiguous (classify signals ticket)"
      "tg_confidence (classify signals ticket) = 1 / 2" "tg_issue_type (classify signals ticket) = ''unknown''"
  | (general) "\<not> refund_intent (tk_reason ticket)" "\<not> looks_ambiguous (py_lower (tk_reason ticket))"
      "\<not> tg_needs_refund_review (classify signals ticket)" "\<not> tg_ambiguous (classify signals ticket)"
      "tg_confidence (classify signals ticket) = fl (9 / 10)"
      "tg_issue_type (classify signals ticket) = ''general_inquiry''"
proof -
  have e: "looks_ambiguous []" by code_simp
  note m = matched_signals_iff [OF assms, of "tk_reason ticket"]
  consider "refund_intent (tk_reason ticket)"
    | "\<not> refund_intent (tk_reason ticket)" "looks_ambiguous (py_lower (tk_reason ticket))"
    | "\<not> refund_intent (tk_reason ticket)" "\<not> looks_ambiguous (py_lower (tk_reason ticket))" by blast
  then show thesis
  proof cases
    case 1
    then show ?thesis using m refund by (simp add: classify_def Let_def)
  next
    case 2
    then show ?thesis using m ambiguous by (simp add: classify_def Let_def)
  next
    case 3
    with e have "py_lower (tk_reason ticket) \<noteq> []" by auto
    with 3 show ?thesis using m general by (simp add: classify_def Let_def)
  qed
qed

text \<open>What triage decides. Whatever order the vocabulary is iterated in, a ticket goes to refund
  review exactly when one of seven stems occurs in its reason or the stripped reason has fewer than
  five characters; it is ambiguous exactly in the second case, and two iteration orders differ at
  most in the order in which the matched signals are listed.\<close>

theorem triage_decision:
  assumes "iteration_order signals" "iteration_order signals'"
  shows "(tg_needs_refund_review (classify signals ticket) \<longleftrightarrow>
        refund_intent (tk_reason ticket) \<or> looks_ambiguous (py_lower (tk_reason ticket)))
    \<and> (tg_ambiguous (classify signals ticket) \<longleftrightarrow>
        \<not> refund_intent (tk_reason ticket) \<and> looks_ambiguous (py_lower (tk_reason ticket)))
    \<and> mset (tg_matched_signals (classify signals ticket)) = mset (tg_matched_signals (classify signals' ticket))
    \<and> tg_confidence (classify signals ticket) = tg_confidence (classify signals' ticket)
    \<and> tg_issue_type (classify signals ticket) = tg_issue_type (classify signals' ticket)"
proof -
  have "mset signals = mset signals'"
    using assms set_eq_iff_mset_eq_distinct [of signals signals'] by (auto simp: iteration_order_def)
  then have m: "mset (matched_signals signals r) = mset (matched_signals signals' r)" for r
    by (simp add: matched_signals_def)
  have "tg_matched_signals (classify order ticket) = matched_signals order (py_lower (tk_reason ticket))" for order
    by (simp add: classify_def Let_def)
  then have "mset (tg_matched_signals (classify signals ticket)) = mset (tg_matched_signals (classify signals' ticket))"
    using m by simp
  then show ?thesis
    by (cases rule: classify_cases [OF assms(1), of ticket]; cases rule: classify_cases [OF assms(2), of ticket]) simp_all
qed

definition sample_ticket :: SupportTicketCreatedPayload where
  "sample_ticket = \<lparr>tk_ticket_id = ''T-1'', tk_customer_id = ''CUS-1'', tk_amount = 10, tk_currency = ''USD'',
     tk_reason = ''I was charged twice'', tk_created_at = 0\<rparr>"

lemma iteration_order_source: "iteration_order REFUND_INTENT_SIGNALS" "iteration_order (rev REFUND_INTENT_SIGNALS)"
proof -
  have "distinct REFUND_INTENT_SIGNALS" by code_simp
  then show "iteration_order REFUND_INTENT_SIGNALS" "iteration_order (rev REFUND_INTENT_SIGNALS)"
    by (simp_all add: iteration_order_def)
qed

theorem triage_decision_witness:
  "tg_needs_refund_review (classify REFUND_INTENT_SIGNALS sample_ticket)
   \<and> mset (tg_matched_signals (classify REFUND_INTENT_SIGNALS sample_ticket))
     = mset (tg_matched_signals (classify (rev REFUND_INTENT_SIGNALS) sample_ticket))"
proof -
  have "refund_intent (tk_reason sample_ticket)" by code_simp
  then show ?thesis using triage_decision [OF iteration_order_source, of sample_ticket] by simp
qed

text \<open>The fallback of the assistive classifier is the deterministic one. When the runtime falls
  back, mapping the classification through the assistive schema and back gives the triage the
  deterministic classifier computes, ambiguity flag included.\<close>

theorem classify_fallback_agrees:
  assumes "iteration_order signals"
    and "assist ticket corr caus (classification_fallback signals ticket)
           = map_sum id Some (classification_fallback signals ticket)"
  shows "classify_with_llm signals assist ticket corr caus = Inr (classify signals ticket)"
proof -
  have "in_unit (tg_confidence (classify signals ticket))"
    "tg_ambiguous (classify signals ticket) \<longleftrightarrow> tg_confidence (classify signals ticket) < fl (7 / 10)"
    by (cases rule: classify_cases [OF assms(1), of ticket]; simp add: in_unit_def)+
  then show ?thesis
    using assms(2)
    by (simp add: classify_with_llm_def classification_fallback_def validate_classification_def to_triage_def)
qed

theorem classify_fallback_agrees_witness:
  "classify_with_llm REFUND_INTENT_SIGNALS (\<lambda>_ _ _ fb. map_sum id Some fb) sample_ticket 1 2
   = Inr (classify REFUND_INTENT_SIGNALS sample_ticket)"
  by (rule classify_fallback_agrees [OF iteration_order_source(1)]) simp

end
