(* ===== verification/Decision_Engine.thy ===== *)
theory Decision_Engine
  imports Response_Drafter Ticket_Classifier
begin

text \<open>
  The decision engine, \<^verbatim>\<open>apps/agents/customer_resolution/decision_engine.py\<close>: the confidence of a
  case, its evidence entries, the ordered decision table and the human-approval gate. Every row builds
  a payload through its validator, so a decision is an exception or a payload; that no row raises is
  proved, not assumed.
\<close>

section \<open>Confidence and evidence\<close>

definition confidence_scores :: "Triage option \<Rightarrow> BillingFinding option \<Rightarrow> RiskFinding option \<Rightarrow> pyfloat list" where
  "confidence_scores triage billing risk =
     (case triage of None \<Rightarrow> [] | Some t \<Rightarrow> [tg_confidence t])
     @ (case billing of None \<Rightarrow> [] | Some b \<Rightarrow> (case fb_confidence b of None \<Rightarrow> [] | Some c \<Rightarrow> [c]))
     @ (case risk of None \<Rightarrow> [] | Some r \<Rightarrow> (case fr_score r of None \<Rightarrow> [] | Some s \<Rightarrow> [f_sub 1 s]))"

definition compute_confidence :: "Triage option \<Rightarrow> BillingFinding option \<Rightarrow> RiskFinding option \<Rightarrow> pyfloat" where
  "compute_confidence triage billing risk =
     (case confidence_scores triage billing risk of
        [] \<Rightarrow> 0
      | s # ss \<Rightarrow> max 0 (min 1 (fold min ss s)))"

definition or_none :: "string \<Rightarrow> pyval" where
  "or_none s = (if s = [] then VNone else VStr s)"

definition billing_summary_of :: "BillingFinding \<Rightarrow> string" where
  "billing_summary_of b =
     (if fb_summary b \<noteq> [] then fb_summary b else ''eligibility='' @ eligibility_value (fb_eligibility b))"

definition risk_summary_of :: "RiskFinding \<Rightarrow> string" where
  "risk_summary_of r =
     (if fr_summary r \<noteq> [] then fr_summary r else ''level='' @ finding_level_value (fr_level r))"

definition show_task :: "uuid option \<Rightarrow> pyval" where
  "show_task t = (case t of None \<Rightarrow> VNone | Some u \<Rightarrow> VStr (show_uuid u))"

definition build_evidence ::
  "Triage option \<Rightarrow> BillingFinding option \<Rightarrow> RiskFinding option \<Rightarrow> (string, pyval) dict list" where
  "build_evidence triage billing risk =
     (case triage of None \<Rightarrow> []
      | Some t \<Rightarrow> [[(''source'', VStr ''classification''), (''task_id'', VNone), (''performer_agent_id'', VNone),
                   (''summary'', VStr (tg_rationale t)), (''confidence'', VFloat (tg_confidence t))]])
     @ (case billing of None \<Rightarrow> []
        | Some b \<Rightarrow> [[(''source'', VStr ''billing''), (''task_id'', show_task (fb_task_id b)),
                     (''performer_agent_id'', or_none (fb_performer_agent_id b)),
                     (''summary'', VStr (billing_summary_of b)),
                     (''confidence'', case fb_confidence b of None \<Rightarrow> VNone | Some c \<Rightarrow> VFloat c)]])
     @ (case risk of None \<Rightarrow> []
        | Some r \<Rightarrow> [[(''source'', VStr ''risk''), (''task_id'', show_task (fr_task_id r)),
                     (''performer_agent_id'', or_none (fr_performer_agent_id r)),
                     (''summary'', VStr (risk_summary_of r)), (''confidence'', VNone)]])"

section \<open>The decision table\<close>

text \<open>One row: the drafted response, then the validated payload.\<close>

definition decision_payload ::
  "uuid \<Rightarrow> string \<Rightarrow> string \<Rightarrow> ResolutionOutcome \<Rightarrow> string option \<Rightarrow> string option \<Rightarrow> string option \<Rightarrow> string \<Rightarrow>
   exc + CustomerResponseDecisionPayload" where
  "decision_payload cid ticket_id customer_id outcome escalation_reason billing_summary risk_summary rationale =
     (case draft_customer_response outcome of
        Inl e \<Rightarrow> Inl e
      | Inr response \<Rightarrow>
          validate_escalation_reason
            \<lparr>dp_case_id = cid, dp_ticket_id = ticket_id, dp_customer_id = customer_id, dp_outcome = outcome,
             dp_customer_response = response, dp_escalation_reason = escalation_reason,
             dp_billing_summary = billing_summary, dp_risk_summary = risk_summary, dp_rationale = rationale\<rparr>)"

definition show_reviews :: "review_kind list \<Rightarrow> string" where
  "show_reviews rs = ''['' @ py_join '', '' (map (\<lambda>r. repr_str (review_value r)) rs) @ '']''"

definition decide ::
  "Triage \<Rightarrow> BillingFinding option \<Rightarrow> RiskFinding option \<Rightarrow> PolicyContext option \<Rightarrow> TimeoutStatus option \<Rightarrow>
   instant option \<Rightarrow> uuid option \<Rightarrow> string \<Rightarrow> string \<Rightarrow> exc + CustomerResponseDecisionPayload" where
  "decide triage billing risk policy_context timeout_status decided_at case_id ticket_id customer_id =
     (let cid = (case case_id of Some c \<Rightarrow> c | None \<Rightarrow> 0);
          payload = decision_payload cid ticket_id customer_id
      in if \<not> tg_needs_refund_review triage
         then payload DIRECT_RESPONSE None None None (tg_rationale triage)
         else
         (let any_missing = (case timeout_status of None \<Rightarrow> False | Some ts \<Rightarrow> ts_any_missing ts) in
          if any_missing
          then payload ESCALATE_HUMAN
                 (Some (if ts_deadline_exceeded (the timeout_status) then ''analysis_timeout'' else ''missing_analysis''))
                 None None (''Missing analysis: '' @ show_reviews (ts_missing_reviews (the timeout_status)))
          else
           (case (billing, risk) of
              (Some b, Some r) \<Rightarrow>
                (let bs = Some (billing_summary_of b); rs = Some (risk_summary_of r);
                     confidence = compute_confidence (Some triage) billing risk
                 in if billing_finding_failed b \<or> risk_finding_failed r
                    then payload ESCALATE_HUMAN (Some ''peer_failure'') bs rs ''Peer analysis failed''
                    else if fb_requires_human_review b \<or> fr_requires_human_review r
                    then payload ESCALATE_HUMAN (Some ''peer_requested_review'') bs rs ''Peer requested human review''
                    else if confidence < CONFIDENCE_THRESHOLD
                    then payload ESCALATE_HUMAN (Some ''low_confidence'') bs rs
                           (''Confidence '' @ fmt_fixed 2 confidence @ '' below threshold ''
                            @ float_repr CONFIDENCE_THRESHOLD)
                    else if fb_eligibility b = Eligible \<and> fr_level r = Low
                    then payload APPROVE_REFUND None bs rs ''Eligible for refund; low risk''
                    else if fb_eligibility b = Ineligible \<and> fr_level r \<in> {Elevated, High}
                    then payload DENY_REFUND None bs rs ''Ineligible for refund; elevated/high risk''
                    else if fb_eligibility b = Partial \<and> fr_level r \<in> {Low, Elevated}
                    then payload OFFER_PARTIAL_CREDIT None bs rs ''Partial eligibility; acceptable risk''
                    else if fb_eligibility b = Indeterminate
                    then payload REQUEST_MORE_INFORMATION None bs rs ''Billing analysis inconclusive''
                    else payload ESCALATE_HUMAN (Some ''conflicting_analyses'') bs rs
                           (''Conflicting: billing='' @ eligibility_value (fb_eligibility b)
                            @ '', risk='' @ finding_level_value (fr_level r)))
            | _ \<Rightarrow> payload ESCALATE_HUMAN (Some ''missing_analysis'') None None
                    ''Required analysis result is missing'')))"

definition requires_human_approval :: "ResolutionOutcome \<Rightarrow> bool" where
  "requires_human_approval outcome \<longleftrightarrow> outcome \<in> set HUMAN_APPROVAL_OUTCOMES"

section \<open>Confidence is the weakest link\<close>

lemma fold_min_ge: "(t :: 'a :: linorder) \<le> fold min xs x \<longleftrightarrow> t \<le> x \<and> (\<forall>y \<in> set xs. t \<le> y)"
  by (induction xs arbitrary: x) auto

text \<open>The confidence reaches a positive threshold exactly when there is a score and every score does.\<close>

lemma confidence_reaches_iff:
  assumes "0 < t" "t \<le> 1"
  shows "t \<le> compute_confidence tr b r \<longleftrightarrow>
    confidence_scores tr b r \<noteq> [] \<and> (\<forall>s \<in> set (confidence_scores tr b r). t \<le> s)"
  using assms by (auto simp: compute_confidence_def le_max_iff_disj fold_min_ge split: list.splits)

lemma threshold_unit: "0 < CONFIDENCE_THRESHOLD" "CONFIDENCE_THRESHOLD \<le> 1"
  by (simp_all add: CONFIDENCE_THRESHOLD_def)

text \<open>Confidence is a unit value and the weakest link: it lies in the unit interval, and it
  reaches the threshold exactly when the triage, the billing opinion and the risk opinion that are
  present each reach it, so one more opinion never raises it.\<close>

theorem confidence_weakest_link:
  "in_unit (compute_confidence (Some t) b r)
   \<and> (CONFIDENCE_THRESHOLD \<le> compute_confidence (Some t) b r \<longleftrightarrow>
        CONFIDENCE_THRESHOLD \<le> tg_confidence t
        \<and> (\<forall>c. Option.bind b fb_confidence = Some c \<longrightarrow> CONFIDENCE_THRESHOLD \<le> c)
        \<and> (\<forall>s. Option.bind r fr_score = Some s \<longrightarrow> CONFIDENCE_THRESHOLD \<le> f_sub 1 s))"
proof
  show "in_unit (compute_confidence (Some t) b r)"
    by (auto simp: in_unit_def compute_confidence_def split: list.splits)
  show "CONFIDENCE_THRESHOLD \<le> compute_confidence (Some t) b r \<longleftrightarrow>
        CONFIDENCE_THRESHOLD \<le> tg_confidence t
        \<and> (\<forall>c. Option.bind b fb_confidence = Some c \<longrightarrow> CONFIDENCE_THRESHOLD \<le> c)
        \<and> (\<forall>s. Option.bind r fr_score = Some s \<longrightarrow> CONFIDENCE_THRESHOLD \<le> f_sub 1 s)"
    unfolding confidence_reaches_iff [OF threshold_unit]
    by (cases b; cases r) (auto simp: confidence_scores_def split: option.splits)
qed

theorem confidence_weakest_link_witness:
  "\<not> CONFIDENCE_THRESHOLD \<le> compute_confidence
      (Some (classify REFUND_INTENT_SIGNALS (sample_ticket\<lparr>tk_reason := ''hm''\<rparr>))) None None"
proof -
  have "\<not> CONFIDENCE_THRESHOLD \<le> tg_confidence (classify REFUND_INTENT_SIGNALS (sample_ticket\<lparr>tk_reason := ''hm''\<rparr>))"
    by code_simp
  then show ?thesis
    using confidence_weakest_link [of "classify REFUND_INTENT_SIGNALS (sample_ticket\<lparr>tk_reason := ''hm''\<rparr>)" None None]
    by simp
qed

section \<open>The decision table, row by row\<close>

declare TEMPLATES.simps [simp del]

lemma decision_payload_ok:
  assumes "outcome = ESCALATE_HUMAN \<Longrightarrow> \<exists>c s. reason = Some (c # s)"
  shows "decision_payload cid tk cu outcome reason bs rs rat =
    Inr \<lparr>dp_case_id = cid, dp_ticket_id = tk, dp_customer_id = cu, dp_outcome = outcome,
         dp_customer_response = TEMPLATES outcome, dp_escalation_reason = reason,
         dp_billing_summary = bs, dp_risk_summary = rs, dp_rationale = rat\<rparr>"
  using assms by (auto simp: decision_payload_def validate_escalation_reason_def)

text \<open>The table a decision follows: the outcome and the reason of an escalation.\<close>

definition is_missing :: "TimeoutStatus option \<Rightarrow> bool" where
  "is_missing ts = (case ts of None \<Rightarrow> False | Some t \<Rightarrow> ts_any_missing t)"

definition table_row ::
  "Triage \<Rightarrow> BillingFinding option \<Rightarrow> RiskFinding option \<Rightarrow> TimeoutStatus option \<Rightarrow> ResolutionOutcome \<times> string option" where
  "table_row t b r ts =
     (if \<not> tg_needs_refund_review t then (DIRECT_RESPONSE, None)
      else if is_missing ts
      then (ESCALATE_HUMAN, Some (if ts_deadline_exceeded (the ts) then ''analysis_timeout'' else ''missing_analysis''))
      else if b = None \<or> r = None then (ESCALATE_HUMAN, Some ''missing_analysis'')
      else if fb_requires_human_review (the b) \<or> fr_requires_human_review (the r)
      then (ESCALATE_HUMAN, Some ''peer_requested_review'')
      else if compute_confidence (Some t) b r < CONFIDENCE_THRESHOLD then (ESCALATE_HUMAN, Some ''low_confidence'')
      else (case (fb_eligibility (the b), fr_level (the r)) of
              (Eligible, Low) \<Rightarrow> (APPROVE_REFUND, None)
            | (Ineligible, Low) \<Rightarrow> (ESCALATE_HUMAN, Some ''conflicting_analyses'')
            | (Ineligible, _) \<Rightarrow> (DENY_REFUND, None)
            | (Partial, High) \<Rightarrow> (ESCALATE_HUMAN, Some ''conflicting_analyses'')
            | (Partial, _) \<Rightarrow> (OFFER_PARTIAL_CREDIT, None)
            | (Indeterminate, _) \<Rightarrow> (REQUEST_MORE_INFORMATION, None)
            | (Eligible, _) \<Rightarrow> (ESCALATE_HUMAN, Some ''conflicting_analyses'')))"

definition follows_row ::
  "uuid \<Rightarrow> string \<Rightarrow> string \<Rightarrow> ResolutionOutcome \<times> string option \<Rightarrow> exc + CustomerResponseDecisionPayload \<Rightarrow> bool" where
  "follows_row cid tk cu row d \<longleftrightarrow> (\<exists>bs rs rat. d =
     Inr \<lparr>dp_case_id = cid, dp_ticket_id = tk, dp_customer_id = cu, dp_outcome = fst row,
          dp_customer_response = TEMPLATES (fst row), dp_escalation_reason = snd row,
          dp_billing_summary = bs, dp_risk_summary = rs, dp_rationale = rat\<rparr>)"

lemma follows_row_payload:
  "out \<noteq> ESCALATE_HUMAN \<or> (\<exists>c s. reason = Some (c # s)) \<Longrightarrow>
     follows_row cid tk cu (out, reason) (decision_payload cid tk cu out reason bs rs rat)"
  by (auto simp: follows_row_def decision_payload_ok)

lemma decide_row:
  "follows_row (case cid of Some c \<Rightarrow> c | None \<Rightarrow> 0) tk cu (table_row t b r ts) (decide t b r pol ts dt cid tk cu)"
proof (cases "tg_needs_refund_review t \<and> \<not> is_missing ts \<and> b \<noteq> None \<and> r \<noteq> None")
  case False
  then consider "\<not> tg_needs_refund_review t" | "tg_needs_refund_review t" "is_missing ts"
    | "tg_needs_refund_review t" "\<not> is_missing ts" "b = None"
    | b' where "tg_needs_refund_review t" "\<not> is_missing ts" "b = Some b'" "r = None" by fastforce
  then show ?thesis
    by cases (simp_all add: decide_def table_row_def is_missing_def [symmetric] follows_row_payload)
next
  case True
  then obtain b' r' where br: "b = Some b'" "r = Some r'" by auto
  from True show ?thesis
    by (cases "fb_eligibility b'"; cases "fr_level r'")
      (simp_all add: br decide_def table_row_def is_missing_def [symmetric] Let_def billing_finding_failed_def
        risk_finding_failed_def follows_row_payload)
qed

lemma decide_outcome_iff:
  "(\<exists>p. decide t b r pol ts dt cid tk cu = Inr p \<and> Q (dp_outcome p) (dp_escalation_reason p))
     \<longleftrightarrow> Q (fst (table_row t b r ts)) (snd (table_row t b r ts))"
  using decide_row [of cid tk cu t b r ts pol dt] by (auto simp: follows_row_def)

text \<open>C11: a decision is always made. For every triage, findings, policy and timeout status the engine
  returns a payload for the case it was asked about, never an exception; the customer text is the
  template of its outcome and contains no internal field name, and exactly the escalations carry a
  reason, a non-empty one.\<close>

theorem decide_total:
  "\<exists>p. decide t b r pol ts dt (Some cid) tk cu = Inr p \<and> dp_case_id p = cid \<and> dp_ticket_id p = tk
     \<and> dp_customer_id p = cu \<and> dp_customer_response p = TEMPLATES (dp_outcome p)
     \<and> leak_free (dp_customer_response p)
     \<and> (case dp_escalation_reason p of None \<Rightarrow> dp_outcome p \<noteq> ESCALATE_HUMAN
        | Some reason \<Rightarrow> dp_outcome p = ESCALATE_HUMAN \<and> reason \<noteq> [])"
proof -
  have "case snd (table_row t b r ts) of None \<Rightarrow> fst (table_row t b r ts) \<noteq> ESCALATE_HUMAN
    | Some reason \<Rightarrow> fst (table_row t b r ts) = ESCALATE_HUMAN \<and> reason \<noteq> []"
    by (simp add: table_row_def split: eligibility.splits finding_level.splits)
  with decide_row [of "Some cid" tk cu t b r ts pol dt] show ?thesis
    by (auto simp: follows_row_def template_leak_free split: option.splits)
qed

text \<open>C10: when a refund is approved: exactly when the ticket is under refund review, nothing is missing,
  both opinions are there and neither asks for a human, every confidence reaches 0.6, billing finds
  the customer eligible and the risk is low. The requested amount and the policy context play no
  part.\<close>

theorem decide_approve_iff:
  "(\<exists>p. decide t b r pol ts dt cid tk cu = Inr p \<and> dp_outcome p = APPROVE_REFUND) \<longleftrightarrow>
     tg_needs_refund_review t \<and> \<not> is_missing ts
     \<and> (\<exists>b' r'. b = Some b' \<and> r = Some r' \<and> \<not> fb_requires_human_review b' \<and> \<not> fr_requires_human_review r'
          \<and> fb_eligibility b' = Eligible \<and> fr_level r' = Low)
     \<and> CONFIDENCE_THRESHOLD \<le> compute_confidence (Some t) b r"
proof -
  have "(\<exists>p. decide t b r pol ts dt cid tk cu = Inr p \<and> dp_outcome p = APPROVE_REFUND)
    \<longleftrightarrow> fst (table_row t b r ts) = APPROVE_REFUND"
    by (rule decide_outcome_iff)
  also have "\<dots> \<longleftrightarrow> tg_needs_refund_review t \<and> \<not> is_missing ts
     \<and> (\<exists>b' r'. b = Some b' \<and> r = Some r' \<and> \<not> fb_requires_human_review b' \<and> \<not> fr_requires_human_review r'
          \<and> fb_eligibility b' = Eligible \<and> fr_level r' = Low)
     \<and> CONFIDENCE_THRESHOLD \<le> compute_confidence (Some t) b r"
    by (cases b; cases r) (auto simp: table_row_def split: eligibility.splits finding_level.splits)
  finally show ?thesis .
qed

text \<open>An ambiguous ticket is never approved, denied or credited: the deterministic triage gives it
  confidence 0.5, so once both opinions are in and unflagged the case goes to a human with reason
  \<^verbatim>\<open>low_confidence\<close>.\<close>

theorem ambiguous_ticket_escalates:
  assumes "iteration_order signals" "tg_ambiguous (classify signals ticket)"
    and "\<not> is_missing ts" "\<not> fb_requires_human_review b" "\<not> fr_requires_human_review r"
  shows "\<exists>p. decide (classify signals ticket) (Some b) (Some r) pol ts dt cid tk cu = Inr p
    \<and> dp_outcome p = ESCALATE_HUMAN \<and> dp_escalation_reason p = Some ''low_confidence''"
proof -
  have t: "tg_needs_refund_review (classify signals ticket)" "tg_confidence (classify signals ticket) = 1 / 2"
    using assms(2) by (cases rule: classify_cases [OF assms(1), of ticket]; simp)+
  then have "\<not> CONFIDENCE_THRESHOLD \<le> tg_confidence (classify signals ticket)"
    by (simp add: CONFIDENCE_THRESHOLD_def)
  then have "compute_confidence (Some (classify signals ticket)) (Some b) (Some r) < CONFIDENCE_THRESHOLD"
    unfolding not_le [symmetric] confidence_reaches_iff [OF threshold_unit] by (simp add: confidence_scores_def)
  then have "table_row (classify signals ticket) (Some b) (Some r) ts = (ESCALATE_HUMAN, Some ''low_confidence'')"
    using t(1) assms(3-5) by (simp add: table_row_def)
  then show ?thesis by (simp add: decide_outcome_iff [where Q = "\<lambda>out reason. out = ESCALATE_HUMAN \<and> reason = Some ''low_confidence''"])
qed

theorem ambiguous_ticket_escalates_witness:
  "\<exists>p. decide (classify REFUND_INTENT_SIGNALS (sample_ticket\<lparr>tk_reason := ''hm''\<rparr>)) (Some sample_billing)
        (Some sample_risk) None None None None [] [] = Inr p
    \<and> dp_outcome p = ESCALATE_HUMAN \<and> dp_escalation_reason p = Some ''low_confidence''"
proof -
  have "tg_ambiguous (classify REFUND_INTENT_SIGNALS (sample_ticket\<lparr>tk_reason := ''hm''\<rparr>))" by code_simp
  then show ?thesis
    by (intro ambiguous_ticket_escalates [OF iteration_order_source(1)])
      (simp_all add: is_missing_def sample_billing_def sample_risk_def)
qed

text \<open>
  The decision contract (\<^verbatim>\<open>decision-policy.md\<close>, part C, rows 4 to 7) for a confident case in which no
  peer asks for a human: elevated or high risk escalates, then an ineligible customer is denied, then
  an eligible one is approved.
\<close>

definition contract_outcome :: "bool \<Rightarrow> finding_level \<Rightarrow> ResolutionOutcome" where
  "contract_outcome eligible level =
     (if level \<in> {Elevated, High} then ESCALATE_HUMAN
      else if \<not> eligible then DENY_REFUND else APPROVE_REFUND)"

text \<open>C23: the engine against the decision contract. On a confident refund case with unflagged opinions
  and a binary eligibility, an eligible customer gets the contract's outcome. An ineligible one gets the opposite
  of it: at low risk the contract denies and the engine escalates to a human as conflicting
  analyses, at elevated or high risk the contract escalates and the engine denies.\<close>

theorem decide_versus_contract:
  assumes "tg_needs_refund_review t" "\<not> is_missing ts"
    and "\<not> fb_requires_human_review b" "\<not> fr_requires_human_review r"
    and "CONFIDENCE_THRESHOLD \<le> compute_confidence (Some t) (Some b) (Some r)"
    and "fb_eligibility b \<in> {Eligible, Ineligible}"
  shows "\<exists>p. decide t (Some b) (Some r) pol ts dt cid tk cu = Inr p
    \<and> (finding_eligible b \<longrightarrow> dp_outcome p = contract_outcome True (fr_level r))
    \<and> (\<not> finding_eligible b \<and> fr_level r = Low \<longrightarrow>
         dp_outcome p = ESCALATE_HUMAN \<and> dp_escalation_reason p = Some ''conflicting_analyses''
         \<and> contract_outcome False (fr_level r) = DENY_REFUND)
    \<and> (\<not> finding_eligible b \<and> fr_level r \<noteq> Low \<longrightarrow>
         dp_outcome p = DENY_REFUND \<and> contract_outcome False (fr_level r) = ESCALATE_HUMAN)"
proof -
  have "table_row t (Some b) (Some r) ts =
      (if finding_eligible b then if fr_level r = Low then (APPROVE_REFUND, None) else (ESCALATE_HUMAN, Some ''conflicting_analyses'')
       else if fr_level r = Low then (ESCALATE_HUMAN, Some ''conflicting_analyses'') else (DENY_REFUND, None))"
    using assms by (cases "fr_level r") (auto simp: table_row_def finding_eligible_def)
  with decide_row [of cid tk cu t "Some b" "Some r" ts pol dt] show ?thesis
    by (cases "fr_level r") (auto simp: follows_row_def contract_outcome_def)
qed

theorem decide_versus_contract_witness:
  "\<exists>p. decide (classify REFUND_INTENT_SIGNALS sample_ticket) (Some (sample_billing\<lparr>fb_eligibility := Ineligible\<rparr>))
        (Some sample_risk) None None None None [] [] = Inr p
    \<and> dp_outcome p = ESCALATE_HUMAN \<and> contract_outcome False (fr_level sample_risk) = DENY_REFUND"
proof -
  have "CONFIDENCE_THRESHOLD \<le> compute_confidence (Some (classify REFUND_INTENT_SIGNALS sample_ticket))
      (Some (sample_billing\<lparr>fb_eligibility := Ineligible\<rparr>)) (Some sample_risk)"
    "tg_needs_refund_review (classify REFUND_INTENT_SIGNALS sample_ticket)" by code_simp+
  then show ?thesis
    using decide_versus_contract [of "classify REFUND_INTENT_SIGNALS sample_ticket" None
        "sample_billing\<lparr>fb_eligibility := Ineligible\<rparr>" sample_risk None None None "[]" "[]"]
    by (auto simp: is_missing_def sample_billing_def sample_risk_def finding_eligible_def)
qed

text \<open>One evidence entry per opinion that is present, in the order triage, billing, risk.\<close>

lemma build_evidence_sources:
  "map (\<lambda>e. dict_get e ''source'') (build_evidence t b r) =
     (if t = None then [] else [Some (VStr ''classification'')]) @ (if b = None then [] else [Some (VStr ''billing'')])
     @ (if r = None then [] else [Some (VStr ''risk'')])"
  by (simp add: build_evidence_def split: option.splits)

end
