(* ===== verification/Resolution_Handlers.thy ===== *)
theory Resolution_Handlers
  imports Decision_Engine
begin

text \<open>
  The Customer-Resolution agent's handlers: \<^verbatim>\<open>event_handlers.py\<close>, \<^verbatim>\<open>a2a_handlers.py\<close> and the sweep of
  \<^verbatim>\<open>reaper.py\<close>. A handler is a computation on the network state extended by the case store; an
  exception keeps the effects performed before it. A store operation reads the clock once.

  What lies outside the modelled code is the record \<open>cr_params\<close>: pydantic's validation of inbound
  payloads and of numbers, Python's \<^verbatim>\<open>float()\<close>, \<^verbatim>\<open>uuid5\<close>, the answers of peer discovery, the
  assistive runtime, the iteration order of the vocabulary and the configured case deadline.
\<close>

section \<open>World and parameters\<close>

record cr_world = net +
  cw_store :: case_store

record cr_params =
  cp_signals :: "string list"
  cp_llm_enabled :: bool
  cp_assist :: classify_assist
  cp_find_capable :: "string \<Rightarrow> nat \<Rightarrow> exc + AgentCard list"
  cp_uuid5 :: "uuid \<Rightarrow> string \<Rightarrow> uuid"
  cp_deadline_seconds :: int
  cp_validate_ticket :: "(string, pyval) dict \<Rightarrow> SupportTicketCreatedPayload option"
  cp_validate_task_result :: "(string, pyval) dict \<Rightarrow> TaskResult option"
  cp_validate_billing :: "(string, pyval) dict \<Rightarrow> BillingRefundAnalysisCompletedPayload option"
  cp_validate_risk :: "(string, pyval) dict \<Rightarrow> RiskReviewCompletedPayload option"
  cp_number_field :: "pyval \<Rightarrow> pyfloat option"
  cp_float :: "pyval \<Rightarrow> pyfloat option"

definition AGENT_ID :: string where
  "AGENT_ID = ''customer-resolution-agent''"

definition BILLING_CAPABILITY_ID :: string where
  "BILLING_CAPABILITY_ID = ''analyze_refund_eligibility''"

definition BILLING_PEER_AGENT_ID :: string where
  "BILLING_PEER_AGENT_ID = ''billing-entitlement-agent''"

definition RISK_CAPABILITY_ID :: string where
  "RISK_CAPABILITY_ID = ''assess_fraud_risk''"

definition RISK_PEER_AGENT_ID :: string where
  "RISK_PEER_AGENT_ID = ''risk-fraud-agent''"

definition DELEGATION_TIMEOUT_SECONDS :: int where
  "DELEGATION_TIMEOUT_SECONDS = 30"

definition cr_identity :: AgentIdentity where
  "cr_identity = \<lparr>id_agent_id = AGENT_ID, id_display_name = ''Customer Resolution Agent'', id_tenant_id = ''poc''\<rparr>"

definition build_agent_card :: "string \<Rightarrow> AgentCard" where
  "build_agent_card env =
     \<lparr>card_agent_id = AGENT_ID, card_name = ''Customer Resolution Agent'',
      card_description = ''Resolves customer support tickets by triaging refund requests, ''
        @ ''delegating billing and risk analyses, and emitting final decisions.'',
      card_version = ''1.0.0'', card_endpoint_topic = endpoint_topic env AGENT_ID,
      card_capabilities =
        [\<lparr>cap_id = ''resolve_customer_case'', cap_name = ''Resolve Customer Case'',
          cap_description = ''Resolves a customer case by coordinating billing and risk analyses.'',
          cap_tags = [''resolution'', ''refund'']\<rparr>]\<rparr>"

text \<open>Store operations inside a handler.\<close>

type_synonym 'a cr_io = "(cr_world, 'a) io"

definition on_store :: "(case_store \<Rightarrow> 'a \<times> case_store) \<Rightarrow> 'a cr_io" where
  "on_store f = (\<lambda>w. case f (cw_store w) of (x, st) \<Rightarrow> (Inr x, w\<lparr>cw_store := st\<rparr>))"

definition on_store_exc :: "(case_store \<Rightarrow> exc + 'a \<times> case_store) \<Rightarrow> 'a cr_io" where
  "on_store_exc f = (\<lambda>w. case f (cw_store w) of
     Inl e \<Rightarrow> (Inl e, w) | Inr (x, st) \<Rightarrow> (Inr x, w\<lparr>cw_store := st\<rparr>))"

definition read_case :: "uuid \<Rightarrow> ResolutionCase option cr_io" where
  "read_case cid = get_io (\<lambda>w. store_get (cw_store w) cid)"

definition assign :: "uuid \<Rightarrow> (ResolutionCase \<Rightarrow> ResolutionCase) \<Rightarrow> unit cr_io" where
  "assign cid f = on_store (\<lambda>st. ((), upd_case cid f st))"

text \<open>\<^verbatim>\<open>store.save(case)\<close> of the object the store holds.\<close>

definition save_case :: "runtime_env \<Rightarrow> uuid \<Rightarrow> unit cr_io" where
  "save_case E cid =
     bind_io (now_io E) (\<lambda>now.
     on_store_exc (\<lambda>st. case store_get st cid of
        None \<Rightarrow> Inr ((), st)
      | Some c \<Rightarrow> map_sum id (\<lambda>(c', st'). ((), st')) (save now c None st)))"

definition with_case :: "uuid \<Rightarrow> (ResolutionCase \<Rightarrow> unit cr_io) \<Rightarrow> unit cr_io" where
  "with_case cid k = bind_io (read_case cid) (\<lambda>r. case r of None \<Rightarrow> return_io () | Some c \<Rightarrow> k c)"

section \<open>Normalization of peer results\<close>

text \<open>The mapping of billing recommendations, shared by both billing paths.\<close>

definition eligibility_of_recommendation :: "string \<Rightarrow> eligibility" where
  "eligibility_of_recommendation rec =
     (if rec \<in> {''approve_full_refund'', ''approve'', ''eligible'', ''refund''} then Eligible
      else if rec = ''approve_partial_refund'' then Partial
      else if rec \<in> {''deny_refund'', ''deny'', ''ineligible'', ''reject''} then Ineligible
      else if rec \<in> {''request_more_information'', ''manual_review''} then Indeterminate
      else if rec = ''partial_refund'' then Partial
      else Indeterminate)"

text \<open>An optional number and a text field of a finding: absent, valid or a validation error.\<close>

definition number_field :: "cr_params \<Rightarrow> (string, pyval) dict \<Rightarrow> string \<Rightarrow> pyfloat option option" where
  "number_field P data k =
     (case dict_get data k of
        None \<Rightarrow> Some None
      | Some VNone \<Rightarrow> Some None
      | Some v \<Rightarrow> map_option Some (cp_number_field P v))"

definition text_field :: "(string, pyval) dict \<Rightarrow> string \<Rightarrow> string option" where
  "text_field data k = (case dict_get data k of None \<Rightarrow> Some [] | Some (VStr s) \<Rightarrow> Some s | _ \<Rightarrow> None)"

definition review_flag :: "(string, pyval) dict \<Rightarrow> bool" where
  "review_flag data = (case dict_get data ''requires_human_review'' of None \<Rightarrow> False | Some v \<Rightarrow> truthy v)"

definition normalize_billing_result ::
  "cr_params \<Rightarrow> uuid \<Rightarrow> string \<Rightarrow> (string, pyval) dict \<Rightarrow> BillingFinding option" where
  "normalize_billing_result P task_id performer data =
     (case dict_get data ''recommendation'' of
        Some (VStr r) \<Rightarrow>
          (case (number_field P data ''confidence'', text_field data ''reasoning_summary'') of
             (Some conf, Some summary) \<Rightarrow>
               Some \<lparr>fb_eligibility = eligibility_of_recommendation (py_lower r),
                     fb_requires_human_review = review_flag data, fb_confidence = conf, fb_summary = summary,
                     fb_performer_agent_id = performer, fb_task_id = Some task_id\<rparr>
           | _ \<Rightarrow> None)
      | Some _ \<Rightarrow> None
      | None \<Rightarrow>
          (case dict_get data ''eligible'' of
             None \<Rightarrow> None
           | Some v \<Rightarrow>
               map_option (\<lambda>e. \<lparr>fb_eligibility = e, fb_requires_human_review = False, fb_confidence = None,
                               fb_summary = [], fb_performer_agent_id = performer, fb_task_id = Some task_id\<rparr>)
                 (case v of
                    VBool b \<Rightarrow> Some (if b then Eligible else Ineligible)
                  | VStr s \<Rightarrow>
                      Some (if s = ''eligible'' then Eligible else if s = ''partial'' then Partial
                            else if s = ''ineligible'' then Ineligible
                            else if s = ''indeterminate'' then Indeterminate
                            else if py_lower s = ''true'' then Eligible else Ineligible)
                  | _ \<Rightarrow> None)))"

definition risk_level_from_score :: "pyfloat \<Rightarrow> pyfloat \<Rightarrow> pyfloat \<Rightarrow> finding_level" where
  "risk_level_from_score score elevated high =
     (if score \<ge> high then High else if score \<ge> elevated then Elevated else Low)"

definition uncertainty_from_confidence :: "pyfloat option \<Rightarrow> pyfloat option" where
  "uncertainty_from_confidence confidence = map_option (\<lambda>c. max 0 (min 1 (f_sub 1 c))) confidence"

text \<open>The words of a risk recommendation; any other word is read off a score.\<close>

definition level_of_recommendation :: "string \<Rightarrow> finding_level option" where
  "level_of_recommendation rec =
     (if rec \<in> {''low'', ''approve'', ''acceptable''} then Some Low
      else if rec = ''elevated'' then Some Elevated
      else if rec \<in> {''high'', ''deny'', ''block''} then Some High
      else None)"

definition normalize_risk_result ::
  "cr_params \<Rightarrow> uuid \<Rightarrow> string \<Rightarrow> (string, pyval) dict \<Rightarrow> pyfloat \<Rightarrow> pyfloat \<Rightarrow> RiskFinding option" where
  "normalize_risk_result P task_id performer data elevated_threshold high_threshold =
     (case dict_get data ''recommendation'' of
        Some (VStr r) \<Rightarrow>
          (let scored = (case dict_get data ''score'' of
                           Some v \<Rightarrow> cp_float P v
                         | None \<Rightarrow> (case dict_get data ''confidence'' of Some v \<Rightarrow> cp_float P v | None \<Rightarrow> Some 0));
               level = (case level_of_recommendation (py_lower r) of
                          Some l \<Rightarrow> Some l
                        | None \<Rightarrow> map_option (\<lambda>s. risk_level_from_score s elevated_threshold high_threshold) scored);
               score = (case dict_get data ''confidence'' of
                          None \<Rightarrow> Some None
                        | Some VNone \<Rightarrow> Some None
                        | Some v \<Rightarrow> map_option (\<lambda>c. uncertainty_from_confidence (Some c)) (cp_float P v))
           in case (level, score, text_field data ''reasoning_summary'') of
                (Some l, Some s, Some summary) \<Rightarrow>
                  Some \<lparr>fr_level = l, fr_requires_human_review = review_flag data, fr_score = s,
                        fr_summary = summary, fr_performer_agent_id = performer, fr_task_id = Some task_id\<rparr>
              | _ \<Rightarrow> None)
      | Some _ \<Rightarrow> None
      | None \<Rightarrow>
          (case dict_get data ''risk'' of
             None \<Rightarrow> None
           | Some v \<Rightarrow>
               (let word = (case v of VStr s \<Rightarrow> py_lower s | _ \<Rightarrow> []);
                    l = (if word = ''elevated'' then Elevated else if word = ''high'' then High else Low)
                in map_option (\<lambda>s. \<lparr>fr_level = l, fr_requires_human_review = False, fr_score = s,
                                   fr_summary = [], fr_performer_agent_id = performer, fr_task_id = Some task_id\<rparr>)
                     (number_field P data ''score''))))"

section \<open>Emitting a decision\<close>

text \<open>What follows the decision event: its audit record and the drafted response that cites it.\<close>

definition emit_draft ::
  "runtime_env \<Rightarrow> ResolutionCase \<Rightarrow> CustomerResponseDecisionPayload \<Rightarrow> EventEnvelope \<Rightarrow> EventEnvelope cr_io" where
  "emit_draft E c decision decided =
     then_io (assign (rc_case_id c) (\<lambda>c. c\<lparr>rc_decided_event_id := Some (en_event_id decided)\<rparr>))
     (then_io
       (try_io (write_audit E cr_identity decided AuditCompleted
                  (Some (''decision: '' @ outcome_value (dp_outcome decision))))
          (\<lambda>_. return_io ()))
     (bind_io (now_io E) (\<lambda>drafted_at.
      bind_io (lift_exc (validate_draft_payload
         \<lparr>dr_case_id = rc_correlation_id c, dr_ticket_id = dp_ticket_id decision,
          dr_customer_id = dp_customer_id decision, dr_decision_event_id = en_event_id decided,
          dr_outcome = dp_outcome decision, dr_draft_response = dp_customer_response decision,
          dr_requires_human_approval = requires_human_approval (dp_outcome decision),
          dr_drafted_by_agent_id = ''customer-resolution-agent'', dr_drafted_at = drafted_at\<rparr>)) (\<lambda>draft.
      bind_io (publish E cr_identity (MDrafted draft) (TOPIC_RESPONSE_DRAFTED (re_environment E))
                 (rc_correlation_id c) (Some (en_event_id decided)) None) (\<lambda>drafted.
      then_io (assign (rc_case_id c) (\<lambda>c. c\<lparr>rc_drafted_event_id := Some (en_event_id drafted)\<rparr>))
        (return_io decided))))))"

definition emit_decision_and_draft ::
  "runtime_env \<Rightarrow> ResolutionCase \<Rightarrow> CustomerResponseDecisionPayload \<Rightarrow> uuid \<Rightarrow> EventEnvelope cr_io" where
  "emit_decision_and_draft E c decision causation_id =
     bind_io (publish E cr_identity (MDecision decision) (TOPIC_RESOLUTION_DECIDED (re_environment E))
                (rc_correlation_id c) (Some causation_id) None)
       (emit_draft E c decision)"

text \<open>The triage a case without one is decided with.\<close>

definition no_triage :: Triage where
  "no_triage = \<lparr>tg_needs_refund_review = True, tg_ambiguous = True, tg_matched_signals = [],
     tg_rationale = ''No triage available'', tg_issue_type = ''unknown'', tg_confidence = 1\<rparr>"

definition default_policy :: PolicyContext where
  "default_policy = \<lparr>pc_max_auto_refund_amount = 1000, pc_partial_credit_fraction = fl (5 / 10)\<rparr>"

definition case_decision ::
  "ResolutionCase \<Rightarrow> TimeoutStatus \<Rightarrow> instant \<Rightarrow> exc + CustomerResponseDecisionPayload" where
  "case_decision c ts decided_at =
     decide (case rc_triage c of Some t \<Rightarrow> t | None \<Rightarrow> no_triage) (rc_billing_result c) (rc_risk_result c)
       (Some default_policy) (Some ts) (Some decided_at) (Some (rc_correlation_id c)) (rc_ticket_id c)
       (rc_customer_id c)"

definition apply_decision :: "runtime_env \<Rightarrow> uuid \<Rightarrow> uuid + uuid option \<Rightarrow> unit cr_io" where
  "apply_decision E cid cause =
     bind_io (now_io E) (\<lambda>t0.
     bind_io (on_store (claim_decision t0 cid)) (\<lambda>claimed.
     if \<not> claimed then return_io ()
     else with_case cid (\<lambda>c.
       bind_io (case cause of
                  Inl event_id \<Rightarrow> return_io event_id
                | Inr (Some u) \<Rightarrow> return_io u
                | Inr None \<Rightarrow> uuid4_io E) (\<lambda>causation_id.
       bind_io (now_io E) (\<lambda>t1.
       bind_io (now_io E) (\<lambda>t2.
       bind_io (lift_exc (case_decision c (build_timeout_status c t1) t2)) (\<lambda>decision.
       then_io (emit_decision_and_draft E c decision causation_id)
       (then_io (assign cid (\<lambda>c. c\<lparr>rc_status := DECIDED\<rparr>))
         (save_case E cid)))))))))"

section \<open>Delegation to the peers\<close>

definition validate_capability_of :: "cr_params \<Rightarrow> string \<Rightarrow> string \<Rightarrow> exc \<Rightarrow> AgentCard cr_io" where
  "validate_capability_of P capability peer missing =
     bind_io (get_io nt_ticks) (\<lambda>n.
     bind_io (lift_exc (cp_find_capable P capability n)) (\<lambda>cards.
     case find (\<lambda>agent_card. card_agent_id agent_card = peer) cards of
       Some agent_card \<Rightarrow> return_io agent_card
     | None \<Rightarrow> raise_io missing))"

definition validate_risk_capability :: "cr_params \<Rightarrow> AgentCard cr_io" where
  "validate_risk_capability P =
     validate_capability_of P RISK_CAPABILITY_ID RISK_PEER_AGENT_ID
       (RiskPeerUnavailable (''No published card for '' @ RISK_PEER_AGENT_ID @ '' declares capability ''
          @ RISK_CAPABILITY_ID))"

definition validate_billing_capability :: "cr_params \<Rightarrow> AgentCard cr_io" where
  "validate_billing_capability P =
     validate_capability_of P BILLING_CAPABILITY_ID BILLING_PEER_AGENT_ID
       (BillingPeerUnavailable (''No published card for '' @ BILLING_PEER_AGENT_ID @ '' declares ''
          @ BILLING_CAPABILITY_ID))"

definition dump_risk_input :: "RiskAnalysisRequestInput \<Rightarrow> (string, pyval) dict" where
  "dump_risk_input i =
     [(''case_id'', VStr (show_uuid (rai_case_id i))), (''ticket_id'', VStr (rai_ticket_id i)),
      (''customer_id'', VStr (rai_customer_id i)),
      (''requested_refund_amount'', VFloat (rai_requested_refund_amount i)),
      (''customer_message_summary'', VStr (rai_customer_message_summary i))]"

definition dump_billing_input :: "BillingAnalysisRequestInput \<Rightarrow> (string, pyval) dict" where
  "dump_billing_input i =
     [(''case_id'', VStr (show_uuid (bai_case_id i))), (''ticket_id'', VStr (bai_ticket_id i)),
      (''customer_id'', VStr (bai_customer_id i)),
      (''requested_refund_amount'', VFloat (bai_requested_refund_amount i)),
      (''purchase_reference'', VStr (bai_purchase_reference i)),
      (''customer_message_summary'', VStr (bai_customer_message_summary i)),
      (''policy_context'', VStr (bai_policy_context i))]"

definition mint_risk_task :: "cr_params \<Rightarrow> uuid \<Rightarrow> unit cr_io" where
  "mint_risk_task P cid =
     assign cid (\<lambda>c. if rc_risk_task_id c = None
       then c\<lparr>rc_risk_task_id := Some (cp_uuid5 P (rc_correlation_id c) RISK_CAPABILITY_ID)\<rparr> else c)"

definition mint_billing_task :: "cr_params \<Rightarrow> uuid \<Rightarrow> unit cr_io" where
  "mint_billing_task P cid =
     assign cid (\<lambda>c. if rc_billing_task_id c = None
       then c\<lparr>rc_billing_task_id := Some (cp_uuid5 P (rc_correlation_id c) BILLING_CAPABILITY_ID)\<rparr> else c)"

definition request_risk_analysis :: "runtime_env \<Rightarrow> cr_params \<Rightarrow> uuid \<Rightarrow> EventEnvelope \<Rightarrow> unit cr_io" where
  "request_risk_analysis E P cid ticket_envelope =
     then_io (validate_risk_capability P)
     (then_io (mint_risk_task P cid)
     (with_case cid (\<lambda>c.
        then_io (publish E cr_identity
            (MTaskRequest
               \<lparr>tq_task_id = the (rc_risk_task_id c), tq_capability = RISK_CAPABILITY_ID,
                tq_requester_agent_id = AGENT_ID, tq_target_agent_id = RISK_PEER_AGENT_ID,
                tq_input = data_message User (dump_risk_input (build_risk_request_input c))\<rparr>)
            ''agent.task_request.v1'' (rc_correlation_id c) (Some (en_event_id ticket_envelope))
            (Some (endpoint_topic (re_environment E) RISK_PEER_AGENT_ID)))
          (return_io ()))))"

definition request_billing_analysis :: "runtime_env \<Rightarrow> cr_params \<Rightarrow> uuid \<Rightarrow> EventEnvelope \<Rightarrow> unit cr_io" where
  "request_billing_analysis E P cid ticket_envelope =
     then_io (validate_billing_capability P)
     (then_io (mint_billing_task P cid)
     (with_case cid (\<lambda>c.
        then_io (publish E cr_identity
            (MTaskRequest
               \<lparr>tq_task_id = the (rc_billing_task_id c), tq_capability = BILLING_CAPABILITY_ID,
                tq_requester_agent_id = AGENT_ID, tq_target_agent_id = BILLING_PEER_AGENT_ID,
                tq_input = data_message User (dump_billing_input (build_billing_request_input c))\<rparr>)
            ''agent.task_request.v1'' (rc_correlation_id c) (Some (en_event_id ticket_envelope))
            (Some (endpoint_topic (re_environment E) BILLING_PEER_AGENT_ID)))
          (return_io ()))))"

definition build_refund_review_requested ::
  "ResolutionCase \<Rightarrow> uuid \<Rightarrow> uuid \<Rightarrow> int option \<Rightarrow> instant \<Rightarrow> exc + RefundReviewRequestedPayload" where
  "build_refund_review_requested c billing_task risk_task timeout_seconds requested_at =
     validate_reviews
       \<lparr>rr_case_id = rc_correlation_id c, rr_ticket_id = rc_ticket_id c, rr_customer_id = rc_customer_id c,
        rr_requested_reviews = [''billing'', ''risk''], rr_billing_task_id = billing_task,
        rr_risk_task_id = risk_task, rr_timeout_seconds = timeout_seconds,
        rr_requested_by_agent_id = ''customer-resolution-agent'', rr_requested_at = requested_at\<rparr>"

definition announce_review :: "runtime_env \<Rightarrow> uuid \<Rightarrow> EventEnvelope \<Rightarrow> unit cr_io" where
  "announce_review E cid ticket_envelope =
     with_case cid (\<lambda>c.
       case (rc_billing_task_id c, rc_risk_task_id c) of
         (Some bt, Some rt) \<Rightarrow>
           bind_io (now_io E) (\<lambda>requested_at.
           bind_io (lift_exc (build_refund_review_requested c bt rt (Some DELEGATION_TIMEOUT_SECONDS) requested_at))
             (\<lambda>announcement.
           then_io (publish E cr_identity (MReviewRequested announcement)
               (TOPIC_REFUND_REVIEW_REQUESTED (re_environment E)) (rc_correlation_id c)
               (Some (en_event_id ticket_envelope)) None)
             (return_io ())))
       | _ \<Rightarrow> return_io ())"

definition add_pending :: "uuid \<Rightarrow> (ResolutionCase \<Rightarrow> uuid option) \<Rightarrow> unit cr_io" where
  "add_pending cid task =
     with_case cid (\<lambda>c. on_store_exc (\<lambda>st. map_sum id (\<lambda>st'. ((), st')) (add_pending_task cid (the (task c)) st)))"

definition delegate :: "runtime_env \<Rightarrow> cr_params \<Rightarrow> uuid \<Rightarrow> EventEnvelope \<Rightarrow> unit cr_io" where
  "delegate E P cid ticket_envelope =
     then_io (mint_billing_task P cid)
     (then_io (mint_risk_task P cid)
     (then_io (add_pending cid rc_billing_task_id)
     (then_io (add_pending cid rc_risk_task_id)
     (then_io (request_billing_analysis E P cid ticket_envelope)
     (then_io (request_risk_analysis E P cid ticket_envelope)
       (announce_review E cid ticket_envelope))))))"

section \<open>Ticket intake\<close>

text \<open>
  \<^verbatim>\<open>datetime.fromtimestamp(now.timestamp() + seconds)\<close>: the instant becomes a float number of
  seconds, and the sum is split into whole seconds and microseconds, rounded half to even.
\<close>

definition deadline_after :: "instant \<Rightarrow> int \<Rightarrow> instant" where
  "deadline_after now secs =
     (let t = f_add (fl (of_int now / 1000000)) (of_int secs);
          whole = (if 0 \<le> t then \<lfloor>t\<rfloor> else \<lceil>t\<rceil>);
          micros = round_half_even (f_mul (t - of_int whole) 1000000)
      in whole * 1000000 + micros)"

definition intake_triage :: "cr_params \<Rightarrow> SupportTicketCreatedPayload \<Rightarrow> EventEnvelope \<Rightarrow> Triage" where
  "intake_triage P ticket envelope =
     (if cp_llm_enabled P
      then (case classify_with_llm (cp_signals P) (cp_assist P) ticket (en_correlation_id envelope) (en_event_id envelope) of
              Inr triage \<Rightarrow> triage
            | Inl _ \<Rightarrow> classify (cp_signals P) ticket)
      else classify (cp_signals P) ticket)"

definition direct_response :: "runtime_env \<Rightarrow> uuid \<Rightarrow> SupportTicketCreatedPayload \<Rightarrow> Triage \<Rightarrow> EventEnvelope \<Rightarrow> unit cr_io" where
  "direct_response E cid ticket triage envelope =
     with_case cid (\<lambda>c.
     bind_io (lift_exc (decision_payload (rc_correlation_id c) (tk_ticket_id ticket) (tk_customer_id ticket)
                DIRECT_RESPONSE None None None (tg_rationale triage))) (\<lambda>decision.
     then_io (emit_decision_and_draft E c decision (en_event_id envelope))
     (then_io (assign cid (\<lambda>c. c\<lparr>rc_status := CLOSED\<rparr>))
       (save_case E cid))))"

definition delegation_failed :: "runtime_env \<Rightarrow> uuid \<Rightarrow> SupportTicketCreatedPayload \<Rightarrow> EventEnvelope \<Rightarrow> exc \<Rightarrow> unit cr_io" where
  "delegation_failed E cid ticket envelope e =
     with_case cid (\<lambda>c.
     bind_io (lift_exc (decision_payload (rc_correlation_id c) (tk_ticket_id ticket) (tk_customer_id ticket)
                ESCALATE_HUMAN (Some ''peer_failure'') None None (''Delegation failed: '' @ str_exc e))) (\<lambda>decision.
     then_io (emit_decision_and_draft E c decision (en_event_id envelope))
     (then_io (assign cid (\<lambda>c. c\<lparr>rc_status := ESCALATED\<rparr>))
       (save_case E cid))))"

definition start_review :: "runtime_env \<Rightarrow> cr_params \<Rightarrow> uuid \<Rightarrow> SupportTicketCreatedPayload \<Rightarrow> EventEnvelope \<Rightarrow> unit cr_io" where
  "start_review E P cid ticket envelope =
     then_io (assign cid (\<lambda>c. c\<lparr>rc_status := WAITING_FOR_PEER_REVIEWS\<rparr>))
     (bind_io (now_io E) (\<lambda>now_ts.
     then_io (assign cid (\<lambda>c. c\<lparr>rc_deadline_at := Some (deadline_after now_ts (cp_deadline_seconds P))\<rparr>))
     (then_io (save_case E cid)
       (try_io (then_io (delegate E P cid envelope) (save_case E cid))
          (\<lambda>e. delegation_failed E cid ticket envelope e)))))"

definition classify_case :: "runtime_env \<Rightarrow> uuid \<Rightarrow> SupportTicketCreatedPayload \<Rightarrow> Triage \<Rightarrow> EventEnvelope \<Rightarrow> unit cr_io" where
  "classify_case E cid ticket triage envelope =
     then_io (assign cid (\<lambda>c. c\<lparr>rc_triage := Some triage, rc_status := CLASSIFIED\<rparr>))
     (then_io (save_case E cid)
     (then_io (write_audit E cr_identity envelope Accepted None)
     (then_io (publish E cr_identity
           (MClassified (build_issue_classified_payload ticket (en_correlation_id envelope) triage))
           (TOPIC_ISSUE_CLASSIFIED (re_environment E)) (en_correlation_id envelope)
           (Some (en_event_id envelope)) None)
       (return_io ()))))"

definition intake_handler :: "runtime_env \<Rightarrow> cr_params \<Rightarrow> EventEnvelope \<Rightarrow> unit cr_io" where
  "intake_handler E P envelope =
     (case cp_validate_ticket P (en_payload envelope) of
        None \<Rightarrow> return_io ()
      | Some ticket \<Rightarrow>
          bind_io (now_io E) (\<lambda>created_at.
          bind_io (on_store (get_or_create (en_correlation_id envelope) (tk_ticket_id ticket) (tk_customer_id ticket)
                     (en_correlation_id envelope) (tk_amount ticket) (tk_currency ticket) (tk_reason ticket)
                     created_at)) (\<lambda>c.
          if rc_status c \<notin> {RECEIVED, CLASSIFIED}
          then write_audit E cr_identity envelope DuplicateSkipped (Some ''already_processed'')
          else
            let cid = rc_case_id c; triage = intake_triage P ticket envelope in
            then_io (classify_case E cid ticket triage envelope)
              (if \<not> tg_needs_refund_review triage
               then direct_response E cid ticket triage envelope
               else start_review E P cid ticket envelope))))"

section \<open>Results of the peers\<close>

definition decide_if_ready :: "runtime_env \<Rightarrow> uuid \<Rightarrow> EventEnvelope \<Rightarrow> unit cr_io" where
  "decide_if_ready E cid envelope =
     with_case cid (\<lambda>c.
       if is_ready_to_decide c then apply_decision E cid (Inl (en_event_id envelope)) else return_io ())"

text \<open>Attaching a finding to its slot; only an attachment is audited.\<close>

definition attach_finding :: "runtime_env \<Rightarrow> EventEnvelope \<Rightarrow> uuid \<Rightarrow> uuid \<Rightarrow> finding \<Rightarrow> unit cr_io" where
  "attach_finding E envelope cid task_id f =
     then_io (assign cid (case f of
                FBilling _ \<Rightarrow> (\<lambda>c. c\<lparr>rc_billing_result_event_id := Some (en_event_id envelope)\<rparr>)
              | FRisk _ \<Rightarrow> (\<lambda>c. c\<lparr>rc_risk_result_event_id := Some (en_event_id envelope)\<rparr>)))
     (bind_io (now_io E) (\<lambda>now.
      bind_io (on_store (apply_result now cid task_id f)) (\<lambda>outcome.
      when_io (outcome = ATTACHED)
        (write_task_audit E cr_identity envelope AuditCompleted (Some task_id) None))))"

definition fail_slot_of :: "runtime_env \<Rightarrow> uuid \<Rightarrow> uuid \<Rightarrow> bool \<Rightarrow> string \<Rightarrow> unit cr_io" where
  "fail_slot_of E cid task_id is_billing reason =
     bind_io (now_io E) (\<lambda>now. on_store (\<lambda>st. ((), mark_slot_failed now cid task_id is_billing reason st)))"

definition result_data :: "TaskResult \<Rightarrow> (string, pyval) dict option" where
  "result_data result =
     (case tr_output result of
        Some m \<Rightarrow>
          if tr_status result = Completed \<and> ms_parts m \<noteq> []
          then Some (case find (\<lambda>p. pt_type p = DataPart) (ms_parts m) of
                       Some p \<Rightarrow> (case pt_data p of Some d \<Rightarrow> d | None \<Rightarrow> [])
                     | None \<Rightarrow> [])
          else None
      | None \<Rightarrow> None)"

definition result_handler :: "runtime_env \<Rightarrow> cr_params \<Rightarrow> EventEnvelope \<Rightarrow> unit cr_io" where
  "result_handler E P envelope =
     (case cp_validate_task_result P (en_payload envelope) of
        None \<Rightarrow> return_io ()
      | Some result \<Rightarrow>
          bind_io (get_io (\<lambda>w. get_by_task_id (cw_store w) (tr_task_id result))) (\<lambda>found.
          case found of
            None \<Rightarrow> return_io ()
          | Some c \<Rightarrow>
              let task_id = tr_task_id result; cid = rc_case_id c;
                  is_billing = (rc_billing_task_id c = Some task_id);
                  is_risk = (rc_risk_task_id c = Some task_id);
                  performer = tr_performer_agent_id result
              in if is_terminal (rc_status c) \<or> rc_status c = DECIDED
                 then write_task_audit E cr_identity envelope DuplicateSkipped (Some task_id) (Some ''late_result'')
                 else if tr_status result = Completed \<and> (is_billing \<or> is_risk)
                 then write_task_audit E cr_identity envelope DuplicateSkipped (Some task_id) (Some ''dual_path'')
                 else
                   then_io
                     (case result_data result of
                        Some data \<Rightarrow>
                          if is_billing
                          then (case normalize_billing_result P task_id performer data of
                                  None \<Rightarrow> fail_slot_of E cid task_id True ''unparseable_result''
                                | Some b \<Rightarrow> attach_finding E envelope cid task_id (FBilling b))
                          else (case normalize_risk_result P task_id performer data (fl (5 / 10)) (fl (8 / 10)) of
                                  None \<Rightarrow> fail_slot_of E cid task_id False ''unparseable_result''
                                | Some r \<Rightarrow> attach_finding E envelope cid task_id (FRisk r))
                      | None \<Rightarrow>
                          let fail_reason = (case tr_error result of
                                Some err \<Rightarrow> te_message err | None \<Rightarrow> task_status_value (tr_status result))
                          in then_io (fail_slot_of E cid task_id is_billing fail_reason)
                               (write_task_audit E cr_identity envelope AuditRejected (Some task_id) (Some fail_reason)))
                     (decide_if_ready E cid envelope)))"

definition decide_if_open :: "runtime_env \<Rightarrow> uuid \<Rightarrow> EventEnvelope \<Rightarrow> unit cr_io" where
  "decide_if_open E cid envelope =
     with_case cid (\<lambda>c.
       if is_ready_to_decide c \<and> rc_status c \<noteq> DECIDED \<and> \<not> is_terminal (rc_status c)
       then apply_decision E cid (Inl (en_event_id envelope)) else return_io ())"

definition billing_finding_of :: "BillingRefundAnalysisCompletedPayload \<Rightarrow> uuid \<Rightarrow> BillingFinding" where
  "billing_finding_of payload task_id =
     (let e = eligibility_of_recommendation (py_lower (bp_recommendation payload));
          eligibility = (if e = Ineligible \<and> bp_usage_level payload = ''heavy'' then Partial else e)
      in \<lparr>fb_eligibility = eligibility, fb_requires_human_review = bp_requires_human_review payload,
          fb_confidence = Some (bp_confidence payload), fb_summary = bp_reasoning_summary payload,
          fb_performer_agent_id = [], fb_task_id = Some task_id\<rparr>)"

definition billing_result_handler :: "runtime_env \<Rightarrow> cr_params \<Rightarrow> EventEnvelope \<Rightarrow> unit cr_io" where
  "billing_result_handler E P envelope =
     (case cp_validate_billing P (en_payload envelope) of
        None \<Rightarrow> return_io ()
      | Some payload \<Rightarrow>
          bind_io (get_io (\<lambda>w. get_by_correlation_id (cw_store w) (en_correlation_id envelope))) (\<lambda>found.
          case found of
            None \<Rightarrow> on_store (\<lambda>st. ((), park_billing_result (en_correlation_id envelope) payload st))
          | Some c \<Rightarrow>
              (case rc_billing_task_id c of
                 None \<Rightarrow> return_io ()
               | Some task_id \<Rightarrow>
                   then_io (attach_finding E envelope (rc_case_id c) task_id (FBilling (billing_finding_of payload task_id)))
                     (decide_if_open E (rc_case_id c) envelope))))"

definition risk_finding_of :: "RiskReviewCompletedPayload \<Rightarrow> uuid \<Rightarrow> RiskFinding" where
  "risk_finding_of payload task_id =
     \<lparr>fr_level = (case level_of_recommendation (py_lower (rp_recommendation payload)) of
                    Some l \<Rightarrow> l
                  | None \<Rightarrow> risk_level_from_score (rp_confidence payload) (fl (5 / 10)) (fl (8 / 10))),
      fr_requires_human_review = rp_requires_human_review payload,
      fr_score = uncertainty_from_confidence (Some (rp_confidence payload)),
      fr_summary = rp_reasoning_summary payload, fr_performer_agent_id = [], fr_task_id = Some task_id\<rparr>"

text \<open>A risk finding that forces an escalation before the case is complete.\<close>

definition forces_escalation :: "ResolutionCase \<Rightarrow> RiskFinding \<Rightarrow> bool" where
  "forces_escalation c f \<longleftrightarrow>
     (fr_level f \<in> {Elevated, High} \<or> fr_requires_human_review f)
     \<and> \<not> (case rc_billing_result c of None \<Rightarrow> False | Some b \<Rightarrow> fb_eligibility b = Ineligible)
     \<and> rc_status c \<noteq> DECIDED \<and> \<not> is_terminal (rc_status c)"

definition escalate_high_risk :: "runtime_env \<Rightarrow> EventEnvelope \<Rightarrow> uuid \<Rightarrow> RiskFinding \<Rightarrow> unit cr_io" where
  "escalate_high_risk E envelope cid f =
     bind_io (now_io E) (\<lambda>t0.
     bind_io (on_store (claim_decision t0 cid)) (\<lambda>claimed.
     if \<not> claimed then return_io ()
     else with_case cid (\<lambda>c.
       bind_io (lift_exc (decision_payload (rc_correlation_id c) (rc_ticket_id c) (rc_customer_id c) ESCALATE_HUMAN
                  (Some ''elevated_risk'') None (Some (''level='' @ finding_level_value (fr_level f)))
                  (''Risk level '' @ finding_level_value (fr_level f) @ '' forces escalation''))) (\<lambda>decision.
       then_io (assign cid (\<lambda>c. c\<lparr>rc_risk_result_event_id := Some (en_event_id envelope), rc_risk_result := Some f\<rparr>))
       (then_io (emit_decision_and_draft E c decision (en_event_id envelope))
       (then_io (assign cid (\<lambda>c. c\<lparr>rc_status := ESCALATED\<rparr>))
         (save_case E cid)))))))"

definition risk_result_handler :: "runtime_env \<Rightarrow> cr_params \<Rightarrow> EventEnvelope \<Rightarrow> unit cr_io" where
  "risk_result_handler E P envelope =
     (case cp_validate_risk P (en_payload envelope) of
        None \<Rightarrow> return_io ()
      | Some payload \<Rightarrow>
          bind_io (get_io (\<lambda>w. get_by_correlation_id (cw_store w) (en_correlation_id envelope))) (\<lambda>found.
          case found of
            None \<Rightarrow> on_store (\<lambda>st. ((), park_risk_result (en_correlation_id envelope) payload st))
          | Some c \<Rightarrow>
              (case rc_risk_task_id c of
                 None \<Rightarrow> return_io ()
               | Some task_id \<Rightarrow>
                   let f = risk_finding_of payload task_id in
                   if forces_escalation c f then escalate_high_risk E envelope (rc_case_id c) f
                   else then_io (attach_finding E envelope (rc_case_id c) task_id (FRisk f))
                          (decide_if_open E (rc_case_id c) envelope))))"

section \<open>The reaper\<close>

text \<open>One case of a sweep: the status is re-checked, and a failing decision does not end the sweep.\<close>

definition reap_case :: "runtime_env \<Rightarrow> uuid \<Rightarrow> unit cr_io" where
  "reap_case E cid =
     with_case cid (\<lambda>c.
       if is_terminal (rc_status c) \<or> rc_status c = DECIDED then return_io ()
       else try_io (bind_io (uuid4_io E) (\<lambda>u. apply_decision E cid (Inr (Some u)))) (\<lambda>_. return_io ()))"

fun reap_cases :: "runtime_env \<Rightarrow> uuid list \<Rightarrow> unit cr_io" where
  "reap_cases E [] = return_io ()"
| "reap_cases E (cid # cids) = then_io (reap_case E cid) (reap_cases E cids)"

definition reaper_sweep :: "runtime_env \<Rightarrow> unit cr_io" where
  "reaper_sweep E =
     bind_io (now_io E) (\<lambda>current_time.
     bind_io (get_io (\<lambda>w. map rc_case_id (list_timed_out_cases current_time (cw_store w)))) (\<lambda>cids.
     reap_cases E cids))"

end
