(* ===== verification/Resolution_Once.thy ===== *)
theory Resolution_Once
  imports Resolution_Handlers
begin

text \<open>
  One decision per case. The handlers of \<^verbatim>\<open>Resolution_Handlers\<close> are sequenced in any order, with
  redeliveries and failing sends; the invariant \<open>once\<close> bounds the decisions published for a case by one
  and requires a decided case to be settled. It is proved handler by handler with the assertion rules
  of the prelude: computations that leave the view alone, computations local to one case, the claim,
  and the emission that follows it.
\<close>

section \<open>Views of the world\<close>

text \<open>What the invariants look at: the store and the decisions in the log.\<close>

definition is_decision :: "sent \<Rightarrow> bool" where
  "is_decision m = (case sn_model m of MDecision _ \<Rightarrow> True | _ \<Rightarrow> False)"

definition decisions :: "cr_world \<Rightarrow> sent list" where
  "decisions w = filter is_decision (nt_log w)"

definition decided_count :: "uuid \<Rightarrow> cr_world \<Rightarrow> nat" where
  "decided_count corr w = length (filter (\<lambda>m. en_correlation_id (sn_envelope m) = corr) (decisions w))"

definition same_view :: "cr_world \<Rightarrow> cr_world \<Rightarrow> bool" where
  "same_view w w' \<longleftrightarrow> cw_store w' = cw_store w \<and> decisions w' = decisions w"

lemma same_view_refl [simp]: "same_view w w"
  by (simp add: same_view_def)

lemma same_view_trans: "same_view a b \<Longrightarrow> same_view b c \<Longrightarrow> same_view a c"
  by (simp add: same_view_def)

text \<open>A quiet computation leaves the view as it is, however it ends.\<close>

definition quiet :: "'a cr_io \<Rightarrow> bool" where
  "quiet m \<longleftrightarrow> (\<forall>w. triple (same_view w) m (\<lambda>_. same_view w))"

lemma cw_store_more: "net.more w' = net.more w \<Longrightarrow> cw_store w' = cw_store (w :: cr_world)"
  by (cases w; cases w') simp

lemma decisions_append: "nt_log w' = nt_log w @ added \<Longrightarrow> decisions w' = decisions w @ filter is_decision added"
  by (simp add: decisions_def)

lemma quietI: "(\<And>w r w'. m w = (r, w') \<Longrightarrow> same_view w w') \<Longrightarrow> quiet m"
  unfolding quiet_def by (intro allI tripleI) (blast intro: same_view_trans)

lemma quietD: "quiet m \<Longrightarrow> m w = (r, w') \<Longrightarrow> same_view w w'"
  unfolding quiet_def by (blast dest: tripleD intro: same_view_refl)

named_theorems quiet_intros

lemma quiet_clock [quiet_intros]: "quiet (now_io E)" "quiet (uuid4_io E)"
  by (auto intro!: quietI simp: same_view_def now_io_def uuid4_io_def decisions_def)

lemma quiet_basic [quiet_intros]: "quiet (return_io x)" "quiet (raise_io e)" "quiet (get_io f)" "quiet (lift_exc s)"
  by (auto intro!: quietI simp: io_defs lift_exc_def split: sum.splits)

lemma quiet_bind [quiet_intros]:
  assumes "quiet m" "\<And>x. quiet (f x)" shows "quiet (bind_io m f)"
proof (rule quietI)
  fix w r w' assume t: "bind_io m f w = (r, w')"
  obtain r1 w1 where m: "m w = (r1, w1)" by fastforce
  with quietD [OF assms(1) m] quietD [OF assms(2)] t show "same_view w w'"
    by (auto simp: bind_io_def intro: same_view_trans split: sum.splits)
qed

lemma quiet_then [quiet_intros]: "quiet m \<Longrightarrow> quiet n \<Longrightarrow> quiet (then_io m n)"
  unfolding then_io_def by (intro quiet_bind)

lemma quiet_try [quiet_intros]:
  assumes "quiet m" "\<And>e. quiet (h e)" shows "quiet (try_io m h)"
proof (rule quietI)
  fix w r w' assume t: "try_io m h w = (r, w')"
  obtain r1 w1 where m: "m w = (r1, w1)" by fastforce
  with quietD [OF assms(1) m] quietD [OF assms(2)] t show "same_view w w'"
    by (auto simp: try_io_def intro: same_view_trans split: sum.splits)
qed

lemma quiet_publish [quiet_intros]:
  assumes "\<And>p. m \<noteq> MDecision p"
  shows "quiet (publish E ident m et corr caus t)"
proof (rule quietI)
  fix w w' :: cr_world and r assume p: "publish E ident m et corr caus t w = (r, w')"
  from publish_frame(2) [OF p] obtain added where added: "nt_log w' = nt_log w @ added" "\<forall>s \<in> set added. sn_model s = m"
    by (cases r) auto
  then have "filter is_decision added = []"
    using assms by (auto simp: filter_empty_conv is_decision_def split: message.splits)
  then show "same_view w w'"
    using decisions_append [OF added(1)] cw_store_more [OF publish_frame(1) [OF p]] by (simp add: same_view_def)
qed

lemma quiet_raw: "quiet (publish_raw E env (MAudit a) t k)"
  by (auto intro!: quietI simp: same_view_def publish_raw_def send_and_wait_def Let_def decisions_def is_decision_def split: if_splits)

lemma quiet_audit [quiet_intros]:
  "quiet (write_task_audit E ident env out t reason)" "quiet (write_audit E ident env out reason)"
  unfolding write_task_audit_def write_audit_def by (intro quiet_intros quiet_raw)+

text \<open>A quiet computation keeps every assertion about the view.\<close>

definition view_pred :: "(cr_world \<Rightarrow> bool) \<Rightarrow> bool" where
  "view_pred P \<longleftrightarrow> (\<forall>w w'. same_view w w' \<longrightarrow> P w \<longrightarrow> P w')"

lemma triple_quiet: "quiet m \<Longrightarrow> view_pred P \<Longrightarrow> (\<And>r w. P w \<Longrightarrow> Q r w) \<Longrightarrow> triple P m Q"
  by (rule tripleI) (metis quietD view_pred_def)

section \<open>At most one decision\<close>

text \<open>
  Cases are keyed by their correlation. For a stored case \<open>k\<close>, \<open>semi n k\<close> bounds its decisions by \<open>n\<close> and says
  of every other case that it has at most one decision, and one only if it is settled; \<open>once\<close> says so
  of every case.
\<close>

definition keyed :: "case_store \<Rightarrow> bool" where
  "keyed st \<longleftrightarrow> wf_store st \<and> (\<forall>cid c. store_get st cid = Some c \<longrightarrow> rc_correlation_id c = cid)"

definition bounded_at :: "uuid \<Rightarrow> cr_world \<Rightarrow> bool" where
  "bounded_at k w \<longleftrightarrow> decided_count k w \<le> (if settled_case (cw_store w) k then 1 else 0)"

definition semi :: "nat \<Rightarrow> uuid \<Rightarrow> cr_world \<Rightarrow> bool" where
  "semi n k w \<longleftrightarrow> keyed (cw_store w) \<and> store_get (cw_store w) k \<noteq> None \<and> decided_count k w \<le> n
     \<and> (\<forall>k'. k' \<noteq> k \<longrightarrow> bounded_at k' w)"

definition settled_semi :: "nat \<Rightarrow> uuid \<Rightarrow> cr_world \<Rightarrow> bool" where
  "settled_semi n k w \<longleftrightarrow> semi n k w \<and> settled_case (cw_store w) k"

definition once :: "cr_world \<Rightarrow> bool" where
  "once w \<longleftrightarrow> keyed (cw_store w) \<and> (\<forall>k. bounded_at k w)"

lemma view_preds [simp]: "view_pred (semi n k)" "view_pred (settled_semi n k)" "view_pred once"
  by (simp_all add: view_pred_def same_view_def semi_def settled_semi_def once_def bounded_at_def decided_count_def)

lemma onceI: "semi n k w \<Longrightarrow> bounded_at k w \<Longrightarrow> once w"
  unfolding semi_def once_def by metis

lemma once_of_settled: "settled_semi n k w \<Longrightarrow> n \<le> 1 \<Longrightarrow> once w"
  unfolding settled_semi_def by (rule onceI [of n k]) (auto simp: semi_def bounded_at_def)

lemma once_of_open: "semi 0 k w \<Longrightarrow> once w"
  by (rule onceI [of 0 k]) (auto simp: semi_def bounded_at_def)

lemma open_of_once:
  "once w \<Longrightarrow> \<not> settled_case (cw_store w) k \<Longrightarrow> store_get (cw_store w) k \<noteq> None \<Longrightarrow> semi 0 k w"
  using spec [of "\<lambda>k. bounded_at k w" k] unfolding semi_def once_def by (auto simp: bounded_at_def)

lemma semi_weaken: "semi n k w \<Longrightarrow> n \<le> m \<Longrightarrow> semi m k w"
  by (simp add: semi_def)

lemma settled_semi_weaken: "settled_semi n k w \<Longrightarrow> n \<le> m \<Longrightarrow> settled_semi m k w"
  by (simp add: settled_semi_def semi_def)

lemma semi_of_settled: "settled_semi n k w \<Longrightarrow> semi n k w"
  by (simp add: settled_semi_def)

lemma keyedD:
  assumes "keyed st" "store_get st k = Some c"
  shows "rc_case_id c = k" "rc_correlation_id c = k"
  using assms wf_storeD(2) by (auto simp: keyed_def)

text \<open>Store operations that concern one case only.\<close>

definition local_step :: "uuid \<Rightarrow> case_store \<Rightarrow> case_store \<Rightarrow> bool" where
  "local_step k st st' \<longleftrightarrow> (keyed st \<longrightarrow> keyed st') \<and> (store_get st k \<noteq> None \<longrightarrow> store_get st' k \<noteq> None)
     \<and> (\<forall>k'. k' \<noteq> k \<longrightarrow> store_get st' k' = store_get st k')"

definition settles :: "uuid \<Rightarrow> case_store \<Rightarrow> case_store \<Rightarrow> bool" where
  "settles k st st' \<longleftrightarrow> (settled_case st k \<longrightarrow> settled_case st' k)"

lemma local_upd_case:
  assumes "\<And>c. rc_case_id (f c) = rc_case_id c \<and> rc_correlation_id (f c) = rc_correlation_id c"
  shows "local_step k st (upd_case k f st)"
  using assms by (auto simp: local_step_def keyed_def intro!: wf_upd_case)

lemma local_refl [simp]: "local_step k st st"
  by (simp add: local_step_def)

lemma local_settled_elsewhere: "local_step k st st' \<Longrightarrow> k' \<noteq> k \<Longrightarrow> settled_case st' k' = settled_case st k'"
  by (simp add: local_step_def settled_case_def)

lemma local_trans: "local_step k a b \<Longrightarrow> local_step k b c \<Longrightarrow> local_step k a c"
  by (simp add: local_step_def)

lemma settles_trans: "settles k a b \<Longrightarrow> settles k b c \<Longrightarrow> settles k a c"
  by (simp add: settles_def)

lemma settles_refl [simp]: "settles k st st"
  by (simp add: settles_def)

text \<open>
  Computations that touch only the case \<open>k\<close> and decide nothing; \<open>settled_io\<close> ones never take a settled
  case back.
\<close>

definition local_io :: "uuid \<Rightarrow> 'a cr_io \<Rightarrow> bool" where
  "local_io k m \<longleftrightarrow> (\<forall>w r w'. m w = (r, w') \<longrightarrow> keyed (cw_store w) \<longrightarrow>
     local_step k (cw_store w) (cw_store w') \<and> decisions w' = decisions w)"

definition settled_io :: "uuid \<Rightarrow> 'a cr_io \<Rightarrow> bool" where
  "settled_io k m \<longleftrightarrow> (\<forall>w r w'. m w = (r, w') \<longrightarrow> keyed (cw_store w) \<longrightarrow>
     local_step k (cw_store w) (cw_store w') \<and> settles k (cw_store w) (cw_store w') \<and> decisions w' = decisions w)"

lemma local_ioD:
  "local_io k m \<Longrightarrow> m w = (r, w') \<Longrightarrow> keyed (cw_store w) \<Longrightarrow>
     local_step k (cw_store w) (cw_store w') \<and> decisions w' = decisions w"
  unfolding local_io_def by blast

lemma settled_ioD:
  "settled_io k m \<Longrightarrow> m w = (r, w') \<Longrightarrow> keyed (cw_store w) \<Longrightarrow>
     local_step k (cw_store w) (cw_store w') \<and> settles k (cw_store w) (cw_store w') \<and> decisions w' = decisions w"
  unfolding settled_io_def by blast

lemma settled_io_local: "settled_io k m \<Longrightarrow> local_io k m"
  unfolding settled_io_def local_io_def by blast

named_theorems settled_intros
named_theorems local_intros

lemma settled_quiet: "quiet m \<Longrightarrow> settled_io k m"
  unfolding settled_io_def by (auto dest!: quietD simp: same_view_def)

lemma settled_bind [settled_intros]:
  assumes "settled_io k m" "\<And>x. settled_io k (f x)" shows "settled_io k (bind_io m f)"
  unfolding settled_io_def
proof (intro allI impI)
  fix w r w' assume *: "bind_io m f w = (r, w')" "keyed (cw_store w)"
  obtain r1 w1 where m: "m w = (r1, w1)" by fastforce
  note 1 = settled_ioD [OF assms(1) m *(2)]
  then have k: "keyed (cw_store w1)" using *(2) by (simp add: local_step_def)
  show "local_step k (cw_store w) (cw_store w') \<and> settles k (cw_store w) (cw_store w') \<and> decisions w' = decisions w"
  proof (cases r1)
    case (Inl e)
    with * m 1 show ?thesis by (simp add: bind_io_def)
  next
    case (Inr x)
    with * m have "f x w1 = (r, w')" by (simp add: bind_io_def)
    from settled_ioD [OF assms(2) this k] 1 show ?thesis
      by (auto intro: local_trans settles_trans)
  qed
qed

lemma local_bind [local_intros]:
  assumes "local_io k m" "\<And>x. local_io k (f x)" shows "local_io k (bind_io m f)"
  unfolding local_io_def
proof (intro allI impI)
  fix w r w' assume *: "bind_io m f w = (r, w')" "keyed (cw_store w)"
  obtain r1 w1 where m: "m w = (r1, w1)" by fastforce
  note 1 = local_ioD [OF assms(1) m *(2)]
  then have k: "keyed (cw_store w1)" using *(2) by (simp add: local_step_def)
  show "local_step k (cw_store w) (cw_store w') \<and> decisions w' = decisions w"
  proof (cases r1)
    case (Inl e)
    with * m 1 show ?thesis by (simp add: bind_io_def)
  next
    case (Inr x)
    with * m have "f x w1 = (r, w')" by (simp add: bind_io_def)
    from local_ioD [OF assms(2) this k] 1 show ?thesis by (auto intro: local_trans)
  qed
qed

lemma settled_then [settled_intros]: "settled_io k m \<Longrightarrow> settled_io k n \<Longrightarrow> settled_io k (then_io m n)"
  unfolding then_io_def by (intro settled_bind)

lemma local_then [local_intros]: "local_io k m \<Longrightarrow> local_io k n \<Longrightarrow> local_io k (then_io m n)"
  unfolding then_io_def by (intro local_bind)

lemma settled_with_case [settled_intros]:
  assumes "\<And>c. settled_io k (f c)" shows "settled_io k (with_case cid f)"
  unfolding with_case_def read_case_def
  by (rule settled_bind)
    (auto intro!: settled_quiet [OF quiet_basic(3)] settled_quiet [OF quiet_basic(1)] assms split: option.split)

lemmas settled_quiet_intros [settled_intros] =
  quiet_clock [THEN settled_quiet] quiet_basic [THEN settled_quiet] quiet_audit [THEN settled_quiet]
  quiet_publish [THEN settled_quiet]

lemma triple_local:
  assumes "local_io k m" shows "triple (semi n k) m (\<lambda>_. semi n k)"
proof (rule tripleI)
  fix w r w' assume "semi n k w" "m w = (r, w')"
  with local_ioD [OF assms this(2)] show "semi n k w'"
    by (auto simp: semi_def bounded_at_def decided_count_def local_step_def settled_case_def)
qed

lemma once_step:
  assumes "once w" "local_step k (cw_store w) (cw_store w')" "settles k (cw_store w) (cw_store w')"
    and "decisions w' = decisions w"
  shows "once w'"
proof -
  have "bounded_at k' w'" for k'
  proof (cases "k' = k")
    case True
    with assms show ?thesis by (auto simp: once_def bounded_at_def settles_def decided_count_def split: if_splits)
  next
    case False
    then have "settled_case (cw_store w') k' = settled_case (cw_store w) k'"
      using assms(2) by (intro local_settled_elsewhere)
    moreover have "bounded_at k' w" using assms(1) by (simp add: once_def)
    ultimately show ?thesis using assms(4) by (simp add: bounded_at_def decided_count_def)
  qed
  with assms show ?thesis by (auto simp: once_def local_step_def)
qed

lemma triple_settled:
  assumes "settled_io k m"
  shows "triple (settled_semi n k) m (\<lambda>_. settled_semi n k)" "triple once m (\<lambda>_. once)"
proof -
  show "triple (settled_semi n k) m (\<lambda>_. settled_semi n k)"
  proof (rule tripleI)
    fix w r w' assume *: "settled_semi n k w" "m w = (r, w')"
    then have "semi n k w'"
      using tripleD [OF triple_local [OF settled_io_local [OF assms]]] by (auto simp: settled_semi_def)
    with * settled_ioD [OF assms *(2)] show "settled_semi n k w'"
      by (auto simp: settled_semi_def settles_def semi_def)
  qed
  show "triple once m (\<lambda>_. once)"
  proof (rule tripleI)
    fix w r w' assume o: "once w" "m w = (r, w')"
    then have "keyed (cw_store w)" by (simp add: once_def)
    with settled_ioD [OF assms o(2)] o(1) show "once w'" by (blast intro: once_step)
  qed
qed

text \<open>The store operations the handlers use, each on its own case.\<close>

lemma settles_step: "store_step st l st' \<Longrightarrow> settles k st st'"
  using store_step_settled by (auto simp: settles_def)

lemma keyed_step:
  assumes "store_step st l st'" "\<And>c. keyed st \<Longrightarrow> store_get st' k = Some c \<Longrightarrow> rc_correlation_id c = k"
    and "\<And>k'. k' \<noteq> k \<Longrightarrow> store_get st' k' = store_get st k'"
    and "store_get st k \<noteq> None \<Longrightarrow> store_get st' k \<noteq> None"
  shows "local_step k st st'"
proof -
  have "rc_correlation_id c = k'" if "keyed st" "store_get st' k' = Some c" for k' c
    using that assms(2) assms(3) [of k'] by (cases "k' = k") (auto simp: keyed_def)
  with store_step_wf [OF assms(1)] assms(3,4) show ?thesis
    unfolding local_step_def keyed_def by blast
qed

lemma save_local:
  assumes "keyed st" "store_get st k = Some c" "save now c v st = Inr (c', st')"
  shows "local_step k st st'" "settles k st st'"
proof -
  note ids = keyedD [OF assms(1,2)]
  note ok = save_ok [OF assms(3)]
  have step: "store_step st None st'"
    by (rule step_save [OF assms(3)]) (use ids assms(2) in auto)
  then show "settles k st st'" by (rule settles_step)
  show "local_step k st st'"
    by (rule keyed_step [OF step]) (use ok ids in \<open>auto simp: store_get_def\<close>)
qed

lemma apply_result_local:
  "local_step k st (snd (apply_result now k t f st))" "settles k st (snd (apply_result now k t f st))"
proof -
  show "local_step k st (snd (apply_result now k t f st))"
    by (auto simp: apply_result_def intro!: local_upd_case split: option.splits)
  show "settles k st (snd (apply_result now k t f st))"
    by (rule settles_step [OF step_apply])
qed

lemma mark_failed_local:
  "local_step k st (mark_slot_failed now k t b r st)" "settles k st (mark_slot_failed now k t b r st)"
proof -
  show "local_step k st (mark_slot_failed now k t b r st)"
    by (auto simp: mark_slot_failed_def intro!: local_upd_case split: option.splits)
  show "settles k st (mark_slot_failed now k t b r st)"
    by (rule settles_step [OF step_fail])
qed

lemma add_pending_local:
  assumes "add_pending_task k t st = Inr st'"
  shows "local_step k st st'" "settles k st st'"
proof -
  have step: "store_step st None st'" using assms by (rule step_add_pending)
  then show "settles k st st'" by (rule settles_step)
  from assms show "local_step k st st'"
    by (rule add_pending_ok) (rule keyed_step [OF step]; auto simp: keyed_def)
qed

lemma claim_local:
  assumes "claim_decision now k st = (b, st')"
  shows "local_step k st st'" "settles k st st'" "b \<Longrightarrow> settled_case st' k \<and> \<not> settled_case st k"
  using assms
  by (auto simp: claim_decision_def settles_def settled_case_def settled_status_def intro!: local_upd_case
      split: option.splits if_splits)

lemma keyed_correlation: "keyed st \<Longrightarrow> get_by_correlation_id st k = Some c \<Longrightarrow> store_get st k = Some c"
  using wf_storeD(3) [of st k] unfolding keyed_def get_by_correlation_id_def
  by (fastforce split: Option.bind_splits)

lemma get_or_create_cases:
  assumes "get_or_create k tk cu k amt cur rsn at0 st = (c, st')" "keyed st"
  obtains "st' = st" "store_get st k = Some c"
    | "store_get st k = None" "c = new_case k tk cu k amt cur rsn at0"
      "st' = st\<lparr>st_cases := dict_set k c (st_cases st), st_by_correlation := dict_set k k (st_by_correlation st)\<rparr>"
  using assms keyed_correlation [OF assms(2), of k]
  by (auto simp: get_or_create_def get_by_correlation_id_def Let_def split: option.splits)

lemma get_or_create_local:
  assumes "get_or_create k tk cu k amt cur rsn at0 st = (c, st')" "keyed st"
  shows "local_step k st st'" "settles k st st'" "store_get st' k = Some c"
proof -
  have step: "store_step st None st'" using step_create [of st k tk cu k amt cur rsn at0] assms(1) by simp
  then show "settles k st st'" by (rule settles_step)
  show g: "store_get st' k = Some c"
    using assms by (rule get_or_create_cases) simp_all
  show "local_step k st st'"
  proof (rule keyed_step [OF step])
    fix c' assume "keyed st" "store_get st' k = Some c'"
    with g assms show "rc_correlation_id c' = k"
      by (auto elim!: get_or_create_cases simp: new_case_def keyed_def)
  next
    fix k' assume "k' \<noteq> k"
    with assms show "store_get st' k' = store_get st k'"
      by (auto elim!: get_or_create_cases simp: store_get_def)
  qed (simp add: g)
qed

lemma decisions_store [simp]: "decisions (w\<lparr>cw_store := st\<rparr>) = decisions w"
  by (simp add: decisions_def)

lemma local_assign [local_intros]:
  "(\<And>c. rc_case_id (f c) = rc_case_id c \<and> rc_correlation_id (f c) = rc_correlation_id c) \<Longrightarrow> local_io k (assign k f)"
  by (auto simp: local_io_def assign_def on_store_def intro!: local_upd_case)

lemma settled_assign [settled_intros]:
  assumes "\<And>c. rc_case_id (f c) = rc_case_id c \<and> rc_correlation_id (f c) = rc_correlation_id c"
    and "\<And>c. settled_status (rc_status c) \<Longrightarrow> settled_status (rc_status (f c))"
  shows "settled_io k (assign k f)"
  using assms
  by (auto simp: settled_io_def assign_def on_store_def settles_def intro!: local_upd_case settled_upd_case)

lemma settled_on_store:
  assumes "\<And>st. local_step k st (snd (f st)) \<and> settles k st (snd (f st))"
  shows "settled_io k (on_store f)"
  unfolding settled_io_def
proof (intro allI impI)
  fix w r w' assume "on_store f w = (r, w')"
  then have "w' = w\<lparr>cw_store := snd (f (cw_store w))\<rparr>" by (auto simp: on_store_def split: prod.splits)
  with assms [of "cw_store w"]
  show "local_step k (cw_store w) (cw_store w') \<and> settles k (cw_store w) (cw_store w') \<and> decisions w' = decisions w"
    by simp
qed

lemma settled_on_store_exc:
  assumes "\<And>st x st'. keyed st \<Longrightarrow> f st = Inr (x, st') \<Longrightarrow> local_step k st st' \<and> settles k st st'"
  shows "settled_io k (on_store_exc f)"
  unfolding settled_io_def
proof (intro allI impI)
  fix w r w' assume "on_store_exc f w = (r, w')" "keyed (cw_store w)"
  with assms [of "cw_store w"]
  show "local_step k (cw_store w) (cw_store w') \<and> settles k (cw_store w) (cw_store w') \<and> decisions w' = decisions w"
    by (cases "f (cw_store w)") (auto simp: on_store_exc_def)
qed

lemma settled_save [settled_intros]: "settled_io k (save_case E k)"
  unfolding save_case_def
proof (intro settled_bind [OF settled_quiet_intros(1)] settled_on_store_exc)
  fix now st x st'
  assume k: "keyed st" and s: "(case store_get st k of None \<Rightarrow> Inr ((), st)
      | Some c \<Rightarrow> map_sum id (\<lambda>(c', st'). ((), st')) (save now c None st)) = Inr (x, st')"
  show "local_step k st st' \<and> settles k st st'"
  proof (cases "store_get st k")
    case None
    with s show ?thesis by simp
  next
    case (Some c)
    with s obtain c' where "save now c None st = Inr (c', st')" by (cases "save now c None st") auto
    with save_local [OF k Some] show ?thesis by blast
  qed
qed

lemma settled_pending [settled_intros]: "settled_io k (add_pending k t)"
  unfolding add_pending_def
proof (intro settled_with_case settled_on_store_exc)
  fix c st x st'
  assume "map_sum id (\<lambda>st'. ((), st')) (add_pending_task k (the (t c)) st) = Inr (x, st')"
  then have "add_pending_task k (the (t c)) st = Inr st'" by (cases "add_pending_task k (the (t c)) st") auto
  then show "local_step k st st' \<and> settles k st st'" using add_pending_local by blast
qed

lemma settled_attach [settled_intros]: "settled_io k (attach_finding E env k t f)"
  unfolding attach_finding_def when_io_def
  by (cases f) (auto intro!: settled_intros settled_on_store apply_result_local)

lemma settled_fail [settled_intros]: "settled_io k (fail_slot_of E k t b r)"
  unfolding fail_slot_of_def by (auto intro!: settled_intros settled_on_store mark_failed_local)

lemma settled_mint [settled_intros]: "settled_io k (mint_risk_task P k)" "settled_io k (mint_billing_task P k)"
  unfolding mint_risk_task_def mint_billing_task_def by (auto intro!: settled_intros)

lemma settled_validate [settled_intros]: "settled_io k (validate_risk_capability P)" "settled_io k (validate_billing_capability P)"
  unfolding validate_risk_capability_def validate_billing_capability_def validate_capability_of_def
  by (auto intro!: settled_intros split: option.split)

lemma settled_delegate [settled_intros]: "settled_io k (delegate E P k env)"
  unfolding delegate_def request_billing_analysis_def request_risk_analysis_def announce_review_def
  by (auto intro!: settled_intros split: option.split)

section \<open>Handlers and decisions\<close>

lemma publish_decision_view:
  assumes "publish E ident (MDecision d) et k caus t w = (r, w' :: cr_world)"
  shows "cw_store w' = cw_store w" "decided_count k w' \<le> decided_count k w + 1"
    "k' \<noteq> k \<Longrightarrow> decided_count k' w' = decided_count k' w"
proof -
  show "cw_store w' = cw_store w" by (rule cw_store_more [OF publish_frame(1) [OF assms]])
  from publish_frame(2) [OF assms] obtain added where
    a: "nt_log w' = nt_log w @ added" "length added \<le> 1" "\<forall>m \<in> set added. en_correlation_id (sn_envelope m) = k"
    by (cases r) auto
  then have d: "decisions w' = decisions w @ filter is_decision added" by (intro decisions_append)
  have "length (filter (\<lambda>m. en_correlation_id (sn_envelope m) = k) (filter is_decision added)) \<le> 1"
    using a(2) by (meson length_filter_le order_trans)
  then show "decided_count k w' \<le> decided_count k w + 1" by (simp add: decided_count_def d)
  show "decided_count k' w' = decided_count k' w" if "k' \<noteq> k"
    using a(3) that by (auto simp: decided_count_def d filter_empty_conv)
qed

lemma triple_publish_decision:
  "triple (semi 0 k) (publish E ident (MDecision d) et k caus t) (\<lambda>_. semi 1 k)"
  "triple (settled_semi 0 k) (publish E ident (MDecision d) et k caus t) (\<lambda>_. settled_semi 1 k)"
proof -
  have *: "semi 1 k w'" if "semi 0 k w" "publish E ident (MDecision d) et k caus t w = (r, w')" for w r and w' :: cr_world
    using that(1) publish_decision_view [OF that(2)] by (auto simp: semi_def bounded_at_def)
  show "triple (semi 0 k) (publish E ident (MDecision d) et k caus t) (\<lambda>_. semi 1 k)"
    by (rule tripleI) (rule *)
  show "triple (settled_semi 0 k) (publish E ident (MDecision d) et k caus t) (\<lambda>_. settled_semi 1 k)"
    by (rule tripleI) (auto simp: settled_semi_def publish_decision_view simp del: One_nat_def intro: *)
qed

lemma triple_ok: "triple P m (\<lambda>_. R) \<Longrightarrow> (\<And>r w. R w \<Longrightarrow> Q r w) \<Longrightarrow> triple P m Q"
  by (erule triple_weaken) auto

lemma triple_emit_gen:
  assumes "rc_case_id c = k" "rc_correlation_id c = k"
  shows "triple (semi 0 k) (emit_decision_and_draft E c d caus) (\<lambda>_. semi 1 k)"
    and "triple (settled_semi 0 k) (emit_decision_and_draft E c d caus) (\<lambda>_. settled_semi 1 k)"
proof -
  have rest: "settled_io k (emit_draft E c d decided)" for decided
    unfolding emit_draft_def using assms
    by (auto intro!: settled_intros settled_quiet [OF quiet_try] quiet_intros)
  show "triple (semi 0 k) (emit_decision_and_draft E c d caus) (\<lambda>_. semi 1 k)"
    unfolding emit_decision_and_draft_def assms
    by (rule triple_bind [OF triple_ok [OF triple_publish_decision(1)] triple_local [OF settled_io_local [OF rest]]])
      (auto split: sum.splits)
  show "triple (settled_semi 0 k) (emit_decision_and_draft E c d caus) (\<lambda>_. settled_semi 1 k)"
    unfolding emit_decision_and_draft_def assms
    by (rule triple_bind [OF triple_ok [OF triple_publish_decision(2)] triple_settled(1) [OF rest]])
      (auto split: sum.splits)
qed

lemma triple_quiet_bind:
  assumes "quiet m" "view_pred P" "\<And>x. triple P (f x) Q" "\<And>e w. P w \<Longrightarrow> Q (Inl e) w"
  shows "triple P (bind_io m f) Q"
  by (rule triple_bind [where R = "\<lambda>_. P"])
    (use assms in \<open>auto intro!: triple_quiet split: sum.splits\<close>)

lemma triple_with_case:
  assumes "\<And>c. rc_case_id c = k \<Longrightarrow> rc_correlation_id c = k \<Longrightarrow> triple P (f c) Q"
    and "\<And>w. P w \<Longrightarrow> keyed (cw_store w)" "\<And>w. P w \<Longrightarrow> store_get (cw_store w) k = None \<Longrightarrow> Q (Inr ()) w"
  shows "triple P (with_case k f) Q"
proof (rule tripleI)
  fix w r w' assume w: "P w" "with_case k f w = (r, w')"
  show "Q r w'"
  proof (cases "store_get (cw_store w) k")
    case None
    with w assms(3) show ?thesis by (simp add: with_case_def read_case_def io_defs)
  next
    case (Some c)
    then have "f c w = (r, w')" using w(2) by (simp add: with_case_def read_case_def io_defs)
    then show ?thesis using assms(1) [OF keyedD [OF assms(2) [OF w(1)] Some]] w(1) by (blast dest: tripleD)
  qed
qed

lemma semi_keyed: "semi n k w \<Longrightarrow> keyed (cw_store w)" "settled_semi n k w \<Longrightarrow> keyed (cw_store w)" "once w \<Longrightarrow> keyed (cw_store w)"
  by (simp_all add: semi_def settled_semi_def once_def)

text \<open>After a claim: the decision is emitted and the case stays settled, whatever fails.\<close>

lemma triple_emit_settled:
  assumes "rc_case_id c = k" "rc_correlation_id c = k" "settled_io k rest"
  shows "triple (settled_semi 0 k) (then_io (emit_decision_and_draft E c d caus) rest) (\<lambda>_. once)"
  by (rule triple_then [where R = "settled_semi 1 k"])
    (auto intro!: triple_ok [OF triple_emit_gen(2) [OF assms(1,2)]] triple_ok [OF triple_settled(1) [OF assms(3)]]
      dest: once_of_settled split: sum.splits)

lemma triple_claim:
  assumes "triple (settled_semi 0 k) body (\<lambda>_. once)"
  shows "triple once (bind_io (now_io E) (\<lambda>t0. bind_io (on_store (claim_decision t0 k)) (\<lambda>claimed.
     if \<not> claimed then return_io () else body))) (\<lambda>_. once)"
proof (rule triple_quiet_bind)
  fix t0
  show "triple once (bind_io (on_store (claim_decision t0 k)) (\<lambda>claimed. if \<not> claimed then return_io () else body)) (\<lambda>_. once)"
  proof (rule tripleI)
    fix w r w' assume o: "once w"
      and m: "bind_io (on_store (claim_decision t0 k)) (\<lambda>claimed. if \<not> claimed then return_io () else body) w = (r, w')"
    obtain b st' where c: "claim_decision t0 k (cw_store w) = (b, st')" by fastforce
    show "once w'"
    proof (cases b)
      case False
      with c have "st' = cw_store w" by (auto dest: claim_refused)
      with c False o m show ?thesis by (auto simp: on_store_def io_defs)
    next
      case True
      note cl = claim_local [OF c]
      from cl(3) [OF True] have "\<not> settled_case (cw_store w) k" "settled_case st' k" by auto
      moreover have "store_get (cw_store w) k \<noteq> None"
        using c True by (auto simp: claim_decision_def split: option.splits)
      ultimately have "settled_semi 0 k (w\<lparr>cw_store := st'\<rparr>)"
        using open_of_once [OF o] cl(1)
        by (auto simp: settled_semi_def semi_def bounded_at_def decided_count_def local_step_def settled_case_def)
      moreover have "body (w\<lparr>cw_store := st'\<rparr>) = (r, w')"
        using m c True by (simp add: on_store_def io_defs)
      ultimately show ?thesis using assms by (blast dest: tripleD)
    qed
  qed
qed (simp_all add: quiet_clock)

lemma once_apply_decision: "triple once (apply_decision E k cause) (\<lambda>_. once)"
  unfolding apply_decision_def
proof (rule triple_claim, rule triple_with_case)
  fix c :: ResolutionCase assume c: "rc_case_id c = k" "rc_correlation_id c = k"
  have "settled_io k (then_io (assign k (\<lambda>c. c\<lparr>rc_status := DECIDED\<rparr>)) (save_case E k))"
    by (auto intro!: settled_intros simp: settled_status_def)
  note emit = triple_emit_settled [OF c this]
  have "quiet (case cause of Inl event_id \<Rightarrow> return_io event_id | Inr (Some u) \<Rightarrow> return_io u | Inr None \<Rightarrow> uuid4_io E)"
    by (auto intro: quiet_intros split: sum.split option.split)
  then show "triple (settled_semi 0 k) (bind_io (case cause of Inl event_id \<Rightarrow> return_io event_id
        | Inr (Some u) \<Rightarrow> return_io u | Inr None \<Rightarrow> uuid4_io E) (\<lambda>causation_id.
       bind_io (now_io E) (\<lambda>t1. bind_io (now_io E) (\<lambda>t2.
       bind_io (lift_exc (case_decision c (build_timeout_status c t1) t2)) (\<lambda>decision.
       then_io (emit_decision_and_draft E c decision causation_id)
       (then_io (assign k (\<lambda>c. c\<lparr>rc_status := DECIDED\<rparr>)) (save_case E k))))))) (\<lambda>_. once)"
    by (intro triple_quiet_bind emit quiet_intros view_preds) (auto dest: once_of_settled)
qed (auto dest: once_of_settled semi_keyed)

lemma once_escalate: "triple once (escalate_high_risk E env k f) (\<lambda>_. once)"
  unfolding escalate_high_risk_def
proof (rule triple_claim, rule triple_with_case, rule triple_quiet_bind)
  fix c :: ResolutionCase and decision assume c: "rc_case_id c = k" "rc_correlation_id c = k"
  have s: "settled_io k (then_io (assign k (\<lambda>c. c\<lparr>rc_status := ESCALATED\<rparr>)) (save_case E k))"
    "settled_io k (assign k (\<lambda>c. c\<lparr>rc_risk_result_event_id := Some (en_event_id env), rc_risk_result := Some f\<rparr>))"
    by (auto intro!: settled_intros simp: settled_status_def is_terminal_def)
  show "triple (settled_semi 0 k)
     (then_io (assign k (\<lambda>c. c\<lparr>rc_risk_result_event_id := Some (en_event_id env), rc_risk_result := Some f\<rparr>))
       (then_io (emit_decision_and_draft E c decision (en_event_id env))
       (then_io (assign k (\<lambda>c. c\<lparr>rc_status := ESCALATED\<rparr>)) (save_case E k)))) (\<lambda>_. once)"
    by (rule triple_then [where R = "settled_semi 0 k", OF triple_ok [OF triple_settled(1) [OF s(2)]]
        triple_emit_settled [OF c s(1)]])
      (auto dest: once_of_settled split: sum.splits)
qed (auto dest: once_of_settled semi_keyed intro: quiet_intros)

text \<open>Sequencing computations that keep the invariant.\<close>

named_theorems once_intros

lemma once_then [once_intros]:
  "triple once m (\<lambda>_. once) \<Longrightarrow> triple once n (\<lambda>_. once) \<Longrightarrow> triple once (then_io m n) (\<lambda>_. once)"
  by (rule triple_then [where R = once]) (auto elim!: triple_ok split: sum.splits)

lemma once_try [once_intros]:
  "triple once m (\<lambda>_. once) \<Longrightarrow> (\<And>e. triple once (h e) (\<lambda>_. once)) \<Longrightarrow> triple once (try_io m h) (\<lambda>_. once)"
  by (rule triple_try [where R = "\<lambda>_. once"]) (auto elim!: triple_ok split: sum.splits)

lemma once_quiet: "quiet m \<Longrightarrow> triple once m (\<lambda>_. once)"
  by (rule triple_quiet) simp_all

lemma once_quiet_bind:
  "quiet m \<Longrightarrow> (\<And>x. triple once (f x) (\<lambda>_. once)) \<Longrightarrow> triple once (bind_io m f) (\<lambda>_. once)"
  by (rule triple_quiet_bind) simp_all

lemma once_with_case:
  "(\<And>c. triple once (f c) (\<lambda>_. once)) \<Longrightarrow> triple once (with_case k f) (\<lambda>_. once)"
  unfolding with_case_def read_case_def
  by (rule once_quiet_bind) (auto intro!: quiet_intros once_quiet split: option.split)

lemma park_local: "local_step k st (park_billing_result corr p st)" "local_step k st (park_risk_result corr q st)"
  "settles k st (park_billing_result corr p st)" "settles k st (park_risk_result corr q st)"
  using wf_park
  by (auto simp: local_step_def keyed_def settles_def settled_case_def park_billing_result_def park_risk_result_def)

lemmas once_basic = once_quiet [OF quiet_basic(1)] once_quiet [OF quiet_audit(1)] once_quiet [OF quiet_audit(2)]
  once_apply_decision once_escalate settled_attach [THEN triple_settled(2)] settled_fail [THEN triple_settled(2)]

lemma once_decide_if: "triple once (decide_if_ready E k env) (\<lambda>_. once)" "triple once (decide_if_open E k env) (\<lambda>_. once)"
  unfolding decide_if_ready_def decide_if_open_def by (auto intro!: once_with_case once_basic)

lemma once_result: "triple once (result_handler E P env) (\<lambda>_. once)"
  unfolding result_handler_def Let_def
  by (auto intro!: once_quiet_bind once_then once_basic once_decide_if quiet_basic split: option.split)

lemma once_park:
  "triple once (on_store (\<lambda>st. ((), park_billing_result corr p st))) (\<lambda>_. once)"
  "triple once (on_store (\<lambda>st. ((), park_risk_result corr q st))) (\<lambda>_. once)"
  using park_local by (auto intro!: triple_settled(2) [of 0] settled_on_store)

lemma once_billing: "triple once (billing_result_handler E P env) (\<lambda>_. once)"
  unfolding billing_result_handler_def
  by (auto intro!: once_quiet_bind once_then once_basic once_decide_if once_park quiet_basic split: option.split)

lemma once_risk: "triple once (risk_result_handler E P env) (\<lambda>_. once)"
  unfolding risk_result_handler_def Let_def
  by (auto intro!: once_quiet_bind once_then once_basic once_decide_if once_park quiet_basic split: option.split)

lemma once_reap: "triple once (reap_case E k) (\<lambda>_. once)"
  unfolding reap_case_def
  by (auto intro!: once_with_case once_try once_quiet_bind once_basic quiet_clock)

lemma once_reap_cases: "triple once (reap_cases E ks) (\<lambda>_. once)"
  by (induction ks) (auto intro!: once_then once_basic once_reap)

lemma once_sweep: "triple once (reaper_sweep E) (\<lambda>_. once)"
  unfolding reaper_sweep_def by (auto intro!: once_quiet_bind quiet_clock quiet_basic once_reap_cases)

section \<open>Intake\<close>

text \<open>
  Intake emits without a claim. When it returns, the invariant holds again; when it raises, one
  decision of its own case may be out although the case is still open.
\<close>

definition intake_post :: "uuid \<Rightarrow> exc + unit \<Rightarrow> cr_world \<Rightarrow> bool" where
  "intake_post k r w \<longleftrightarrow> (case r of Inr _ \<Rightarrow> once w | Inl _ \<Rightarrow> semi 1 k w \<or> once w)"

lemma intake_postI: "once w \<Longrightarrow> intake_post k r w" "semi 1 k w \<Longrightarrow> intake_post k (Inl e) w" "semi 0 k w \<Longrightarrow> intake_post k r w"
  by (auto simp: intake_post_def dest: once_of_open split: sum.splits)

lemma triple_settle:
  assumes "settled_status s"
  shows "triple (semi 1 k) (assign k (\<lambda>c. c\<lparr>rc_status := s\<rparr>)) (\<lambda>_. settled_semi 1 k)"
proof (rule tripleI)
  fix w r w' assume *: "semi 1 k w" "assign k (\<lambda>c. c\<lparr>rc_status := s\<rparr>) w = (r, w')"
  have "local_io k (assign k (\<lambda>c. c\<lparr>rc_status := s\<rparr>))" by (rule local_assign) simp
  with * have "semi 1 k w'" by (blast dest: tripleD [OF triple_local])
  moreover have "settled_case (cw_store w') k"
    using * assms by (auto simp: assign_def on_store_def settled_case_def semi_def)
  ultimately show "settled_semi 1 k w'" by (simp add: settled_semi_def)
qed

lemma triple_emit_open:
  assumes "rc_case_id c = k" "rc_correlation_id c = k" "settled_status s"
  shows "triple (semi 0 k) (then_io (emit_decision_and_draft E c d caus)
    (then_io (assign k (\<lambda>c. c\<lparr>rc_status := s\<rparr>)) (save_case E k))) (intake_post k)"
proof (rule triple_then)
  show "triple (semi 0 k) (emit_decision_and_draft E c d caus)
      (\<lambda>r w. case r of Inl e \<Rightarrow> intake_post k (Inl e) w | Inr _ \<Rightarrow> semi 1 k w)"
    by (rule triple_ok [OF triple_emit_gen(1) [OF assms(1,2)]]) (auto intro: intake_postI split: sum.split)
  show "triple (semi 1 k) (then_io (assign k (\<lambda>c. c\<lparr>rc_status := s\<rparr>)) (save_case E k)) (intake_post k)"
    by (rule triple_then [OF triple_ok [OF triple_settle [OF assms(3)]]
          triple_ok [OF triple_settled(1) [OF settled_save], of 1]])
      (auto intro!: intake_postI(1) dest: once_of_settled split: sum.split)
qed

lemma triple_direct: "triple (semi 0 k) (direct_response E k tk tr env) (intake_post k)"
  unfolding direct_response_def
  by (intro triple_with_case triple_quiet_bind triple_emit_open quiet_intros view_preds)
    (auto simp: settled_status_def is_terminal_def intro: intake_postI dest: semi_keyed)

lemma triple_delegation_failed: "triple (semi 0 k) (delegation_failed E k tk env e) (intake_post k)"
  unfolding delegation_failed_def
  by (intro triple_with_case triple_quiet_bind triple_emit_open quiet_intros view_preds)
    (auto simp: settled_status_def is_terminal_def intro: intake_postI dest: semi_keyed)

lemma triple_local_then:
  assumes "local_io k m" "triple (semi 0 k) n (intake_post k)"
  shows "triple (semi 0 k) (then_io m n) (intake_post k)"
  by (rule triple_then [OF triple_ok [OF triple_local [OF assms(1)]] assms(2)])
    (auto intro: intake_postI split: sum.split)

lemma triple_review: "triple (semi 0 k) (start_review E P k tk env) (intake_post k)"
  unfolding start_review_def
proof (intro triple_local_then triple_quiet_bind quiet_intros view_preds)
  have "local_io k (then_io (delegate E P k env) (save_case E k))"
    by (intro settled_io_local settled_intros)
  then show "triple (semi 0 k) (try_io (then_io (delegate E P k env) (save_case E k))
      (\<lambda>e. delegation_failed E k tk env e)) (intake_post k)"
    by (intro triple_try [OF triple_ok [OF triple_local] triple_delegation_failed])
      (auto intro: intake_postI split: sum.split)
  show "local_io k (save_case E k)" by (intro settled_io_local settled_intros)
qed (auto intro!: local_assign intake_postI)

lemma triple_classify: "local_io k (classify_case E k tk tr env)"
  unfolding classify_case_def
  by (intro local_then local_assign settled_io_local [OF settled_save] settled_io_local [OF settled_quiet] quiet_intros) simp_all

text \<open>The case intake works on: its own, under the ticket's correlation.\<close>

lemma intake_outcome:
  assumes "once w" "intake_handler E P env w = (r, w')"
  shows "intake_post (en_correlation_id env) r w'"
    and "settled_case (cw_store w) (en_correlation_id env) \<Longrightarrow> once w'"
proof -
  let ?k = "en_correlation_id env"
  have "intake_post ?k r w' \<and> (settled_case (cw_store w) ?k \<longrightarrow> once w')"
  proof (cases "cp_validate_ticket P (en_payload env)")
    case None
    with assms show ?thesis by (auto simp: intake_handler_def return_io_def intake_post_def)
  next
    case (Some ticket)
    define w1 where "w1 = w\<lparr>nt_ticks := Suc (nt_ticks w)\<rparr>"
    obtain c st' where g: "get_or_create ?k (tk_ticket_id ticket) (tk_customer_id ticket) ?k (tk_amount ticket)
        (tk_currency ticket) (tk_reason ticket) (re_clock E (nt_ticks w)) (cw_store w1) = (c, st')" by fastforce
    define w2 where "w2 = w1\<lparr>cw_store := st'\<rparr>"
    have once1: "once w1" using assms(1) view_preds(3)
      by (auto simp: view_pred_def w1_def same_view_def decisions_def)
    note l = get_or_create_local [OF g semi_keyed(3) [OF once1]]
    have once2: "once w2" by (rule once_step [OF once1, of ?k]) (simp_all add: w2_def l)
    have c: "store_get (cw_store w2) ?k = Some c" using l(3) by (simp add: w2_def)
    have cid: "rc_case_id c = ?k" by (rule keyedD [OF semi_keyed(3) [OF once2] c])
    let ?body = "if rc_status c \<notin> {RECEIVED, CLASSIFIED}
          then write_audit E cr_identity env DuplicateSkipped (Some ''already_processed'')
          else then_io (classify_case E ?k ticket (intake_triage P ticket env) env)
              (if \<not> tg_needs_refund_review (intake_triage P ticket env)
               then direct_response E ?k ticket (intake_triage P ticket env) env
               else start_review E P ?k ticket env)"
    have body: "?body w2 = (r, w')"
      using assms(2) Some g cid
      by (simp add: intake_handler_def now_io_def on_store_def bind_io_def w1_def w2_def Let_def cong: if_cong)
    show ?thesis
    proof (cases "rc_status c \<in> {RECEIVED, CLASSIFIED}")
      case False
      with body have "write_audit E cr_identity env DuplicateSkipped (Some ''already_processed'') w2 = (r, w')" by simp
      then have "once w'" using tripleD [OF once_quiet [OF quiet_audit(2)] once2] by blast
      then show ?thesis by (auto intro: intake_postI)
    next
      case True
      then have "\<not> settled_case (cw_store w2) ?k"
        using c by (auto simp: settled_case_def settled_status_def is_terminal_def)
      moreover have "settled_case (cw_store w2) ?k" if "settled_case (cw_store w) ?k"
        using that l(2) by (simp add: w1_def w2_def settles_def)
      moreover have "triple (semi 0 ?k) ?body (intake_post ?k)"
        using True by (auto intro!: triple_local_then triple_classify triple_direct triple_review)
      ultimately show ?thesis
        using open_of_once [OF once2] c body by (blast dest: tripleD)
    qed
  qed
  then show "intake_post ?k r w'" "settled_case (cw_store w) ?k \<Longrightarrow> once w'" by auto
qed

text \<open>An intake that publishes no decision, or returns, keeps the invariant.\<close>

lemma intake_once:
  assumes "once w" "intake_handler E P env w = (r, w')" "isl r \<Longrightarrow> decisions w' = decisions w"
  shows "once w'"
proof (cases "settled_case (cw_store w) (en_correlation_id env)")
  case True
  with intake_outcome(2) [OF assms(1,2)] show ?thesis by simp
next
  case False
  moreover have "bounded_at (en_correlation_id env) w" using assms(1) by (simp add: once_def)
  ultimately have "decided_count (en_correlation_id env) w = 0" by (simp add: bounded_at_def)
  with intake_outcome(1) [OF assms(1,2)] assms(3) show ?thesis
    by (auto simp: intake_post_def semi_def decided_count_def intro: once_of_open [of "en_correlation_id env"]
        split: sum.splits)
qed

section \<open>Deliveries\<close>

text \<open>The handler runs of the service in the order in which they happen: any interleaving of the
  consumer loops and the reaper, redeliveries included, each handler running to its end.\<close>

datatype delivery = Ticket EventEnvelope | TaskResultEvent EventEnvelope | BillingEvent EventEnvelope
  | RiskEvent EventEnvelope | ReaperTick

fun handle :: "runtime_env \<Rightarrow> cr_params \<Rightarrow> delivery \<Rightarrow> unit cr_io" where
  "handle E P (Ticket env) = intake_handler E P env"
| "handle E P (TaskResultEvent env) = result_handler E P env"
| "handle E P (BillingEvent env) = billing_result_handler E P env"
| "handle E P (RiskEvent env) = risk_result_handler E P env"
| "handle E P ReaperTick = reaper_sweep E"

fun deliver :: "runtime_env \<Rightarrow> cr_params \<Rightarrow> delivery list \<Rightarrow> cr_world \<Rightarrow> cr_world" where
  "deliver E P [] w = w"
| "deliver E P (d # ds) w = deliver E P ds (snd (handle E P d w))"

text \<open>No intake of the run raises after it has published a decision.\<close>

fun clean_intakes :: "runtime_env \<Rightarrow> cr_params \<Rightarrow> delivery list \<Rightarrow> cr_world \<Rightarrow> bool" where
  "clean_intakes E P [] w = True"
| "clean_intakes E P (d # ds) w =
     ((case d of Ticket _ \<Rightarrow> isl (fst (handle E P d w)) \<longrightarrow> decisions (snd (handle E P d w)) = decisions w | _ \<Rightarrow> True)
      \<and> clean_intakes E P ds (snd (handle E P d w)))"

lemma handle_once:
  assumes "once w" "case d of Ticket _ \<Rightarrow> isl (fst (handle E P d w)) \<longrightarrow> decisions (snd (handle E P d w)) = decisions w | _ \<Rightarrow> True"
  shows "once (snd (handle E P d w))"
proof -
  obtain r w' where h: "handle E P d w = (r, w')" by fastforce
  have "once w'"
    using h assms
    by (cases d)
      (auto intro: intake_once tripleD [OF once_result] tripleD [OF once_billing] tripleD [OF once_risk] tripleD [OF once_sweep])
  with h show ?thesis by simp
qed

lemma deliver_once: "clean_intakes E P ds w \<Longrightarrow> once w \<Longrightarrow> once (deliver E P ds w)"
  by (induction ds arbitrary: w) (simp_all add: handle_once)

definition fresh_world :: cr_world where
  "fresh_world = \<lparr>nt_log = [], nt_ticks = 0, nt_uuids = 100, nt_sends = 0, cw_store = empty_store\<rparr>"

text \<open>Parameters for concrete runs: one ticket with the given reason, both peers published.\<close>

definition sample_agent_card :: "string \<Rightarrow> AgentCard" where
  "sample_agent_card a = \<lparr>card_agent_id = a, card_name = a, card_description = a, card_version = ''1.0.0'',
     card_endpoint_topic = a, card_capabilities = []\<rparr>"

definition sample_params :: "string \<Rightarrow> cr_params" where
  "sample_params reason = \<lparr>cp_signals = REFUND_INTENT_SIGNALS, cp_llm_enabled = False,
     cp_assist = (\<lambda>_ _ _ fb. map_sum id Some fb),
     cp_find_capable = (\<lambda>_ _. Inr [sample_agent_card BILLING_PEER_AGENT_ID, sample_agent_card RISK_PEER_AGENT_ID]),
     cp_uuid5 = (\<lambda>u s. u + length s), cp_deadline_seconds = 15,
     cp_validate_ticket = (\<lambda>_. Some (sample_ticket\<lparr>tk_reason := reason\<rparr>)),
     cp_validate_task_result = (\<lambda>_. None), cp_validate_billing = (\<lambda>_. None), cp_validate_risk = (\<lambda>_. None),
     cp_number_field = (\<lambda>_. None), cp_float = (\<lambda>_. None)\<rparr>"

definition sample_envelope :: "uuid \<Rightarrow> uuid \<Rightarrow> EventEnvelope" where
  "sample_envelope eid corr = \<lparr>en_event_id = eid, en_correlation_id = corr, en_causation_id = None,
     en_agent_id = ''customer'', en_tenant_id = ''poc'', en_timestamp = 0, en_event_type = TICKET_CREATED ''local'',
     en_schema_version = ''1.0.0'', en_trace_context = None, en_payload = []\<rparr>"

text \<open>A broker that loses one send.\<close>

definition flaky_env :: "nat \<Rightarrow> runtime_env" where
  "flaky_env lost = sample_env\<lparr>re_send_ok := (\<lambda>n. n \<noteq> lost)\<rparr>"

lemma once_initial: "cw_store w = empty_store \<Longrightarrow> nt_log w = [] \<Longrightarrow> once w"
  by (simp add: once_def keyed_def wf_empty bounded_at_def decided_count_def decisions_def)
    (simp add: store_get_def empty_store_def)

lemma sample_intake_clean:
  "clean_intakes (flaky_env 99) (sample_params ''how do I change my email'') [Ticket (sample_envelope 1 5)] fresh_world"
  by code_simp

text \<open>C1: at most one decision. Starting from an empty store, whatever tickets, results and reaper
  ticks are handled in whatever order, redelivered or lost by the broker, at most one decision is
  published for a case, unless an intake raises after it has published its decision. The store stays
  well formed throughout.\<close>

theorem at_most_one_decision:
  assumes "cw_store w = empty_store" "nt_log w = []" "clean_intakes E P ds w"
  shows "decided_count corr (deliver E P ds w) \<le> 1 \<and> wf_store (cw_store (deliver E P ds w))"
proof -
  have "once (deliver E P ds w)" using assms(3) once_initial [OF assms(1,2)] by (rule deliver_once)
  then show ?thesis by (auto simp: once_def keyed_def bounded_at_def dest!: spec [of _ corr] split: if_splits)
qed

theorem at_most_one_decision_witness:
  "decided_count 5 (deliver (flaky_env 99) (sample_params ''how do I change my email'')
      [Ticket (sample_envelope 1 5), ReaperTick] fresh_world) \<le> 1"
proof -
  have "clean_intakes (flaky_env 99) (sample_params ''how do I change my email'')
      [Ticket (sample_envelope 1 5), ReaperTick] fresh_world"
    using sample_intake_clean by simp
  moreover have "cw_store fresh_world = empty_store" "nt_log fresh_world = []" by (simp_all add: fresh_world_def)
  ultimately show ?thesis using at_most_one_decision by blast
qed

text \<open>The proviso is needed. If the broker loses the drafted response of a ticket that is answered
  directly, intake raises with the decision published and the case still open; when the ticket is
  delivered again a second decision is published for the same case.\<close>

lemma lost_draft_decides_twice:
  "decided_count 5 (deliver (flaky_env 4) (sample_params ''how do I change my email'')
      [Ticket (sample_envelope 1 5), Ticket (sample_envelope 1 5)] fresh_world) = 2"
  by code_simp

end
