(* ===== verification/Resolution_Effects.thy ===== *)
theory Resolution_Effects
  imports Resolution_Once
begin

text \<open>
  What the handlers of the Customer-Resolution agent achieve: the reaper settles every case that has
  timed out, and a decision is published together with the drafted response that cites it.
\<close>

section \<open>Settling cases\<close>

text \<open>The cases \<open>X\<close> are in the store and the cases \<open>K\<close> are settled.\<close>

definition settled_all :: "uuid set \<Rightarrow> uuid set \<Rightarrow> cr_world \<Rightarrow> bool" where
  "settled_all X K w \<longleftrightarrow> keyed (cw_store w) \<and> (\<forall>k \<in> X. store_get (cw_store w) k \<noteq> None)
     \<and> (\<forall>k \<in> K. settled_case (cw_store w) k)"

lemma view_settled_all [simp]: "view_pred (settled_all X K)"
  by (simp add: view_pred_def same_view_def settled_all_def)

lemma settled_all_weaken: "settled_all X K w \<Longrightarrow> K' \<subseteq> K \<Longrightarrow> settled_all X K' w"
  by (auto simp: settled_all_def)

lemma settled_all_keyed: "settled_all X K w \<Longrightarrow> keyed (cw_store w)"
  by (simp add: settled_all_def)

lemma triple_settled_all: "settled_io k m \<Longrightarrow> triple (settled_all X K) m (\<lambda>_. settled_all X K)"
proof (rule tripleI)
  fix w r w' assume s: "settled_io k m" and w: "settled_all X K w" "m w = (r, w')"
  note l = settled_ioD [OF s w(2) settled_all_keyed [OF w(1)]]
  have "settled_case (cw_store w') k'" if "settled_case (cw_store w) k'" for k'
    using l that local_settled_elsewhere by (cases "k' = k") (auto simp: settles_def)
  moreover have "store_get (cw_store w') k' \<noteq> None" if "store_get (cw_store w) k' \<noteq> None" for k'
    using l that by (cases "k' = k") (auto simp: local_step_def)
  ultimately show "settled_all X K w'" using w(1) l by (auto simp: settled_all_def local_step_def)
qed

lemma triple_publish_settled_all:
  "triple (settled_all X K) (publish E ident m et corr caus t) (\<lambda>_. settled_all X K)"
  by (rule tripleI) (auto simp: settled_all_def dest!: cw_store_more [OF publish_frame(1)])

lemma triple_emit_settled_all:
  assumes "rc_case_id c = k"
  shows "triple (settled_all X K) (emit_decision_and_draft E c d caus) (\<lambda>_. settled_all X K)"
proof -
  have "settled_io k (emit_draft E c d decided)" for decided
    unfolding emit_draft_def using assms
    by (auto intro!: settled_intros settled_quiet [OF quiet_try] quiet_intros)
  then show ?thesis unfolding emit_decision_and_draft_def
    by (intro triple_bind [OF triple_ok [OF triple_publish_settled_all] triple_settled_all])
      (auto split: sum.splits)
qed

text \<open>A claim leaves its case settled, whether or not it succeeds.\<close>

lemma triple_claim_settles:
  assumes "k \<in> X"
  shows "triple (settled_all X K) (on_store (claim_decision t0 k)) (\<lambda>r. settled_all X (insert k K))"
proof (rule tripleI)
  fix w r w' assume w: "settled_all X K w" and m: "on_store (claim_decision t0 k) w = (r, w')"
  obtain b st' where c: "claim_decision t0 k (cw_store w) = (b, st')" by fastforce
  have w': "w' = w\<lparr>cw_store := st'\<rparr>" using m c by (simp add: on_store_def)
  note cl = claim_local [OF c]
  have k: "settled_case st' k"
  proof (cases b)
    case False
    then show ?thesis using c w assms
      by (auto simp: claim_decision_def settled_case_def settled_status_def settled_all_def split: option.splits if_splits)
  qed (use cl(3) in auto)
  have "settled_case st' k'" if "settled_case (cw_store w) k'" for k'
    using that k local_settled_elsewhere [OF cl(1)] by (cases "k' = k") auto
  moreover have "store_get st' k' \<noteq> None" if "store_get (cw_store w) k' \<noteq> None" for k'
    using that cl(1) by (cases "k' = k") (auto simp: local_step_def)
  ultimately show "settled_all X (insert k K) w'" using w k cl(1) by (auto simp: settled_all_def w' local_step_def)
qed

lemma triple_apply_decision_settles:
  assumes "k \<in> X"
  shows "triple (settled_all X K) (apply_decision E k cause) (\<lambda>_. settled_all X (insert k K))"
proof -
  let ?I = "settled_all X (insert k K)"
  have rest: "triple ?I (with_case k (\<lambda>c. bind_io (case cause of Inl event_id \<Rightarrow> return_io event_id
        | Inr (Some u) \<Rightarrow> return_io u | Inr None \<Rightarrow> uuid4_io E) (\<lambda>causation_id.
       bind_io (now_io E) (\<lambda>t1. bind_io (now_io E) (\<lambda>t2.
       bind_io (lift_exc (case_decision c (build_timeout_status c t1) t2)) (\<lambda>decision.
       then_io (emit_decision_and_draft E c decision causation_id)
       (then_io (assign k (\<lambda>c. c\<lparr>rc_status := DECIDED\<rparr>)) (save_case E k)))))))) (\<lambda>_. ?I)"
  proof (rule triple_with_case)
    fix c :: ResolutionCase assume c: "rc_case_id c = k" "rc_correlation_id c = k"
    have "settled_io k (then_io (assign k (\<lambda>c. c\<lparr>rc_status := DECIDED\<rparr>)) (save_case E k))"
      by (auto intro!: settled_intros simp: settled_status_def)
    then have emit: "triple ?I (then_io (emit_decision_and_draft E c d caus)
        (then_io (assign k (\<lambda>c. c\<lparr>rc_status := DECIDED\<rparr>)) (save_case E k))) (\<lambda>_. ?I)" for d caus
      by (intro triple_then [OF triple_ok [OF triple_emit_settled_all [OF c(1)]] triple_settled_all])
        (auto split: sum.splits)
    have "quiet (case cause of Inl event_id \<Rightarrow> return_io event_id | Inr (Some u) \<Rightarrow> return_io u | Inr None \<Rightarrow> uuid4_io E)"
      by (auto intro: quiet_intros split: sum.split option.split)
    then show "triple ?I (bind_io (case cause of Inl event_id \<Rightarrow> return_io event_id
          | Inr (Some u) \<Rightarrow> return_io u | Inr None \<Rightarrow> uuid4_io E) (\<lambda>causation_id.
         bind_io (now_io E) (\<lambda>t1. bind_io (now_io E) (\<lambda>t2.
         bind_io (lift_exc (case_decision c (build_timeout_status c t1) t2)) (\<lambda>decision.
         then_io (emit_decision_and_draft E c decision causation_id)
         (then_io (assign k (\<lambda>c. c\<lparr>rc_status := DECIDED\<rparr>)) (save_case E k))))))) (\<lambda>_. ?I)"
      by (intro triple_quiet_bind emit quiet_intros view_settled_all) auto
  qed (auto dest: settled_all_keyed)
  show ?thesis unfolding apply_decision_def
  proof (rule triple_bind [where R = "\<lambda>_. settled_all X K"])
    show "triple (settled_all X K) (now_io E) (\<lambda>r w. case r of Inl e \<Rightarrow> ?I w | Inr x \<Rightarrow> settled_all X K w)"
      by (rule tripleI) (auto simp: now_io_def settled_all_def)
  qed (rule triple_bind [where R = "\<lambda>_. ?I"], goal_cases claim body;
      (rule triple_ok [OF triple_claim_settles [OF assms]], simp split: sum.splits)?,
      (rule triple_if, rule triple_return, assumption, rule rest)?)
qed

lemma triple_reap_case:
  assumes "k \<in> X"
  shows "triple (settled_all X K) (reap_case E k) (\<lambda>r w. r = Inr () \<and> settled_all X (insert k K) w)"
proof (rule tripleI)
  fix w r w' assume w: "settled_all X K w" and m: "reap_case E k w = (r, w')"
  then obtain c where c: "store_get (cw_store w) k = Some c" using assms by (auto simp: settled_all_def)
  show "r = Inr () \<and> settled_all X (insert k K) w'"
  proof (cases "is_terminal (rc_status c) \<or> rc_status c = DECIDED")
    case True
    then have "r = Inr ()" "w' = w" using m c by (auto simp: reap_case_def with_case_def read_case_def io_defs)
    then show ?thesis using w c True by (auto simp: settled_all_def settled_case_def settled_status_def)
  next
    case False
    obtain u w1 where u: "uuid4_io E w = (Inr u, w1)" by (simp add: uuid4_io_def)
    then have w1: "settled_all X K w1" using w by (auto simp: uuid4_io_def settled_all_def)
    obtain y w2 where a: "apply_decision E k (Inr (Some u)) w1 = (y, w2)" by fastforce
    have "r = Inr ()" "w' = w2" using m c False u a
      by (auto simp: reap_case_def with_case_def read_case_def io_defs split: sum.splits)
    then show ?thesis using tripleD [OF triple_apply_decision_settles [OF assms] w1 a] by simp
  qed
qed

lemma reap_cases_settle:
  "set ks \<subseteq> X \<Longrightarrow> settled_all X K w \<Longrightarrow> reap_cases E ks w = (r, w') \<Longrightarrow> r = Inr () \<and> settled_all X (K \<union> set ks) w'"
proof (induction ks arbitrary: K w)
  case (Cons k ks)
  obtain y w1 where k: "reap_case E k w = (y, w1)" by fastforce
  then have "y = Inr ()" "settled_all X (insert k K) w1"
    using tripleD [OF triple_reap_case [of k X K E] Cons.prems(2) k] Cons.prems(1) by auto
  then show ?case using Cons.IH [of "insert k K" w1] Cons.prems k by (simp add: then_io_def bind_io_def)
qed (simp add: return_io_def)

text \<open>C9: no case waits for ever. One sweep of the reaper never raises and leaves every case whose
  deadline has passed with peer reviews outstanding decided or closed, even if the broker refuses
  every message.\<close>

theorem reaper_settles_timed_out:
  assumes "keyed (cw_store w)" and "reaper_sweep E w = (r, w')"
  shows "r = Inr ()
    \<and> (\<forall>c \<in> set (list_timed_out_cases (re_clock E (nt_ticks w)) (cw_store w)). settled_case (cw_store w') (rc_case_id c))"
proof -
  let ?ks = "map rc_case_id (list_timed_out_cases (re_clock E (nt_ticks w)) (cw_store w))"
  let ?w = "w\<lparr>nt_ticks := Suc (nt_ticks w)\<rparr>"
  have r: "reap_cases E ?ks ?w = (r, w')" using assms(2) by (simp add: reaper_sweep_def io_defs now_io_def)
  have "store_get (cw_store w) (rc_case_id c) = Some c"
    if "c \<in> set (list_timed_out_cases (re_clock E (nt_ticks w)) (cw_store w))" for c
    using that assms(1) wf_storeD by (auto simp: list_timed_out_cases_def keyed_def store_get_def)
  then have "settled_all (set ?ks) {} ?w" using assms(1) by (auto simp: settled_all_def)
  from reap_cases_settle [OF _ this r] show ?thesis by (auto simp: settled_all_def)
qed

text \<open>A case that has waited past its deadline, and a broker that refuses everything.\<close>

definition overdue_world :: cr_world where
  "overdue_world = fresh_world\<lparr>cw_store :=
     upd_case 1 (\<lambda>c. c\<lparr>rc_status := WAITING_FOR_PEER_REVIEWS, rc_pending_tasks := {7}, rc_deadline_at := Some (- 1)\<rparr>)
       sample_store\<rparr>"

lemma sample_store_keyed: "keyed sample_store" "\<exists>c. store_get sample_store 1 = Some c \<and> rc_case_id c = 1"
proof -
  have e: "keyed empty_store" using once_initial [of fresh_world] by (simp add: fresh_world_def once_def)
  obtain c st where g: "get_or_create 1 ''T-1'' ''CUS-1'' 1 10 ''USD'' ''refund'' 0 empty_store = (c, st)" by fastforce
  note l = get_or_create_local [OF g e]
  show k: "keyed sample_store" using l(1) e g by (simp add: sample_store_def local_step_def)
  show "\<exists>c. store_get sample_store 1 = Some c \<and> rc_case_id c = 1"
    using l(3) keyedD(1) [OF k] g by (auto simp: sample_store_def)
qed

theorem reaper_settles_timed_out_witness:
  "fst (reaper_sweep (sample_env\<lparr>re_send_ok := (\<lambda>_. False)\<rparr>) overdue_world) = Inr ()
   \<and> settled_case (cw_store (snd (reaper_sweep (sample_env\<lparr>re_send_ok := (\<lambda>_. False)\<rparr>) overdue_world))) 1"
proof -
  let ?E = "sample_env\<lparr>re_send_ok := (\<lambda>_. False)\<rparr>"
  have k: "keyed (cw_store overdue_world)"
    using local_upd_case sample_store_keyed(1) by (simp add: overdue_world_def local_step_def)
  obtain c where c: "store_get (cw_store overdue_world) 1 = Some c" "rc_case_id c = 1" "timed_out 0 c"
    using sample_store_keyed(2) by (auto simp: overdue_world_def timed_out_def is_terminal_def)
  then have "c \<in> set (list_timed_out_cases (re_clock ?E (nt_ticks overdue_world)) (cw_store overdue_world))"
    by (auto simp: list_timed_out_cases_def store_get_def sample_env_def overdue_world_def fresh_world_def
        dest!: map_of_SomeD intro: rev_image_eqI)
  with reaper_settles_timed_out [OF k, of ?E] c(2) show ?thesis
    by (cases "reaper_sweep ?E overdue_world") fastforce
qed

section \<open>A decision and its draft\<close>

lemma template_not_blank: "py_strip (TEMPLATES out) \<noteq> []"
proof -
  have "\<forall>o' \<in> {APPROVE_REFUND, DENY_REFUND, ESCALATE_HUMAN, DIRECT_RESPONSE, OFFER_PARTIAL_CREDIT, REQUEST_MORE_INFORMATION}.
      py_strip (TEMPLATES o') \<noteq> []" by code_simp
  then show ?thesis by (cases out) simp_all
qed

lemma escalation_approved: "requires_human_approval ESCALATE_HUMAN"
  by code_simp

lemma cr_identity_valid: "AGENT_ID_RE (id_agent_id cr_identity)" "TENANT_ID_RE (id_tenant_id cr_identity)"
  by code_simp+

lemma publish_cr:
  fixes w :: cr_world
  assumes "type_segment (re_environment E)" "\<And>n. re_send_ok E n"
    and "(et, class_name m) \<in> set (domain_topics (re_environment E))"
  obtains env w' where "publish E cr_identity m et corr (Some caus) None w = (Inr env, w')"
    "en_correlation_id env = corr" "en_causation_id env = Some caus" "cw_store w' = cw_store w"
    "nt_log w' = nt_log w @ [\<lparr>sn_topic = et, sn_key = Inl (en_event_id env), sn_envelope = env, sn_model = m\<rparr>]"
  using publish_domain [OF assms(1,3) cr_identity_valid, of corr caus w] assms(2) that by (simp add: Let_def)

lemma write_audit_cr:
  fixes w :: cr_world
  assumes "\<And>n. re_send_ok E n"
  obtains m a w' where "write_audit E cr_identity e oc (Some reason) w = (Inr (), w')" "cw_store w' = cw_store w"
    "nt_log w' = nt_log w @ [m]" "sn_model m = MAudit a"
proof -
  have "EVENT_TYPE_RE ''agent.audit.v1''" by code_simp
  then show thesis using assms cr_identity_valid that
    by (auto simp: write_audit_def write_task_audit_def io_defs lift_exc_def uuid4_io_def now_io_def publish_raw_def
        send_and_wait_def validate_envelope_def validate_reason_required_def Let_def)
qed

lemma emit_ok:
  fixes w :: cr_world
  assumes E: "type_segment (re_environment E)" "\<And>n. re_send_ok E n"
    and c: "rc_case_id c = cid" "store_get (cw_store w) cid = Some c0"
    and d: "dp_customer_response d = TEMPLATES (dp_outcome d)"
  obtains decided audit drafted a dr w' where
    "emit_decision_and_draft E c d caus w = (Inr (sn_envelope decided), w')"
    "nt_log w' = nt_log w @ [decided, audit, drafted]"
    "sn_model decided = MDecision d" "sn_model audit = MAudit a" "sn_model drafted = MDrafted dr"
    "en_correlation_id (sn_envelope decided) = rc_correlation_id c" "en_causation_id (sn_envelope decided) = Some caus"
    "en_correlation_id (sn_envelope drafted) = rc_correlation_id c"
    "en_causation_id (sn_envelope drafted) = Some (en_event_id (sn_envelope decided))"
    "dr_outcome dr = dp_outcome d" "dr_draft_response dr = dp_customer_response d"
    "dr_decision_event_id dr = en_event_id (sn_envelope decided)"
    "store_get (cw_store w') cid = Some (c0\<lparr>rc_decided_event_id := Some (en_event_id (sn_envelope decided)),
       rc_drafted_event_id := Some (en_event_id (sn_envelope drafted))\<rparr>)"
proof -
  let ?td = "TOPIC_RESOLUTION_DECIDED (re_environment E)" and ?tr = "TOPIC_RESPONSE_DRAFTED (re_environment E)"
  have t: "(?td, class_name (MDecision d)) \<in> set (domain_topics (re_environment E))"
    "(?tr, class_name (MDrafted x)) \<in> set (domain_topics (re_environment E))" for x
    by (simp_all add: domain_topics_def)
  obtain e1 w1 where p1: "publish E cr_identity (MDecision d) ?td (rc_correlation_id c) (Some caus) None w = (Inr e1, w1)"
    "en_correlation_id e1 = rc_correlation_id c" "en_causation_id e1 = Some caus" "cw_store w1 = cw_store w"
    "nt_log w1 = nt_log w @ [\<lparr>sn_topic = ?td, sn_key = Inl (en_event_id e1), sn_envelope = e1, sn_model = MDecision d\<rparr>]"
    by (rule publish_cr [OF E t(1)])
  let ?w1 = "w1\<lparr>cw_store := upd_case cid (\<lambda>c. c\<lparr>rc_decided_event_id := Some (en_event_id e1)\<rparr>) (cw_store w1)\<rparr>"
  obtain m a w2 where a: "write_audit E cr_identity e1 AuditCompleted (Some (''decision: '' @ outcome_value (dp_outcome d))) ?w1 = (Inr (), w2)"
    "cw_store w2 = cw_store ?w1" "nt_log w2 = nt_log ?w1 @ [m]" "sn_model m = MAudit a"
    by (rule write_audit_cr [OF E(2)])
  define dr where "dr = \<lparr>dr_case_id = rc_correlation_id c, dr_ticket_id = dp_ticket_id d,
          dr_customer_id = dp_customer_id d, dr_decision_event_id = en_event_id e1,
          dr_outcome = dp_outcome d, dr_draft_response = dp_customer_response d,
          dr_requires_human_approval = requires_human_approval (dp_outcome d),
          dr_drafted_by_agent_id = ''customer-resolution-agent'', dr_drafted_at = re_clock E (nt_ticks w2)\<rparr>"
  have v: "validate_draft_payload dr = Inr dr"
    using d template_not_blank escalation_approved by (auto simp: validate_draft_payload_def dr_def)
  let ?w2 = "w2\<lparr>nt_ticks := Suc (nt_ticks w2)\<rparr>"
  obtain e2 w3 where p2: "publish E cr_identity (MDrafted dr) ?tr (rc_correlation_id c) (Some (en_event_id e1)) None ?w2 = (Inr e2, w3)"
    "en_correlation_id e2 = rc_correlation_id c" "en_causation_id e2 = Some (en_event_id e1)" "cw_store w3 = cw_store ?w2"
    "nt_log w3 = nt_log ?w2 @ [\<lparr>sn_topic = ?tr, sn_key = Inl (en_event_id e2), sn_envelope = e2, sn_model = MDrafted dr\<rparr>]"
    by (rule publish_cr [OF E t(2)])
  let ?w3 = "w3\<lparr>cw_store := upd_case cid (\<lambda>c. c\<lparr>rc_drafted_event_id := Some (en_event_id e2)\<rparr>) (cw_store w3)\<rparr>"
  have "emit_decision_and_draft E c d caus w = emit_draft E c d e1 w1"
    using p1(1) by (simp add: emit_decision_and_draft_def bind_io_def)
  also have "\<dots> = (Inr e1, ?w3)"
    using a(1) p2(1) v
    by (simp add: emit_draft_def c(1) assign_def on_store_def then_io_def bind_io_def try_io_def now_io_def
        lift_exc_def return_io_def dr_def)
  finally show thesis
    using p1 a p2 c(2)
    by (intro that [of "\<lparr>sn_topic = ?td, sn_key = Inl (en_event_id e1), sn_envelope = e1, sn_model = MDecision d\<rparr>" ?w3 m
        "\<lparr>sn_topic = ?tr, sn_key = Inl (en_event_id e2), sn_envelope = e2, sn_model = MDrafted dr\<rparr>" a dr])
      (simp_all add: dr_def)
qed

lemma save_case_ok:
  assumes "store_get (cw_store w) cid = Some c" "rc_case_id c = cid"
  obtains w' v u where "save_case E cid w = (Inr (), w')" "nt_log w' = nt_log w"
    "store_get (cw_store w') cid = Some (c\<lparr>rc_version := v, rc_updated_at := u\<rparr>)"
  using assms that by (auto simp: save_case_def on_store_exc_def io_defs now_io_def save_def store_get_def Let_def)

definition is_audit :: "sent \<Rightarrow> bool" where
  "is_audit m = (case sn_model m of MAudit _ \<Rightarrow> True | _ \<Rightarrow> False)"

lemma apply_decision_run:
  assumes E: "type_segment (re_environment E)" "\<And>n. re_send_ok E n"
    and c: "store_get (cw_store w) cid = Some c" "rc_case_id c = cid" "\<not> settled_status (rc_status c)"
  obtains t1 t2 d decided drafted dr c' w' where
    "apply_decision E cid (Inl trigger) w = (Inr (), w')"
    "case_decision c (build_timeout_status c t1) t2 = Inr d"
    "filter (\<lambda>m. \<not> is_audit m) (nt_log w') = filter (\<lambda>m. \<not> is_audit m) (nt_log w) @ [decided, drafted]"
    "sn_model decided = MDecision d" "en_correlation_id (sn_envelope decided) = rc_correlation_id c"
    "en_causation_id (sn_envelope decided) = Some trigger"
    "sn_model drafted = MDrafted dr" "en_correlation_id (sn_envelope drafted) = rc_correlation_id c"
    "en_causation_id (sn_envelope drafted) = Some (en_event_id (sn_envelope decided))"
    "dr_outcome dr = dp_outcome d" "dr_draft_response dr = dp_customer_response d"
    "dr_decision_event_id dr = en_event_id (sn_envelope decided)"
    "store_get (cw_store w') cid = Some c'" "rc_status c' = DECIDED"
    "rc_decided_event_id c' = Some (en_event_id (sn_envelope decided))"
    "rc_drafted_event_id c' = Some (en_event_id (sn_envelope drafted))"
proof -
  let ?t0 = "re_clock E (nt_ticks w)" and ?t1 = "re_clock E (Suc (nt_ticks w))" and ?t2 = "re_clock E (Suc (Suc (nt_ticks w)))"
  let ?c = "c\<lparr>rc_status := DECIDED, rc_updated_at := ?t0, rc_version := rc_version c + 1\<rparr>"
  let ?claim = "\<lambda>c. c\<lparr>rc_status := DECIDED, rc_updated_at := ?t0, rc_version := rc_version c + 1\<rparr>"
  let ?w = "w\<lparr>cw_store := upd_case cid ?claim (cw_store w), nt_ticks := Suc (Suc (Suc (nt_ticks w)))\<rparr>"
  have "build_timeout_status ?c t = build_timeout_status c t" for t
    by (simp add: build_timeout_status_def Let_def cong: option.case_cong)
  then have same: "case_decision ?c (build_timeout_status ?c t) t' = case_decision c (build_timeout_status c t) t'" for t t'
    by (simp add: case_decision_def)
  obtain d where d: "case_decision c (build_timeout_status c ?t1) ?t2 = Inr d" "dp_customer_response d = TEMPLATES (dp_outcome d)"
    using decide_row [of "Some (rc_correlation_id c)" "rc_ticket_id c" "rc_customer_id c"
        "case rc_triage c of Some t \<Rightarrow> t | None \<Rightarrow> no_triage" "rc_billing_result c" "rc_risk_result c"
        "Some (build_timeout_status c ?t1)" "Some default_policy" "Some ?t2"]
    by (auto simp: case_decision_def follows_row_def)
  have "store_get (cw_store ?w) cid = Some ?c" "rc_case_id ?c = cid" using c by simp_all
  then obtain decided audit drafted a dr w1 where
    e: "emit_decision_and_draft E ?c d trigger ?w = (Inr (sn_envelope decided), w1)"
      "nt_log w1 = nt_log ?w @ [decided, audit, drafted]"
      "sn_model decided = MDecision d" "sn_model audit = MAudit a" "sn_model drafted = MDrafted dr"
      "en_correlation_id (sn_envelope decided) = rc_correlation_id ?c" "en_causation_id (sn_envelope decided) = Some trigger"
      "en_correlation_id (sn_envelope drafted) = rc_correlation_id ?c"
      "en_causation_id (sn_envelope drafted) = Some (en_event_id (sn_envelope decided))"
      "dr_outcome dr = dp_outcome d" "dr_draft_response dr = dp_customer_response d"
      "dr_decision_event_id dr = en_event_id (sn_envelope decided)"
      "store_get (cw_store w1) cid = Some (?c\<lparr>rc_decided_event_id := Some (en_event_id (sn_envelope decided)),
         rc_drafted_event_id := Some (en_event_id (sn_envelope drafted))\<rparr>)"
    using d(2) by (elim emit_ok [OF E])
  let ?w1 = "w1\<lparr>cw_store := upd_case cid (\<lambda>c. c\<lparr>rc_status := DECIDED\<rparr>) (cw_store w1)\<rparr>"
  let ?c1 = "?c\<lparr>rc_decided_event_id := Some (en_event_id (sn_envelope decided)),
         rc_drafted_event_id := Some (en_event_id (sn_envelope drafted))\<rparr>"
  have "store_get (cw_store ?w1) cid = Some ?c1" "rc_case_id ?c1 = cid" using e(13) c(2) by simp_all
  then obtain w2 v u where
    s: "save_case E cid ?w1 = (Inr (), w2)" "nt_log w2 = nt_log ?w1"
      "store_get (cw_store w2) cid = Some (?c1\<lparr>rc_version := v, rc_updated_at := u\<rparr>)"
    by (rule save_case_ok)
  have "apply_decision E cid (Inl trigger) w = (Inr (), w2)"
    using c e(1) s(1) d(1) same
    by (simp add: apply_decision_def now_io_def bind_io_def then_io_def on_store_def claim_decision_def with_case_def
        read_case_def get_io_def return_io_def lift_exc_def assign_def settled_status_def)
  moreover have "\<not> is_audit decided" "is_audit audit" "\<not> is_audit drafted" using e by (simp_all add: is_audit_def)
  ultimately show thesis using d(1) e s
    by (intro that [of w2 ?t1 ?t2 d decided drafted dr "?c1\<lparr>rc_version := v, rc_updated_at := u\<rparr>"]) simp_all
qed

text \<open>C8: a decision and its draft. When an open case is decided over a working broker, exactly two
  domain events are published, both under the case's correlation: the decision of the engine on the
  findings the case holds, caused by the triggering event, and the drafted response, caused by the
  decision, with the decision's outcome and text; the case ends as decided and records both events.\<close>

theorem apply_decision_effect:
  assumes E: "type_segment (re_environment E)" "\<And>n. re_send_ok E n"
    and c: "store_get (cw_store w) cid = Some c" "rc_case_id c = cid" "\<not> settled_status (rc_status c)"
  shows "\<exists>t1 t2 d decided drafted dr c' w'.
    apply_decision E cid (Inl trigger) w = (Inr (), w')
    \<and> case_decision c (build_timeout_status c t1) t2 = Inr d
    \<and> filter (\<lambda>m. \<not> is_audit m) (nt_log w') = filter (\<lambda>m. \<not> is_audit m) (nt_log w) @ [decided, drafted]
    \<and> sn_model decided = MDecision d \<and> en_correlation_id (sn_envelope decided) = rc_correlation_id c
    \<and> en_causation_id (sn_envelope decided) = Some trigger
    \<and> sn_model drafted = MDrafted dr \<and> en_correlation_id (sn_envelope drafted) = rc_correlation_id c
    \<and> en_causation_id (sn_envelope drafted) = Some (en_event_id (sn_envelope decided))
    \<and> dr_outcome dr = dp_outcome d \<and> dr_draft_response dr = dp_customer_response d
    \<and> dr_decision_event_id dr = en_event_id (sn_envelope decided)
    \<and> store_get (cw_store w') cid = Some c' \<and> rc_status c' = DECIDED
    \<and> rc_decided_event_id c' = Some (en_event_id (sn_envelope decided))
    \<and> rc_drafted_event_id c' = Some (en_event_id (sn_envelope drafted))"
  by (rule apply_decision_run [OF assms]) blast

theorem apply_decision_effect_witness:
  "\<exists>d decided drafted w'.
    apply_decision sample_env 1 (Inl 9) (fresh_world\<lparr>cw_store := sample_store\<rparr>) = (Inr (), w')
    \<and> filter (\<lambda>m. \<not> is_audit m) (nt_log w') = [decided, drafted]
    \<and> sn_model decided = MDecision d \<and> en_causation_id (sn_envelope decided) = Some 9
    \<and> en_causation_id (sn_envelope drafted) = Some (en_event_id (sn_envelope decided))"
proof -
  let ?w = "fresh_world\<lparr>cw_store := sample_store\<rparr>"
  have ok: "re_send_ok sample_env n" for n by (simp add: sample_env_def)
  obtain c where c: "store_get (cw_store ?w) 1 = Some c" "rc_case_id c = 1" using sample_store_keyed(2) by auto
  moreover have "rc_status c = RECEIVED"
    using c(1) by (simp add: sample_store_def get_or_create_def new_case_def empty_store_def store_get_def Let_def) auto
  then have "\<not> settled_status (rc_status c)" by (simp add: settled_status_def is_terminal_def)
  ultimately show ?thesis using apply_decision_effect [OF sample_env_segment ok, of ?w 1 c 9] by (auto simp: fresh_world_def)
qed

end
