(* ===== verification/Resolution_Order.thy ===== *)
theory Resolution_Order
  imports Resolution_Effects
begin

text \<open>
  A waiting case receives its two opinions. Whatever their order, over a working broker the two domain
  events lead to exactly one decision; which one depends on the order, since the handler of risk results
  escalates a risky case at once unless a denial is already in.
\<close>

section \<open>Cases that wait for both opinions\<close>

definition awaiting :: "cr_world \<Rightarrow> uuid \<Rightarrow> ResolutionCase \<Rightarrow> uuid \<Rightarrow> uuid \<Rightarrow> bool" where
  "awaiting w k c tb tr \<longleftrightarrow> get_by_correlation_id (cw_store w) k = Some c
     \<and> rc_status c = WAITING_FOR_PEER_REVIEWS \<and> rc_pending_tasks c = {tb, tr} \<and> tb \<noteq> tr
     \<and> rc_billing_task_id c = Some tb \<and> rc_risk_task_id c = Some tr
     \<and> rc_billing_result c = None \<and> rc_risk_result c = None
     \<and> \<not> rc_billing_slot_failed c \<and> \<not> rc_risk_slot_failed c"

definition decided_outcomes :: "uuid \<Rightarrow> cr_world \<Rightarrow> ResolutionOutcome list" where
  "decided_outcomes k w =
     List.map_filter (\<lambda>m. case sn_model m of
         MDecision d \<Rightarrow> if en_correlation_id (sn_envelope m) = k then Some (dp_outcome d) else None
       | _ \<Rightarrow> None) (nt_log w)"

text \<open>The risk opinions that escalate a case on their own.\<close>

definition risky :: "RiskFinding \<Rightarrow> bool" where
  "risky r \<longleftrightarrow> fr_level r \<in> {Elevated, High} \<or> fr_requires_human_review r"

definition case_triage :: "ResolutionCase \<Rightarrow> Triage" where
  "case_triage c = (case rc_triage c of Some t \<Rightarrow> t | None \<Rightarrow> no_triage)"

lemma outcomes_of_decisions:
  "decided_outcomes k w = List.map_filter (\<lambda>m. case sn_model m of
         MDecision d \<Rightarrow> if en_correlation_id (sn_envelope m) = k then Some (dp_outcome d) else None
       | _ \<Rightarrow> None) (decisions w)"
proof -
  have skip: "List.map_filter f xs = List.map_filter f (filter P xs)" if "\<And>x. f x \<noteq> None \<Longrightarrow> P x"
    for f :: "sent \<Rightarrow> ResolutionOutcome option" and P and xs
    using that by (induction xs) (auto simp: map_filter_simps split: option.split)
  show ?thesis unfolding decided_outcomes_def decisions_def
    by (rule skip) (auto simp: is_decision_def split: message.splits)
qed

lemma outcomes_cong: "decisions w' = decisions w \<Longrightarrow> decided_outcomes k w' = decided_outcomes k w"
  by (simp add: outcomes_of_decisions)

lemma outcomes_snoc:
  assumes "decisions w' = decisions w @ [m]" "sn_model m = MDecision d" "en_correlation_id (sn_envelope m) = k"
  shows "decided_outcomes k w' = decided_outcomes k w @ [dp_outcome d]"
  using assms by (simp add: outcomes_of_decisions List.map_filter_def)

lemma outcomes_none: "decided_count k w = 0 \<Longrightarrow> decided_outcomes k w = []"
  by (auto simp: outcomes_of_decisions decided_count_def List.map_filter_def filter_empty_conv split: message.splits if_splits)

lemma decisions_of_events:
  assumes "filter (\<lambda>m. \<not> is_audit m) (nt_log w') = filter (\<lambda>m. \<not> is_audit m) (nt_log w) @ [decided, drafted]"
    and "sn_model decided = MDecision d" "sn_model drafted = MDrafted dr"
  shows "decisions w' = decisions w @ [decided]"
proof -
  have d: "decisions v = filter is_decision (filter (\<lambda>m. \<not> is_audit m) (nt_log v))" for v
    unfolding decisions_def filter_filter
    by (rule filter_cong) (auto simp: is_decision_def is_audit_def split: message.splits)
  show ?thesis unfolding d assms(1) using assms(2,3) by (simp add: is_decision_def)
qed

section \<open>What the handlers do to such a case\<close>

lemma attach_run:
  fixes w :: cr_world
  assumes E: "\<And>n. re_send_ok E n"
    and c: "store_get (cw_store w) k = Some c" "\<not> settled_status (rc_status c)" "t \<in> rc_pending_tasks c"
  obtains w' t0 g where "attach_finding E env k t f w = (Inr (), w')" "decisions w' = decisions w"
    "cw_store w' = upd_case k (attach t0 t f) (upd_case k g (cw_store w))"
    "g = (case f of FBilling _ \<Rightarrow> (\<lambda>c. c\<lparr>rc_billing_result_event_id := Some (en_event_id env)\<rparr>)
              | FRisk _ \<Rightarrow> (\<lambda>c. c\<lparr>rc_risk_result_event_id := Some (en_event_id env)\<rparr>))"
proof -
  define g where "g = (case f of FBilling _ \<Rightarrow> (\<lambda>c. c\<lparr>rc_billing_result_event_id := Some (en_event_id env)\<rparr>)
              | FRisk _ \<Rightarrow> (\<lambda>c :: ResolutionCase. c\<lparr>rc_risk_result_event_id := Some (en_event_id env)\<rparr>))"
  let ?t0 = "re_clock E (nt_ticks w)"
  let ?w1 = "w\<lparr>nt_ticks := Suc (nt_ticks w), cw_store := upd_case k (attach ?t0 t f) (upd_case k g (cw_store w))\<rparr>"
  have "EVENT_TYPE_RE ''agent.audit.v1''" by code_simp
  then obtain w' where a: "write_task_audit E cr_identity env AuditCompleted (Some t) None ?w1 = (Inr (), w')"
    using E cr_identity_valid
    by (auto simp: write_task_audit_def io_defs lift_exc_def uuid4_io_def now_io_def publish_raw_def
        send_and_wait_def validate_envelope_def validate_reason_required_def Let_def)
  have "same_view ?w1 w'" by (rule quietD [OF quiet_audit(1) a])
  moreover have "apply_result ?t0 k t f (upd_case k g (cw_store w))
      = (ATTACHED, upd_case k (attach ?t0 t f) (upd_case k g (cw_store w)))"
    using c by (auto simp: apply_result_def settled_status_def g_def split: finding.split)
  then have "attach_finding E env k t f w = (Inr (), w')"
    using a by (simp add: attach_finding_def g_def [symmetric] assign_def on_store_def io_defs now_io_def when_io_def)
  ultimately show thesis by (intro that [of w' ?t0 g]) (auto simp: g_def same_view_def decisions_def)
qed

lemma decide_run:
  assumes E: "type_segment (re_environment E)" "\<And>n. re_send_ok E n"
    and c: "store_get (cw_store w) k = Some c" "rc_case_id c = k" "\<not> settled_status (rc_status c)" "is_ready_to_decide c"
  obtains w' m d t where "decide_if_open E k env w = (Inr (), w')" "decisions w' = decisions w @ [m]"
    "sn_model m = MDecision d" "en_correlation_id (sn_envelope m) = rc_correlation_id c"
    "dp_outcome d = fst (table_row (case_triage c) (rc_billing_result c) (rc_risk_result c) (Some (build_timeout_status c t)))"
    "settled_case (cw_store w') k"
proof -
  obtain t1 t2 d decided drafted dr c' w' where
    a: "apply_decision E k (Inl (en_event_id env)) w = (Inr (), w')" "case_decision c (build_timeout_status c t1) t2 = Inr d"
      "filter (\<lambda>m. \<not> is_audit m) (nt_log w') = filter (\<lambda>m. \<not> is_audit m) (nt_log w) @ [decided, drafted]"
      "sn_model decided = MDecision d" "en_correlation_id (sn_envelope decided) = rc_correlation_id c"
      "sn_model drafted = MDrafted dr" "store_get (cw_store w') k = Some c'" "rc_status c' = DECIDED"
    by (rule apply_decision_run [OF E c(1-3)])
  have "decide_if_open E k env w = (Inr (), w')"
    using a(1) c by (simp add: decide_if_open_def with_case_def read_case_def io_defs settled_status_def)
  moreover have "dp_outcome d = fst (table_row (case_triage c) (rc_billing_result c) (rc_risk_result c) (Some (build_timeout_status c t1)))"
    using decide_row [of "Some (rc_correlation_id c)" "rc_ticket_id c" "rc_customer_id c" "case_triage c" "rc_billing_result c"
        "rc_risk_result c" "Some (build_timeout_status c t1)" "Some default_policy" "Some t2"] a(2)
    by (auto simp: case_decision_def case_triage_def follows_row_def)
  ultimately show thesis using a decisions_of_events [OF a(3,4,6)]
    by (intro that) (auto simp: settled_case_def settled_status_def)
qed

lemma escalate_run:
  assumes E: "type_segment (re_environment E)" "\<And>n. re_send_ok E n"
    and c: "store_get (cw_store w) k = Some c" "rc_case_id c = k" "\<not> settled_status (rc_status c)"
  obtains w' m d where "escalate_high_risk E env k f w = (Inr (), w')" "decisions w' = decisions w @ [m]"
    "sn_model m = MDecision d" "en_correlation_id (sn_envelope m) = rc_correlation_id c"
    "dp_outcome d = ESCALATE_HUMAN" "settled_case (cw_store w') k"
proof -
  let ?t0 = "re_clock E (nt_ticks w)"
  let ?claim = "\<lambda>c. c\<lparr>rc_status := DECIDED, rc_updated_at := ?t0, rc_version := rc_version c + 1\<rparr>"
  let ?set = "\<lambda>c. c\<lparr>rc_risk_result_event_id := Some (en_event_id env), rc_risk_result := Some f\<rparr>"
  let ?w = "w\<lparr>nt_ticks := Suc (nt_ticks w), cw_store := upd_case k ?set (upd_case k ?claim (cw_store w))\<rparr>"
  let ?lvl = "finding_level_value (fr_level f)"
  obtain d where d: "decision_payload (rc_correlation_id c) (rc_ticket_id c) (rc_customer_id c) ESCALATE_HUMAN
      (Some ''elevated_risk'') None (Some (''level='' @ ?lvl)) (''Risk level '' @ ?lvl @ '' forces escalation'') = Inr d"
    "dp_outcome d = ESCALATE_HUMAN" "dp_customer_response d = TEMPLATES (dp_outcome d)"
    by (simp add: decision_payload_ok)
  have "rc_case_id (?claim c) = k" "store_get (cw_store ?w) k = Some (?set (?claim c))" using c by simp_all
  then obtain decided audit drafted a dr w1 where
    e: "emit_decision_and_draft E (?claim c) d (en_event_id env) ?w = (Inr (sn_envelope decided), w1)"
      "nt_log w1 = nt_log ?w @ [decided, audit, drafted]" "sn_model decided = MDecision d" "sn_model audit = MAudit a"
      "sn_model drafted = MDrafted dr" "en_correlation_id (sn_envelope decided) = rc_correlation_id (?claim c)"
      "store_get (cw_store w1) k = Some ((?set (?claim c))\<lparr>rc_decided_event_id := Some (en_event_id (sn_envelope decided)),
         rc_drafted_event_id := Some (en_event_id (sn_envelope drafted))\<rparr>)"
    using d(3) by (elim emit_ok [OF E])
  let ?w1 = "w1\<lparr>cw_store := upd_case k (\<lambda>c. c\<lparr>rc_status := ESCALATED\<rparr>) (cw_store w1)\<rparr>"
  obtain c1 where "store_get (cw_store ?w1) k = Some c1" "rc_case_id c1 = k" "rc_status c1 = ESCALATED"
    using e(7) c(2) by simp
  then obtain w2 v u where s: "save_case E k ?w1 = (Inr (), w2)" "nt_log w2 = nt_log ?w1"
      "store_get (cw_store w2) k = Some (c1\<lparr>rc_version := v, rc_updated_at := u\<rparr>)" "rc_status c1 = ESCALATED"
    by (metis save_case_ok)
  have "escalate_high_risk E env k f w = (Inr (), w2)"
    using c e(1) s(1) d(1)
    by (simp add: escalate_high_risk_def now_io_def bind_io_def then_io_def on_store_def claim_decision_def with_case_def
        read_case_def get_io_def return_io_def lift_exc_def assign_def settled_status_def)
  moreover have "decisions w2 = decisions w @ [decided]" using e s(2) by (simp add: decisions_def is_decision_def)
  ultimately show thesis using e s d by (intro that) (auto simp: settled_case_def settled_status_def is_terminal_def)
qed

text \<open>A result for a case that is settled decides nothing.\<close>

lemma attach_settled:
  assumes "settled_case (cw_store w) k"
  shows "then_io (attach_finding E env k t f) (decide_if_open E k env) w = (r, w') \<Longrightarrow> decisions w' = decisions w"
proof -
  assume m: "then_io (attach_finding E env k t f) (decide_if_open E k env) w = (r, w')"
  obtain x w1 where a: "attach_finding E env k t f w = (x, w1)" by fastforce
  obtain c where c: "store_get (cw_store w) k = Some c" "settled_status (rc_status c)"
    using assms by (auto simp: settled_case_def split: option.splits)
  have "x = Inr ()" "decisions w1 = decisions w" "settled_case (cw_store w1) k"
    using a c by (auto simp: attach_finding_def assign_def on_store_def io_defs now_io_def when_io_def apply_result_def
        settled_status_def settled_case_def decisions_def split: finding.splits)
  then show ?thesis using m a
    by (auto simp: then_io_def bind_io_def decide_if_open_def with_case_def read_case_def get_io_def return_io_def
        settled_case_def settled_status_def split: option.splits)
qed

lemma results_settled:
  assumes "keyed (cw_store w)" "settled_case (cw_store w) (en_correlation_id env)"
  shows "billing_result_handler E P env w = (r, w') \<Longrightarrow> decisions w' = decisions w"
    and "risk_result_handler E P env w = (r, w') \<Longrightarrow> decisions w' = decisions w"
proof -
  have c: "rc_case_id c = en_correlation_id env \<and> settled_status (rc_status c)"
    if "get_by_correlation_id (cw_store w) (en_correlation_id env) = Some c" for c
    using keyedD(1) [OF assms(1)] keyed_correlation [OF assms(1) that] assms(2) by (auto simp: settled_case_def)
  show "decisions w' = decisions w" if "billing_result_handler E P env w = (r, w')"
    using that c attach_settled [OF assms(2)]
    by (auto simp: billing_result_handler_def on_store_def bind_io_def get_io_def return_io_def split: option.splits)
  show "decisions w' = decisions w" if "risk_result_handler E P env w = (r, w')"
    using that c attach_settled [OF assms(2)]
    by (auto simp: risk_result_handler_def on_store_def bind_io_def get_io_def return_io_def Let_def forces_escalation_def
        settled_status_def split: option.splits if_splits)
qed

section \<open>The first and the second opinion\<close>

text \<open>A waiting case, together with the run of a handler that finds it.\<close>

lemma awaitingD:
  assumes "once w" "awaiting w k c tb tr"
  shows "store_get (cw_store w) k = Some c" "rc_case_id c = k" "rc_correlation_id c = k"
    "dict_get (st_by_correlation (cw_store w)) k = Some k" "\<not> settled_status (rc_status c)" "decided_outcomes k w = []"
proof -
  note k = semi_keyed(3) [OF assms(1)]
  have g: "get_by_correlation_id (cw_store w) k = Some c" using assms(2) by (simp add: awaiting_def)
  show c: "store_get (cw_store w) k = Some c" by (rule keyed_correlation [OF k g])
  show id: "rc_case_id c = k" "rc_correlation_id c = k" using keyedD [OF k c] .
  obtain cid where "dict_get (st_by_correlation (cw_store w)) k = Some cid" "store_get (cw_store w) cid = Some c"
    using g by (auto simp: get_by_correlation_id_def split: Option.bind_splits)
  with keyedD(1) [OF k] id show "dict_get (st_by_correlation (cw_store w)) k = Some k" by fastforce
  show s: "\<not> settled_status (rc_status c)" using assms(2) by (simp add: awaiting_def settled_status_def is_terminal_def)
  have "bounded_at k w" using assms(1) by (simp add: once_def)
  then show "decided_outcomes k w = []" using c s by (intro outcomes_none) (simp add: bounded_at_def settled_case_def)
qed

lemma table_row_present:
  "\<not> ts_any_missing ts \<Longrightarrow> table_row t b r (Some ts) = table_row t b r None"
  by (simp add: table_row_def is_missing_def)

text \<open>The opinion that completes a case decides it by the table.\<close>

lemma complete_run:
  assumes E: "type_segment (re_environment E)" "\<And>n. re_send_ok E n"
    and c: "store_get (cw_store w) k = Some c" "rc_case_id c = k" "rc_correlation_id c = k"
      "\<not> settled_status (rc_status c)" "rc_pending_tasks c = {t}"
    and none: "decided_outcomes k w = []"
  obtains w' where "then_io (attach_finding E env k t f) (decide_if_open E k env) w = (Inr (), w')"
    "decided_outcomes k w' = [fst (table_row (case_triage c) (rc_billing_result (set_finding f c))
       (rc_risk_result (set_finding f c)) None)]"
    "settled_case (cw_store w') k"
proof -
  have "t \<in> rc_pending_tasks c" using c(5) by simp
  then obtain w1 t0 g where a: "attach_finding E env k t f w = (Inr (), w1)" "decisions w1 = decisions w"
    "cw_store w1 = upd_case k (attach t0 t f) (upd_case k g (cw_store w))"
    "g = (case f of FBilling _ \<Rightarrow> (\<lambda>c. c\<lparr>rc_billing_result_event_id := Some (en_event_id env)\<rparr>)
              | FRisk _ \<Rightarrow> (\<lambda>c. c\<lparr>rc_risk_result_event_id := Some (en_event_id env)\<rparr>))"
    by (rule attach_run [OF E(2) c(1,4)])
  define c1 where "c1 = attach t0 t f (g c)"
  have g: "rc_pending_tasks (g c) = {t}" "rc_case_id (g c) = k" "rc_correlation_id (g c) = k" "rc_status (g c) = rc_status c"
    using c by (simp_all add: a(4) split: finding.split)
  have c1: "store_get (cw_store w1) k = Some c1" "rc_case_id c1 = k" "rc_correlation_id c1 = k" "rc_pending_tasks c1 = {}"
    using a(3) c(1) g by (simp_all add: c1_def)
  have "rc_billing_result c1 = rc_billing_result (set_finding f c)" "rc_risk_result c1 = rc_risk_result (set_finding f c)"
    "case_triage c1 = case_triage c"
    by (simp_all add: c1_def a(4) attach_def set_finding_def Let_def case_triage_def split: finding.split)
  moreover have "\<not> settled_status (rc_status c1)"
    using c(4) g by (auto simp: c1_def attach_status settled_status_def is_terminal_def)
  moreover have "is_ready_to_decide c1" using c1(4) by (simp add: is_ready_to_decide_def)
  moreover have "\<not> ts_any_missing (build_timeout_status c1 t')" for t'
    using c1(4) by (simp add: build_timeout_status_def Let_def split: option.split)
  ultimately obtain w' m d where d: "decide_if_open E k env w1 = (Inr (), w')" "decisions w' = decisions w1 @ [m]"
    "sn_model m = MDecision d" "en_correlation_id (sn_envelope m) = k" "settled_case (cw_store w') k"
    "dp_outcome d = fst (table_row (case_triage c) (rc_billing_result (set_finding f c)) (rc_risk_result (set_finding f c)) None)"
    using c1 by (elim decide_run [OF E c1(1,2)]) (simp_all add: table_row_present)
  then show thesis
    using a(1) outcomes_snoc [OF d(2,3,4)] outcomes_cong [OF a(2)] none
    by (intro that) (simp_all add: then_io_def bind_io_def)
qed

text \<open>The first of two opinions is only kept.\<close>

lemma partial_run:
  fixes w :: cr_world
  assumes E: "\<And>n. re_send_ok E n"
    and c: "store_get (cw_store w) k = Some c" "rc_status c = WAITING_FOR_PEER_REVIEWS" "rc_pending_tasks c = {t, t'}" "t \<noteq> t'"
      "\<not> rc_billing_slot_failed c" "\<not> rc_risk_slot_failed c"
  obtains w' c' where "then_io (attach_finding E env k t f) (decide_if_open E k env) w = (Inr (), w')"
    "decided_outcomes k w' = decided_outcomes k w" "store_get (cw_store w') k = Some c'"
    "st_by_correlation (cw_store w') = st_by_correlation (cw_store w)"
    "rc_case_id c' = rc_case_id c" "rc_correlation_id c' = rc_correlation_id c"
    "rc_status c' = WAITING_FOR_PEER_REVIEWS" "rc_pending_tasks c' = {t'}" "case_triage c' = case_triage c"
    "rc_billing_result c' = rc_billing_result (set_finding f c)" "rc_risk_result c' = rc_risk_result (set_finding f c)"
    "rc_billing_task_id c' = rc_billing_task_id c" "rc_risk_task_id c' = rc_risk_task_id c"
proof -
  have "\<not> settled_status (rc_status c)" "t \<in> rc_pending_tasks c" using c by (simp_all add: settled_status_def is_terminal_def)
  then obtain w1 t0 g where a: "attach_finding E env k t f w = (Inr (), w1)" "decisions w1 = decisions w"
    "cw_store w1 = upd_case k (attach t0 t f) (upd_case k g (cw_store w))"
    "g = (case f of FBilling _ \<Rightarrow> (\<lambda>c. c\<lparr>rc_billing_result_event_id := Some (en_event_id env)\<rparr>)
              | FRisk _ \<Rightarrow> (\<lambda>c. c\<lparr>rc_risk_result_event_id := Some (en_event_id env)\<rparr>))"
    by (rule attach_run [OF E c(1)])
  let ?c = "attach t0 t f (g c)"
  have s: "store_get (cw_store w1) k = Some ?c" using a(3) c(1) by simp
  have f: "rc_case_id ?c = rc_case_id c" "rc_correlation_id ?c = rc_correlation_id c" "rc_status ?c = WAITING_FOR_PEER_REVIEWS"
    "rc_pending_tasks ?c = {t'}" "case_triage ?c = case_triage c" "rc_billing_result ?c = rc_billing_result (set_finding f c)"
    "rc_risk_result ?c = rc_risk_result (set_finding f c)" "rc_billing_task_id ?c = rc_billing_task_id c"
    "rc_risk_task_id ?c = rc_risk_task_id c" "\<not> is_ready_to_decide ?c"
    using c by (auto simp: a(4) attach_def set_finding_def Let_def case_triage_def is_ready_to_decide_def split: finding.split)
  then have run: "then_io (attach_finding E env k t f) (decide_if_open E k env) w = (Inr (), w1)"
    using a(1) s by (simp add: then_io_def bind_io_def decide_if_open_def with_case_def read_case_def get_io_def return_io_def)
  show thesis by (rule that [OF run outcomes_cong [OF a(2)] s _ f(1-9)]) (simp add: a(3))
qed

lemma billing_then_risk:
  assumes E: "type_segment (re_environment E)" "\<And>n. re_send_ok E n" and w: "once w" "awaiting w k c tb tr"
    and b: "cp_validate_billing P (en_payload eb) = Some pb" "en_correlation_id eb = k"
    and r: "cp_validate_risk P (en_payload er) = Some pr" "en_correlation_id er = k"
  shows "decided_outcomes k (deliver E P [BillingEvent eb, RiskEvent er] w) =
    [if risky (risk_finding_of pr tr) \<and> fb_eligibility (billing_finding_of pb tb) \<noteq> Ineligible then ESCALATE_HUMAN
     else fst (table_row (case_triage c) (Some (billing_finding_of pb tb)) (Some (risk_finding_of pr tr)) None)]"
proof -
  let ?b = "billing_finding_of pb tb" and ?r = "risk_finding_of pr tr"
  note c = awaitingD [OF w]
  have a: "get_by_correlation_id (cw_store w) k = Some c" "rc_status c = WAITING_FOR_PEER_REVIEWS" "rc_pending_tasks c = {tb, tr}"
    "tb \<noteq> tr" "rc_billing_task_id c = Some tb" "rc_risk_task_id c = Some tr" "\<not> rc_billing_slot_failed c" "\<not> rc_risk_slot_failed c"
    using w(2) by (simp_all add: awaiting_def)
  obtain w1 c1 where h: "then_io (attach_finding E eb k tb (FBilling ?b)) (decide_if_open E k eb) w = (Inr (), w1)"
    "decided_outcomes k w1 = decided_outcomes k w" "store_get (cw_store w1) k = Some c1"
    "st_by_correlation (cw_store w1) = st_by_correlation (cw_store w)" "rc_case_id c1 = rc_case_id c"
    "rc_correlation_id c1 = rc_correlation_id c" "rc_status c1 = WAITING_FOR_PEER_REVIEWS" "rc_pending_tasks c1 = {tr}"
    "case_triage c1 = case_triage c" "rc_billing_result c1 = rc_billing_result (set_finding (FBilling ?b) c)"
    "rc_risk_result c1 = rc_risk_result (set_finding (FBilling ?b) c)" "rc_risk_task_id c1 = rc_risk_task_id c"
    by (rule partial_run [OF E(2) c(1) a(2-4,7,8)])
  have w1: "billing_result_handler E P eb w = (Inr (), w1)"
    using h(1) a(1,5) b c(2) by (simp add: billing_result_handler_def bind_io_def get_io_def)
  have c1: "rc_case_id c1 = k" "rc_correlation_id c1 = k" "\<not> settled_status (rc_status c1)" "rc_billing_result c1 = Some ?b"
    "decided_outcomes k w1 = []" "get_by_correlation_id (cw_store w1) k = Some c1" "rc_risk_task_id c1 = Some tr"
    using h c a(6) by (simp_all add: settled_status_def is_terminal_def set_finding_def get_by_correlation_id_def)
  show ?thesis
  proof (cases "risky ?r \<and> fb_eligibility ?b \<noteq> Ineligible")
    case True
    then have "forces_escalation c1 ?r" using c1(4) h(7) by (simp add: forces_escalation_def risky_def is_terminal_def)
    moreover obtain w2 m d where e: "escalate_high_risk E er k ?r w1 = (Inr (), w2)" "decisions w2 = decisions w1 @ [m]"
      "sn_model m = MDecision d" "en_correlation_id (sn_envelope m) = rc_correlation_id c1" "dp_outcome d = ESCALATE_HUMAN"
      by (rule escalate_run [OF E h(3) c1(1,3)])
    ultimately have "risk_result_handler E P er w1 = (Inr (), w2)"
      using r c1 by (simp add: risk_result_handler_def bind_io_def get_io_def Let_def)
    then show ?thesis using w1 True outcomes_snoc [OF e(2,3,4)] e(5) c1 by simp
  next
    case False
    then have "\<not> forces_escalation c1 ?r" using c1(4) by (auto simp: forces_escalation_def risky_def)
    moreover obtain w2 where e: "then_io (attach_finding E er k tr (FRisk ?r)) (decide_if_open E k er) w1 = (Inr (), w2)"
      "decided_outcomes k w2 = [fst (table_row (case_triage c1) (rc_billing_result (set_finding (FRisk ?r) c1))
         (rc_risk_result (set_finding (FRisk ?r) c1)) None)]"
      by (rule complete_run [OF E h(3) c1(1-3) h(8) c1(5)])
    ultimately have "risk_result_handler E P er w1 = (Inr (), w2)"
      using r c1 by (simp add: risk_result_handler_def bind_io_def get_io_def Let_def)
    then show ?thesis unfolding if_not_P [OF False] using w1 e(2) c1(4) h(9) by (simp add: set_finding_def)
  qed
qed

lemma risk_then_billing:
  assumes E: "type_segment (re_environment E)" "\<And>n. re_send_ok E n" and w: "once w" "awaiting w k c tb tr"
    and b: "cp_validate_billing P (en_payload eb) = Some pb" "en_correlation_id eb = k"
    and r: "cp_validate_risk P (en_payload er) = Some pr" "en_correlation_id er = k"
  shows "decided_outcomes k (deliver E P [RiskEvent er, BillingEvent eb] w) =
    [if risky (risk_finding_of pr tr) then ESCALATE_HUMAN
     else fst (table_row (case_triage c) (Some (billing_finding_of pb tb)) (Some (risk_finding_of pr tr)) None)]"
proof -
  let ?b = "billing_finding_of pb tb" and ?r = "risk_finding_of pr tr"
  note c = awaitingD [OF w]
  have a: "get_by_correlation_id (cw_store w) k = Some c" "rc_status c = WAITING_FOR_PEER_REVIEWS" "rc_pending_tasks c = {tr, tb}"
    "tr \<noteq> tb" "rc_billing_task_id c = Some tb" "rc_risk_task_id c = Some tr" "\<not> rc_billing_slot_failed c" "\<not> rc_risk_slot_failed c"
    "rc_billing_result c = None"
    using w(2) by (auto simp: awaiting_def)
  show ?thesis
  proof (cases "risky ?r")
    case True
    then have "forces_escalation c ?r" using a(2,9) by (simp add: forces_escalation_def risky_def is_terminal_def)
    moreover obtain w1 m d where e: "escalate_high_risk E er k ?r w = (Inr (), w1)" "decisions w1 = decisions w @ [m]"
      "sn_model m = MDecision d" "en_correlation_id (sn_envelope m) = rc_correlation_id c" "dp_outcome d = ESCALATE_HUMAN"
      "settled_case (cw_store w1) k"
      by (rule escalate_run [OF E c(1,2,5)])
    ultimately have h: "risk_result_handler E P er w = (Inr (), w1)"
      using r a c(2) by (simp add: risk_result_handler_def bind_io_def get_io_def Let_def)
    obtain y w2 where b2: "billing_result_handler E P eb w1 = (y, w2)" by fastforce
    have "keyed (cw_store w1)" using tripleD [OF once_risk w(1) h] by (rule semi_keyed(3))
    then have "decisions w2 = decisions w1" using results_settled(1) [OF _ _ b2] e(6) b(2) by simp
    from outcomes_cong [OF this] outcomes_snoc [OF e(2,3,4)] show ?thesis using True h b2 e(5) c(3,6) by simp
  next
    case False
    then have "\<not> forces_escalation c ?r" by (auto simp: forces_escalation_def risky_def)
    moreover obtain w1 c1 where h: "then_io (attach_finding E er k tr (FRisk ?r)) (decide_if_open E k er) w = (Inr (), w1)"
      "decided_outcomes k w1 = decided_outcomes k w" "store_get (cw_store w1) k = Some c1"
      "st_by_correlation (cw_store w1) = st_by_correlation (cw_store w)" "rc_case_id c1 = rc_case_id c"
      "rc_correlation_id c1 = rc_correlation_id c" "rc_status c1 = WAITING_FOR_PEER_REVIEWS" "rc_pending_tasks c1 = {tb}"
      "case_triage c1 = case_triage c" "rc_risk_result c1 = rc_risk_result (set_finding (FRisk ?r) c)"
      "rc_billing_task_id c1 = rc_billing_task_id c"
      by (rule partial_run [OF E(2) c(1) a(2-4,7,8)])
    ultimately have w1: "risk_result_handler E P er w = (Inr (), w1)"
      using a r c(2) by (simp add: risk_result_handler_def bind_io_def get_io_def Let_def)
    have c1: "rc_case_id c1 = k" "rc_correlation_id c1 = k" "\<not> settled_status (rc_status c1)" "decided_outcomes k w1 = []"
      "get_by_correlation_id (cw_store w1) k = Some c1"
      using h c by (simp_all add: settled_status_def is_terminal_def get_by_correlation_id_def)
    obtain w2 where e: "then_io (attach_finding E eb k tb (FBilling ?b)) (decide_if_open E k eb) w1 = (Inr (), w2)"
      "decided_outcomes k w2 = [fst (table_row (case_triage c1) (rc_billing_result (set_finding (FBilling ?b) c1))
         (rc_risk_result (set_finding (FBilling ?b) c1)) None)]"
      by (rule complete_run [OF E h(3) c1(1-3) h(8) c1(4)])
    then have "billing_result_handler E P eb w1 = (Inr (), w2)"
      using b c1 h(11) a(5) by (simp add: billing_result_handler_def bind_io_def get_io_def)
    then show ?thesis unfolding if_not_P [OF False] using w1 e(2) h(9,10) by (simp add: set_finding_def)
  qed
qed

text \<open>C3: a waiting case is decided by its two opinions. Over a working broker, delivering the billing and
  the risk result of a case that waits for both publishes exactly one decision for it, whichever comes
  first. Billing first, the outcome is that of the decision table, except that a risky opinion (elevated,
  high, or flagged) escalates the case unless billing denies it. Risk first, a risky opinion always
  escalates. So arrival order matters exactly for denied customers with a risky opinion.\<close>

theorem decision_by_arrival:
  assumes "type_segment (re_environment E)" "\<And>n. re_send_ok E n" "once w" "awaiting w k c tb tr"
    and "cp_validate_billing P (en_payload eb) = Some pb" "en_correlation_id eb = k"
    and "cp_validate_risk P (en_payload er) = Some pr" "en_correlation_id er = k"
    and "b = billing_finding_of pb tb" "r = risk_finding_of pr tr"
    and "row = fst (table_row (case_triage c) (Some b) (Some r) None)"
  shows "decided_outcomes k (deliver E P [BillingEvent eb, RiskEvent er] w)
           = [if risky r \<and> fb_eligibility b \<noteq> Ineligible then ESCALATE_HUMAN else row]
    \<and> decided_outcomes k (deliver E P [RiskEvent er, BillingEvent eb] w) = [if risky r then ESCALATE_HUMAN else row]"
  unfolding assms(9-11) by (intro conjI billing_then_risk risk_then_billing assms(1-8))

text \<open>A case that waits for both opinions, a denial from billing and an elevated risk, as the two services publish them.\<close>

definition denied_payload :: BillingRefundAnalysisCompletedPayload where
  "denied_payload = \<lparr>bp_ticket_id = ''T-1'', bp_recommendation = ''deny_refund'', bp_confidence = 1, bp_evidence = [],
     bp_reasoning_summary = ''outside the window'', bp_requires_human_review = False, bp_case_id = 1,
     bp_customer_id = ''CUS-1'', bp_billing_account_id = None, bp_subscription_status = ''active'',
     bp_invoice_status = ''paid'', bp_payment_status = ''captured'', bp_entitlement_status = ''active'',
     bp_usage_level = ''light'', bp_refund_window_status = ''expired'', bp_eligible_refund_amount = 0,
     bp_enriched_reasoning_summary = None, bp_evidence_explanation = None\<rparr>"

definition elevated_payload :: RiskReviewCompletedPayload where
  "elevated_payload = \<lparr>rp_ticket_id = ''T-1'', rp_recommendation = ''elevated'', rp_confidence = 1, rp_evidence = [],
     rp_reasoning_summary = ''chargebacks'', rp_requires_human_review = False,
     rp_enriched_reasoning_summary = None, rp_evidence_explanation = None\<rparr>"

definition refund_params :: cr_params where
  "refund_params = (sample_params ''refund'')
     \<lparr>cp_validate_billing := (\<lambda>_. Some denied_payload), cp_validate_risk := (\<lambda>_. Some elevated_payload)\<rparr>"

definition waiting_world :: cr_world where
  "waiting_world = fresh_world\<lparr>cw_store := upd_case 1 (\<lambda>c. c\<lparr>rc_status := WAITING_FOR_PEER_REVIEWS,
     rc_pending_tasks := {7, 8}, rc_billing_task_id := Some 7, rc_risk_task_id := Some 8\<rparr>) sample_store\<rparr>"

lemma waiting_world_ok: "once waiting_world" "\<exists>c. awaiting waiting_world 1 c 7 8 \<and> rc_triage c = None"
proof -
  have "keyed (cw_store waiting_world)"
    using local_upd_case sample_store_keyed(1) by (simp add: waiting_world_def local_step_def)
  then show "once waiting_world"
    by (simp add: once_def bounded_at_def decided_count_def decisions_def waiting_world_def fresh_world_def)
  show "\<exists>c. awaiting waiting_world 1 c 7 8 \<and> rc_triage c = None"
    by (simp add: awaiting_def waiting_world_def get_by_correlation_id_def sample_store_def get_or_create_def new_case_def
        empty_store_def store_get_def upd_case_def Let_def)
qed

lemma denied_and_elevated:
  "billing_finding_of denied_payload 7 = \<lparr>fb_eligibility = Ineligible, fb_requires_human_review = False,
     fb_confidence = Some 1, fb_summary = ''outside the window'', fb_performer_agent_id = [], fb_task_id = Some 7\<rparr>"
  "fr_level (risk_finding_of elevated_payload 8) = Elevated"
  "fst (table_row no_triage (Some (billing_finding_of denied_payload 7)) (Some (risk_finding_of elevated_payload 8)) None)
   = DENY_REFUND"
  by code_simp+

theorem decision_by_arrival_witness:
  "decided_outcomes 1 (deliver sample_env refund_params
      [BillingEvent (sample_envelope 2 1), RiskEvent (sample_envelope 3 1)] waiting_world) = [DENY_REFUND]
   \<and> decided_outcomes 1 (deliver sample_env refund_params
      [RiskEvent (sample_envelope 3 1), BillingEvent (sample_envelope 2 1)] waiting_world) = [ESCALATE_HUMAN]"
proof -
  obtain c where c: "awaiting waiting_world 1 c 7 8" "rc_triage c = None" using waiting_world_ok(2) by blast
  have ok: "re_send_ok sample_env n" for n by (simp add: sample_env_def)
  show ?thesis
    using decision_by_arrival [OF sample_env_segment ok waiting_world_ok(1) c(1), of refund_params "sample_envelope 2 1"
        denied_payload "sample_envelope 3 1" elevated_payload] denied_and_elevated c(2)
    by (simp add: refund_params_def sample_envelope_def case_triage_def risky_def)
qed

end
