(* ===== verification/Resolution_Parked.thy ===== *)
theory Resolution_Parked
  imports Resolution_Order
begin

text \<open>
  Results that arrive before their case. The handlers park them in a bounded buffer of the store. No
  handler reads the buffer: two worlds that differ only there stay so through any sequence of
  deliveries, with the same results and the same log. A parked result is therefore never applied.
\<close>

section \<open>Worlds that differ in parked results only\<close>

definition sim_store :: "case_store \<Rightarrow> case_store \<Rightarrow> bool" where
  "sim_store st st' \<longleftrightarrow> st_cases st' = st_cases st \<and> st_by_correlation st' = st_by_correlation st
     \<and> st_by_task_id st' = st_by_task_id st"

definition sim :: "cr_world \<Rightarrow> cr_world \<Rightarrow> bool" where
  "sim w w' \<longleftrightarrow> sim_store (cw_store w) (cw_store w') \<and> nt_log w' = nt_log w \<and> nt_ticks w' = nt_ticks w
     \<and> nt_uuids w' = nt_uuids w \<and> nt_sends w' = nt_sends w"

lemma sim_refl [simp]: "sim w w" "sim_store st st"
  by (simp_all add: sim_def sim_store_def)

lemma sim_storeE:
  assumes "sim_store st st'"
  obtains pb pr where "st' = st\<lparr>st_parked_billing := pb, st_parked_risk := pr\<rparr>"
  using assms by (cases st; cases st') (auto simp: sim_store_def)

text \<open>A computation that does not depend on parked results.\<close>

definition blind :: "'a cr_io \<Rightarrow> bool" where
  "blind m \<longleftrightarrow> (\<forall>w w'. sim w w' \<longrightarrow> fst (m w') = fst (m w) \<and> sim (snd (m w)) (snd (m w')))"

lemma blindI:
  "(\<And>w w'. sim w w' \<Longrightarrow> fst (m w') = fst (m w) \<and> sim (snd (m w)) (snd (m w'))) \<Longrightarrow> blind m"
  by (simp add: blind_def)

lemma blindD:
  assumes "blind m" "sim w w'" "m w = (r, v)"
  obtains v' where "m w' = (r, v')" "sim v v'"
  using assms unfolding blind_def by (metis fst_conv snd_conv prod.collapse)

named_theorems blind_intros

lemma blind_basic [blind_intros]: "blind (return_io x)" "blind (raise_io e)" "blind (lift_exc s)"
  by (auto intro!: blindI simp: io_defs lift_exc_def split: sum.split)

lemma blind_bind [blind_intros]:
  assumes "blind m" "\<And>x. blind (f x)" shows "blind (bind_io m f)"
proof (rule blindI)
  fix w w' assume s: "sim w w'"
  obtain r v where m: "m w = (r, v)" by fastforce
  then obtain v' where m': "m w' = (r, v')" "sim v v'" by (rule blindD [OF assms(1) s])
  show "fst (bind_io m f w') = fst (bind_io m f w) \<and> sim (snd (bind_io m f w)) (snd (bind_io m f w'))"
    using m m' assms(2) by (cases r) (auto simp: bind_io_def blind_def)
qed

lemma blind_then [blind_intros]: "blind m \<Longrightarrow> blind n \<Longrightarrow> blind (then_io m n)"
  unfolding then_io_def by (rule blind_bind)

lemma blind_try [blind_intros]:
  assumes "blind m" "\<And>e. blind (h e)" shows "blind (try_io m h)"
proof (rule blindI)
  fix w w' assume s: "sim w w'"
  obtain r v where m: "m w = (r, v)" by fastforce
  then obtain v' where m': "m w' = (r, v')" "sim v v'" by (rule blindD [OF assms(1) s])
  show "fst (try_io m h w') = fst (try_io m h w) \<and> sim (snd (try_io m h w)) (snd (try_io m h w'))"
    using m m' assms(2) by (cases r) (auto simp: try_io_def blind_def)
qed

lemma blind_when [blind_intros]: "blind m \<Longrightarrow> blind (when_io b m)"
  by (simp add: when_io_def blind_basic)

lemma blind_get: "(\<And>st st'. sim_store st st' \<Longrightarrow> f st' = f st) \<Longrightarrow> blind (get_io (\<lambda>w. f (cw_store w)))"
  by (auto intro!: blindI simp: get_io_def) (simp_all add: sim_def)

lemma blind_on_store:
  assumes "\<And>st st'. sim_store st st' \<Longrightarrow> fst (f st') = fst (f st) \<and> sim_store (snd (f st)) (snd (f st'))"
  shows "blind (on_store f)"
  using assms by (auto intro!: blindI simp: on_store_def sim_def split: prod.split) force+

lemma blind_on_store_exc:
  assumes "\<And>st pb pr. f (st\<lparr>st_parked_billing := pb, st_parked_risk := pr\<rparr>)
    = map_sum id (map_prod id (\<lambda>st'. st'\<lparr>st_parked_billing := pb, st_parked_risk := pr\<rparr>)) (f st)"
  shows "blind (on_store_exc f)"
proof (rule blindI)
  fix w w' assume s: "sim w w'"
  then obtain pb pr where "cw_store w' = (cw_store w)\<lparr>st_parked_billing := pb, st_parked_risk := pr\<rparr>"
    unfolding sim_def by (blast elim: sim_storeE)
  with assms [where st = "cw_store w" and pb = pb and pr = pr] s
  show "fst (on_store_exc f w') = fst (on_store_exc f w) \<and> sim (snd (on_store_exc f w)) (snd (on_store_exc f w'))"
    by (cases "f (cw_store w)") (auto simp: on_store_exc_def sim_def sim_store_def split: prod.split)
qed

section \<open>The parts of the handlers\<close>

lemma store_get_park [simp]: "store_get (st\<lparr>st_parked_billing := pb, st_parked_risk := pr\<rparr>) = store_get st"
  by (simp add: store_get_def fun_eq_iff)

lemma upd_case_park [simp]:
  "upd_case k f (st\<lparr>st_parked_billing := pb, st_parked_risk := pr\<rparr>)
   = (upd_case k f st)\<lparr>st_parked_billing := pb, st_parked_risk := pr\<rparr>"
  by (simp add: upd_case_def split: option.split)

lemma sim_store_get: "sim_store st st' \<Longrightarrow> store_get st' = store_get st"
  by (auto elim: sim_storeE)

lemma sim_upd_case: "sim_store st st' \<Longrightarrow> sim_store (upd_case k f st) (upd_case k f st')"
  by (auto simp: sim_store_def upd_case_def store_get_def split: option.split)

lemmas sim_store_simps = sim_store_get sim_upd_case

lemma blind_send [blind_intros]: "blind (now_io E)" "blind (uuid4_io E)" "blind (send_and_wait E m)" "blind (get_io nt_ticks)"
  by (auto intro!: blindI simp: sim_def get_io_def now_io_def uuid4_io_def send_and_wait_def Let_def)

lemma blind_publish [blind_intros]:
  "blind (publish E ident m et corr caus t)" "blind (publish_raw E env m' t' k)"
  unfolding publish_def publish_raw_def build_envelope_def Let_def by (auto intro!: blind_intros)

lemma blind_audit [blind_intros]: "blind (write_task_audit E ident env out t reason)" "blind (write_audit E ident env out reason)"
  unfolding write_task_audit_def write_audit_def by (auto intro!: blind_intros)

lemma blind_with_case [blind_intros]: "(\<And>c. blind (f c)) \<Longrightarrow> blind (with_case k f)"
  unfolding with_case_def read_case_def
  by (auto intro!: blind_bind blind_get blind_basic dest: sim_store_get split: option.split)

lemma blind_assign [blind_intros]: "blind (assign k f)"
  unfolding assign_def by (rule blind_on_store) (simp add: sim_upd_case)

lemma blind_claim [blind_intros]: "blind (on_store (claim_decision t k))"
  by (rule blind_on_store) (auto simp: claim_decision_def sim_store_simps split: option.split)

lemma blind_apply_result [blind_intros]: "blind (on_store (apply_result t k tk f))"
  by (rule blind_on_store) (auto simp: apply_result_def sim_store_simps split: option.split)

lemma blind_save [blind_intros]: "blind (save_case E k)"
  unfolding save_case_def
  by (rule blind_bind [OF blind_send(1) blind_on_store_exc])
    (auto simp: save_def Let_def split: option.split)

lemma blind_pending [blind_intros]: "blind (add_pending k t)"
  unfolding add_pending_def
  by (rule blind_with_case [OF blind_on_store_exc]) (auto simp: add_pending_task_def split: option.split)

lemma blind_fail [blind_intros]: "blind (fail_slot_of E k t b r)"
  unfolding fail_slot_of_def
  by (rule blind_bind [OF blind_send(1) blind_on_store])
    (auto simp: mark_slot_failed_def sim_store_simps split: option.split)

lemma blind_create [blind_intros]: "blind (on_store (get_or_create k tk cu corr amt cur rsn at0))"
  by (rule blind_on_store, frule sim_store_get) (auto simp: get_or_create_def Let_def sim_store_def split: option.split)

lemma blind_emit [blind_intros]: "blind (emit_decision_and_draft E c d caus)"
  unfolding emit_decision_and_draft_def emit_draft_def by (auto intro!: blind_intros)

lemma blind_apply_decision [blind_intros]: "blind (apply_decision E k cause)"
  unfolding apply_decision_def by (auto intro!: blind_intros split: sum.split option.split)

lemma blind_escalate [blind_intros]: "blind (escalate_high_risk E env k f)"
  unfolding escalate_high_risk_def by (auto intro!: blind_intros)

lemma blind_attach [blind_intros]: "blind (attach_finding E env k t f)"
  unfolding attach_finding_def by (auto intro!: blind_intros)

lemma blind_delegate [blind_intros]: "blind (delegate E P k env)"
  unfolding delegate_def mint_billing_task_def mint_risk_task_def request_billing_analysis_def request_risk_analysis_def
    announce_review_def validate_billing_capability_def validate_risk_capability_def validate_capability_of_def
  by (auto intro!: blind_intros split: option.split)

lemma blind_decide [blind_intros]: "blind (decide_if_ready E k env)" "blind (decide_if_open E k env)"
  unfolding decide_if_ready_def decide_if_open_def by (auto intro!: blind_intros)

lemma blind_park [blind_intros]:
  "blind (on_store (\<lambda>st. ((), park_billing_result corr p st)))" "blind (on_store (\<lambda>st. ((), park_risk_result corr q st)))"
  by (rule blind_on_store; simp add: sim_store_def park_billing_result_def park_risk_result_def)+

section \<open>The handlers\<close>

lemma blind_intake: "blind (intake_handler E P env)"
  unfolding intake_handler_def classify_case_def direct_response_def start_review_def delegation_failed_def Let_def
  by (auto intro!: blind_intros split: option.split)

lemma blind_lookup [blind_intros]:
  "blind (get_io (\<lambda>w. get_by_task_id (cw_store w) t))" "blind (get_io (\<lambda>w. get_by_correlation_id (cw_store w) k))"
  by (rule blind_get; auto elim!: sim_storeE simp: get_by_task_id_def get_by_correlation_id_def)+

lemma blind_results: "blind (result_handler E P env)" "blind (billing_result_handler E P env)" "blind (risk_result_handler E P env)"
  unfolding result_handler_def billing_result_handler_def risk_result_handler_def Let_def
  by (auto intro!: blind_intros split: option.split)

lemma blind_reap: "blind (reap_case E k)" "blind (reap_cases E ks)"
proof -
  show "blind (reap_case E k)" for k unfolding reap_case_def by (auto intro!: blind_intros)
  then show "blind (reap_cases E ks)" by (induction ks) (auto intro!: blind_intros)
qed

lemma blind_sweep: "blind (reaper_sweep E)"
  unfolding reaper_sweep_def
  by (intro blind_bind blind_send blind_get blind_reap) (auto elim!: sim_storeE simp: list_timed_out_cases_def)

lemma blind_handle: "blind (handle E P d)"
  by (cases d) (simp_all add: blind_intake blind_results blind_sweep)

lemma deliver_sim: "sim w w' \<Longrightarrow> sim (deliver E P ds w) (deliver E P ds w')"
  by (induction ds arbitrary: w w') (use blind_handle in \<open>auto simp: blind_def\<close>)

section \<open>A parked result has no effect\<close>

lemma parked_sim:
  assumes "get_by_correlation_id (cw_store w) (en_correlation_id env) = None"
  shows "sim (snd (handle E P (BillingEvent env) w)) w" "sim (snd (handle E P (RiskEvent env) w)) w"
  using assms
  by (auto simp: billing_result_handler_def risk_result_handler_def bind_io_def get_io_def return_io_def on_store_def
      sim_def sim_store_def park_billing_result_def park_risk_result_def split: option.split)

text \<open>C16: a result that arrives before its case is lost. Whatever is delivered afterwards, the ticket of
  the case included, every event is published and every case evolves as if the early billing or risk
  result had never arrived: it is parked, and nothing takes it out of the buffer.\<close>

theorem parked_result_lost:
  assumes "get_by_correlation_id (cw_store w) (en_correlation_id env) = None"
    and "d = BillingEvent env \<or> d = RiskEvent env"
  shows "nt_log (deliver E P (d # ds) w) = nt_log (deliver E P ds w)
    \<and> st_cases (cw_store (deliver E P (d # ds) w)) = st_cases (cw_store (deliver E P ds w))"
proof -
  have "sim (snd (handle E P d w)) w" using assms parked_sim by blast
  then have "sim (deliver E P ds (snd (handle E P d w))) (deliver E P ds w)" by (rule deliver_sim)
  then show ?thesis by (simp add: sim_def sim_store_def)
qed

theorem parked_result_lost_witness:
  "st_parked_billing (cw_store (deliver sample_env refund_params [BillingEvent (sample_envelope 1 5)] fresh_world))
     = [(5, denied_payload)]
   \<and> nt_log (deliver sample_env refund_params
      [BillingEvent (sample_envelope 1 5), Ticket (sample_envelope 2 5), ReaperTick] fresh_world)
   = nt_log (deliver sample_env refund_params [Ticket (sample_envelope 2 5), ReaperTick] fresh_world)"
proof
  have none: "get_by_correlation_id (cw_store fresh_world) (en_correlation_id (sample_envelope 1 5)) = None"
    by (simp add: fresh_world_def get_by_correlation_id_def empty_store_def)
  then show "nt_log (deliver sample_env refund_params
      [BillingEvent (sample_envelope 1 5), Ticket (sample_envelope 2 5), ReaperTick] fresh_world)
    = nt_log (deliver sample_env refund_params [Ticket (sample_envelope 2 5), ReaperTick] fresh_world)"
    using parked_result_lost by blast
  show "st_parked_billing (cw_store (deliver sample_env refund_params [BillingEvent (sample_envelope 1 5)] fresh_world))
     = [(5, denied_payload)]"
    by code_simp
qed

end
