(* ===== verification/Resolution_Race.thy ===== *)
theory Resolution_Race
  imports Resolution_Effects
begin

text \<open>
  Overlapping handlers. The loops of the Customer-Resolution agent run concurrently
  (\<^verbatim>\<open>apps/agents/customer_resolution/agent.py\<close>): while intake awaits the broker between its two requests to the peers,
  another loop may run to its end. \<open>intake_during\<close> is the intake handler with an arbitrary computation run at that point;
  if nothing runs there it is the handler of \<open>Resolution_Handlers\<close>. Shown: if the risk agent then turns out not to be
  discoverable, intake publishes a decision of its own, without claiming it, whatever has been decided meanwhile.
\<close>

section \<open>Intake with another loop in between\<close>

text \<open>What another loop does; its exceptions do not reach this one.\<close>

definition meanwhile :: "unit cr_io \<Rightarrow> unit cr_io" where
  "meanwhile other = (\<lambda>w. (Inr (), snd (other w)))"

definition delegate_during :: "runtime_env \<Rightarrow> cr_params \<Rightarrow> unit cr_io \<Rightarrow> uuid \<Rightarrow> EventEnvelope \<Rightarrow> unit cr_io" where
  "delegate_during E P other cid ticket_envelope =
     then_io (mint_billing_task P cid)
     (then_io (mint_risk_task P cid)
     (then_io (add_pending cid rc_billing_task_id)
     (then_io (add_pending cid rc_risk_task_id)
     (then_io (request_billing_analysis E P cid ticket_envelope)
     (then_io (meanwhile other)
     (then_io (request_risk_analysis E P cid ticket_envelope)
       (announce_review E cid ticket_envelope)))))))"

definition start_review_during ::
  "runtime_env \<Rightarrow> cr_params \<Rightarrow> unit cr_io \<Rightarrow> uuid \<Rightarrow> SupportTicketCreatedPayload \<Rightarrow> EventEnvelope \<Rightarrow> unit cr_io" where
  "start_review_during E P other cid ticket envelope =
     then_io (assign cid (\<lambda>c. c\<lparr>rc_status := WAITING_FOR_PEER_REVIEWS\<rparr>))
     (bind_io (now_io E) (\<lambda>now_ts.
     then_io (assign cid (\<lambda>c. c\<lparr>rc_deadline_at := Some (deadline_after now_ts (cp_deadline_seconds P))\<rparr>))
     (then_io (save_case E cid)
       (try_io (then_io (delegate_during E P other cid envelope) (save_case E cid))
          (\<lambda>e. delegation_failed E cid ticket envelope e)))))"

definition intake_during :: "runtime_env \<Rightarrow> cr_params \<Rightarrow> unit cr_io \<Rightarrow> EventEnvelope \<Rightarrow> unit cr_io" where
  "intake_during E P other envelope =
     (case cp_validate_ticket P (en_payload envelope) of
        None \<Rightarrow> return_io ()
      | Some ticket \<Rightarrow>
          bind_io (now_io E) (\<lambda>created_at.
          bind_io (on_store (get_or_create (en_correlation_id envelope) (tk_ticket_id ticket) (tk_customer_id ticket)
                     (en_correlation_id envelope) (tk_amount ticket) (tk_currency ticket) (tk_reason ticket)
                     created_at)) (\<lambda>c.
          if rc_status c \<notin> {RECEIVED, CLASSIFIED}
          then write_audit E cr_identity envelope DuplicateSkipped (Some ''already_processed'')
          else
            let cid = rc_case_id c; triage = intake_triage P ticket envelope in
            then_io (classify_case E cid ticket triage envelope)
              (if \<not> tg_needs_refund_review triage
               then direct_response E cid ticket triage envelope
               else start_review_during E P other cid ticket envelope))))"

text \<open>With nothing in between it is the handler.\<close>

lemma intake_during_nothing: "intake_during E P (return_io ()) envelope = intake_handler E P envelope"
proof -
  have m: "meanwhile (return_io ()) = return_io ()" by (simp add: meanwhile_def return_io_def)
  have t: "then_io (return_io ()) n = n" for n :: "unit cr_io" by (simp add: then_io_def bind_io_def return_io_def)
  have r: "start_review_during E P (return_io ()) = start_review E P"
    by (simp add: start_review_during_def start_review_def delegate_during_def delegate_def m t fun_eq_iff)
  show ?thesis unfolding intake_during_def intake_handler_def r ..
qed

lemma meanwhile_run: "meanwhile other w = (Inr (), snd (other w))"
  by (simp add: meanwhile_def)

section \<open>Holding a case\<close>

text \<open>Running a sequence step by step.\<close>

lemma run_bind: "m w = (Inr x, w1) \<Longrightarrow> bind_io m f w = f x w1" "m w = (Inl e, w1) \<Longrightarrow> bind_io m f w = (Inl e, w1)"
  by (simp_all add: bind_io_def)

lemma run_then: "m w = (Inr x, w1) \<Longrightarrow> then_io m n w = n w1" "m w = (Inl e, w1) \<Longrightarrow> then_io m n w = (Inl e, w1)"
  by (simp_all add: then_io_def run_bind)

lemma run_try: "m w = (Inl e, w1) \<Longrightarrow> try_io m h w = h e w1"
  by (simp add: try_io_def)

lemma then_bind_assoc: "then_io (bind_io m f) n = bind_io m (\<lambda>x. then_io (f x) n)"
  by (auto simp: then_io_def bind_io_def fun_eq_iff split: prod.splits sum.splits)

lemma then_assoc: "then_io (then_io a b) c = then_io a (then_io b c)"
  by (auto simp: then_io_def bind_io_def fun_eq_iff split: prod.splits sum.splits)

text \<open>A case is stored with a status, and so many decisions have been published for it. A step of a handler that holds the
  case changes its status at most, and publishes no decision.\<close>

definition held :: "CaseStatus \<Rightarrow> nat \<Rightarrow> uuid \<Rightarrow> cr_world \<Rightarrow> bool" where
  "held s n k w \<longleftrightarrow> keyed (cw_store w) \<and> decided_count k w = n
     \<and> (\<exists>c. store_get (cw_store w) k = Some c \<and> rc_status c = s)"

definition holds :: "CaseStatus \<Rightarrow> CaseStatus \<Rightarrow> uuid \<Rightarrow> unit cr_io \<Rightarrow> bool" where
  "holds s s' k m \<longleftrightarrow> (\<forall>n. triple (held s n k) m (\<lambda>r w. r = Inr () \<and> held s' n k w))"

lemma holdsI:
  "(\<And>n w r w'. held s n k w \<Longrightarrow> m w = (r, w') \<Longrightarrow> r = Inr () \<and> held s' n k w') \<Longrightarrow> holds s s' k m"
  unfolding holds_def by (blast intro: tripleI)

lemma holdsD: "holds s s' k m \<Longrightarrow> held s n k w \<Longrightarrow> \<exists>w'. m w = (Inr (), w') \<and> held s' n k w'"
  unfolding holds_def by (cases "m w") (blast dest: tripleD)

named_theorems holds_intros

lemma holds_then: "holds s s1 k m \<Longrightarrow> holds s1 s' k m' \<Longrightarrow> holds s s' k (then_io m m')"
  by (rule holdsI) (auto simp: then_io_def bind_io_def dest!: holdsD)

lemmas holds_seq [holds_intros] = holds_then [where ?s1.0 = s and s = s for s]

lemma holds_now [holds_intros]:
  assumes "\<And>t. holds s s' k (f t)" shows "holds s s' k (bind_io (now_io E) f)"
proof (rule holdsI)
  fix n w r w' assume w: "held s n k w" and m: "bind_io (now_io E) f w = (r, w')"
  from w have "held s n k (w\<lparr>nt_ticks := Suc (nt_ticks w)\<rparr>)"
    by (simp add: held_def decided_count_def decisions_def)
  from holdsD [OF assms this, of "re_clock E (nt_ticks w)"] m show "r = Inr () \<and> held s' n k w'"
    by (auto simp: bind_io_def now_io_def)
qed

lemma holds_assign [holds_intros]:
  assumes "\<And>c. rc_case_id (f c) = rc_case_id c \<and> rc_correlation_id (f c) = rc_correlation_id c"
    and "\<And>c. rc_status c = s \<Longrightarrow> rc_status (f c) = s'"
  shows "holds s s' k (assign k f)"
proof (rule holdsI)
  fix n w r w' assume w: "held s n k w" and m: "assign k f w = (r, w')"
  have "keyed (upd_case k f (cw_store w))"
    using local_upd_case [OF assms(1), of k "cw_store w"] w by (simp add: local_step_def held_def)
  then show "r = Inr () \<and> held s' n k w'"
    using w m assms(2) by (auto simp: held_def assign_def on_store_def decided_count_def decisions_def)
qed

lemma holds_save [holds_intros]: "holds s s k (save_case E k)"
proof (rule holdsI)
  fix n w r w' assume w: "held s n k w" and m: "save_case E k w = (r, w')"
  then obtain c where c: "store_get (cw_store w) k = Some c" "rc_status c = s" "rc_case_id c = k"
    using keyedD by (auto simp: held_def)
  have "\<not> isl (save (re_clock E (nt_ticks w)) c None (cw_store w))"
    by (simp add: save_def Let_def split: option.split)
  then obtain c' st' where sv: "save (re_clock E (nt_ticks w)) c None (cw_store w) = Inr (c', st')"
    by (cases "save (re_clock E (nt_ticks w)) c None (cw_store w)") auto
  have w': "r = Inr ()" "w' = w\<lparr>nt_ticks := Suc (nt_ticks w), cw_store := st'\<rparr>"
    using m c(1) sv by (simp_all add: save_case_def on_store_exc_def bind_io_def now_io_def)
  have "keyed st'" using save_local(1) [OF _ c(1) sv] w by (simp add: held_def local_step_def)
  moreover have "store_get st' k = Some c'" "rc_status c' = s"
    using save_ok [OF sv] c by (simp_all add: store_get_def)
  ultimately show "r = Inr () \<and> held s n k w'" using w w' by (auto simp: held_def decided_count_def decisions_def)
qed

lemma holds_quiet:
  assumes "quiet m" "\<And>w. fst (m w) = Inr ()" shows "holds s s k m"
proof (rule holdsI)
  fix n w r w' assume "held s n k w" "m w = (r, w')"
  with quietD [OF assms(1) this(2)] assms(2) [of w] show "r = Inr () \<and> held s n k w'"
    by (auto simp: held_def same_view_def decided_count_def)
qed

lemma holds_with_case [holds_intros]:
  assumes "\<And>c. rc_case_id c = k \<Longrightarrow> rc_correlation_id c = k \<Longrightarrow> holds s s' k (f c)"
  shows "holds s s' k (with_case k f)"
proof (rule holdsI)
  fix n w r w' assume w: "held s n k w" and m: "with_case k f w = (r, w')"
  then obtain c where c: "store_get (cw_store w) k = Some c" by (auto simp: held_def)
  then have "rc_case_id c = k" "rc_correlation_id c = k" using w keyedD by (auto simp: held_def)
  from holdsD [OF assms [OF this] w] m c show "r = Inr () \<and> held s' n k w'"
    by (auto simp: with_case_def read_case_def io_defs)
qed

lemma holds_pending [holds_intros]: "holds s s k (add_pending k task)"
  unfolding add_pending_def
proof (rule holds_with_case)
  fix c :: ResolutionCase
  show "holds s s k (on_store_exc (\<lambda>st. map_sum id (\<lambda>st'. ((), st')) (add_pending_task k (the (task c)) st)))"
  proof (rule holdsI)
    fix n w r w' assume w: "held s n k w"
      and m: "on_store_exc (\<lambda>st. map_sum id (\<lambda>st'. ((), st')) (add_pending_task k (the (task c)) st)) w = (r, w')"
    then obtain c0 where c0: "store_get (cw_store w) k = Some c0" "rc_status c0 = s" by (auto simp: held_def)
    then obtain st' where st: "add_pending_task k (the (task c)) (cw_store w) = Inr st'" by (simp add: add_pending_task_def)
    then have "keyed st'" using add_pending_local(1) w by (auto simp: held_def local_step_def)
    moreover have "\<exists>c'. store_get st' k = Some c' \<and> rc_status c' = s"
      using st c0 by (auto simp: add_pending_task_def)
    ultimately show "r = Inr () \<and> held s n k w'"
      using w m st by (auto simp: on_store_exc_def held_def decided_count_def decisions_def)
  qed
qed

section \<open>Requests over a working broker\<close>

lemma delegation_registered:
  "lookup env ''agent.task_request.v1'' = Inr ''TaskRequest''" "EVENT_TYPE_RE ''agent.task_request.v1''"
  by (simp add: lookup_def PAYLOAD_REGISTRY_def, code_simp)

lemma publish_task_request:
  assumes "\<And>n. re_send_ok E n"
  shows "isl (fst (publish E cr_identity (MTaskRequest q) ''agent.task_request.v1'' corr (Some caus) (Some t) w)) = False"
  using assms delegation_registered cr_identity_valid
  by (simp add: publish_def build_envelope_def lift_exc_def io_defs uuid4_io_def now_io_def validate_envelope_def
      send_and_wait_def Let_def)

lemma then_return_ok: "isl (fst (m w)) = False \<Longrightarrow> fst (then_io m (return_io ()) w) = Inr ()"
  by (cases "m w"; cases "fst (m w)") (auto simp: then_io_def bind_io_def return_io_def)

lemma holds_send:
  assumes "\<And>p. m \<noteq> MDecision p" "\<And>w :: cr_world. isl (fst (publish E cr_identity m et corr caus t w)) = False"
  shows "holds s s k (then_io (publish E cr_identity m et corr caus t) (return_io ()))"
  by (intro holds_quiet quiet_intros then_return_ok assms)

text \<open>Which peers can be discovered.\<close>

definition published :: "cr_params \<Rightarrow> string \<Rightarrow> string \<Rightarrow> nat \<Rightarrow> bool" where
  "published P capability peer n =
     (case cp_find_capable P capability n of Inl _ \<Rightarrow> False | Inr cards \<Rightarrow> peer \<in> card_agent_id ` set cards)"

lemma validate_published:
  "published P capability peer (nt_ticks w) \<Longrightarrow> \<exists>card. validate_capability_of P capability peer e w = (Inr card, w)"
  by (auto simp: published_def validate_capability_of_def lift_exc_def io_defs find_None_iff split: sum.splits option.splits)

lemma validate_unpublished:
  "\<not> published P capability peer (nt_ticks w) \<Longrightarrow> \<exists>e'. validate_capability_of P capability peer e w = (Inl e', w)"
  by (auto simp: published_def validate_capability_of_def lift_exc_def io_defs find_Some_iff split: sum.splits option.splits)

lemma holds_request_billing:
  assumes "\<And>n. re_send_ok E n" "\<And>n. published P BILLING_CAPABILITY_ID BILLING_PEER_AGENT_ID n"
  shows "holds s s k (request_billing_analysis E P k env)"
proof -
  let ?send = "with_case k (\<lambda>c. then_io (publish E cr_identity
            (MTaskRequest
               \<lparr>tq_task_id = the (rc_billing_task_id c), tq_capability = BILLING_CAPABILITY_ID,
                tq_requester_agent_id = AGENT_ID, tq_target_agent_id = BILLING_PEER_AGENT_ID,
                tq_input = data_message User (dump_billing_input (build_billing_request_input c))\<rparr>)
            ''agent.task_request.v1'' (rc_correlation_id c) (Some (en_event_id env))
            (Some (endpoint_topic (re_environment E) BILLING_PEER_AGENT_ID)))
          (return_io ()))"
  have rest: "holds s s k (then_io (mint_billing_task P k) ?send)"
    unfolding mint_billing_task_def
    by (intro holds_seq holds_with_case holds_assign holds_send publish_task_request assms(1)) auto
  show ?thesis
  proof (rule holdsI)
    fix n w r w' assume w: "held s n k w" and m: "request_billing_analysis E P k env w = (r, w')"
    obtain card where "validate_billing_capability P w = (Inr card, w)"
      unfolding validate_billing_capability_def using validate_published [OF assms(2)] by blast
    with m have "then_io (mint_billing_task P k) ?send w = (r, w')"
      by (simp add: request_billing_analysis_def then_io_def [of "validate_billing_capability P"] bind_io_def)
    with holdsD [OF rest w] show "r = Inr () \<and> held s n k w'" by auto
  qed
qed

lemma holds_classify:
  assumes "type_segment (re_environment E)" "\<And>n. re_send_ok E n"
  shows "holds s CLASSIFIED k (classify_case E k ticket triage env)"
proof -
  have t: "(TOPIC_ISSUE_CLASSIFIED (re_environment E), class_name (MClassified x)) \<in> set (domain_topics (re_environment E))" for x
    by (simp add: domain_topics_def)
  have p: "isl (fst (publish E cr_identity (MClassified x) (TOPIC_ISSUE_CLASSIFIED (re_environment E)) corr (Some caus) None w)) = False"
    for x corr caus and w :: cr_world
    using publish_cr [OF assms t, of x corr caus w] by (metis fst_conv sum.disc(2))
  have "EVENT_TYPE_RE ''agent.audit.v1''" by code_simp
  then have a: "fst (write_audit E cr_identity env Accepted None w) = Inr ()" for w :: cr_world
    using assms(2) cr_identity_valid
    by (simp add: write_audit_def write_task_audit_def io_defs lift_exc_def uuid4_io_def now_io_def publish_raw_def
        send_and_wait_def validate_envelope_def validate_reason_required_def Let_def)
  show ?thesis unfolding classify_case_def
    by (rule holds_then [OF holds_assign holds_seq [OF holds_save holds_seq [OF holds_quiet [OF quiet_audit(2) a] holds_send]]])
      (simp_all add: p)
qed

section \<open>The unclaimed decision\<close>

lemma decisions_three:
  assumes "nt_log w' = nt_log w @ [d, a, r]" "sn_model d = MDecision p" "sn_model a = MAudit x" "sn_model r = MDrafted y"
    and "en_correlation_id (sn_envelope d) = k"
  shows "decided_count k w' = Suc (decided_count k w)"
  using assms by (simp add: decided_count_def decisions_def is_decision_def)

text \<open>Whatever the status of the case, a failed delegation publishes a decision.\<close>

lemma delegation_failed_decides:
  assumes E: "type_segment (re_environment E)" "\<And>n. re_send_ok E n"
    and w: "keyed (cw_store w)" "store_get (cw_store w) k \<noteq> None"
  shows "\<exists>w'. delegation_failed E k ticket env e w = (Inr (), w') \<and> decided_count k w' = Suc (decided_count k w)"
proof -
  obtain c where c: "store_get (cw_store w) k = Some c" using w(2) by blast
  note ids = keyedD [OF w(1) c]
  let ?d = "\<lparr>dp_case_id = rc_correlation_id c, dp_ticket_id = tk_ticket_id ticket, dp_customer_id = tk_customer_id ticket,
     dp_outcome = ESCALATE_HUMAN, dp_customer_response = TEMPLATES ESCALATE_HUMAN, dp_escalation_reason = Some ''peer_failure'',
     dp_billing_summary = None, dp_risk_summary = None, dp_rationale = ''Delegation failed: '' @ str_exc e\<rparr>"
  have d: "decision_payload (rc_correlation_id c) (tk_ticket_id ticket) (tk_customer_id ticket) ESCALATE_HUMAN (Some ''peer_failure'')
      None None (''Delegation failed: '' @ str_exc e) = Inr ?d" by (rule decision_payload_ok) simp
  have t: "dp_customer_response ?d = TEMPLATES (dp_outcome ?d)" by simp
  obtain decided audit drafted a dr w1 where em: "emit_decision_and_draft E c ?d (en_event_id env) w = (Inr (sn_envelope decided), w1)"
    "nt_log w1 = nt_log w @ [decided, audit, drafted]" "sn_model decided = MDecision ?d" "sn_model audit = MAudit a"
    "sn_model drafted = MDrafted dr" "en_correlation_id (sn_envelope decided) = rc_correlation_id c"
    "store_get (cw_store w1) k = Some (c\<lparr>rc_decided_event_id := Some (en_event_id (sn_envelope decided)),
       rc_drafted_event_id := Some (en_event_id (sn_envelope drafted))\<rparr>)"
    by (rule emit_ok [OF E ids(1) c t, of "en_event_id env"]) (rule that; assumption)
  let ?c1 = "c\<lparr>rc_decided_event_id := Some (en_event_id (sn_envelope decided)),
       rc_drafted_event_id := Some (en_event_id (sn_envelope drafted)), rc_status := ESCALATED\<rparr>"
  let ?w1 = "w1\<lparr>cw_store := upd_case k (\<lambda>c. c\<lparr>rc_status := ESCALATED\<rparr>) (cw_store w1)\<rparr>"
  have "store_get (cw_store ?w1) k = Some ?c1" "rc_case_id ?c1 = k" using em(7) ids(1) by simp_all
  then obtain w2 v u where s: "save_case E k ?w1 = (Inr (), w2)" "nt_log w2 = nt_log ?w1" by (rule save_case_ok)
  have "delegation_failed E k ticket env e w = (Inr (), w2)"
    using c d em(1) s(1)
    by (simp add: delegation_failed_def with_case_def read_case_def get_io_def bind_io_def lift_exc_def return_io_def then_io_def
        assign_def on_store_def)
  moreover have "decided_count k w2 = Suc (decided_count k w)"
    using decisions_three [OF em(2-5), of k] em(6) ids(2) s(2) by (simp add: decided_count_def decisions_def)
  ultimately show ?thesis by blast
qed

lemma delegate_during_fails:
  assumes E: "\<And>n. re_send_ok E n"
    and P: "\<And>n. published P BILLING_CAPABILITY_ID BILLING_PEER_AGENT_ID n" "\<And>n. \<not> published P RISK_CAPABILITY_ID RISK_PEER_AGENT_ID n"
    and w: "held WAITING_FOR_PEER_REVIEWS n k w"
  shows "\<exists>v e. held WAITING_FOR_PEER_REVIEWS n k v \<and> delegate_during E P other k env w = (Inl e, snd (other v))"
proof -
  let ?s = "WAITING_FOR_PEER_REVIEWS"
  let ?before = "then_io (mint_billing_task P k) (then_io (mint_risk_task P k) (then_io (add_pending k rc_billing_task_id)
      (then_io (add_pending k rc_risk_task_id) (request_billing_analysis E P k env))))"
  have "holds ?s ?s k ?before" unfolding mint_billing_task_def mint_risk_task_def
    by (intro holds_seq holds_assign holds_pending holds_request_billing E P(1)) auto
  then obtain v where v: "?before w = (Inr (), v)" "held ?s n k v" using holdsD [OF _ w] by blast
  obtain e where "validate_risk_capability P (snd (other v)) = (Inl e, snd (other v))"
    unfolding validate_risk_capability_def using validate_unpublished [OF P(2)] by blast
  then have "request_risk_analysis E P k env (snd (other v)) = (Inl e, snd (other v))"
    by (simp add: request_risk_analysis_def then_io_def [of "validate_risk_capability P"] bind_io_def)
  moreover have "delegate_during E P other k env = then_io ?before (then_io (meanwhile other)
      (then_io (request_risk_analysis E P k env) (announce_review E k env)))"
    by (simp only: delegate_during_def then_assoc)
  ultimately have "delegate_during E P other k env w = (Inl e, snd (other v))"
    by (simp add: run_then(1) [where m = ?before and w = w, OF v(1)] run_then(1) [where m = "meanwhile other" and w = v, OF meanwhile_run]
        run_then(2) [where m = "request_risk_analysis E P k env" and w = "snd (other v)"])
  with v(2) show ?thesis by blast
qed

text \<open>Other loops keep the cases of a keyed store.\<close>

definition keeps_case :: "uuid \<Rightarrow> unit cr_io \<Rightarrow> bool" where
  "keeps_case k other \<longleftrightarrow> (\<forall>v. keyed (cw_store v) \<and> store_get (cw_store v) k \<noteq> None \<longrightarrow>
     keyed (cw_store (snd (other v))) \<and> store_get (cw_store (snd (other v))) k \<noteq> None)"

lemma apply_decision_keeps: "keeps_case k (apply_decision E k cause)"
  unfolding keeps_case_def
proof (intro allI impI)
  fix v :: cr_world assume "keyed (cw_store v) \<and> store_get (cw_store v) k \<noteq> None"
  then have "settled_all {k} {} v" by (simp add: settled_all_def)
  moreover obtain r v' where a: "apply_decision E k cause v = (r, v')" by fastforce
  ultimately have "settled_all {k} {k} v'" using tripleD [OF triple_apply_decision_settles [of k "{k}" "{}"]] by fastforce
  then show "keyed (cw_store (snd (apply_decision E k cause v))) \<and> store_get (cw_store (snd (apply_decision E k cause v))) k \<noteq> None"
    by (simp add: a settled_all_def)
qed

lemma apply_decision_counts:
  assumes "type_segment (re_environment E)" "\<And>n. re_send_ok E n" "held s n k w" "\<not> settled_status s"
  shows "decided_count k (snd (apply_decision E k (Inl trigger) w)) = Suc n"
proof -
  obtain c where c: "store_get (cw_store w) k = Some c" "rc_status c = s" "rc_case_id c = k" "rc_correlation_id c = k"
    using assms(3) keyedD by (auto simp: held_def)
  obtain d decided drafted dr w' where r: "apply_decision E k (Inl trigger) w = (Inr (), w')"
    "filter (\<lambda>m. \<not> is_audit m) (nt_log w') = filter (\<lambda>m. \<not> is_audit m) (nt_log w) @ [decided, drafted]"
    "sn_model decided = MDecision d" "en_correlation_id (sn_envelope decided) = rc_correlation_id c" "sn_model drafted = MDrafted dr"
    by (rule apply_decision_run [OF assms(1,2) c(1,3) assms(4) [folded c(2)], of trigger]) (rule that; assumption)
  have "decisions v = filter is_decision (filter (\<lambda>m. \<not> is_audit m) (nt_log v))" for v :: cr_world
    unfolding decisions_def filter_filter by (rule filter_cong) (auto simp: is_decision_def is_audit_def split: message.splits)
  then have "decisions w' = decisions w @ [decided]" using r(2,3,5) by (simp only: filter_append) (simp add: is_decision_def)
  then show ?thesis using r(1,4) c(4) assms(3) by (simp add: decided_count_def held_def)
qed

text \<open>The review branch of intake, with the delegation that fails inside.\<close>

lemma start_review_during_decides:
  assumes E: "type_segment (re_environment E)" "\<And>n. re_send_ok E n"
    and P: "\<And>n. published P BILLING_CAPABILITY_ID BILLING_PEER_AGENT_ID n" "\<And>n. \<not> published P RISK_CAPABILITY_ID RISK_PEER_AGENT_ID n"
    and w: "held CLASSIFIED n k w" and other: "keeps_case k other"
  shows "\<exists>v w'. held WAITING_FOR_PEER_REVIEWS n k v \<and> start_review_during E P other k ticket env w = (Inr (), w')
    \<and> decided_count k w' = Suc (decided_count k (snd (other v)))"
proof -
  let ?prep = "\<lambda>t. then_io (assign k (\<lambda>c. c\<lparr>rc_deadline_at := Some (deadline_after t (cp_deadline_seconds P))\<rparr>)) (save_case E k)"
  let ?wait = "then_io (assign k (\<lambda>c. c\<lparr>rc_status := WAITING_FOR_PEER_REVIEWS\<rparr>)) (bind_io (now_io E) ?prep)"
  let ?ask = "then_io (delegate_during E P other k env) (save_case E k)"
  have "holds CLASSIFIED WAITING_FOR_PEER_REVIEWS k ?wait"
    by (rule holds_then [OF holds_assign holds_now], simp_all) (rule holds_seq [OF holds_assign holds_save], simp_all)
  then obtain w3 where w3: "?wait w = (Inr (), w3)" "held WAITING_FOR_PEER_REVIEWS n k w3" using holdsD [OF _ w] by blast
  obtain v e where v: "held WAITING_FOR_PEER_REVIEWS n k v" "delegate_during E P other k env w3 = (Inl e, snd (other v))"
    using delegate_during_fails [OF E(2) P w3(2)] by blast
  have "keyed (cw_store (snd (other v)))" "store_get (cw_store (snd (other v))) k \<noteq> None"
    using other v(1) by (auto simp: keeps_case_def held_def)
  from delegation_failed_decides [OF E this] obtain w' where
    w': "delegation_failed E k ticket env e (snd (other v)) = (Inr (), w')" "decided_count k w' = Suc (decided_count k (snd (other v)))"
    by blast
  have "start_review_during E P other k ticket env = then_io ?wait (try_io ?ask (\<lambda>e. delegation_failed E k ticket env e))"
    by (simp only: start_review_during_def then_assoc then_bind_assoc)
  then have "start_review_during E P other k ticket env w = (Inr (), w')"
    by (simp add: w'(1) run_then(1) [where m = ?wait and w = w, OF w3(1)]
        run_try [where m = ?ask and w = w3, OF run_then(2) [where m = "delegate_during E P other k env" and w = w3, OF v(2)]])
  with v(1) w'(2) show ?thesis by blast
qed

text \<open>C26: overlapping handlers decide twice. A new ticket asks for a refund review over a working broker, the billing agent can be
  discovered and the risk agent cannot. While intake waits between its requests to the two, any other loop may run. Intake
  then returns having published one decision more than had been published when the other loop was done, whatever that
  loop did to the case. In particular, if the other loop decided the case by its claim, two decisions are
  published for it: the failure path of intake does not claim.\<close>

theorem overlapped_intake_decides_again:
  assumes E: "type_segment (re_environment E)" "\<And>n. re_send_ok E n"
    and P: "\<And>n. published P BILLING_CAPABILITY_ID BILLING_PEER_AGENT_ID n" "\<And>n. \<not> published P RISK_CAPABILITY_ID RISK_PEER_AGENT_ID n"
    and ticket: "cp_validate_ticket P (en_payload env) = Some ticket" "tg_needs_refund_review (intake_triage P ticket env)"
    and new: "keyed (cw_store w)" "store_get (cw_store w) (en_correlation_id env) = None"
    and other: "keeps_case (en_correlation_id env) other"
  shows "\<exists>v w'. held WAITING_FOR_PEER_REVIEWS (decided_count (en_correlation_id env) w) (en_correlation_id env) v
    \<and> intake_during E P other env w = (Inr (), w')
    \<and> decided_count (en_correlation_id env) w' = Suc (decided_count (en_correlation_id env) (snd (other v)))
    \<and> (\<forall>trigger. other = apply_decision E (en_correlation_id env) (Inl trigger) \<longrightarrow>
         decided_count (en_correlation_id env) w' = decided_count (en_correlation_id env) w + 2)"
proof -
  let ?k = "en_correlation_id env" and ?n = "decided_count (en_correlation_id env) w"
  let ?w0 = "w\<lparr>nt_ticks := Suc (nt_ticks w)\<rparr>"
  obtain c st where g: "get_or_create ?k (tk_ticket_id ticket) (tk_customer_id ticket) ?k (tk_amount ticket) (tk_currency ticket)
      (tk_reason ticket) (re_clock E (nt_ticks w)) (cw_store w) = (c, st)" by fastforce
  have c: "rc_status c = RECEIVED" "rc_case_id c = ?k"
    using g new by (auto elim!: get_or_create_cases simp: new_case_def)
  let ?w1 = "?w0\<lparr>cw_store := st\<rparr>"
  have w1: "held RECEIVED ?n ?k ?w1"
    using get_or_create_local [OF g new(1)] new(1) c by (auto simp: held_def local_step_def decided_count_def decisions_def)
  obtain w2 where w2: "classify_case E ?k ticket (intake_triage P ticket env) env ?w1 = (Inr (), w2)" "held CLASSIFIED ?n ?k w2"
    using holdsD [OF holds_classify [OF E] w1] by blast
  obtain v w' where v: "held WAITING_FOR_PEER_REVIEWS ?n ?k v"
    "start_review_during E P other ?k ticket env w2 = (Inr (), w')" "decided_count ?k w' = Suc (decided_count ?k (snd (other v)))"
    using start_review_during_decides [OF E P w2(2) other] by blast
  from v(2) have "intake_during E P other env w = (Inr (), w')"
    using ticket g c
    by (simp add: run_then(1) [where m = "classify_case E ?k ticket (intake_triage P ticket env) env" and w = ?w1, OF w2(1)]
        intake_during_def bind_io_def now_io_def on_store_def Let_def)
  moreover have "decided_count ?k w' = ?n + 2" if "other = apply_decision E ?k (Inl trigger)" for trigger
    using v(3) apply_decision_counts [OF E v(1), of trigger] that by (simp add: settled_status_def is_terminal_def)
  ultimately show ?thesis using v(1) v(3) by blast
qed

definition lone_billing :: cr_params where
  "lone_billing = (sample_params ''I want a refund'')\<lparr>cp_find_capable := (\<lambda>_ _. Inr [sample_agent_card BILLING_PEER_AGENT_ID])\<rparr>"

theorem overlapped_intake_decides_again_witness:
  "\<exists>w'. intake_during sample_env lone_billing (apply_decision sample_env 5 (Inl 9)) (sample_envelope 1 5) fresh_world = (Inr (), w')
    \<and> decided_count 5 w' = 2"
proof -
  have E: "re_send_ok sample_env n" for n by (simp add: sample_env_def)
  have P: "published lone_billing BILLING_CAPABILITY_ID BILLING_PEER_AGENT_ID n"
    "\<not> published lone_billing RISK_CAPABILITY_ID RISK_PEER_AGENT_ID n" for n
    by (simp_all add: published_def lone_billing_def sample_agent_card_def BILLING_PEER_AGENT_ID_def RISK_PEER_AGENT_ID_def)
  let ?t = "sample_ticket\<lparr>tk_reason := ''I want a refund''\<rparr>"
  have t: "cp_validate_ticket lone_billing (en_payload (sample_envelope 1 5)) = Some ?t"
    by (simp add: lone_billing_def sample_params_def)
  have r: "tg_needs_refund_review (intake_triage lone_billing ?t (sample_envelope 1 5))" by code_simp
  have w: "keyed (cw_store fresh_world)" "store_get (cw_store fresh_world) (en_correlation_id (sample_envelope 1 5)) = None"
    "en_correlation_id (sample_envelope 1 5) = 5" "decided_count 5 fresh_world = 0"
    using once_initial [of fresh_world]
    by (simp_all add: fresh_world_def once_def sample_envelope_def store_get_def empty_store_def decided_count_def decisions_def)
  from overlapped_intake_decides_again [OF sample_env_segment E P t r w(1,2) apply_decision_keeps] show ?thesis
    unfolding w(3,4) by fastforce
qed

end
