(* ===== verification/Billing_Engine.thy ===== *)
theory Billing_Engine
  imports Peer_Contract
begin

text \<open>
  The Billing-Entitlement agent's domain: its models
  (\<^verbatim>\<open>apps/agents/billing_entitlement/models.py\<close>), the named refund policy (\<^verbatim>\<open>policy.py\<close>), the
  entitlement checker (\<^verbatim>\<open>entitlement_checker.py\<close>) and the rules engine (\<^verbatim>\<open>rules_engine.py\<close>).
  The engine's early returns are one definition each, in the order of the source; \<open>evaluate\<close>
  composes them. The clock reading of the engine is its argument \<open>now\<close>.
\<close>

section \<open>Models\<close>

datatype Recommendation =
    APPROVE_FULL_REFUND | APPROVE_PARTIAL_REFUND | REC_DENY_REFUND
  | REC_REQUEST_MORE_INFORMATION | REC_MANUAL_REVIEW

fun recommendation_value :: "Recommendation \<Rightarrow> string" where
  "recommendation_value APPROVE_FULL_REFUND = ''approve_full_refund''"
| "recommendation_value APPROVE_PARTIAL_REFUND = ''approve_partial_refund''"
| "recommendation_value REC_DENY_REFUND = ''deny_refund''"
| "recommendation_value REC_REQUEST_MORE_INFORMATION = ''request_more_information''"
| "recommendation_value REC_MANUAL_REVIEW = ''manual_review''"

record RefundEligibilityRequest =
  rq_case_id :: uuid
  rq_ticket_id :: string
  rq_customer_id :: string
  rq_requested_refund_amount :: pyfloat
  rq_purchase_reference :: string
  rq_customer_message_summary :: "string option"
  rq_policy_context :: "string option"

datatype sub_status = SubActive | SubCancelled | SubLapsed

fun sub_status_value :: "sub_status \<Rightarrow> string" where
  "sub_status_value SubActive = ''active''"
| "sub_status_value SubCancelled = ''cancelled''"
| "sub_status_value SubLapsed = ''lapsed''"

datatype sub_term = Monthly | Annual

fun sub_term_value :: "sub_term \<Rightarrow> string" where
  "sub_term_value Monthly = ''monthly''"
| "sub_term_value Annual = ''annual''"

record Subscription =
  sub_subscription_id :: string
  sub_status_of :: sub_status
  sub_term_of :: sub_term
  sub_started_at :: instant
  sub_renewed_at :: "instant option"

record Invoice =
  inv_invoice_id :: string
  inv_purchase_reference :: string
  inv_amount :: pyfloat
  inv_currency :: string
  inv_issued_at :: instant
  inv_paid :: bool

record Payment =
  pay_payment_id :: string
  pay_invoice_id :: string
  pay_captured :: bool
  pay_amount :: pyfloat
  pay_reversed_amount :: pyfloat

datatype ent_status = EntActive | EntRevoked

fun ent_status_value :: "ent_status \<Rightarrow> string" where
  "ent_status_value EntActive = ''active''"
| "ent_status_value EntRevoked = ''revoked''"

record Entitlement =
  ent_entitlement_id :: string
  ent_subscription_id :: string
  ent_status_of :: ent_status
  ent_delivered :: bool
  ent_access_granted :: bool
  ent_access_used :: bool
  ent_feature_enabled :: bool
  ent_account_active :: bool

record ProductUsage =
  use_usage_units :: pyfloat
  use_allotment_units :: pyfloat

record BillingFacts =
  bf_subscription :: "Subscription option"
  bf_invoice :: "Invoice option"
  bf_payment :: "Payment option"
  bf_entitlement :: "Entitlement option"
  bf_usage :: "ProductUsage option"

record EligibilityRecommendation =
  er_recommendation :: Recommendation
  er_confidence :: pyfloat
  er_evidence :: "EvidenceItem list"
  er_policy_references :: "string list"
  er_reasoning_summary :: string
  er_requires_human_review :: bool
  er_eligible_refund_amount :: decimal
  er_subscription_status :: string
  er_invoice_status :: string
  er_payment_status :: string
  er_entitlement_status :: string
  er_usage_level :: string
  er_refund_window_status :: string

section \<open>Policy\<close>

definition REFUND_WINDOW_DAYS :: int where
  "REFUND_WINDOW_DAYS = 30"

definition USAGE_HEAVY_THRESHOLD :: pyfloat where
  "USAGE_HEAVY_THRESHOLD = fl (8 / 10)"

record PolicyRule =
  pr_id :: string
  pr_name :: string
  pr_description :: string

record RefundPolicy =
  po_policy_name :: string
  po_policy_version :: string
  po_rules :: "PolicyRule list"

definition policy_rule :: "string \<Rightarrow> string \<Rightarrow> string \<Rightarrow> PolicyRule" where
  "policy_rule i n d = \<lparr>pr_id = i, pr_name = n, pr_description = d\<rparr>"

definition billing_rules :: "PolicyRule list" where
  "billing_rules =
    [policy_rule ''RP-001'' ''refund-window''
       (''Refund must be requested within '' @ show_int REFUND_WINDOW_DAYS
        @ '' days of invoice issue date (inclusive boundary: exactly '' @ show_int REFUND_WINDOW_DAYS
        @ '' days counts as within).''),
     policy_rule ''RP-002'' ''paid-invoice''
       (''Invoice must be paid, payment must be captured, and the payment must not already ''
        @ ''be fully reversed (already-refunded cases are denied).''),
     policy_rule ''RP-003'' ''entitlement-delivered''
       (''Value not delivered/used supports the refund claim (approve-supporting); ''
        @ ''value delivered and used weakens the claim.''),
     policy_rule ''RP-004'' ''usage-threshold''
       (''Heavy usage (usage_ratio > '' @ float_repr USAGE_HEAVY_THRESHOLD
        @ '') materially weakens the refund claim and results in denial. Exactly ''
        @ float_repr USAGE_HEAVY_THRESHOLD @ '' is below heavy.''),
     policy_rule ''RP-005'' ''subscription-status''
       (''Cancelled subscription within the refund window supports the claim; ''
        @ ''active subscription with heavy usage further weakens it.'')]"

definition REFUND_POLICY :: RefundPolicy where
  "REFUND_POLICY =
     \<lparr>po_policy_name = ''poc-refund-policy'', po_policy_version = ''1.0.0'', po_rules = billing_rules\<rparr>"

section \<open>Entitlement checker\<close>

record EntitlementCheck =
  ec_granted :: bool
  ec_used :: bool
  ec_feature_enabled :: bool
  ec_has_access :: bool
  ec_mismatch :: bool
  ec_summary :: string

text \<open>The list \<open>conflicts\<close>, in the order the three conditions are tested.\<close>

definition entitlement_conflicts :: "Entitlement \<Rightarrow> Subscription option \<Rightarrow> string list" where
  "entitlement_conflicts e sub =
     (if \<not> ent_access_granted e \<and> ent_access_used e
      then [''access_granted=False but access_used=True''] else [])
     @ (case sub of
          None \<Rightarrow> []
        | Some s \<Rightarrow>
            if ent_account_active e \<and> sub_status_of s = SubCancelled
            then [''account_active=True but subscription.status='' @ quoted (sub_status_value (sub_status_of s))]
            else [])
     @ (if ent_status_of e = EntRevoked \<and> ent_feature_enabled e
        then [''entitlement.status='' @ quoted ''revoked'' @ '' but feature_enabled=True''] else [])"

definition check_entitlement :: "BillingFacts \<Rightarrow> EntitlementCheck" where
  "check_entitlement bf =
     (case bf_entitlement bf of
        None \<Rightarrow> \<lparr>ec_granted = False, ec_used = False, ec_feature_enabled = False,
                 ec_has_access = False, ec_mismatch = False,
                 ec_summary = ''No entitlement record found''\<rparr>
      | Some e \<Rightarrow>
          let granted = ent_access_granted e; used = ent_access_used e;
              conflicts = entitlement_conflicts e (bf_subscription bf);
              mismatch = (conflicts \<noteq> []);
              summary = (if mismatch then ''Entitlement mismatch: '' @ py_join ''; '' conflicts
                         else if used \<and> granted then ''Access granted and used (value delivered)''
                         else if granted \<and> \<not> used then ''Access granted but not used (value not consumed)''
                         else if \<not> granted \<and> \<not> used then ''Access not granted and not used (not delivered)''
                         else ''Entitlement state normal'')
          in \<lparr>ec_granted = granted, ec_used = used, ec_feature_enabled = ent_feature_enabled e,
              ec_has_access = ent_account_active e, ec_mismatch = mismatch, ec_summary = summary\<rparr>)"

definition build_entitlement_evidence :: "EntitlementCheck \<Rightarrow> EvidenceItem" where
  "build_entitlement_evidence c =
     evidence ''entitlement'' (ec_summary c)
       [(''granted'', VBool (ec_granted c)), (''used'', VBool (ec_used c)),
        (''feature_enabled'', VBool (ec_feature_enabled c)),
        (''has_access'', VBool (ec_has_access c)), (''mismatch'', VBool (ec_mismatch c))]"

section \<open>Rules engine\<close>

definition usage_level :: "pyfloat \<Rightarrow> string" where
  "usage_level ratio =
     (if ratio > USAGE_HEAVY_THRESHOLD then ''heavy''
      else if ratio \<ge> fl (5 / 10) then ''moderate'' else ''light'')"

definition usage_ratio :: "ProductUsage option \<Rightarrow> pyfloat" where
  "usage_ratio usage =
     (case usage of
        None \<Rightarrow> 0
      | Some u \<Rightarrow> if use_allotment_units u > 0 then f_div (use_usage_units u) (use_allotment_units u)
                  else 0)"

definition borderline_usage :: "ProductUsage option \<Rightarrow> bool" where
  "borderline_usage usage \<longleftrightarrow>
     usage \<noteq> None \<and> \<bar>f_sub (usage_ratio usage) USAGE_HEAVY_THRESHOLD\<bar> < fl (1 / 10 ^ 9)"

definition subscription_status_str :: "BillingFacts \<Rightarrow> string" where
  "subscription_status_str bf =
     (case bf_subscription bf of None \<Rightarrow> ''unknown'' | Some s \<Rightarrow> sub_status_value (sub_status_of s))"

definition entitlement_status_str :: "BillingFacts \<Rightarrow> string" where
  "entitlement_status_str bf =
     (case bf_entitlement bf of None \<Rightarrow> ''unknown'' | Some e \<Rightarrow> ent_status_value (ent_status_of e))"

text \<open>Step 1: data-completeness gate.\<close>

definition missing_facts :: "BillingFacts \<Rightarrow> string list" where
  "missing_facts bf =
     (if bf_invoice bf = None then [''invoice''] else [])
     @ (if bf_payment bf = None then [''payment''] else [])"

definition missing_facts_result :: "BillingFacts \<Rightarrow> EligibilityRecommendation" where
  "missing_facts_result bf =
     (let missing = missing_facts bf in
      \<lparr>er_recommendation = REC_REQUEST_MORE_INFORMATION,
       er_confidence = fl (2 / 10),
       er_evidence = [evidence ''refund_policy''
         ''Data-completeness gate: missing required billing facts''
         [(''missing'', VList (map VStr missing))]],
       er_policy_references = [],
       er_reasoning_summary = ''Missing required billing facts: '' @ py_join '', '' missing @ ''.'',
       er_requires_human_review = True,
       er_eligible_refund_amount = 0,
       er_subscription_status = subscription_status_str bf,
       er_invoice_status = ''unknown'',
       er_payment_status = ''unknown'',
       er_entitlement_status = entitlement_status_str bf,
       er_usage_level = ''unknown'',
       er_refund_window_status = ''unknown''\<rparr>)"

text \<open>Step 2: contradiction gate.\<close>

definition entitlement_check_of :: "BillingFacts \<Rightarrow> EntitlementCheck option" where
  "entitlement_check_of bf = (if bf_entitlement bf = None then None else Some (check_entitlement bf))"

definition entitlement_evidence :: "BillingFacts \<Rightarrow> EvidenceItem list" where
  "entitlement_evidence bf =
     (case entitlement_check_of bf of None \<Rightarrow> [] | Some c \<Rightarrow> [build_entitlement_evidence c])"

definition partial_reversal :: "Invoice \<Rightarrow> Payment \<Rightarrow> bool" where
  "partial_reversal invoice payment \<longleftrightarrow>
     pay_reversed_amount payment > 0 \<and> inv_paid invoice \<and> pay_reversed_amount payment < pay_amount payment"

definition contradictions :: "BillingFacts \<Rightarrow> Invoice \<Rightarrow> Payment \<Rightarrow> string list" where
  "contradictions bf invoice payment =
     (if partial_reversal invoice payment
      then [''payment.reversed_amount='' @ float_repr (pay_reversed_amount payment)
            @ '' > 0 on a paid invoice (partial reversal already applied)''] else [])
     @ (case entitlement_check_of bf of
          None \<Rightarrow> []
        | Some c \<Rightarrow> if ec_mismatch c then [ec_summary c] else [])"

definition contradiction_result ::
  "instant \<Rightarrow> BillingFacts \<Rightarrow> Invoice \<Rightarrow> Payment \<Rightarrow> EligibilityRecommendation" where
  "contradiction_result now bf invoice payment =
     (let cs = contradictions bf invoice payment in
      \<lparr>er_recommendation = REC_MANUAL_REVIEW,
       er_confidence = fl (3 / 10),
       er_evidence = entitlement_evidence bf
         @ map (\<lambda>c. evidence ''refund_policy'' ''Contradiction gate'' [(''conflict'', VStr c)]) cs,
       er_policy_references = [''contradiction-gate''],
       er_reasoning_summary = ''Contradictory billing signals detected: '' @ py_join ''; '' cs @ ''.'',
       er_requires_human_review = True,
       er_eligible_refund_amount = 0,
       er_subscription_status = subscription_status_str bf,
       er_invoice_status = (if inv_paid invoice then ''paid'' else ''unpaid''),
       er_payment_status = (if pay_captured payment then ''captured'' else ''uncaptured''),
       er_entitlement_status = entitlement_status_str bf,
       er_usage_level = usage_level (usage_ratio (bf_usage bf)),
       er_refund_window_status =
         (if delta_days now (inv_issued_at invoice) \<le> REFUND_WINDOW_DAYS then ''within'' else ''expired'')\<rparr>)"

text \<open>Evidence from the owned facts, for all later paths.\<close>

definition base_evidence :: "instant \<Rightarrow> BillingFacts \<Rightarrow> Invoice \<Rightarrow> Payment \<Rightarrow> EvidenceItem list" where
  "base_evidence now bf invoice payment =
     (let days = delta_days now (inv_issued_at invoice) in
      entitlement_evidence bf
      @ [evidence ''invoice'' (''Invoice issued '' @ show_int days @ '' days ago'')
           [(''invoice_id'', VStr (inv_invoice_id invoice)),
            (''issued_at'', VStr (isoformat (inv_issued_at invoice))),
            (''paid'', VBool (inv_paid invoice)),
            (''days_since_issued'', VInt days),
            (''window_days'', VInt REFUND_WINDOW_DAYS)],
         evidence ''payment'' ''Payment capture and reversal status''
           [(''payment_id'', VStr (pay_payment_id payment)),
            (''captured'', VBool (pay_captured payment)),
            (''amount'', VFloat (pay_amount payment)),
            (''reversed_amount'', VFloat (pay_reversed_amount payment))]]
      @ (case bf_subscription bf of
           None \<Rightarrow> []
         | Some sub \<Rightarrow>
             [evidence ''subscription'' ''Subscription status''
                [(''subscription_id'', VStr (sub_subscription_id sub)),
                 (''status'', VStr (sub_status_value (sub_status_of sub))),
                 (''term'', VStr (sub_term_value (sub_term_of sub)))]])
      @ (case bf_usage bf of
           None \<Rightarrow> []
         | Some u \<Rightarrow>
             [evidence ''product_usage''
                (''Usage ratio: '' @ fmt_fixed 3 (usage_ratio (bf_usage bf)) @ '' (threshold=''
                 @ float_repr USAGE_HEAVY_THRESHOLD @ '')'')
                [(''usage_units'', VFloat (use_usage_units u)),
                 (''allotment_units'', VFloat (use_allotment_units u)),
                 (''usage_ratio'', VFloat (py_round (usage_ratio (bf_usage bf)) 6)),
                 (''heavy_threshold'', VFloat USAGE_HEAVY_THRESHOLD)]]))"

text \<open>Step 3: hard denials. RP-001, outside the refund window.\<close>

definition deny_window_result ::
  "instant \<Rightarrow> BillingFacts \<Rightarrow> Invoice \<Rightarrow> Payment \<Rightarrow> EligibilityRecommendation" where
  "deny_window_result now bf invoice payment =
     (let days = delta_days now (inv_issued_at invoice) in
      \<lparr>er_recommendation = REC_DENY_REFUND,
       er_confidence = fl (9 / 10),
       er_evidence = base_evidence now bf invoice payment
         @ [evidence ''refund_policy'' ''RP-001: outside refund window''
              [(''days_since_invoice'', VInt days), (''window_days'', VInt REFUND_WINDOW_DAYS)]],
       er_policy_references = [''RP-001''],
       er_reasoning_summary =
         ''Refund window expired: '' @ show_int days @ '' days since invoice (limit: ''
         @ show_int REFUND_WINDOW_DAYS @ '' days '' @ em_dash @ '' RP-001).'',
       er_requires_human_review = False,
       er_eligible_refund_amount = 0,
       er_subscription_status = subscription_status_str bf,
       er_invoice_status = (if inv_paid invoice then ''paid'' else ''unpaid''),
       er_payment_status = (if pay_captured payment then ''captured'' else ''uncaptured''),
       er_entitlement_status = entitlement_status_str bf,
       er_usage_level = usage_level (usage_ratio (bf_usage bf)),
       er_refund_window_status = ''expired''\<rparr>)"

text \<open>RP-002: unpaid invoice.\<close>

definition deny_unpaid_result ::
  "instant \<Rightarrow> BillingFacts \<Rightarrow> Invoice \<Rightarrow> Payment \<Rightarrow> EligibilityRecommendation" where
  "deny_unpaid_result now bf invoice payment =
     \<lparr>er_recommendation = REC_DENY_REFUND,
      er_confidence = fl (9 / 10),
      er_evidence = base_evidence now bf invoice payment
        @ [evidence ''refund_policy'' ''RP-002: invoice not paid''
             [(''invoice_id'', VStr (inv_invoice_id invoice)), (''paid'', VBool (inv_paid invoice))]],
      er_policy_references = [''RP-002''],
      er_reasoning_summary = ''Invoice is unpaid; no refundable payment exists (RP-002).'',
      er_requires_human_review = False,
      er_eligible_refund_amount = 0,
      er_subscription_status = subscription_status_str bf,
      er_invoice_status = ''unpaid'',
      er_payment_status = ''uncaptured'',
      er_entitlement_status = entitlement_status_str bf,
      er_usage_level = usage_level (usage_ratio (bf_usage bf)),
      er_refund_window_status = ''within''\<rparr>"

text \<open>RP-002: payment not captured.\<close>

definition deny_uncaptured_result ::
  "instant \<Rightarrow> BillingFacts \<Rightarrow> Invoice \<Rightarrow> Payment \<Rightarrow> EligibilityRecommendation" where
  "deny_uncaptured_result now bf invoice payment =
     \<lparr>er_recommendation = REC_DENY_REFUND,
      er_confidence = fl (9 / 10),
      er_evidence = base_evidence now bf invoice payment
        @ [evidence ''refund_policy'' ''RP-002: payment not captured''
             [(''payment_id'', VStr (pay_payment_id payment)), (''captured'', VBool (pay_captured payment))]],
      er_policy_references = [''RP-002''],
      er_reasoning_summary = ''Payment not captured; no refundable charge exists (RP-002).'',
      er_requires_human_review = False,
      er_eligible_refund_amount = 0,
      er_subscription_status = subscription_status_str bf,
      er_invoice_status = ''paid'',
      er_payment_status = ''uncaptured'',
      er_entitlement_status = entitlement_status_str bf,
      er_usage_level = usage_level (usage_ratio (bf_usage bf)),
      er_refund_window_status = ''within''\<rparr>"

text \<open>RP-002: payment already fully reversed.\<close>

definition fully_reversed :: "Payment \<Rightarrow> bool" where
  "fully_reversed payment \<longleftrightarrow> pay_reversed_amount payment \<ge> pay_amount payment \<and> pay_amount payment > 0"

definition deny_reversed_result ::
  "instant \<Rightarrow> BillingFacts \<Rightarrow> Invoice \<Rightarrow> Payment \<Rightarrow> EligibilityRecommendation" where
  "deny_reversed_result now bf invoice payment =
     \<lparr>er_recommendation = REC_DENY_REFUND,
      er_confidence = fl (9 / 10),
      er_evidence = base_evidence now bf invoice payment
        @ [evidence ''refund_policy'' ''RP-002: payment already fully reversed''
             [(''reversed_amount'', VFloat (pay_reversed_amount payment)),
              (''amount'', VFloat (pay_amount payment))]],
      er_policy_references = [''RP-002''],
      er_reasoning_summary = ''Payment already fully reversed; refund already applied (RP-002).'',
      er_requires_human_review = False,
      er_eligible_refund_amount = 0,
      er_subscription_status = subscription_status_str bf,
      er_invoice_status = ''paid'',
      er_payment_status = ''reversed'',
      er_entitlement_status = entitlement_status_str bf,
      er_usage_level = usage_level (usage_ratio (bf_usage bf)),
      er_refund_window_status = ''within''\<rparr>"

text \<open>Step 4: usage gate, RP-004 (and RP-005 for an active subscription).\<close>

definition deny_heavy_result ::
  "instant \<Rightarrow> BillingFacts \<Rightarrow> Invoice \<Rightarrow> Payment \<Rightarrow> EligibilityRecommendation" where
  "deny_heavy_result now bf invoice payment =
     (let ratio = usage_ratio (bf_usage bf);
          active = (case bf_subscription bf of None \<Rightarrow> False | Some s \<Rightarrow> sub_status_of s = SubActive)
      in
      \<lparr>er_recommendation = REC_DENY_REFUND,
       er_confidence = (if borderline_usage (bf_usage bf) then fl (6 / 10) else fl (9 / 10)),
       er_evidence = base_evidence now bf invoice payment
         @ [evidence ''refund_policy''
              (''RP-004: heavy usage '' @ em_dash @ '' materially weakens refund claim'')
              [(''usage_ratio'', VFloat (py_round ratio 6)),
               (''threshold'', VFloat USAGE_HEAVY_THRESHOLD)]]
         @ (if active
            then [evidence ''refund_policy'' ''RP-005: active subscription with heavy usage''
                    [(''status'', VStr (subscription_status_str bf))]]
            else []),
       er_policy_references = (if active then [''RP-004'', ''RP-005''] else [''RP-004'']),
       er_reasoning_summary =
         ''Heavy usage ('' @ fmt_fixed 3 ratio @ '' > '' @ float_repr USAGE_HEAVY_THRESHOLD
         @ '') materially weakens the refund claim (RP-004).'',
       er_requires_human_review = False,
       er_eligible_refund_amount = 0,
       er_subscription_status = subscription_status_str bf,
       er_invoice_status = ''paid'',
       er_payment_status = ''captured'',
       er_entitlement_status = entitlement_status_str bf,
       er_usage_level = ''heavy'',
       er_refund_window_status = ''within''\<rparr>)"

text \<open>Delivery evidence (RP-003) for the approve and no-rule paths.\<close>

definition delivered :: "BillingFacts \<Rightarrow> bool" where
  "delivered bf = (case bf_entitlement bf of None \<Rightarrow> False | Some e \<Rightarrow> ent_delivered e)"

definition delivery_references :: "BillingFacts \<Rightarrow> string list" where
  "delivery_references bf = (if bf_entitlement bf = None then [] else [''RP-003''])"

definition delivery_evidence :: "BillingFacts \<Rightarrow> EvidenceItem list" where
  "delivery_evidence bf =
     (if bf_entitlement bf = None then []
      else [evidence ''refund_policy'' (''RP-003: entitlement delivered='' @ show_bool (delivered bf))
              [(''delivered'', VBool (delivered bf)),
               (''approve_supporting'', VBool (\<not> delivered bf))]])"

text \<open>Step 5: approve.\<close>

definition approve_references :: "BillingFacts \<Rightarrow> string list" where
  "approve_references bf =
     (let refs0 = delivery_references bf;
          refs = [''RP-001'', ''RP-002'']
            @ (if bf_entitlement bf = None then [] else [''RP-003''])
            @ (if bf_usage bf = None then [] else [''RP-004''])
            @ (if bf_subscription bf = None then [] else [''RP-005''])
      in dict_fromkeys (refs0 @ filter (\<lambda>r. r \<notin> set refs0) refs))"

definition approve_result ::
  "instant \<Rightarrow> BillingFacts \<Rightarrow> Invoice \<Rightarrow> Payment \<Rightarrow> EligibilityRecommendation" where
  "approve_result now bf invoice payment =
     (let days = delta_days now (inv_issued_at invoice);
          borderline_window = (days = REFUND_WINDOW_DAYS);
          borderline = (borderline_window \<or> borderline_usage (bf_usage bf));
          ratio = usage_ratio (bf_usage bf);
          parts =
            [''Within refund window ('' @ show_int days @ ''d '' @ leq_sign @ '' ''
               @ show_int REFUND_WINDOW_DAYS @ ''d '' @ em_dash @ '' RP-001)'',
             ''Invoice paid and payment captured (RP-002)'']
            @ [if bf_entitlement bf = None
               then ''No entitlement record (approve-supporting '' @ em_dash @ '' RP-003)''
               else ''Product not delivered (approve-supporting '' @ em_dash @ '' RP-003)'']
            @ (if bf_usage bf = None then []
               else [''Light usage ('' @ fmt_fixed 3 ratio @ '' '' @ em_dash @ '' RP-004 does not fire)''])
            @ (if borderline_window
               then [''Borderline: exactly '' @ show_int REFUND_WINDOW_DAYS @ '' days since invoice ''
                     @ ''(inclusive boundary '' @ em_dash @ '' confidence lowered to 0.6)'']
               else [])
      in
      \<lparr>er_recommendation = APPROVE_FULL_REFUND,
       er_confidence = (if borderline then fl (6 / 10) else fl (9 / 10)),
       er_evidence = base_evidence now bf invoice payment @ delivery_evidence bf,
       er_policy_references = approve_references bf,
       er_reasoning_summary = py_join ''. '' parts @ ''.'',
       er_requires_human_review = False,
       er_eligible_refund_amount =
         decimal_of_float (py_round (f_sub (pay_amount payment) (pay_reversed_amount payment)) 2),
       er_subscription_status = subscription_status_str bf,
       er_invoice_status = ''paid'',
       er_payment_status = ''captured'',
       er_entitlement_status = entitlement_status_str bf,
       er_usage_level = usage_level ratio,
       er_refund_window_status = (if borderline_window then ''within-borderline'' else ''within'')\<rparr>)"

text \<open>Step 6: no applicable rule.\<close>

definition no_rule_result ::
  "instant \<Rightarrow> BillingFacts \<Rightarrow> Invoice \<Rightarrow> Payment \<Rightarrow> EligibilityRecommendation" where
  "no_rule_result now bf invoice payment =
     \<lparr>er_recommendation = REC_MANUAL_REVIEW,
      er_confidence = fl (2 / 10),
      er_evidence = base_evidence now bf invoice payment @ delivery_evidence bf
        @ [evidence ''refund_policy''
             ''No applicable policy rule resolved this case to a confident verdict''
             [(''entitlement_delivered'', VBool (delivered bf)),
              (''usage_ratio'', VFloat (py_round (usage_ratio (bf_usage bf)) 6)),
              (''within_window'', VBool (delta_days now (inv_issued_at invoice) \<le> REFUND_WINDOW_DAYS)),
              (''invoice_paid'', VBool (inv_paid invoice))]],
      er_policy_references = dict_fromkeys (delivery_references bf),
      er_reasoning_summary = ''No applicable policy rule resolved the case to a confident verdict.'',
      er_requires_human_review = True,
      er_eligible_refund_amount = 0,
      er_subscription_status = subscription_status_str bf,
      er_invoice_status = ''paid'',
      er_payment_status = ''captured'',
      er_entitlement_status = entitlement_status_str bf,
      er_usage_level = usage_level (usage_ratio (bf_usage bf)),
      er_refund_window_status = ''within''\<rparr>"

text \<open>The engine: the gates in the order of the source.\<close>

definition evaluate ::
  "instant \<Rightarrow> BillingFacts \<Rightarrow> RefundEligibilityRequest \<Rightarrow> RefundPolicy \<Rightarrow> EligibilityRecommendation"
where
  "evaluate now facts request policy =
     (case (bf_invoice facts, bf_payment facts) of
        (Some invoice, Some payment) \<Rightarrow>
          if contradictions facts invoice payment \<noteq> [] then contradiction_result now facts invoice payment
          else if \<not> delta_days now (inv_issued_at invoice) \<le> REFUND_WINDOW_DAYS
          then deny_window_result now facts invoice payment
          else if \<not> inv_paid invoice then deny_unpaid_result now facts invoice payment
          else if \<not> pay_captured payment then deny_uncaptured_result now facts invoice payment
          else if fully_reversed payment then deny_reversed_result now facts invoice payment
          else if usage_ratio (bf_usage facts) > USAGE_HEAVY_THRESHOLD
          then deny_heavy_result now facts invoice payment
          else if \<not> delivered facts then approve_result now facts invoice payment
          else no_rule_result now facts invoice payment
      | _ \<Rightarrow> missing_facts_result facts)"

section \<open>Correctness of the rules engine\<close>

text \<open>
  The gate that decides a case, read off the facts: the abstract content of the policy. Each gate
  fixes the recommendation, the review flag and the rule that is cited.
\<close>

datatype billing_gate =
    GMissing | GContradiction | GWindow | GUnpaid | GUncaptured | GReversed | GHeavy | GApprove | GNoRule

definition deciding_gate :: "instant \<Rightarrow> BillingFacts \<Rightarrow> billing_gate" where
  "deciding_gate now bf =
     (case (bf_invoice bf, bf_payment bf) of
        (Some invoice, Some payment) \<Rightarrow>
          if contradictions bf invoice payment \<noteq> [] then GContradiction
          else if REFUND_WINDOW_DAYS < delta_days now (inv_issued_at invoice) then GWindow
          else if \<not> inv_paid invoice then GUnpaid
          else if \<not> pay_captured payment then GUncaptured
          else if fully_reversed payment then GReversed
          else if USAGE_HEAVY_THRESHOLD < usage_ratio (bf_usage bf) then GHeavy
          else if delivered bf then GNoRule else GApprove
      | _ \<Rightarrow> GMissing)"

fun gate_recommendation :: "billing_gate \<Rightarrow> Recommendation" where
  "gate_recommendation GMissing = REC_REQUEST_MORE_INFORMATION"
| "gate_recommendation GContradiction = REC_MANUAL_REVIEW"
| "gate_recommendation GApprove = APPROVE_FULL_REFUND"
| "gate_recommendation GNoRule = REC_MANUAL_REVIEW"
| "gate_recommendation _ = REC_DENY_REFUND"

definition gate_review :: "billing_gate \<Rightarrow> bool" where
  "gate_review g \<longleftrightarrow> g \<in> {GMissing, GContradiction, GNoRule}"

fun gate_citation :: "billing_gate \<Rightarrow> string option" where
  "gate_citation GContradiction = Some ''contradiction-gate''"
| "gate_citation GWindow = Some ''RP-001''"
| "gate_citation GUnpaid = Some ''RP-002''"
| "gate_citation GUncaptured = Some ''RP-002''"
| "gate_citation GReversed = Some ''RP-002''"
| "gate_citation GHeavy = Some ''RP-004''"
| "gate_citation GApprove = Some ''RP-001''"
| "gate_citation _ = None"

text \<open>The nine ways the engine returns.\<close>

lemma evaluate_cases [case_names missing contradiction window unpaid uncaptured reversed heavy
    approve no_rule]:
  obtains
    "deciding_gate now bf = GMissing" "evaluate now bf rq po = missing_facts_result bf"
      "bf_invoice bf = None \<or> bf_payment bf = None"
  | invoice payment where "deciding_gate now bf = GContradiction"
      "evaluate now bf rq po = contradiction_result now bf invoice payment"
      "bf_invoice bf = Some invoice" "bf_payment bf = Some payment"
      "contradictions bf invoice payment \<noteq> []"
  | invoice payment where "deciding_gate now bf = GWindow"
      "evaluate now bf rq po = deny_window_result now bf invoice payment"
      "bf_invoice bf = Some invoice" "bf_payment bf = Some payment"
      "REFUND_WINDOW_DAYS < delta_days now (inv_issued_at invoice)"
  | invoice payment where "deciding_gate now bf = GUnpaid"
      "evaluate now bf rq po = deny_unpaid_result now bf invoice payment"
      "bf_invoice bf = Some invoice" "bf_payment bf = Some payment" "\<not> inv_paid invoice"
  | invoice payment where "deciding_gate now bf = GUncaptured"
      "evaluate now bf rq po = deny_uncaptured_result now bf invoice payment"
      "bf_invoice bf = Some invoice" "bf_payment bf = Some payment" "\<not> pay_captured payment"
  | invoice payment where "deciding_gate now bf = GReversed"
      "evaluate now bf rq po = deny_reversed_result now bf invoice payment"
      "bf_invoice bf = Some invoice" "bf_payment bf = Some payment" "fully_reversed payment"
  | invoice payment where "deciding_gate now bf = GHeavy"
      "evaluate now bf rq po = deny_heavy_result now bf invoice payment"
      "bf_invoice bf = Some invoice" "bf_payment bf = Some payment"
      "USAGE_HEAVY_THRESHOLD < usage_ratio (bf_usage bf)"
  | invoice payment where "deciding_gate now bf = GApprove"
      "evaluate now bf rq po = approve_result now bf invoice payment"
      "bf_invoice bf = Some invoice" "bf_payment bf = Some payment"
      "contradictions bf invoice payment = []"
      "delta_days now (inv_issued_at invoice) \<le> REFUND_WINDOW_DAYS" "inv_paid invoice"
      "pay_captured payment" "\<not> fully_reversed payment"
      "usage_ratio (bf_usage bf) \<le> USAGE_HEAVY_THRESHOLD" "\<not> delivered bf"
  | invoice payment where "deciding_gate now bf = GNoRule"
      "evaluate now bf rq po = no_rule_result now bf invoice payment"
      "bf_invoice bf = Some invoice" "bf_payment bf = Some payment" "delivered bf"
proof (cases "bf_invoice bf")
  case None
  with that(1) show thesis by (simp add: deciding_gate_def evaluate_def)
next
  case (Some invoice)
  note inv = Some
  show thesis
  proof (cases "bf_payment bf")
    case None
    with inv that(1) show thesis by (simp add: deciding_gate_def evaluate_def)
  next
    case (Some payment)
    note defs = deciding_gate_def evaluate_def inv Some
    let ?c = "contradictions bf invoice payment = []"
    let ?w = "delta_days now (inv_issued_at invoice) \<le> REFUND_WINDOW_DAYS"
    let ?h = "USAGE_HEAVY_THRESHOLD < usage_ratio (bf_usage bf)"
    consider "\<not> ?c" | "?c" "\<not> ?w" | "?c" "?w" "\<not> inv_paid invoice"
      | "?c" "?w" "inv_paid invoice" "\<not> pay_captured payment"
      | "?c" "?w" "inv_paid invoice" "pay_captured payment" "fully_reversed payment"
      | "?c" "?w" "inv_paid invoice" "pay_captured payment" "\<not> fully_reversed payment" "?h"
      | "?c" "?w" "inv_paid invoice" "pay_captured payment" "\<not> fully_reversed payment" "\<not> ?h" "\<not> delivered bf"
      | "?c" "?w" "inv_paid invoice" "pay_captured payment" "\<not> fully_reversed payment" "\<not> ?h" "delivered bf"
      by blast
    then show thesis
    proof cases
      case 1 then show thesis using that(2) by (simp add: defs)
    next
      case 2 then show thesis using that(3) by (simp add: defs)
    next
      case 3 then show thesis using that(4) by (simp add: defs)
    next
      case 4 then show thesis using that(5) by (simp add: defs)
    next
      case 5 then show thesis using that(6) by (simp add: defs)
    next
      case 6 then show thesis using that(7) by (simp add: defs)
    next
      case 7 then show thesis using that(8) by (simp add: defs)
    next
      case 8 then show thesis using that(9) by (simp add: defs)
    qed
  qed
qed

lemmas result_defs = missing_facts_result_def contradiction_result_def deny_window_result_def
  deny_unpaid_result_def deny_uncaptured_result_def deny_reversed_result_def deny_heavy_result_def
  approve_result_def no_rule_result_def Let_def

lemma base_evidence_nonempty [simp]: "base_evidence now bf invoice payment \<noteq> []"
  by (simp add: base_evidence_def Let_def)

lemma approve_references_props:
  "distinct (approve_references bf)" "{''RP-001'', ''RP-002''} \<subseteq> set (approve_references bf)"
  "set (approve_references bf) \<subseteq> set (map pr_id billing_rules)"
  by (auto simp: approve_references_def delivery_references_def Let_def billing_rules_def
      policy_rule_def)

lemma evaluate_gate:
  "er_recommendation (evaluate now bf rq po) = gate_recommendation (deciding_gate now bf)"
  "er_requires_human_review (evaluate now bf rq po) \<longleftrightarrow> gate_review (deciding_gate now bf)"
  "(case gate_citation (deciding_gate now bf) of
      None \<Rightarrow> True | Some r \<Rightarrow> r \<in> set (er_policy_references (evaluate now bf rq po)))"
  by (cases rule: evaluate_cases [of now bf rq po];
      use approve_references_props(2) [of bf] in \<open>simp add: result_defs gate_review_def\<close>)+

lemma evaluate_confidence:
  "er_confidence (evaluate now bf rq po) \<in>
     (if gate_review (deciding_gate now bf) then {fl (2 / 10), fl (3 / 10)} else {fl (6 / 10), fl (9 / 10)})"
  by (cases rule: evaluate_cases [of now bf rq po]; simp add: result_defs gate_review_def)

lemma evaluate_refs:
  "distinct (er_policy_references (evaluate now bf rq po))"
  "set (er_policy_references (evaluate now bf rq po)) \<subseteq> insert ''contradiction-gate'' (set (map pr_id billing_rules))"
  using approve_references_props [of bf]
  by (cases rule: evaluate_cases [of now bf rq po];
      auto simp: result_defs billing_rules_def policy_rule_def delivery_references_def)+

lemma evaluate_evidence: "er_evidence (evaluate now bf rq po) \<noteq> []"
  by (cases rule: evaluate_cases [of now bf rq po]; simp add: result_defs)

section \<open>When the engine approves\<close>

lemma entitlement_mismatch_iff:
  "(\<exists>c. entitlement_check_of bf = Some c \<and> ec_mismatch c) \<longleftrightarrow>
     (\<exists>e. bf_entitlement bf = Some e \<and>
        (\<not> ent_access_granted e \<and> ent_access_used e
         \<or> ent_account_active e \<and> (\<exists>s. bf_subscription bf = Some s \<and> sub_status_of s = SubCancelled)
         \<or> ent_status_of e = EntRevoked \<and> ent_feature_enabled e))"
  by (auto simp: entitlement_check_of_def check_entitlement_def entitlement_conflicts_def Let_def
      split: option.splits)

lemma contradictions_Nil_iff:
  "contradictions bf invoice payment = [] \<longleftrightarrow>
     \<not> partial_reversal invoice payment \<and> \<not> (\<exists>c. entitlement_check_of bf = Some c \<and> ec_mismatch c)"
  by (auto simp: contradictions_def split: option.splits)

lemma gate_approve_iff: "gate_recommendation g = APPROVE_FULL_REFUND \<longleftrightarrow> g = GApprove"
  by (cases g) simp_all

lemma deciding_gate_approve:
  "deciding_gate now bf = GApprove \<longleftrightarrow>
     (\<exists>invoice payment. bf_invoice bf = Some invoice \<and> bf_payment bf = Some payment
        \<and> contradictions bf invoice payment = []
        \<and> delta_days now (inv_issued_at invoice) \<le> REFUND_WINDOW_DAYS
        \<and> inv_paid invoice \<and> pay_captured payment \<and> \<not> fully_reversed payment
        \<and> usage_ratio (bf_usage bf) \<le> USAGE_HEAVY_THRESHOLD \<and> \<not> delivered bf)"
  by (auto simp: deciding_gate_def split: option.splits)

lemma refund_net:
  assumes "\<not> partial_reversal invoice payment" "\<not> fully_reversed payment" "inv_paid invoice"
    and "0 \<le> pay_reversed_amount payment" "0 < pay_amount payment"
  shows "pay_reversed_amount payment = 0"
  using assms by (auto simp: partial_reversal_def fully_reversed_def)

lemma cancelled_iff:
  "subscription_status_str bf = ''cancelled'' \<longleftrightarrow>
     (\<exists>s. bf_subscription bf = Some s \<and> sub_status_of s = SubCancelled)"
proof (cases "bf_subscription bf")
  case (Some s)
  then show ?thesis by (cases "sub_status_of s") (simp_all add: subscription_status_str_def)
qed (simp add: subscription_status_str_def)

lemma reversal_iff:
  "inv_paid invoice \<Longrightarrow>
     \<not> partial_reversal invoice payment \<and> \<not> fully_reversed payment \<longleftrightarrow>
     pay_reversed_amount payment \<le> 0
     \<or> pay_amount payment \<le> 0 \<and> pay_amount payment \<le> pay_reversed_amount payment"
  by (auto simp: partial_reversal_def fully_reversed_def)

lemma entitlement_supports_iff:
  "\<not> delivered bf \<and> \<not> (\<exists>c. entitlement_check_of bf = Some c \<and> ec_mismatch c) \<longleftrightarrow>
     (case bf_entitlement bf of
        None \<Rightarrow> True
      | Some e \<Rightarrow> \<not> ent_delivered e \<and> (ent_access_granted e \<or> \<not> ent_access_used e)
          \<and> \<not> (ent_status_of e = EntRevoked \<and> ent_feature_enabled e)
          \<and> \<not> (ent_account_active e \<and> subscription_status_str bf = ''cancelled''))"
  unfolding entitlement_mismatch_iff cancelled_iff by (auto simp: delivered_def split: option.splits)

text \<open>The engine meets the peer contract.\<close>

interpretation billing_peer: peer_engine
  "\<lambda>(now, bf, rq). evaluate now bf rq REFUND_POLICY" er_confidence er_evidence er_policy_references
  er_requires_human_review
proof (unfold_locales, goal_cases)
  case (1 i)
  then show ?case
    using evaluate_confidence [of "fst i" "fst (snd i)" "snd (snd i)" REFUND_POLICY]
    by (auto simp: in_unit_def split: if_splits prod.splits)
next
  case (2 i)
  then show ?case by (simp add: evaluate_evidence split: prod.splits)
next
  case (3 i)
  then show ?case by (simp add: evaluate_refs(1) split: prod.splits)
next
  case (4 i)
  then show ?case
    using evaluate_confidence [of "fst i" "fst (snd i)" "snd (snd i)" REFUND_POLICY]
    by (auto simp: CONFIDENCE_THRESHOLD_def evaluate_gate(2) split: if_splits prod.splits)
qed

end
