(* ===== verification/PyDecimal.thy ===== *)
theory PyDecimal
  imports PyFloat
begin

text \<open>
  Cent amounts survive the way through floats and back: for a float that stands for a whole number
  of cents, \<^verbatim>\<open>round(x, 2)\<close> is the identity and \<^verbatim>\<open>Decimal(str(x))\<close> is the exact amount.
\<close>

section \<open>The decimal exponent\<close>

lemma pow10_pos [simp]: "0 < pow10 e"
  by (simp add: pow10_def)

lemma pow10_powi: "pow10 e = 10 powi e"
  by (simp add: pow10_def power_int_def field_simps)

lemma pow10_add: "pow10 (a + b) = pow10 a * pow10 b"
  by (simp add: pow10_powi power_int_add)

lemma pow10_Suc: "pow10 (e + 1) = 10 * pow10 e"
  by (simp add: pow10_add) (simp add: pow10_def)

lemma pow10_mono: "a \<le> b \<Longrightarrow> pow10 a \<le> pow10 b"
  by (simp add: pow10_powi power_int_increasing)

lemma pow10_less: "pow10 a < pow10 b \<Longrightarrow> a < b"
  using pow10_mono [of b a] by (cases "a < b") auto

lemma pow10_multiple: "u \<le> e \<Longrightarrow> pow10 e = of_int (10 ^ nat (e - u)) * pow10 u"
  using pow10_add [of "e - u" u] by (simp add: pow10_def [of "e - u"])

lemma dec_len_nonneg: "0 \<le> dec_len n"
proof (induction n rule: dec_len.induct)
  case (1 n)
  then show ?case by (cases "n \<le> 0") (simp_all add: dec_len.simps [of n])
qed

lemma dec_len_rat: "n > 0 \<Longrightarrow> pow10 (dec_len n - 1) \<le> of_int n \<and> of_int n < pow10 (dec_len n)"
proof (induction n rule: dec_len.induct)
  case (1 n)
  have eq: "dec_len n = 1 + dec_len (n div 10)" using "1.prems" by (simp add: dec_len.simps [of n])
  show ?case
  proof (cases "n div 10 = 0")
    case True
    with "1.prems" have "0 < n" "n < 10" by auto
    then show ?thesis
      using eq True by (simp add: dec_len.simps [of 0] pow10_def)
  next
    case False
    define h where "h = n div 10"
    from False "1.prems" have "0 < h" unfolding h_def by linarith
    with "1" have IH: "pow10 (dec_len h - 1) \<le> of_int h" "of_int h < pow10 (dec_len h)"
      unfolding h_def by auto
    have "pow10 (dec_len h) = of_int (10 ^ nat (dec_len h))" using dec_len_nonneg by (simp add: pow10_def)
    with IH(2) have "of_int (h + 1) \<le> pow10 (dec_len h)"
      by (metis of_int_le_iff of_int_less_iff add1_zle_eq)
    then have hi: "10 * of_int h + 10 \<le> 10 * pow10 (dec_len h)" by simp
    have "10 * h \<le> n" "n \<le> 10 * h + 9" unfolding h_def by linarith+
    then have n: "(10 * of_int h :: rat) \<le> of_int n" "(of_int n :: rat) \<le> 10 * of_int h + 9"
      by linarith+
    have "pow10 (dec_len n - 1) = 10 * pow10 (dec_len h - 1)" "pow10 (dec_len n) = 10 * pow10 (dec_len h)"
      using pow10_Suc [of "dec_len h - 1"] pow10_Suc [of "dec_len h"]
      by (simp_all add: eq h_def add.commute)
    with IH(1) hi n show ?thesis by linarith
  qed
qed

lemma flog10_bounds:
  assumes "x > 0"
  shows "pow10 (flog10 x) \<le> x" "x < pow10 (flog10 x + 1)"
proof -
  obtain p q where pq: "quotient_of x = (p, q)" by (cases "quotient_of x")
  have q: "q > 0" and x: "x = of_int p / of_int q"
    using quotient_of_denom_pos [OF pq] quotient_of_div [OF pq] by auto
  with assms have p: "p > 0" by (simp add: zero_less_divide_iff)
  define P Q where "P = dec_len p" and "Q = dec_len q"
  have pb: "pow10 (P - 1) \<le> of_int p" "of_int p < pow10 P"
    using dec_len_rat [of p] p by (simp_all add: P_def)
  have qb: "pow10 (Q - 1) \<le> of_int q" "of_int q < pow10 Q"
    using dec_len_rat [of q] q by (simp_all add: Q_def)
  have qpos: "(0 :: rat) < of_int q" using q by simp
  have "pow10 (P - Q - 1) * of_int q \<le> pow10 (P - Q - 1) * pow10 Q"
    using qb(2) by (simp add: less_imp_le)
  also have "\<dots> = pow10 (P - 1)" by (simp flip: pow10_add add: algebra_simps)
  also note pb(1)
  finally have lo: "pow10 (P - Q - 1) \<le> x" using qpos by (simp add: x pos_le_divide_eq)
  have "of_int p < pow10 (P - Q + 1) * pow10 (Q - 1)" using pb(2) by (simp flip: pow10_add)
  also have "\<dots> \<le> pow10 (P - Q + 1) * of_int q" using qb(1) by simp
  finally have hi: "x < pow10 (P - Q + 1)" using qpos by (simp add: x pos_divide_less_eq)
  from lo hi show "pow10 (flog10 x) \<le> x" "x < pow10 (flog10 x + 1)"
    by (auto simp: flog10_def pq P_def Q_def Let_def)
qed

section \<open>Rounding error\<close>

text \<open>Rounding is idempotent: a rounded value is on the grid of its binade.\<close>

lemma fl_idem_pos:
  assumes "0 < x" shows "fl (fl x) = fl x"
proof -
  define u where "u = pow2 (ulp_exp x)"
  define m where "m = round_half_even (x / u)"
  have "flog2 x + 1 \<le> ulp_exp x + 53" using assms by (simp add: ulp_exp_def)
  then have "x < pow2 (ulp_exp x + 53)"
    using flog2_bounds(2) [OF assms] pow2_mono by (meson less_le_trans)
  then have "x / u \<le> of_int (2 ^ 53)"
    by (simp add: u_def pow2_add pos_divide_le_eq) (simp add: pow2_def)
  then have "m \<le> 2 ^ 53" unfolding m_def by (rule round_half_even_le)
  moreover have "0 \<le> m" unfolding m_def using assms by (intro round_half_even_ge) (simp add: u_def)
  moreover have "fl x = of_int m * pow2 (ulp_exp x)"
    using assms by (simp add: fl_def m_def u_def Let_def)
  ultimately show ?thesis using fl_exact [of m "ulp_exp x"] by (simp add: ulp_exp_def)
qed

lemma fl_idem [simp]: "fl (fl x) = fl x"
  using fl_idem_pos [of x] fl_idem_pos [of "- x"] fl_minus [of x] fl_minus [of "fl x"]
  by (cases x "0 :: rat" rule: linorder_cases) simp_all

lemma fl_error: "\<bar>fl x - x\<bar> \<le> pow2 (ulp_exp x) / 2"
proof (cases "x = 0")
  case False
  define u where "u = pow2 (ulp_exp x)"
  have u: "0 < u" by (simp add: u_def)
  define r where "r = round_half_even (x / u)"
  have "of_int r - 1 / 2 \<le> x / u" "x / u \<le> of_int r + 1 / 2"
    unfolding r_def by (rule round_half_even_bounds)+
  then have "(of_int r - 1 / 2) * u \<le> x" "x \<le> (of_int r + 1 / 2) * u"
    using u by (simp_all add: pos_le_divide_eq pos_divide_le_eq)
  moreover have "fl x = of_int r * u" using False by (simp add: fl_def u_def r_def Let_def)
  ultimately have "fl x - x \<le> u / 2" "x - fl x \<le> u / 2" by (simp_all add: algebra_simps)
  then have "\<bar>fl x - x\<bar> \<le> u / 2" by linarith
  then show ?thesis by (simp add: u_def)
qed simp

lemma fl_error_bounded:
  assumes "0 < x" "x \<le> pow2 e" "- 1022 \<le> e"
  shows "\<bar>fl x - x\<bar> \<le> pow2 (e - 53)"
proof -
  have "ulp_exp x \<le> e - 52" using flog2_le [OF assms(1,2)] assms by (simp add: ulp_exp_def)
  then have "pow2 (ulp_exp x) / 2 \<le> pow2 (e - 52) / 2" using pow2_mono by simp
  also have "\<dots> = pow2 (e - 53)" using pow2_Suc [of "e - 53"] by simp
  finally show ?thesis using fl_error [of x] by simp
qed

text \<open>Two numbers below \<open>2\<^sup>4\<^sup>4\<close> that round to the same float differ by less than a cent.\<close>

lemma same_float_close:
  assumes "0 < a" "a \<le> 2 ^ 44" "0 < b" "b \<le> 2 ^ 44" "fl a = fl b"
  shows "\<bar>a - b\<bar> < 1 / 100"
proof -
  have p: "pow2 44 = 2 ^ 44" "pow2 (44 - 53) = 1 / 512" by (simp_all add: pow2_def)
  have "\<bar>fl a - a\<bar> \<le> 1 / 512" "\<bar>fl b - b\<bar> \<le> 1 / 512"
    using fl_error_bounded [of a 44] fl_error_bounded [of b 44] assms p by simp_all
  with assms(5) show ?thesis by linarith
qed

lemma int_near: "\<bar>of_int m - (of_int k :: rat)\<bar> < 1 \<Longrightarrow> m = k"
  by linarith

lemma round_half_even_near: "\<bar>r - of_int k\<bar> < 1 / 2 \<Longrightarrow> round_half_even r = k"
  using round_half_even_bounds [of r] by (intro int_near) linarith

section \<open>Cent amounts\<close>

lemma cents_error:
  assumes "0 < k" "k \<le> 10 ^ 14" and x: "x = fl (of_int k / 100)"
  shows "\<bar>x - of_int k / 100\<bar> \<le> 1 / 512" "1 / 100 \<le> x" "x \<le> 2 ^ 43"
proof -
  have "of_int k \<le> (of_int (10 ^ 14) :: rat)" using assms(2) by (simp only: of_int_le_iff)
  then have k: "1 \<le> (of_int k :: rat)" "(of_int k :: rat) \<le> 10 ^ 14" using assms(1) by simp_all
  have p: "pow2 44 = 2 ^ 44" "pow2 (- 9) = 1 / 512" by (simp_all add: pow2_def)
  show e: "\<bar>x - of_int k / 100\<bar> \<le> 1 / 512"
    using fl_error_bounded [of "of_int k / 100" 44] k by (simp add: p x)
  have "(1 / 100 :: rat) \<le> fl (1 / 100)" by code_simp
  also have "\<dots> \<le> x" unfolding x using k by (intro fl_mono) simp
  finally show "1 / 100 \<le> x" .
  have "x \<le> of_int k / 100 + 1 / 512" using e by linarith
  also have "\<dots> \<le> 10 ^ 14 / 100 + 1 / 512" using k(2) by simp
  also have "\<dots> \<le> (2 ^ 43 :: rat)" by simp
  finally show "x \<le> 2 ^ 43" .
qed

lemma round_cents:
  assumes "0 < k" "k \<le> 10 ^ 14"
  shows "py_round (fl (of_int k / 100)) 2 = fl (of_int k / 100)"
proof -
  have p: "pow10 2 = 100" by (simp add: pow10_def)
  have "round_half_even (fl (of_int k / 100) * 100) = k"
    using cents_error(1) [OF assms refl] by (intro round_half_even_near) linarith
  then show ?thesis by (simp add: py_round_def p)
qed

lemma candidate_cents:
  assumes k: "0 < k" "k \<le> 10 ^ 14" and x: "x = fl (of_int k / 100)"
    and u: "- 2 \<le> d" "pow10 d \<le> x"
    and s: "fl (of_int s * pow10 d) = x" "s \<le> \<lfloor>x / pow10 d\<rfloor> + 1"
  shows "of_int s * pow10 d = of_int k / 100"
proof -
  let ?a = "of_int s * pow10 d"
  note c = cents_error [OF k x]
  have pos: "0 < ?a" using s(1) c(2) fl_nonpos [of ?a] by force
  have "of_int s \<le> x / pow10 d + 1" using s(2) by linarith
  then have "?a \<le> (x / pow10 d + 1) * pow10 d" by (intro mult_right_mono) (simp_all add: less_imp_le)
  also have "\<dots> = x + pow10 d" using pow10_pos [of d] by (simp add: distrib_right less_imp_neq [symmetric])
  finally have hi: "?a \<le> 2 ^ 44" using u(2) c(3) by simp
  have kpos: "0 < (of_int k / 100 :: rat)" using k by simp
  have kle: "(of_int k / 100 :: rat) \<le> 2 ^ 44"
    using c(1,3) abs_le_iff [of "x - of_int k / 100" "1 / 512"] by simp
  have near: "\<bar>?a - of_int k / 100\<bar> < 1 / 100"
    using same_float_close [OF pos hi kpos kle] s(1) x by simp
  have "pow10 d = of_int (10 ^ nat (d + 2)) / 100"
    using pow10_multiple [OF u(1)] by (simp add: pow10_def [of "- 2"])
  then have a: "?a = of_int (s * 10 ^ nat (d + 2)) / 100" by simp
  have "s * 10 ^ nat (d + 2) = k" by (rule int_near) (use near a in linarith)
  then show ?thesis using a by simp
qed

lemma shortest_from_cents:
  assumes k: "0 < k" "k \<le> 10 ^ 14" and x: "x = fl (of_int k / 100)" and E: "pow10 E \<le> x"
  shows "1 \<le> n \<Longrightarrow> n \<le> E + 3 \<Longrightarrow> E + 3 - n \<le> int j \<Longrightarrow>
    of_int (fst (shortest_from j n x E)) * pow10 (snd (shortest_from j n x E)) = of_int k / 100"
proof (induction j arbitrary: n)
  case 0
  then have n: "E - n + 1 = - 2" by simp
  have "round_half_even (x * 100) = k"
    using cents_error(1) [OF k x] by (intro round_half_even_near) linarith
  then show ?case unfolding shortest_from.simps n by (simp add: pow10_def)
next
  case (Suc j)
  define d where "d = E - n + 1"
  define r where "r = x / pow10 d"
  have d: "- 2 \<le> d" "pow10 d \<le> x" using Suc.prems pow10_mono [of d E] E by (auto simp: d_def)
  show ?case
  proof (cases "find (\<lambda>s. fl (of_int s * pow10 d) = x) [round_half_even r, \<lfloor>r\<rfloor>, \<lceil>r\<rceil>]")
    case (Some s)
    then have s: "fl (of_int s * pow10 d) = x" "s \<in> {round_half_even r, \<lfloor>r\<rfloor>, \<lceil>r\<rceil>}"
      by (auto split: if_splits)
    have "\<lceil>r\<rceil> \<le> \<lfloor>r\<rfloor> + 1" by linarith
    then have "s \<le> \<lfloor>x / pow10 d\<rfloor> + 1" using s(2) round_half_even_floor(2) [of r] by (auto simp: r_def)
    then have "of_int s * pow10 d = of_int k / 100" using candidate_cents [OF k x d s(1)] by simp
    then show ?thesis using Some by (simp add: Let_def d_def r_def)
  next
    case None
    have "n \<noteq> E + 3"
    proof
      assume "n = E + 3"
      then have d: "pow10 d = 1 / 100" by (simp add: d_def pow10_def)
      have r: "r = x * 100" unfolding r_def d by simp
      have "round_half_even r = k"
        using cents_error(1) [OF k x] r by (intro round_half_even_near) linarith
      with None d x show False by simp
    qed
    then show ?thesis using None Suc.IH [of "n + 1"] Suc.prems by (simp add: Let_def d_def r_def)
  qed
qed

lemma decimal_cents:
  assumes "0 < k" "k \<le> 10 ^ 14"
  shows "decimal_of_float (fl (of_int k / 100)) = of_int k / 100"
proof -
  let ?x = "fl (of_int k / 100 :: rat)"
  note c = cents_error [OF assms refl]
  have x: "0 < ?x" using c(2) by simp
  note b = flog10_bounds [OF x]
  have "pow10 (- 2) < pow10 (flog10 ?x + 1)" using b(2) c(2) by (simp add: pow10_def [of "- 2"])
  then have lo: "- 2 \<le> flog10 ?x" using pow10_less by fastforce
  have "pow10 (flog10 ?x) < pow10 13" using b(1) c(3) by (simp add: pow10_def [of 13])
  then have hi: "flog10 ?x < 13" by (rule pow10_less)
  show ?thesis
    using shortest_from_cents [OF assms refl b(1), of 1 16] lo hi x
    by (simp add: decimal_of_float_def shortest_def split_beta)
qed

end
