(* ===== verification/Billing_Service.thy ===== *)
theory Billing_Service
  imports Billing_Engine PyDecimal Transport
begin

text \<open>
  The Billing-Entitlement agent around its rules engine: the seeded facts (\<^verbatim>\<open>mock_data.py\<close>), the
  orchestration service (\<^verbatim>\<open>service.py\<close>), the assistive narrative (\<^verbatim>\<open>llm_summary.py\<close>), the identity
  and card (\<^verbatim>\<open>identity.py\<close>) and the task handler of \<^verbatim>\<open>main.py\<close>. The instant at which the dataset was
  built (\<^verbatim>\<open>_NOW\<close>) is an argument; pydantic's \<^verbatim>\<open>model_validate\<close> and the language model's runtime are
  parameters. The properties of the rules engine are stated at the end, with the seeded facts as
  their concrete instances.
\<close>

section \<open>Seeded facts\<close>

definition timedelta_days :: "int \<Rightarrow> int" where
  "timedelta_days n = n * day_us"

definition mk_invoice :: "instant \<Rightarrow> string \<Rightarrow> int \<Rightarrow> bool \<Rightarrow> Invoice" where
  "mk_invoice t0 ref days_ago paid =
     \<lparr>inv_invoice_id = ''INV-'' @ ref, inv_purchase_reference = ref, inv_amount = fl (4999 / 100),
      inv_currency = ''USD'', inv_issued_at = t0 - timedelta_days days_ago, inv_paid = paid\<rparr>"

definition mk_payment :: "string \<Rightarrow> bool \<Rightarrow> pyfloat \<Rightarrow> Payment" where
  "mk_payment ref captured reversed_amount =
     \<lparr>pay_payment_id = ''PAY-'' @ ref, pay_invoice_id = ''INV-'' @ ref, pay_captured = captured,
      pay_amount = fl (4999 / 100), pay_reversed_amount = reversed_amount\<rparr>"

definition mk_subscription :: "instant \<Rightarrow> string \<Rightarrow> sub_status \<Rightarrow> Subscription" where
  "mk_subscription t0 ref status =
     \<lparr>sub_subscription_id = ''SUB-'' @ ref, sub_status_of = status, sub_term_of = Monthly,
      sub_started_at = t0 - timedelta_days 90, sub_renewed_at = None\<rparr>"

definition mk_entitlement ::
  "string \<Rightarrow> bool \<Rightarrow> bool \<Rightarrow> bool \<Rightarrow> bool \<Rightarrow> bool \<Rightarrow> Entitlement" where
  "mk_entitlement ref was_delivered granted used feature active =
     \<lparr>ent_entitlement_id = ''ENT-'' @ ref, ent_subscription_id = ''SUB-'' @ ref,
      ent_status_of = EntActive, ent_delivered = was_delivered, ent_access_granted = granted,
      ent_access_used = used, ent_feature_enabled = feature, ent_account_active = active\<rparr>"

definition mk_usage :: "pyfloat \<Rightarrow> ProductUsage" where
  "mk_usage units = \<lparr>use_usage_units = units, use_allotment_units = 5\<rparr>"

definition mk_facts ::
  "Subscription \<Rightarrow> Invoice \<Rightarrow> Payment \<Rightarrow> Entitlement \<Rightarrow> ProductUsage \<Rightarrow> BillingFacts" where
  "mk_facts s i p e u =
     \<lparr>bf_subscription = Some s, bf_invoice = Some i, bf_payment = Some p, bf_entitlement = Some e,
      bf_usage = Some u\<rparr>"

definition billing_dataset :: "instant \<Rightarrow> (string, BillingFacts) dict" where
  "billing_dataset t0 =
    [(''PR-APPROVE'',
        mk_facts (mk_subscription t0 ''PR-APPROVE'' SubActive) (mk_invoice t0 ''PR-APPROVE'' 5 True)
          (mk_payment ''PR-APPROVE'' True 0)
          (mk_entitlement ''PR-APPROVE'' False True False True True) (mk_usage (1 / 2))),
     (''PR-WINDOW-EXPIRED'',
        mk_facts (mk_subscription t0 ''PR-WINDOW-EXPIRED'' SubActive)
          (mk_invoice t0 ''PR-WINDOW-EXPIRED'' 45 True) (mk_payment ''PR-WINDOW-EXPIRED'' True 0)
          (mk_entitlement ''PR-WINDOW-EXPIRED'' False True False True True) (mk_usage (1 / 2))),
     (''PR-UNPAID'',
        mk_facts (mk_subscription t0 ''PR-UNPAID'' SubActive) (mk_invoice t0 ''PR-UNPAID'' 5 False)
          (mk_payment ''PR-UNPAID'' False 0)
          (mk_entitlement ''PR-UNPAID'' False False False False True) (mk_usage (1 / 2))),
     (''PR-ALREADY-REFUNDED'',
        mk_facts (mk_subscription t0 ''PR-ALREADY-REFUNDED'' SubCancelled)
          (mk_invoice t0 ''PR-ALREADY-REFUNDED'' 5 True)
          (mk_payment ''PR-ALREADY-REFUNDED'' True (fl (4999 / 100)))
          (mk_entitlement ''PR-ALREADY-REFUNDED'' False False False False False) (mk_usage (1 / 2))),
     (''PR-HEAVY-USAGE'',
        mk_facts (mk_subscription t0 ''PR-HEAVY-USAGE'' SubActive)
          (mk_invoice t0 ''PR-HEAVY-USAGE'' 5 True) (mk_payment ''PR-HEAVY-USAGE'' True 0)
          (mk_entitlement ''PR-HEAVY-USAGE'' True True True True True) (mk_usage (19 / 4))),
     (''PR-CONTRADICTION'',
        mk_facts (mk_subscription t0 ''PR-CONTRADICTION'' SubCancelled)
          (mk_invoice t0 ''PR-CONTRADICTION'' 5 True) (mk_payment ''PR-CONTRADICTION'' True 10)
          (mk_entitlement ''PR-CONTRADICTION'' True True True True True) (mk_usage (1 / 2))),
     (''PR-BORDERLINE'',
        mk_facts (mk_subscription t0 ''PR-BORDERLINE'' SubActive)
          (mk_invoice t0 ''PR-BORDERLINE'' REFUND_WINDOW_DAYS True) (mk_payment ''PR-BORDERLINE'' True 0)
          (mk_entitlement ''PR-BORDERLINE'' False True False True True) (mk_usage 4))]"

definition billing_customer_index :: "(string, string) dict" where
  "billing_customer_index = [(''CUS-APPROVE'', ''PR-APPROVE''), (''CUS-BORDERLINE'', ''PR-BORDERLINE'')]"

definition load_facts :: "instant \<Rightarrow> string \<Rightarrow> string \<Rightarrow> BillingFacts option" where
  "load_facts t0 purchase_reference customer_id =
     (case dict_get (billing_dataset t0) purchase_reference of
        Some facts \<Rightarrow> Some facts
      | None \<Rightarrow>
          (case dict_get billing_customer_index customer_id of
             Some ref \<Rightarrow> dict_get (billing_dataset t0) ref
           | None \<Rightarrow> None))"

section \<open>Orchestration service\<close>

type_synonym billing_validate = "(string, pyval) dict \<Rightarrow> exc + RefundEligibilityRequest"

fun validate_input :: "billing_validate \<Rightarrow> A2APart list \<Rightarrow> exc + RefundEligibilityRequest" where
  "validate_input model_validate [] =
     Inl (ValueError ''No valid data part found in input parts (FR-011)'')"
| "validate_input model_validate (part # parts) =
     (case (pt_type part, pt_data part) of
        (DataPart, Some (kv # kvs)) \<Rightarrow> model_validate (kv # kvs)
      | _ \<Rightarrow> validate_input model_validate parts)"

definition missing_data_recommendation :: "string \<Rightarrow> EligibilityRecommendation" where
  "missing_data_recommendation purchase_reference =
     \<lparr>er_recommendation = REC_REQUEST_MORE_INFORMATION,
      er_confidence = fl (2 / 10),
      er_evidence = [evidence ''refund_policy'' ''Data-completeness gate: no billing record found''
        [(''reason'', VStr (''no billing record for purchase_reference='' @ repr_str purchase_reference))]],
      er_policy_references = [],
      er_reasoning_summary = ''No billing record found for purchase_reference=''
        @ repr_str purchase_reference @ ''. '' @ ''Manual review required (FR-010).'',
      er_requires_human_review = True,
      er_eligible_refund_amount = 0,
      er_subscription_status = ''unknown'',
      er_invoice_status = ''unknown'',
      er_payment_status = ''unknown'',
      er_entitlement_status = ''unknown'',
      er_usage_level = ''unknown'',
      er_refund_window_status = ''unknown''\<rparr>"

text \<open>The recommendation for a validated request, with the engine's clock reading as argument.\<close>

definition recommend ::
  "instant \<Rightarrow> instant \<Rightarrow> RefundEligibilityRequest \<Rightarrow> EligibilityRecommendation \<times> BillingFacts option" where
  "recommend t0 now request =
     (case load_facts t0 (rq_purchase_reference request) (rq_customer_id request) of
        None \<Rightarrow> (missing_data_recommendation (rq_purchase_reference request), None)
      | Some facts \<Rightarrow> (evaluate now facts request REFUND_POLICY, Some facts))"

definition analyze ::
  "runtime_env \<Rightarrow> billing_validate \<Rightarrow> instant \<Rightarrow> A2APart list \<Rightarrow>
   ('a net_scheme, RefundEligibilityRequest \<times> EligibilityRecommendation \<times> BillingFacts option) io" where
  "analyze E model_validate t0 parts =
     bind_io (lift_exc (validate_input model_validate parts)) (\<lambda>request.
     case load_facts t0 (rq_purchase_reference request) (rq_customer_id request) of
       None \<Rightarrow> return_io (request, missing_data_recommendation (rq_purchase_reference request), None)
     | Some facts \<Rightarrow>
         bind_io (now_io E) (\<lambda>now. return_io (request, evaluate now facts request REFUND_POLICY, Some facts)))"

record BillingNarrative =
  bn_polished_summary :: string
  bn_evidence_explanation :: string

definition build_result_payload ::
  "RefundEligibilityRequest \<Rightarrow> EligibilityRecommendation \<Rightarrow> BillingFacts option \<Rightarrow> BillingNarrative option \<Rightarrow>
   exc + BillingRefundAnalysisCompletedPayload" where
  "build_result_payload request rec facts narrative =
     validate_billing_payload
     \<lparr>bp_ticket_id = rq_ticket_id request,
      bp_recommendation = recommendation_value (er_recommendation rec),
      bp_confidence = er_confidence rec,
      bp_evidence = er_evidence rec,
      bp_reasoning_summary = er_reasoning_summary rec,
      bp_requires_human_review = er_requires_human_review rec,
      bp_case_id = rq_case_id request,
      bp_customer_id = rq_customer_id request,
      bp_billing_account_id =
        (case facts of None \<Rightarrow> None | Some f \<Rightarrow> map_option sub_subscription_id (bf_subscription f)),
      bp_subscription_status = er_subscription_status rec,
      bp_invoice_status = er_invoice_status rec,
      bp_payment_status = er_payment_status rec,
      bp_entitlement_status = er_entitlement_status rec,
      bp_usage_level = er_usage_level rec,
      bp_refund_window_status = er_refund_window_status rec,
      bp_eligible_refund_amount = er_eligible_refund_amount rec,
      bp_enriched_reasoning_summary = map_option bn_polished_summary narrative,
      bp_evidence_explanation = map_option bn_evidence_explanation narrative\<rparr>"

definition build_a2a_output ::
  "EligibilityRecommendation \<Rightarrow> BillingNarrative option \<Rightarrow> A2AMessage" where
  "build_a2a_output rec narrative =
     data_message Agent
       ([(''recommendation'', VStr (recommendation_value (er_recommendation rec))),
         (''confidence'', VFloat (er_confidence rec)),
         (''evidence'', VList (map dump_evidence (er_evidence rec))),
         (''reasoning_summary'', VStr (er_reasoning_summary rec)),
         (''requires_human_review'', VBool (er_requires_human_review rec))]
        @ (case narrative of
             None \<Rightarrow> []
           | Some n \<Rightarrow> [(''enriched_reasoning_summary'', VStr (bn_polished_summary n)),
                        (''evidence_explanation'', VStr (bn_evidence_explanation n))]))"

section \<open>Assistive narrative\<close>

text \<open>
  The fallback echoes the deterministic summary. The language-model runtime is the parameter
  \<open>assist\<close>: given the fallback it returns a narrative or raises; it does not publish, since the
  handler builds it without a publisher.
\<close>

definition make_fallback :: "EligibilityRecommendation \<Rightarrow> BillingNarrative" where
  "make_fallback rec =
     \<lparr>bn_polished_summary = er_reasoning_summary rec,
      bn_evidence_explanation =
        (let s = py_join ''; '' (map ev_description (take 5 (er_evidence rec)))
         in if s = [] then ''No evidence details available.'' else s)\<rparr>"

type_synonym billing_assist =
  "EligibilityRecommendation \<Rightarrow> RefundEligibilityRequest \<Rightarrow> uuid \<Rightarrow> BillingNarrative \<Rightarrow> exc + BillingNarrative"

definition enrich_recommendation ::
  "billing_assist \<Rightarrow> EligibilityRecommendation \<Rightarrow> RefundEligibilityRequest \<Rightarrow> uuid option \<Rightarrow>
   exc + BillingNarrative" where
  "enrich_recommendation assist rec request causation_id =
     assist rec request (case causation_id of Some c \<Rightarrow> c | None \<Rightarrow> rq_case_id request) (make_fallback rec)"

section \<open>Identity and task handler\<close>

definition billing_identity :: AgentIdentity where
  "billing_identity =
     \<lparr>id_agent_id = ''billing-entitlement-agent'', id_display_name = ''Billing Entitlement Agent'',
      id_tenant_id = ''poc''\<rparr>"

definition billing_card :: "string \<Rightarrow> AgentCard" where
  "billing_card env =
     \<lparr>card_agent_id = ''billing-entitlement-agent'', card_name = ''Billing Entitlement Agent'',
      card_description = ''Analyzes refund eligibility based on owned billing and entitlement data.'',
      card_version = ''1.0.0'', card_endpoint_topic = endpoint_topic env ''billing-entitlement-agent'',
      card_capabilities =
        [\<lparr>cap_id = ''analyze_refund_eligibility'', cap_name = ''Analyze Refund Eligibility'',
          cap_description = ''Validates the structured refund request, loads owned billing facts, ''
            @ ''and returns a deterministic recommendation (approve_full_refund / ''
            @ ''approve_partial_refund / deny_refund / request_more_information / ''
            @ ''manual_review) with confidence score, evidence, and policy references.'',
          cap_tags = [''billing'', ''entitlement'', ''refund'']\<rparr>]\<rparr>"

text \<open>The narrative the handler attaches; a failure of the enrichment is dropped.\<close>

definition narrative_of ::
  "bool \<Rightarrow> billing_assist \<Rightarrow> EligibilityRecommendation \<Rightarrow> RefundEligibilityRequest \<Rightarrow> uuid \<Rightarrow> BillingNarrative option" where
  "narrative_of llm_enabled assist rec request task_id =
     (if llm_enabled
      then (case enrich_recommendation assist rec request (Some task_id) of Inl _ \<Rightarrow> None | Inr n \<Rightarrow> Some n)
      else None)"

text \<open>
  \<open>handle_eligibility\<close>: analyse, optionally enrich, publish
  the domain event, return the verdict.
\<close>

definition handle_eligibility ::
  "runtime_env \<Rightarrow> billing_validate \<Rightarrow> instant \<Rightarrow> bool \<Rightarrow> billing_assist \<Rightarrow> TaskRequest \<Rightarrow>
   ('a net_scheme, A2AMessage) io" where
  "handle_eligibility E model_validate t0 llm_enabled assist req =
     bind_io (analyze E model_validate t0 (ms_parts (tq_input req))) (\<lambda>(request, rec, facts).
     let narrative = narrative_of llm_enabled assist rec request (tq_task_id req) in
     bind_io (lift_exc (build_result_payload request rec facts narrative)) (\<lambda>payload.
     then_io (publish E billing_identity (MBilling payload) (TOPIC_BILLING_RESULT (re_environment E))
                (rq_case_id request) (Some (tq_task_id req)) None)
       (return_io (build_a2a_output rec narrative))))"

section \<open>Properties of the rules engine\<close>

text \<open>C12: the engine approves a full refund exactly under these conditions of its code: the invoice
  and the payment are known, the request is less than 31 days after the invoice (at most 30 whole
  days), the invoice is paid and the payment captured, nothing has been reversed (or there was nothing
  to reverse), the float usage ratio is at most 0.8, and the entitlement is not delivered, not used
  without a grant, not revoked with its feature enabled, and its account is not active on a cancelled
  subscription. The status of the entitlement on a cancelled subscription, which the documents name,
  is not among them.\<close>

theorem billing_approve_iff:
  "er_recommendation (evaluate now bf rq po) = APPROVE_FULL_REFUND \<longleftrightarrow>
     (\<exists>invoice payment. bf_invoice bf = Some invoice \<and> bf_payment bf = Some payment
        \<and> (now - inv_issued_at invoice) div day_us \<le> 30
        \<and> inv_paid invoice \<and> pay_captured payment
        \<and> (pay_reversed_amount payment \<le> 0
           \<or> pay_amount payment \<le> 0 \<and> pay_amount payment \<le> pay_reversed_amount payment)
        \<and> usage_ratio (bf_usage bf) \<le> fl (8 / 10)
        \<and> (case bf_entitlement bf of
             None \<Rightarrow> True
           | Some e \<Rightarrow> \<not> ent_delivered e \<and> (ent_access_granted e \<or> \<not> ent_access_used e)
               \<and> \<not> (ent_status_of e = EntRevoked \<and> ent_feature_enabled e)
               \<and> \<not> (ent_account_active e \<and> subscription_status_str bf = ''cancelled'')))"
  unfolding evaluate_gate gate_approve_iff deciding_gate_approve entitlement_supports_iff [symmetric]
    contradictions_Nil_iff delta_days_def REFUND_WINDOW_DAYS_def USAGE_HEAVY_THRESHOLD_def
  using reversal_iff by blast

text \<open>Witness: the seeded facts \<^verbatim>\<open>PR-APPROVE\<close> are approved on the day they are seeded.\<close>

definition fact_approve :: BillingFacts where
  "fact_approve =
     mk_facts (mk_subscription 0 ''PR-APPROVE'' SubActive) (mk_invoice 0 ''PR-APPROVE'' 5 True)
       (mk_payment ''PR-APPROVE'' True 0)
       (mk_entitlement ''PR-APPROVE'' False True False True True) (mk_usage (1 / 2))"

definition sample_request :: RefundEligibilityRequest where
  "sample_request =
     \<lparr>rq_case_id = 1, rq_ticket_id = ''T-1'', rq_customer_id = ''CUS-1'',
      rq_requested_refund_amount = fl (4999 / 100), rq_purchase_reference = ''PR-APPROVE'',
      rq_customer_message_summary = None, rq_policy_context = None\<rparr>"

lemma usage_half_of_five: "f_div (1 / 2) 5 \<le> fl (8 / 10)"
  by code_simp

lemma amount_literal: "fl (4999 / 100) = 7035467042882847 / 140737488355328"
  by code_simp

lemmas mk_defs = mk_facts_def mk_invoice_def mk_payment_def mk_subscription_def mk_entitlement_def
  mk_usage_def timedelta_days_def day_us_def

theorem billing_approve_iff_witness:
  "er_recommendation (evaluate 0 fact_approve sample_request REFUND_POLICY) = APPROVE_FULL_REFUND"
  unfolding billing_approve_iff
  using usage_half_of_five
  by (simp add: fact_approve_def mk_defs usage_ratio_def subscription_status_str_def)

text \<open>
  The contract \<^verbatim>\<open>specs/004-billing-entitlement-agent/contracts/refund-policy.md\<close>, read on its own
  and written with its own numbers: the six steps of its evaluation order over the recorded facts.
  The age of the invoice is compared as a duration (step 3, inclusive at exactly 30 days), usage as
  an exact ratio (above 0.8; exactly 0.8 counts as light), the contradiction gate uses the two
  examples the contract gives. Of these the reversal is read as a partial one, since a complete
  reversal is a denial of step 3. The contract names the invoice and the payment as required facts;
  without an entitlement nothing is delivered and without an allotment usage is light.
\<close>

datatype contract_verdict = ContractApprove | ContractDeny | ContractReview

definition active_on_cancelled :: "BillingFacts \<Rightarrow> bool" where
  "active_on_cancelled bf =
     (case (bf_entitlement bf, bf_subscription bf) of
        (Some e, Some s) \<Rightarrow> ent_status_of e = EntActive \<and> sub_status_of s = SubCancelled
      | _ \<Rightarrow> False)"

definition usage_above_contract :: "BillingFacts \<Rightarrow> bool" where
  "usage_above_contract bf =
     (case bf_usage bf of
        None \<Rightarrow> False
      | Some u \<Rightarrow> 0 < use_allotment_units u \<and> 8 / 10 < use_usage_units u / use_allotment_units u)"

definition refund_contract :: "instant \<Rightarrow> BillingFacts \<Rightarrow> contract_verdict" where
  "refund_contract now bf =
     (case (bf_invoice bf, bf_payment bf) of
        (Some invoice, Some payment) \<Rightarrow>
          if inv_paid invoice \<and> 0 < pay_reversed_amount payment
             \<and> pay_reversed_amount payment < pay_amount payment then ContractReview
          else if active_on_cancelled bf then ContractReview
          else if 30 * 24 * 60 * 60 * 1000000 < now - inv_issued_at invoice then ContractDeny
          else if \<not> (inv_paid invoice \<and> pay_captured payment) then ContractDeny
          else if pay_amount payment \<le> pay_reversed_amount payment then ContractDeny
          else if usage_above_contract bf then ContractDeny
          else (case bf_entitlement bf of
                  None \<Rightarrow> ContractApprove
                | Some e \<Rightarrow> if ent_delivered e then ContractReview else ContractApprove)
      | _ \<Rightarrow> ContractReview)"

fun gives_verdict :: "EligibilityRecommendation \<Rightarrow> contract_verdict \<Rightarrow> bool" where
  "gives_verdict r ContractApprove \<longleftrightarrow>
     er_recommendation r = APPROVE_FULL_REFUND \<and> \<not> er_requires_human_review r"
| "gives_verdict r ContractDeny \<longleftrightarrow>
     er_recommendation r = REC_DENY_REFUND \<and> \<not> er_requires_human_review r"
| "gives_verdict r ContractReview \<longleftrightarrow>
     er_recommendation r \<in> {REC_MANUAL_REVIEW, REC_REQUEST_MORE_INFORMATION}
     \<and> er_requires_human_review r"

text \<open>
  Three places where the code reads the contract differently: the age is rounded down to whole days,
  the conflicts of the entitlement are found in its access signals and not in its status, and the
  ratio is a float.
\<close>

definition age_in_whole_days :: "instant \<Rightarrow> BillingFacts \<Rightarrow> instant" where
  "age_in_whole_days now bf =
     (case bf_invoice bf of
        None \<Rightarrow> now
      | Some invoice \<Rightarrow>
          inv_issued_at invoice + 86400000000 * ((now - inv_issued_at invoice) div 86400000000))"

definition signals_conflict :: "BillingFacts \<Rightarrow> bool" where
  "signals_conflict bf =
     (case bf_entitlement bf of
        None \<Rightarrow> False
      | Some e \<Rightarrow>
          \<not> ent_access_granted e \<and> ent_access_used e
          \<or> ent_account_active e
            \<and> (case bf_subscription bf of None \<Rightarrow> False | Some s \<Rightarrow> sub_status_of s = SubCancelled)
          \<or> ent_status_of e = EntRevoked \<and> ent_feature_enabled e)"

definition ratio_rounds_down :: "BillingFacts \<Rightarrow> bool" where
  "ratio_rounds_down bf =
     (case bf_usage bf of
        None \<Rightarrow> False
      | Some u \<Rightarrow> usage_above_contract bf \<and> fl (use_usage_units u / use_allotment_units u) = fl (8 / 10))"

definition on_day_31 :: "instant \<Rightarrow> BillingFacts \<Rightarrow> bool" where
  "on_day_31 now bf =
     (case bf_invoice bf of
        None \<Rightarrow> False
      | Some invoice \<Rightarrow> 30 * 86400000000 < now - inv_issued_at invoice
          \<and> now - inv_issued_at invoice < 31 * 86400000000)"

definition payment_recorded :: "BillingFacts \<Rightarrow> bool" where
  "payment_recorded bf =
     (case bf_payment bf of
        None \<Rightarrow> True
      | Some payment \<Rightarrow> 0 < pay_amount payment \<and> 0 \<le> pay_reversed_amount payment)"

lemma mismatch_signals:
  "(\<exists>c. entitlement_check_of bf = Some c \<and> ec_mismatch c) \<longleftrightarrow> signals_conflict bf"
  unfolding entitlement_mismatch_iff signals_conflict_def by (auto split: option.split)

lemma float_above:
  "fl q = fl (8 / 10) \<longrightarrow> q \<le> 8 / 10 \<Longrightarrow> fl (8 / 10) < fl q \<longleftrightarrow> 8 / 10 < q"
  using fl_mono [of q "8 / 10"] fl_mono [of "8 / 10" q] by linarith

lemma heavy_contract:
  assumes "\<not> ratio_rounds_down bf"
  shows "USAGE_HEAVY_THRESHOLD < usage_ratio (bf_usage bf) \<longleftrightarrow> usage_above_contract bf"
proof (cases "\<exists>u. bf_usage bf = Some u \<and> 0 < use_allotment_units u")
  case True
  then obtain u where u: "bf_usage bf = Some u" "0 < use_allotment_units u" by blast
  let ?q = "use_usage_units u / use_allotment_units u"
  have "usage_ratio (bf_usage bf) = fl ?q" "usage_above_contract bf \<longleftrightarrow> 8 / 10 < ?q"
    "ratio_rounds_down bf \<longleftrightarrow> 8 / 10 < ?q \<and> fl ?q = fl (8 / 10)"
    unfolding usage_ratio_def usage_above_contract_def ratio_rounds_down_def f_div_def u option.case
    using u(2) by simp_all
  then show ?thesis
    unfolding USAGE_HEAVY_THRESHOLD_def using assms float_above [of ?q] not_le [of ?q "8 / 10"] by metis
next
  case False
  then have "usage_ratio (bf_usage bf) = 0" "\<not> usage_above_contract bf"
    by (auto simp: usage_ratio_def usage_above_contract_def split: option.split)
  moreover have "(0::rat) \<le> USAGE_HEAVY_THRESHOLD" unfolding USAGE_HEAVY_THRESHOLD_def by (rule fl_nonneg) simp
  ultimately show ?thesis by simp
qed

lemma less_div_iff: "0 < c \<Longrightarrow> k < x div c \<longleftrightarrow> (k + 1) * c \<le> (x :: int)"
proof -
  assume c: "0 < c"
  have "(k + 1) * c \<le> x" if "k < x div c"
  proof -
    have "(k + 1) * c \<le> (x div c) * c" using that c by (intro mult_right_mono) auto
    also have "\<dots> \<le> x" using c by (metis mult.commute mult_div_mod_eq pos_mod_sign le_add_same_cancel1)
    finally show ?thesis .
  qed
  moreover have "k < x div c" if "(k + 1) * c \<le> x"
    using zdiv_mono1 [OF that c] c by simp
  ultimately show ?thesis by blast
qed

lemma window_contract:
  "REFUND_WINDOW_DAYS < delta_days now issued \<longleftrightarrow>
     30 * 24 * 60 * 60 * 1000000 < 86400000000 * ((now - issued) div 86400000000)"
  by (simp add: REFUND_WINDOW_DAYS_def delta_days_def day_us_def)

lemma window_on_day_31:
  assumes "\<not> on_day_31 now bf" "bf_invoice bf = Some invoice"
  shows "REFUND_WINDOW_DAYS < delta_days now (inv_issued_at invoice) \<longleftrightarrow>
     30 * 24 * 60 * 60 * 1000000 < now - inv_issued_at invoice"
  using assms
  by (auto simp: on_day_31_def REFUND_WINDOW_DAYS_def delta_days_def day_us_def less_div_iff)

text \<open>The gate of the engine and the step of the contract agree once their three tests do.\<close>

lemma verdict_of_gate:
  assumes pay: "payment_recorded bf"
    and same: "signals_conflict bf = active_on_cancelled bf"
    and ratio: "\<not> ratio_rounds_down bf"
    and window: "\<And>invoice. bf_invoice bf = Some invoice \<Longrightarrow>
      REFUND_WINDOW_DAYS < delta_days now (inv_issued_at invoice) \<longleftrightarrow>
      30 * 24 * 60 * 60 * 1000000 < asof - inv_issued_at invoice"
  shows "gives_verdict (evaluate now bf rq po) (refund_contract asof bf)"
proof (cases "bf_invoice bf = None \<or> bf_payment bf = None")
  case True
  then have "deciding_gate now bf = GMissing" "refund_contract asof bf = ContractReview"
    by (auto simp: deciding_gate_def refund_contract_def split: option.splits)
  then show ?thesis by (simp add: evaluate_gate gate_review_def)
next
  case False
  then obtain invoice payment where known: "bf_invoice bf = Some invoice" "bf_payment bf = Some payment"
    by auto
  let ?partial = "inv_paid invoice \<and> 0 < pay_reversed_amount payment
      \<and> pay_reversed_amount payment < pay_amount payment"
  have tests: "contradictions bf invoice payment \<noteq> [] \<longleftrightarrow> ?partial \<or> active_on_cancelled bf"
    "fully_reversed payment \<longleftrightarrow> pay_amount payment \<le> pay_reversed_amount payment"
    using same pay known(2)
    by (auto simp: contradictions_Nil_iff mismatch_signals partial_reversal_def fully_reversed_def
        payment_recorded_def)
  show ?thesis
    unfolding refund_contract_def known
    using window [OF known(1)] heavy_contract [OF ratio] tests
    by (auto simp: evaluate_gate gate_review_def deciding_gate_def known delivered_def split: option.split)
qed

text \<open>C21: the engine against the contract. For every payment of a positive amount with no negative
  reversal whose entitlement conflicts in its signals exactly if it conflicts in its status, and
  whose usage ratio does not fall into the rounding gap just above 0.8, the verdict (approve, deny or
  human review) is the one of \<^verbatim>\<open>refund-policy.md\<close>, except that the age counts in whole days. So on the
  thirty-first day, and only there, the window differs: the engine still decides as at exactly 30
  days. Conflicting signals always go to a human, and a partial refund is never recommended.\<close>

theorem billing_refines_policy:
  assumes "payment_recorded bf"
  shows "(signals_conflict bf = active_on_cancelled bf \<and> \<not> ratio_rounds_down bf \<longrightarrow>
           gives_verdict (evaluate now bf rq po) (refund_contract (age_in_whole_days now bf) bf)
           \<and> (\<not> on_day_31 now bf \<longrightarrow> gives_verdict (evaluate now bf rq po) (refund_contract now bf)))
    \<and> (signals_conflict bf \<longrightarrow> er_requires_human_review (evaluate now bf rq po))
    \<and> er_recommendation (evaluate now bf rq po) \<noteq> APPROVE_PARTIAL_REFUND"
proof (intro conjI impI)
  assume agree: "signals_conflict bf = active_on_cancelled bf \<and> \<not> ratio_rounds_down bf"
  show "gives_verdict (evaluate now bf rq po) (refund_contract (age_in_whole_days now bf) bf)"
    using assms agree
    by (intro verdict_of_gate) (auto simp: age_in_whole_days_def window_contract)
  assume "\<not> on_day_31 now bf"
  then show "gives_verdict (evaluate now bf rq po) (refund_contract now bf)"
    using assms agree by (intro verdict_of_gate window_on_day_31) auto
next
  assume "signals_conflict bf"
  then have "contradictions bf invoice payment \<noteq> []" for invoice payment
    by (simp add: contradictions_Nil_iff mismatch_signals)
  then show "er_requires_human_review (evaluate now bf rq po)"
    by (auto simp: evaluate_gate gate_review_def deciding_gate_def split: option.split)
next
  have "gate_recommendation g \<noteq> APPROVE_PARTIAL_REFUND" for g by (cases g) simp_all
  then show "er_recommendation (evaluate now bf rq po) \<noteq> APPROVE_PARTIAL_REFUND"
    by (simp add: evaluate_gate)
qed

text \<open>The seeded facts \<^verbatim>\<open>PR-APPROVE\<close>, 25 days after the dataset was built: the invoice is exactly 30
  days old.\<close>

theorem billing_refines_policy_witness:
  "gives_verdict (evaluate (25 * day_us) fact_approve sample_request REFUND_POLICY) ContractApprove"
proof -
  have contract: "refund_contract (25 * day_us) fact_approve = ContractApprove" by code_simp
  show ?thesis
    using billing_refines_policy [of fact_approve "25 * day_us" sample_request REFUND_POLICY]
    unfolding contract
    by (simp add: fact_approve_def mk_defs payment_recorded_def signals_conflict_def
        active_on_cancelled_def ratio_rounds_down_def usage_above_contract_def on_day_31_def amount_literal)
qed

text \<open>The two readings that differ. An hour after the thirtieth day the engine still approves what
  the contract denies, and an active entitlement on a cancelled subscription is approved when the
  account is not active.\<close>

definition fact_cancelled :: BillingFacts where
  "fact_cancelled =
     mk_facts (mk_subscription 0 ''PR-APPROVE'' SubCancelled) (mk_invoice 0 ''PR-APPROVE'' 5 True)
       (mk_payment ''PR-APPROVE'' True 0)
       (mk_entitlement ''PR-APPROVE'' False True False True False) (mk_usage (1 / 2))"

lemma contract_differs:
  "gives_verdict (evaluate (25 * day_us + 3600000000) fact_approve sample_request REFUND_POLICY) ContractApprove"
  "refund_contract (25 * day_us + 3600000000) fact_approve = ContractDeny"
  "gives_verdict (evaluate 0 fact_cancelled sample_request REFUND_POLICY) ContractApprove"
  "refund_contract 0 fact_cancelled = ContractReview"
  by code_simp+

text \<open>The clock can only take an approval away. If the engine approves at some instant, it
  approves at every earlier instant.\<close>

theorem billing_approval_expires:
  assumes "er_recommendation (evaluate later bf rq po) = APPROVE_FULL_REFUND" and "now \<le> later"
  shows "er_recommendation (evaluate now bf rq po) = APPROVE_FULL_REFUND"
  using assms(1) delta_days_mono [OF assms(2)]
  unfolding evaluate_gate gate_approve_iff deciding_gate_approve by (meson order_trans)

lemma fact_approve_day25:
  "er_recommendation (evaluate (25 * day_us) fact_approve sample_request REFUND_POLICY) = APPROVE_FULL_REFUND"
  using usage_half_of_five
  by (simp add: evaluate_def fact_approve_def mk_defs usage_ratio_def contradictions_Nil_iff
      entitlement_mismatch_iff partial_reversal_def delta_days_def REFUND_WINDOW_DAYS_def
      fully_reversed_def USAGE_HEAVY_THRESHOLD_def delivered_def approve_result_def amount_literal
      Let_def)

theorem billing_approval_expires_witness:
  "er_recommendation (evaluate 0 fact_approve sample_request REFUND_POLICY) = APPROVE_FULL_REFUND"
  by (rule billing_approval_expires [OF fact_approve_day25]) (simp add: day_us_def)

text \<open>C22: for a payment of a whole number of cents with no negative reversal, the eligible amount
  is exact: the full amount to the cent on approval, zero otherwise. The way through float
  subtraction, \<^verbatim>\<open>round\<close>, \<^verbatim>\<open>str\<close> and \<^verbatim>\<open>Decimal\<close> loses nothing.\<close>

theorem billing_amount_exact:
  assumes "bf_payment bf = Some payment" and "pay_amount payment = fl (of_int k / 100)"
    and "0 < k" "k \<le> 10 ^ 14" and "0 \<le> pay_reversed_amount payment"
  shows "er_eligible_refund_amount (evaluate now bf rq po) =
    (if er_recommendation (evaluate now bf rq po) = APPROVE_FULL_REFUND then of_int k / 100 else 0)"
proof (cases rule: evaluate_cases [of now bf rq po])
  case (approve invoice pay)
  have "pay = payment" using approve assms(1) by simp
  moreover have "0 < pay_amount payment" using cents_error(2) [OF assms(3,4) assms(2)] by simp
  ultimately have "pay_reversed_amount payment = 0"
    using approve refund_net [of invoice payment] assms(5) by (simp add: contradictions_Nil_iff)
  then show ?thesis
    using approve(2) assms(2) \<open>pay = payment\<close> round_cents [OF assms(3,4)] decimal_cents [OF assms(3,4)]
    by (simp add: approve_result_def f_sub_def Let_def)
qed (simp_all add: result_defs)

theorem billing_amount_exact_witness:
  "er_eligible_refund_amount (evaluate (25 * day_us) fact_approve sample_request REFUND_POLICY) = 4999 / 100"
  using billing_amount_exact [of fact_approve "mk_payment ''PR-APPROVE'' True 0" 4999 "25 * day_us"
      sample_request REFUND_POLICY] fact_approve_day25
  by (simp add: fact_approve_def mk_facts_def mk_payment_def)


lemma usage_ratios:
  "f_div (1 / 2) 5 \<le> USAGE_HEAVY_THRESHOLD" "USAGE_HEAVY_THRESHOLD < f_div (19 / 4) 5"
  "f_div 4 5 = USAGE_HEAVY_THRESHOLD"
  by code_simp+

lemma seeded_age: "t0 \<le> now \<Longrightarrow> now < t0 + day_us \<Longrightarrow> delta_days now (t0 - timedelta_days n) = n"
proof -
  assume "t0 \<le> now" "now < t0 + day_us"
  then have "(now - t0) div day_us = 0" by (simp add: day_us_def)
  moreover have "now - (t0 - timedelta_days n) = (now - t0) + n * day_us" by (simp add: timedelta_days_def)
  ultimately show ?thesis unfolding delta_days_def by (simp add: day_us_def)
qed

text \<open>The seeded facts get the verdicts they are seeded for, on the day the dataset is built
  (the borderline invoice is exactly 30 days old only on that day).\<close>

theorem billing_seeded_verdicts:
  assumes "t0 \<le> now" "now < t0 + day_us"
  shows "map (\<lambda>(ref, facts). (ref, deciding_gate now facts)) (billing_dataset t0) =
    [(''PR-APPROVE'', GApprove), (''PR-WINDOW-EXPIRED'', GWindow), (''PR-UNPAID'', GUnpaid),
     (''PR-ALREADY-REFUNDED'', GReversed), (''PR-HEAVY-USAGE'', GHeavy),
     (''PR-CONTRADICTION'', GContradiction), (''PR-BORDERLINE'', GApprove)]"
  using seeded_age [OF assms] usage_ratios
  by (simp add: billing_dataset_def deciding_gate_def mk_facts_def mk_invoice_def mk_payment_def
      mk_subscription_def mk_entitlement_def mk_usage_def contradictions_Nil_iff entitlement_mismatch_iff
      partial_reversal_def fully_reversed_def amount_literal usage_ratio_def delivered_def
      REFUND_WINDOW_DAYS_def)

theorem billing_seeded_verdicts_witness:
  "map (\<lambda>(ref, facts). (ref, deciding_gate 5 facts)) (billing_dataset 0) =
    [(''PR-APPROVE'', GApprove), (''PR-WINDOW-EXPIRED'', GWindow), (''PR-UNPAID'', GUnpaid),
     (''PR-ALREADY-REFUNDED'', GReversed), (''PR-HEAVY-USAGE'', GHeavy),
     (''PR-CONTRADICTION'', GContradiction), (''PR-BORDERLINE'', GApprove)]"
  by (rule billing_seeded_verdicts) (simp_all add: day_us_def)

section \<open>Properties of the task handler\<close>

lemma billing_identity_valid: "AGENT_ID_RE (id_agent_id billing_identity)" "TENANT_ID_RE (id_tenant_id billing_identity)"
  by code_simp+

lemma recommend_confidence: "in_unit (er_confidence (fst (recommend t0 now request)))"
  using billing_peer.conf_unit [of "(now, _, request)"]
  by (simp add: recommend_def missing_data_recommendation_def in_unit_def split: option.splits)

lemma analyze_valid:
  assumes "validate_input mv parts = Inr request"
  obtains w1 where "analyze E mv t0 parts w =
      (Inr (request, recommend t0 (re_clock E (nt_ticks w)) request), w1)"
    "nt_log w1 = nt_log w" "nt_sends w1 = nt_sends w"
  using assms that
  by (cases "load_facts t0 (rq_purchase_reference request) (rq_customer_id request)")
    (simp_all add: analyze_def recommend_def lift_exc_def io_defs now_io_def)


text \<open>
  The handler on a valid request: with the broker's acknowledgement the log grows by the one domain
  event; without it the transport error is raised and the log is unchanged.
\<close>

lemma handle_eligibility_valid:
  assumes "type_segment (re_environment E)"
    and "validate_input mv (ms_parts (tq_input req)) = Inr request"
    and r: "recommend t0 (re_clock E (nt_ticks w)) request = (rec, facts)"
    and n: "narrative = narrative_of llm assist rec request (tq_task_id req)"
  obtains payload env w' where
    "build_result_payload request rec facts narrative = Inr payload"
    "en_correlation_id env = rq_case_id request" "en_causation_id env = Some (tq_task_id req)"
    "en_event_type env = TOPIC_BILLING_RESULT (re_environment E)"
    "handle_eligibility E mv t0 llm assist req w =
       (if re_send_ok E (nt_sends w) then Inr (build_a2a_output rec narrative)
        else Inl (TransportError ''send failed''), w')"
    "nt_log w' = nt_log w @
       (if re_send_ok E (nt_sends w)
        then [\<lparr>sn_topic = TOPIC_BILLING_RESULT (re_environment E), sn_key = Inl (en_event_id env),
               sn_envelope = env, sn_model = MBilling payload\<rparr>] else [])"
proof -
  obtain w1 where a: "analyze E mv t0 (ms_parts (tq_input req)) w = (Inr (request, rec, facts), w1)"
    and w1: "nt_log w1 = nt_log w" "nt_sends w1 = nt_sends w"
    using analyze_valid [OF assms(2), of E t0 w] r by metis
  have c: "in_unit (er_confidence rec)" using recommend_confidence [of t0 "re_clock E (nt_ticks w)" request] r by simp
  then obtain payload where p: "build_result_payload request rec facts narrative = Inr payload"
    by (simp add: build_result_payload_def validate_billing_payload_def)
  have t: "(TOPIC_BILLING_RESULT (re_environment E), class_name (MBilling payload)) \<in> set (domain_topics (re_environment E))"
    by (simp add: domain_topics_def)
  note pub = publish_domain [OF assms(1) t billing_identity_valid, of "rq_case_id request" "tq_task_id req" w1]
  define env where "env = domain_envelope E billing_identity (MBilling payload)
    (TOPIC_BILLING_RESULT (re_environment E)) (rq_case_id request) (Some (tq_task_id req)) w1"
  have h: "handle_eligibility E mv t0 llm assist req w =
      (if re_send_ok E (nt_sends w) then Inr (build_a2a_output rec narrative)
        else Inl (TransportError ''send failed''),
       snd (publish E billing_identity (MBilling payload) (TOPIC_BILLING_RESULT (re_environment E))
         (rq_case_id request) (Some (tq_task_id req)) None w1))"
    using p by (simp add: handle_eligibility_def bind_io_def a pub w1 lift_exc_def then_io_def
        return_io_def Let_def flip: n)
  show thesis
    by (rule that [OF p _ _ _ h, of env]; simp add: pub env_def w1 Let_def)
qed

lemma build_a2a_output_data:
  "\<exists>data. build_a2a_output rec narrative = data_message Agent data
     \<and> dict_get data ''recommendation'' = Some (VStr (recommendation_value (er_recommendation rec)))
     \<and> dict_get data ''confidence'' = Some (VFloat (er_confidence rec))
     \<and> dict_get data ''requires_human_review'' = Some (VBool (er_requires_human_review rec))"
  unfolding build_a2a_output_def by (rule exI, intro conjI, rule refl) simp_all

text \<open>Dual-path delivery. When the handler returns, exactly one event was published, on the
  billing-result topic, correlated with the case and caused by the task; the event and the returned
  message carry the same verdict, which is the one the rules engine computes from the facts at the
  clock reading, whatever the language model does.\<close>

theorem billing_dual_path:
  assumes "type_segment (re_environment E)"
    and "validate_input mv (ms_parts (tq_input req)) = Inr request"
    and "handle_eligibility E mv t0 llm assist req w = (Inr out, w')"
  shows "\<exists>payload env data.
    nt_log w' = nt_log w @ [\<lparr>sn_topic = TOPIC_BILLING_RESULT (re_environment E),
        sn_key = Inl (en_event_id env), sn_envelope = env, sn_model = MBilling payload\<rparr>]
    \<and> en_correlation_id env = rq_case_id request \<and> en_causation_id env = Some (tq_task_id req)
    \<and> out = data_message Agent data
    \<and> dict_get data ''recommendation'' = Some (VStr (bp_recommendation payload))
    \<and> dict_get data ''confidence'' = Some (VFloat (bp_confidence payload))
    \<and> dict_get data ''requires_human_review'' = Some (VBool (bp_requires_human_review payload))
    \<and> (let rec = fst (recommend t0 (re_clock E (nt_ticks w)) request) in
       bp_recommendation payload = recommendation_value (er_recommendation rec)
       \<and> bp_confidence payload = er_confidence rec
       \<and> bp_requires_human_review payload = er_requires_human_review rec
       \<and> bp_eligible_refund_amount payload = er_eligible_refund_amount rec
       \<and> bp_evidence payload = er_evidence rec)"
proof -
  obtain rec facts where r: "recommend t0 (re_clock E (nt_ticks w)) request = (rec, facts)"
    by (cases "recommend t0 (re_clock E (nt_ticks w)) request")
  obtain payload env w1 where
    p: "build_result_payload request rec facts (narrative_of llm assist rec request (tq_task_id req)) = Inr payload"
    and env: "en_correlation_id env = rq_case_id request" "en_causation_id env = Some (tq_task_id req)"
    and h: "handle_eligibility E mv t0 llm assist req w =
       (if re_send_ok E (nt_sends w)
        then Inr (build_a2a_output rec (narrative_of llm assist rec request (tq_task_id req)))
        else Inl (TransportError ''send failed''), w1)"
    and l: "nt_log w1 = nt_log w @
       (if re_send_ok E (nt_sends w)
        then [\<lparr>sn_topic = TOPIC_BILLING_RESULT (re_environment E), sn_key = Inl (en_event_id env),
               sn_envelope = env, sn_model = MBilling payload\<rparr>] else [])"
    by (rule handle_eligibility_valid [OF assms(1,2) r refl])
  from h assms(3) have ok: "re_send_ok E (nt_sends w)" "w1 = w'"
    and out: "out = build_a2a_output rec (narrative_of llm assist rec request (tq_task_id req))"
    by (auto split: if_splits)
  have "bp_recommendation payload = recommendation_value (er_recommendation rec)"
    "bp_confidence payload = er_confidence rec" "bp_evidence payload = er_evidence rec"
    "bp_requires_human_review payload = er_requires_human_review rec"
    "bp_eligible_refund_amount payload = er_eligible_refund_amount rec"
    using p by (auto simp: build_result_payload_def validate_billing_payload_def split: if_splits)
  with l ok env build_a2a_output_data [of rec "narrative_of llm assist rec request (tq_task_id req)"]
  show ?thesis unfolding out r fst_conv Let_def by (simp only: if_True) metis
qed

text \<open>The handler fails only for the reasons it should. Invalid input raises before anything is
  published; on valid input it fails exactly when the broker does not acknowledge the event.\<close>

theorem billing_handler_outcome:
  assumes "type_segment (re_environment E)"
  shows "case validate_input mv (ms_parts (tq_input req)) of
      Inl e \<Rightarrow> handle_eligibility E mv t0 llm assist req w = (Inl e, w)
    | Inr request \<Rightarrow> isl (fst (handle_eligibility E mv t0 llm assist req w)) \<longleftrightarrow> \<not> re_send_ok E (nt_sends w)"
proof (cases "validate_input mv (ms_parts (tq_input req))")
  case (Inl e)
  then show ?thesis by (simp add: handle_eligibility_def analyze_def lift_exc_def bind_io_def raise_io_def)
next
  case (Inr request)
  obtain rec facts where r: "recommend t0 (re_clock E (nt_ticks w)) request = (rec, facts)"
    by (cases "recommend t0 (re_clock E (nt_ticks w)) request")
  show ?thesis
    by (rule handle_eligibility_valid [OF assms Inr r refl, of llm assist]) (simp add: Inr)
qed

theorem billing_handler_outcome_witness:
  "\<not> isl (fst (handle_eligibility sample_env (\<lambda>_. Inr sample_request) 0 False (\<lambda>_ _ _ n. Inr n)
      (sample_task ''analyze_refund_eligibility'' [(''k'', VNone)]) sample_net))"
  using billing_handler_outcome [OF sample_env_segment, where mv = "\<lambda>_. Inr sample_request"
      and req = "sample_task ''analyze_refund_eligibility'' [(''k'', VNone)]" and ?t0.0 = 0 and llm = False
      and assist = "\<lambda>_ _ _ n. Inr n" and w = sample_net]
  by (simp add: sample_task_def data_message_def sample_env_def)

theorem billing_dual_path_witness:
  "\<exists>out w' payload env.
    handle_eligibility sample_env (\<lambda>_. Inr sample_request) 0 False (\<lambda>_ _ _ n. Inr n)
      (sample_task ''analyze_refund_eligibility'' [(''k'', VNone)]) sample_net = (Inr out, w')
    \<and> nt_log w' = [\<lparr>sn_topic = ''local.billing.refund-analysis.completed.v1'',
        sn_key = Inl (en_event_id env), sn_envelope = env, sn_model = MBilling payload\<rparr>]
    \<and> en_correlation_id env = 1"
proof -
  let ?h = "handle_eligibility sample_env (\<lambda>_. Inr sample_request) 0 False (\<lambda>_ _ _ n. Inr n)
      (sample_task ''analyze_refund_eligibility'' [(''k'', VNone)]) sample_net"
  have v: "validate_input (\<lambda>_. Inr sample_request)
      (ms_parts (tq_input (sample_task ''analyze_refund_eligibility'' [(''k'', VNone)]))) = Inr sample_request"
    by (simp add: sample_task_def data_message_def)
  obtain rec facts where r: "recommend 0 (re_clock sample_env (nt_ticks sample_net)) sample_request = (rec, facts)"
    by (cases "recommend 0 (re_clock sample_env (nt_ticks sample_net)) sample_request")
  obtain out w' where h: "?h = (Inr out, w')"
    by (rule handle_eligibility_valid [OF sample_env_segment v r refl, of False "\<lambda>_ _ _ n. Inr n"])
      (simp add: sample_env_def)
  show ?thesis
    using billing_dual_path [OF sample_env_segment v h] h
    by (auto simp: sample_net_def sample_request_def sample_env_def topic_defs)
qed

end
