(* ===== verification/Risk_Engine.thy ===== *)
theory Risk_Engine
  imports Peer_Contract PyDecimal
begin

text \<open>
  The Risk-Fraud agent's domain: its models (\<^verbatim>\<open>apps/agents/risk_fraud/models.py\<close>), the fraud policy
  (\<^verbatim>\<open>policy.py\<close>) and the scoring engine (\<^verbatim>\<open>scoring.py\<close>). The score is a sum of floats; the section on
  exactness shows that every comparison the engine makes on it agrees with exact tenths.
\<close>

section \<open>Models\<close>

datatype RiskLevel = LOW | ELEVATED | HIGH

fun risk_level_value :: "RiskLevel \<Rightarrow> string" where
  "risk_level_value LOW = ''low''"
| "risk_level_value ELEVATED = ''elevated''"
| "risk_level_value HIGH = ''high''"

fun level_rank :: "RiskLevel \<Rightarrow> nat" where
  "level_rank LOW = 0"
| "level_rank ELEVATED = 1"
| "level_rank HIGH = 2"

instantiation RiskLevel :: linorder
begin

definition less_eq_RiskLevel :: "RiskLevel \<Rightarrow> RiskLevel \<Rightarrow> bool" where
  "less_eq_RiskLevel a b \<longleftrightarrow> level_rank a \<le> level_rank b"

definition less_RiskLevel :: "RiskLevel \<Rightarrow> RiskLevel \<Rightarrow> bool" where
  "less_RiskLevel a b \<longleftrightarrow> level_rank a < level_rank b"

instance
proof (standard, goal_cases)
  case (4 x y)
  then show ?case by (cases x; cases y; simp add: less_eq_RiskLevel_def)
qed (auto simp: less_eq_RiskLevel_def less_RiskLevel_def)

end

datatype RecommendedAction =
    APPROVE_RISK_CLEARANCE | ALLOW_WITH_CAUTION | DENY_OR_ESCALATE
  | RA_REQUEST_MORE_INFORMATION | RA_MANUAL_REVIEW

datatype account_status = Good | Watch | Restricted

fun account_status_value :: "account_status \<Rightarrow> string" where
  "account_status_value Good = ''good''"
| "account_status_value Watch = ''watch''"
| "account_status_value Restricted = ''restricted''"

datatype account_segment = Standard | Vip | Enterprise

fun segment_value :: "account_segment \<Rightarrow> string" where
  "segment_value Standard = ''standard''"
| "segment_value Vip = ''vip''"
| "segment_value Enterprise = ''enterprise''"

record AccountStanding =
  as_customer_id :: string
  as_status :: account_status
  as_tenure_days :: int
  as_support_abuse_flags :: int
  as_known_good_customer :: bool
  as_segment :: account_segment

record RefundDisputeHistory =
  rh_customer_id :: string
  rh_prior_refunds :: int
  rh_prior_refund_total_amount :: pyfloat
  rh_chargebacks :: int
  rh_velocity_window_days :: int

record PaymentInstrumentSignal =
  pi_customer_id :: string
  pi_billing_details_match :: bool
  pi_card_testing_pattern :: bool
  pi_recent_failed_payments :: int

record BehavioralSignal =
  bh_customer_id :: string
  bh_refund_requests_in_window :: int
  bh_anomaly_score :: pyfloat
  bh_device_mismatch :: bool
  bh_ip_location_mismatch :: bool
  bh_ip_country_mismatch :: bool
  bh_device_change_count :: int
  bh_typical_refund_amount :: "pyfloat option"

record KnownFraudIndicator =
  kf_customer_id :: string
  kf_on_blocklist :: bool

record RiskSignals =
  rs_customer_id :: string
  rs_account_standing :: "AccountStanding option"
  rs_refund_history :: "RefundDisputeHistory option"
  rs_payment_instrument :: "PaymentInstrumentSignal option"
  rs_behavioral :: "BehavioralSignal option"
  rs_known_fraud :: "KnownFraudIndicator option"

record RiskAssessment =
  ra_risk_level :: RiskLevel
  ra_recommended_action :: RecommendedAction
  ra_confidence :: pyfloat
  ra_evidence :: "EvidenceItem list"
  ra_policy_references :: "string list"
  ra_reasoning_summary :: string
  ra_requires_human_review :: bool

record RiskAssessmentRequest =
  rk_case_id :: uuid
  rk_ticket_id :: string
  rk_customer_id :: string
  rk_requested_refund_amount :: "decimal option"
  rk_customer_message_summary :: "string option"
  rk_account_age_days :: "int option"
  rk_metadata :: "(string, pyval) dict option"

section \<open>Policy\<close>

definition ELEVATED_THRESHOLD :: pyfloat where "ELEVATED_THRESHOLD = fl (5 / 10)"
definition HIGH_THRESHOLD :: pyfloat where "HIGH_THRESHOLD = fl (8 / 10)"
definition CHARGEBACK_ELEVATED :: int where "CHARGEBACK_ELEVATED = 1"
definition CHARGEBACK_HIGH :: int where "CHARGEBACK_HIGH = 2"
definition VELOCITY_ELEVATED :: int where "VELOCITY_ELEVATED = 3"
definition VELOCITY_HIGH :: int where "VELOCITY_HIGH = 5"
definition ANOMALY_ELEVATED :: pyfloat where "ANOMALY_ELEVATED = fl (7 / 10)"
definition NEW_ACCOUNT_DAYS :: int where "NEW_ACCOUNT_DAYS = 30"
definition UNUSUAL_AMOUNT_RATIO :: pyfloat where "UNUSUAL_AMOUNT_RATIO = 3"

lemmas risk_constants = ELEVATED_THRESHOLD_def HIGH_THRESHOLD_def CHARGEBACK_ELEVATED_def
  CHARGEBACK_HIGH_def VELOCITY_ELEVATED_def VELOCITY_HIGH_def ANOMALY_ELEVATED_def
  NEW_ACCOUNT_DAYS_def UNUSUAL_AMOUNT_RATIO_def

record RiskPolicyRule =
  rpr_id :: string
  rpr_name :: string
  rpr_description :: string

record FraudPolicy =
  fpo_policy_name :: string
  fpo_policy_version :: string
  fpo_rules :: "RiskPolicyRule list"

definition fraud_rules :: "RiskPolicyRule list" where
  "fraud_rules =
     map (\<lambda>(i, n, d). \<lparr>rpr_id = i, rpr_name = n, rpr_description = d\<rparr>)
       [(''FP-001'', ''known-fraud-indicator'',
          ''Hard floor: when KnownFraudIndicator.on_blocklist is True the risk level is ''
          @ ''unconditionally HIGH regardless of other signals. This overrides all other rules.''),
        (''FP-002'', ''chargeback-history'',
          ''Chargeback history increases the fraud score: chargebacks >= '' @ show_int CHARGEBACK_HIGH
          @ '' adds +0.8 (high tier); chargebacks >= '' @ show_int CHARGEBACK_ELEVATED
          @ '' adds +0.5 (elevated tier). Only the highest-matching tier applies.''),
        (''FP-003'', ''refund-velocity'',
          ''Excessive refund requests within the velocity window increase the fraud score: ''
          @ ''refund_requests_in_window >= '' @ show_int VELOCITY_HIGH @ '' adds +0.7 (high tier); ''
          @ ''>= '' @ show_int VELOCITY_ELEVATED @ '' adds +0.4 (elevated tier). ''
          @ ''Only the highest-matching tier applies.''),
        (''FP-004'', ''instrument-mismatch'',
          ''Payment instrument anomalies increase the fraud score: ''
          @ ''card_testing_pattern == True adds +0.6; billing_details_match == False adds +0.4. ''
          @ ''Both can apply independently if both conditions are present.''),
        (''FP-005'', ''account-standing'',
          ''Account standing affects the fraud score: status == '' @ quoted ''restricted'' @ '' adds +0.6; ''
          @ ''status == '' @ quoted ''watch'' @ '' adds +0.3; tenure_days < '' @ show_int NEW_ACCOUNT_DAYS
          @ '' (new account) adds +0.3 when status is '' @ quoted ''good'' @ ''; ''
          @ ''long-tenured accounts (tenure_days >= '' @ show_int NEW_ACCOUNT_DAYS @ '') with status ''
          @ quoted ''good'' @ '' contribute a baseline of 0.0 (no penalty).''),
        (''FP-006'', ''behavioral-anomaly'',
          ''Elevated anomaly score increases the fraud score: anomaly_score >= ''
          @ float_repr ANOMALY_ELEVATED @ '' adds +0.4.''),
        (''FP-007'', ''device-mismatch'',
          ''Device fingerprint mismatch increases the fraud score: ''
          @ ''behavioral.device_mismatch == True adds +0.4.''),
        (''FP-008'', ''ip-location-mismatch'',
          ''IP/location mismatch increases the fraud score: ''
          @ ''behavioral.ip_location_mismatch == True or behavioral.ip_country_mismatch == True ''
          @ ''adds +0.4. Both flags are evaluated with OR logic; only one +0.4 is applied even if ''
          @ ''both are True.''),
        (''FP-009'', ''unusual-refund-amount'',
          ''Unusually large refund request relative to the customer'' @ [CHR 0x27] @ ''s typical amount increases ''
          @ ''the fraud score: requested_refund_amount >= typical_refund_amount * ''
          @ float_repr UNUSUAL_AMOUNT_RATIO @ '' adds +0.3. ''
          @ ''Rule does not fire when typical_refund_amount is None or zero.'')]"

definition FRAUD_POLICY :: FraudPolicy where
  "FRAUD_POLICY = \<lparr>fpo_policy_name = ''poc-fraud-policy'', fpo_policy_version = ''1.0.0'',
     fpo_rules = fraud_rules\<rparr>"

section \<open>Scoring rules\<close>

definition score_to_level :: "pyfloat \<Rightarrow> RiskLevel" where
  "score_to_level score =
     (if score \<ge> HIGH_THRESHOLD then HIGH else if score \<ge> ELEVATED_THRESHOLD then ELEVATED else LOW)"

definition is_contradiction :: "RiskSignals \<Rightarrow> bool" where
  "is_contradiction s =
     (let clean_low =
        (case rs_account_standing s of
           None \<Rightarrow> False
         | Some a \<Rightarrow> as_status a = Good \<and> as_tenure_days a \<ge> NEW_ACCOUNT_DAYS
             \<and> (case rs_refund_history s of None \<Rightarrow> True | Some rh \<Rightarrow> rh_chargebacks rh = 0));
        strong_high =
        (case (rs_behavioral s, rs_payment_instrument s) of
           (Some b, Some p) \<Rightarrow> bh_refund_requests_in_window b \<ge> VELOCITY_HIGH \<and> \<not> pi_billing_details_match p
         | _ \<Rightarrow> False)
      in clean_low \<and> strong_high)"

fun derive_recommended_action :: "RiskLevel \<Rightarrow> bool \<Rightarrow> RecommendedAction" where
  "derive_recommended_action HIGH _ = DENY_OR_ESCALATE"
| "derive_recommended_action ELEVATED has_chargeback =
     (if has_chargeback then RA_MANUAL_REVIEW else ALLOW_WITH_CAUTION)"
| "derive_recommended_action LOW _ = APPROVE_RISK_CLEARANCE"

text \<open>A fired rule: rule id, signal domain, contribution.\<close>

type_synonym fired = "string \<times> string \<times> pyfloat"

definition fp002 :: "RiskSignals \<Rightarrow> fired list" where
  "fp002 s =
     (case rs_refund_history s of
        None \<Rightarrow> []
      | Some rh \<Rightarrow>
          if rh_chargebacks rh \<ge> CHARGEBACK_HIGH then [(''FP-002'', ''refund_history'', fl (8 / 10))]
          else if rh_chargebacks rh \<ge> CHARGEBACK_ELEVATED then [(''FP-002'', ''refund_history'', fl (5 / 10))]
          else [])"

definition fp003 :: "RiskSignals \<Rightarrow> fired list" where
  "fp003 s =
     (case rs_behavioral s of
        None \<Rightarrow> []
      | Some b \<Rightarrow>
          if bh_refund_requests_in_window b \<ge> VELOCITY_HIGH then [(''FP-003'', ''behavioral'', fl (8 / 10))]
          else if bh_refund_requests_in_window b \<ge> VELOCITY_ELEVATED
          then [(''FP-003'', ''behavioral'', fl (5 / 10))]
          else [])"

definition fp004 :: "RiskSignals \<Rightarrow> fired list" where
  "fp004 s =
     (case rs_payment_instrument s of
        None \<Rightarrow> []
      | Some p \<Rightarrow>
          if pi_card_testing_pattern p then [(''FP-004'', ''payment_instrument'', fl (6 / 10))]
          else if \<not> pi_billing_details_match p then [(''FP-004'', ''payment_instrument'', fl (5 / 10))]
          else [])"

definition fp5_contribution :: "AccountStanding \<Rightarrow> pyfloat" where
  "fp5_contribution a =
     (let c = (if as_status a = Restricted then fl (6 / 10)
               else if as_status a = Watch then fl (3 / 10) else 0)
      in if as_tenure_days a < NEW_ACCOUNT_DAYS \<and> as_status a \<noteq> Restricted
         then f_add c (fl (3 / 10)) else c)"

definition fp005 :: "RiskSignals \<Rightarrow> fired list" where
  "fp005 s =
     (case rs_account_standing s of
        None \<Rightarrow> []
      | Some a \<Rightarrow>
          if fp5_contribution a > 0 then [(''FP-005'', ''account_standing'', fp5_contribution a)] else [])"

definition fp006 :: "RiskSignals \<Rightarrow> fired list" where
  "fp006 s =
     (case rs_behavioral s of
        None \<Rightarrow> []
      | Some b \<Rightarrow>
          if bh_anomaly_score b \<ge> ANOMALY_ELEVATED then [(''FP-006'', ''behavioral'', fl (5 / 10))] else [])"

definition fp007 :: "RiskSignals \<Rightarrow> fired list" where
  "fp007 s =
     (case rs_behavioral s of
        None \<Rightarrow> []
      | Some b \<Rightarrow> if bh_device_mismatch b then [(''FP-007'', ''behavioral'', fl (4 / 10))] else [])"

definition fp008 :: "RiskSignals \<Rightarrow> fired list" where
  "fp008 s =
     (case rs_behavioral s of
        None \<Rightarrow> []
      | Some b \<Rightarrow> if bh_ip_location_mismatch b \<or> bh_ip_country_mismatch b
                  then [(''FP-008'', ''behavioral'', fl (4 / 10))] else [])"

definition unusual_amount :: "RiskSignals \<Rightarrow> RiskAssessmentRequest \<Rightarrow> bool" where
  "unusual_amount s rq =
     (case rs_behavioral s of
        None \<Rightarrow> False
      | Some b \<Rightarrow>
          (case (bh_typical_refund_amount b, rk_requested_refund_amount rq) of
             (Some typical, Some requested) \<Rightarrow>
               typical > 0 \<and> fl requested \<ge> f_mul typical UNUSUAL_AMOUNT_RATIO
           | _ \<Rightarrow> False))"

definition fp009 :: "RiskSignals \<Rightarrow> RiskAssessmentRequest \<Rightarrow> fired list" where
  "fp009 s rq = (if unusual_amount s rq then [(''FP-009'', ''behavioral'', fl (3 / 10))] else [])"

definition fired_rules :: "RiskSignals \<Rightarrow> RiskAssessmentRequest \<Rightarrow> fired list" where
  "fired_rules s rq =
     fp002 s @ fp003 s @ fp004 s @ fp005 s @ fp006 s @ fp007 s @ fp008 s @ fp009 s rq"

definition sum_contributions :: "fired list \<Rightarrow> pyfloat" where
  "sum_contributions fs = min (foldl (\<lambda>score (r, d, c). f_add score c) 0 fs) 1"

text \<open>
  \<open>_compute_score\<close>: the score for the VIP gate, with the standing contributions added one by one. A
  step is one \<^verbatim>\<open>if\<close> with its \<^verbatim>\<open>elif\<close>.
\<close>

definition score_step :: "bool \<Rightarrow> pyfloat \<Rightarrow> bool \<Rightarrow> pyfloat \<Rightarrow> pyfloat \<Rightarrow> pyfloat" where
  "score_step a c b d score = (if a then f_add score c else if b then f_add score d else score)"

definition compute_score :: "RiskSignals \<Rightarrow> RiskAssessmentRequest \<Rightarrow> pyfloat" where
  "compute_score s rq =
     (let chargebacks = (\<lambda>n. case rs_refund_history s of None \<Rightarrow> False | Some rh \<Rightarrow> rh_chargebacks rh \<ge> n);
          velocity = (\<lambda>n. case rs_behavioral s of None \<Rightarrow> False | Some b \<Rightarrow> bh_refund_requests_in_window b \<ge> n);
          pinst = (\<lambda>f. case rs_payment_instrument s of None \<Rightarrow> False | Some p \<Rightarrow> f p);
          standing = (\<lambda>f. case rs_account_standing s of None \<Rightarrow> False | Some a \<Rightarrow> f a);
          beh = (\<lambda>f. case rs_behavioral s of None \<Rightarrow> False | Some b \<Rightarrow> f b);
          s1 = score_step (chargebacks CHARGEBACK_HIGH) (fl (8 / 10))
                 (chargebacks CHARGEBACK_ELEVATED) (fl (5 / 10)) 0;
          s2 = score_step (velocity VELOCITY_HIGH) (fl (8 / 10)) (velocity VELOCITY_ELEVATED) (fl (5 / 10)) s1;
          s3 = score_step (pinst pi_card_testing_pattern) (fl (6 / 10))
                 (pinst (\<lambda>p. \<not> pi_billing_details_match p)) (fl (5 / 10)) s2;
          s4 = score_step (standing (\<lambda>a. as_status a = Restricted)) (fl (6 / 10))
                 (standing (\<lambda>a. as_status a = Watch)) (fl (3 / 10)) s3;
          s5 = score_step (standing (\<lambda>a. as_tenure_days a < NEW_ACCOUNT_DAYS \<and> as_status a \<noteq> Restricted))
                 (fl (3 / 10)) False 0 s4;
          s6 = score_step (beh (\<lambda>b. bh_anomaly_score b \<ge> ANOMALY_ELEVATED)) (fl (5 / 10)) False 0 s5;
          s7 = score_step (beh bh_device_mismatch) (fl (4 / 10)) False 0 s6;
          s8 = score_step (beh (\<lambda>b. bh_ip_location_mismatch b \<or> bh_ip_country_mismatch b)) (fl (4 / 10)) False 0 s7;
          s9 = score_step (unusual_amount s rq) (fl (3 / 10)) False 0 s8
      in min s9 1)"

definition rule_description :: "string \<Rightarrow> RiskSignals \<Rightarrow> string" where
  "rule_description rule_id s =
     (if rule_id = ''FP-002''
      then ''Chargeback history: ''
           @ show_int (case rs_refund_history s of None \<Rightarrow> 0 | Some rh \<Rightarrow> rh_chargebacks rh) @ '' prior chargebacks''
      else if rule_id = ''FP-003''
      then ''Refund velocity: ''
           @ show_int (case rs_behavioral s of None \<Rightarrow> 0 | Some b \<Rightarrow> bh_refund_requests_in_window b)
           @ '' requests in window''
      else if rule_id = ''FP-004''
      then (if (case rs_payment_instrument s of None \<Rightarrow> False | Some p \<Rightarrow> pi_card_testing_pattern p)
            then ''Card testing pattern detected'' else ''Billing details mismatch'')
      else if rule_id = ''FP-005''
      then (let parts = (case rs_account_standing s of
                  None \<Rightarrow> []
                | Some a \<Rightarrow>
                    (if as_status a \<noteq> Good then [''status='' @ account_status_value (as_status a)] else [])
                    @ (if as_tenure_days a < NEW_ACCOUNT_DAYS then [''tenure_days='' @ show_int (as_tenure_days a)] else []))
            in if parts = [] then ''Account standing'' else ''Account standing: '' @ py_join '', '' parts)
      else if rule_id = ''FP-006''
      then ''Behavioral anomaly: score=''
           @ fmt_fixed 2 (case rs_behavioral s of None \<Rightarrow> 0 | Some b \<Rightarrow> bh_anomaly_score b)
      else if rule_id = ''FP-007'' then ''Device mismatch detected''
      else if rule_id = ''FP-008'' then ''IP/location mismatch detected''
      else if rule_id = ''FP-009'' then ''Unusual refund amount relative to typical history''
      else rule_id)"

section \<open>Assessment\<close>

text \<open>Gate 2: the known-fraud blocklist.\<close>

definition blocklisted :: "RiskSignals \<Rightarrow> bool" where
  "blocklisted s = (case rs_known_fraud s of None \<Rightarrow> False | Some k \<Rightarrow> kf_on_blocklist k)"

definition blocklist_result :: "RiskSignals \<Rightarrow> FraudPolicy \<Rightarrow> RiskAssessment" where
  "blocklist_result s policy =
     \<lparr>ra_risk_level = HIGH,
      ra_recommended_action = DENY_OR_ESCALATE,
      ra_confidence = fl (95 / 100),
      ra_evidence =
        [evidence ''known_fraud'' ''Customer is on the known-fraud blocklist''
           [(''on_blocklist'', VBool True), (''customer_id'', VStr (rs_customer_id s))],
         evidence ''fraud_policy''
           (''FP-001: known-fraud-indicator '' @ em_dash @ '' hard floor '' @ right_arrow @ '' high'')
           [(''rule'', VStr ''FP-001''), (''policy'', VStr (fpo_policy_name policy))]],
      ra_policy_references = [''FP-001''],
      ra_reasoning_summary =
        ''Customer is on the known-fraud blocklist (FP-001 hard floor '' @ em_dash @ '' high risk).'',
      ra_requires_human_review = False\<rparr>"

text \<open>Gate 3: VIP and enterprise accounts.\<close>

definition vip_segment :: "RiskSignals \<Rightarrow> account_segment option" where
  "vip_segment s =
     (case rs_account_standing s of
        None \<Rightarrow> None
      | Some a \<Rightarrow> if as_segment a \<in> {Vip, Enterprise} then Some (as_segment a) else None)"

definition vip_result :: "RiskSignals \<Rightarrow> RiskAssessmentRequest \<Rightarrow> account_segment \<Rightarrow> RiskAssessment" where
  "vip_result s rq seg =
     \<lparr>ra_risk_level = score_to_level (compute_score s rq),
      ra_recommended_action = RA_MANUAL_REVIEW,
      ra_confidence = fl (7 / 10),
      ra_evidence =
        [evidence ''account_standing'' (''High-value account segment: '' @ segment_value seg)
           [(''segment'', VStr (segment_value seg)), (''customer_id'', VStr (rs_customer_id s))],
         evidence ''fraud_policy''
           (''FP-005: VIP/enterprise account standing '' @ em_dash @ '' manual review required'')
           [(''rule'', VStr ''FP-005''), (''segment'', VStr (segment_value seg))]],
      ra_policy_references = [''FP-005''],
      ra_reasoning_summary =
        ''Account segment is '' @ repr_str (segment_value seg)
        @ ''; all assessments for VIP/enterprise accounts require manual review (FP-005 standing tier).'',
      ra_requires_human_review = True\<rparr>"

text \<open>Gate 4: contradictory signals.\<close>

definition risk_contradiction_result :: "RiskSignals \<Rightarrow> RiskAssessment" where
  "risk_contradiction_result s =
     (let velocity = (case rs_behavioral s of None \<Rightarrow> 0 | Some b \<Rightarrow> bh_refund_requests_in_window b) in
      \<lparr>ra_risk_level = ELEVATED,
       ra_recommended_action = RA_MANUAL_REVIEW,
       ra_confidence = fl (3 / 10),
       ra_evidence =
         [evidence ''account_standing'' ''Account has long tenure and good standing (low-risk baseline)''
            [(''tenure_days'', case rs_account_standing s of None \<Rightarrow> VNone | Some a \<Rightarrow> VInt (as_tenure_days a)),
             (''status'', case rs_account_standing s of None \<Rightarrow> VNone
                          | Some a \<Rightarrow> VStr (account_status_value (as_status a)))],
          evidence ''refund_history'' ''Zero prior chargebacks (low-risk signal)''
            [(''chargebacks'', VInt (case rs_refund_history s of None \<Rightarrow> 0 | Some rh \<Rightarrow> rh_chargebacks rh))],
          evidence ''behavioral''
            (''Refund velocity '' @ show_int velocity @ '' >= VELOCITY_HIGH='' @ show_int VELOCITY_HIGH
             @ '' in window (high-risk signal)'')
            [(''refund_requests_in_window'', VInt velocity)],
          evidence ''payment_instrument'' ''Billing details mismatch (high-risk signal)''
            [(''billing_details_match'',
              VBool (case rs_payment_instrument s of None \<Rightarrow> True | Some p \<Rightarrow> pi_billing_details_match p))],
          evidence ''fraud_policy'' ''Contradiction gate: clean baseline + strong fraud signals''
            [(''rule'', VStr ''contradiction-gate''),
             (''clean_signals'', VStr ''long-tenure+good+0-chargebacks''),
             (''fraud_signals'', VStr ''velocity>=VELOCITY_HIGH+mismatch'')]],
       ra_policy_references = [''contradiction-gate''],
       ra_reasoning_summary =
         ''Contradictory signals detected: long tenure + good standing + zero chargebacks ''
         @ ''(clean baseline) coexist with high refund velocity on a mismatched instrument ''
         @ ''(strong fraud indicators). Human review required.'',
       ra_requires_human_review = True\<rparr>)"

text \<open>Gate 5 and the evidence of the scoring path.\<close>

definition missing_history :: "RiskSignals \<Rightarrow> bool" where
  "missing_history s \<longleftrightarrow> rs_refund_history s = None
     \<and> (rs_account_standing s \<noteq> None \<or> rs_payment_instrument s \<noteq> None \<or> rs_behavioral s \<noteq> None)"

definition fired_evidence :: "RiskSignals \<Rightarrow> FraudPolicy \<Rightarrow> fired list \<Rightarrow> EvidenceItem list" where
  "fired_evidence s policy fs =
     concat (map (\<lambda>(r, d, c).
       [evidence d (r @ '': '' @ rule_description r s) [(''rule'', VStr r), (''contribution'', VFloat c)],
        evidence ''fraud_policy'' (r @ '': policy rule fired'')
          [(''rule'', VStr r), (''contribution'', VFloat c), (''policy'', VStr (fpo_policy_name policy))]]) fs)"

definition scoring_evidence :: "RiskSignals \<Rightarrow> FraudPolicy \<Rightarrow> fired list \<Rightarrow> EvidenceItem list" where
  "scoring_evidence s policy fs =
     fired_evidence s policy fs
     @ (if missing_history s
        then [evidence ''refund_history'' ''Missing refund history: confidence lowered''
                [(''refund_history'', VNone), (''note'', VStr ''partial signal set'')]]
        else [])"

definition borderline_score :: "pyfloat \<Rightarrow> bool" where
  "borderline_score score \<longleftrightarrow>
     \<bar>f_sub score ELEVATED_THRESHOLD\<bar> < fl (1 / 10 ^ 9) \<or> \<bar>f_sub score HIGH_THRESHOLD\<bar> < fl (1 / 10 ^ 9)"

definition scoring_confidence :: "RiskSignals \<Rightarrow> pyfloat \<Rightarrow> pyfloat" where
  "scoring_confidence s score =
     (let confidence = (if borderline_score score then fl (6 / 10) else fl (9 / 10))
      in if missing_history s then min confidence (fl (6 / 10)) else confidence)"

definition has_chargeback :: "RiskSignals \<Rightarrow> bool" where
  "has_chargeback s =
     (case rs_refund_history s of None \<Rightarrow> False | Some rh \<Rightarrow> rh_chargebacks rh \<ge> CHARGEBACK_ELEVATED)"

text \<open>No rule fired and the history is there: clean.\<close>

definition clean_result :: "RiskSignals \<Rightarrow> FraudPolicy \<Rightarrow> RiskAssessment" where
  "clean_result s policy =
     \<lparr>ra_risk_level = LOW,
      ra_recommended_action = APPROVE_RISK_CLEARANCE,
      ra_confidence = fl (9 / 10),
      ra_evidence = scoring_evidence s policy []
        @ [evidence ''fraud_policy''
             (''All fraud rules (FP-001..FP-006) silent: no risk signal fired. ''
              @ ''Customer is assessed as low risk.'')
             [(''rule'', VStr ''no-rule-fired''), (''score'', VFloat 0), (''policy'', VStr (fpo_policy_name policy))]],
      ra_policy_references = [],
      ra_reasoning_summary = ''All fraud policy rules evaluated; no risk signal fired. Low risk.''
        @ (if (case rs_account_standing s of None \<Rightarrow> False | Some a \<Rightarrow> as_known_good_customer a)
           then '' Known-good customer with clean long-tenure baseline (FP-005: 0.0 offset).'' else []),
      ra_requires_human_review = False\<rparr>"

text \<open>No rule fired and the history is missing.\<close>

definition no_history_result :: "RiskSignals \<Rightarrow> FraudPolicy \<Rightarrow> RiskAssessment" where
  "no_history_result s policy =
     \<lparr>ra_risk_level = LOW,
      ra_recommended_action = APPROVE_RISK_CLEARANCE,
      ra_confidence = fl (6 / 10),
      ra_evidence = scoring_evidence s policy []
        @ [evidence ''fraud_policy'' ''No fraud rules fired; missing history reduces confidence.''
             [(''rule'', VStr ''no-rule-fired''), (''note'', VStr ''missing-history'')]],
      ra_policy_references = [],
      ra_reasoning_summary = ''No fraud rules fired; missing refund history lowers confidence to 0.6.'',
      ra_requires_human_review = False\<rparr>"

definition scored_reasoning :: "RiskSignals \<Rightarrow> fired list \<Rightarrow> pyfloat \<Rightarrow> string" where
  "scored_reasoning s fs score =
     (let rule_ids = dict_fromkeys (map fst fs);
          parts =
            [if rule_ids = [] then []
             else ''Score: '' @ fmt_fixed 2 score @ ''. Rules fired: '' @ py_join '', '' rule_ids @ ''.'']
            @ (if borderline_score score
               then [''Score '' @ fmt_fixed 1 score @ '' exactly on threshold '' @ right_arrow
                     @ '' upper band (borderline rule, conf 0.6).''] else [])
            @ (if missing_history s then [''Refund history absent; confidence lowered.''] else [])
            @ (if has_chargeback s \<and> score_to_level score \<in> {ELEVATED, HIGH}
               then [''Prior chargeback(s) present '' @ right_arrow @ '' manual review recommended.''] else [])
      in py_join '' '' (filter (\<lambda>p. p \<noteq> []) parts))"

definition scored_result ::
  "RiskSignals \<Rightarrow> FraudPolicy \<Rightarrow> fired list \<Rightarrow> RiskAssessment" where
  "scored_result s policy fs =
     (let score = sum_contributions fs; level = score_to_level score;
          review = (has_chargeback s \<and> level = ELEVATED)
      in
      \<lparr>ra_risk_level = level,
       ra_recommended_action =
         (if review then RA_MANUAL_REVIEW else derive_recommended_action level (has_chargeback s)),
       ra_confidence = scoring_confidence s score,
       ra_evidence = scoring_evidence s policy fs,
       ra_policy_references = dict_fromkeys (map fst fs),
       ra_reasoning_summary = scored_reasoning s fs score,
       ra_requires_human_review = review\<rparr>)"

definition assess_signals ::
  "RiskSignals \<Rightarrow> RiskAssessmentRequest \<Rightarrow> FraudPolicy option \<Rightarrow> RiskAssessment" where
  "assess_signals s rq pol =
     (let policy = (case pol of None \<Rightarrow> FRAUD_POLICY | Some p \<Rightarrow> p) in
      if blocklisted s then blocklist_result s policy
      else (case vip_segment s of
              Some seg \<Rightarrow> vip_result s rq seg
            | None \<Rightarrow>
                if is_contradiction s then risk_contradiction_result s
                else (let fs = fired_rules s rq in
                      if fs = [] \<and> \<not> missing_history s then clean_result s policy
                      else if sum_contributions fs = 0 \<and> fs = [] \<and> missing_history s
                      then no_history_result s policy
                      else scored_result s policy fs)))"

end
