(* ===== verification/Risk_Exact.thy ===== *)
theory Risk_Exact
  imports Risk_Engine
begin

text \<open>
  The risk score against exact arithmetic: every comparison the scoring engine makes on its float sum
  agrees with the sum of the policy weights in exact tenths, for the main path and for the separate
  summation of the VIP gate. On top of that the engine's decision table, its monotonicity and its
  interpretation as a peer engine.
\<close>

section \<open>Exactness of the score\<close>

text \<open>
  The float sum against the exact sum in tenths: up to eight tenths the float is the float of the
  exact value; above, it is at least 0.85 and stays there.
\<close>

definition tracks :: "pyfloat \<Rightarrow> nat \<Rightarrow> bool" where
  "tracks x t \<longleftrightarrow> (if t \<le> 8 then x = fl (of_nat t / 10) else fl (85 / 100) \<le> x)"

definition tenth_steps :: "nat list" where
  "tenth_steps = [3, 4, 5, 6, 8]"

lemma fl_tenths:
  "fl (0 / 10) = 0" "fl (3 / 10) = 5404319552844595 / 18014398509481984"
  "fl (4 / 10) = 3602879701896397 / 9007199254740992" "fl (5 / 10) = 1 / 2"
  "fl (6 / 10) = 5404319552844595 / 9007199254740992"
  "fl (7 / 10) = 3152519739159347 / 4503599627370496"
  "fl (8 / 10) = 3602879701896397 / 4503599627370496"
  by (simp_all add: float_literals)

lemma exact_sums:
  "f_add (fl (3 / 10)) (fl (3 / 10)) = fl (6 / 10)" "f_add (fl (3 / 10)) (fl (4 / 10)) = fl (7 / 10)"
  "f_add (fl (3 / 10)) (fl (5 / 10)) = fl (8 / 10)" "f_add (fl (4 / 10)) (fl (4 / 10)) = fl (8 / 10)"
  by code_simp+

lemma f_add_commute: "f_add x y = f_add y x"
  by (simp add: f_add_def add.commute)

lemma f_add_zero: "f_add 0 (fl x) = fl x"
  by (simp add: f_add_def)

lemma sum_small:
  assumes "t \<in> {0, 3, 4, 5, 6, 7, 8}" "c \<in> {3, 4, 5, 6, 8}" "t + c \<le> (8 :: nat)"
  shows "f_add (fl (of_nat t / 10)) (fl (of_nat c / 10)) = fl (of_nat (t + c) / 10)"
proof -
  consider "t = 0" | "t = 3" "c = 3" | "t = 3" "c = 4" | "t = 4" "c = 3" | "t = 3" "c = 5" | "t = 5" "c = 3"
    | "t = 4" "c = 4" using assms by auto
  then show ?thesis
    by cases (use exact_sums f_add_commute [of "fl (4 / 10)" "fl (3 / 10)"]
        f_add_commute [of "fl (5 / 10)" "fl (3 / 10)"] in \<open>simp_all del: fl_tenths_simp add: f_add_zero\<close>)
qed

lemma sum_big:
  assumes "t \<in> {0, 3, 4, 5, 6, 7, 8}" "c \<in> {3, 4, 5, 6, 8}" "9 \<le> t + (c :: nat)"
  shows "85 / 100 \<le> fl (of_nat t / 10) + fl (of_nat c / 10)"
proof -
  have r: "fl (of_nat u / 10) \<ge> of_nat u / 10 - 1 / 100" if "u \<in> {0, 3, 4, 5, 6, 7, 8}" for u :: nat
    using that by (elim insertE) (simp_all add: fl_tenths)
  have "9 / 10 \<le> (of_nat t + of_nat c :: rat) / 10" using assms(3) by simp
  then show ?thesis using r [of t] r [of c] assms(1,2) by (auto simp: field_simps)
qed

lemma f_add_ge: "fl x = x \<Longrightarrow> 0 \<le> c \<Longrightarrow> x \<le> f_add x c"
  using fl_mono [of x "x + c"] by (simp add: f_add_def)

text \<open>Sums of contributions skip one and two tenths.\<close>

definition reachable_tenths :: "nat \<Rightarrow> bool" where
  "reachable_tenths t \<longleftrightarrow> t \<notin> {1, 2}"

lemma tracks_add:
  assumes "tracks x t" "reachable_tenths t" "c \<in> set tenth_steps"
  shows "tracks (f_add x (fl (of_nat c / 10))) (t + c)"
proof (cases "t \<le> 8")
  case True
  with assms(2) have t: "t \<in> {0, 3, 4, 5, 6, 7, 8}" by (auto simp: reachable_tenths_def)
  have c: "c \<in> {3, 4, 5, 6, 8}" using assms(3) by (auto simp: tenth_steps_def)
  show ?thesis
  proof (cases "t + c \<le> 8")
    case sum: True
    then show ?thesis using assms(1) True sum_small [OF t c] by (simp add: tracks_def)
  next
    case False
    then have "fl (85 / 100) \<le> f_add (fl (of_nat t / 10)) (fl (of_nat c / 10))"
      unfolding f_add_def using sum_big [OF t c] by (intro fl_mono) simp
    with False True assms(1) show ?thesis by (simp add: tracks_def)
  qed
next
  case False
  have "fl (85 / 100) = fl (fl (85 / 100))" by simp
  also have "\<dots> \<le> f_add x (fl (of_nat c / 10))"
    unfolding f_add_def using False assms(1) fl_nonneg [of "of_nat c / 10"]
    by (intro fl_mono) (simp add: tracks_def)
  finally show ?thesis using False by (simp add: tracks_def)
qed

lemma tracks_zero [simp]: "tracks 0 0"
  by (simp add: tracks_def)

text \<open>The level and the borderline test agree with exact tenths, after the cap at one.\<close>

definition level_of_tenths :: "nat \<Rightarrow> RiskLevel" where
  "level_of_tenths t = (if 8 \<le> t then HIGH else if 5 \<le> t then ELEVATED else LOW)"

lemma abs_fl: "\<bar>fl d\<bar> = fl \<bar>d\<bar>"
  using fl_nonneg [of d] fl_nonneg [of "- d"] fl_minus [of d] by (cases "0 \<le> d") (simp_all add: abs_if)

lemma tolerance_pos: "0 < fl (1 / 10 ^ 9)"
  by code_simp

lemma borderline_far: "1 / 10 ^ 9 \<le> \<bar>x - y\<bar> \<Longrightarrow> \<not> \<bar>f_sub x y\<bar> < fl (1 / 10 ^ 9)"
  using fl_mono [of "1 / 10 ^ 9" "\<bar>x - y\<bar>"] by (simp add: f_sub_def abs_fl)

lemma borderline_on: "\<bar>f_sub x x\<bar> < fl (1 / 10 ^ 9)"
  using tolerance_pos by (simp add: f_sub_def)

lemma levels_small:
  assumes "t \<in> {0, 3, 4, 5, 6, 7, 8}"
  shows "score_to_level (fl (of_nat t / 10)) = level_of_tenths t"
    and "borderline_score (fl (of_nat t / 10)) \<longleftrightarrow> t = 5 \<or> t = 8"
    and "fl (of_nat t / 10) \<le> 1"
proof -
  show "score_to_level (fl (of_nat t / 10)) = level_of_tenths t" "fl (of_nat t / 10) \<le> 1"
    using assms by (elim insertE; simp add: fl_tenths score_to_level_def level_of_tenths_def
        HIGH_THRESHOLD_def ELEVATED_THRESHOLD_def)+
  show "borderline_score (fl (of_nat t / 10)) \<longleftrightarrow> t = 5 \<or> t = 8"
  proof (cases "t = 5 \<or> t = 8")
    case True
    then show ?thesis using borderline_on
      by (auto simp: borderline_score_def HIGH_THRESHOLD_def ELEVATED_THRESHOLD_def)
  next
    case False
    then have "1 / 10 ^ 9 \<le> \<bar>fl (of_nat t / 10) - ELEVATED_THRESHOLD\<bar>"
      "1 / 10 ^ 9 \<le> \<bar>fl (of_nat t / 10) - HIGH_THRESHOLD\<bar>"
      using assms by (auto simp: fl_tenths HIGH_THRESHOLD_def ELEVATED_THRESHOLD_def)
    with False show ?thesis using borderline_far by (auto simp: borderline_score_def)
  qed
qed

lemma fl_85: "84 / 100 \<le> fl (85 / 100)" "fl (85 / 100) \<le> 1"
  by code_simp+

lemma big_score:
  assumes "fl (85 / 100) \<le> x" shows "HIGH_THRESHOLD \<le> x" "\<not> borderline_score x"
proof -
  have "84 / 100 \<le> x" using assms fl_85(1) by linarith
  then have "HIGH_THRESHOLD \<le> x" "1 / 10 ^ 9 \<le> \<bar>x - ELEVATED_THRESHOLD\<bar>" "1 / 10 ^ 9 \<le> \<bar>x - HIGH_THRESHOLD\<bar>"
    by (auto simp: HIGH_THRESHOLD_def ELEVATED_THRESHOLD_def)
  then show "HIGH_THRESHOLD \<le> x" "\<not> borderline_score x"
    using borderline_far by (auto simp: borderline_score_def)
qed

lemma tracks_level:
  assumes "tracks x t" "reachable_tenths t"
  shows "score_to_level (min x 1) = level_of_tenths t" "borderline_score (min x 1) \<longleftrightarrow> t \<in> {5, 8}"
proof -
  have "score_to_level (min x 1) = level_of_tenths t \<and> (borderline_score (min x 1) \<longleftrightarrow> t \<in> {5, 8})"
  proof (cases "t \<le> 8")
    case True
    with assms(2) have "t \<in> {0, 3, 4, 5, 6, 7, 8}" by (auto simp: reachable_tenths_def)
    from levels_small [OF this] assms(1) True show ?thesis by (simp add: tracks_def min_def)
  next
    case False
    then have x: "fl (85 / 100) \<le> min x 1" using assms(1) fl_85(2) by (simp add: tracks_def)
    with False big_score [OF x] show ?thesis by (simp add: score_to_level_def level_of_tenths_def)
  qed
  then show "score_to_level (min x 1) = level_of_tenths t" "borderline_score (min x 1) \<longleftrightarrow> t \<in> {5, 8}"
    by auto
qed

text \<open>The weights of the policy in exact tenths.\<close>

definition standing_tenths :: "AccountStanding \<Rightarrow> nat" where
  "standing_tenths a =
     (case as_status a of Restricted \<Rightarrow> 6 | Watch \<Rightarrow> 3 | Good \<Rightarrow> 0)
     + (if as_tenure_days a < 30 \<and> as_status a \<noteq> Restricted then 3 else 0)"

definition rule_tenths :: "RiskSignals \<Rightarrow> RiskAssessmentRequest \<Rightarrow> nat list" where
  "rule_tenths s rq =
     [case rs_refund_history s of None \<Rightarrow> 0
        | Some rh \<Rightarrow> if rh_chargebacks rh \<ge> 2 then 8 else if rh_chargebacks rh \<ge> 1 then 5 else 0,
      case rs_behavioral s of None \<Rightarrow> 0
        | Some b \<Rightarrow> if bh_refund_requests_in_window b \<ge> 5 then 8
                    else if bh_refund_requests_in_window b \<ge> 3 then 5 else 0,
      case rs_payment_instrument s of None \<Rightarrow> 0
        | Some p \<Rightarrow> if pi_card_testing_pattern p then 6 else if \<not> pi_billing_details_match p then 5 else 0,
      case rs_account_standing s of None \<Rightarrow> 0 | Some a \<Rightarrow> standing_tenths a,
      case rs_behavioral s of None \<Rightarrow> 0 | Some b \<Rightarrow> if fl (7 / 10) \<le> bh_anomaly_score b then 5 else 0,
      case rs_behavioral s of None \<Rightarrow> 0 | Some b \<Rightarrow> if bh_device_mismatch b then 4 else 0,
      case rs_behavioral s of None \<Rightarrow> 0
        | Some b \<Rightarrow> if bh_ip_location_mismatch b \<or> bh_ip_country_mismatch b then 4 else 0,
      if unusual_amount s rq then 3 else 0]"

definition exact_tenths :: "RiskSignals \<Rightarrow> RiskAssessmentRequest \<Rightarrow> nat" where
  "exact_tenths s rq = sum_list (rule_tenths s rq)"

text \<open>A block of fired rules has a weight: none fired and weight zero, or one fired with that weight.\<close>

definition weighs :: "fired list \<Rightarrow> nat \<Rightarrow> bool" where
  "weighs fs c \<longleftrightarrow> (fs = [] \<and> c = 0) \<or> (\<exists>r d. fs = [(r, d, fl (of_nat c / 10))] \<and> c \<in> set tenth_steps)"

lemma weighs_simps [simp]:
  "weighs [] c \<longleftrightarrow> c = 0"
  "weighs [(r, d, x)] c \<longleftrightarrow> x = fl (of_nat c / 10) \<and> c \<in> set tenth_steps"
  by (auto simp: weighs_def)

lemma fp5_tenths: "fp5_contribution a = fl (of_nat (standing_tenths a) / 10)"
  using exact_sums(1)
  by (cases "as_status a") (simp_all add: fp5_contribution_def standing_tenths_def NEW_ACCOUNT_DAYS_def
      f_add_zero Let_def del: fl_tenths_simp)

lemma standing_tenths_values: "standing_tenths a \<in> {0, 3, 6}"
  by (cases "as_status a") (simp_all add: standing_tenths_def)

lemma fp005_weighs:
  "weighs (fp005 s) (case rs_account_standing s of None \<Rightarrow> 0 | Some a \<Rightarrow> standing_tenths a)"
proof (cases "rs_account_standing s")
  case (Some a)
  have "0 < fl (3 / 10)" "0 < fl (6 / 10)" by (simp_all add: fl_tenths)
  then show ?thesis
    using standing_tenths_values [of a]
    by (auto simp: fp005_def Some fp5_tenths tenth_steps_def simp del: fl_tenths_simp)
qed (simp add: fp005_def)

lemma rule_weights:
  "list_all2 weighs
     [fp002 s, fp003 s, fp004 s, fp005 s, fp006 s, fp007 s, fp008 s, fp009 s rq] (rule_tenths s rq)"
  unfolding rule_tenths_def
proof (intro list_all2_Cons [THEN iffD2] conjI fp005_weighs list.rel_intros, goal_cases)
  case 1 then show ?case
    by (simp add: fp002_def risk_constants tenth_steps_def del: fl_tenths_simp split: option.split)
next
  case 2 then show ?case
    by (simp add: fp003_def risk_constants tenth_steps_def del: fl_tenths_simp split: option.split)
next
  case 3 then show ?case
    by (simp add: fp004_def risk_constants tenth_steps_def del: fl_tenths_simp split: option.split)
next
  case 4 then show ?case
    by (simp add: fp006_def risk_constants tenth_steps_def del: fl_tenths_simp split: option.split)
next
  case 5 then show ?case by (simp add: fp007_def tenth_steps_def del: fl_tenths_simp split: option.split)
next
  case 6 then show ?case by (simp add: fp008_def tenth_steps_def del: fl_tenths_simp split: option.split)
next
  case 7 then show ?case by (simp add: fp009_def tenth_steps_def del: fl_tenths_simp)
qed

definition raw_score :: "pyfloat \<Rightarrow> fired list \<Rightarrow> pyfloat" where
  "raw_score x fs = foldl (\<lambda>score (r, d, c). f_add score c) x fs"

lemma raw_score_append: "raw_score x (fs @ gs) = raw_score (raw_score x fs) gs"
  by (simp add: raw_score_def)

lemma reachable_add: "reachable_tenths t \<Longrightarrow> c \<in> set tenth_steps \<Longrightarrow> reachable_tenths (t + c)"
  by (auto simp: reachable_tenths_def tenth_steps_def)

lemma tracks_block:
  assumes "tracks x t" "reachable_tenths t" "weighs fs c"
  shows "tracks (raw_score x fs) (t + c)" "reachable_tenths (t + c)"
  using assms tracks_add [OF assms(1,2)] reachable_add [OF assms(2)]
  by (auto simp: weighs_def raw_score_def)

lemma tracks_blocks:
  assumes "list_all2 weighs bs cs"
  shows "tracks x t \<Longrightarrow> reachable_tenths t \<Longrightarrow>
    tracks (raw_score x (concat bs)) (t + sum_list cs) \<and> reachable_tenths (t + sum_list cs)"
  using assms
proof (induction bs arbitrary: x t cs)
  case Nil
  then show ?case by (simp add: raw_score_def)
next
  case (Cons b bs)
  then obtain c cs' where cs: "cs = c # cs'" "weighs b c" "list_all2 weighs bs cs'"
    by (auto simp: list_all2_Cons1)
  from Cons.IH [OF tracks_block [OF Cons.prems(1,2) cs(2)] cs(3)] show ?case
    by (simp add: cs(1) raw_score_append add.assoc)
qed

lemma score_tracks:
  "sum_contributions (fired_rules s rq) = min (raw_score 0 (fired_rules s rq)) 1"
  "tracks (raw_score 0 (fired_rules s rq)) (exact_tenths s rq)" "reachable_tenths (exact_tenths s rq)"
proof -
  have "fired_rules s rq = concat [fp002 s, fp003 s, fp004 s, fp005 s, fp006 s, fp007 s, fp008 s, fp009 s rq]"
    by (simp add: fired_rules_def)
  moreover have "reachable_tenths 0" by (simp add: reachable_tenths_def)
  ultimately show "tracks (raw_score 0 (fired_rules s rq)) (exact_tenths s rq)" "reachable_tenths (exact_tenths s rq)"
    using tracks_blocks [OF rule_weights [of s rq] tracks_zero] by (simp_all only: exact_tenths_def add_0)
qed (simp add: sum_contributions_def raw_score_def)

lemma scored_level:
  "score_to_level (sum_contributions (fired_rules s rq)) = level_of_tenths (exact_tenths s rq)"
  "borderline_score (sum_contributions (fired_rules s rq)) \<longleftrightarrow> exact_tenths s rq \<in> {5, 8}"
  unfolding score_tracks(1) by (rule tracks_level [OF score_tracks(2,3)])+

text \<open>The separate summation of the VIP gate tracks the same exact sum.\<close>

definition tracked :: "pyfloat \<Rightarrow> nat \<Rightarrow> bool" where
  "tracked x t \<longleftrightarrow> tracks x t \<and> reachable_tenths t"

lemma tracked_zero: "tracked 0 0"
  by (simp add: tracked_def reachable_tenths_def)

lemma tracked_add: "tracked x t \<Longrightarrow> c \<in> set tenth_steps \<Longrightarrow> tracked (f_add x (fl (of_nat c / 10))) (t + c)"
  by (simp add: tracked_def tracks_add reachable_add)

lemma tracked_step:
  "tracked x t \<Longrightarrow> c \<in> set tenth_steps \<Longrightarrow> d \<in> set tenth_steps \<Longrightarrow>
     tracked (score_step a (fl (of_nat c / 10)) b (fl (of_nat d / 10)) x) (t + (if a then c else if b then d else 0))"
  by (simp add: tracked_add score_step_def)

lemma tracked_step1:
  "tracked x t \<Longrightarrow> c \<in> set tenth_steps \<Longrightarrow>
     tracked (score_step a (fl (of_nat c / 10)) False d x) (t + (if a then c else 0))"
  by (simp add: tracked_add score_step_def)

lemma tenth_steps_mem: "3 \<in> set tenth_steps" "4 \<in> set tenth_steps" "5 \<in> set tenth_steps"
    "6 \<in> set tenth_steps" "8 \<in> set tenth_steps"
  by (simp_all add: tenth_steps_def)

lemma compute_score_tracked: "\<exists>x. compute_score s rq = min x 1 \<and> tracked x (exact_tenths s rq)"
proof -
  let ?cb = "\<lambda>n. case rs_refund_history s of None \<Rightarrow> False | Some rh \<Rightarrow> rh_chargebacks rh \<ge> n"
  let ?vel = "\<lambda>n. case rs_behavioral s of None \<Rightarrow> False | Some b \<Rightarrow> bh_refund_requests_in_window b \<ge> n"
  let ?inst = "\<lambda>f. case rs_payment_instrument s of None \<Rightarrow> False | Some p \<Rightarrow> f p"
  let ?st = "\<lambda>f. case rs_account_standing s of None \<Rightarrow> False | Some a \<Rightarrow> f a"
  let ?beh = "\<lambda>f. case rs_behavioral s of None \<Rightarrow> False | Some b \<Rightarrow> f b"
  note m = tenth_steps_mem
  note s1 = tracked_step [OF tracked_zero m(5,3), of "?cb 2" "?cb 1"]
  note s2 = tracked_step [OF s1 m(5,3), of "?vel 5" "?vel 3"]
  note s3 = tracked_step [OF s2 m(4,3), of "?inst pi_card_testing_pattern" "?inst (\<lambda>p. \<not> pi_billing_details_match p)"]
  note s4 = tracked_step [OF s3 m(4,1), of "?st (\<lambda>a. as_status a = Restricted)" "?st (\<lambda>a. as_status a = Watch)"]
  note s5 = tracked_step1 [OF s4 m(1), where d = 0 and a = "?st (\<lambda>a. as_tenure_days a < 30 \<and> as_status a \<noteq> Restricted)"]
  note s6 = tracked_step1 [OF s5 m(3), where d = 0 and a = "?beh (\<lambda>b. bh_anomaly_score b \<ge> fl (7 / 10))"]
  note s7 = tracked_step1 [OF s6 m(2), where d = 0 and a = "?beh bh_device_mismatch"]
  note s8 = tracked_step1 [OF s7 m(2), where d = 0 and a = "?beh (\<lambda>b. bh_ip_location_mismatch b \<or> bh_ip_country_mismatch b)"]
  note s9 = tracked_step1 [OF s8 m(1), where d = 0 and a = "unusual_amount s rq"]
  have w: "(case rs_refund_history s of None \<Rightarrow> 0
      | Some rh \<Rightarrow> if rh_chargebacks rh \<ge> 2 then 8 else if rh_chargebacks rh \<ge> 1 then 5 else 0)
      = (if ?cb 2 then 8 else if ?cb 1 then 5 else 0 :: nat)"
    "(case rs_behavioral s of None \<Rightarrow> 0
      | Some b \<Rightarrow> if bh_refund_requests_in_window b \<ge> 5 then 8
                    else if bh_refund_requests_in_window b \<ge> 3 then 5 else 0)
      = (if ?vel 5 then 8 else if ?vel 3 then 5 else 0 :: nat)"
    "(case rs_payment_instrument s of None \<Rightarrow> 0
        | Some p \<Rightarrow> if pi_card_testing_pattern p then 6 else if \<not> pi_billing_details_match p then 5 else 0)
      = (if ?inst pi_card_testing_pattern then 6 else if ?inst (\<lambda>p. \<not> pi_billing_details_match p) then 5 else 0 :: nat)"
    "(case rs_account_standing s of None \<Rightarrow> 0 | Some a \<Rightarrow> standing_tenths a)
      = (if ?st (\<lambda>a. as_status a = Restricted) then 6 else if ?st (\<lambda>a. as_status a = Watch) then 3 else 0)
        + (if ?st (\<lambda>a. as_tenure_days a < 30 \<and> as_status a \<noteq> Restricted) then 3 else 0)"
    "(case rs_behavioral s of None \<Rightarrow> 0 | Some b \<Rightarrow> if fl (7 / 10) \<le> bh_anomaly_score b then 5 else 0)
      = (if ?beh (\<lambda>b. bh_anomaly_score b \<ge> fl (7 / 10)) then 5 else 0 :: nat)"
    "(case rs_behavioral s of None \<Rightarrow> 0 | Some b \<Rightarrow> if bh_device_mismatch b then 4 else 0)
      = (if ?beh bh_device_mismatch then 4 else 0 :: nat)"
    "(case rs_behavioral s of None \<Rightarrow> 0
        | Some b \<Rightarrow> if bh_ip_location_mismatch b \<or> bh_ip_country_mismatch b then 4 else 0)
      = (if ?beh (\<lambda>b. bh_ip_location_mismatch b \<or> bh_ip_country_mismatch b) then 4 else 0 :: nat)"
    by (simp_all add: standing_tenths_def split: option.split account_status.split)
  show ?thesis
    unfolding compute_score_def Let_def risk_constants exact_tenths_def rule_tenths_def w
    by (rule exI, rule conjI, rule refl, insert s9)
      (simp only: of_nat_numeral sum_list.Cons sum_list.Nil add_0 add.assoc add_0_right)
qed

section \<open>The decision table\<close>

lemmas risk_result_defs = blocklist_result_def vip_result_def risk_contradiction_result_def
  clean_result_def no_history_result_def scored_result_def

lemma no_fired_tenths:
  assumes "fired_rules s rq = []" shows "exact_tenths s rq = 0"
proof -
  have "tracks 0 (exact_tenths s rq)" using score_tracks(2) [of s rq] assms by (simp add: raw_score_def)
  moreover have "tracks 0 t \<Longrightarrow> reachable_tenths t \<Longrightarrow> t = 0" for t
    using fl_85(1) levels_small(1) [of t] fl_tenths
    by (cases "t \<le> 8") (auto simp: tracks_def reachable_tenths_def le_Suc_eq numeral_eq_Suc)
  ultimately show ?thesis using score_tracks(3) by blast
qed

lemma compute_level: "score_to_level (compute_score s rq) = level_of_tenths (exact_tenths s rq)"
  using compute_score_tracked [of s rq] tracks_level(1) by (auto simp: tracked_def)

lemma no_fired_sum: "sum_contributions [] = 0"
  by (simp add: sum_contributions_def)

text \<open>The six ways the assessment returns.\<close>

lemma assess_cases [case_names blocklist vip contradiction clean no_history scored]:
  obtains
    "blocklisted s" "assess_signals s rq pol = blocklist_result s (case pol of None \<Rightarrow> FRAUD_POLICY | Some p \<Rightarrow> p)"
  | seg where "\<not> blocklisted s" "vip_segment s = Some seg" "assess_signals s rq pol = vip_result s rq seg"
  | "\<not> blocklisted s" "vip_segment s = None" "is_contradiction s"
      "assess_signals s rq pol = risk_contradiction_result s"
  | "\<not> blocklisted s" "vip_segment s = None" "\<not> is_contradiction s" "fired_rules s rq = []"
      "\<not> missing_history s"
      "assess_signals s rq pol = clean_result s (case pol of None \<Rightarrow> FRAUD_POLICY | Some p \<Rightarrow> p)"
  | "\<not> blocklisted s" "vip_segment s = None" "\<not> is_contradiction s" "fired_rules s rq = []"
      "missing_history s"
      "assess_signals s rq pol = no_history_result s (case pol of None \<Rightarrow> FRAUD_POLICY | Some p \<Rightarrow> p)"
  | "\<not> blocklisted s" "vip_segment s = None" "\<not> is_contradiction s" "fired_rules s rq \<noteq> []"
      "assess_signals s rq pol =
         scored_result s (case pol of None \<Rightarrow> FRAUD_POLICY | Some p \<Rightarrow> p) (fired_rules s rq)"
proof -
  consider "blocklisted s" | seg where "\<not> blocklisted s" "vip_segment s = Some seg"
    | "\<not> blocklisted s" "vip_segment s = None" "is_contradiction s"
    | "\<not> blocklisted s" "vip_segment s = None" "\<not> is_contradiction s" "fired_rules s rq = []" "\<not> missing_history s"
    | "\<not> blocklisted s" "vip_segment s = None" "\<not> is_contradiction s" "fired_rules s rq = []" "missing_history s"
    | "\<not> blocklisted s" "vip_segment s = None" "\<not> is_contradiction s" "fired_rules s rq \<noteq> []"
    by (cases "vip_segment s") auto
  then show thesis
    by cases (use that in \<open>simp_all add: assess_signals_def no_fired_sum Let_def\<close>)
qed

text \<open>The level, as the policy states it.\<close>

definition policy_level :: "RiskSignals \<Rightarrow> RiskAssessmentRequest \<Rightarrow> RiskLevel" where
  "policy_level s rq =
     (if blocklisted s then HIGH
      else if vip_segment s = None \<and> is_contradiction s then ELEVATED
      else level_of_tenths (exact_tenths s rq))"

lemma assess_level: "ra_risk_level (assess_signals s rq pol) = policy_level s rq"
  by (cases rule: assess_cases [of s rq pol])
    (simp_all add: risk_result_defs policy_level_def compute_level scored_level no_fired_tenths
      level_of_tenths_def Let_def)

lemma assess_review:
  "ra_requires_human_review (assess_signals s rq pol) \<longleftrightarrow>
     \<not> blocklisted s \<and> (vip_segment s \<noteq> None \<or> is_contradiction s
       \<or> has_chargeback s \<and> policy_level s rq = ELEVATED)"
proof (cases rule: assess_cases [of s rq pol])
  case clean
  then show ?thesis by (simp add: risk_result_defs policy_level_def no_fired_tenths level_of_tenths_def)
next
  case no_history
  then show ?thesis by (simp add: risk_result_defs policy_level_def no_fired_tenths level_of_tenths_def)
next
  case scored
  then show ?thesis by (simp add: risk_result_defs policy_level_def scored_level Let_def)
qed (simp_all add: risk_result_defs Let_def)

lemma assess_action:
  "ra_recommended_action (assess_signals s rq pol) =
     (if ra_requires_human_review (assess_signals s rq pol) then RA_MANUAL_REVIEW
      else derive_recommended_action (ra_risk_level (assess_signals s rq pol)) (has_chargeback s))"
  by (cases rule: assess_cases [of s rq pol]) (simp_all add: risk_result_defs Let_def)

lemma scoring_confidence_values: "scoring_confidence s x \<in> {fl (6 / 10), fl (9 / 10)}"
  by (simp add: scoring_confidence_def Let_def min_def)

lemma assess_confidence:
  "ra_confidence (assess_signals s rq pol) \<in>
     {fl (95 / 100), fl (7 / 10), fl (6 / 10), fl (9 / 10)}
   \<or> ra_confidence (assess_signals s rq pol) = fl (3 / 10) \<and> ra_requires_human_review (assess_signals s rq pol)"
  by (cases rule: assess_cases [of s rq pol])
    (use scoring_confidence_values in \<open>auto simp: risk_result_defs Let_def simp del: fl_tenths_simp\<close>)

lemma assess_evidence: "ra_evidence (assess_signals s rq pol) \<noteq> []"
proof (cases rule: assess_cases [of s rq pol])
  case scored
  then show ?thesis
    by (cases "fired_rules s rq") (auto simp: risk_result_defs Let_def scoring_evidence_def fired_evidence_def)
qed (simp_all add: risk_result_defs Let_def)

lemma assess_refs: "distinct (ra_policy_references (assess_signals s rq pol))"
  by (cases rule: assess_cases [of s rq pol]) (simp_all add: risk_result_defs Let_def)

interpretation risk_peer: peer_engine
  "\<lambda>(s, rq, pol). assess_signals s rq pol" ra_confidence ra_evidence ra_policy_references
  ra_requires_human_review
proof (unfold_locales, goal_cases)
  case (1 i)
  show ?case
    using assess_confidence [of "fst i" "fst (snd i)" "snd (snd i)"]
    by (auto simp: in_unit_def split: prod.splits)
next
  case (2 i)
  show ?case by (simp add: assess_evidence split: prod.splits)
next
  case (3 i)
  show ?case by (simp add: assess_refs split: prod.splits)
next
  case (4 i)
  then show ?case
    using assess_confidence [of "fst i" "fst (snd i)" "snd (snd i)"]
    by (auto simp: CONFIDENCE_THRESHOLD_def split: prod.splits)
qed

section \<open>Monotonicity\<close>

text \<open>One set of signals is at least as bad as another, domain by domain; the same domains are present.\<close>

fun status_rank :: "account_status \<Rightarrow> nat" where
  "status_rank Good = 0"
| "status_rank Watch = 1"
| "status_rank Restricted = 2"

definition rel_domain :: "('a \<Rightarrow> 'a \<Rightarrow> bool) \<Rightarrow> 'a option \<Rightarrow> 'a option \<Rightarrow> bool" where
  "rel_domain R x y = (case (x, y) of (None, None) \<Rightarrow> True | (Some a, Some b) \<Rightarrow> R a b | _ \<Rightarrow> False)"

definition worse_standing :: "AccountStanding \<Rightarrow> AccountStanding \<Rightarrow> bool" where
  "worse_standing a b \<longleftrightarrow> status_rank (as_status a) \<le> status_rank (as_status b)
     \<and> as_tenure_days b \<le> as_tenure_days a \<and> as_segment b = as_segment a"

definition worse_behavior :: "BehavioralSignal \<Rightarrow> BehavioralSignal \<Rightarrow> bool" where
  "worse_behavior a b \<longleftrightarrow> bh_refund_requests_in_window a \<le> bh_refund_requests_in_window b
     \<and> bh_anomaly_score a \<le> bh_anomaly_score b
     \<and> (bh_device_mismatch a \<longrightarrow> bh_device_mismatch b)
     \<and> (bh_ip_location_mismatch a \<or> bh_ip_country_mismatch a \<longrightarrow>
          bh_ip_location_mismatch b \<or> bh_ip_country_mismatch b)
     \<and> bh_typical_refund_amount b = bh_typical_refund_amount a"

definition worse_instrument :: "PaymentInstrumentSignal \<Rightarrow> PaymentInstrumentSignal \<Rightarrow> bool" where
  "worse_instrument a b \<longleftrightarrow> (pi_card_testing_pattern a \<longrightarrow> pi_card_testing_pattern b)
     \<and> (pi_billing_details_match b \<longrightarrow> pi_billing_details_match a)"

definition worse :: "RiskSignals \<Rightarrow> RiskSignals \<Rightarrow> bool" where
  "worse s s' \<longleftrightarrow>
     rel_domain worse_standing (rs_account_standing s) (rs_account_standing s')
     \<and> rel_domain (\<lambda>a b. rh_chargebacks a \<le> rh_chargebacks b) (rs_refund_history s) (rs_refund_history s')
     \<and> rel_domain worse_instrument (rs_payment_instrument s) (rs_payment_instrument s')
     \<and> rel_domain worse_behavior (rs_behavioral s) (rs_behavioral s')
     \<and> (blocklisted s \<longrightarrow> blocklisted s')"

lemma standing_tenths_mono: "worse_standing a b \<Longrightarrow> standing_tenths a \<le> standing_tenths b"
  by (cases "as_status a"; cases "as_status b") (auto simp: worse_standing_def standing_tenths_def)

lemma unusual_amount_eq:
  "rel_domain worse_behavior (rs_behavioral s) (rs_behavioral s') \<Longrightarrow> unusual_amount s' rq = unusual_amount s rq"
  by (auto simp: rel_domain_def worse_behavior_def unusual_amount_def split: option.splits)

lemma rule_tenths_mono:
  assumes "worse s s'" shows "list_all2 (\<le>) (rule_tenths s rq) (rule_tenths s' rq)"
proof -
  have u: "unusual_amount s' rq = unusual_amount s rq"
    using assms unusual_amount_eq by (simp add: worse_def)
  have st: "rel_domain worse_standing (rs_account_standing s) (rs_account_standing s')"
    and rh: "rel_domain (\<lambda>a b. rh_chargebacks a \<le> rh_chargebacks b) (rs_refund_history s) (rs_refund_history s')"
    and pi: "rel_domain worse_instrument (rs_payment_instrument s) (rs_payment_instrument s')"
    and bh: "rel_domain worse_behavior (rs_behavioral s) (rs_behavioral s')"
    using assms by (simp_all add: worse_def)
  show ?thesis
    unfolding rule_tenths_def u
  proof (intro list_all2_Cons [THEN iffD2] conjI list.rel_intros, goal_cases)
    case 1
    from rh show ?case by (auto simp: rel_domain_def split: option.splits)
  next
    case 2
    from bh show ?case by (auto simp: rel_domain_def worse_behavior_def split: option.splits)
  next
    case 3
    from pi show ?case by (auto simp: rel_domain_def worse_instrument_def split: option.splits)
  next
    case 4
    from st show ?case using standing_tenths_mono by (auto simp: rel_domain_def split: option.splits)
  next
    case 5
    from bh show ?case by (auto simp: rel_domain_def worse_behavior_def simp del: fl_tenths_simp split: option.splits)
  next
    case 6
    from bh show ?case by (auto simp: rel_domain_def worse_behavior_def split: option.splits)
  next
    case 7
    from bh show ?case by (auto simp: rel_domain_def worse_behavior_def split: option.splits)
  qed simp
qed

lemma exact_tenths_mono: "worse s s' \<Longrightarrow> exact_tenths s rq \<le> exact_tenths s' rq"
  unfolding exact_tenths_def using rule_tenths_mono sum_list_mono2
  by (metis list_all2_conv_all_nth)

lemma level_of_tenths_mono: "t \<le> t' \<Longrightarrow> level_of_tenths t \<le> level_of_tenths t'"
  by (auto simp: level_of_tenths_def less_eq_RiskLevel_def)

lemma level_le_HIGH [simp]: "l \<le> HIGH" for l :: RiskLevel
  by (cases l) (simp_all add: less_eq_RiskLevel_def)

lemma contradiction_tenths: "is_contradiction s \<Longrightarrow> 8 \<le> exact_tenths s rq"
  by (auto simp: is_contradiction_def Let_def exact_tenths_def rule_tenths_def VELOCITY_HIGH_def
      split: option.splits)

lemma worse_vip: "worse s s' \<Longrightarrow> vip_segment s' = vip_segment s"
  by (auto simp: worse_def rel_domain_def worse_standing_def vip_segment_def split: option.splits)

lemma policy_level_mono:
  assumes "worse s s'" "\<not> is_contradiction s'"
  shows "policy_level s rq \<le> policy_level s' rq"
proof (cases "blocklisted s'")
  case False
  then have b: "\<not> blocklisted s" using assms by (auto simp: worse_def)
  note t = exact_tenths_mono [OF assms(1), of rq]
  show ?thesis
  proof (cases "vip_segment s = None \<and> is_contradiction s")
    case True
    then have "8 \<le> exact_tenths s' rq" using contradiction_tenths [of s rq] t by simp
    with False assms(2) show ?thesis by (simp add: policy_level_def level_of_tenths_def)
  next
    case non: False
    with b False assms(2) show ?thesis using level_of_tenths_mono [OF t] by (auto simp: policy_level_def)
  qed
qed (simp add: policy_level_def)

end
