(* ===== verification/Risk_Service.thy ===== *)
theory Risk_Service
  imports Risk_Exact Transport
begin

text \<open>
  The Risk-Fraud agent around its scoring engine: the seeded signals (\<^verbatim>\<open>mock_data.py\<close>) behind the
  signal store (\<^verbatim>\<open>store.py\<close>), the orchestration service (\<^verbatim>\<open>service.py\<close>), the assistive narrative
  (\<^verbatim>\<open>llm_summary.py\<close>), the identity and card (\<^verbatim>\<open>identity.py\<close>) and the task handler of \<^verbatim>\<open>main.py\<close>.
\<close>

section \<open>Seeded signals\<close>

text \<open>
  \<open>_clean_signals\<close>: a clean baseline with field overrides. An override names one field of one of the
  five owned-signal models.
\<close>

datatype risk_override =
    OStatus account_status | OTenure int | OKnownGood bool | OSegment account_segment
  | OPriorRefunds int | OPriorTotal pyfloat | OChargebacks int
  | OBillingMatch bool | OCardTesting bool
  | OVelocity int | OAnomaly pyfloat | ODevice bool | OIpLocation bool | OIpCountry bool
  | ODeviceChanges int | OTypical "pyfloat option"
  | OBlocklist bool

definition upd_standing :: "(AccountStanding \<Rightarrow> AccountStanding) \<Rightarrow> RiskSignals \<Rightarrow> RiskSignals" where
  "upd_standing f s = s\<lparr>rs_account_standing := map_option f (rs_account_standing s)\<rparr>"

definition upd_history :: "(RefundDisputeHistory \<Rightarrow> RefundDisputeHistory) \<Rightarrow> RiskSignals \<Rightarrow> RiskSignals" where
  "upd_history f s = s\<lparr>rs_refund_history := map_option f (rs_refund_history s)\<rparr>"

definition upd_instrument ::
  "(PaymentInstrumentSignal \<Rightarrow> PaymentInstrumentSignal) \<Rightarrow> RiskSignals \<Rightarrow> RiskSignals" where
  "upd_instrument f s = s\<lparr>rs_payment_instrument := map_option f (rs_payment_instrument s)\<rparr>"

definition upd_behavioral :: "(BehavioralSignal \<Rightarrow> BehavioralSignal) \<Rightarrow> RiskSignals \<Rightarrow> RiskSignals" where
  "upd_behavioral f s = s\<lparr>rs_behavioral := map_option f (rs_behavioral s)\<rparr>"

fun apply_override :: "risk_override \<Rightarrow> RiskSignals \<Rightarrow> RiskSignals" where
  "apply_override (OStatus v) s = upd_standing (\<lambda>a. a\<lparr>as_status := v\<rparr>) s"
| "apply_override (OTenure v) s = upd_standing (\<lambda>a. a\<lparr>as_tenure_days := v\<rparr>) s"
| "apply_override (OKnownGood v) s = upd_standing (\<lambda>a. a\<lparr>as_known_good_customer := v\<rparr>) s"
| "apply_override (OSegment v) s = upd_standing (\<lambda>a. a\<lparr>as_segment := v\<rparr>) s"
| "apply_override (OPriorRefunds v) s = upd_history (\<lambda>h. h\<lparr>rh_prior_refunds := v\<rparr>) s"
| "apply_override (OPriorTotal v) s = upd_history (\<lambda>h. h\<lparr>rh_prior_refund_total_amount := v\<rparr>) s"
| "apply_override (OChargebacks v) s = upd_history (\<lambda>h. h\<lparr>rh_chargebacks := v\<rparr>) s"
| "apply_override (OBillingMatch v) s = upd_instrument (\<lambda>p. p\<lparr>pi_billing_details_match := v\<rparr>) s"
| "apply_override (OCardTesting v) s = upd_instrument (\<lambda>p. p\<lparr>pi_card_testing_pattern := v\<rparr>) s"
| "apply_override (OVelocity v) s = upd_behavioral (\<lambda>b. b\<lparr>bh_refund_requests_in_window := v\<rparr>) s"
| "apply_override (OAnomaly v) s = upd_behavioral (\<lambda>b. b\<lparr>bh_anomaly_score := v\<rparr>) s"
| "apply_override (ODevice v) s = upd_behavioral (\<lambda>b. b\<lparr>bh_device_mismatch := v\<rparr>) s"
| "apply_override (OIpLocation v) s = upd_behavioral (\<lambda>b. b\<lparr>bh_ip_location_mismatch := v\<rparr>) s"
| "apply_override (OIpCountry v) s = upd_behavioral (\<lambda>b. b\<lparr>bh_ip_country_mismatch := v\<rparr>) s"
| "apply_override (ODeviceChanges v) s = upd_behavioral (\<lambda>b. b\<lparr>bh_device_change_count := v\<rparr>) s"
| "apply_override (OTypical v) s = upd_behavioral (\<lambda>b. b\<lparr>bh_typical_refund_amount := v\<rparr>) s"
| "apply_override (OBlocklist v) s =
     s\<lparr>rs_known_fraud := map_option (\<lambda>k. k\<lparr>kf_on_blocklist := v\<rparr>) (rs_known_fraud s)\<rparr>"

definition clean_baseline :: "string \<Rightarrow> RiskSignals" where
  "clean_baseline cid =
     \<lparr>rs_customer_id = cid,
      rs_account_standing = Some \<lparr>as_customer_id = cid, as_status = Good, as_tenure_days = 365,
        as_support_abuse_flags = 0, as_known_good_customer = True, as_segment = Standard\<rparr>,
      rs_refund_history = Some \<lparr>rh_customer_id = cid, rh_prior_refunds = 1,
        rh_prior_refund_total_amount = 25, rh_chargebacks = 0, rh_velocity_window_days = 30\<rparr>,
      rs_payment_instrument = Some \<lparr>pi_customer_id = cid, pi_billing_details_match = True,
        pi_card_testing_pattern = False, pi_recent_failed_payments = 0\<rparr>,
      rs_behavioral = Some \<lparr>bh_customer_id = cid, bh_refund_requests_in_window = 0, bh_anomaly_score = 0,
        bh_device_mismatch = False, bh_ip_location_mismatch = False, bh_ip_country_mismatch = False,
        bh_device_change_count = 0, bh_typical_refund_amount = Some 25\<rparr>,
      rs_known_fraud = Some \<lparr>kf_customer_id = cid, kf_on_blocklist = False\<rparr>\<rparr>"

definition clean_signals :: "string \<Rightarrow> risk_override list \<Rightarrow> RiskSignals" where
  "clean_signals cid overrides = foldl (\<lambda>s ov. apply_override ov s) (clean_baseline cid) overrides"

definition missing_history_signals :: RiskSignals where
  "missing_history_signals =
     (let cid = ''CUS-MISSING-HISTORY'' in
      \<lparr>rs_customer_id = cid,
       rs_account_standing = Some \<lparr>as_customer_id = cid, as_status = Good, as_tenure_days = 180,
         as_support_abuse_flags = 0, as_known_good_customer = False, as_segment = Standard\<rparr>,
       rs_refund_history = None,
       rs_payment_instrument = Some \<lparr>pi_customer_id = cid, pi_billing_details_match = True,
         pi_card_testing_pattern = False, pi_recent_failed_payments = 0\<rparr>,
       rs_behavioral = Some \<lparr>bh_customer_id = cid, bh_refund_requests_in_window = 0, bh_anomaly_score = 0,
         bh_device_mismatch = False, bh_ip_location_mismatch = False, bh_ip_country_mismatch = False,
         bh_device_change_count = 0, bh_typical_refund_amount = Some 30\<rparr>,
       rs_known_fraud = Some \<lparr>kf_customer_id = cid, kf_on_blocklist = False\<rparr>\<rparr>)"

definition seeded :: "string \<Rightarrow> risk_override list \<Rightarrow> string \<times> RiskSignals" where
  "seeded cid ovs = (cid, clean_signals cid ovs)"

definition risk_dataset :: "(string, RiskSignals) dict" where
  "risk_dataset =
    [seeded ''CUS-CLEAN'' [],
     seeded ''CUS-CHARGEBACKS'' [OChargebacks 2],
     seeded ''CUS-ONE-CHARGEBACK'' [OChargebacks 1],
     seeded ''CUS-VELOCITY'' [OVelocity 5],
     seeded ''CUS-INSTRUMENT'' [OBillingMatch False],
     seeded ''CUS-CARD-TESTING'' [OCardTesting True],
     seeded ''CUS-NEW-ACCOUNT'' [OTenure 5, OStatus Watch, OKnownGood False],
     seeded ''CUS-ANOMALY'' [OAnomaly (fl (85 / 100))],
     seeded ''CUS-BLOCKLIST'' [OBlocklist True],
     seeded ''CUS-CONTRADICTION'' [OVelocity 5, OBillingMatch False],
     seeded ''CUS-BORDERLINE'' [OChargebacks 1],
     seeded ''CUS-NEW-HIGH-REFUND''
       [OTenure 5, OStatus Good, OKnownGood False, OPriorRefunds 3, OPriorTotal 850, OTypical (Some 50)],
     seeded ''CUS-IP-DEVICE'' [OIpCountry True, ODeviceChanges 3],
     seeded ''CUS-VIP-ENTERPRISE'' [OSegment Enterprise],
     seeded ''CUS-DEVICE'' [ODevice True],
     seeded ''CUS-GEO'' [OIpLocation True],
     seeded ''CUS-UNUSUAL-AMOUNT'' [OTypical (Some 20)],
     (''CUS-MISSING-HISTORY'', missing_history_signals)]"

text \<open>The store: \<open>InMemoryRiskSignalStore.load_signals\<close> is \<^verbatim>\<open>dict.get\<close>.\<close>

definition store_load_signals :: "(string, RiskSignals) dict \<Rightarrow> string \<Rightarrow> RiskSignals option" where
  "store_load_signals records customer_id = dict_get records customer_id"

definition load_signals :: "string \<Rightarrow> RiskSignals option" where
  "load_signals customer_id = store_load_signals risk_dataset customer_id"

section \<open>Orchestration service\<close>

type_synonym risk_validate = "(string, pyval) dict \<Rightarrow> exc + RiskAssessmentRequest"

fun risk_validate_input :: "risk_validate \<Rightarrow> A2APart list \<Rightarrow> exc + RiskAssessmentRequest" where
  "risk_validate_input model_validate [] =
     Inl (ValueError ''No valid data part found in input parts (FR-011)'')"
| "risk_validate_input model_validate (part # parts) =
     (case (pt_type part, pt_data part) of
        (DataPart, Some (kv # kvs)) \<Rightarrow> model_validate (kv # kvs)
      | _ \<Rightarrow> risk_validate_input model_validate parts)"

definition missing_data_assessment :: "string \<Rightarrow> RiskAssessment" where
  "missing_data_assessment customer_id =
     \<lparr>ra_risk_level = LOW,
      ra_recommended_action = RA_REQUEST_MORE_INFORMATION,
      ra_confidence = fl (2 / 10),
      ra_evidence = [evidence ''fraud_policy'' ''Data-completeness gate: no risk signal record found''
        [(''reason'', VStr (''no risk signals for customer_id='' @ repr_str customer_id)),
         (''rule'', VStr ''data-completeness-gate'')]],
      ra_policy_references = [],
      ra_reasoning_summary = ''No risk signal record found for customer_id='' @ repr_str customer_id @ ''. ''
        @ ''Unable to assess risk without owned signal data (FR-010). '' @ ''Manual review required.'',
      ra_requires_human_review = True\<rparr>"

definition risk_opinion :: "RiskAssessmentRequest \<Rightarrow> RiskAssessment" where
  "risk_opinion request =
     (case load_signals (rk_customer_id request) of
        None \<Rightarrow> missing_data_assessment (rk_customer_id request)
      | Some signals \<Rightarrow> assess_signals signals request None)"

definition assess :: "risk_validate \<Rightarrow> A2APart list \<Rightarrow> exc + RiskAssessment \<times> RiskAssessmentRequest" where
  "assess model_validate parts =
     (case risk_validate_input model_validate parts of
        Inl e \<Rightarrow> Inl e
      | Inr request \<Rightarrow> Inr (risk_opinion request, request))"

record RiskNarrative =
  rn_polished_summary :: string
  rn_evidence_explanation :: string

definition to_result_payload ::
  "RiskAssessment \<Rightarrow> RiskAssessmentRequest \<Rightarrow> RiskNarrative option \<Rightarrow> exc + RiskReviewCompletedPayload" where
  "to_result_payload assessment request narrative =
     validate_risk_payload
     \<lparr>rp_ticket_id = rk_ticket_id request,
      rp_recommendation = risk_level_value (ra_risk_level assessment),
      rp_confidence = ra_confidence assessment,
      rp_evidence = ra_evidence assessment,
      rp_reasoning_summary = ra_reasoning_summary assessment,
      rp_requires_human_review = ra_requires_human_review assessment,
      rp_enriched_reasoning_summary = map_option rn_polished_summary narrative,
      rp_evidence_explanation = map_option rn_evidence_explanation narrative\<rparr>"

definition risk_build_a2a_output :: "RiskAssessment \<Rightarrow> RiskNarrative option \<Rightarrow> A2AMessage" where
  "risk_build_a2a_output assessment narrative =
     data_message Agent
       ([(''recommendation'', VStr (risk_level_value (ra_risk_level assessment))),
         (''score'', VFloat (ra_confidence assessment)),
         (''confidence'', VFloat (ra_confidence assessment)),
         (''evidence'', VList (map dump_evidence (ra_evidence assessment))),
         (''reasoning_summary'', VStr (ra_reasoning_summary assessment)),
         (''requires_human_review'', VBool (ra_requires_human_review assessment)),
         (''policy_references'', VList (map VStr (ra_policy_references assessment)))]
        @ (case narrative of
             None \<Rightarrow> []
           | Some n \<Rightarrow> [(''enriched_reasoning_summary'', VStr (rn_polished_summary n)),
                        (''evidence_explanation'', VStr (rn_evidence_explanation n))]))"

section \<open>Assistive narrative\<close>

definition risk_make_fallback :: "RiskAssessment \<Rightarrow> RiskNarrative" where
  "risk_make_fallback assessment =
     \<lparr>rn_polished_summary = ra_reasoning_summary assessment,
      rn_evidence_explanation =
        (let s = py_join ''; '' (map ev_description (take 5 (ra_evidence assessment)))
         in if s = [] then ''No evidence details available.'' else s)\<rparr>"

type_synonym risk_assist =
  "RiskAssessment \<Rightarrow> RiskAssessmentRequest \<Rightarrow> uuid \<Rightarrow> RiskNarrative \<Rightarrow> exc + RiskNarrative"

definition enrich_assessment ::
  "risk_assist \<Rightarrow> RiskAssessment \<Rightarrow> RiskAssessmentRequest \<Rightarrow> uuid option \<Rightarrow> exc + RiskNarrative" where
  "enrich_assessment assist assessment request causation_id =
     assist assessment request (case causation_id of Some c \<Rightarrow> c | None \<Rightarrow> rk_case_id request)
       (risk_make_fallback assessment)"

section \<open>Identity and task handler\<close>

definition risk_identity :: AgentIdentity where
  "risk_identity =
     \<lparr>id_agent_id = ''risk-fraud-agent'', id_display_name = ''Risk Fraud Agent'', id_tenant_id = ''poc''\<rparr>"

definition risk_card :: "string \<Rightarrow> AgentCard" where
  "risk_card env =
     \<lparr>card_agent_id = ''risk-fraud-agent'', card_name = ''Risk Fraud Agent'',
      card_description = ''Assesses fraud risk for refund requests based on owned risk/fraud signals.'',
      card_version = ''1.0.0'', card_endpoint_topic = endpoint_topic env ''risk-fraud-agent'',
      card_capabilities =
        [\<lparr>cap_id = ''assess_fraud_risk'', cap_name = ''Assess Fraud Risk'',
          cap_description = ''Validates the structured refund risk request, loads owned risk/fraud signals, ''
            @ ''and returns a deterministic risk assessment (low / elevated / high) with ''
            @ ''confidence score, evidence, policy references, and a human-review flag. ''
            @ ''Descriptive intent: assess_refund_risk.'',
          cap_tags = [''risk'', ''fraud'', ''refund'']\<rparr>]\<rparr>"

definition risk_narrative_of ::
  "bool \<Rightarrow> risk_assist \<Rightarrow> RiskAssessment \<Rightarrow> RiskAssessmentRequest \<Rightarrow> uuid \<Rightarrow> RiskNarrative option" where
  "risk_narrative_of llm_enabled assist assessment request task_id =
     (if llm_enabled
      then (case enrich_assessment assist assessment request (Some task_id) of
              Inl _ \<Rightarrow> None | Inr n \<Rightarrow> Some n)
      else None)"

definition handle_risk ::
  "runtime_env \<Rightarrow> risk_validate \<Rightarrow> bool \<Rightarrow> risk_assist \<Rightarrow> TaskRequest \<Rightarrow> ('a net_scheme, A2AMessage) io" where
  "handle_risk E model_validate llm_enabled assist req =
     bind_io (lift_exc (assess model_validate (ms_parts (tq_input req)))) (\<lambda>(assessment, request).
     let narrative = risk_narrative_of llm_enabled assist assessment request (tq_task_id req) in
     bind_io (lift_exc (to_result_payload assessment request narrative)) (\<lambda>payload.
     then_io (publish E risk_identity (MRisk payload) (TOPIC_RISK_RESULT (re_environment E))
                (rk_case_id request) (Some (tq_task_id req)) None)
       (return_io (risk_build_a2a_output assessment narrative))))"

section \<open>Properties of the scoring engine\<close>

text \<open>The float score decides exactly as the policy weights in tenths do. The level, the
  borderline test and the level the VIP gate computes with its own summation order all agree with
  exact arithmetic, although 0.1 has no float and the sums round.\<close>

theorem risk_score_exact:
  "score_to_level (sum_contributions (fired_rules s rq)) = level_of_tenths (exact_tenths s rq)
   \<and> (borderline_score (sum_contributions (fired_rules s rq)) \<longleftrightarrow> exact_tenths s rq \<in> {5, 8})
   \<and> score_to_level (compute_score s rq) = level_of_tenths (exact_tenths s rq)"
  by (simp add: scored_level compute_level)

definition sample_risk_request :: RiskAssessmentRequest where
  "sample_risk_request =
     \<lparr>rk_case_id = 1, rk_ticket_id = ''T-1'', rk_customer_id = ''CUS-CLEAN'', rk_requested_refund_amount = None,
      rk_customer_message_summary = None, rk_account_age_days = None, rk_metadata = None\<rparr>"

lemmas clean_defs = clean_signals_def clean_baseline_def upd_standing_def upd_history_def
  upd_instrument_def upd_behavioral_def

text \<open>
  The fraud policy read on its own: the weights that \<^verbatim>\<open>specs/005-risk-fraud-agent/contracts/fraud-policy.md\<close>
  and the rule texts of \<^verbatim>\<open>policy.py\<close> state, in tenths, and the gates of its evaluation order. A missing
  domain fires no rule; long tenure is the thirty days of FP-005.
\<close>

definition fp002_policy :: "RiskSignals \<Rightarrow> nat" where
  "fp002_policy s =
     (case rs_refund_history s of
        None \<Rightarrow> 0
      | Some rh \<Rightarrow> if 2 \<le> rh_chargebacks rh then 8 else if rh_chargebacks rh = 1 then 5 else 0)"

definition fp003_policy :: "RiskSignals \<Rightarrow> nat" where
  "fp003_policy s =
     (case rs_behavioral s of
        None \<Rightarrow> 0
      | Some b \<Rightarrow> if 5 \<le> bh_refund_requests_in_window b then 7
                  else if 3 \<le> bh_refund_requests_in_window b then 4 else 0)"

definition card_testing :: "RiskSignals \<Rightarrow> bool" where
  "card_testing s = (case rs_payment_instrument s of None \<Rightarrow> False | Some p \<Rightarrow> pi_card_testing_pattern p)"

definition details_differ :: "RiskSignals \<Rightarrow> bool" where
  "details_differ s = (case rs_payment_instrument s of None \<Rightarrow> False | Some p \<Rightarrow> \<not> pi_billing_details_match p)"

definition fp005_policy :: "RiskSignals \<Rightarrow> nat" where
  "fp005_policy s =
     (case rs_account_standing s of
        None \<Rightarrow> 0
      | Some a \<Rightarrow>
          (case as_status a of
             Restricted \<Rightarrow> 6 | Watch \<Rightarrow> 3 | Good \<Rightarrow> if as_tenure_days a < 30 then 3 else 0))"

definition fp006_to_8_policy :: "RiskSignals \<Rightarrow> nat" where
  "fp006_to_8_policy s =
     (case rs_behavioral s of
        None \<Rightarrow> 0
      | Some b \<Rightarrow> (if fl (7 / 10) \<le> bh_anomaly_score b then 4 else 0)
          + (if bh_device_mismatch b then 4 else 0)
          + (if bh_ip_location_mismatch b \<or> bh_ip_country_mismatch b then 4 else 0))"

definition fp009_policy :: "RiskSignals \<Rightarrow> RiskAssessmentRequest \<Rightarrow> nat" where
  "fp009_policy s rq =
     (case (rs_behavioral s, rk_requested_refund_amount rq) of
        (Some b, Some requested) \<Rightarrow>
          (case bh_typical_refund_amount b of
             None \<Rightarrow> 0
           | Some typical \<Rightarrow> if 0 < typical \<and> fl (typical * 3) \<le> fl requested then 3 else 0)
      | _ \<Rightarrow> 0)"

definition policy_tenths :: "RiskSignals \<Rightarrow> RiskAssessmentRequest \<Rightarrow> nat" where
  "policy_tenths s rq =
     fp002_policy s + fp003_policy s + (if card_testing s then 6 else 0) + (if details_differ s then 4 else 0)
     + fp005_policy s + fp006_to_8_policy s + fp009_policy s rq"

definition conflicting_history :: "RiskSignals \<Rightarrow> bool" where
  "conflicting_history s \<longleftrightarrow>
     (case rs_account_standing s of
        None \<Rightarrow> False | Some a \<Rightarrow> as_status a = Good \<and> 30 \<le> as_tenure_days a)
     \<and> (case rs_refund_history s of None \<Rightarrow> True | Some rh \<Rightarrow> rh_chargebacks rh = 0)
     \<and> (case rs_behavioral s of None \<Rightarrow> False | Some b \<Rightarrow> 5 \<le> bh_refund_requests_in_window b)
     \<and> details_differ s"

definition fraud_contract :: "RiskSignals \<Rightarrow> RiskAssessmentRequest \<Rightarrow> RiskLevel" where
  "fraud_contract s rq =
     (if (case rs_known_fraud s of None \<Rightarrow> False | Some k \<Rightarrow> kf_on_blocklist k) then HIGH
      else if conflicting_history s then ELEVATED
      else if 8 \<le> policy_tenths s rq then HIGH
      else if 5 \<le> policy_tenths s rq then ELEVATED else LOW)"

text \<open>
  Where the engine weighs differently. It adds a tenth for each of velocity, mismatch without card
  testing and anomaly, and three for a new account on watch; it leaves out the four tenths of the
  mismatch when card testing fires.
\<close>

definition engine_adds :: "RiskSignals \<Rightarrow> nat" where
  "engine_adds s =
     (case rs_behavioral s of
        None \<Rightarrow> 0
      | Some b \<Rightarrow> (if 3 \<le> bh_refund_requests_in_window b then 1 else 0)
          + (if fl (7 / 10) \<le> bh_anomaly_score b then 1 else 0))
     + (if details_differ s \<and> \<not> card_testing s then 1 else 0)
     + (case rs_account_standing s of
          None \<Rightarrow> 0 | Some a \<Rightarrow> if as_status a = Watch \<and> as_tenure_days a < 30 then 3 else 0)"

definition engine_omits :: "RiskSignals \<Rightarrow> nat" where
  "engine_omits s = (if card_testing s \<and> details_differ s then 4 else 0)"

lemma unusual_tenths: "fp009_policy s rq = (if unusual_amount s rq then 3 else 0)"
  by (auto simp: fp009_policy_def unusual_amount_def UNUSUAL_AMOUNT_RATIO_def f_mul_def split: option.split)

lemma history_tenths:
  "fp002_policy s = (case rs_refund_history s of None \<Rightarrow> 0
     | Some rh \<Rightarrow> if rh_chargebacks rh \<ge> 2 then 8 else if rh_chargebacks rh \<ge> 1 then 5 else 0)"
  by (auto simp: fp002_policy_def split: option.split)

lemma standing_policy:
  "(case rs_account_standing s of None \<Rightarrow> 0 | Some a \<Rightarrow> standing_tenths a) =
     fp005_policy s + (case rs_account_standing s of
       None \<Rightarrow> 0 | Some a \<Rightarrow> if as_status a = Watch \<and> as_tenure_days a < 30 then 3 else 0)"
proof (cases "rs_account_standing s")
  case (Some a)
  then show ?thesis by (cases "as_status a") (simp_all add: fp005_policy_def standing_tenths_def)
qed (simp add: fp005_policy_def)

lemma instrument_policy:
  "(case rs_payment_instrument s of None \<Rightarrow> 0
     | Some p \<Rightarrow> if pi_card_testing_pattern p then 6 else if \<not> pi_billing_details_match p then 5 else 0) =
   (if card_testing s then 6 else if details_differ s then 5 else (0::nat))"
  by (simp add: card_testing_def details_differ_def split: option.split)

lemma tenths_versus_policy: "exact_tenths s rq + engine_omits s = policy_tenths s rq + engine_adds s"
  by (cases "rs_behavioral s")
    (simp_all del: fl_tenths_simp add: exact_tenths_def rule_tenths_def instrument_policy standing_policy history_tenths
      unusual_tenths policy_tenths_def engine_adds_def engine_omits_def fp003_policy_def fp006_to_8_policy_def)

lemma conflict_gate: "is_contradiction s \<longleftrightarrow> conflicting_history s"
  by (auto simp: is_contradiction_def conflicting_history_def details_differ_def risk_constants Let_def
      split: option.splits)

lemma conflicting_velocity: "conflicting_history s \<Longrightarrow> 8 \<le> exact_tenths s rq"
  by (auto simp: conflicting_history_def exact_tenths_def rule_tenths_def split: option.splits)

text \<open>C27: the engine against the fraud policy. A blocklisted customer is high risk whatever else is
  known; otherwise the level is the one of the policy's weights with the five deviations of
  \<open>engine_adds\<close> and \<open>engine_omits\<close>, in exact tenths although the code sums floats, except that a
  contradiction outside the VIP segments is elevated. Where no deviation applies the level is the policy's;
  unless card testing and a mismatch come together it is never below the policy's. VIP and enterprise accounts, contradictions and chargebacks at the
  elevated level go to a human, and level and review fix the recommended action.\<close>

theorem risk_refines_policy:
  "ra_risk_level (assess_signals s rq pol) =
     (if (case rs_known_fraud s of None \<Rightarrow> False | Some k \<Rightarrow> kf_on_blocklist k) then HIGH
      else if vip_segment s = None \<and> conflicting_history s then ELEVATED
      else if 8 \<le> policy_tenths s rq + engine_adds s - engine_omits s then HIGH
      else if 5 \<le> policy_tenths s rq + engine_adds s - engine_omits s then ELEVATED else LOW)
   \<and> (engine_adds s = 0 \<and> engine_omits s = 0 \<longrightarrow>
        ra_risk_level (assess_signals s rq pol) = fraud_contract s rq)
   \<and> (engine_omits s = 0 \<longrightarrow> fraud_contract s rq \<le> ra_risk_level (assess_signals s rq pol))
   \<and> (ra_requires_human_review (assess_signals s rq pol) \<longleftrightarrow>
        \<not> (case rs_known_fraud s of None \<Rightarrow> False | Some k \<Rightarrow> kf_on_blocklist k)
        \<and> (vip_segment s \<noteq> None \<or> conflicting_history s
           \<or> has_chargeback s \<and> ra_risk_level (assess_signals s rq pol) = ELEVATED))
   \<and> ra_recommended_action (assess_signals s rq pol) =
       (if ra_requires_human_review (assess_signals s rq pol) then RA_MANUAL_REVIEW
        else case ra_risk_level (assess_signals s rq pol) of
               HIGH \<Rightarrow> DENY_OR_ESCALATE | ELEVATED \<Rightarrow> ALLOW_WITH_CAUTION | LOW \<Rightarrow> APPROVE_RISK_CLEARANCE)"
  (is "?level \<and> ?same \<and> ?above \<and> ?review \<and> ?action")
proof (intro conjI)
  note defs = assess_level policy_level_def blocklisted_def conflict_gate level_of_tenths_def
  have t: "exact_tenths s rq = policy_tenths s rq + engine_adds s - engine_omits s"
    using tenths_versus_policy [of s rq] by simp
  show ?level unfolding defs t by simp
  have no_conflict: "\<not> conflicting_history s" if "engine_adds s = 0"
    using that by (auto simp: conflicting_history_def engine_adds_def split: option.splits)
  show ?same unfolding defs t fraud_contract_def using no_conflict by auto
  show ?above
  proof
    assume "engine_omits s = 0"
    then have le: "policy_tenths s rq \<le> exact_tenths s rq" using t by simp
    show "fraud_contract s rq \<le> ra_risk_level (assess_signals s rq pol)"
      unfolding defs fraud_contract_def using le conflicting_velocity [of s rq]
      by (auto simp: less_eq_RiskLevel_def)
  qed
  show review: ?review
    unfolding assess_review conflict_gate blocklisted_def [symmetric] assess_level by blast
  have "\<not> has_chargeback s \<or> policy_level s rq \<noteq> ELEVATED"
    if "\<not> ra_requires_human_review (assess_signals s rq pol)"
    using that assess_review [of s rq pol] by (auto simp: policy_level_def)
  then show ?action unfolding assess_action assess_level by (cases "policy_level s rq") auto
qed

text \<open>A restricted account without other signals: no deviation, and the level the policy gives.\<close>

theorem risk_refines_policy_witness:
  "ra_risk_level (assess_signals (clean_signals ''CUS-1'' [OStatus Restricted]) sample_risk_request None) =
     fraud_contract (clean_signals ''CUS-1'' [OStatus Restricted]) sample_risk_request
   \<and> fraud_contract (clean_signals ''CUS-1'' [OStatus Restricted]) sample_risk_request = ELEVATED"
proof -
  let ?s = "clean_signals ''CUS-1'' [OStatus Restricted]"
  have "engine_adds ?s = 0" "engine_omits ?s = 0" "fraud_contract ?s sample_risk_request = ELEVATED"
    by code_simp+
  then show ?thesis using risk_refines_policy [of ?s sample_risk_request None] by blast
qed

text \<open>The deviations change verdicts: three refund requests in the window are low in the policy and
  elevated in the code, card testing on a mismatched instrument is high in the policy and elevated
  in the code.\<close>

lemma fraud_contract_differs:
  "fraud_contract (clean_signals ''CUS-1'' [OVelocity 3]) sample_risk_request = LOW"
  "ra_risk_level (assess_signals (clean_signals ''CUS-1'' [OVelocity 3]) sample_risk_request None) = ELEVATED"
  "fraud_contract (clean_signals ''CUS-1'' [OCardTesting True, OBillingMatch False]) sample_risk_request = HIGH"
  "ra_risk_level (assess_signals (clean_signals ''CUS-1'' [OCardTesting True, OBillingMatch False])
     sample_risk_request None) = ELEVATED"
  by code_simp+

text \<open>Risk is monotone in the signals. If every signal of one customer is at least as bad as
  another's, and the worse set is not one the contradiction gate takes out, its level is at least as
  high.\<close>

theorem risk_monotone:
  assumes "worse s s'" and "\<not> is_contradiction s'"
  shows "ra_risk_level (assess_signals s rq pol) \<le> ra_risk_level (assess_signals s' rq pol)"
  unfolding assess_level by (rule policy_level_mono [OF assms])

lemma worse_chargeback:
  "worse (clean_signals ''C'' []) (clean_signals ''C'' [OChargebacks 2])"
  "\<not> is_contradiction (clean_signals ''C'' [OChargebacks 2])"
  by (simp_all add: worse_def rel_domain_def worse_standing_def worse_instrument_def worse_behavior_def
      blocklisted_def clean_defs is_contradiction_def VELOCITY_HIGH_def)

theorem risk_monotone_witness:
  "ra_risk_level (assess_signals (clean_signals ''C'' []) sample_risk_request None)
     \<le> ra_risk_level (assess_signals (clean_signals ''C'' [OChargebacks 2]) sample_risk_request None)"
  by (rule risk_monotone [OF worse_chargeback])

lemma clean_vip: "vip_segment (clean_signals cid [OVelocity v, OBillingMatch m]) = None"
  and clean_block: "\<not> blocklisted (clean_signals cid [OVelocity v, OBillingMatch m])"
  by (simp_all add: clean_defs vip_segment_def blocklisted_def)

text \<open>The contradiction gate is the one place where more evidence of fraud lowers the level. A
  clean, long-standing customer with a mismatched instrument is high risk at four refund requests in
  the window and only elevated, for a human, at five.\<close>

theorem risk_contradiction_lowers:
  "ra_risk_level (assess_signals (clean_signals cid [OVelocity 4, OBillingMatch False]) sample_risk_request pol) = HIGH
   \<and> ra_risk_level (assess_signals (clean_signals cid [OVelocity 5, OBillingMatch False]) sample_risk_request pol) = ELEVATED
   \<and> worse (clean_signals cid [OVelocity 4, OBillingMatch False])
       (clean_signals cid [OVelocity 5, OBillingMatch False])"
  unfolding assess_level policy_level_def
  by (simp add: clean_vip clean_block)
    (simp add: clean_defs is_contradiction_def risk_constants exact_tenths_def rule_tenths_def
      standing_tenths_def unusual_amount_def level_of_tenths_def worse_def rel_domain_def worse_standing_def
      worse_instrument_def worse_behavior_def blocklisted_def sample_risk_request_def)

lemma anomaly_seed: "fl (7 / 10) \<le> fl (85 / 100)"
  by (rule fl_mono) simp

lemma seeded_level:
  "rk_requested_refund_amount rq = None \<Longrightarrow>
     map (\<lambda>(cid, s). (cid, policy_level s rq)) risk_dataset =
    [(''CUS-CLEAN'', LOW), (''CUS-CHARGEBACKS'', HIGH), (''CUS-ONE-CHARGEBACK'', ELEVATED),
     (''CUS-VELOCITY'', HIGH), (''CUS-INSTRUMENT'', ELEVATED), (''CUS-CARD-TESTING'', ELEVATED),
     (''CUS-NEW-ACCOUNT'', ELEVATED), (''CUS-ANOMALY'', ELEVATED), (''CUS-BLOCKLIST'', HIGH),
     (''CUS-CONTRADICTION'', ELEVATED), (''CUS-BORDERLINE'', ELEVATED), (''CUS-NEW-HIGH-REFUND'', LOW),
     (''CUS-IP-DEVICE'', LOW), (''CUS-VIP-ENTERPRISE'', LOW), (''CUS-DEVICE'', LOW), (''CUS-GEO'', LOW),
     (''CUS-UNUSUAL-AMOUNT'', LOW), (''CUS-MISSING-HISTORY'', LOW)]"
  using anomaly_seed
  by (simp add: risk_dataset_def seeded_def policy_level_def clean_defs is_contradiction_def risk_constants
      exact_tenths_def rule_tenths_def standing_tenths_def unusual_amount_def level_of_tenths_def
      blocklisted_def vip_segment_def missing_history_signals_def Let_def)

text \<open>The levels of the seeded customers for a request without an amount. The device, location,
  new-account and unusual-amount customers come out low, although the comments beside them in the
  dataset expect an elevated level.\<close>

theorem risk_seeded_levels:
  assumes "rk_requested_refund_amount rq = None"
  shows "map (\<lambda>(cid, s). (cid, ra_risk_level (assess_signals s rq None))) risk_dataset =
    [(''CUS-CLEAN'', LOW), (''CUS-CHARGEBACKS'', HIGH), (''CUS-ONE-CHARGEBACK'', ELEVATED),
     (''CUS-VELOCITY'', HIGH), (''CUS-INSTRUMENT'', ELEVATED), (''CUS-CARD-TESTING'', ELEVATED),
     (''CUS-NEW-ACCOUNT'', ELEVATED), (''CUS-ANOMALY'', ELEVATED), (''CUS-BLOCKLIST'', HIGH),
     (''CUS-CONTRADICTION'', ELEVATED), (''CUS-BORDERLINE'', ELEVATED), (''CUS-NEW-HIGH-REFUND'', LOW),
     (''CUS-IP-DEVICE'', LOW), (''CUS-VIP-ENTERPRISE'', LOW), (''CUS-DEVICE'', LOW), (''CUS-GEO'', LOW),
     (''CUS-UNUSUAL-AMOUNT'', LOW), (''CUS-MISSING-HISTORY'', LOW)]"
  using seeded_level [OF assms] by (simp add: assess_level)

theorem risk_seeded_levels_witness:
  "map_of (map (\<lambda>(cid, s). (cid, ra_risk_level (assess_signals s sample_risk_request None))) risk_dataset)
     ''CUS-VELOCITY'' = Some HIGH"
  by (subst risk_seeded_levels) (simp_all add: sample_risk_request_def)

text \<open>A customer record without any signal domain is cleared with high confidence: the
  missing-history rule needs some other domain to be present, so nothing lowers the confidence.\<close>

theorem risk_empty_signals_cleared:
  "let s = \<lparr>rs_customer_id = cid, rs_account_standing = None, rs_refund_history = None,
            rs_payment_instrument = None, rs_behavioral = None, rs_known_fraud = None\<rparr> in
   ra_recommended_action (assess_signals s rq pol) = APPROVE_RISK_CLEARANCE
   \<and> ra_confidence (assess_signals s rq pol) = fl (9 / 10)
   \<and> \<not> ra_requires_human_review (assess_signals s rq pol)"
  by (simp add: Let_def assess_signals_def blocklisted_def vip_segment_def is_contradiction_def
      fired_rules_def fp002_def fp003_def fp004_def fp005_def fp006_def fp007_def fp008_def fp009_def
      unusual_amount_def missing_history_def clean_result_def)

section \<open>Properties of the task handler\<close>

lemma risk_identity_valid: "AGENT_ID_RE (id_agent_id risk_identity)" "TENANT_ID_RE (id_tenant_id risk_identity)"
  by code_simp+

lemma risk_opinion_confidence: "in_unit (ra_confidence (risk_opinion request))"
  using risk_peer.conf_unit [of "(_, request, None)"]
  by (simp add: risk_opinion_def missing_data_assessment_def in_unit_def split: option.splits)

lemma handle_risk_valid:
  assumes "type_segment (re_environment E)"
    and v: "risk_validate_input mv (ms_parts (tq_input req)) = Inr request"
    and n: "narrative = risk_narrative_of llm assist (risk_opinion request) request (tq_task_id req)"
  obtains payload env w' where
    "to_result_payload (risk_opinion request) request narrative = Inr payload"
    "en_correlation_id env = rk_case_id request" "en_causation_id env = Some (tq_task_id req)"
    "handle_risk E mv llm assist req w =
       (if re_send_ok E (nt_sends w) then Inr (risk_build_a2a_output (risk_opinion request) narrative)
        else Inl (TransportError ''send failed''), w')"
    "nt_log w' = nt_log w @
       (if re_send_ok E (nt_sends w)
        then [\<lparr>sn_topic = TOPIC_RISK_RESULT (re_environment E), sn_key = Inl (en_event_id env),
               sn_envelope = env, sn_model = MRisk payload\<rparr>] else [])"
proof -
  obtain payload where p: "to_result_payload (risk_opinion request) request narrative = Inr payload"
    using risk_opinion_confidence [of request] by (simp add: to_result_payload_def validate_risk_payload_def)
  have t: "(TOPIC_RISK_RESULT (re_environment E), class_name (MRisk payload)) \<in> set (domain_topics (re_environment E))"
    by (simp add: domain_topics_def)
  note pub = publish_domain [OF assms(1) t risk_identity_valid, of "rk_case_id request" "tq_task_id req" w]
  define env where "env = domain_envelope E risk_identity (MRisk payload)
    (TOPIC_RISK_RESULT (re_environment E)) (rk_case_id request) (Some (tq_task_id req)) w"
  have h: "handle_risk E mv llm assist req w =
      (if re_send_ok E (nt_sends w) then Inr (risk_build_a2a_output (risk_opinion request) narrative)
        else Inl (TransportError ''send failed''),
       snd (publish E risk_identity (MRisk payload) (TOPIC_RISK_RESULT (re_environment E))
         (rk_case_id request) (Some (tq_task_id req)) None w))"
    using p by (simp add: handle_risk_def assess_def v bind_io_def pub lift_exc_def then_io_def
        return_io_def Let_def flip: n)
  show thesis
    by (rule that [OF p _ _ h, of env]; simp add: pub env_def Let_def)
qed

lemma risk_output_data:
  "\<exists>data. risk_build_a2a_output a narrative = data_message Agent data
     \<and> dict_get data ''recommendation'' = Some (VStr (risk_level_value (ra_risk_level a)))
     \<and> dict_get data ''confidence'' = Some (VFloat (ra_confidence a))
     \<and> dict_get data ''requires_human_review'' = Some (VBool (ra_requires_human_review a))"
  unfolding risk_build_a2a_output_def by (rule exI, intro conjI, rule refl) simp_all

text \<open>Dual-path delivery of the risk verdict. When the handler returns, exactly one event was
  published, on the risk-result topic, correlated with the case and caused by the task; event and
  reply carry the level, confidence and review flag of the scoring engine, whatever the language
  model does.\<close>

theorem risk_dual_path:
  assumes "type_segment (re_environment E)"
    and "risk_validate_input mv (ms_parts (tq_input req)) = Inr request"
    and "handle_risk E mv llm assist req w = (Inr out, w')"
  shows "\<exists>payload env data.
    nt_log w' = nt_log w @ [\<lparr>sn_topic = TOPIC_RISK_RESULT (re_environment E),
        sn_key = Inl (en_event_id env), sn_envelope = env, sn_model = MRisk payload\<rparr>]
    \<and> en_correlation_id env = rk_case_id request \<and> en_causation_id env = Some (tq_task_id req)
    \<and> out = data_message Agent data
    \<and> dict_get data ''recommendation'' = Some (VStr (rp_recommendation payload))
    \<and> dict_get data ''confidence'' = Some (VFloat (rp_confidence payload))
    \<and> dict_get data ''requires_human_review'' = Some (VBool (rp_requires_human_review payload))
    \<and> rp_recommendation payload = risk_level_value (ra_risk_level (risk_opinion request))
    \<and> rp_confidence payload = ra_confidence (risk_opinion request)
    \<and> rp_requires_human_review payload = ra_requires_human_review (risk_opinion request)
    \<and> rp_evidence payload = ra_evidence (risk_opinion request)"
proof -
  let ?a = "risk_opinion request"
  let ?n = "risk_narrative_of llm assist ?a request (tq_task_id req)"
  obtain payload env w1 where p: "to_result_payload ?a request ?n = Inr payload"
    and env: "en_correlation_id env = rk_case_id request" "en_causation_id env = Some (tq_task_id req)"
    and h: "handle_risk E mv llm assist req w =
       (if re_send_ok E (nt_sends w) then Inr (risk_build_a2a_output ?a ?n)
        else Inl (TransportError ''send failed''), w1)"
    and l: "nt_log w1 = nt_log w @
       (if re_send_ok E (nt_sends w)
        then [\<lparr>sn_topic = TOPIC_RISK_RESULT (re_environment E), sn_key = Inl (en_event_id env),
               sn_envelope = env, sn_model = MRisk payload\<rparr>] else [])"
    by (rule handle_risk_valid [OF assms(1,2) refl])
  from h assms(3) have ok: "re_send_ok E (nt_sends w)" "w1 = w'" and out: "out = risk_build_a2a_output ?a ?n"
    by (auto split: if_splits)
  have "rp_recommendation payload = risk_level_value (ra_risk_level ?a)"
    "rp_confidence payload = ra_confidence ?a" "rp_evidence payload = ra_evidence ?a"
    "rp_requires_human_review payload = ra_requires_human_review ?a"
    using p by (auto simp: to_result_payload_def validate_risk_payload_def split: if_splits)
  with l ok env risk_output_data [of ?a ?n] show ?thesis unfolding out by (simp only: if_True) metis
qed

theorem risk_dual_path_witness:
  "\<exists>out w' payload env.
    handle_risk sample_env (\<lambda>_. Inr sample_risk_request) False (\<lambda>_ _ _ n. Inr n)
      (sample_task ''assess_fraud_risk'' [(''k'', VNone)]) sample_net = (Inr out, w')
    \<and> nt_log w' = [\<lparr>sn_topic = ''local.risk.review.completed.v1'',
        sn_key = Inl (en_event_id env), sn_envelope = env, sn_model = MRisk payload\<rparr>]
    \<and> en_correlation_id env = 1"
proof -
  let ?h = "handle_risk sample_env (\<lambda>_. Inr sample_risk_request) False (\<lambda>_ _ _ n. Inr n)
      (sample_task ''assess_fraud_risk'' [(''k'', VNone)]) sample_net"
  have v: "risk_validate_input (\<lambda>_. Inr sample_risk_request)
      (ms_parts (tq_input (sample_task ''assess_fraud_risk'' [(''k'', VNone)]))) = Inr sample_risk_request"
    by (simp add: sample_task_def data_message_def)
  obtain out w' where h: "?h = (Inr out, w')"
    by (rule handle_risk_valid [OF sample_env_segment v refl, of False "\<lambda>_ _ _ n. Inr n"])
      (simp add: sample_env_def)
  show ?thesis
    using risk_dual_path [OF sample_env_segment v h] h
    by (auto simp: sample_net_def sample_risk_request_def sample_env_def topic_defs)
qed

end
