(* ===== verification/Idempotency.thy ===== *)
theory Idempotency
  imports Py_Text
begin

text \<open>
  The idempotency tracker, \<^verbatim>\<open>src/agent_foundation/idempotency.py\<close>: an LRU cache of processed
  identifiers, persisted to a compacted topic and rebuilt from it at start-up. The key order of the
  \<^verbatim>\<open>OrderedDict\<close> is a list, oldest first.

  The broker is a parameter: whether creating the topics and each write succeed, and the records a
  fresh consumer polls, batch by batch (\<open>None\<close> for a record without a readable \<^verbatim>\<open>event_id\<close>).
\<close>

section \<open>The cache\<close>

record lru_cache =
  lr_cache :: "uuid list"
  lr_maxsize :: nat

definition new_lru :: "nat \<Rightarrow> lru_cache" where
  "new_lru n = \<lparr>lr_cache = [], lr_maxsize = n\<rparr>"

definition LRU_MAXSIZE :: nat where
  "LRU_MAXSIZE = 10000"

definition set_key :: "uuid \<Rightarrow> uuid list \<Rightarrow> uuid list" where
  "set_key k xs = (if k \<in> set xs then xs else xs @ [k])"

definition move_to_end :: "uuid \<Rightarrow> uuid list \<Rightarrow> uuid list" where
  "move_to_end k xs = filter (\<lambda>x. x \<noteq> k) xs @ [k]"

definition lru_contains :: "uuid \<Rightarrow> lru_cache \<Rightarrow> bool \<times> lru_cache" where
  "lru_contains k c =
     (if k \<in> set (lr_cache c) then (True, c\<lparr>lr_cache := move_to_end k (lr_cache c)\<rparr>) else (False, c))"

definition lru_add :: "uuid \<Rightarrow> lru_cache \<Rightarrow> lru_cache" where
  "lru_add k c =
     (let xs = move_to_end k (set_key k (lr_cache c))
      in c\<lparr>lr_cache := (if lr_maxsize c < length xs then tl xs else xs)\<rparr>)"

section \<open>The tracker\<close>

record tracker =
  tk_consumer_name :: string
  tk_lru :: lru_cache
  tk_initialized :: bool
  tk_persisted :: "(string \<times> string) list"
  tk_writes :: nat

definition new_tracker :: "string \<Rightarrow> tracker" where
  "new_tracker name = \<lparr>tk_consumer_name = name, tk_lru = new_lru LRU_MAXSIZE, tk_initialized = False,
     tk_persisted = [], tk_writes = 0\<rparr>"

definition load_record :: "string option \<Rightarrow> lru_cache \<Rightarrow> lru_cache" where
  "load_record r c = (case Option.bind r parse_uuid of None \<Rightarrow> c | Some u \<Rightarrow> lru_add u c)"

text \<open>The polls end with the first empty one, or when polling raises and no further batch comes.\<close>

fun rebuild_from_topic :: "string option list list \<Rightarrow> lru_cache \<Rightarrow> lru_cache" where
  "rebuild_from_topic [] c = c"
| "rebuild_from_topic (batch # polls) c =
     (if batch = [] then c else rebuild_from_topic polls (fold load_record batch c))"

text \<open>\<open>polled\<close> is \<open>None\<close> when the topics cannot be created or the consumer cannot start.\<close>

definition initialize :: "string option list list option \<Rightarrow> tracker \<Rightarrow> tracker" where
  "initialize polled t =
     (case polled of
        None \<Rightarrow> t\<lparr>tk_initialized := True\<rparr>
      | Some polls \<Rightarrow> t\<lparr>tk_lru := rebuild_from_topic polls (tk_lru t), tk_initialized := True\<rparr>)"

definition is_duplicate :: "string option list list option \<Rightarrow> uuid \<Rightarrow> tracker \<Rightarrow> bool \<times> tracker" where
  "is_duplicate polled k t =
     (let t' = (if tk_initialized t then t else initialize polled t);
          (hit, lru) = lru_contains k (tk_lru t')
      in (hit, t'\<lparr>tk_lru := lru\<rparr>))"

definition persist :: "string \<Rightarrow> (nat \<Rightarrow> bool) \<Rightarrow> uuid \<Rightarrow> tracker \<Rightarrow> tracker" where
  "persist env write_ok k t =
     (let t' = t\<lparr>tk_writes := Suc (tk_writes t)\<rparr>
      in if write_ok (tk_writes t)
         then t'\<lparr>tk_persisted := tk_persisted t @ [(processed_id_topic env (tk_consumer_name t), show_uuid k)]\<rparr>
         else t')"

definition mark_processed :: "string \<Rightarrow> (nat \<Rightarrow> bool) \<Rightarrow> uuid \<Rightarrow> tracker \<Rightarrow> tracker" where
  "mark_processed env write_ok k t = persist env write_ok k (t\<lparr>tk_lru := lru_add k (tk_lru t)\<rparr>)"

section \<open>The cache holds the most recent identifiers\<close>

definition last_n :: "nat \<Rightarrow> 'a list \<Rightarrow> 'a list" where
  "last_n n xs = drop (length xs - n) xs"

lemma remdups_snoc: "remdups (xs @ [k]) = filter (\<lambda>x. x \<noteq> k) (remdups xs) @ [k]"
  by (induction xs) auto

lemma filter_neq_remove1: "distinct xs \<Longrightarrow> filter (\<lambda>x. x \<noteq> k) xs = remove1 k xs"
  by (induction xs) (auto simp: filter_id_conv)

lemma move_set_key: "move_to_end k (set_key k xs) = filter (\<lambda>x. x \<noteq> k) xs @ [k]"
  by (simp add: move_to_end_def set_key_def)

lemma last_n_append: "length ys \<le> n \<Longrightarrow> last_n n (xs @ ys) = drop (length xs - (n - length ys)) xs @ ys"
  by (auto simp: last_n_def)

text \<open>Adding to a window of the most recent identifiers gives the window of the longer history.\<close>

lemma last_n_touch:
  fixes d :: "'a list" and k :: 'a and n :: nat
  assumes "distinct d"
  defines "ys \<equiv> filter (\<lambda>x. x \<noteq> k) (last_n n d) @ [k]"
  shows "(if n < length ys then tl ys else ys) = last_n n (filter (\<lambda>x. x \<noteq> k) d @ [k])"
proof -
  define pre xs where "pre = take (length d - n) d" and "xs = last_n n d"
  define a b where "a = filter (\<lambda>x. x \<noteq> k) pre" and "b = filter (\<lambda>x. x \<noteq> k) xs"
  have d: "d = pre @ xs" by (simp add: pre_def xs_def last_n_def)
  have ys: "ys = b @ [k]" by (simp add: ys_def b_def xs_def)
  have lx: "length xs = min n (length d)" by (simp add: xs_def last_n_def)
  have lb: "length b \<le> length xs" by (simp add: b_def)
  have f: "filter (\<lambda>x. x \<noteq> k) d @ [k] = a @ ys" by (simp add: d a_def b_def ys)
  show ?thesis
  proof (cases "n < length ys")
    case True
    then have "length b = n" using lx lb by (simp add: ys)
    then show ?thesis using True f by (cases b) (simp_all add: ys last_n_def)
  next
    case False
    show ?thesis
    proof (cases "length d \<le> n")
      case True
      then show ?thesis using False f by (simp add: a_def pre_def last_n_def)
    next
      case long: False
      then have "length b < length xs" using False lx by (simp add: ys)
      then have "k \<in> set xs" by (metis (mono_tags, lifting) b_def filter_True less_irrefl)
      then have "length b = n - 1" using assms(1) lx long by (simp add: d b_def filter_neq_remove1 length_remove1)
      then show ?thesis using False f long by (simp add: ys last_n_append)
    qed
  qed
qed

lemma lru_add_window:
  "lr_cache c = last_n (lr_maxsize c) (remdups ks)
     \<Longrightarrow> lr_cache (lru_add k c) = last_n (lr_maxsize c) (remdups (ks @ [k]))"
  using last_n_touch [of "remdups ks" "lr_maxsize c" k]
  by (simp add: lru_add_def move_set_key remdups_snoc Let_def)

lemma lru_add_maxsize [simp]: "lr_maxsize (lru_add k c) = lr_maxsize c"
  by (simp add: lru_add_def Let_def)

lemma fold_lru_maxsize [simp]: "lr_maxsize (fold lru_add ks c) = lr_maxsize c"
  by (induction ks arbitrary: c) simp_all

lemma fold_lru_add: "lr_cache (fold lru_add ks (new_lru n)) = last_n n (remdups ks)"
proof (induction ks rule: rev_induct)
  case Nil
  show ?case by (simp add: new_lru_def last_n_def)
next
  case (snoc k ks)
  then show ?case using lru_add_window [of "fold lru_add ks (new_lru n)" ks k] by (simp add: new_lru_def)
qed

lemma remdups_append_filter: "remdups (xs @ ys) = filter (\<lambda>x. x \<notin> set ys) (remdups xs) @ remdups ys"
  by (induction xs) auto

lemma last_n_member:
  assumes "k \<notin> set ks'"
  shows "k \<in> set (last_n n (remdups (ks @ k # ks'))) \<longleftrightarrow> card (set ks') < n"
proof -
  define a where "a = filter (\<lambda>x. x \<notin> set (k # ks')) (remdups ks)"
  have r: "remdups (ks @ k # ks') = a @ k # remdups ks'"
    using assms by (simp add: remdups_append_filter a_def)
  have k: "k \<notin> set a" "k \<notin> set (remdups ks')" using assms by (auto simp: a_def)
  have "k \<in> set (drop m (a @ k # remdups ks')) \<longleftrightarrow> m \<le> length a" for m
    using k by (auto simp: drop_Cons' dest: in_set_dropD)
  then have "k \<in> set (last_n n (a @ k # remdups ks')) \<longleftrightarrow> length (a @ k # remdups ks') - n \<le> length a"
    by (simp only: last_n_def)
  then show ?thesis by (auto simp: r length_remdups_card_conv)
qed

text \<open>
  Both operations that change the cache: adding an identifier, and looking one up, which moves a hit to the end. The
  reference is the history of uses: additions, and lookups that hit, where a lookup hits if the
  identifier is among the most recent uses.
\<close>

datatype lru_op = Add uuid | Look uuid

fun lru_do :: "lru_op \<Rightarrow> lru_cache \<Rightarrow> lru_cache" where
  "lru_do (Add k) c = lru_add k c"
| "lru_do (Look k) c = snd (lru_contains k c)"

definition recent :: "nat \<Rightarrow> uuid list \<Rightarrow> uuid list" where
  "recent n us = last_n n (remdups us)"

fun used :: "nat \<Rightarrow> lru_op list \<Rightarrow> uuid list \<Rightarrow> uuid list" where
  "used n [] us = us"
| "used n (Add k # ops) us = used n ops (us @ [k])"
| "used n (Look k # ops) us = used n ops (if k \<in> set (recent n us) then us @ [k] else us)"

lemma recent_bounds: "length (recent n us) \<le> n" "distinct (recent n us)"
  by (simp_all add: recent_def last_n_def distinct_drop)

lemma recent_all: "card (set us) \<le> n \<Longrightarrow> recent n us = remdups us"
  by (simp add: recent_def last_n_def length_remdups_card_conv)

lemma recent_hit:
  assumes "k \<in> set (recent n us)"
  shows "move_to_end k (recent n us) = recent n (us @ [k])"
proof -
  let ?ys = "filter (\<lambda>x. x \<noteq> k) (recent n us) @ [k]"
  have "length ?ys = length (recent n us)"
    using assms recent_bounds(2) [of n us] by (cases "recent n us = []") (auto simp: filter_neq_remove1 length_remove1)
  then have "\<not> n < length ?ys" using recent_bounds(1) [of n us] by simp
  with last_n_touch [of "remdups us" n k] show ?thesis
    by (simp add: recent_def move_to_end_def remdups_snoc)
qed

lemma lru_do_window:
  assumes "lr_cache c = recent (lr_maxsize c) us"
  shows "lr_cache (lru_do op c) = recent (lr_maxsize c) (used (lr_maxsize c) [op] us)"
    and "lr_maxsize (lru_do op c) = lr_maxsize c"
  using assms recent_hit lru_add_window [of c us]
  by (cases op; simp add: lru_contains_def recent_def)+

lemma used_Cons: "used n (op # ops) us = used n ops (used n [op] us)"
  by (cases op) simp_all

lemma fold_lru_do:
  "lr_cache c = recent (lr_maxsize c) us \<Longrightarrow>
     lr_cache (fold lru_do ops c) = recent (lr_maxsize c) (used (lr_maxsize c) ops us)
     \<and> lr_maxsize (fold lru_do ops c) = lr_maxsize c"
proof (induction ops arbitrary: c us)
  case (Cons op ops)
  from Cons.IH [of "lru_do op c" "used (lr_maxsize c) [op] us"] lru_do_window [OF Cons.prems] show ?case
    by (subst used_Cons) simp
qed simp

lemma fold_lru_do_new:
  "lr_cache (fold lru_do ops (new_lru n)) = recent n (used n ops [])" "lr_maxsize (fold lru_do ops (new_lru n)) = n"
  using fold_lru_do [of "new_lru n" "[]" ops] by (simp_all add: new_lru_def recent_def last_n_def)

text \<open>C30: the cache is a window of the most recent uses. Over any sequence of additions and lookups, the cache
  holds the identifiers used last, without repetitions, at most as many as its size, the least
  recently used first. An addition is a use, and so is a lookup that hits; a lookup hits exactly if the
  identifier is among the most recent uses, and one that misses changes nothing.\<close>

theorem lru_keeps_most_recent:
  "lr_cache (fold lru_do ops (new_lru n)) = recent n (used n ops [])
   \<and> length (lr_cache (fold lru_do ops (new_lru n))) \<le> n \<and> distinct (lr_cache (fold lru_do ops (new_lru n)))
   \<and> (fst (lru_contains k (fold lru_do ops (new_lru n))) \<longleftrightarrow> k \<in> set (recent n (used n ops [])))
   \<and> (\<not> fst (lru_contains k (fold lru_do ops (new_lru n))) \<longrightarrow>
        snd (lru_contains k (fold lru_do ops (new_lru n))) = fold lru_do ops (new_lru n))"
  using fold_lru_do_new [of ops n] recent_bounds by (auto simp: lru_contains_def)

theorem lru_keeps_most_recent_witness:
  "lr_cache (fold lru_do [Add 1, Add 2, Look 1, Look 7, Add 3] (new_lru 2)) = [1, 3]
   \<and> snd (lru_contains 2 (fold lru_do [Add 1, Add 2, Look 1, Look 7, Add 3] (new_lru 2)))
       = fold lru_do [Add 1, Add 2, Look 1, Look 7, Add 3] (new_lru 2)"
proof -
  have "recent 2 (used 2 [Add 1, Add 2, Look 1, Look 7, Add 3] []) = [1, 3]" by code_simp
  then show ?thesis using lru_keeps_most_recent [of "[Add 1, Add 2, Look 1, Look 7, Add 3]" 2 2] by simp
qed

section \<open>Duplicates\<close>

lemma mark_processed_lru [simp]: "tk_lru (mark_processed env ok k t) = lru_add k (tk_lru t)"
  and mark_processed_initialized [simp]: "tk_initialized (mark_processed env ok k t) = tk_initialized t"
  by (simp_all add: mark_processed_def persist_def Let_def)

lemma fold_mark_lru [simp]:
  "tk_lru (fold (mark_processed env ok) ks t) = fold lru_add ks (tk_lru t)"
  "tk_initialized (fold (mark_processed env ok) ks t) = tk_initialized t"
  by (induction ks arbitrary: t) simp_all

lemma is_duplicate_iff: "tk_initialized t \<Longrightarrow> fst (is_duplicate polled k t) \<longleftrightarrow> k \<in> set (lr_cache (tk_lru t))"
  by (simp add: is_duplicate_def lru_contains_def)

text \<open>How long a duplicate is recognised. After an identifier has been marked as processed, it is
  reported as a duplicate exactly as long as fewer than 10000 other identifiers have been marked
  since, whether or not the writes to the topic succeed.\<close>

theorem duplicate_window:
  assumes "k \<notin> set ks'"
  shows "fst (is_duplicate polled k (fold (mark_processed env write_ok) (ks @ k # ks') (initialize None (new_tracker name))))
    \<longleftrightarrow> card (set ks') < 10000"
proof -
  let ?t = "fold (mark_processed env write_ok) (ks @ k # ks') (initialize None (new_tracker name))"
  have "fst (is_duplicate polled k ?t) \<longleftrightarrow> k \<in> set (lr_cache (tk_lru ?t))"
    by (rule is_duplicate_iff) (simp only: fold_mark_lru, simp add: initialize_def)
  also have "tk_lru ?t = fold lru_add (ks @ k # ks') (new_lru LRU_MAXSIZE)"
    by (simp only: fold_mark_lru) (simp add: initialize_def new_tracker_def)
  finally show ?thesis using last_n_member [OF assms, of 10000 ks] by (simp only: fold_lru_add LRU_MAXSIZE_def)
qed

theorem duplicate_window_witness:
  "fst (is_duplicate None 1 (fold (mark_processed ''local'' (\<lambda>_. False)) ([1] @ 1 # [2, 3])
     (initialize None (new_tracker ''billing'')))) \<longleftrightarrow> card (set [2, 3 :: uuid]) < 10000"
  by (rule duplicate_window) simp

section \<open>Restart\<close>

lemma load_record_text: "u < 2 ^ 128 \<Longrightarrow> load_record (Some (show_uuid u)) = lru_add u"
  using parse_show_uuid [of u] by (simp add: load_record_def fun_eq_iff)

lemma fold_load_records:
  "\<forall>u \<in> set us. u < 2 ^ 128 \<Longrightarrow> fold load_record (map (\<lambda>u. Some (show_uuid u)) us) c = fold lru_add us c"
  by (induction us arbitrary: c) (auto simp: load_record_text)

lemma rebuild_concat: "[] \<notin> set polls \<Longrightarrow> rebuild_from_topic polls c = fold load_record (concat polls) c"
  by (induction polls arbitrary: c) auto

text \<open>A history of a tracker: questions and marks, in any order. The marks whose write the broker acknowledged
  are the records on the topic.\<close>

datatype tracker_op = Ask uuid | Mark uuid

fun tracker_do :: "string \<Rightarrow> (nat \<Rightarrow> bool) \<Rightarrow> tracker_op \<Rightarrow> tracker \<Rightarrow> tracker" where
  "tracker_do env write_ok (Ask k) t = snd (is_duplicate None k t)"
| "tracker_do env write_ok (Mark k) t = mark_processed env write_ok k t"

fun lru_op_of :: "tracker_op \<Rightarrow> lru_op" where
  "lru_op_of (Ask k) = Look k"
| "lru_op_of (Mark k) = Add k"

fun marks :: "tracker_op list \<Rightarrow> uuid list" where
  "marks [] = []"
| "marks (Ask k # ops) = marks ops"
| "marks (Mark k # ops) = k # marks ops"

fun acknowledged :: "(nat \<Rightarrow> bool) \<Rightarrow> nat \<Rightarrow> uuid list \<Rightarrow> uuid list" where
  "acknowledged write_ok n [] = []"
| "acknowledged write_ok n (k # ks) = (if write_ok n then [k] else []) @ acknowledged write_ok (Suc n) ks"

text \<open>The records of the tracker's topic, as far as the tracker wrote them.\<close>

definition topic_records :: "string \<Rightarrow> string \<Rightarrow> tracker \<Rightarrow> string list" where
  "topic_records env name t = map snd (filter (\<lambda>r. fst r = processed_id_topic env name) (tk_persisted t))"

text \<open>Compaction may drop records that a later record with the same key supersedes.\<close>

definition compaction :: "'a list \<Rightarrow> 'a list \<Rightarrow> bool" where
  "compaction retained written \<longleftrightarrow> remdups retained = remdups written"

lemma tracker_run_lru:
  "tk_initialized t \<Longrightarrow> tk_lru (fold (tracker_do env write_ok) ops t) = fold lru_do (map lru_op_of ops) (tk_lru t)"
proof (induction ops arbitrary: t)
  case (Cons op ops)
  have "tk_initialized (tracker_do env write_ok op t)" "tk_lru (tracker_do env write_ok op t) = lru_do (lru_op_of op) (tk_lru t)"
    using Cons.prems by (cases op; simp add: is_duplicate_def lru_contains_def)+
  with Cons.IH show ?case by simp
qed simp

lemma tracker_run_initialized:
  "tk_initialized t \<Longrightarrow> tk_initialized (fold (tracker_do env write_ok) ops t)"
proof (induction ops arbitrary: t)
  case (Cons op ops)
  have "tk_initialized (tracker_do env write_ok op t)"
    using Cons.prems by (cases op; simp add: is_duplicate_def lru_contains_def)
  with Cons.IH show ?case by simp
qed simp

lemma ask_keeps:
  "tk_initialized t \<Longrightarrow> tk_persisted (snd (is_duplicate polled k t)) = tk_persisted t
     \<and> tk_writes (snd (is_duplicate polled k t)) = tk_writes t
     \<and> tk_consumer_name (snd (is_duplicate polled k t)) = tk_consumer_name t \<and> tk_initialized (snd (is_duplicate polled k t))"
  by (simp add: is_duplicate_def lru_contains_def)

lemma tracker_run_records:
  "tk_initialized t \<Longrightarrow> tk_consumer_name t = name \<Longrightarrow>
     topic_records env name (fold (tracker_do env write_ok) ops t)
       = topic_records env name t @ map show_uuid (acknowledged write_ok (tk_writes t) (marks ops))"
proof (induction ops arbitrary: t)
  case (Cons op ops)
  show ?case
  proof (cases op)
    case (Ask k)
    with Cons ask_keeps [of t None k] show ?thesis by (simp add: topic_records_def)
  next
    case (Mark k)
    let ?t = "mark_processed env write_ok k t"
    have "tk_initialized ?t" "tk_consumer_name ?t = name" "tk_writes ?t = Suc (tk_writes t)"
      using Cons.prems by (simp_all add: mark_processed_def persist_def Let_def)
    moreover have "topic_records env name ?t = topic_records env name t @ (if write_ok (tk_writes t) then [show_uuid k] else [])"
      using Cons.prems(2) by (simp add: mark_processed_def persist_def topic_records_def Let_def)
    ultimately show ?thesis using Cons.IH [of ?t] by (simp add: Mark)
  qed
qed simp

lemma acknowledged_all: "\<forall>n. write_ok n \<Longrightarrow> acknowledged write_ok n ks = ks"
  by (induction ks arbitrary: n) simp_all

lemma acknowledged_subset: "set (acknowledged write_ok n ks) \<subseteq> set ks"
  by (induction ks arbitrary: n) auto

text \<open>While the marked identifiers fit the cache, it holds all of them.\<close>

lemma used_marks:
  "set us \<subseteq> M \<Longrightarrow> set (marks ops) \<subseteq> M \<Longrightarrow> card M \<le> n \<Longrightarrow> finite M \<Longrightarrow>
     set (used n (map lru_op_of ops) us) = set us \<union> set (marks ops)"
proof (induction ops arbitrary: us)
  case (Cons op ops)
  show ?case
  proof (cases op)
    case (Ask k)
    have "card (set us) \<le> n" using Cons.prems by (meson card_mono le_trans)
    then have "recent n us = remdups us" by (rule recent_all)
    with Cons Ask show ?thesis by (auto simp: insert_absorb)
  next
    case (Mark k)
    with Cons.IH [of "us @ [k]"] Cons.prems show ?thesis by auto
  qed
qed simp

lemma show_uuid_inj: "u < 2 ^ 128 \<Longrightarrow> v < 2 ^ 128 \<Longrightarrow> show_uuid u = show_uuid v \<Longrightarrow> u = v"
  by (metis option.inject parse_show_uuid)

lemma compacted_texts:
  assumes "\<forall>u \<in> set us. u < 2 ^ 128" "compaction retained (map show_uuid us)"
  obtains vs where "retained = map show_uuid vs" "remdups vs = remdups us" "\<forall>v \<in> set vs. v < 2 ^ 128"
proof -
  have set: "set retained = show_uuid ` set us" using assms(2) unfolding compaction_def by (metis set_map set_remdups)
  define f where "f = inv_into (set us) show_uuid"
  have inj: "inj_on show_uuid (set us)" using assms(1) show_uuid_inj by (intro inj_onI) blast
  have texts: "map show_uuid (map f retained) = retained"
    using set by (auto simp: f_def f_inv_into_f intro: map_idI)
  moreover have sub: "set (map f retained) = set us" using set inj by (auto simp: f_def)
  moreover have "remdups (map f retained) = remdups us"
  proof -
    have "map show_uuid (remdups (map f retained)) = remdups (map show_uuid (map f retained))"
      using inj sub by (metis distinct_map remdups_map_remdups distinct_remdups_id distinct_remdups set_remdups)
    also have "\<dots> = remdups (map show_uuid us)" unfolding texts using assms(2) by (simp add: compaction_def)
    also have "\<dots> = map show_uuid (remdups us)"
      using inj by (metis distinct_map remdups_map_remdups distinct_remdups_id distinct_remdups set_remdups)
    finally show ?thesis using inj sub by (metis inj_on_map_eq_map set_remdups sup.idem)
  qed
  ultimately show ?thesis using that [of "map f retained"] assms(1) by metis
qed

text \<open>C31: what a restart restores. Let a tracker live through any history of questions and marks, with any of its writes
  failing, and let a new tracker of the same name poll, in batches of any size, what the first one has written to
  their topic, in any stage of compaction. The new cache is then the most recent identifiers among those whose write was
  acknowledged. If all writes were and the identifiers fit the cache, the new tracker reports
  exactly the duplicates the old one would.\<close>

theorem restart_restores_window:
  assumes "\<forall>u \<in> set (marks ops). u < 2 ^ 128"
    and t: "t = fold (tracker_do env write_ok) ops (initialize None (new_tracker name))"
    and "compaction retained (topic_records env name t)"
    and "[] \<notin> set polls" "concat polls = map Some retained"
  shows "lr_cache (tk_lru (initialize (Some polls) (new_tracker name))) = recent LRU_MAXSIZE (acknowledged write_ok 0 (marks ops))
    \<and> ((\<forall>n. write_ok n) \<and> card (set (marks ops)) \<le> LRU_MAXSIZE \<longrightarrow>
         (\<forall>k. fst (is_duplicate None k (initialize (Some polls) (new_tracker name))) \<longleftrightarrow> fst (is_duplicate None k t)))"
proof -
  let ?new = "initialize (Some polls) (new_tracker name)" and ?ack = "acknowledged write_ok 0 (marks ops)"
  let ?t0 = "initialize None (new_tracker name)"
  have t0: "tk_initialized ?t0" "tk_consumer_name ?t0 = name" "tk_lru ?t0 = new_lru LRU_MAXSIZE"
    "topic_records env name ?t0 = []" "tk_writes ?t0 = 0"
    by (simp_all add: initialize_def new_tracker_def topic_records_def)
  have "topic_records env name t = map show_uuid ?ack" unfolding t using tracker_run_records [OF t0(1,2)] t0(4,5) by simp
  moreover have "\<forall>u \<in> set ?ack. u < 2 ^ 128" using assms(1) acknowledged_subset by blast
  ultimately obtain vs where vs: "retained = map show_uuid vs" "remdups vs = remdups ?ack" "\<forall>v \<in> set vs. v < 2 ^ 128"
    using compacted_texts assms(3) by metis
  have "tk_lru ?new = fold lru_add vs (new_lru LRU_MAXSIZE)"
    using assms(4,5) vs fold_load_records [OF vs(3)]
    by (simp add: initialize_def new_tracker_def rebuild_concat comp_def)
  then have new: "lr_cache (tk_lru ?new) = recent LRU_MAXSIZE ?ack" by (simp only: fold_lru_add vs(2) recent_def)
  have "fst (is_duplicate None k ?new) \<longleftrightarrow> fst (is_duplicate None k t)"
    if "\<forall>n. write_ok n" "card (set (marks ops)) \<le> LRU_MAXSIZE" for k
  proof -
    have "lr_cache (tk_lru t) = recent LRU_MAXSIZE (used LRU_MAXSIZE (map lru_op_of ops) [])"
      unfolding t tracker_run_lru [OF t0(1)] t0(3) by (rule fold_lru_do_new)
    moreover have u: "set (used LRU_MAXSIZE (map lru_op_of ops) []) = set (marks ops)"
      using used_marks [of "[]" "set (marks ops)" ops] that(2) by simp
    ultimately have "set (lr_cache (tk_lru t)) = set (marks ops)" using that(2) by (simp only: recent_all set_remdups)
    moreover have "set (lr_cache (tk_lru ?new)) = set (marks ops)"
      unfolding new acknowledged_all [OF that(1)] recent_all [OF that(2)] by simp
    moreover have "tk_initialized t" unfolding t using t0(1) by (rule tracker_run_initialized)
    moreover have "tk_initialized ?new" by (simp add: initialize_def)
    ultimately show ?thesis by (simp only: is_duplicate_iff)
  qed
  with new show ?thesis by blast
qed

text \<open>Nine is asked for and marked twice, the second write is lost.\<close>

theorem restart_restores_window_witness:
  "lr_cache (tk_lru (initialize (Some [[Some (show_uuid 9)], [Some (show_uuid 7)]]) (new_tracker ''billing''))) = [9, 7]"
proof -
  let ?ops = "[Ask 9, Mark 9, Mark 8, Ask 9, Mark 7]" and ?ok = "\<lambda>n. n \<noteq> 1"
  let ?t = "fold (tracker_do ''local'' ?ok) ?ops (initialize None (new_tracker ''billing''))"
  have "topic_records ''local'' ''billing'' ?t = [show_uuid 9, show_uuid 7]"
    by (subst tracker_run_records) (simp_all add: initialize_def new_tracker_def topic_records_def)
  then have "lr_cache (tk_lru (initialize (Some [[Some (show_uuid 9)], [Some (show_uuid 7)]]) (new_tracker ''billing'')))
      = recent LRU_MAXSIZE (acknowledged ?ok 0 (marks ?ops))"
    using restart_restores_window [of ?ops ?t "''local''" ?ok "''billing''" "[show_uuid 9, show_uuid 7]"
        "[[Some (show_uuid 9)], [Some (show_uuid 7)]]"] by (simp add: compaction_def)
  also have "\<dots> = [9, 7]" by (simp add: recent_def last_n_def LRU_MAXSIZE_def)
  finally show ?thesis .
qed

section \<open>The contract\<close>

text \<open>
  What a message loop relies on. The loop asks for each identifier and marks it when it has been
  handled; while the identifiers fit the memory, every new one is handled exactly once, in the order of
  arrival.
\<close>

locale dedup_memory =
  fixes look :: "uuid \<Rightarrow> 'm \<Rightarrow> bool \<times> 'm"
    and mark :: "uuid \<Rightarrow> 'm \<Rightarrow> 'm"
    and known :: "'m \<Rightarrow> uuid set"
    and usable :: "'m \<Rightarrow> bool"
    and capacity :: nat
  assumes look_hit: "usable m \<Longrightarrow> fst (look k m) \<longleftrightarrow> k \<in> known m"
    and look_keeps: "usable m \<Longrightarrow> usable (snd (look k m)) \<and> known (snd (look k m)) = known m"
    and mark_usable: "usable m \<Longrightarrow> usable (mark k m)"
    and mark_known: "usable m \<Longrightarrow> card (insert k (known m)) \<le> capacity \<Longrightarrow> known (mark k m) = insert k (known m)"
    and known_finite: "usable m \<Longrightarrow> finite (known m)"
begin

fun admit :: "uuid list \<Rightarrow> 'm \<Rightarrow> uuid list" where
  "admit [] m = []"
| "admit (k # ks) m =
     (if fst (look k m) then admit ks (snd (look k m)) else k # admit ks (mark k (snd (look k m))))"

lemma admit_once:
  "usable m \<Longrightarrow> card (known m \<union> set ks) \<le> capacity \<Longrightarrow>
     distinct (admit ks m) \<and> set (admit ks m) = set ks - known m"
proof (induction ks arbitrary: m)
  case (Cons k ks)
  let ?m = "snd (look k m)"
  have m: "usable ?m" "known ?m = known m" using look_keeps Cons.prems(1) by blast+
  show ?case
  proof (cases "k \<in> known m")
    case True
    then show ?thesis using Cons.IH [OF m(1)] Cons.prems look_hit m(2) by (auto simp: insert_absorb)
  next
    case False
    have "card (insert k (known m)) \<le> card (known m \<union> set (k # ks))"
      using Cons.prems(1) known_finite by (intro card_mono) auto
    then have k: "known (mark k ?m) = insert k (known m)" using mark_known m Cons.prems(2) by fastforce
    then show ?thesis
      using Cons.IH [OF mark_usable [OF m(1)]] Cons.prems look_hit False by auto
  qed
qed simp

end

definition tracked :: "tracker \<Rightarrow> bool" where
  "tracked t \<longleftrightarrow> tk_initialized t \<and> lr_maxsize (tk_lru t) = LRU_MAXSIZE
     \<and> distinct (lr_cache (tk_lru t)) \<and> length (lr_cache (tk_lru t)) \<le> LRU_MAXSIZE"

lemma tracked_hit: "tracked t \<Longrightarrow> fst (is_duplicate polled k t) \<longleftrightarrow> k \<in> set (lr_cache (tk_lru t))"
  by (simp add: tracked_def is_duplicate_iff)

lemma is_duplicate_tracked:
  assumes "tracked t"
  shows "tracked (snd (is_duplicate polled k t))"
    and "set (lr_cache (tk_lru (snd (is_duplicate polled k t)))) = set (lr_cache (tk_lru t))"
proof -
  let ?xs = "lr_cache (tk_lru t)"
  have "distinct (move_to_end k ?xs)" "set (move_to_end k ?xs) = insert k (set ?xs)"
    using assms by (auto simp: move_to_end_def tracked_def)
  moreover from this have "k \<in> set ?xs \<Longrightarrow> length (move_to_end k ?xs) = length ?xs"
    using assms by (metis distinct_card insert_absorb tracked_def)
  ultimately show "tracked (snd (is_duplicate polled k t))"
    "set (lr_cache (tk_lru (snd (is_duplicate polled k t)))) = set ?xs"
    using assms by (auto simp: is_duplicate_def lru_contains_def tracked_def)
qed

definition cache_wf :: "lru_cache \<Rightarrow> bool" where
  "cache_wf c \<longleftrightarrow> lr_maxsize c = LRU_MAXSIZE \<and> distinct (lr_cache c) \<and> length (lr_cache c) \<le> LRU_MAXSIZE"

lemma lru_add_wf: "cache_wf c \<Longrightarrow> cache_wf (lru_add k c)"
  by (auto simp: cache_wf_def lru_add_def move_set_key Let_def distinct_tl LRU_MAXSIZE_def
      intro: le_trans [OF length_filter_le])

lemma load_records_wf: "cache_wf c \<Longrightarrow> cache_wf (fold load_record rs c)"
  by (induction rs arbitrary: c) (auto simp: load_record_def lru_add_wf split: option.split)

lemma rebuild_wf: "cache_wf c \<Longrightarrow> cache_wf (rebuild_from_topic polls c)"
  by (induction polls c rule: rebuild_from_topic.induct) (auto simp: load_records_wf)

lemma mark_processed_tracked: "tracked t \<Longrightarrow> tracked (mark_processed env ok k t)"
  using lru_add_wf [of "tk_lru t" k] by (simp add: tracked_def cache_wf_def)

text \<open>Whatever the topic holds, a tracker is usable once it has been initialised.\<close>

lemma tracked_initialize: "tracked (initialize polled (new_tracker name))"
proof -
  have "cache_wf (new_lru LRU_MAXSIZE)" by (simp add: cache_wf_def new_lru_def)
  from rebuild_wf [OF this] this show ?thesis
    by (auto simp: tracked_def cache_wf_def initialize_def new_tracker_def split: option.split)
qed

interpretation tracker_dedup: dedup_memory
  "is_duplicate polled" "mark_processed env write_ok" "\<lambda>t. set (lr_cache (tk_lru t))" tracked LRU_MAXSIZE
  for polled env write_ok
proof (unfold_locales, goal_cases)
  case (4 t k)
  let ?xs = "lr_cache (tk_lru t)" and ?ys = "filter (\<lambda>x. x \<noteq> k) (lr_cache (tk_lru t)) @ [k]"
  have "distinct ?ys" "set ?ys = insert k (set ?xs)" using 4 by (auto simp: tracked_def)
  then have "length ?ys \<le> LRU_MAXSIZE" using 4(2) by (metis distinct_card)
  with \<open>set ?ys = _\<close> 4 show ?case by (simp add: lru_add_def move_set_key Let_def tracked_def)
qed (simp_all add: is_duplicate_tracked mark_processed_tracked tracked_hit)

end
