(* ===== verification/Agent_Runtime.thy ===== *)
theory Agent_Runtime
  imports Billing_Service Risk_Service Idempotency "HOL-Library.List_Lexorder" "HOL-Library.Char_ord"
begin

text \<open>
  The A2A runtime, \<^verbatim>\<open>src/agent_foundation/runtime/runtime.py\<close>: the handlers of the capabilities an
  agent declares, the publication of its card, and the life of one task message from the endpoint
  topic to the published result.

  JSON decoding and field coercion belong to pydantic: \<open>wire\<close> holds them as functions that return the
  decoded value or the text of the exception, before the validators of the program run. It also holds
  which writes to the processed-id topic succeed and what a fresh tracker polls.
\<close>

section \<open>The runtime\<close>

record rt_net = net +
  wt_tracker :: tracker

type_synonym 'a rt_io = "(rt_net, 'a) io"
type_synonym task_handler_fn = "TaskRequest \<Rightarrow> A2AMessage rt_io"

record agent_runtime =
  ar_identity :: AgentIdentity
  ar_card :: AgentCard
  ar_handlers :: "(string, task_handler_fn) dict"
  ar_capability_ids :: "string list"
  ar_serving :: bool

record 'raw wire =
  wi_envelope :: "'raw \<Rightarrow> exc + EventEnvelope"
  wi_request :: "(string, pyval) dict \<Rightarrow> string + TaskRequest"
  wi_write_ok :: "nat \<Rightarrow> bool"
  wi_polled :: "string option list list option"

definition new_runtime :: "AgentIdentity \<Rightarrow> AgentCard \<Rightarrow> agent_runtime" where
  "new_runtime ident crd = \<lparr>ar_identity = ident, ar_card = crd, ar_handlers = [],
     ar_capability_ids = map cap_id (card_capabilities crd), ar_serving = False\<rparr>"

definition register_handler :: "string \<Rightarrow> task_handler_fn \<Rightarrow> agent_runtime \<Rightarrow> exc + agent_runtime" where
  "register_handler capability_id fn rt =
     (if capability_id \<notin> set (ar_capability_ids rt)
      then Inl (ValueError (''Capability '' @ repr_str capability_id @ '' is not declared on the agent card; declared: ''
             @ py_repr (VList (map VStr (sort (remdups (ar_capability_ids rt)))))))
      else Inr (rt\<lparr>ar_handlers := dict_set capability_id fn (ar_handlers rt)\<rparr>))"

definition publish_card :: "runtime_env \<Rightarrow> agent_runtime \<Rightarrow> unit rt_io" where
  "publish_card E rt =
     bind_io (uuid4_io E) (\<lambda>eid.
     bind_io (uuid4_io E) (\<lambda>corr.
     bind_io (now_io E) (\<lambda>now.
     bind_io (lift_exc (validate_envelope (re_environment E)
         \<lparr>en_event_id = eid, en_correlation_id = corr, en_causation_id = None,
          en_agent_id = id_agent_id (ar_identity rt), en_tenant_id = id_tenant_id (ar_identity rt),
          en_timestamp = now, en_event_type = ''agent.agent_card.v1'', en_schema_version = ''1.0.0'',
          en_trace_context = None, en_payload = re_dump E (MAgentCard (ar_card rt))\<rparr>)) (\<lambda>card_envelope.
     try_io (publish_raw E card_envelope (MAgentCard (ar_card rt)) (TOPIC_AGENT_CARD (re_environment E))
               (Some (id_agent_id (ar_identity rt))))
       (\<lambda>_. return_io ())))))"

definition republish_card :: "runtime_env \<Rightarrow> AgentCard option \<Rightarrow> agent_runtime \<Rightarrow> agent_runtime rt_io" where
  "republish_card E new_card rt =
     (let rt' = (case new_card of None \<Rightarrow> rt | Some c \<Rightarrow> rt\<lparr>ar_card := c\<rparr>) in
      then_io (when_io (ar_serving rt') (publish_card E rt')) (return_io rt'))"

definition publish_result :: "runtime_env \<Rightarrow> agent_runtime \<Rightarrow> TaskResult \<Rightarrow> EventEnvelope \<Rightarrow> unit rt_io" where
  "publish_result E rt result request_envelope =
     bind_io (uuid4_io E) (\<lambda>eid.
     bind_io (now_io E) (\<lambda>now.
     bind_io (lift_exc (validate_envelope (re_environment E)
         \<lparr>en_event_id = eid, en_correlation_id = en_correlation_id request_envelope,
          en_causation_id = Some (en_event_id request_envelope),
          en_agent_id = id_agent_id (ar_identity rt), en_tenant_id = id_tenant_id (ar_identity rt),
          en_timestamp = now, en_event_type = ''agent.task_result.v1'', en_schema_version = ''1.0.0'',
          en_trace_context = None, en_payload = re_dump E (MTaskResult result)\<rparr>)) (\<lambda>result_envelope.
     try_io (publish_raw E result_envelope (MTaskResult result) (TOPIC_TASK_RESULT (re_environment E)) None)
       (\<lambda>_. return_io ()))))"

section \<open>One task message\<close>

definition parse_envelope :: "runtime_env \<Rightarrow> 'raw wire \<Rightarrow> 'raw \<Rightarrow> exc + EventEnvelope" where
  "parse_envelope E W raw =
     (case wi_envelope W raw of Inl e \<Rightarrow> Inl e | Inr e \<Rightarrow> validate_envelope (re_environment E) e)"

text \<open>The result of a rejection or failure; the model validator runs on construction.\<close>

definition error_result ::
  "agent_runtime \<Rightarrow> uuid \<Rightarrow> task_status \<Rightarrow> error_category \<Rightarrow> string \<Rightarrow> exc + TaskResult" where
  "error_result rt task_id status category message =
     validate_status_fields
       \<lparr>tr_task_id = task_id, tr_status = status, tr_performer_agent_id = id_agent_id (ar_identity rt),
        tr_output = None, tr_error = Some \<lparr>te_category = category, te_message = message\<rparr>\<rparr>"

definition completed_result :: "agent_runtime \<Rightarrow> uuid \<Rightarrow> A2AMessage \<Rightarrow> exc + TaskResult" where
  "completed_result rt task_id output =
     validate_status_fields
       \<lparr>tr_task_id = task_id, tr_status = Completed, tr_performer_agent_id = id_agent_id (ar_identity rt),
        tr_output = Some output, tr_error = None\<rparr>"

definition answer_error ::
  "runtime_env \<Rightarrow> agent_runtime \<Rightarrow> EventEnvelope \<Rightarrow> uuid \<Rightarrow> task_status \<Rightarrow> error_category \<Rightarrow> string \<Rightarrow>
   audit_outcome \<Rightarrow> uuid option \<Rightarrow> string \<Rightarrow> unit rt_io" where
  "answer_error E rt envelope task_id status category message outcome audit_task reason =
     bind_io (lift_exc (error_result rt task_id status category message)) (\<lambda>result.
     then_io (publish_result E rt result envelope)
       (write_task_audit E (ar_identity rt) envelope outcome audit_task (Some reason)))"

definition rejected_task_id :: "runtime_env \<Rightarrow> EventEnvelope \<Rightarrow> uuid rt_io" where
  "rejected_task_id E envelope =
     (case dict_get (en_payload envelope) ''task_id'' of
        None \<Rightarrow> uuid4_io E
      | Some v \<Rightarrow>
          if truthy v
          then (case parse_uuid (py_str v) of
                  None \<Rightarrow> raise_io (ValueError (uuid_error (py_str v)))
                | Some u \<Rightarrow> return_io u)
          else uuid4_io E)"

definition reject_payload :: "runtime_env \<Rightarrow> agent_runtime \<Rightarrow> EventEnvelope \<Rightarrow> string \<Rightarrow> unit rt_io" where
  "reject_payload E rt envelope msg =
     bind_io (rejected_task_id E envelope) (\<lambda>tid.
     answer_error E rt envelope tid Rejected Validation (take 500 msg) AuditRejected None (take 500 msg))"

definition tracker_is_duplicate :: "'raw wire \<Rightarrow> uuid \<Rightarrow> bool rt_io" where
  "tracker_is_duplicate W task_id =
     (\<lambda>w. let (dup, t) = is_duplicate (wi_polled W) task_id (wt_tracker w) in (Inr dup, w\<lparr>wt_tracker := t\<rparr>))"

text \<open>
  The duplicate check with its audit record. An exception inside it is swallowed and the task is then
  treated as new.
\<close>

definition skip_duplicate :: "runtime_env \<Rightarrow> 'raw wire \<Rightarrow> agent_runtime \<Rightarrow> EventEnvelope \<Rightarrow> uuid \<Rightarrow> bool rt_io" where
  "skip_duplicate E W rt envelope task_id =
     try_io
       (bind_io (tracker_is_duplicate W task_id) (\<lambda>dup.
        if dup
        then then_io (write_task_audit E (ar_identity rt) envelope DuplicateSkipped (Some task_id) None)
               (return_io True)
        else return_io False))
       (\<lambda>_. return_io False)"

definition run_handler ::
  "runtime_env \<Rightarrow> agent_runtime \<Rightarrow> EventEnvelope \<Rightarrow> TaskRequest \<Rightarrow> task_handler_fn \<Rightarrow> unit rt_io" where
  "run_handler E rt envelope req handler =
     (let task_id = tq_task_id req in
      try_io
        (try_io
           (bind_io (handler req) (\<lambda>output.
            bind_io (lift_exc (completed_result rt task_id output)) (\<lambda>result.
            then_io (publish_result E rt result envelope)
              (write_task_audit E (ar_identity rt) envelope AuditCompleted (Some task_id) None))))
           (\<lambda>exc. answer_error E rt envelope task_id Failed HandlerError (take 500 (str_exc exc))
                    AuditFailed (Some task_id) (take 500 (str_exc exc))))
        (\<lambda>_. return_io ()))"

definition tracker_mark :: "runtime_env \<Rightarrow> 'raw wire \<Rightarrow> uuid \<Rightarrow> unit rt_io" where
  "tracker_mark E W task_id =
     modify_io (\<lambda>w. w\<lparr>wt_tracker := mark_processed (re_environment E) (wi_write_ok W) task_id (wt_tracker w)\<rparr>)"

definition accept_task ::
  "runtime_env \<Rightarrow> 'raw wire \<Rightarrow> agent_runtime \<Rightarrow> EventEnvelope \<Rightarrow> TaskRequest \<Rightarrow> unit rt_io" where
  "accept_task E W rt envelope req =
     (let task_id = tq_task_id req in
      then_io (write_task_audit E (ar_identity rt) envelope Accepted (Some task_id) None)
        (case dict_get (ar_handlers rt) (tq_capability req) of
           None \<Rightarrow>
             answer_error E rt envelope task_id Failed Internal ''No handler registered for this capability''
               AuditFailed (Some task_id) ''no_handler''
         | Some handler \<Rightarrow>
             then_io (run_handler E rt envelope req handler) (tracker_mark E W task_id)))"

definition handle_request ::
  "runtime_env \<Rightarrow> 'raw wire \<Rightarrow> agent_runtime \<Rightarrow> EventEnvelope \<Rightarrow> TaskRequest \<Rightarrow> unit rt_io" where
  "handle_request E W rt envelope req =
     (let task_id = tq_task_id req; our_id = id_agent_id (ar_identity rt) in
      if tq_target_agent_id req \<noteq> our_id
      then answer_error E rt envelope task_id Rejected Validation
             (''This agent is '' @ repr_str our_id @ '', not '' @ repr_str (tq_target_agent_id req))
             AuditRejected (Some task_id) ''wrong_target''
      else if tq_capability req \<notin> set (ar_capability_ids rt)
      then answer_error E rt envelope task_id Rejected UnsupportedCapability
             (''Capability '' @ repr_str (tq_capability req) @ '' is not supported'')
             AuditRejected (Some task_id) ''unsupported_capability''
      else bind_io (skip_duplicate E W rt envelope task_id) (\<lambda>skipped.
             if skipped then return_io () else accept_task E W rt envelope req))"

definition handle_message :: "runtime_env \<Rightarrow> 'raw wire \<Rightarrow> agent_runtime \<Rightarrow> 'raw \<Rightarrow> unit rt_io" where
  "handle_message E W rt raw =
     (case parse_envelope E W raw of
        Inl _ \<Rightarrow> return_io ()
      | Inr envelope \<Rightarrow>
          (case wi_request W (en_payload envelope) of
             Inl msg \<Rightarrow> reject_payload E rt envelope msg
           | Inr req \<Rightarrow> handle_request E W rt envelope req))"

text \<open>
  \<^verbatim>\<open>serve\<close> publishes the card, initialises the tracker and handles the messages one after the other
  until it is stopped; an exception of a message ends it.
\<close>

fun serve_loop :: "runtime_env \<Rightarrow> 'raw wire \<Rightarrow> agent_runtime \<Rightarrow> 'raw list \<Rightarrow> unit rt_io" where
  "serve_loop E W rt [] = return_io ()"
| "serve_loop E W rt (raw # msgs) = then_io (handle_message E W rt raw) (serve_loop E W rt msgs)"

definition serve :: "runtime_env \<Rightarrow> 'raw wire \<Rightarrow> agent_runtime \<Rightarrow> 'raw list \<Rightarrow> unit rt_io" where
  "serve E W rt msgs =
     (let rt' = rt\<lparr>ar_serving := True\<rparr> in
      then_io (publish_card E rt')
       (then_io (modify_io (\<lambda>w. w\<lparr>wt_tracker :=
           initialize (wi_polled W) (new_tracker (id_agent_id (ar_identity rt) @ ''.tasks''))\<rparr>))
         (serve_loop E W rt' msgs)))"

section \<open>The peer agents\<close>

text \<open>The runtimes the two peer agents serve.\<close>

definition billing_runtime ::
  "runtime_env \<Rightarrow> billing_validate \<Rightarrow> instant \<Rightarrow> bool \<Rightarrow> billing_assist \<Rightarrow> exc + agent_runtime" where
  "billing_runtime E model_validate t0 llm_enabled assist =
     register_handler ''analyze_refund_eligibility'' (handle_eligibility E model_validate t0 llm_enabled assist)
       (new_runtime billing_identity (billing_card (re_environment E)))"

definition risk_runtime :: "runtime_env \<Rightarrow> risk_validate \<Rightarrow> bool \<Rightarrow> risk_assist \<Rightarrow> exc + agent_runtime" where
  "risk_runtime E model_validate llm_enabled assist =
     register_handler ''assess_fraud_risk'' (handle_risk E model_validate llm_enabled assist)
       (new_runtime risk_identity (risk_card (re_environment E)))"

section \<open>Replies\<close>

fun result_of :: "sent \<Rightarrow> (EventEnvelope \<times> TaskResult) option" where
  "result_of m = (case sn_model m of MTaskResult r \<Rightarrow> Some (sn_envelope m, r) | _ \<Rightarrow> None)"

definition task_results :: "sent list \<Rightarrow> (EventEnvelope \<times> TaskResult) list" where
  "task_results ms = List.map_filter result_of ms"

lemma task_results_simps [simp]:
  "task_results [] = []"
  "task_results (m # ms) = (case result_of m of None \<Rightarrow> task_results ms | Some x \<Rightarrow> x # task_results ms)"
  "task_results (ms @ ms') = task_results ms @ task_results ms'"
  by (auto simp: task_results_def map_filter_simps map_filter_def simp del: result_of.simps split: option.split)

text \<open>
  \<open>replies E env rs w w'\<close>: between two states the results \<open>rs\<close> have been published in answer to the
  request \<open>env\<close>, or none if the broker refused a send; nothing is taken back.
\<close>

definition replies :: "runtime_env \<Rightarrow> EventEnvelope \<Rightarrow> TaskResult list \<Rightarrow> rt_net \<Rightarrow> rt_net \<Rightarrow> bool" where
  "replies E env rs w w' \<longleftrightarrow>
     (\<exists>log. nt_log w' = nt_log w @ log
        \<and> (\<forall>(e, r) \<in> set (task_results log). en_correlation_id e = en_correlation_id env
              \<and> en_causation_id e = Some (en_event_id env))
        \<and> (map snd (task_results log) = rs \<or> task_results log = [] \<and> (\<exists>n. \<not> re_send_ok E n)))"

lemma replies_trans:
  "replies E env rs w w' \<Longrightarrow> replies E env rs' w' w'' \<Longrightarrow> rs = [] \<or> rs' = [] \<Longrightarrow> replies E env (rs @ rs') w w''"
  unfolding replies_def
  apply (elim exE conjE)
  subgoal for ms ms' by (rule exI [of _ "ms @ ms'"]) auto
  done

lemma replies_none: "nt_log w' = nt_log w \<Longrightarrow> replies E env [] w w'"
  by (simp add: replies_def)

definition valid_runtime :: "agent_runtime \<Rightarrow> bool" where
  "valid_runtime rt \<longleftrightarrow> AGENT_ID_RE (id_agent_id (ar_identity rt)) \<and> TENANT_ID_RE (id_tenant_id (ar_identity rt))"

lemma runtime_event_types [simp]: "EVENT_TYPE_RE ''agent.task_result.v1''" "EVENT_TYPE_RE ''agent.audit.v1''"
  "EVENT_TYPE_RE ''agent.agent_card.v1''"
  by code_simp+

lemmas runtime_io_defs = io_defs lift_exc_def uuid4_io_def now_io_def publish_raw_def send_and_wait_def
  validate_envelope_def Let_def

lemma publish_result_replies:
  "valid_runtime rt \<Longrightarrow> publish_result E rt r env w = (x, w') \<Longrightarrow>
     x = Inr () \<and> wt_tracker w' = wt_tracker w \<and> replies E env [r] w w'"
  by (cases "re_send_ok E (nt_sends w)")
    (auto simp: publish_result_def runtime_io_defs valid_runtime_def replies_def)

lemma write_task_audit_replies:
  "valid_runtime rt \<Longrightarrow> write_task_audit E (ar_identity rt) e oc tid reason w = (x, w') \<Longrightarrow>
     oc \<in> {AuditRejected, AuditFailed} \<longrightarrow> reason \<noteq> None \<Longrightarrow>
     x = Inr () \<and> wt_tracker w' = wt_tracker w \<and> replies E env [] w w'"
  by (cases "re_send_ok E (nt_sends w)")
    (auto simp: write_task_audit_def runtime_io_defs valid_runtime_def replies_def validate_reason_required_def)

text \<open>The error results the runtime builds pass their validator.\<close>

definition refused :: "agent_runtime \<Rightarrow> uuid \<Rightarrow> task_status \<Rightarrow> error_category \<Rightarrow> string \<Rightarrow> TaskResult" where
  "refused rt tid st cat msg =
     \<lparr>tr_task_id = tid, tr_status = st, tr_performer_agent_id = id_agent_id (ar_identity rt),
      tr_output = None, tr_error = Some \<lparr>te_category = cat, te_message = msg\<rparr>\<rparr>"

definition completed :: "agent_runtime \<Rightarrow> uuid \<Rightarrow> A2AMessage \<Rightarrow> TaskResult" where
  "completed rt tid out =
     \<lparr>tr_task_id = tid, tr_status = Completed, tr_performer_agent_id = id_agent_id (ar_identity rt),
      tr_output = Some out, tr_error = None\<rparr>"

definition fitting :: "task_status \<Rightarrow> error_category \<Rightarrow> bool" where
  "fitting st cat \<longleftrightarrow> (st = Rejected \<and> cat \<in> {Validation, UnsupportedCapability, Duplicate})
     \<or> (st = Failed \<and> cat \<in> {HandlerError, Internal})"

lemma error_result_fitting: "fitting st cat \<Longrightarrow> error_result rt tid st cat msg = Inr (refused rt tid st cat msg)"
  by (auto simp: error_result_def validate_status_fields_def refused_def fitting_def)

lemma completed_result_valid: "completed_result rt tid out = Inr (completed rt tid out)"
  by (simp add: completed_result_def validate_status_fields_def completed_def)

lemma answer_error_replies:
  assumes "valid_runtime rt" "fitting st cat" "answer_error E rt env tid st cat msg oc atid reason w = (x, w')"
  shows "x = Inr () \<and> wt_tracker w' = wt_tracker w \<and> replies E env [refused rt tid st cat msg] w w'"
proof -
  let ?r = "refused rt tid st cat msg"
  obtain y w1 where p: "publish_result E rt ?r env w = (y, w1)" by fastforce
  then have w1: "y = Inr ()" "wt_tracker w1 = wt_tracker w" "replies E env [?r] w w1"
    using publish_result_replies assms(1) by blast+
  then have a: "write_task_audit E (ar_identity rt) env oc atid (Some reason) w1 = (x, w')"
    using assms(2,3) p by (simp add: answer_error_def error_result_fitting io_defs lift_exc_def)
  have "x = Inr () \<and> wt_tracker w' = wt_tracker w1 \<and> replies E env [] w1 w'"
    by (rule write_task_audit_replies [OF assms(1) a]) simp
  then show ?thesis using w1 replies_trans [OF w1(3)] by fastforce
qed

section \<open>Task handlers\<close>

text \<open>What the runtime relies on in a handler: it publishes no task result of its own and leaves the
  tracker alone.\<close>

locale task_handler =
  fixes handler :: task_handler_fn
  assumes handler_quiet: "handler req w = (x, w') \<Longrightarrow>
    wt_tracker w' = wt_tracker w \<and> (\<exists>log. nt_log w' = nt_log w @ log \<and> task_results log = [])"
begin

lemma handler_replies:
  assumes "handler req w = (x, w')"
  shows "replies E env [] w w'"
  using handler_quiet [OF assms] by (auto simp: replies_def)

lemma run_handler_replies:
  assumes v: "valid_runtime rt" and run: "run_handler E rt env req handler w = (x, w')"
  shows "x = Inr () \<and> wt_tracker w' = wt_tracker w
    \<and> replies E env [case fst (handler req w) of
        Inl e \<Rightarrow> refused rt (tq_task_id req) Failed HandlerError (take 500 (str_exc e))
      | Inr out \<Rightarrow> completed rt (tq_task_id req) out] w w'"
proof -
  obtain y w1 where h: "handler req w = (y, w1)" by fastforce
  have w1: "wt_tracker w1 = wt_tracker w" "replies E env [] w w1"
    using handler_quiet [OF h] handler_replies [OF h] by blast+
  show ?thesis
  proof (cases y)
    case (Inl e)
    let ?msg = "take 500 (str_exc e)"
    obtain z w2 where a: "answer_error E rt env (tq_task_id req) Failed HandlerError ?msg AuditFailed
        (Some (tq_task_id req)) ?msg w1 = (z, w2)" by fastforce
    have "z = Inr () \<and> wt_tracker w2 = wt_tracker w1
        \<and> replies E env [refused rt (tq_task_id req) Failed HandlerError ?msg] w1 w2"
      by (rule answer_error_replies [OF v _ a]) (simp add: fitting_def)
    then show ?thesis using run h a w1 replies_trans [OF w1(2)]
      by (fastforce simp: run_handler_def io_defs Let_def Inl)
  next
    case (Inr out)
    let ?r = "completed rt (tq_task_id req) out"
    obtain z w2 where p: "publish_result E rt ?r env w1 = (z, w2)" by fastforce
    then have w2: "z = Inr ()" "wt_tracker w2 = wt_tracker w1" "replies E env [?r] w1 w2"
      using publish_result_replies v by blast+
    obtain u w3 where a: "write_task_audit E (ar_identity rt) env AuditCompleted (Some (tq_task_id req)) None w2
        = (u, w3)" by fastforce
    have w3: "u = Inr () \<and> wt_tracker w3 = wt_tracker w2 \<and> replies E env [] w2 w3"
      by (rule write_task_audit_replies [OF v a]) simp
    have "(x, w') = (u, w3)" using run h p w2(1) a w3
      by (simp add: run_handler_def io_defs Let_def Inr lift_exc_def completed_result_valid)
    then show ?thesis using w1 w2 w3 replies_trans [OF w1(2) w2(3)] replies_trans [of E env "[?r]" w w2 "[]" w3]
      by (simp add: h Inr)
  qed
qed

end

lemma tracker_more: "net.more w' = net.more w \<Longrightarrow> wt_tracker w' = wt_tracker w" for w w' :: rt_net
  by (cases w; cases w') simp

lemma publish_quiet:
  fixes w w' :: rt_net
  assumes "publish E ident m et corr caus t w = (r, w')" "\<And>x. m \<noteq> MTaskResult x"
  shows "wt_tracker w' = wt_tracker w \<and> (\<exists>log. nt_log w' = nt_log w @ log \<and> task_results log = [])"
proof -
  have m: "result_of s = None" if "sn_model s = m" for s :: sent
    using that assms(2) by (cases m) auto
  obtain ms where ms: "nt_log w' = nt_log w @ ms" "ms = [] \<or> (\<exists>s. ms = [s] \<and> sn_model s = m)"
    using publish_frame(2) [OF assms(1)] by (cases r) auto
  then have "task_results ms = []" using m by (auto simp del: result_of.simps)
  then show ?thesis using ms(1) tracker_more [OF publish_frame(1) [OF assms(1)]] by blast
qed

lemma bind_lift: "bind_io (lift_exc r) f = (case r of Inl e \<Rightarrow> raise_io e | Inr x \<Rightarrow> f x)"
  by (cases r) (simp_all add: lift_exc_def io_defs fun_eq_iff)

lemma now_bind: "bind_io (now_io E) f w = f (re_clock E (nt_ticks w)) (w\<lparr>nt_ticks := Suc (nt_ticks w)\<rparr>)"
  by (simp add: now_io_def bind_io_def)

lemma then_return_frame: "then_io m (return_io y) w = (x, w') \<Longrightarrow> \<exists>r. m w = (r, w')"
  by (auto simp: io_defs split: prod.splits sum.splits)

interpretation billing_handler: task_handler "handle_eligibility E mv t0 llm assist" for E mv t0 llm assist
proof
  fix req x and w w' :: rt_net
  assume h: "handle_eligibility E mv t0 llm assist req w = (x, w')"
  obtain r w1 where a: "analyze E mv t0 (ms_parts (tq_input req)) w = (r, w1)" by fastforce
  then have w1: "net.more w1 = net.more w" "nt_log w1 = nt_log w"
    by (auto simp: analyze_def bind_lift raise_io_def return_io_def now_bind
        split: sum.splits option.splits)
  show "wt_tracker w' = wt_tracker w \<and> (\<exists>log. nt_log w' = nt_log w @ log \<and> task_results log = [])"
  proof (cases "w' = w1")
    case True
    then show ?thesis using w1 tracker_more [OF w1(1)] by auto
  next
    case False
    with h a obtain payload corr caus y where
      "publish E billing_identity (MBilling payload) (TOPIC_BILLING_RESULT (re_environment E)) corr caus None w1 = (y, w')"
      by (cases r) (auto simp: handle_eligibility_def bind_io_def [of "analyze _ _ _ _"] bind_lift raise_io_def Let_def
          split: sum.splits dest!: then_return_frame)
    from publish_quiet [OF this] show ?thesis using w1 tracker_more [OF w1(1)] by auto
  qed
qed

interpretation risk_handler: task_handler "handle_risk E mv llm assist" for E mv llm assist
proof
  fix req x and w w' :: rt_net
  assume h: "handle_risk E mv llm assist req w = (x, w')"
  show "wt_tracker w' = wt_tracker w \<and> (\<exists>log. nt_log w' = nt_log w @ log \<and> task_results log = [])"
  proof (cases "w' = w")
    case False
    with h obtain payload corr caus y where
      "publish E risk_identity (MRisk payload) (TOPIC_RISK_RESULT (re_environment E)) corr caus None w = (y, w')"
      by (auto simp: handle_risk_def bind_lift raise_io_def Let_def split: sum.splits dest!: then_return_frame)
    from publish_quiet [OF this] show ?thesis by auto
  qed auto
qed

section \<open>What the runtime guarantees\<close>

text \<open>
  The protocol, apart from how it is implemented: which results a well-formed request may be answered
  with. \<open>dup\<close> tells whether the task is known.
\<close>

inductive task_reply :: "agent_runtime \<Rightarrow> TaskRequest \<Rightarrow> bool \<Rightarrow> TaskResult list \<Rightarrow> bool" for rt req dup where
  wrong_target: "tq_target_agent_id req \<noteq> id_agent_id (ar_identity rt) \<Longrightarrow>
     task_reply rt req dup [refused rt (tq_task_id req) Rejected Validation msg]"
| unsupported: "tq_target_agent_id req = id_agent_id (ar_identity rt) \<Longrightarrow>
     tq_capability req \<notin> set (ar_capability_ids rt) \<Longrightarrow>
     task_reply rt req dup [refused rt (tq_task_id req) Rejected UnsupportedCapability msg]"
| duplicate: "tq_target_agent_id req = id_agent_id (ar_identity rt) \<Longrightarrow>
     tq_capability req \<in> set (ar_capability_ids rt) \<Longrightarrow> dup \<Longrightarrow> task_reply rt req dup []"
| unhandled: "tq_target_agent_id req = id_agent_id (ar_identity rt) \<Longrightarrow>
     tq_capability req \<in> set (ar_capability_ids rt) \<Longrightarrow> \<not> dup \<Longrightarrow>
     dict_get (ar_handlers rt) (tq_capability req) = None \<Longrightarrow>
     task_reply rt req dup [refused rt (tq_task_id req) Failed Internal msg]"
| handled: "tq_target_agent_id req = id_agent_id (ar_identity rt) \<Longrightarrow>
     tq_capability req \<in> set (ar_capability_ids rt) \<Longrightarrow> \<not> dup \<Longrightarrow>
     dict_get (ar_handlers rt) (tq_capability req) = Some h \<Longrightarrow> fst (h req w) = Inr out \<Longrightarrow>
     task_reply rt req dup [completed rt (tq_task_id req) out]"
| handler_failed: "tq_target_agent_id req = id_agent_id (ar_identity rt) \<Longrightarrow>
     tq_capability req \<in> set (ar_capability_ids rt) \<Longrightarrow> \<not> dup \<Longrightarrow>
     dict_get (ar_handlers rt) (tq_capability req) = Some h \<Longrightarrow> fst (h req w) = Inl e \<Longrightarrow>
     task_reply rt req dup [refused rt (tq_task_id req) Failed HandlerError (take 500 (str_exc e))]"

lemma skip_duplicate_replies:
  assumes v: "valid_runtime rt" and s: "skip_duplicate E W rt env tid w = (x, w')"
  shows "x = Inr (fst (is_duplicate (wi_polled W) tid (wt_tracker w)))
    \<and> wt_tracker w' = snd (is_duplicate (wi_polled W) tid (wt_tracker w)) \<and> replies E env [] w w'"
proof -
  obtain dup t where d: "is_duplicate (wi_polled W) tid (wt_tracker w) = (dup, t)" by fastforce
  let ?w = "w\<lparr>wt_tracker := t\<rparr>"
  have r0: "replies E env [] w ?w" by (simp add: replies_none)
  obtain y w1 where a: "write_task_audit E (ar_identity rt) env DuplicateSkipped (Some tid) None ?w = (y, w1)" by fastforce
  have a1: "y = Inr () \<and> wt_tracker w1 = t \<and> replies E env [] ?w w1"
    using write_task_audit_replies [OF v a] by simp
  show ?thesis
  proof (cases dup)
    case True
    have "(x, w') = (Inr True, w1)" using s d a a1 True
      by (simp add: skip_duplicate_def tracker_is_duplicate_def io_defs)
    then show ?thesis using a1 d True replies_trans [OF r0, of "[]" w1] by simp
  next
    case False
    then show ?thesis using s d r0 by (auto simp: skip_duplicate_def tracker_is_duplicate_def io_defs)
  qed
qed

lemma accept_task_replies:
  assumes v: "valid_runtime rt" and s: "accept_task E W rt env req w = (x, w')"
    and h: "\<And>h. dict_get (ar_handlers rt) (tq_capability req) = Some h \<Longrightarrow> task_handler h"
    and t: "tq_target_agent_id req = id_agent_id (ar_identity rt)" "tq_capability req \<in> set (ar_capability_ids rt)"
  shows "x = Inr () \<and> (\<exists>rs. task_reply rt req False rs \<and> replies E env rs w w')
    \<and> (dict_get (ar_handlers rt) (tq_capability req) \<noteq> None \<longrightarrow>
         wt_tracker w' = mark_processed (re_environment E) (wi_write_ok W) (tq_task_id req) (wt_tracker w))
    \<and> (dict_get (ar_handlers rt) (tq_capability req) = None \<longrightarrow> wt_tracker w' = wt_tracker w)"
proof -
  obtain y w1 where a: "write_task_audit E (ar_identity rt) env Accepted (Some (tq_task_id req)) None w = (y, w1)" by fastforce
  have w1: "y = Inr () \<and> wt_tracker w1 = wt_tracker w \<and> replies E env [] w w1"
    using write_task_audit_replies [OF v a] by simp
  show ?thesis
  proof (cases "dict_get (ar_handlers rt) (tq_capability req)")
    case None
    have e: "answer_error E rt env (tq_task_id req) Failed Internal ''No handler registered for this capability''
        AuditFailed (Some (tq_task_id req)) ''no_handler'' w1 = (x, w')"
      using s a w1 None by (simp add: accept_task_def then_io_def bind_io_def Let_def)
    have "x = Inr () \<and> wt_tracker w' = wt_tracker w1 \<and>
       replies E env [refused rt (tq_task_id req) Failed Internal ''No handler registered for this capability''] w1 w'"
      by (rule answer_error_replies [OF v _ e]) (simp add: fitting_def)
    then show ?thesis using None w1 replies_trans [of E env "[]" w w1] task_reply.unhandled [OF t] by fastforce
  next
    case (Some handler)
    obtain z w2 where r: "run_handler E rt env req handler w1 = (z, w2)" by fastforce
    let ?r = "case fst (handler req w1) of
        Inl e \<Rightarrow> refused rt (tq_task_id req) Failed HandlerError (take 500 (str_exc e))
      | Inr out \<Rightarrow> completed rt (tq_task_id req) out"
    have w2: "z = Inr () \<and> wt_tracker w2 = wt_tracker w1 \<and> replies E env [?r] w1 w2"
      by (rule task_handler.run_handler_replies [OF h [OF Some] v r])
    have x: "x = Inr ()" "w' = w2\<lparr>wt_tracker := mark_processed (re_environment E) (wi_write_ok W) (tq_task_id req) (wt_tracker w2)\<rparr>"
      using s a w1 Some r w2
      by (simp_all add: accept_task_def then_io_def bind_io_def Let_def tracker_mark_def modify_io_def)
    have "task_reply rt req False [?r]"
      by (cases "fst (handler req w1)")
        (simp_all add: task_reply.handled [OF t _ Some] task_reply.handler_failed [OF t _ Some])
    moreover have "replies E env [?r] w w'"
      using replies_trans [of E env "[]" w w1 "[?r]" w2] w1 w2 by (simp add: x replies_def)
    ultimately show ?thesis using x w1 w2 Some by auto
  qed
qed

definition well_handled :: "agent_runtime \<Rightarrow> bool" where
  "well_handled rt \<longleftrightarrow> valid_runtime rt \<and> (\<forall>(c, h) \<in> set (ar_handlers rt). task_handler h)"

lemma well_handled_handler:
  "well_handled rt \<Longrightarrow> dict_get (ar_handlers rt) c = Some h \<Longrightarrow> task_handler h"
  by (auto simp: well_handled_def dest: map_of_SomeD)

lemma handle_request_replies:
  assumes rt: "well_handled rt" and s: "handle_request E W rt env req w = (x, w')"
  shows "x = Inr () \<and> (\<exists>rs. task_reply rt req (fst (is_duplicate (wi_polled W) (tq_task_id req) (wt_tracker w))) rs
    \<and> replies E env rs w w')"
proof -
  have v: "valid_runtime rt" using rt by (simp add: well_handled_def)
  let ?dup = "is_duplicate (wi_polled W) (tq_task_id req) (wt_tracker w)"
  consider (target) "tq_target_agent_id req \<noteq> id_agent_id (ar_identity rt)"
    | (cap) "tq_target_agent_id req = id_agent_id (ar_identity rt)" "tq_capability req \<notin> set (ar_capability_ids rt)"
    | (ok) "tq_target_agent_id req = id_agent_id (ar_identity rt)" "tq_capability req \<in> set (ar_capability_ids rt)"
    by blast
  then show ?thesis
  proof cases
    case target
    note e = s [unfolded handle_request_def Let_def, simplified target if_True not_False_eq_True simp_thms]
    show ?thesis using answer_error_replies [OF v _ e] task_reply.wrong_target [OF target] by (auto simp: fitting_def)
  next
    case cap
    then have e: "answer_error E rt env (tq_task_id req) Rejected UnsupportedCapability
        (''Capability '' @ repr_str (tq_capability req) @ '' is not supported'')
        AuditRejected (Some (tq_task_id req)) ''unsupported_capability'' w = (x, w')"
      using s by (simp add: handle_request_def Let_def)
    show ?thesis using answer_error_replies [OF v _ e] task_reply.unsupported [OF cap] by (auto simp: fitting_def)
  next
    case ok
    obtain y w1 where d: "skip_duplicate E W rt env (tq_task_id req) w = (y, w1)" by fastforce
    note w1 = skip_duplicate_replies [OF v d]
    show ?thesis
    proof (cases "fst ?dup")
      case True
      then show ?thesis using s d w1 ok task_reply.duplicate [OF ok True]
        by (auto simp: handle_request_def bind_io_def return_io_def Let_def)
    next
      case False
      then have a: "accept_task E W rt env req w1 = (x, w')" using s d w1 ok
        by (simp add: handle_request_def bind_io_def Let_def)
      show ?thesis using accept_task_replies [OF v a well_handled_handler [OF rt] ok] w1 False
          replies_trans [of E env "[]" w w1] by fastforce
    qed
  qed
qed

lemma mark_hit: "tracked t \<Longrightarrow> fst (is_duplicate polled k (mark_processed env ok k t))"
proof -
  assume t: "tracked t"
  have "k \<in> set (tl (xs @ [k]))" if "10000 < length (xs @ [k])" for xs
    using that by (cases xs) auto
  then show ?thesis using tracked_hit [OF mark_processed_tracked [OF t]] t
    by (simp add: lru_add_def move_set_key Let_def tracked_def LRU_MAXSIZE_def)
qed

text \<open>After a task has been handled or skipped, the tracker knows it.\<close>

lemma handled_known:
  assumes rt: "well_handled rt" and t: "tracked (wt_tracker w)" and s: "handle_request E W rt env req w = (x, w')"
    and ok: "tq_target_agent_id req = id_agent_id (ar_identity rt)" "tq_capability req \<in> set (ar_capability_ids rt)"
      "dict_get (ar_handlers rt) (tq_capability req) \<noteq> None"
  shows "fst (is_duplicate (wi_polled W) (tq_task_id req) (wt_tracker w'))"
proof -
  have v: "valid_runtime rt" using rt by (simp add: well_handled_def)
  let ?dup = "is_duplicate (wi_polled W) (tq_task_id req) (wt_tracker w)"
  obtain y w1 where d: "skip_duplicate E W rt env (tq_task_id req) w = (y, w1)" by fastforce
  note w1 = skip_duplicate_replies [OF v d]
  show ?thesis
  proof (cases "fst ?dup")
    case True
    then have "w' = w1" using s d w1 ok by (simp add: handle_request_def bind_io_def return_io_def Let_def)
    then show ?thesis using w1 True t by (simp add: tracked_hit is_duplicate_tracked)
  next
    case False
    then have a: "accept_task E W rt env req w1 = (x, w')" using s d w1 ok
      by (simp add: handle_request_def bind_io_def Let_def)
    have "wt_tracker w' = mark_processed (re_environment E) (wi_write_ok W) (tq_task_id req) (wt_tracker w1)"
      using accept_task_replies [OF v a _ ok(1,2)] well_handled_handler [OF rt] ok(3) by blast
    then show ?thesis using w1 t mark_hit is_duplicate_tracked(1) by simp
  qed
qed

text \<open>The runtimes of the peer agents are served by well-behaved handlers.\<close>

lemma billing_runtime_registered:
  "billing_runtime E mv t0 llm assist = Inr ((new_runtime billing_identity (billing_card (re_environment E)))
     \<lparr>ar_handlers := [(''analyze_refund_eligibility'', handle_eligibility E mv t0 llm assist)]\<rparr>)"
  by (simp add: billing_runtime_def register_handler_def new_runtime_def billing_card_def)

lemma risk_runtime_registered:
  "risk_runtime E mv llm assist = Inr ((new_runtime risk_identity (risk_card (re_environment E)))
     \<lparr>ar_handlers := [(''assess_fraud_risk'', handle_risk E mv llm assist)]\<rparr>)"
  by (simp add: risk_runtime_def register_handler_def new_runtime_def risk_card_def)

lemma billing_well_handled: "billing_runtime E mv t0 llm assist = Inr rt \<Longrightarrow> well_handled rt"
  using billing_identity_valid billing_handler.task_handler_axioms
  by (auto simp: billing_runtime_registered well_handled_def valid_runtime_def new_runtime_def)

lemma risk_well_handled: "risk_runtime E mv llm assist = Inr rt \<Longrightarrow> well_handled rt"
  using risk_identity_valid risk_handler.task_handler_axioms
  by (auto simp: risk_runtime_registered well_handled_def valid_runtime_def new_runtime_def)

lemma handle_message_request:
  "parse_envelope E W raw = Inr env \<Longrightarrow> wi_request W (en_payload env) = Inr req \<Longrightarrow>
     handle_message E W rt raw = handle_request E W rt env req"
  by (simp add: handle_message_def)

text \<open>A wire on which the message is its own decoding, for concrete runs.\<close>

definition sample_wire :: "TaskRequest \<Rightarrow> EventEnvelope wire" where
  "sample_wire req = \<lparr>wi_envelope = Inr, wi_request = (\<lambda>_. Inr req), wi_write_ok = (\<lambda>_. False), wi_polled = None\<rparr>"

definition task_envelope :: EventEnvelope where
  "task_envelope = \<lparr>en_event_id = 1, en_correlation_id = 5, en_causation_id = Some 5,
     en_agent_id = ''customer-resolution-agent'', en_tenant_id = ''poc'', en_timestamp = 0,
     en_event_type = ''agent.task_request.v1'', en_schema_version = ''1.0.0'', en_trace_context = None, en_payload = []\<rparr>"

definition billing_task :: TaskRequest where
  "billing_task = (sample_task ''analyze_refund_eligibility'' [])\<lparr>tq_target_agent_id := ''billing-entitlement-agent''\<rparr>"

definition task_net :: rt_net where
  "task_net = \<lparr>nt_log = [], nt_ticks = 0, nt_uuids = 100, nt_sends = 0,
     wt_tracker = initialize None (new_tracker ''billing-entitlement-agent.tasks'')\<rparr>"

lemma sample_wire_parses:
  "parse_envelope sample_env (sample_wire req) task_envelope = Inr task_envelope"
  "wi_request (sample_wire req) d = Inr req" "wi_polled (sample_wire req) = None"
proof -
  have "validate_envelope (re_environment sample_env) task_envelope = Inr task_envelope" by code_simp
  then show "parse_envelope sample_env (sample_wire req) task_envelope = Inr task_envelope"
    by (simp add: parse_envelope_def sample_wire_def)
qed (simp_all add: sample_wire_def)

text \<open>C6: every well-formed task request is answered according to the protocol. Whatever the broker
  acknowledges, handling never raises, and the results published for the request are the ones the
  protocol allows, addressed to the request: one rejection for a wrong target or an undeclared
  capability, nothing for a known task, one failure if no handler is registered or the handler raises,
  and otherwise exactly one completed result with the handler's output.\<close>

theorem runtime_refines_protocol:
  assumes "well_handled rt" and "parse_envelope E W raw = Inr env" and "wi_request W (en_payload env) = Inr req"
    and "handle_message E W rt raw w = (x, w')"
  shows "x = Inr () \<and> (\<exists>rs. task_reply rt req (fst (is_duplicate (wi_polled W) (tq_task_id req) (wt_tracker w))) rs
    \<and> replies E env rs w w')"
  using handle_request_replies [OF assms(1)] assms(2-4) by (simp add: handle_message_request)

theorem runtime_refines_protocol_witness:
  "\<exists>rt w'. billing_runtime sample_env (\<lambda>_. Inr sample_request) 0 False (\<lambda>_ _ _ n. Inr n) = Inr rt
    \<and> handle_message sample_env (sample_wire billing_task) rt task_envelope task_net = (Inr (), w')"
proof -
  obtain rt where rt: "billing_runtime sample_env (\<lambda>_. Inr sample_request) 0 False (\<lambda>_ _ _ n. Inr n) = Inr rt"
    by (simp add: billing_runtime_registered)
  obtain x w' where h: "handle_message sample_env (sample_wire billing_task) rt task_envelope task_net = (x, w')"
    by fastforce
  have "x = Inr ()"
    using runtime_refines_protocol [OF billing_well_handled [OF rt] sample_wire_parses(1,2) h] by blast
  with rt h show ?thesis by blast
qed

text \<open>What a message does to the tracker: it may be asked about the task, and the task may be marked.\<close>

definition known_tasks :: "rt_net \<Rightarrow> uuid set" where
  "known_tasks w = set (lr_cache (tk_lru (wt_tracker w)))"

definition requested :: "runtime_env \<Rightarrow> 'raw wire \<Rightarrow> 'raw \<Rightarrow> uuid set" where
  "requested E W raw =
     (case parse_envelope E W raw of
        Inl _ \<Rightarrow> {}
      | Inr env \<Rightarrow> (case wi_request W (en_payload env) of Inl _ \<Rightarrow> {} | Inr req \<Rightarrow> {tq_task_id req}))"

lemma handle_request_tracker:
  assumes rt: "well_handled rt" and s: "handle_request E W rt env req w = (x, w')"
  shows "wt_tracker w' \<in> {wt_tracker w, snd (is_duplicate (wi_polled W) (tq_task_id req) (wt_tracker w)),
    mark_processed (re_environment E) (wi_write_ok W) (tq_task_id req)
      (snd (is_duplicate (wi_polled W) (tq_task_id req) (wt_tracker w)))}"
proof (cases "tq_target_agent_id req = id_agent_id (ar_identity rt) \<and> tq_capability req \<in> set (ar_capability_ids rt)")
  case False
  have v: "valid_runtime rt" using rt by (simp add: well_handled_def)
  from False s obtain cat msg reason where "cat \<in> {Validation, UnsupportedCapability}"
    "answer_error E rt env (tq_task_id req) Rejected cat msg AuditRejected (Some (tq_task_id req)) reason w = (x, w')"
    by (auto simp: handle_request_def Let_def split: if_splits)
  then show ?thesis using answer_error_replies [OF v] by (fastforce simp: fitting_def)
next
  case True
  have v: "valid_runtime rt" using rt by (simp add: well_handled_def)
  obtain y w1 where d: "skip_duplicate E W rt env (tq_task_id req) w = (y, w1)" by fastforce
  note w1 = skip_duplicate_replies [OF v d]
  show ?thesis
  proof (cases "fst (is_duplicate (wi_polled W) (tq_task_id req) (wt_tracker w))")
    case dup: True
    then have "w' = w1" using s d w1 True by (simp add: handle_request_def bind_io_def return_io_def Let_def)
    then show ?thesis using w1 by simp
  next
    case False
    then have a: "accept_task E W rt env req w1 = (x, w')" using s d w1 True
      by (simp add: handle_request_def bind_io_def Let_def)
    show ?thesis
      using accept_task_replies [OF v a well_handled_handler [OF rt]] True w1
      by (cases "dict_get (ar_handlers rt) (tq_capability req)") auto
  qed
qed

lemma reject_payload_tracker:
  assumes "valid_runtime rt" "reject_payload E rt env msg w = (x, w')"
  shows "wt_tracker w' = wt_tracker w"
proof -
  let ?a = "\<lambda>u. answer_error E rt env u Rejected Validation (take 500 msg) AuditRejected None (take 500 msg)"
  have a: "wt_tracker (snd (?a u w1)) = wt_tracker w1" for u w1
    using answer_error_replies [OF assms(1), of Rejected Validation] by (metis fitting_def insertI1 prod.collapse)
  consider "w' = w" | u n where "?a u (w\<lparr>nt_uuids := n\<rparr>) = (x, w')" | u where "?a u w = (x, w')"
    using assms(2) by (auto simp: reject_payload_def rejected_task_id_def bind_io_def uuid4_io_def return_io_def
        raise_io_def split: option.splits if_splits)
  then show ?thesis
  proof cases
    case (2 u n)
    then show ?thesis using a [of u "w\<lparr>nt_uuids := n\<rparr>"] by simp
  next
    case (3 u)
    then show ?thesis using a [of u w] by simp
  qed simp
qed

lemma handle_message_knows:
  assumes rt: "well_handled rt" and t: "tracked (wt_tracker w)"
    and fit: "card (known_tasks w \<union> requested E W raw) \<le> LRU_MAXSIZE"
    and h: "handle_message E W rt raw w = (x, w')"
  shows "tracked (wt_tracker w') \<and> known_tasks w \<subseteq> known_tasks w' \<and> known_tasks w' \<subseteq> known_tasks w \<union> requested E W raw"
proof (cases "\<exists>env req. parse_envelope E W raw = Inr env \<and> wi_request W (en_payload env) = Inr req")
  case False
  have "valid_runtime rt" using rt by (simp add: well_handled_def)
  with False h have "wt_tracker w' = wt_tracker w" using reject_payload_tracker
    by (cases "parse_envelope E W raw") (fastforce simp: handle_message_def return_io_def split: sum.splits)+
  then show ?thesis using t by (simp add: known_tasks_def)
next
  case True
  then obtain env req where m: "parse_envelope E W raw = Inr env" "wi_request W (en_payload env) = Inr req" by blast
  have s: "handle_request E W rt env req w = (x, w')" using h by (simp add: handle_message_request [OF m])
  let ?k = "tq_task_id req"
  let ?d = "snd (is_duplicate (wi_polled W) ?k (wt_tracker w))"
  have r: "requested E W raw = {?k}" by (simp add: requested_def m)
  have d: "tracked ?d" "set (lr_cache (tk_lru ?d)) = known_tasks w"
    using is_duplicate_tracked [OF t] by (simp_all add: known_tasks_def)
  have "set (lr_cache (tk_lru (mark_processed (re_environment E) (wi_write_ok W) ?k ?d))) = insert ?k (known_tasks w)"
    using tracker_dedup.mark_known [OF d(1), of ?k "re_environment E" "wi_write_ok W"] fit by (simp only: d(2) r) simp
  with handle_request_tracker [OF rt s] d t mark_processed_tracked [OF d(1)] show ?thesis
    unfolding r by (auto simp: known_tasks_def)
qed

lemma serve_loop_knows:
  assumes rt: "well_handled rt"
  shows "tracked (wt_tracker w) \<Longrightarrow> card (known_tasks w \<union> (\<Union>m \<in> set msgs. requested E W m)) \<le> LRU_MAXSIZE \<Longrightarrow>
    serve_loop E W rt msgs w = (x, w') \<Longrightarrow> tracked (wt_tracker w') \<and> known_tasks w \<subseteq> known_tasks w'"
proof (induction msgs arbitrary: w)
  case Nil
  then show ?case by (simp add: return_io_def)
next
  case (Cons raw msgs)
  obtain y w1 where h: "handle_message E W rt raw w = (y, w1)" by fastforce
  have fin: "finite (known_tasks v)" "finite (requested E W m)" for v m
    by (simp_all add: known_tasks_def requested_def split: sum.split)
  have "card (known_tasks w \<union> requested E W raw) \<le> card (known_tasks w \<union> (\<Union>m \<in> set (raw # msgs). requested E W m))"
    using fin by (intro card_mono) auto
  with Cons.prems(2) have w1: "tracked (wt_tracker w1)" "known_tasks w \<subseteq> known_tasks w1"
    "known_tasks w1 \<subseteq> known_tasks w \<union> requested E W raw"
    using handle_message_knows [OF rt Cons.prems(1) _ h] by auto
  have "card (known_tasks w1 \<union> (\<Union>m \<in> set msgs. requested E W m)) \<le> card (known_tasks w \<union> (\<Union>m \<in> set (raw # msgs). requested E W m))"
    using fin w1(3) by (intro card_mono) auto
  with Cons.prems(2) have fit: "card (known_tasks w1 \<union> (\<Union>m \<in> set msgs. requested E W m)) \<le> LRU_MAXSIZE" by linarith
  show ?case
  proof (cases y)
    case (Inl e)
    then have "w' = w1" using Cons.prems(3) h by (simp add: then_io_def bind_io_def)
    then show ?thesis using w1 by simp
  next
    case (Inr u)
    then have "serve_loop E W rt msgs w1 = (x, w')" using Cons.prems(3) h by (simp add: then_io_def bind_io_def)
    from Cons.IH [OF w1(1) fit this] w1(2) show ?thesis by blast
  qed
qed

lemma duplicate_skips_handler:
  assumes v: "valid_runtime rt" and m: "parse_envelope E W raw = Inr env" "wi_request W (en_payload env) = Inr req"
    and ok: "tq_target_agent_id req = id_agent_id (ar_identity rt)" "tq_capability req \<in> set (ar_capability_ids rt)"
    and dup: "fst (is_duplicate (wi_polled W) (tq_task_id req) (wt_tracker w))"
  shows "\<exists>w'. replies E env [] w w' \<and> (\<forall>hs. handle_message E W (rt\<lparr>ar_handlers := hs\<rparr>) raw w = (Inr (), w'))"
proof -
  obtain y w' where s: "skip_duplicate E W rt env (tq_task_id req) w = (y, w')" by fastforce
  have "skip_duplicate E W (rt\<lparr>ar_handlers := hs\<rparr>) env (tq_task_id req) = skip_duplicate E W rt env (tq_task_id req)" for hs
    by (simp add: skip_duplicate_def cong: if_cong)
  with s skip_duplicate_replies [OF v s] ok dup
  have "handle_message E W (rt\<lparr>ar_handlers := hs\<rparr>) raw w = (Inr (), w')" for hs
    by (simp add: handle_message_request [OF m] handle_request_def bind_io_def return_io_def Let_def)
  with skip_duplicate_replies [OF v s] show ?thesis by blast
qed

text \<open>C28: a task is performed once. Let a request for a capability with a handler be handled, then any further messages,
  as long as the identifiers of all tasks fit the tracker's 10000. A later delivery of the same task publishes no
  result, and its handling is the same whatever handlers are registered: the handler does not run again.
  Lost writes to the topic of processed identifiers do not change this. The specification asks that the
  repeated request be answered by the stored result; no result is stored.\<close>

theorem redelivered_task_skipped:
  assumes rt: "well_handled rt" and t: "tracked (wt_tracker w)"
    and m: "parse_envelope E W raw = Inr env" "wi_request W (en_payload env) = Inr req"
      "parse_envelope E W raw' = Inr env'" "wi_request W (en_payload env') = Inr req'"
    and ok: "tq_task_id req' = tq_task_id req" "tq_target_agent_id req = id_agent_id (ar_identity rt)"
      "tq_capability req \<in> set (ar_capability_ids rt)" "dict_get (ar_handlers rt) (tq_capability req) \<noteq> None"
      "tq_target_agent_id req' = id_agent_id (ar_identity rt)" "tq_capability req' \<in> set (ar_capability_ids rt)"
    and fit: "card (known_tasks w \<union> (\<Union>m \<in> set (raw # msgs). requested E W m)) \<le> LRU_MAXSIZE"
    and h: "serve_loop E W rt (raw # msgs) w = (x, w')"
  shows "\<exists>w''. replies E env' [] w' w'' \<and> (\<forall>hs. handle_message E W (rt\<lparr>ar_handlers := hs\<rparr>) raw' w' = (Inr (), w''))"
proof -
  have v: "valid_runtime rt" using rt by (simp add: well_handled_def)
  obtain y w1 where h1: "handle_message E W rt raw w = (y, w1)" by fastforce
  have s: "handle_request E W rt env req w = (y, w1)" using h1 by (simp add: handle_message_request [OF m(1,2)])
  have y: "y = Inr ()" using handle_request_replies [OF rt s] by blast
  then have rest: "serve_loop E W rt msgs w1 = (x, w')" using h h1 by (simp add: then_io_def bind_io_def)
  have fin: "finite (known_tasks v)" "finite (requested E W m)" for v m
    by (simp_all add: known_tasks_def requested_def split: sum.split)
  have "card (known_tasks w \<union> requested E W raw) \<le> card (known_tasks w \<union> (\<Union>m \<in> set (raw # msgs). requested E W m))"
    using fin by (intro card_mono) auto
  with fit have w1: "tracked (wt_tracker w1)" "known_tasks w1 \<subseteq> known_tasks w \<union> requested E W raw"
    using handle_message_knows [OF rt t _ h1] by auto
  have "card (known_tasks w1 \<union> (\<Union>m \<in> set msgs. requested E W m)) \<le> card (known_tasks w \<union> (\<Union>m \<in> set (raw # msgs). requested E W m))"
    using fin w1(2) by (intro card_mono) auto
  with fit have w': "tracked (wt_tracker w')" "known_tasks w1 \<subseteq> known_tasks w'"
    using serve_loop_knows [OF rt w1(1) _ rest] by auto
  have "tq_task_id req \<in> known_tasks w1"
    using handled_known [OF rt t s ok(2-4)] tracked_hit [OF w1(1)] by (simp add: known_tasks_def)
  with w' have "fst (is_duplicate (wi_polled W) (tq_task_id req') (wt_tracker w'))"
    unfolding ok(1) tracked_hit [OF w'(1)] by (auto simp: known_tasks_def)
  from duplicate_skips_handler [OF v m(3,4) ok(5,6) this] show ?thesis .
qed

text \<open>The task, another task, and the first one again, against a handler that fails.\<close>

definition two_tasks_wire :: "EventEnvelope wire" where
  "two_tasks_wire = (sample_wire billing_task)
     \<lparr>wi_request := (\<lambda>d. Inr (if d = [] then billing_task else billing_task\<lparr>tq_task_id := 77\<rparr>))\<rparr>"

theorem redelivered_task_skipped_witness:
  "\<exists>rt x w' w''. billing_runtime sample_env (\<lambda>_. Inr sample_request) 0 False (\<lambda>_ _ _ n. Inr n) = Inr rt
    \<and> serve_loop sample_env two_tasks_wire rt [task_envelope, task_envelope\<lparr>en_payload := [(''n'', VNone)]\<rparr>] task_net = (x, w')
    \<and> handle_message sample_env two_tasks_wire
        (rt\<lparr>ar_handlers := [(''analyze_refund_eligibility'', \<lambda>_ w. (Inl (ValueError ''again''), w))]\<rparr>) task_envelope w' = (Inr (), w'')
    \<and> replies sample_env task_envelope [] w' w''"
proof -
  obtain rt where rt: "billing_runtime sample_env (\<lambda>_. Inr sample_request) 0 False (\<lambda>_ _ _ n. Inr n) = Inr rt"
    by (simp add: billing_runtime_registered)
  let ?other = "task_envelope\<lparr>en_payload := [(''n'', VNone)]\<rparr>"
  obtain x w' where h: "serve_loop sample_env two_tasks_wire rt [task_envelope, ?other] task_net = (x, w')" by fastforce
  have t: "tracked (wt_tracker task_net)"
    by (simp add: task_net_def tracked_def initialize_def new_tracker_def new_lru_def)
  have id: "tq_target_agent_id billing_task = id_agent_id (ar_identity rt)"
    "tq_capability billing_task \<in> set (ar_capability_ids rt)"
    "dict_get (ar_handlers rt) (tq_capability billing_task) \<noteq> None"
    using rt by (auto simp: billing_runtime_registered new_runtime_def billing_identity_def billing_card_def
        billing_task_def sample_task_def)
  have p: "parse_envelope sample_env two_tasks_wire task_envelope = Inr task_envelope"
    "wi_request two_tasks_wire (en_payload task_envelope) = Inr billing_task"
    using sample_wire_parses(1) [of billing_task]
    by (simp_all add: two_tasks_wire_def parse_envelope_def task_envelope_def)
  have "known_tasks task_net = {}" by (simp add: known_tasks_def task_net_def initialize_def new_tracker_def new_lru_def)
  moreover have "(\<Union>m \<in> set [task_envelope, ?other]. requested sample_env two_tasks_wire m) \<subseteq> {tq_task_id billing_task, 77}"
    by (auto simp: requested_def two_tasks_wire_def split: sum.splits if_splits)
  ultimately have "card (known_tasks task_net \<union> (\<Union>m \<in> set [task_envelope, ?other]. requested sample_env two_tasks_wire m))
      \<le> card {tq_task_id billing_task, 77}" by (intro card_mono) simp_all
  also have "\<dots> \<le> LRU_MAXSIZE" by (simp add: card_insert_if LRU_MAXSIZE_def)
  finally have fit: "card (known_tasks task_net \<union> (\<Union>m \<in> set [task_envelope, ?other]. requested sample_env two_tasks_wire m)) \<le> LRU_MAXSIZE" .
  from redelivered_task_skipped [OF billing_well_handled [OF rt] t p p refl id id(1,2) fit h] rt h show ?thesis by blast
qed

text \<open>C29: a malformed request is rejected as invalid, unless its task identifier is itself malformed.
  The rejection names the request's own task, or a fresh one if the request has none; but an
  identifier that is no UUID raises out of the handler of the message, without a result or an audit
  record, and the agent stops serving with the remaining messages unread.\<close>

theorem malformed_request:
  assumes "valid_runtime rt" and "parse_envelope E W raw = Inr env" and "wi_request W (en_payload env) = Inl msg"
  shows "case dict_get (en_payload env) ''task_id'' of
      Some v \<Rightarrow>
        if truthy v then
          (case parse_uuid (py_str v) of
             Some u \<Rightarrow> fst (handle_message E W rt raw w) = Inr ()
               \<and> replies E env [refused rt u Rejected Validation (take 500 msg)] w (snd (handle_message E W rt raw w))
           | None \<Rightarrow> serve_loop E W rt (raw # msgs) w = (Inl (ValueError (uuid_error (py_str v))), w))
        else fst (handle_message E W rt raw w) = Inr ()
          \<and> replies E env [refused rt (re_uuid4 E (nt_uuids w)) Rejected Validation (take 500 msg)] w
              (snd (handle_message E W rt raw w))
    | None \<Rightarrow> fst (handle_message E W rt raw w) = Inr ()
        \<and> replies E env [refused rt (re_uuid4 E (nt_uuids w)) Rejected Validation (take 500 msg)] w
            (snd (handle_message E W rt raw w))"
proof -
  have hm: "handle_message E W rt raw = reject_payload E rt env msg" using assms(2,3) by (simp add: handle_message_def)
  let ?a = "\<lambda>u. answer_error E rt env u Rejected Validation (take 500 msg) AuditRejected None (take 500 msg)"
  have a: "fst (?a u w1) = Inr () \<and> replies E env [refused rt u Rejected Validation (take 500 msg)] w1 (snd (?a u w1))" for u w1
    using answer_error_replies [OF assms(1), of Rejected Validation] by (metis fitting_def insertI1 prod.collapse)
  have "replies E env rs (w\<lparr>nt_uuids := n\<rparr>) w2 = replies E env rs w w2" for rs n w2 by (simp add: replies_def)
  then have "replies E env [refused rt u Rejected Validation (take 500 msg)] w (snd (?a u (w\<lparr>nt_uuids := n\<rparr>)))" for u n
    using a [of u "w\<lparr>nt_uuids := n\<rparr>"] by blast
  with a show ?thesis
    by (auto simp: hm reject_payload_def rejected_task_id_def bind_io_def uuid4_io_def return_io_def
        raise_io_def then_io_def split: option.splits)
qed

theorem malformed_request_witness:
  "serve_loop sample_env (sample_wire billing_task\<lparr>wi_request := \<lambda>_. Inl ''missing field''\<rparr>)
     (new_runtime billing_identity (billing_card ''local''))
     [task_envelope\<lparr>en_payload := [(''task_id'', VStr ''T-1'')]\<rparr>, task_envelope] task_net
   = (Inl (ValueError ''badly formed hexadecimal UUID string''), task_net)"
proof -
  let ?W = "sample_wire billing_task\<lparr>wi_request := \<lambda>_. Inl ''missing field''\<rparr>"
  let ?e = "task_envelope\<lparr>en_payload := [(''task_id'', VStr ''T-1'')]\<rparr>"
  let ?rt = "new_runtime billing_identity (billing_card ''local'')"
  have v: "valid_runtime ?rt" using billing_identity_valid by (simp add: valid_runtime_def new_runtime_def)
  have "validate_envelope (re_environment sample_env) ?e = Inr ?e" by code_simp
  then have p: "parse_envelope sample_env ?W ?e = Inr ?e" by (simp add: parse_envelope_def sample_wire_def)
  have r: "wi_request ?W (en_payload ?e) = Inl ''missing field''" by simp
  have u: "parse_uuid (py_str (VStr ''T-1'')) = None"
    "uuid_error (py_str (VStr ''T-1'')) = ''badly formed hexadecimal UUID string''" by code_simp+
  show ?thesis using malformed_request [OF v p r, of task_net "[task_envelope]"] u by simp
qed

end
