(* ===== verification/Consumer.thy ===== *)
theory Consumer
  imports Agent_Runtime
begin

text \<open>
  The event consumer, \<^verbatim>\<open>src/agent_foundation/transport/consumer.py\<close>: one message from the broker to
  the agent's handler, with the envelope and payload checks, the idempotency tracker and the audit
  records, and the loop over the messages. A handler is a computation on the agent's state, which
  extends the state of the transport. Spans and logging have no effect on it.
\<close>

section \<open>The consumer\<close>

record 'raw consumer =
  cs_identity :: AgentIdentity
  cs_group_id :: string
  cs_idempotent :: bool
  cs_publisher :: bool
  cs_wire :: "'raw wire"
  cs_payload_valid :: "string \<Rightarrow> (string, pyval) dict \<Rightarrow> bool"

definition audit_when ::
  "runtime_env \<Rightarrow> 'raw consumer \<Rightarrow> EventEnvelope \<Rightarrow> audit_outcome \<Rightarrow> string option \<Rightarrow>
   ('a rt_net_scheme, unit) io" where
  "audit_when E C envelope outcome reason =
     when_io (cs_publisher C) (write_audit E (cs_identity C) envelope outcome reason)"

text \<open>\<^verbatim>\<open>_make_partial_envelope\<close> parses the bytes once more.\<close>

definition make_partial_envelope :: "runtime_env \<Rightarrow> 'raw consumer \<Rightarrow> 'raw \<Rightarrow> EventEnvelope option" where
  "make_partial_envelope E C raw =
     (case parse_envelope E (cs_wire C) raw of Inl _ \<Rightarrow> None | Inr e \<Rightarrow> Some e)"

definition reject_envelope :: "runtime_env \<Rightarrow> 'raw consumer \<Rightarrow> 'raw \<Rightarrow> ('a rt_net_scheme, unit) io" where
  "reject_envelope E C raw =
     try_io
       (case make_partial_envelope E C raw of
          None \<Rightarrow> return_io ()
        | Some envelope \<Rightarrow> audit_when E C envelope AuditRejected (Some ''invalid_envelope''))
       (\<lambda>_. return_io ())"

definition check_duplicate :: "runtime_env \<Rightarrow> 'raw consumer \<Rightarrow> EventEnvelope \<Rightarrow> ('a rt_net_scheme, bool) io" where
  "check_duplicate E C envelope =
     (if \<not> cs_idempotent C then return_io False
      else try_io
        (bind_io (\<lambda>w. let (dup, t) = is_duplicate (wi_polled (cs_wire C)) (en_event_id envelope) (wt_tracker w)
                      in (Inr dup, w\<lparr>wt_tracker := t\<rparr>)) (\<lambda>dup.
         if dup then then_io (audit_when E C envelope DuplicateSkipped None) (return_io True) else return_io False))
        (\<lambda>_. return_io False))"

definition rejection_reason :: "runtime_env \<Rightarrow> 'raw consumer \<Rightarrow> EventEnvelope \<Rightarrow> string option" where
  "rejection_reason E C envelope =
     (case lookup (re_environment E) (en_event_type envelope) of
        Inl _ \<Rightarrow> Some ''unknown_schema_version''
      | Inr model_cls \<Rightarrow>
          if cs_payload_valid C model_cls (en_payload envelope) then None else Some ''payload_invalid'')"

definition mark_event :: "runtime_env \<Rightarrow> 'raw consumer \<Rightarrow> EventEnvelope \<Rightarrow> ('a rt_net_scheme, unit) io" where
  "mark_event E C envelope =
     when_io (cs_idempotent C)
       (modify_io (\<lambda>w. w\<lparr>wt_tracker :=
          mark_processed (re_environment E) (wi_write_ok (cs_wire C)) (en_event_id envelope) (wt_tracker w)\<rparr>))"

text \<open>A handler that raises leaves the event unmarked and without an audit record.\<close>

definition deliver_event ::
  "runtime_env \<Rightarrow> 'raw consumer \<Rightarrow> (EventEnvelope \<Rightarrow> ('a rt_net_scheme, unit) io) \<Rightarrow> EventEnvelope \<Rightarrow>
   ('a rt_net_scheme, unit) io" where
  "deliver_event E C handler envelope =
     bind_io (try_io (then_io (handler envelope) (return_io False)) (\<lambda>_. return_io True)) (\<lambda>handler_error.
     if handler_error then return_io ()
     else then_io (mark_event E C envelope)
            (try_io (audit_when E C envelope Accepted None) (\<lambda>_. return_io ())))"

definition consume_message ::
  "runtime_env \<Rightarrow> 'raw consumer \<Rightarrow> (EventEnvelope \<Rightarrow> ('a rt_net_scheme, unit) io) \<Rightarrow> 'raw \<Rightarrow>
   ('a rt_net_scheme, unit) io" where
  "consume_message E C handler raw =
     (case parse_envelope E (cs_wire C) raw of
        Inl _ \<Rightarrow> reject_envelope E C raw
      | Inr envelope \<Rightarrow>
          bind_io (check_duplicate E C envelope) (\<lambda>skipped.
          if skipped then return_io ()
          else case rejection_reason E C envelope of
                 Some reason \<Rightarrow> audit_when E C envelope AuditRejected (Some reason)
               | None \<Rightarrow> deliver_event E C handler envelope))"

fun consume_loop ::
  "runtime_env \<Rightarrow> 'raw consumer \<Rightarrow> (EventEnvelope \<Rightarrow> ('a rt_net_scheme, unit) io) \<Rightarrow> 'raw list \<Rightarrow>
   ('a rt_net_scheme, unit) io" where
  "consume_loop E C handler [] = return_io ()"
| "consume_loop E C handler (raw # msgs) =
     then_io (consume_message E C handler raw) (consume_loop E C handler msgs)"

definition consume_run ::
  "runtime_env \<Rightarrow> 'raw consumer \<Rightarrow> (EventEnvelope \<Rightarrow> ('a rt_net_scheme, unit) io) \<Rightarrow> 'raw list \<Rightarrow>
   ('a rt_net_scheme, unit) io" where
  "consume_run E C handler msgs =
     then_io (when_io (cs_idempotent C) (modify_io (\<lambda>w. w\<lparr>wt_tracker :=
         initialize (wi_polled (cs_wire C)) (new_tracker (cs_group_id C))\<rparr>)))
       (consume_loop E C handler msgs)"

section \<open>A probe for the handler\<close>

text \<open>
  A handler that only records which events it was given and completed; which of its calls raise is
  arbitrary.
\<close>

record probe_net = rt_net +
  pb_calls :: nat
  pb_done :: "uuid list"

definition probe :: "(nat \<Rightarrow> bool) \<Rightarrow> EventEnvelope \<Rightarrow> (probe_net, unit) io" where
  "probe ok envelope =
     (\<lambda>w. if ok (pb_calls w)
          then (Inr (), w\<lparr>pb_calls := Suc (pb_calls w), pb_done := pb_done w @ [en_event_id envelope]\<rparr>)
          else (Inl (ValueError ''handler''), w\<lparr>pb_calls := Suc (pb_calls w)\<rparr>))"

definition deliverable :: "runtime_env \<Rightarrow> 'raw consumer \<Rightarrow> 'raw \<Rightarrow> uuid option" where
  "deliverable E C raw =
     (case parse_envelope E (cs_wire C) raw of
        Inl _ \<Rightarrow> None
      | Inr envelope \<Rightarrow> if rejection_reason E C envelope = None then Some (en_event_id envelope) else None)"

definition valid_consumer :: "'raw consumer \<Rightarrow> bool" where
  "valid_consumer C \<longleftrightarrow> cs_idempotent C \<and> AGENT_ID_RE (id_agent_id (cs_identity C))
     \<and> TENANT_ID_RE (id_tenant_id (cs_identity C))"

abbreviation known_ids :: "'a rt_net_scheme \<Rightarrow> uuid set" where
  "known_ids w \<equiv> set (lr_cache (tk_lru (wt_tracker w)))"

text \<open>Audit records change neither the tracker nor the agent's state, and do not raise.\<close>

lemma audit_when_frame:
  assumes "valid_consumer C" "oc \<in> {AuditRejected, AuditFailed} \<longrightarrow> reason \<noteq> None"
    "audit_when E C env oc reason w = (x, w')"
  shows "x = Inr () \<and> net.more w' = net.more w"
  using assms
  by (cases "re_send_ok E (nt_sends w)")
    (auto simp: audit_when_def write_audit_def write_task_audit_def runtime_io_defs valid_consumer_def
      validate_reason_required_def split: if_splits)

lemma probe_more:
  "net.more w' = net.more w \<Longrightarrow> wt_tracker w' = wt_tracker w \<and> pb_calls w' = pb_calls w \<and> pb_done w' = pb_done w"
  for w w' :: probe_net
  by (cases w; cases w') simp

lemma check_duplicate_frame:
  fixes w w' :: probe_net
  assumes "valid_consumer C" "tracked (wt_tracker w)" "check_duplicate E C env w = (x, w')"
  shows "x = Inr (en_event_id env \<in> known_ids w) \<and> tracked (wt_tracker w') \<and> known_ids w' = known_ids w
    \<and> pb_calls w' = pb_calls w \<and> pb_done w' = pb_done w"
proof -
  let ?d = "is_duplicate (wi_polled (cs_wire C)) (en_event_id env) (wt_tracker w)"
  let ?w = "w\<lparr>wt_tracker := snd ?d\<rparr>"
  obtain y w1 where a: "audit_when E C env DuplicateSkipped None ?w = (y, w1)" by fastforce
  have "y = Inr () \<and> net.more w1 = net.more ?w" by (rule audit_when_frame [OF assms(1) _ a]) simp
  note w1 = this probe_more [of w1 ?w]
  have "w' = (if fst ?d then w1 else ?w)" "x = Inr (fst ?d)"
    using assms(1,3) a w1(1)
    by (auto simp: check_duplicate_def valid_consumer_def io_defs Let_def case_prod_beta split: if_splits)
  then show ?thesis using w1 is_duplicate_tracked [OF assms(2)] tracked_hit [OF assms(2)] by (auto split: if_splits)
qed

lemma deliver_probe:
  "ok (pb_calls w) \<Longrightarrow> cs_idempotent C \<Longrightarrow>
   audit_when E C env Accepted None (w\<lparr>pb_calls := Suc (pb_calls w), pb_done := pb_done w @ [en_event_id env],
      wt_tracker := mark_processed (re_environment E) (wi_write_ok (cs_wire C)) (en_event_id env) (wt_tracker w)\<rparr>)
     = (Inr (), w2) \<Longrightarrow>
   deliver_event E C (probe ok) env w = (Inr (), w2)"
  by (simp add: deliver_event_def probe_def mark_event_def io_defs)

lemma deliver_probe_fails:
  "\<not> ok (pb_calls w) \<Longrightarrow> deliver_event E C (probe ok) env w = (Inr (), w\<lparr>pb_calls := Suc (pb_calls w)\<rparr>)"
  by (simp add: deliver_event_def probe_def io_defs)

lemma consume_message_step:
  fixes w w' :: probe_net
  assumes "valid_consumer C" "tracked (wt_tracker w)" "consume_message E C (probe ok) raw w = (x, w')"
  shows "x = Inr () \<and> tracked (wt_tracker w')
    \<and> (case deliverable E C raw of
         None \<Rightarrow> known_ids w' = known_ids w \<and> pb_done w' = pb_done w
       | Some k \<Rightarrow>
           if k \<notin> known_ids w \<and> ok (pb_calls w)
           then pb_done w' = pb_done w @ [k] \<and>
             (\<exists>t. tracked t \<and> set (lr_cache (tk_lru t)) = known_ids w
               \<and> wt_tracker w' = mark_processed (re_environment E) (wi_write_ok (cs_wire C)) k t)
           else known_ids w' = known_ids w \<and> pb_done w' = pb_done w)"
proof (cases "parse_envelope E (cs_wire C) raw")
  case (Inl e)
  then show ?thesis using assms
    by (simp add: consume_message_def reject_envelope_def make_partial_envelope_def io_defs deliverable_def)
next
  case (Inr env)
  obtain y w1 where d: "check_duplicate E C env w = (y, w1)" by fastforce
  note w1 = check_duplicate_frame [OF assms(1,2) d]
  show ?thesis
  proof (cases "en_event_id env \<in> known_ids w")
    case True
    then have "x = Inr ()" "w' = w1" using assms(3) Inr d w1 by (auto simp: consume_message_def bind_io_def return_io_def)
    then show ?thesis using w1 True Inr by (auto simp: deliverable_def split: option.splits)
  next
    case False
    have c: "(case rejection_reason E C env of
        Some reason \<Rightarrow> audit_when E C env AuditRejected (Some reason)
      | None \<Rightarrow> deliver_event E C (probe ok) env) w1 = (x, w')"
      using assms(3) Inr d w1 False by (simp add: consume_message_def bind_io_def)
    show ?thesis
    proof (cases "rejection_reason E C env")
      case (Some reason)
      then have "audit_when E C env AuditRejected (Some reason) w1 = (x, w')" using c by simp
      with audit_when_frame [OF assms(1)] have "x = Inr () \<and> net.more w' = net.more w1" by blast
      then show ?thesis using w1 probe_more [of w' w1] Inr Some by (simp add: deliverable_def)
    next
      case None
      let ?k = "en_event_id env"
      have k: "deliverable E C raw = Some ?k" using Inr None by (simp add: deliverable_def)
      have c: "deliver_event E C (probe ok) env w1 = (x, w')" using c None by simp
      show ?thesis
      proof (cases "ok (pb_calls w)")
        case True
        let ?w = "w1\<lparr>pb_calls := Suc (pb_calls w1), pb_done := pb_done w1 @ [?k],
           wt_tracker := mark_processed (re_environment E) (wi_write_ok (cs_wire C)) ?k (wt_tracker w1)\<rparr>"
        obtain z w2 where a: "audit_when E C env Accepted None ?w = (z, w2)" by fastforce
        have z: "z = Inr () \<and> net.more w2 = net.more ?w" by (rule audit_when_frame [OF assms(1) _ a]) simp
        have "deliver_event E C (probe ok) env w1 = (Inr (), w2)"
        proof (rule deliver_probe)
          show "ok (pb_calls w1)" using True w1 by simp
          show "cs_idempotent C" using assms(1) by (simp add: valid_consumer_def)
          show "audit_when E C env Accepted None ?w = (Inr (), w2)" using a conjunct1 [OF z] by simp
        qed
        then have "x = Inr ()" "w' = w2" using c by simp_all
        moreover have "wt_tracker w2 = mark_processed (re_environment E) (wi_write_ok (cs_wire C)) ?k (wt_tracker w1)"
          "pb_done w2 = pb_done w1 @ [?k]" using probe_more [OF conjunct2 [OF z]] by simp_all
        ultimately show ?thesis using w1 False True mark_processed_tracked
          by (simp add: k del: mark_processed_lru) blast
      next
        case f: False
        then have "deliver_event E C (probe ok) env w1 = (Inr (), w1\<lparr>pb_calls := Suc (pb_calls w1)\<rparr>)"
          using w1 by (intro deliver_probe_fails) simp
        then have "x = Inr ()" "w' = w1\<lparr>pb_calls := Suc (pb_calls w1)\<rparr>" using c by simp_all
        then show ?thesis using w1 f by (simp add: k)
      qed
    qed
  qed
qed

section \<open>Exactly once\<close>

definition event_ids :: "runtime_env \<Rightarrow> 'raw consumer \<Rightarrow> 'raw list \<Rightarrow> uuid set" where
  "event_ids E C msgs = {k. \<exists>raw \<in> set msgs. deliverable E C raw = Some k}"

lemma event_ids_simps [simp]:
  "event_ids E C [] = {}"
  "event_ids E C (raw # msgs) = (case deliverable E C raw of None \<Rightarrow> {} | Some k \<Rightarrow> {k}) \<union> event_ids E C msgs"
  by (auto simp: event_ids_def split: option.splits)

lemma finite_event_ids [simp]: "finite (event_ids E C msgs)"
  by (induction msgs) (auto split: option.splits)

lemma consume_loop_once:
  fixes w w' :: probe_net
  assumes "valid_consumer C" "tracked (wt_tracker w)" "card (known_ids w \<union> event_ids E C msgs) \<le> LRU_MAXSIZE"
    "set (pb_done w) \<subseteq> known_ids w" "distinct (pb_done w)" "consume_loop E C (probe ok) msgs w = (x, w')"
  shows "x = Inr () \<and> distinct (pb_done w') \<and> set (pb_done w') \<subseteq> set (pb_done w) \<union> (event_ids E C msgs - known_ids w)
    \<and> ((\<forall>n. ok n) \<longrightarrow> set (pb_done w') = set (pb_done w) \<union> (event_ids E C msgs - known_ids w))"
  using assms(2-6)
proof (induction msgs arbitrary: w)
  case Nil
  then show ?case by (auto simp: return_io_def)
next
  case (Cons raw msgs)
  obtain y w1 where c: "consume_message E C (probe ok) raw w = (y, w1)" by fastforce
  note st = consume_message_step [OF assms(1) Cons.prems(1) c]
  have l: "consume_loop E C (probe ok) msgs w1 = (x, w')" using Cons.prems(5) c st by (simp add: then_io_def bind_io_def)
  consider (same) "known_ids w1 = known_ids w" "pb_done w1 = pb_done w"
      "deliverable E C raw = None \<or> (\<exists>k. deliverable E C raw = Some k \<and> (k \<in> known_ids w \<or> \<not> ok (pb_calls w)))"
    | (new) k where "deliverable E C raw = Some k" "k \<notin> known_ids w" "pb_done w1 = pb_done w @ [k]"
      "known_ids w1 = insert k (known_ids w)"
  proof (cases "\<exists>k. deliverable E C raw = Some k \<and> k \<notin> known_ids w \<and> ok (pb_calls w)")
    case True
    then obtain k t where k: "deliverable E C raw = Some k" "k \<notin> known_ids w" "pb_done w1 = pb_done w @ [k]"
      and t: "tracked t" "set (lr_cache (tk_lru t)) = known_ids w"
        "wt_tracker w1 = mark_processed (re_environment E) (wi_write_ok (cs_wire C)) k t"
      using st by (auto split: if_splits)
    have "card (insert k (known_ids w)) \<le> card (known_ids w \<union> event_ids E C (raw # msgs))"
      using k by (intro card_mono) auto
    then have "known_ids w1 = insert k (known_ids w)"
      using tracker_dedup.mark_known [OF t(1), of k] Cons.prems(2) t(2,3) by simp
    with k show thesis by (rule that(2))
  next
    case False
    then show thesis using st by (intro that(1)) (auto split: option.splits if_splits)
  qed
  then show ?case
  proof cases
    case same
    have "card (known_ids w1 \<union> event_ids E C msgs) \<le> card (known_ids w \<union> event_ids E C (raw # msgs))"
      by (intro card_mono) (auto simp: same(1) split: option.splits)
    then show ?thesis using Cons.IH [of w1] Cons.prems st l same by (auto split: option.splits)
  next
    case new
    have "card (known_ids w1 \<union> event_ids E C msgs) = card (known_ids w \<union> event_ids E C (raw # msgs))"
      using new by (auto intro!: arg_cong [of _ _ card])
    then show ?thesis using Cons.IH [of w1] Cons.prems st l new by auto
  qed
qed

text \<open>C7: every event is handled exactly once. A consumer that starts with what its topic of processed
  identifiers holds, and then receives any messages in any order, malformed, unregistered and repeated
  ones among them, never raises; its handler completes no event twice and none that was processed
  before the start, and if the handler does not raise it completes every valid event that is new. The
  condition is that the identifiers fit the tracker's 10000 places.\<close>

theorem consumer_exactly_once:
  assumes "valid_consumer C" and "pb_done w = []"
    and "known = set (lr_cache (tk_lru (initialize (wi_polled (cs_wire C)) (new_tracker (cs_group_id C)))))"
    and "card (known \<union> event_ids E C msgs) \<le> 10000"
    and "consume_run E C (probe ok) msgs w = (x, w')"
  shows "x = Inr () \<and> distinct (pb_done w') \<and> set (pb_done w') \<subseteq> event_ids E C msgs - known
    \<and> ((\<forall>n. ok n) \<longrightarrow> set (pb_done w') = event_ids E C msgs - known)"
proof -
  let ?w = "w\<lparr>wt_tracker := initialize (wi_polled (cs_wire C)) (new_tracker (cs_group_id C))\<rparr>"
  have l: "consume_loop E C (probe ok) msgs ?w = (x, w')"
    using assms(1,5) by (simp add: consume_run_def io_defs valid_consumer_def)
  have k: "known_ids ?w = known" using assms(3) by simp
  have "tracked (wt_tracker ?w)" by (simp add: tracked_initialize)
  moreover have "card (known_ids ?w \<union> event_ids E C msgs) \<le> LRU_MAXSIZE" using assms(4) k by (simp add: LRU_MAXSIZE_def)
  ultimately show ?thesis using consume_loop_once [OF assms(1) _ _ _ _ l] assms(2) k by simp
qed

definition sample_consumer :: "EventEnvelope consumer" where
  "sample_consumer = \<lparr>cs_identity = billing_identity, cs_group_id = ''resolution'', cs_idempotent = True,
     cs_publisher = True, cs_wire = sample_wire billing_task, cs_payload_valid = (\<lambda>_ _. True)\<rparr>"

definition probe_start :: probe_net where
  "probe_start = \<lparr>nt_log = [], nt_ticks = 0, nt_uuids = 100, nt_sends = 0, wt_tracker = new_tracker ''none'',
     pb_calls = 0, pb_done = []\<rparr>"

theorem consumer_exactly_once_witness:
  "\<exists>w'. consume_run sample_env sample_consumer (probe (\<lambda>_. True))
       [task_envelope, task_envelope, task_envelope\<lparr>en_event_id := 2\<rparr>] probe_start = (Inr (), w')
    \<and> distinct (pb_done w') \<and> set (pb_done w') = {1, 2}"
proof -
  let ?msgs = "[task_envelope, task_envelope, task_envelope\<lparr>en_event_id := 2\<rparr>]"
  have v: "valid_consumer sample_consumer"
    using billing_identity_valid by (simp add: valid_consumer_def sample_consumer_def)
  obtain x w' where r: "consume_run sample_env sample_consumer (probe (\<lambda>_. True)) ?msgs probe_start = (x, w')"
    by fastforce
  have k: "{} = set (lr_cache (tk_lru (initialize (wi_polled (cs_wire sample_consumer)) (new_tracker (cs_group_id sample_consumer)))))"
    by (simp add: sample_consumer_def sample_wire_parses initialize_def new_tracker_def new_lru_def)
  have "deliverable sample_env sample_consumer task_envelope = Some 1"
    "deliverable sample_env sample_consumer (task_envelope\<lparr>en_event_id := 2\<rparr>) = Some 2" by code_simp+
  then have ids: "event_ids sample_env sample_consumer ?msgs = {1, 2}" by auto
  have "card ({} \<union> event_ids sample_env sample_consumer ?msgs) \<le> 10000" unfolding ids by simp
  moreover have "pb_done probe_start = []" by (simp add: probe_start_def)
  ultimately have "x = Inr ()" "distinct (pb_done w')" "set (pb_done w') = event_ids sample_env sample_consumer ?msgs - {}"
    using consumer_exactly_once [OF v _ k _ r] by blast+
  then show ?thesis using r unfolding ids by blast
qed

end
