(* ===== verification/Resolution_Service.thy ===== *)
theory Resolution_Service
  imports Resolution_Once Consumer
begin

text \<open>
  The service of the Customer-Resolution agent, \<^verbatim>\<open>apps/agents/customer_resolution/agent.py\<close>: four
  consumers, each with its own record of processed events, feed the handlers of
  \<^verbatim>\<open>Resolution_Handlers\<close>, and the reaper sweeps the same store. Messages of the four topics and
  sweeps come in any order, in a serial schedule: each message is handled, and each sweep made, to its
  end before the next begins. The code runs the loops concurrently, so a handler suspended in an await
  can be overtaken by another loop; such overlaps are not steps of this model. \<^verbatim>\<open>Resolution_Race\<close> treats
  one and shows that the bound on decisions does not survive it. The agent's own A2A endpoint, which
  has no handler and no access to the store, is left out.
\<close>

section \<open>The loops\<close>

text \<open>The world of one loop: the transport, the loop's tracker and the shared store.\<close>

record svc_net = rt_net +
  sv_store :: case_store

definition cr_view :: "svc_net \<Rightarrow> cr_world" where
  "cr_view w = \<lparr>nt_log = nt_log w, nt_ticks = nt_ticks w, nt_uuids = nt_uuids w, nt_sends = nt_sends w, cw_store = sv_store w\<rparr>"

definition svc_world :: "cr_world \<Rightarrow> tracker \<Rightarrow> svc_net" where
  "svc_world v t = \<lparr>nt_log = nt_log v, nt_ticks = nt_ticks v, nt_uuids = nt_uuids v, nt_sends = nt_sends v, wt_tracker = t,
     sv_store = cw_store v\<rparr>"

definition in_service :: "unit cr_io \<Rightarrow> (svc_net, unit) io" where
  "in_service m = (\<lambda>w. case m (cr_view w) of (r, v) \<Rightarrow> (r, svc_world v (wt_tracker w)))"

datatype loop = IntakeLoop | ResultLoop | BillingLoop | RiskLoop

fun loop_group :: "loop \<Rightarrow> string" where
  "loop_group IntakeLoop = AGENT_ID @ ''.intake''"
| "loop_group ResultLoop = AGENT_ID @ ''.results''"
| "loop_group BillingLoop = AGENT_ID @ ''.billing-results''"
| "loop_group RiskLoop = AGENT_ID @ ''.risk-results''"

fun loop_topic :: "string \<Rightarrow> loop \<Rightarrow> string" where
  "loop_topic env IntakeLoop = TICKET_CREATED env"
| "loop_topic env ResultLoop = TOPIC_TASK_RESULT env"
| "loop_topic env BillingLoop = TOPIC_BILLING_RESULT env"
| "loop_topic env RiskLoop = TOPIC_RISK_RESULT env"

fun loop_delivery :: "loop \<Rightarrow> EventEnvelope \<Rightarrow> delivery" where
  "loop_delivery IntakeLoop env = Ticket env"
| "loop_delivery ResultLoop env = TaskResultEvent env"
| "loop_delivery BillingLoop env = BillingEvent env"
| "loop_delivery RiskLoop env = RiskEvent env"

definition loop_handler :: "runtime_env \<Rightarrow> cr_params \<Rightarrow> loop \<Rightarrow> EventEnvelope \<Rightarrow> (svc_net, unit) io" where
  "loop_handler E P l envelope = in_service (handle E P (loop_delivery l envelope))"

text \<open>What the loops read: the wire of each and pydantic's verdict on payloads.\<close>

record 'raw service_wires =
  sw_wire :: "loop \<Rightarrow> 'raw wire"
  sw_payload_valid :: "string \<Rightarrow> (string, pyval) dict \<Rightarrow> bool"

definition loop_consumer :: "'raw service_wires \<Rightarrow> loop \<Rightarrow> 'raw consumer" where
  "loop_consumer K l = \<lparr>cs_identity = cr_identity, cs_group_id = loop_group l, cs_idempotent = True, cs_publisher = True,
     cs_wire = sw_wire K l, cs_payload_valid = sw_payload_valid K\<rparr>"

record service =
  sc_world :: cr_world
  sc_trackers :: "loop \<Rightarrow> tracker"

datatype 'raw service_event = Message loop 'raw | Sweep

definition service_step ::
  "runtime_env \<Rightarrow> cr_params \<Rightarrow> 'raw service_wires \<Rightarrow> 'raw service_event \<Rightarrow> service \<Rightarrow> (exc + unit) \<times> service" where
  "service_step E P K ev s =
     (case ev of
        Message l raw \<Rightarrow>
          (case consume_message E (loop_consumer K l) (loop_handler E P l) raw (svc_world (sc_world s) (sc_trackers s l)) of
             (r, w) \<Rightarrow> (r, \<lparr>sc_world = cr_view w, sc_trackers = (sc_trackers s)(l := wt_tracker w)\<rparr>))
      | Sweep \<Rightarrow> (case reaper_sweep E (sc_world s) of (r, v) \<Rightarrow> (r, s\<lparr>sc_world := v\<rparr>)))"

text \<open>The service runs until one of its loops raises.\<close>

fun service_run ::
  "runtime_env \<Rightarrow> cr_params \<Rightarrow> 'raw service_wires \<Rightarrow> 'raw service_event list \<Rightarrow> service \<Rightarrow> (exc + unit) \<times> service" where
  "service_run E P K [] s = (Inr (), s)"
| "service_run E P K (ev # evs) s =
     (case service_step E P K ev s of
        (Inl e, s') \<Rightarrow> (Inl e, s')
      | (Inr _, s') \<Rightarrow> service_run E P K evs s')"

definition service_start :: "'raw service_wires \<Rightarrow> cr_world \<Rightarrow> service" where
  "service_start K w = \<lparr>sc_world = w,
     sc_trackers = (\<lambda>l. initialize (wi_polled (sw_wire K l)) (new_tracker (loop_group l)))\<rparr>"

section \<open>The proviso on intake\<close>

text \<open>The world in which a handler starts: the duplicate check may have written audit records.\<close>

definition handler_start :: "runtime_env \<Rightarrow> 'raw service_wires \<Rightarrow> loop \<Rightarrow> EventEnvelope \<Rightarrow> service \<Rightarrow> cr_world" where
  "handler_start E K l envelope s =
     cr_view (snd (check_duplicate E (loop_consumer K l) envelope (svc_world (sc_world s) (sc_trackers s l))))"

definition clean_event ::
  "runtime_env \<Rightarrow> cr_params \<Rightarrow> 'raw service_wires \<Rightarrow> 'raw service_event \<Rightarrow> service \<Rightarrow> bool" where
  "clean_event E P K ev s \<longleftrightarrow>
     (case ev of
        Message IntakeLoop raw \<Rightarrow>
          (case parse_envelope E (sw_wire K IntakeLoop) raw of
             Inl _ \<Rightarrow> True
           | Inr env \<Rightarrow> (let v = handler_start E K IntakeLoop env s in
               isl (fst (intake_handler E P env v)) \<longrightarrow> decisions (snd (intake_handler E P env v)) = decisions v))
      | _ \<Rightarrow> True)"

fun clean_run ::
  "runtime_env \<Rightarrow> cr_params \<Rightarrow> 'raw service_wires \<Rightarrow> 'raw service_event list \<Rightarrow> service \<Rightarrow> bool" where
  "clean_run E P K [] s = True"
| "clean_run E P K (ev # evs) s \<longleftrightarrow> clean_event E P K ev s \<and> clean_run E P K evs (snd (service_step E P K ev s))"

section \<open>Consumers around the handlers\<close>

lemma cr_view_svc [simp]: "cr_view (svc_world v t) = v" "wt_tracker (svc_world v t) = t"
  by (simp_all add: cr_view_def svc_world_def)

text \<open>Bookkeeping of a consumer leaves the view of the handlers alone.\<close>

definition bookkeeping :: "(svc_net, 'a) io \<Rightarrow> bool" where
  "bookkeeping m \<longleftrightarrow> (\<forall>w. same_view (cr_view w) (cr_view (snd (m w))))"

lemma bookkeepingI: "(\<And>w r w'. m w = (r, w') \<Longrightarrow> same_view (cr_view w) (cr_view w')) \<Longrightarrow> bookkeeping m"
  unfolding bookkeeping_def by (metis prod.collapse)

lemma bookkeepingD: "bookkeeping m \<Longrightarrow> m w = (r, w') \<Longrightarrow> same_view (cr_view w) (cr_view w')"
  unfolding bookkeeping_def by (metis snd_conv)

lemma bookkeeping_return: "bookkeeping (return_io x)"
  by (simp add: bookkeeping_def return_io_def)

lemma bookkeeping_bind:
  assumes "bookkeeping m" "\<And>x. bookkeeping (f x)" shows "bookkeeping (bind_io m f)"
proof (rule bookkeepingI)
  fix w r w' assume t: "bind_io m f w = (r, w')"
  obtain r1 w1 where m: "m w = (r1, w1)" by (cases "m w")
  with bookkeepingD [OF assms(1) m] bookkeepingD [OF assms(2)] t show "same_view (cr_view w) (cr_view w')"
    by (auto simp: bind_io_def intro: same_view_trans split: sum.splits)
qed

lemma bookkeeping_try:
  assumes "bookkeeping m" "\<And>e. bookkeeping (h e)" shows "bookkeeping (try_io m h)"
proof (rule bookkeepingI)
  fix w r w' assume t: "try_io m h w = (r, w')"
  obtain r1 w1 where m: "m w = (r1, w1)" by (cases "m w")
  with bookkeepingD [OF assms(1) m] bookkeepingD [OF assms(2)] t show "same_view (cr_view w) (cr_view w')"
    by (auto simp: try_io_def intro: same_view_trans split: sum.splits)
qed

lemma bookkeeping_then: "bookkeeping m \<Longrightarrow> bookkeeping n \<Longrightarrow> bookkeeping (then_io m n)"
  unfolding then_io_def by (rule bookkeeping_bind)

lemma bookkeeping_net: "bookkeeping (now_io E)" "bookkeeping (uuid4_io E)" "bookkeeping (lift_exc x)"
  "bookkeeping (publish_raw E env (MAudit a) t k)"
  by (auto intro!: bookkeepingI simp: cr_view_def same_view_def decisions_def is_decision_def now_io_def uuid4_io_def
      lift_exc_def io_defs publish_raw_def send_and_wait_def Let_def split: if_splits sum.splits)

lemma bookkeeping_audit: "bookkeeping (audit_when E C env out reason)"
  unfolding audit_when_def when_io_def write_audit_def write_task_audit_def
  by (auto intro!: bookkeeping_bind bookkeeping_try bookkeeping_net bookkeeping_return)

lemma bookkeeping_tracker: "bookkeeping (\<lambda>w. (Inr (f w), w\<lparr>wt_tracker := g w\<rparr>))"
  by (simp add: bookkeeping_def cr_view_def)

lemma bookkeeping_duplicate: "bookkeeping (check_duplicate E C env)"
  unfolding check_duplicate_def case_prod_beta Let_def
  by (auto intro!: bookkeeping_try bookkeeping_bind bookkeeping_then bookkeeping_return bookkeeping_audit bookkeeping_tracker)

lemma bookkeeping_mark: "bookkeeping (mark_event E C env)"
  unfolding mark_event_def when_io_def modify_io_def
  using bookkeeping_tracker [of "\<lambda>_. ()"] by (auto intro: bookkeeping_return)

lemma bookkeeping_reject: "bookkeeping (reject_envelope E C raw)"
  unfolding reject_envelope_def
  by (auto intro!: bookkeeping_try bookkeeping_return bookkeeping_audit split: option.split)

lemma once_same: "once v \<Longrightarrow> same_view v v' \<Longrightarrow> once v'"
  using view_preds(3) unfolding view_pred_def by blast

text \<open>Delivering an event is its handler followed by bookkeeping, whether or not the handler raises.\<close>

lemma deliver_event_view:
  assumes "deliver_event E C (loop_handler E P l) env w = (r, w')"
  shows "same_view (snd (handle E P (loop_delivery l env) (cr_view w))) (cr_view w')"
proof -
  obtain x v where h: "handle E P (loop_delivery l env) (cr_view w) = (x, v)" by (cases "handle E P (loop_delivery l env) (cr_view w)")
  let ?w = "svc_world v (wt_tracker w)"
  have rest: "bookkeeping (if b then return_io () else then_io (mark_event E C env)
      (try_io (audit_when E C env Accepted None) (\<lambda>_. return_io ())))" for b
    by (auto intro!: bookkeeping_then bookkeeping_try bookkeeping_mark bookkeeping_audit bookkeeping_return)
  have "(if isl x then return_io () else then_io (mark_event E C env)
      (try_io (audit_when E C env Accepted None) (\<lambda>_. return_io ()))) ?w = (r, w')"
    using assms h
    by (cases x) (simp_all add: deliver_event_def loop_handler_def in_service_def bind_io_def try_io_def then_io_def return_io_def)
  from bookkeepingD [OF rest this] h show ?thesis by simp
qed

lemma consume_once:
  assumes o: "once (cr_view w)" and m: "consume_message E C (loop_handler E P l) raw w = (r, w')"
    and clean: "\<And>env v. parse_envelope E (cs_wire C) raw = Inr env \<Longrightarrow> v = cr_view (snd (check_duplicate E C env w)) \<Longrightarrow>
      once v \<Longrightarrow> once (snd (handle E P (loop_delivery l env) v))"
  shows "once (cr_view w')"
proof (cases "parse_envelope E (cs_wire C) raw")
  case (Inl e)
  then have "reject_envelope E C raw w = (r, w')" using m by (simp add: consume_message_def)
  from once_same [OF o bookkeepingD [OF bookkeeping_reject this]] show ?thesis .
next
  case (Inr env)
  obtain d w1 where d: "check_duplicate E C env w = (d, w1)" by (cases "check_duplicate E C env w")
  have o1: "once (cr_view w1)" by (rule once_same [OF o bookkeepingD [OF bookkeeping_duplicate d]])
  have n: "if d = Inr False \<and> rejection_reason E C env = None then deliver_event E C (loop_handler E P l) env w1 = (r, w')
      else same_view (cr_view w1) (cr_view w')"
    using m Inr d bookkeepingD [OF bookkeeping_audit]
    by (cases d) (auto simp: consume_message_def bind_io_def return_io_def split: if_splits option.splits)
  show ?thesis
  proof (cases "d = Inr False \<and> rejection_reason E C env = None")
    case True
    then have "deliver_event E C (loop_handler E P l) env w1 = (r, w')" using n by simp
    from deliver_event_view [OF this] clean [OF Inr _ o1] d show ?thesis by (auto intro: once_same)
  next
    case False
    then have "same_view (cr_view w1) (cr_view w')" using n by simp
    with o1 show ?thesis by (rule once_same)
  qed
qed

lemma service_step_once:
  assumes "once (sc_world s)" "clean_event E P K ev s"
  shows "once (sc_world (snd (service_step E P K ev s)))"
proof (cases ev)
  case (Message l raw)
  obtain r w' where m: "consume_message E (loop_consumer K l) (loop_handler E P l) raw
      (svc_world (sc_world s) (sc_trackers s l)) = (r, w')" by fastforce
  have "once (cr_view w')"
  proof (rule consume_once [OF _ m])
    fix env v assume p: "parse_envelope E (cs_wire (loop_consumer K l)) raw = Inr env" "once v"
      and v: "v = cr_view (snd (check_duplicate E (loop_consumer K l) env (svc_world (sc_world s) (sc_trackers s l))))"
    then show "once (snd (handle E P (loop_delivery l env) v))"
      using assms(2) Message
      by (intro handle_once) (cases l; simp add: clean_event_def handler_start_def loop_consumer_def Let_def)+
  qed (simp add: assms(1))
  then show ?thesis using m Message by (simp add: service_step_def)
next
  case Sweep
  obtain r v where "reaper_sweep E (sc_world s) = (r, v)" by fastforce
  with tripleD [OF once_sweep assms(1) this] Sweep show ?thesis by (simp add: service_step_def)
qed

lemma service_run_once:
  "once (sc_world s) \<Longrightarrow> clean_run E P K evs s \<Longrightarrow> once (sc_world (snd (service_run E P K evs s)))"
proof (induction evs arbitrary: s)
  case (Cons ev evs)
  obtain r s' where st: "service_step E P K ev s = (r, s')" by (cases "service_step E P K ev s")
  then have "once (sc_world s')" using service_step_once [OF Cons.prems(1)] Cons.prems(2) by (metis clean_run.simps(2) snd_conv)
  with Cons st show ?case by (cases r) auto
qed simp

text \<open>C4: the service decides once in every serial schedule. Let the service start with an empty store and
  let its four consumers receive any messages of their topics, malformed and repeated ones among them, in
  any order with each other and with sweeps of the reaper, over a broker that may lose any send, until one
  of the loops raises, where each message and each sweep is handled to its end before the next one
  begins. For every case at most one decision is published and the store is well formed, unless an intake
  raises after it has published its decision. For handlers that overlap the bound is false
  (\<^verbatim>\<open>Resolution_Race\<close>).\<close>

theorem service_decides_once:
  assumes "cw_store w = empty_store" "nt_log w = []" "clean_run E P K evs (service_start K w)"
    and "service_run E P K evs (service_start K w) = (r, s)"
  shows "decided_count corr (sc_world s) \<le> 1 \<and> wf_store (cw_store (sc_world s))"
proof -
  have "once (sc_world (service_start K w))" using once_initial [OF assms(1,2)] by (simp add: service_start_def)
  from service_run_once [OF this assms(3)] have "once (sc_world s)" using assms(4) by simp
  then show ?thesis by (auto simp: once_def keyed_def bounded_at_def dest!: spec [of _ corr] split: if_splits)
qed

definition plain_wires :: "EventEnvelope service_wires" where
  "plain_wires = \<lparr>sw_wire = (\<lambda>_. \<lparr>wi_envelope = Inr, wi_request = (\<lambda>_. Inl ''none''), wi_write_ok = (\<lambda>_. True), wi_polled = None\<rparr>),
     sw_payload_valid = (\<lambda>_ _. True)\<rparr>"

lemma intake_wire:
  assumes "validate_envelope (re_environment E) e = Inr e"
  shows "parse_envelope E (sw_wire plain_wires IntakeLoop) e = Inr e"
    and "handler_start E plain_wires IntakeLoop e (service_start plain_wires w) = w"
  using assms
  by (simp_all add: parse_envelope_def plain_wires_def handler_start_def check_duplicate_def loop_consumer_def service_start_def
      io_defs is_duplicate_def initialize_def new_tracker_def lru_contains_def new_lru_def cr_view_def svc_world_def)

theorem service_decides_once_witness:
  "decided_count 5 (sc_world (snd (service_run (flaky_env 99) (sample_params ''how do I change my email'') plain_wires
      [Message IntakeLoop (sample_envelope 1 5), Message RiskLoop (sample_envelope 2 5), Sweep]
      (service_start plain_wires fresh_world)))) \<le> 1"
proof -
  let ?P = "sample_params ''how do I change my email''"
  let ?evs = "[Message IntakeLoop (sample_envelope 1 5), Message RiskLoop (sample_envelope 2 5), Sweep]"
  note sample_intake_clean
  moreover have "validate_envelope (re_environment (flaky_env 99)) (sample_envelope 1 5) = Inr (sample_envelope 1 5)" by code_simp
  ultimately have "clean_run (flaky_env 99) ?P plain_wires ?evs (service_start plain_wires fresh_world)"
    by (simp add: clean_event_def intake_wire)
  moreover obtain r s where "service_run (flaky_env 99) ?P plain_wires ?evs (service_start plain_wires fresh_world) = (r, s)"
    by fastforce
  moreover have "cw_store fresh_world = empty_store" "nt_log fresh_world = []" by (simp_all add: fresh_world_def)
  ultimately show ?thesis using service_decides_once by fastforce
qed

end
