(* ===== verification/Llm_Text.thy ===== *)
theory Llm_Text
  imports Transport Py_Text "HOL-Library.List_Lexorder" "HOL-Library.Char_ord"
begin

text \<open>
  The pure helpers of the assistive runtime (\<^verbatim>\<open>src/agent_foundation/llm\<close>): the JSON texts that enter
  prompts and digests (\<^verbatim>\<open>json.dumps\<close>), the redaction of personal data (\<^verbatim>\<open>redaction.py\<close>), the metadata filter
  of the client wrapper (\<^verbatim>\<open>client.py\<close>), token prices (\<^verbatim>\<open>pricing.py\<close>), the code fences of model replies and
  the grounding check (\<^verbatim>\<open>structured.py\<close>).

  The regular expressions of the redaction are terms of the type \<open>rx\<close>, matched with backtracking in the
  order of Python's \<^verbatim>\<open>re\<close>. The classes \<^verbatim>\<open>\w\<close>, \<^verbatim>\<open>\d\<close> and \<^verbatim>\<open>\s\<close> are those of the ASCII range. Token counts
  are priced exactly: below \<open>10\<^sup>2\<^sup>0\<close> tokens no product needs more than the 28 digits of the decimal context.
\<close>

section \<open>JSON texts\<close>

definition cont_value :: "string \<Rightarrow> nat" where
  "cont_value s = fold (\<lambda>c a. a * 64 + of_char c mod 64) s 0"

fun code_points :: "string \<Rightarrow> nat list" where
  "code_points [] = []"
| "code_points (c # s) =
     (let n = of_char c :: nat in
      if n < 192 then n # code_points s
      else if n < 224 then (n mod 32 * 64 + cont_value (take 1 s)) # code_points (drop 1 s)
      else if n < 240 then (n mod 16 * 4096 + cont_value (take 2 s)) # code_points (drop 2 s)
      else (n mod 8 * 262144 + cont_value (take 3 s)) # code_points (drop 3 s))"

definition u_escape :: "nat \<Rightarrow> string" where
  "u_escape n = [CHR 0x5C, CHR ''u''] @ hex_digits 4 n"

definition json_char :: "nat \<Rightarrow> string" where
  "json_char n =
     (if n = 34 \<or> n = 92 then [CHR 0x5C, char_of n]
      else if n = 10 then [CHR 0x5C, CHR ''n'']
      else if n = 13 then [CHR 0x5C, CHR ''r'']
      else if n = 9 then [CHR 0x5C, CHR ''t'']
      else if n = 12 then [CHR 0x5C, CHR ''f'']
      else if n = 8 then [CHR 0x5C, CHR ''b'']
      else if 32 \<le> n \<and> n \<le> 126 then [char_of n]
      else if n < 65536 then u_escape n
      else u_escape (55296 + (n - 65536) div 1024) @ u_escape (56320 + (n - 65536) mod 1024))"

definition json_str :: "string \<Rightarrow> string" where
  "json_str s = [CHR 0x22] @ concat (map json_char (code_points s)) @ [CHR 0x22]"

fun json_dumps :: "pyval \<Rightarrow> string" where
  "json_dumps VNone = ''null''"
| "json_dumps (VBool b) = (if b then ''true'' else ''false'')"
| "json_dumps (VInt i) = show_int i"
| "json_dumps (VFloat x) = float_repr x"
| "json_dumps (VStr s) = json_str s"
| "json_dumps (VList vs) = ''['' @ py_join '', '' (map json_dumps vs) @ '']''"
| "json_dumps (VDict d) = ''{'' @ py_join '', '' (map (\<lambda>(k, v). json_str k @ '': '' @ json_dumps v) d) @ ''}''"

text \<open>\<^verbatim>\<open>json.dumps(v, indent=2)\<close> and the reordering of \<^verbatim>\<open>sort_keys=True\<close>.\<close>

definition new_line :: "nat \<Rightarrow> string" where
  "new_line level = CHR 0x0A # replicate (2 * level) CHR 0x20"

fun json_indent :: "nat \<Rightarrow> pyval \<Rightarrow> string" where
  "json_indent l (VList vs) =
     (if vs = [] then ''[]''
      else ''['' @ new_line (Suc l) @ py_join ('','' @ new_line (Suc l)) (map (json_indent (Suc l)) vs)
           @ new_line l @ '']'')"
| "json_indent l (VDict d) =
     (if d = [] then ''{}''
      else ''{'' @ new_line (Suc l)
           @ py_join ('','' @ new_line (Suc l)) (map (\<lambda>(k, v). json_str k @ '': '' @ json_indent (Suc l) v) d)
           @ new_line l @ ''}'')"
| "json_indent l v = json_dumps v"

fun json_sorted :: "pyval \<Rightarrow> pyval" where
  "json_sorted (VList vs) = VList (map json_sorted vs)"
| "json_sorted (VDict d) = VDict (sort_key fst (map (\<lambda>(k, v). (k, json_sorted v)) d))"
| "json_sorted v = v"

section \<open>Words\<close>

text \<open>\<^verbatim>\<open>s.split()\<close>: the maximal runs of characters that are not white space.\<close>

fun split_words :: "string \<Rightarrow> string \<Rightarrow> string list" where
  "split_words w [] = (if w = [] then [] else [rev w])"
| "split_words w (c # s) =
     (if is_space c then (if w = [] then split_words [] s else rev w # split_words [] s)
      else split_words (c # w) s)"

definition py_split :: "string \<Rightarrow> string list" where
  "py_split s = split_words [] s"

section \<open>Redaction\<close>

type_synonym rx_cont = "char option \<Rightarrow> string \<Rightarrow> (char option \<times> string) option"

datatype rx =
    RSet "char \<Rightarrow> bool"
  | RMany nat "char \<Rightarrow> bool"
  | RSeq rx rx
  | ROpt rx
  | RTimes nat rx
  | RBoundary

definition is_word :: "char \<Rightarrow> bool" where
  "is_word c \<longleftrightarrow> (let n = of_char c :: nat in (48 \<le> n \<and> n \<le> 57) \<or> (65 \<le> n \<and> n \<le> 90) \<or> n = 95 \<or> (97 \<le> n \<and> n \<le> 122))"

definition word_boundary :: "char option \<Rightarrow> string \<Rightarrow> bool" where
  "word_boundary p s \<longleftrightarrow> (case p of None \<Rightarrow> False | Some c \<Rightarrow> is_word c) \<noteq> (case s of [] \<Rightarrow> False | c # _ \<Rightarrow> is_word c)"

fun rx_many :: "(char \<Rightarrow> bool) \<Rightarrow> rx_cont \<Rightarrow> nat \<Rightarrow> rx_cont" where
  "rx_many P k n p [] = (if n = 0 then k p [] else None)"
| "rx_many P k n p (c # s) =
     (if P c
      then (case rx_many P k (n - 1) (Some c) s of
              Some r \<Rightarrow> Some r
            | None \<Rightarrow> if n = 0 then k p (c # s) else None)
      else if n = 0 then k p (c # s) else None)"

primrec rx_match :: "rx \<Rightarrow> rx_cont \<Rightarrow> rx_cont" where
  "rx_match (RSet P) k = (\<lambda>p s. case s of [] \<Rightarrow> None | c # s' \<Rightarrow> if P c then k (Some c) s' else None)"
| "rx_match (RMany n P) k = rx_many P k n"
| "rx_match (RSeq a b) k = rx_match a (rx_match b k)"
| "rx_match (ROpt a) k = (\<lambda>p s. case rx_match a k p s of Some r \<Rightarrow> Some r | None \<Rightarrow> k p s)"
| "rx_match (RTimes n a) k = (rx_match a ^^ n) k"
| "rx_match RBoundary k = (\<lambda>p s. if word_boundary p s then k p s else None)"

text \<open>\<^verbatim>\<open>pattern.sub(placeholder, text)\<close> for a pattern that never matches the empty text.\<close>

function rx_sub :: "rx \<Rightarrow> string \<Rightarrow> char option \<Rightarrow> string \<Rightarrow> string" where
  "rx_sub r placeholder p [] = []"
| "rx_sub r placeholder p (c # s) =
     (case rx_match r (\<lambda>p' s'. Some (p', s')) p (c # s) of
        Some (p', s') \<Rightarrow>
          if length s' < length (c # s) then placeholder @ rx_sub r placeholder p' s'
          else c # rx_sub r placeholder (Some c) s
      | None \<Rightarrow> c # rx_sub r placeholder (Some c) s)"
  by pat_completeness auto

termination
  by (relation "measure (\<lambda>(_, _, _, s). length s)") auto

definition any_of :: "string \<Rightarrow> char \<Rightarrow> bool" where
  "any_of cs c \<longleftrightarrow> c \<in> set cs"

definition is_alnum :: "char \<Rightarrow> bool" where
  "is_alnum c \<longleftrightarrow> is_word c \<and> c \<noteq> CHR ''_''"

definition rx_char :: "char \<Rightarrow> rx" where
  "rx_char a = RSet (\<lambda>c. c = a)"

definition rx_digits :: "nat \<Rightarrow> rx" where
  "rx_digits n = RTimes n (RSet is_digit)"

fun rx_seq :: "rx list \<Rightarrow> rx" where
  "rx_seq [] = RTimes 0 RBoundary"
| "rx_seq [r] = r"
| "rx_seq (r # s # rs) = RSeq r (rx_seq (s # rs))"

definition EMAIL_RE :: rx where
  "EMAIL_RE = rx_seq [RMany 1 (\<lambda>c. is_alnum c \<or> any_of ''_.+-'' c), rx_char CHR ''@'',
     RMany 1 (\<lambda>c. is_alnum c \<or> any_of ''-'' c), rx_char CHR ''.'', RMany 1 (\<lambda>c. is_alnum c \<or> any_of ''-.'' c)]"

definition phone_sep :: rx where
  "phone_sep = ROpt (RSet (\<lambda>c. any_of ''-.'' c \<or> is_space c))"

definition PHONE_RE :: rx where
  "PHONE_RE = rx_seq [RBoundary,
     ROpt (rx_seq [ROpt (rx_char CHR ''+''), rx_char CHR ''1'', phone_sep]),
     ROpt (rx_seq [ROpt (rx_char CHR ''(''), rx_digits 3, ROpt (rx_char CHR '')''), phone_sep]),
     rx_digits 3, phone_sep, rx_digits 4, RBoundary]"

definition PAN_RE :: rx where
  "PAN_RE = rx_seq [RBoundary,
     RTimes 3 (RSeq (rx_digits 4) (ROpt (RSet (\<lambda>c. any_of ''-'' c \<or> is_space c)))), rx_digits 4, RBoundary]"

definition SSN_RE :: rx where
  "SSN_RE = rx_seq [RBoundary, rx_digits 3, rx_char CHR ''-'', rx_digits 2, rx_char CHR ''-'', rx_digits 4, RBoundary]"

definition LONG_DIGITS_RE :: rx where
  "LONG_DIGITS_RE = rx_seq [RBoundary, RMany 8 is_digit, RBoundary]"

definition PATTERNS :: "(rx \<times> string) list" where
  "PATTERNS = [(EMAIL_RE, ''[REDACTED_EMAIL]''), (PAN_RE, ''[REDACTED_CARD]''), (SSN_RE, ''[REDACTED_SSN]''),
     (PHONE_RE, ''[REDACTED_PHONE]''), (LONG_DIGITS_RE, ''[REDACTED_NUMBER]'')]"

definition redact_text :: "string \<Rightarrow> string" where
  "redact_text text = fold (\<lambda>(pattern, placeholder) t. rx_sub pattern placeholder None t) PATTERNS text"

fun redact_value :: "pyval \<Rightarrow> pyval" where
  "redact_value (VStr s) = VStr (redact_text s)"
| "redact_value (VDict d) = VDict (map (\<lambda>(k, v). (k, redact_value v)) d)"
| "redact_value (VList vs) = VList (map redact_value vs)"
| "redact_value v = v"

definition redact_mapping :: "(string, pyval) dict \<Rightarrow> (string, pyval) dict" where
  "redact_mapping data = map (\<lambda>(k, v). (k, redact_value v)) data"

fun scrub :: "bool \<Rightarrow> pyval \<Rightarrow> pyval" where
  "scrub enabled v =
     (if \<not> enabled then v
      else case v of
        VStr s \<Rightarrow> VStr (redact_text s)
      | VDict d \<Rightarrow> VDict (redact_mapping d)
      | VList vs \<Rightarrow> VList (map (scrub enabled) vs)
      | _ \<Rightarrow> v)"

section \<open>Metadata of a client call\<close>

definition SECRET_KEYS :: "string list" where
  "SECRET_KEYS = [''token'', ''secret'', ''password'', ''key'', ''credential'', ''auth'', ''api_key'', ''apikey'']"

definition MAX_VALUE_LEN :: nat where
  "MAX_VALUE_LEN = 2000"

definition MAX_TOTAL_SIZE :: nat where
  "MAX_TOTAL_SIZE = 10000"

definition secret_key :: "string \<Rightarrow> bool" where
  "secret_key k \<longleftrightarrow> (\<exists>s \<in> set SECRET_KEYS. py_in s (py_lower k))"

definition safe_value :: "pyval \<Rightarrow> pyval" where
  "safe_value v =
     (let sv = (case v of VList _ \<Rightarrow> VStr (py_str v) | VDict _ \<Rightarrow> VStr (py_str v) | _ \<Rightarrow> v)
      in case sv of
           VStr s \<Rightarrow> if MAX_VALUE_LEN < py_len s then VStr (py_take MAX_VALUE_LEN s @ ''...'') else sv
         | _ \<Rightarrow> sv)"

fun safe_items :: "nat \<Rightarrow> (string, pyval) dict \<Rightarrow> (string, pyval) dict" where
  "safe_items used [] = []"
| "safe_items used ((k, v) # items) =
     (if secret_key k then safe_items used items
      else let used' = used + py_len (py_str (safe_value v))
           in if MAX_TOTAL_SIZE < used' then [] else (k, safe_value v) # safe_items used' items)"

definition safe_metadata :: "(string, pyval) dict option \<Rightarrow> (string, pyval) dict" where
  "safe_metadata metadata = (case metadata of None \<Rightarrow> [] | Some items \<Rightarrow> safe_items 0 items)"

section \<open>Token usage and prices\<close>

record TokenUsage =
  tu_input_tokens :: int
  tu_output_tokens :: int
  tu_cache_read_tokens :: int
  tu_cache_write_tokens :: int

definition PRICING_TABLE :: "(string, decimal \<times> decimal) dict" where
  "PRICING_TABLE =
     [(''anthropic.claude-3-5-sonnet-20241022-v2:0'', (3 / 1000, 15 / 1000)),
      (''anthropic.claude-3-haiku-20240307-v1:0'', (25 / 100000, 125 / 100000)),
      (''anthropic.claude-3-opus-20240229-v1:0'', (15 / 1000, 75 / 1000)),
      (''stub'', (0, 0))]"

record LLMUsage =
  lu_input_tokens :: "int option"
  lu_output_tokens :: "int option"
  lu_total_tokens :: "int option"
  lu_estimated_cost_usd :: "decimal option"
  lu_model_id :: string
  lu_agent_id :: string
  lu_prompt_id :: "string option"

definition estimate_cost :: "string \<Rightarrow> int option \<Rightarrow> int option \<Rightarrow> decimal option" where
  "estimate_cost model_id input_tokens output_tokens =
     (case (input_tokens, output_tokens) of
        (Some i, Some out) \<Rightarrow>
          (case dict_get PRICING_TABLE model_id of
             None \<Rightarrow> None
           | Some (input_rate, output_rate) \<Rightarrow> Some ((of_int i * input_rate + of_int out * output_rate) / 1000))
      | _ \<Rightarrow> None)"

definition build_llm_usage :: "TokenUsage option \<Rightarrow> string \<Rightarrow> string \<Rightarrow> string option \<Rightarrow> LLMUsage" where
  "build_llm_usage token_usage model_id agent_id prompt_id =
     (case token_usage of
        None \<Rightarrow> \<lparr>lu_input_tokens = None, lu_output_tokens = None, lu_total_tokens = None,
          lu_estimated_cost_usd = None, lu_model_id = model_id, lu_agent_id = agent_id, lu_prompt_id = prompt_id\<rparr>
      | Some u \<Rightarrow>
          (let input_t = (if tu_input_tokens u \<noteq> 0 then Some (tu_input_tokens u) else None);
               output_t = (if tu_output_tokens u \<noteq> 0 then Some (tu_output_tokens u) else None);
               total_t = (case (input_t, output_t) of (Some i, Some out) \<Rightarrow> Some (i + out) | _ \<Rightarrow> None)
           in \<lparr>lu_input_tokens = input_t, lu_output_tokens = output_t, lu_total_tokens = total_t,
               lu_estimated_cost_usd = estimate_cost model_id input_t output_t, lu_model_id = model_id,
               lu_agent_id = agent_id, lu_prompt_id = prompt_id\<rparr>))"

section \<open>Model replies\<close>

text \<open>The back-quote fence a model may put around its JSON.\<close>

definition fence :: string where
  "fence = replicate 3 CHR 0x60"

definition strip_fence :: "string \<Rightarrow> string" where
  "strip_fence text =
     (let t = py_strip text;
          t = (if prefix (fence @ ''json'') t then drop 7 t else t);
          t = (if prefix fence t then drop 3 t else t);
          t = (if suffix fence t then take (length t - 3) t else t)
      in py_strip t)"

definition has_digit :: "string \<Rightarrow> bool" where
  "has_digit t \<longleftrightarrow> (\<exists>c \<in> set t. is_digit c)"

definition numeric_claims :: "string \<Rightarrow> string list" where
  "numeric_claims text = [t \<leftarrow> py_split (py_lower text). has_digit t \<and> 3 < py_len t]"

definition claim_grounded :: "string \<Rightarrow> string \<Rightarrow> bool" where
  "claim_grounded grounding_str claim \<longleftrightarrow>
     py_in claim grounding_str
     \<or> py_in (filter (\<lambda>c. c \<noteq> CHR '','') (filter (\<lambda>c. c \<noteq> CHR ''$'') claim)) grounding_str"

definition grounding_check :: "(string, pyval) dict \<Rightarrow> (string, pyval) dict \<Rightarrow> bool" where
  "grounding_check value_data grounding_inputs =
     (let grounding_str = py_lower (json_dumps (VDict grounding_inputs)) in
      list_all (\<lambda>(_, v). case v of
          VStr s \<Rightarrow> if py_len s < 20 then True else list_all (claim_grounded grounding_str) (numeric_claims s)
        | _ \<Rightarrow> True) value_data)"

section \<open>What the helpers guarantee\<close>

lemma redact_value_shape:
  "redact_value (VDict d) = VDict (redact_mapping d)"
  by (simp add: redact_mapping_def)

text \<open>At the top level \<^verbatim>\<open>scrub\<close> and \<^verbatim>\<open>_redact_value\<close> are the same function.\<close>

lemma scrub_redacts: "scrub True v = redact_value v"
proof (induction v)
  case (VList vs)
  then show ?case by (simp cong: list.map_cong)
qed (simp_all add: redact_mapping_def)

lemma redact_mapping_keys [simp]: "map fst (redact_mapping d) = map fst d"
  by (induction d) (auto simp: redact_mapping_def)

lemma safe_items_sound:
  assumes "used \<le> MAX_TOTAL_SIZE"
  shows "(\<forall>(k, v) \<in> set (safe_items used items). \<not> secret_key k)
    \<and> subseq (map fst (safe_items used items)) (map fst items)
    \<and> used + sum_list (map (\<lambda>(_, v). py_len (py_str v)) (safe_items used items)) \<le> MAX_TOTAL_SIZE"
  using assms
proof (induction used items rule: safe_items.induct)
  case (2 used k v items)
  then show ?case by (cases "secret_key k") (auto simp: Let_def add.assoc)
qed simp

end
