(* ===== verification/Llm_Runtime.thy ===== *)
theory Llm_Runtime
  imports Llm_Text
begin

text \<open>
  The assistive runtime, \<^verbatim>\<open>src/agent_foundation/llm\<close>: requests and results, profiles (\<^verbatim>\<open>config.py\<close>), prompt
  templates (\<^verbatim>\<open>prompts.py\<close>), the result store (\<^verbatim>\<open>store.py\<close>), the validate-and-repair loop (\<^verbatim>\<open>structured.py\<close>), the
  audit of a reasoning step (\<^verbatim>\<open>audit.py\<close>, \<^verbatim>\<open>audit_events.py\<close>) and the front door \<^verbatim>\<open>LLMRuntime.reason\<close>.

  The environment is a parameter: what the provider answers to its \<open>n\<close>-th call and whether
  \<^verbatim>\<open>asyncio.wait_for\<close> let the call finish, the measured latencies, SHA-256, \<^verbatim>\<open>json.loads\<close> and \<^verbatim>\<open>yaml.safe_load\<close>, the
  files and variables it reads, and the broker. An output schema is its JSON schema, its \<^verbatim>\<open>model_validate\<close> and its
  \<^verbatim>\<open>model_dump\<close>. Tracing and logging, which swallow their own failures, are left out.
\<close>

section \<open>Requests, results and profiles\<close>

datatype TaskKind = Classify | ExtractIntent | DraftResponse | SummarizeReasoning

fun task_kind_value :: "TaskKind \<Rightarrow> string" where
  "task_kind_value Classify = ''classify''"
| "task_kind_value ExtractIntent = ''extract_intent''"
| "task_kind_value DraftResponse = ''draft_response''"
| "task_kind_value SummarizeReasoning = ''summarize_reasoning''"

definition parse_task_kind :: "string \<Rightarrow> exc + TaskKind" where
  "parse_task_kind s =
     (case find (\<lambda>k. task_kind_value k = s) [Classify, ExtractIntent, DraftResponse, SummarizeReasoning] of
        Some k \<Rightarrow> Inr k
      | None \<Rightarrow> Inl (ValueError (repr_str s @ '' is not a valid TaskKind'')))"

fun path_value :: "ReasoningPath \<Rightarrow> string" where
  "path_value ModelPath = ''model''"
| "path_value CachePath = ''cache''"
| "path_value FallbackPath = ''fallback''"

fun failure_value :: "FailureReason \<Rightarrow> string" where
  "failure_value ModelUnavailable = ''model_unavailable''"
| "failure_value Timeout = ''timeout''"
| "failure_value InvalidOutput = ''invalid_output''"
| "failure_value MissingInputs = ''missing_inputs''"
| "failure_value ContextLimitExceeded = ''context_limit_exceeded''"
| "failure_value UnableToProduce = ''unable_to_produce''"

record 'v output_schema =
  os_json :: pyval
  os_validate :: "pyval \<Rightarrow> exc + 'v"
  os_dump :: "'v \<Rightarrow> (string, pyval) dict"

text \<open>The default schema of free-text calls.\<close>

record TextResult =
  tr_text :: string

definition text_schema :: "TextResult output_schema" where
  "text_schema =
     \<lparr>os_json = VDict [(''properties'', VDict [(''text'', VDict [(''title'', VStr ''Text''), (''type'', VStr ''string'')])]),
        (''required'', VList [VStr ''text'']), (''title'', VStr ''TextResult''), (''type'', VStr ''object'')],
      os_validate = (\<lambda>v. case v of
          VDict d \<Rightarrow> (case dict_get d ''text'' of
             Some (VStr s) \<Rightarrow> Inr \<lparr>tr_text = s\<rparr>
           | _ \<Rightarrow> Inl (ValueError ''text''))
        | _ \<Rightarrow> Inl (ValueError ''TextResult'')),
      os_dump = (\<lambda>t. [(''text'', VStr (tr_text t))])\<rparr>"

record 'v AssistiveRequest =
  aq_task_kind :: TaskKind
  aq_agent_id :: string
  aq_correlation_id :: uuid
  aq_causation_id :: uuid
  aq_instructions :: string
  aq_grounding_inputs :: "(string, pyval) dict"
  aq_output_schema :: "'v output_schema"
  aq_examples :: "pyval list option"
  aq_idempotency_key :: string
  aq_fallback :: "exc + 'v"

record RawCompletion =
  cm_text :: string
  cm_token_usage :: TokenUsage
  cm_cache_hit :: bool
  cm_model_id :: string

text \<open>A value is an instance of the output schema, or the plain JSON a stored result was read back as.\<close>

datatype 'v rvalue = Instance 'v | Plain pyval

record 'x AssistiveResult =
  ar_value :: 'x
  ar_reasoning_path :: ReasoningPath
  ar_token_usage :: "TokenUsage option"
  ar_cache_hit :: bool
  ar_failure_reason :: "FailureReason option"
  ar_model_id :: "string option"
  ar_latency_ms :: int
  ar_prompt_ref :: "string option"

definition with_value :: "'y \<Rightarrow> 'x AssistiveResult \<Rightarrow> 'y AssistiveResult" where
  "with_value v r =
     \<lparr>ar_value = v, ar_reasoning_path = ar_reasoning_path r, ar_token_usage = ar_token_usage r,
      ar_cache_hit = ar_cache_hit r, ar_failure_reason = ar_failure_reason r, ar_model_id = ar_model_id r,
      ar_latency_ms = ar_latency_ms r, ar_prompt_ref = ar_prompt_ref r\<rparr>"

record ModelProfile =
  mp_mode :: string
  mp_model_id :: string
  mp_region :: "string option"
  mp_temperature :: pyfloat
  mp_max_tokens :: int
  mp_top_p :: "pyfloat option"
  mp_timeout_seconds :: pyfloat
  mp_max_repairs :: int

definition DEFAULT_PROFILE :: ModelProfile where
  "DEFAULT_PROFILE =
     \<lparr>mp_mode = ''stub'', mp_model_id = ''anthropic.claude-3-5-sonnet-20241022-v2:0'', mp_region = None,
      mp_temperature = 0, mp_max_tokens = 1024, mp_top_p = None, mp_timeout_seconds = 8, mp_max_repairs = 2\<rparr>"

record RuntimeConfig =
  cf_mode :: string
  cf_model_id :: string
  cf_region :: "string option"
  cf_timeout_seconds :: pyfloat
  cf_max_repairs :: int
  cf_bootstrap_servers :: string
  cf_log_raw_prompts :: bool
  cf_log_raw_outputs :: bool
  cf_redact_pii :: bool

definition parse_bool :: "string \<Rightarrow> bool" where
  "parse_bool value \<longleftrightarrow> py_strip (py_lower value) \<in> {''true'', ''1'', ''yes''}"

definition PROFILE_REGISTRY :: "(string \<times> TaskKind, ModelProfile) dict" where
  "PROFILE_REGISTRY =
     [((''customer-resolution-agent'', Classify), DEFAULT_PROFILE\<lparr>mp_max_tokens := 256\<rparr>),
      ((''customer-resolution-agent'', DraftResponse), DEFAULT_PROFILE\<lparr>mp_max_tokens := 512\<rparr>),
      ((''billing-entitlement-agent'', SummarizeReasoning), DEFAULT_PROFILE\<lparr>mp_max_tokens := 200\<rparr>),
      ((''risk-fraud-agent'', SummarizeReasoning), DEFAULT_PROFILE\<lparr>mp_max_tokens := 200\<rparr>)]"

definition env_set :: "(string \<Rightarrow> string option) \<Rightarrow> string \<Rightarrow> bool" where
  "env_set environ name \<longleftrightarrow> (case environ name of None \<Rightarrow> False | Some s \<Rightarrow> s \<noteq> [])"

definition base_profile :: "(string, ModelProfile) dict \<Rightarrow> string \<Rightarrow> TaskKind \<Rightarrow> ModelProfile" where
  "base_profile yaml_profiles agent_id task_kind =
     (case dict_get yaml_profiles (agent_id @ ''.'' @ task_kind_value task_kind) of Some p \<Rightarrow> p
      | None \<Rightarrow> (case dict_get yaml_profiles agent_id of Some p \<Rightarrow> p
      | None \<Rightarrow> (case dict_get PROFILE_REGISTRY (agent_id, task_kind) of Some p \<Rightarrow> p
      | None \<Rightarrow> (case dict_get yaml_profiles ''default'' of Some p \<Rightarrow> p
      | None \<Rightarrow> DEFAULT_PROFILE))))"

definition resolve_profile ::
  "(string \<Rightarrow> string option) \<Rightarrow> (string, ModelProfile) dict \<Rightarrow> string \<Rightarrow> TaskKind \<Rightarrow> RuntimeConfig \<Rightarrow> ModelProfile" where
  "resolve_profile environ yaml_profiles agent_id task_kind cfg =
     (let p = base_profile yaml_profiles agent_id task_kind;
          p = (if cf_mode cfg \<noteq> ''stub'' then p\<lparr>mp_mode := cf_mode cfg\<rparr> else p);
          p = (if env_set environ ''AGENT_LLM_MODEL'' then p\<lparr>mp_model_id := cf_model_id cfg\<rparr> else p);
          p = (if cf_region cfg \<noteq> None \<and> env_set environ ''AGENT_LLM_REGION'' then p\<lparr>mp_region := cf_region cfg\<rparr> else p);
          p = (if env_set environ ''AGENT_LLM_TIMEOUT_SECONDS''
               then p\<lparr>mp_timeout_seconds := cf_timeout_seconds cfg\<rparr> else p)
      in if env_set environ ''AGENT_LLM_MAX_REPAIRS'' then p\<lparr>mp_max_repairs := cf_max_repairs cfg\<rparr> else p)"

section \<open>Prompt templates\<close>

record PromptTemplate =
  pt_prompt_id :: string
  pt_version :: int
  pt_task_kind :: string
  pt_agent_id :: string
  pt_allows_final_recommendation :: bool
  pt_body :: string

type_synonym templates = "(string \<times> string, PromptTemplate) dict"

definition LF :: string where
  "LF = [CHR 0x0A]"

definition grounding_suffix :: "(string, pyval) dict \<Rightarrow> string" where
  "grounding_suffix grounding_inputs =
     LF @ LF @ ''GROUNDING_INPUTS:'' @ LF @ json_indent 0 (VDict grounding_inputs)"

definition examples_part :: "pyval list option \<Rightarrow> string list" where
  "examples_part examples =
     (case examples of
        None \<Rightarrow> []
      | Some es \<Rightarrow> if es = [] then [] else [LF @ ''EXAMPLES:'' @ LF @ json_indent 0 (VList es)])"

definition render :: "PromptTemplate \<Rightarrow> (string, pyval) dict \<Rightarrow> pyval \<Rightarrow> pyval list option \<Rightarrow> string \<times> string" where
  "render t grounding_inputs schema examples =
     (py_join LF ([pt_body t, LF @ ''OUTPUT_SCHEMA: '' @ json_dumps schema @ LF @ ''END_SCHEMA''] @ examples_part examples)
        @ grounding_suffix grounding_inputs,
      pt_prompt_id t @ ''@v'' @ show_int (pt_version t))"

text \<open>\<^verbatim>\<open>text.split(sep, 1)\<close>: the parts around the first occurrence, if there is one.\<close>

fun break_on :: "string \<Rightarrow> string \<Rightarrow> (string \<times> string) option" where
  "break_on sep [] = (if sep = [] then Some ([], []) else None)"
| "break_on sep (c # s) =
     (if prefix sep (c # s) then Some ([], drop (length sep) (c # s))
      else map_option (\<lambda>(a, b). (c # a, b)) (break_on sep s))"

definition split_frontmatter :: "string \<Rightarrow> string \<times> string" where
  "split_frontmatter text =
     (if \<not> prefix ''---'' text then ([], text)
      else case break_on ''---'' (drop 3 text) of None \<Rightarrow> ([], text) | Some (a, b) \<Rightarrow> (a, b))"

text \<open>\<^verbatim>\<open>int(v)\<close>, for texts without digit separators.\<close>

fun read_int :: "int \<Rightarrow> string \<Rightarrow> int option" where
  "read_int acc [] = Some acc"
| "read_int acc (c # s) = (if is_digit c then read_int (10 * acc + (of_char c - 48)) s else None)"

definition int_of_text :: "string \<Rightarrow> int option" where
  "int_of_text text =
     (case py_strip text of
        [] \<Rightarrow> None
      | c # s \<Rightarrow> if c = CHR ''-'' then (if s = [] then None else map_option uminus (read_int 0 s))
                else if c = CHR ''+'' then (if s = [] then None else read_int 0 s)
                else read_int 0 (c # s))"

definition py_int :: "pyval \<Rightarrow> exc + int" where
  "py_int v =
     (case v of
        VInt i \<Rightarrow> Inr i
      | VBool b \<Rightarrow> Inr (if b then 1 else 0)
      | VFloat x \<Rightarrow> Inr (if x < 0 then \<lceil>x\<rceil> else \<lfloor>x\<rfloor>)
      | VStr s \<Rightarrow> (case int_of_text s of Some i \<Rightarrow> Inr i
                  | None \<Rightarrow> Inl (ValueError (''invalid literal for int() with base 10: '' @ repr_str s)))
      | _ \<Rightarrow> Inl (ValueError ''int() argument must be a string or a real number''))"

definition meta_text :: "(string, pyval) dict \<Rightarrow> string \<Rightarrow> string \<Rightarrow> exc + string" where
  "meta_text meta k dflt =
     (case dict_get meta k of None \<Rightarrow> Inr dflt | Some (VStr s) \<Rightarrow> Inr s
      | Some _ \<Rightarrow> Inl (ValueError (''Input should be a valid string: '' @ k)))"

definition bind_exc :: "exc + 'a \<Rightarrow> ('a \<Rightarrow> exc + 'b) \<Rightarrow> exc + 'b" where
  "bind_exc r f = (case r of Inl e \<Rightarrow> Inl e | Inr x \<Rightarrow> f x)"

text \<open>A file is its stem and its text, \<open>None\<close> if it cannot be read; \<open>yaml\<close> is \<^verbatim>\<open>yaml.safe_load\<close>.\<close>

definition parse_template :: "(string \<Rightarrow> pyval option) \<Rightarrow> string \<Rightarrow> string option \<Rightarrow> exc + PromptTemplate option" where
  "parse_template yaml stem content =
     (case content of
        None \<Rightarrow> Inr None
      | Some text \<Rightarrow>
          let (frontmatter, body) = split_frontmatter text in
          if frontmatter = [] then Inr None
          else case yaml frontmatter of
            None \<Rightarrow> Inr None
          | Some loaded \<Rightarrow>
              (case (if truthy loaded then loaded else VDict []) of
                 VDict meta \<Rightarrow>
                   bind_exc (py_int (case dict_get meta ''version'' of None \<Rightarrow> VInt 1 | Some v \<Rightarrow> v)) (\<lambda>version.
                   bind_exc (meta_text meta ''prompt_id'' stem) (\<lambda>prompt_id.
                   bind_exc (meta_text meta ''task_kind'' []) (\<lambda>task_kind.
                   bind_exc (meta_text meta ''agent_id'' []) (\<lambda>agent_id.
                   Inr (Some \<lparr>pt_prompt_id = prompt_id, pt_version = version, pt_task_kind = task_kind,
                     pt_agent_id = agent_id,
                     pt_allows_final_recommendation =
                       (case dict_get meta ''allows_final_recommendation'' of None \<Rightarrow> False | Some v \<Rightarrow> truthy v),
                     pt_body = py_strip body\<rparr>)))))
               | _ \<Rightarrow> Inl (ValueError ''object has no attribute get'')))"

definition register_template :: "PromptTemplate \<Rightarrow> templates \<Rightarrow> exc + templates" where
  "register_template t ts =
     (if pt_task_kind t = ''summarize_reasoning'' \<and> pt_allows_final_recommendation t
      then Inl (ValueError (''Template '' @ repr_str (pt_prompt_id t) @ '' has task_kind=summarize_reasoning ''
             @ ''but allows_final_recommendation=true '' @ em_dash @ '' this is forbidden''))
      else Inr (dict_set (pt_task_kind t, pt_agent_id t) t ts))"

text \<open>The files are those that match \<^verbatim>\<open>*.md\<close>, in the order of their names; \<open>None\<close> if the directory is absent.\<close>

fun load_files :: "(string \<Rightarrow> pyval option) \<Rightarrow> (string \<times> string option) list \<Rightarrow> templates \<Rightarrow> exc + templates" where
  "load_files yaml [] ts = Inr ts"
| "load_files yaml ((stem, content) # files) ts =
     (if stem = ''README'' then load_files yaml files ts
      else bind_exc (parse_template yaml stem content) (\<lambda>t.
           bind_exc (case t of None \<Rightarrow> Inr ts | Some t \<Rightarrow> register_template t ts) (load_files yaml files)))"

definition load_templates :: "(string \<Rightarrow> pyval option) \<Rightarrow> (string \<times> string option) list option \<Rightarrow> exc + templates" where
  "load_templates yaml dir = (case dir of None \<Rightarrow> Inr [] | Some files \<Rightarrow> load_files yaml files [])"

definition resolve_template :: "templates \<Rightarrow> string \<Rightarrow> string \<Rightarrow> exc + PromptTemplate" where
  "resolve_template ts task_kind agent_id =
     (case dict_get ts (task_kind, agent_id) of
        Some t \<Rightarrow> Inr t
      | None \<Rightarrow> Inl (KeyError (''No prompt template for task_kind='' @ repr_str task_kind @ '', agent_id='' @ repr_str agent_id)))"

section \<open>The environment and the store\<close>

record llm_env =
  le_net :: runtime_env
  le_invoke :: "nat \<Rightarrow> string \<Rightarrow> ModelProfile \<Rightarrow> exc + RawCompletion"
  le_in_time :: "nat \<Rightarrow> bool"
  le_latency :: "nat \<Rightarrow> int"
  le_sha256 :: "string \<Rightarrow> string"
  le_json_loads :: "string \<Rightarrow> exc + pyval"
  le_environ :: "string \<Rightarrow> string option"
  le_yaml_profiles :: "(string, ModelProfile) dict"
  le_prompt_dir :: "(string \<times> string option) list option"
  le_yaml :: "string \<Rightarrow> pyval option"
  le_persist_ok :: "nat \<Rightarrow> bool"

type_synonym stored = "(string, pyval) dict"

record llm_world = net +
  lw_cache :: "(string \<times> stored) list"
  lw_calls :: nat
  lw_measures :: nat
  lw_persists :: nat
  lw_topic :: "(string \<times> stored) list"

record llm_runtime =
  rt_config :: RuntimeConfig
  rt_publisher :: bool

definition RESULT_CACHE_SIZE :: nat where
  "RESULT_CACHE_SIZE = 10000"

definition touch_key :: "string \<Rightarrow> stored \<Rightarrow> (string \<times> stored) list \<Rightarrow> (string \<times> stored) list" where
  "touch_key k data c = filter (\<lambda>(k', _). k' \<noteq> k) c @ [(k, data)]"

definition result_cache_get :: "string \<Rightarrow> (string \<times> stored) list \<Rightarrow> stored option \<times> (string \<times> stored) list" where
  "result_cache_get k c = (case map_of c k of None \<Rightarrow> (None, c) | Some data \<Rightarrow> (Some data, touch_key k data c))"

definition result_cache_put :: "string \<Rightarrow> stored \<Rightarrow> (string \<times> stored) list \<Rightarrow> (string \<times> stored) list" where
  "result_cache_put k data c =
     (let c' = touch_key k data c in if RESULT_CACHE_SIZE < length c' then tl c' else c')"

text \<open>The JSON form of a result, \<^verbatim>\<open>model_dump(mode="json")\<close>, and reading it back.\<close>

definition opt_val :: "('a \<Rightarrow> pyval) \<Rightarrow> 'a option \<Rightarrow> pyval" where
  "opt_val f x = (case x of None \<Rightarrow> VNone | Some y \<Rightarrow> f y)"

definition usage_dump :: "TokenUsage \<Rightarrow> pyval" where
  "usage_dump u = VDict [(''input_tokens'', VInt (tu_input_tokens u)), (''output_tokens'', VInt (tu_output_tokens u)),
     (''cache_read_tokens'', VInt (tu_cache_read_tokens u)), (''cache_write_tokens'', VInt (tu_cache_write_tokens u))]"

definition value_dump :: "'v output_schema \<Rightarrow> 'v rvalue \<Rightarrow> pyval" where
  "value_dump S v = (case v of Instance x \<Rightarrow> VDict (os_dump S x) | Plain p \<Rightarrow> p)"

definition result_dump :: "'v output_schema \<Rightarrow> 'v rvalue AssistiveResult \<Rightarrow> stored" where
  "result_dump S r =
     [(''value'', value_dump S (ar_value r)), (''reasoning_path'', VStr (path_value (ar_reasoning_path r))),
      (''token_usage'', opt_val usage_dump (ar_token_usage r)), (''cache_hit'', VBool (ar_cache_hit r)),
      (''failure_reason'', opt_val (\<lambda>f. VStr (failure_value f)) (ar_failure_reason r)),
      (''model_id'', opt_val VStr (ar_model_id r)), (''latency_ms'', VInt (ar_latency_ms r)),
      (''prompt_ref'', opt_val VStr (ar_prompt_ref r))]"

definition need :: "string \<Rightarrow> 'a option \<Rightarrow> exc + 'a" where
  "need field x = (case x of None \<Rightarrow> Inl (ValueError (''AssistiveResult.'' @ field)) | Some y \<Rightarrow> Inr y)"

definition field_of :: "stored \<Rightarrow> string \<Rightarrow> (pyval \<Rightarrow> 'a option) \<Rightarrow> exc + 'a" where
  "field_of d k read = need k (Option.bind (dict_get d k) read)"

definition read_opt :: "(pyval \<Rightarrow> 'a option) \<Rightarrow> pyval \<Rightarrow> 'a option option" where
  "read_opt f v = (case v of VNone \<Rightarrow> Some None | _ \<Rightarrow> map_option Some (f v))"

fun read_str :: "pyval \<Rightarrow> string option" where
  "read_str (VStr s) = Some s"
| "read_str _ = None"

fun read_bool :: "pyval \<Rightarrow> bool option" where
  "read_bool (VBool b) = Some b"
| "read_bool _ = None"

fun read_vint :: "pyval \<Rightarrow> int option" where
  "read_vint (VInt i) = Some i"
| "read_vint _ = None"

definition read_path :: "pyval \<Rightarrow> ReasoningPath option" where
  "read_path v = Option.bind (read_str v) (\<lambda>s. find (\<lambda>p. path_value p = s) [ModelPath, CachePath, FallbackPath])"

definition read_failure :: "pyval \<Rightarrow> FailureReason option" where
  "read_failure v = Option.bind (read_str v) (\<lambda>s. find (\<lambda>f. failure_value f = s)
     [ModelUnavailable, Timeout, InvalidOutput, MissingInputs, ContextLimitExceeded, UnableToProduce])"

fun read_usage :: "pyval \<Rightarrow> TokenUsage option" where
  "read_usage (VDict d) =
     Option.bind (Option.bind (dict_get d ''input_tokens'') read_vint) (\<lambda>i.
     Option.bind (Option.bind (dict_get d ''output_tokens'') read_vint) (\<lambda>out.
     Option.bind (Option.bind (dict_get d ''cache_read_tokens'') read_vint) (\<lambda>r.
     Option.bind (Option.bind (dict_get d ''cache_write_tokens'') read_vint) (\<lambda>w.
     Some \<lparr>tu_input_tokens = i, tu_output_tokens = out, tu_cache_read_tokens = r, tu_cache_write_tokens = w\<rparr>))))"
| "read_usage _ = None"

definition result_validate :: "stored \<Rightarrow> exc + pyval AssistiveResult" where
  "result_validate d =
     bind_exc (field_of d ''value'' Some) (\<lambda>v.
     bind_exc (field_of d ''reasoning_path'' read_path) (\<lambda>path.
     bind_exc (field_of d ''token_usage'' (read_opt read_usage)) (\<lambda>usage.
     bind_exc (field_of d ''cache_hit'' read_bool) (\<lambda>hit.
     bind_exc (field_of d ''failure_reason'' (read_opt read_failure)) (\<lambda>failure.
     bind_exc (field_of d ''model_id'' (read_opt read_str)) (\<lambda>model_id.
     bind_exc (field_of d ''latency_ms'' read_vint) (\<lambda>latency.
     bind_exc (field_of d ''prompt_ref'' (read_opt read_str)) (\<lambda>prompt_ref.
     Inr \<lparr>ar_value = v, ar_reasoning_path = path, ar_token_usage = usage, ar_cache_hit = hit,
       ar_failure_reason = failure, ar_model_id = model_id, ar_latency_ms = latency,
       ar_prompt_ref = prompt_ref\<rparr>))))))))"

definition result_store_get :: "string \<Rightarrow> (llm_world, pyval AssistiveResult option) io" where
  "result_store_get key =
     bind_io (get_io (\<lambda>w. result_cache_get key (lw_cache w))) (\<lambda>(data, c).
     then_io (modify_io (\<lambda>w. w\<lparr>lw_cache := c\<rparr>))
       (case data of
          None \<Rightarrow> return_io None
        | Some d \<Rightarrow> bind_io (lift_exc (result_validate d)) (\<lambda>r. return_io (Some r))))"

definition persist_result :: "llm_env \<Rightarrow> string \<Rightarrow> stored \<Rightarrow> (llm_world, unit) io" where
  "persist_result E key data =
     modify_io (\<lambda>w. w\<lparr>lw_persists := Suc (lw_persists w),
       lw_topic := (if le_persist_ok E (lw_persists w) then lw_topic w @ [(key, data)] else lw_topic w)\<rparr>)"

definition result_store_put ::
  "llm_env \<Rightarrow> 'v output_schema \<Rightarrow> string \<Rightarrow> 'v rvalue AssistiveResult \<Rightarrow> (llm_world, unit) io" where
  "result_store_put E S key result =
     (let data = result_dump S result in
      then_io (modify_io (\<lambda>w. w\<lparr>lw_cache := result_cache_put key data (lw_cache w)\<rparr>))
        (persist_result E key data))"

section \<open>Structured output\<close>

datatype 'v StructuredOutcome = StructuredOk 'v | StructuredFailed nat "string list"

definition provider_call :: "llm_env \<Rightarrow> string \<Rightarrow> ModelProfile \<Rightarrow> (llm_world, RawCompletion) io" where
  "provider_call E prompt profile =
     (\<lambda>w. (le_invoke E (lw_calls w) prompt profile, w\<lparr>lw_calls := Suc (lw_calls w)\<rparr>))"

definition parse_json :: "llm_env \<Rightarrow> string \<Rightarrow> exc + pyval" where
  "parse_json E text = le_json_loads E (strip_fence text)"

definition repair_prompt :: "string \<Rightarrow> pyval \<Rightarrow> nat \<Rightarrow> string list \<Rightarrow> string" where
  "repair_prompt messages schema_json attempt errors =
     (if 0 < attempt \<and> errors \<noteq> []
      then messages @ LF @ LF @ ''Previous output was invalid: '' @ last errors @ LF
           @ ''Please fix the JSON output to match this schema:'' @ LF @ json_indent 0 schema_json
      else messages)"

text \<open>What one attempt makes of a reply: an exception, a message for the next attempt, or a value.\<close>

definition check_reply ::
  "llm_env \<Rightarrow> 'v output_schema \<Rightarrow> (string, pyval) dict \<Rightarrow> string \<Rightarrow> exc + (string + 'v)" where
  "check_reply E S grounding_inputs text =
     (case parse_json E text of
        Inl (JSONDecodeError m) \<Rightarrow> Inr (Inl (''JSON parse error: '' @ m))
      | Inl e \<Rightarrow> Inl e
      | Inr parsed \<Rightarrow>
          (case os_validate S parsed of
             Inl e \<Rightarrow> Inr (Inl (''Schema validation error: '' @ str_exc e))
           | Inr v \<Rightarrow>
               if grounding_inputs \<noteq> [] \<and> \<not> grounding_check (os_dump S v) grounding_inputs
               then Inr (Inl ''Output asserts facts not present in grounding inputs'')
               else Inr (Inr v)))"

fun repair_loop ::
  "llm_env \<Rightarrow> 'v output_schema \<Rightarrow> ModelProfile \<Rightarrow> (string, pyval) dict \<Rightarrow> string \<Rightarrow> nat \<Rightarrow> nat \<Rightarrow> string list
   \<Rightarrow> (llm_world, 'v StructuredOutcome) io" where
  "repair_loop E S profile grounding_inputs messages 0 attempt errors = return_io (StructuredFailed attempt errors)"
| "repair_loop E S profile grounding_inputs messages (Suc left) attempt errors =
     bind_io (provider_call E (repair_prompt messages (os_json S) attempt errors) profile) (\<lambda>raw.
     bind_io (lift_exc (check_reply E S grounding_inputs (cm_text raw))) (\<lambda>checked.
     case checked of
       Inl err \<Rightarrow> repair_loop E S profile grounding_inputs messages left (Suc attempt) (errors @ [err])
     | Inr v \<Rightarrow> return_io (StructuredOk v)))"

definition invoke_structured ::
  "llm_env \<Rightarrow> string \<Rightarrow> 'v output_schema \<Rightarrow> ModelProfile \<Rightarrow> (string, pyval) dict \<Rightarrow> int
   \<Rightarrow> (llm_world, 'v StructuredOutcome) io" where
  "invoke_structured E messages S profile grounding_inputs max_repairs =
     repair_loop E S profile grounding_inputs messages (nat (1 + max_repairs)) 0 []"

section \<open>Audit of a reasoning step\<close>

record ReasoningAuditRecord =
  ra_agent_id :: string
  ra_correlation_id :: uuid
  ra_causation_id :: uuid
  ra_task_kind :: TaskKind
  ra_model_id :: "string option"
  ra_model_params :: "(string, pyval) dict"
  ra_prompt_ref :: string
  ra_grounding_digest :: "(string, pyval) dict"
  ra_reasoning_path :: ReasoningPath
  ra_result_summary :: "(string, pyval) dict"
  ra_token_usage :: "TokenUsage option"
  ra_cache_hit :: bool
  ra_latency_ms :: int
  ra_outcome :: string
  ra_failure_reason :: "FailureReason option"
  ra_recorded_at :: instant

definition compact_digest :: "(string, pyval) dict \<Rightarrow> (string, pyval) dict" where
  "compact_digest grounding = map (\<lambda>(k, v). (k, case v of
       VStr s \<Rightarrow> if 200 < py_len s then VStr (py_take 200 s @ ''...'') else v
     | _ \<Rightarrow> v)) grounding"

definition compact_result :: "'v output_schema \<Rightarrow> 'v rvalue AssistiveResult \<Rightarrow> (string, pyval) dict" where
  "compact_result S result =
     (case ar_value result of Instance v \<Rightarrow> os_dump S v | Plain p \<Rightarrow> [(''value'', VStr (py_str p))])"

definition audit_outcome_text :: "'x AssistiveResult \<Rightarrow> string" where
  "audit_outcome_text result =
     (case ar_reasoning_path result of
        ModelPath \<Rightarrow> ''produced''
      | CachePath \<Rightarrow> ''served_from_cache''
      | FallbackPath \<Rightarrow> if ar_failure_reason result = None then ''fallback'' else ''unable_to_produce'')"

definition hash_prompt :: "llm_env \<Rightarrow> string \<Rightarrow> string" where
  "hash_prompt E prompt = take 16 (le_sha256 E prompt)"

definition build_audit_record ::
  "llm_env \<Rightarrow> 'v AssistiveRequest \<Rightarrow> 'v rvalue AssistiveResult \<Rightarrow> ModelProfile \<Rightarrow> string \<Rightarrow> bool
   \<Rightarrow> (llm_world, ReasoningAuditRecord) io" where
  "build_audit_record E req result profile prompt_ref redact =
     (let digest = compact_digest (aq_grounding_inputs req);
          summary = compact_result (aq_output_schema req) result;
          scrubbed = (\<lambda>d. if redact then redact_mapping d else d) in
      bind_io (now_io (le_net E)) (\<lambda>now. return_io
        \<lparr>ra_agent_id = aq_agent_id req, ra_correlation_id = aq_correlation_id req,
         ra_causation_id = aq_causation_id req, ra_task_kind = aq_task_kind req, ra_model_id = ar_model_id result,
         ra_model_params = [(''temperature'', VFloat (mp_temperature profile)),
                            (''max_tokens'', VInt (mp_max_tokens profile))],
         ra_prompt_ref = (if prompt_ref = [] then hash_prompt E [] else prompt_ref),
         ra_grounding_digest = scrubbed digest, ra_reasoning_path = ar_reasoning_path result,
         ra_result_summary = scrubbed summary, ra_token_usage = ar_token_usage result,
         ra_cache_hit = ar_cache_hit result, ra_latency_ms = ar_latency_ms result,
         ra_outcome = audit_outcome_text result, ra_failure_reason = ar_failure_reason result,
         ra_recorded_at = now\<rparr>))"

text \<open>\<^verbatim>\<open>model_dump(mode="json")\<close> of the record; an instant is printed with the suffix \<open>Z\<close>.\<close>

definition json_instant :: "instant \<Rightarrow> string" where
  "json_instant t = take (length (isoformat t) - 6) (isoformat t) @ ''Z''"

definition audit_record_dump :: "ReasoningAuditRecord \<Rightarrow> (string, pyval) dict" where
  "audit_record_dump r =
     [(''agent_id'', VStr (ra_agent_id r)), (''correlation_id'', VStr (show_uuid (ra_correlation_id r))),
      (''causation_id'', VStr (show_uuid (ra_causation_id r))), (''task_kind'', VStr (task_kind_value (ra_task_kind r))),
      (''model_id'', opt_val VStr (ra_model_id r)), (''model_params'', VDict (ra_model_params r)),
      (''prompt_ref'', VStr (ra_prompt_ref r)), (''grounding_digest'', VDict (ra_grounding_digest r)),
      (''reasoning_path'', VStr (path_value (ra_reasoning_path r))), (''result_summary'', VDict (ra_result_summary r)),
      (''token_usage'', opt_val usage_dump (ra_token_usage r)), (''cache_hit'', VBool (ra_cache_hit r)),
      (''latency_ms'', VInt (ra_latency_ms r)), (''outcome'', VStr (ra_outcome r)),
      (''failure_reason'', opt_val (\<lambda>f. VStr (failure_value f)) (ra_failure_reason r)),
      (''recorded_at'', VStr (json_instant (ra_recorded_at r)))]"

text \<open>The literal type of \<^verbatim>\<open>AuditPayload.outcome\<close>.\<close>

definition read_audit_outcome :: "string \<Rightarrow> exc + audit_outcome" where
  "read_audit_outcome s =
     (case map_of [(''accepted'', Accepted), (''rejected'', AuditRejected), (''duplicate_skipped'', DuplicateSkipped),
        (''completed'', AuditCompleted), (''failed'', AuditFailed)] s of
        None \<Rightarrow> Inl (ValueError ''outcome'')
      | Some out \<Rightarrow> Inr out)"

definition reasoning_envelope :: "ReasoningAuditRecord \<Rightarrow> uuid \<Rightarrow> string \<Rightarrow> (string, pyval) dict \<Rightarrow> EventEnvelope" where
  "reasoning_envelope record event_id event_type payload =
     \<lparr>en_event_id = event_id, en_correlation_id = ra_correlation_id record,
      en_causation_id = Some (ra_causation_id record), en_agent_id = ra_agent_id record, en_tenant_id = ''default'',
      en_timestamp = ra_recorded_at record, en_event_type = event_type, en_schema_version = ''1.0.0'',
      en_trace_context = None, en_payload = payload\<rparr>"

definition write_reasoning_audit :: "llm_env \<Rightarrow> ReasoningAuditRecord \<Rightarrow> (llm_world, unit) io" where
  "write_reasoning_audit E record =
     (let N = le_net E; env = re_environment N in
      try_io
        (bind_io (uuid4_io N) (\<lambda>eid.
         bind_io (lift_exc (validate_envelope env
             (reasoning_envelope record eid ''agent.llm.reasoning.v1'' (audit_record_dump record)))) (\<lambda>original.
         bind_io (lift_exc (read_audit_outcome (ra_outcome record))) (\<lambda>outcome.
         bind_io (lift_exc (validate_reason_required
             \<lparr>au_original_envelope = original, au_outcome = outcome, au_reason = None,
              au_recorded_at = ra_recorded_at record, au_task_id = None\<rparr>)) (\<lambda>payload.
         bind_io (uuid4_io N) (\<lambda>eid'.
         bind_io (lift_exc (validate_envelope env
             (reasoning_envelope record eid' ''agent.audit.v1'' (re_dump N (MAudit payload))))) (\<lambda>envelope.
         publish_raw N envelope (MAudit payload) (TOPIC_AUDIT env) None)))))))
        (\<lambda>_. return_io ()))"

definition emit_audit ::
  "llm_env \<Rightarrow> llm_runtime \<Rightarrow> 'v AssistiveRequest \<Rightarrow> 'v rvalue AssistiveResult \<Rightarrow> ModelProfile \<Rightarrow> string
   \<Rightarrow> (llm_world, unit) io" where
  "emit_audit E rt req result profile prompt_ref =
     (let ref = (if prompt_ref \<noteq> [] then prompt_ref else case ar_prompt_ref result of None \<Rightarrow> [] | Some p \<Rightarrow> p) in
      try_io
        (bind_io (build_audit_record E req result profile ref (cf_redact_pii (rt_config rt))) (\<lambda>record.
         when_io (rt_publisher rt) (write_reasoning_audit E record)))
        (\<lambda>_. return_io ()))"

section \<open>The front door\<close>

text \<open>Constructing a request validates the instructions and derives the idempotency key.\<close>

definition derive_key :: "llm_env \<Rightarrow> uuid \<Rightarrow> TaskKind \<Rightarrow> (string, pyval) dict \<Rightarrow> string" where
  "derive_key E correlation_id task_kind grounding_inputs =
     show_uuid correlation_id @ '':'' @ task_kind_value task_kind @ '':''
       @ take 16 (le_sha256 E (json_dumps (json_sorted (VDict grounding_inputs))))"

definition make_request :: "llm_env \<Rightarrow> 'v AssistiveRequest \<Rightarrow> exc + 'v AssistiveRequest" where
  "make_request E req =
     (if py_strip (aq_instructions req) = [] then Inl (ValueError ''instructions must be non-empty'')
      else if aq_idempotency_key req \<noteq> [] then Inr req
      else Inr (req\<lparr>aq_idempotency_key :=
             derive_key E (aq_correlation_id req) (aq_task_kind req) (aq_grounding_inputs req)\<rparr>))"

definition default_prompt :: "'v AssistiveRequest \<Rightarrow> string" where
  "default_prompt req =
     py_join LF ([aq_instructions req,
         LF @ ''OUTPUT_SCHEMA: '' @ json_indent 0 (os_json (aq_output_schema req)) @ LF @ ''END_SCHEMA'']
       @ examples_part (aq_examples req) @ [grounding_suffix (aq_grounding_inputs req)])"

definition render_prompt :: "llm_env \<Rightarrow> 'v AssistiveRequest \<Rightarrow> string" where
  "render_prompt E req =
     (case bind_exc (load_templates (le_yaml E) (le_prompt_dir E)) (\<lambda>ts.
             resolve_template ts (task_kind_value (aq_task_kind req)) (aq_agent_id req)) of
        Inl _ \<Rightarrow> default_prompt req
      | Inr t \<Rightarrow> fst (render t (aq_grounding_inputs req) (os_json (aq_output_schema req)) (aq_examples req)))"

definition compute_prompt_ref :: "llm_env \<Rightarrow> 'v AssistiveRequest \<Rightarrow> string \<Rightarrow> string" where
  "compute_prompt_ref E req prompt = task_kind_value (aq_task_kind req) @ '':'' @ take 16 (le_sha256 E prompt)"

definition validate_output :: "llm_env \<Rightarrow> string \<Rightarrow> 'v AssistiveRequest \<Rightarrow> 'v option" where
  "validate_output E text req =
     (case bind_exc (parse_json E text) (os_validate (aq_output_schema req)) of Inl _ \<Rightarrow> None | Inr v \<Rightarrow> Some v)"

definition measure_io :: "llm_env \<Rightarrow> (llm_world, int) io" where
  "measure_io E = (\<lambda>w. (Inr (le_latency E (lw_measures w)), w\<lparr>lw_measures := Suc (lw_measures w)\<rparr>))"

definition fallback_io ::
  "llm_env \<Rightarrow> llm_runtime \<Rightarrow> 'v AssistiveRequest \<Rightarrow> ModelProfile \<Rightarrow> FailureReason \<Rightarrow> string
   \<Rightarrow> (llm_world, 'v rvalue AssistiveResult) io" where
  "fallback_io E rt req profile failure_reason prompt_ref =
     bind_io (lift_exc (aq_fallback req)) (\<lambda>fallback_value.
     bind_io (measure_io E) (\<lambda>latency_ms.
     let result = \<lparr>ar_value = Instance fallback_value, ar_reasoning_path = FallbackPath, ar_token_usage = None,
           ar_cache_hit = False, ar_failure_reason = Some failure_reason, ar_model_id = None,
           ar_latency_ms = latency_ms, ar_prompt_ref = Some prompt_ref\<rparr> in
     then_io (emit_audit E rt req result profile prompt_ref) (return_io result)))"

text \<open>The except clauses around the first call.\<close>

fun failure_of :: "exc \<Rightarrow> FailureReason" where
  "failure_of (TimeoutError _) = Timeout"
| "failure_of (LLMRuntimeError _ r) = r"
| "failure_of _ = ModelUnavailable"

definition bounded_call :: "llm_env \<Rightarrow> string \<Rightarrow> ModelProfile \<Rightarrow> (llm_world, FailureReason + RawCompletion) io" where
  "bounded_call E prompt profile =
     try_io
       (bind_io (get_io lw_calls) (\<lambda>n.
        bind_io (provider_call E prompt profile) (\<lambda>raw. return_io (if le_in_time E n then Inr raw else Inl Timeout))))
       (\<lambda>e. bind_io (get_io lw_calls) (\<lambda>n.
            return_io (Inl (if le_in_time E (n - 1) then failure_of e else Timeout))))"

definition validated_value ::
  "llm_env \<Rightarrow> 'v AssistiveRequest \<Rightarrow> ModelProfile \<Rightarrow> string \<Rightarrow> RawCompletion \<Rightarrow> (llm_world, 'v option) io" where
  "validated_value E req profile prompt raw =
     (case validate_output E (cm_text raw) req of
        Some v \<Rightarrow> return_io (Some v)
      | None \<Rightarrow>
          bind_io (invoke_structured E prompt (aq_output_schema req) profile (aq_grounding_inputs req)
              (mp_max_repairs profile)) (\<lambda>outcome.
          return_io (case outcome of StructuredOk v \<Rightarrow> Some v | StructuredFailed _ _ \<Rightarrow> None)))"

definition request_profile :: "llm_env \<Rightarrow> llm_runtime \<Rightarrow> 'v AssistiveRequest \<Rightarrow> ModelProfile" where
  "request_profile E rt req =
     resolve_profile (le_environ E) (le_yaml_profiles E) (aq_agent_id req) (aq_task_kind req) (rt_config rt)"

definition serve_cached ::
  "llm_env \<Rightarrow> llm_runtime \<Rightarrow> 'v AssistiveRequest \<Rightarrow> pyval AssistiveResult
   \<Rightarrow> (llm_world, 'v rvalue AssistiveResult) io" where
  "serve_cached E rt req cached =
     bind_io (measure_io E) (\<lambda>latency_ms.
     let result = (with_value (Plain (ar_value cached)) cached)
           \<lparr>ar_reasoning_path := CachePath, ar_latency_ms := latency_ms\<rparr> in
     then_io (emit_audit E rt req result (request_profile E rt req) []) (return_io result))"

definition ask_model ::
  "llm_env \<Rightarrow> llm_runtime \<Rightarrow> 'v AssistiveRequest \<Rightarrow> (llm_world, 'v rvalue AssistiveResult) io" where
  "ask_model E rt req =
     (let profile = request_profile E rt req;
          prompt = render_prompt E req;
          prompt_ref = compute_prompt_ref E req prompt in
      bind_io (bounded_call E prompt profile) (\<lambda>reply.
      case reply of
        Inl failure \<Rightarrow> fallback_io E rt req profile failure prompt_ref
      | Inr raw \<Rightarrow>
          bind_io (validated_value E req profile prompt raw) (\<lambda>value.
          case value of
            None \<Rightarrow> fallback_io E rt req profile InvalidOutput prompt_ref
          | Some v \<Rightarrow>
              bind_io (measure_io E) (\<lambda>latency_ms.
              let result = \<lparr>ar_value = Instance v, ar_reasoning_path = ModelPath,
                    ar_token_usage = Some (cm_token_usage raw), ar_cache_hit = cm_cache_hit raw,
                    ar_failure_reason = None, ar_model_id = Some (cm_model_id raw), ar_latency_ms = latency_ms,
                    ar_prompt_ref = Some prompt_ref\<rparr> in
              then_io (result_store_put E (aq_output_schema req) (aq_idempotency_key req) result)
              (then_io (emit_audit E rt req result profile prompt_ref) (return_io result))))))"

definition reason ::
  "llm_env \<Rightarrow> llm_runtime \<Rightarrow> 'v AssistiveRequest \<Rightarrow> (llm_world, 'v rvalue AssistiveResult) io" where
  "reason E rt req =
     bind_io (result_store_get (aq_idempotency_key req)) (\<lambda>cached.
     case cached of Some c \<Rightarrow> serve_cached E rt req c | None \<Rightarrow> ask_model E rt req)"

definition assist_or_fallback ::
  "llm_env \<Rightarrow> llm_runtime \<Rightarrow> string \<Rightarrow> 'v AssistiveRequest \<Rightarrow> (llm_world, 'v rvalue AssistiveResult) io" where
  "assist_or_fallback E rt task_kind req =
     bind_io (lift_exc (parse_task_kind task_kind)) (\<lambda>kind.
     bind_io (lift_exc (make_request E (req\<lparr>aq_task_kind := kind\<rparr>))) (reason E rt))"

section \<open>Optional invocation events\<close>

record audit_event_config =
  ec_events_enabled :: bool
  ec_log_raw_prompts :: bool

definition event_config :: "(string \<Rightarrow> string option) \<Rightarrow> audit_event_config" where
  "event_config environ =
     \<lparr>ec_events_enabled = parse_bool (case environ ''AGENT_LLM_AUDIT_EVENTS_ENABLED'' of None \<Rightarrow> ''false'' | Some s \<Rightarrow> s),
      ec_log_raw_prompts = parse_bool (case environ ''AGENT_LLM_AUDIT_LOG_RAW_PROMPTS'' of None \<Rightarrow> ''false'' | Some s \<Rightarrow> s)\<rparr>"

definition invocation_payload ::
  "'v AssistiveRequest \<Rightarrow> 'x AssistiveResult \<Rightarrow> instant \<Rightarrow> string option \<Rightarrow> (string, pyval) dict" where
  "invocation_payload req result recorded_at raw_prompt =
     [(''agent_id'', VStr (aq_agent_id req)), (''model_id'', opt_val VStr (ar_model_id result)),
      (''prompt_id'', VStr (case ar_prompt_ref result of None \<Rightarrow> [] | Some p \<Rightarrow> p)),
      (''task_kind'', VStr (task_kind_value (aq_task_kind req))),
      (''correlation_id'', VStr (show_uuid (aq_correlation_id req))),
      (''causation_id'', VStr (show_uuid (aq_causation_id req))), (''latency_ms'', VInt (ar_latency_ms result)),
      (''token_usage'', opt_val usage_dump (ar_token_usage result)), (''cache_hit'', VBool (ar_cache_hit result)),
      (''reasoning_path'', VStr (path_value (ar_reasoning_path result))),
      (''recorded_at'', VStr (json_instant recorded_at)), (''raw_prompt'', opt_val VStr raw_prompt)]"

definition emit_llm_invocation_event ::
  "llm_env \<Rightarrow> audit_event_config \<Rightarrow> 'v AssistiveRequest \<Rightarrow> 'x AssistiveResult \<Rightarrow> string \<Rightarrow> (llm_world, unit) io" where
  "emit_llm_invocation_event E cfg req result rendered_prompt =
     (let N = le_net E; env = re_environment N;
          raw_prompt = (if ec_log_raw_prompts cfg then Some rendered_prompt else None) in
      if \<not> ec_events_enabled cfg then return_io ()
      else bind_io (now_io N) (\<lambda>recorded_at.
        let payload = invocation_payload req result recorded_at raw_prompt;
            (m, topic, event_type) =
              (case ar_failure_reason result of
                 Some f \<Rightarrow>
                   if ar_reasoning_path result = FallbackPath
                   then (MLlmFailed (payload @ [(''failure_reason'', VStr (failure_value f))]),
                         topic_for env ''audit'' ''llm.invocation'' ''failed'', ''audit.llm.invocation.failed'')
                   else (MLlmCompleted payload, topic_for env ''audit'' ''llm.invocation'' ''completed'',
                         ''audit.llm.invocation.completed'')
               | None \<Rightarrow> (MLlmCompleted payload, topic_for env ''audit'' ''llm.invocation'' ''completed'',
                         ''audit.llm.invocation.completed''))
        in try_io
             (bind_io (uuid4_io N) (\<lambda>eid.
              bind_io (lift_exc (validate_envelope env
                \<lparr>en_event_id = eid, en_correlation_id = aq_correlation_id req,
                 en_causation_id = Some (aq_causation_id req), en_agent_id = aq_agent_id req,
                 en_tenant_id = ''default'', en_timestamp = recorded_at, en_event_type = event_type,
                 en_schema_version = ''1.0.0'', en_trace_context = None,
                 en_payload = (case m of MLlmFailed d \<Rightarrow> d | MLlmCompleted d \<Rightarrow> d | _ \<Rightarrow> [])\<rparr>)) (\<lambda>envelope.
              publish_raw N envelope m topic None)))
             (\<lambda>_. return_io ())))"

end
