(* ===== verification/Llm_Contract.thy ===== *)
theory Llm_Contract
  imports Llm_Runtime
begin

text \<open>
  What the assistive runtime promises its callers, against the behavioural contract of
  \<^verbatim>\<open>specs/008-agent-llm-runtime/contracts/llm-runtime-api.md\<close>: a bounded number of provider calls, only
  validated or deterministic values, replay from the store, and what becomes of the audit of a step.
\<close>

section \<open>The audit of a step reaches no topic\<close>

text \<open>No outcome that a reasoning step can have belongs to the literal type of the audit payload.\<close>

lemma audit_outcome_refused: "\<exists>e. read_audit_outcome (audit_outcome_text result) = Inl e"
  by (simp add: read_audit_outcome_def audit_outcome_text_def split: ReasoningPath.split)

text \<open>Two worlds that differ at most in what the clocks and the identifier generator have given out.\<close>

definition stamped :: "llm_world \<Rightarrow> llm_world \<Rightarrow> bool" where
  "stamped w w' \<longleftrightarrow> nt_log w' = nt_log w \<and> nt_sends w' = nt_sends w \<and> lw_cache w' = lw_cache w
     \<and> lw_calls w' = lw_calls w \<and> lw_topic w' = lw_topic w \<and> lw_persists w' = lw_persists w"

lemma write_reasoning_audit_silent:
  assumes "read_audit_outcome (ra_outcome record) = Inl e"
  shows "\<exists>w'. write_reasoning_audit E record w = (Inr (), w') \<and> stamped w w'"
proof -
  let ?w = "w\<lparr>nt_uuids := Suc (nt_uuids w)\<rparr>"
  have "stamped w ?w" by (simp add: stamped_def)
  moreover have "write_reasoning_audit E record w = (Inr (), ?w)"
    by (simp add: write_reasoning_audit_def Let_def io_simps uuid4_io_def lift_exc_def assms split: sum.split)
  ultimately show ?thesis by blast
qed

lemma build_audit_record_returns:
  "\<exists>ra. ra_outcome ra = audit_outcome_text result
     \<and> build_audit_record E req result profile ref redact w = (Inr ra, w\<lparr>nt_ticks := Suc (nt_ticks w)\<rparr>)"
  by (simp add: build_audit_record_def Let_def io_simps now_io_def)

lemma emit_audit_silent: "\<exists>w'. emit_audit E rt req result profile ref w = (Inr (), w') \<and> stamped w w'"
proof -
  obtain e where e: "read_audit_outcome (audit_outcome_text result) = Inl e" using audit_outcome_refused by blast
  let ?w = "w\<lparr>nt_ticks := Suc (nt_ticks w)\<rparr>"
  have s: "stamped w ?w" by (simp add: stamped_def)
  obtain ra where r: "ra_outcome ra = audit_outcome_text result"
    "build_audit_record E req result profile (if ref \<noteq> [] then ref else case ar_prompt_ref result of None \<Rightarrow> [] | Some p \<Rightarrow> p)
       (cf_redact_pii (rt_config rt)) w = (Inr ra, ?w)"
    using build_audit_record_returns by blast
  obtain w' where "write_reasoning_audit E ra ?w = (Inr (), w')" "stamped ?w w'"
    using write_reasoning_audit_silent r(1) e by metis
  with r(2) s show ?thesis
    by (cases "rt_publisher rt") (auto simp: emit_audit_def Let_def io_simps stamped_def)
qed

lemma then_emit:
  "\<exists>w'. then_io (emit_audit E rt req result profile ref) (return_io x) w = (Inr x, w') \<and> stamped w w'"
  using emit_audit_silent [of E rt req result profile ref w] by (auto simp: io_simps)

lemma fallback_io_outcome:
  assumes "fallback_io E rt req profile f ref w = (r, w')"
  shows "stamped w w' \<and> (case r of Inl e \<Rightarrow> aq_fallback req = Inl e
     | Inr result \<Rightarrow> ar_reasoning_path result = FallbackPath \<and> ar_failure_reason result = Some f
         \<and> (\<exists>v. aq_fallback req = Inr v \<and> ar_value result = Instance v))"
proof (cases "aq_fallback req")
  case (Inl e)
  then show ?thesis using assms by (auto simp: fallback_io_def lift_exc_def io_simps stamped_def)
next
  case (Inr v)
  let ?w = "w\<lparr>lw_measures := Suc (lw_measures w)\<rparr>"
  let ?result = "\<lparr>ar_value = Instance v, ar_reasoning_path = FallbackPath, ar_token_usage = None,
         ar_cache_hit = False, ar_failure_reason = Some f, ar_model_id = None,
         ar_latency_ms = le_latency E (lw_measures w), ar_prompt_ref = Some ref\<rparr>"
  obtain w2 where w2: "then_io (emit_audit E rt req ?result profile ref) (return_io ?result) ?w = (Inr ?result, w2)"
    "stamped ?w w2" using then_emit [of E rt req ?result profile ref ?result ?w] by blast
  have "fallback_io E rt req profile f ref w = (Inr ?result, w2)"
    using w2(1) Inr by (simp add: fallback_io_def lift_exc_def bind_io_def return_io_def measure_io_def Let_def)
  then show ?thesis using assms Inr w2(2) by (auto simp: stamped_def)
qed

section \<open>Repair\<close>

text \<open>The \<open>i\<close>-th call of the provider was answered by \<open>raw\<close>; a text is a value of the schema; a value is grounded.\<close>

definition replied :: "llm_env \<Rightarrow> ModelProfile \<Rightarrow> nat \<Rightarrow> RawCompletion \<Rightarrow> bool" where
  "replied E p i raw \<longleftrightarrow> (\<exists>prompt. le_invoke E i prompt p = Inr raw)"

definition conforms :: "llm_env \<Rightarrow> 'v output_schema \<Rightarrow> string \<Rightarrow> 'v \<Rightarrow> bool" where
  "conforms E S text v \<longleftrightarrow> bind_exc (parse_json E text) (os_validate S) = Inr v"

definition grounded :: "'v output_schema \<Rightarrow> (string, pyval) dict \<Rightarrow> 'v \<Rightarrow> bool" where
  "grounded S g v \<longleftrightarrow> g = [] \<or> grounding_check (os_dump S v) g"

text \<open>The \<open>i\<close>-th call raised \<open>e\<close>, or its reply made \<^verbatim>\<open>json.loads\<close> raise something other than a decoding error.\<close>

definition call_raised :: "llm_env \<Rightarrow> ModelProfile \<Rightarrow> nat \<Rightarrow> exc \<Rightarrow> bool" where
  "call_raised E p i e \<longleftrightarrow> (\<exists>prompt. le_invoke E i prompt p = Inl e)
     \<or> (\<exists>raw. replied E p i raw \<and> parse_json E (cm_text raw) = Inl e \<and> (\<forall>m. e \<noteq> JSONDecodeError m))"

lemma check_reply_raises:
  "check_reply E S g text = Inl e \<Longrightarrow> parse_json E text = Inl e \<and> (\<forall>m. e \<noteq> JSONDecodeError m)"
  by (auto simp: check_reply_def split: sum.splits exc.splits if_splits)

lemma check_reply_accepts: "check_reply E S g text = Inr (Inr v) \<Longrightarrow> conforms E S text v \<and> grounded S g v"
  by (auto simp: check_reply_def conforms_def grounded_def bind_exc_def split: sum.splits exc.splits if_splits)

lemma repair_loop_outcome:
  "repair_loop E S p g msgs left att errs w = (r, w') \<Longrightarrow>
     stamped (w\<lparr>lw_calls := lw_calls w'\<rparr>) w' \<and> lw_calls w \<le> lw_calls w' \<and> lw_calls w' \<le> lw_calls w + left
     \<and> (case r of
          Inl e \<Rightarrow> \<exists>i. lw_calls w \<le> i \<and> i < lw_calls w' \<and> call_raised E p i e
        | Inr (StructuredOk v) \<Rightarrow> \<exists>i raw. lw_calls w \<le> i \<and> i < lw_calls w' \<and> replied E p i raw
             \<and> conforms E S (cm_text raw) v \<and> grounded S g v
        | Inr (StructuredFailed _ _) \<Rightarrow> True)"
proof (induction left arbitrary: att errs w)
  case 0
  then show ?case by (auto simp: return_io_def stamped_def)
next
  case (Suc left)
  let ?n = "lw_calls w" and ?prompt = "repair_prompt msgs (os_json S) att errs"
  let ?w = "w\<lparr>lw_calls := Suc ?n\<rparr>"
  note run = Suc.prems [unfolded repair_loop.simps bind_io_def provider_call_def lift_exc_def]
  show ?case
  proof (cases "le_invoke E ?n ?prompt p")
    case (Inl e)
    then show ?thesis using run by (auto simp: stamped_def call_raised_def intro!: exI [of _ ?n])
  next
    case raw: (Inr raw)
    then have rep: "replied E p ?n raw" by (auto simp: replied_def)
    show ?thesis
    proof (cases "check_reply E S g (cm_text raw)")
      case (Inl e)
      then show ?thesis using run raw rep check_reply_raises [OF Inl]
        by (auto simp: stamped_def call_raised_def raise_io_def intro!: exI [of _ ?n])
    next
      case checked: (Inr c)
      show ?thesis
      proof (cases c)
        case (Inl err)
        then have "repair_loop E S p g msgs left (Suc att) (errs @ [err]) ?w = (r, w')"
          using run raw checked by (simp add: return_io_def)
        from Suc.IH [OF this] show ?thesis
          by (auto simp: stamped_def split: sum.splits StructuredOutcome.splits dest: Suc_leD)
      next
        case (Inr v)
        then show ?thesis using run raw checked rep check_reply_accepts [of E S g "cm_text raw" v]
          by (auto simp: return_io_def stamped_def intro!: exI [of _ ?n] exI [of _ raw])
      qed
    qed
  qed
qed

section \<open>The store\<close>

lemma read_path_value [simp]: "read_path (VStr (path_value p)) = Some p"
  by (cases p) (simp_all add: read_path_def)

lemma read_failure_value [simp]: "read_failure (VStr (failure_value f)) = Some f"
  by (cases f) (simp_all add: read_failure_def)

lemma read_usage_dump [simp]: "read_usage (usage_dump u) = Some u"
  by (simp add: usage_dump_def)

lemma read_opt_val: "(\<And>y. f (g y) = Some y \<and> g y \<noteq> VNone) \<Longrightarrow> read_opt f (opt_val g x) = Some x"
  by (cases x) (auto simp: read_opt_def opt_val_def split: pyval.split, metis+)

text \<open>A result read back from its JSON form is the result, with the JSON of its value in place of the value.\<close>

lemma result_roundtrip: "result_validate (result_dump S r) = Inr (with_value (value_dump S (ar_value r)) r)"
proof -
  have "usage_dump u \<noteq> VNone" for u by (simp add: usage_dump_def)
  then show ?thesis
    by (simp add: result_validate_def result_dump_def field_of_def need_def bind_exc_def with_value_def read_opt_val)
qed

definition store_ok :: "llm_world \<Rightarrow> bool" where
  "store_ok w \<longleftrightarrow> distinct (map fst (lw_cache w)) \<and> length (lw_cache w) \<le> RESULT_CACHE_SIZE
     \<and> (\<forall>(k, d) \<in> set (lw_cache w). \<exists>r. result_validate d = Inr r)"

lemma touch_distinct:
  "distinct (map fst c) \<Longrightarrow> distinct (map fst (touch_key k d c))"
  by (auto simp: touch_key_def distinct_map_filter)

lemma length_touch_present:
  assumes "distinct (map fst c)" "map_of c k = Some d"
  shows "length (touch_key k d c) = length c"
  using assms
proof (induction c)
  case (Cons x c)
  have "k \<notin> fst ` set c \<Longrightarrow> filter (\<lambda>(k', _). k' \<noteq> k) c = c" by (force simp: filter_id_conv)
  then show ?case using Cons by (cases x) (auto simp: touch_key_def split: if_splits)
qed simp

lemma store_ok_touch:
  "store_ok w \<Longrightarrow> map_of (lw_cache w) k = Some d \<Longrightarrow> store_ok (w\<lparr>lw_cache := touch_key k d (lw_cache w)\<rparr>)"
  using touch_distinct length_touch_present
  by (fastforce simp: store_ok_def touch_key_def dest: map_of_SomeD)

lemma store_ok_put:
  assumes "store_ok w" "result_validate d = Inr r"
  shows "store_ok (w\<lparr>lw_cache := result_cache_put k d (lw_cache w)\<rparr>)"
proof -
  let ?c = "touch_key k d (lw_cache w)"
  have "length ?c \<le> Suc RESULT_CACHE_SIZE"
    using assms(1) le_trans [OF length_filter_le] by (fastforce simp: store_ok_def touch_key_def)
  moreover have "distinct (map fst ?c)" using assms(1) by (simp add: store_ok_def touch_distinct)
  moreover have "\<exists>r. result_validate d' = Inr r" if "(k', d') \<in> set ?c" for k' d'
    using that assms by (auto simp: store_ok_def touch_key_def)
  ultimately show ?thesis
    by (auto simp: store_ok_def result_cache_put_def Let_def map_tl distinct_tl dest!: list.set_sel(2) [rotated])
qed

section \<open>The contract of a reasoning step\<close>

lemma bounded_call_outcome:
  assumes "bounded_call E prompt p w = (r, w')"
  shows "w' = w\<lparr>lw_calls := Suc (lw_calls w)\<rparr> \<and> (\<exists>reply. r = Inr reply)
    \<and> (\<forall>raw. r = Inr (Inr raw) \<longrightarrow> replied E p (lw_calls w) raw)"
  using assms by (auto simp: bounded_call_def provider_call_def io_simps replied_def split: sum.splits if_splits)

lemma validated_value_outcome:
  assumes "validated_value E req p prompt raw w = (r, w')" and "replied E p i raw" and "lw_calls w = Suc i"
  shows "stamped (w\<lparr>lw_calls := lw_calls w'\<rparr>) w' \<and> lw_calls w \<le> lw_calls w'
    \<and> lw_calls w' \<le> lw_calls w + nat (1 + mp_max_repairs p)
    \<and> (case r of
         Inl e \<Rightarrow> \<exists>j. i < j \<and> j < lw_calls w' \<and> call_raised E p j e
       | Inr None \<Rightarrow> True
       | Inr (Some v) \<Rightarrow> \<exists>j raw'. i \<le> j \<and> j < lw_calls w' \<and> replied E p j raw'
           \<and> conforms E (aq_output_schema req) (cm_text raw') v
           \<and> (j = i \<or> grounded (aq_output_schema req) (aq_grounding_inputs req) v))"
proof (cases "validate_output E (cm_text raw) req")
  case (Some v)
  then have "conforms E (aq_output_schema req) (cm_text raw) v"
    by (auto simp: validate_output_def conforms_def split: sum.splits)
  then show ?thesis using assms Some
    by (auto simp: validated_value_def return_io_def stamped_def intro!: exI [of _ i] exI [of _ raw])
next
  case None
  obtain r' where run: "repair_loop E (aq_output_schema req) p (aq_grounding_inputs req) prompt
      (nat (1 + mp_max_repairs p)) 0 [] w = (r', w')"
    and r: "r = (case r' of Inl e \<Rightarrow> Inl e | Inr (StructuredOk v) \<Rightarrow> Inr (Some v) | Inr (StructuredFailed _ _) \<Rightarrow> Inr None)"
    using assms(1) None
    by (auto simp: validated_value_def invoke_structured_def bind_io_def return_io_def
        split: prod.splits sum.splits StructuredOutcome.splits)
  from repair_loop_outcome [OF run] assms(3) show ?thesis
    by (auto simp: r split: sum.splits StructuredOutcome.splits) (metis Suc_le_lessD Suc_leD)+
qed

text \<open>What a step may do, from the world it starts in: the number of calls and the origin of its result.\<close>

definition step_allowed ::
  "llm_env \<Rightarrow> llm_runtime \<Rightarrow> 'v AssistiveRequest \<Rightarrow> llm_world \<Rightarrow> exc + 'v rvalue AssistiveResult \<Rightarrow> llm_world \<Rightarrow> bool" where
  "step_allowed E rt req w r w' \<longleftrightarrow>
     (let p = request_profile E rt req; S = aq_output_schema req in
      store_ok w' \<and> nt_log w' = nt_log w
      \<and> lw_calls w' \<le> lw_calls w + 1 + nat (1 + mp_max_repairs p)
      \<and> (case r of
           Inl e \<Rightarrow> aq_fallback req = Inl e
             \<or> (\<exists>i. lw_calls w < i \<and> i < lw_calls w' \<and> call_raised E p i e)
         | Inr result \<Rightarrow>
             (case ar_reasoning_path result of
                CachePath \<Rightarrow> lw_calls w' = lw_calls w
                  \<and> (\<exists>d c. map_of (lw_cache w) (aq_idempotency_key req) = Some d \<and> result_validate d = Inr c
                       \<and> ar_value result = Plain (ar_value c))
              | FallbackPath \<Rightarrow> (\<exists>v. aq_fallback req = Inr v \<and> ar_value result = Instance v)
                  \<and> ar_failure_reason result \<noteq> None
              | ModelPath \<Rightarrow> (\<exists>v i raw. ar_value result = Instance v \<and> lw_calls w \<le> i \<and> i < lw_calls w'
                  \<and> replied E p i raw \<and> conforms E S (cm_text raw) v
                  \<and> (i = lw_calls w \<or> grounded S (aq_grounding_inputs req) v))
                  \<and> (\<exists>c. lw_cache w' = c @ [(aq_idempotency_key req, result_dump S result)]))))"

text \<open>A stored result is the newest entry.\<close>

lemma put_newest: "\<exists>c'. result_cache_put k d c = c' @ [(k, d)]"
  by (auto simp: result_cache_put_def touch_key_def Let_def RESULT_CACHE_SIZE_def tl_append split: list.split)

text \<open>Success of a step stores the result and leaves no other trace.\<close>

lemma result_store_put_outcome:
  assumes "store_ok w"
  shows "\<exists>w'. result_store_put E S k result w = (Inr (), w') \<and> store_ok w' \<and> nt_log w' = nt_log w \<and> lw_calls w' = lw_calls w
    \<and> lw_cache w' = result_cache_put k (result_dump S result) (lw_cache w)"
  using store_ok_put [OF assms result_roundtrip, of k S result]
  by (auto simp: result_store_put_def persist_result_def io_simps Let_def store_ok_def)

lemma ask_model_allowed:
  assumes w: "store_ok w" and run: "ask_model E rt req w = (r, w')"
  shows "step_allowed E rt req w r w'"
proof -
  define p where "p = request_profile E rt req"
  define prompt where "prompt = render_prompt E req"
  define ref where "ref = compute_prompt_ref E req prompt"
  let ?S = "aq_output_schema req" and ?n = "lw_calls w"
  let ?w = "w\<lparr>lw_calls := Suc ?n\<rparr>"
  note defs = step_allowed_def Let_def p_def [symmetric]
  obtain reply where b: "bounded_call E prompt p w = (Inr reply, ?w)"
    and rep: "\<And>raw. reply = Inr raw \<Longrightarrow> replied E p ?n raw"
    using bounded_call_outcome [of E prompt p w] by (metis surj_pair)
  note run = run [unfolded ask_model_def Let_def, folded p_def prompt_def, folded ref_def,
      unfolded bind_io_def b prod.case sum.case]
  have ok: "store_ok ?w" using w by (simp add: store_ok_def)
  show ?thesis
  proof (cases reply)
    case (Inl f)
    then have "fallback_io E rt req p f ref ?w = (r, w')" using run by simp
    from fallback_io_outcome [OF this] ok show ?thesis
      by (auto simp: defs stamped_def store_ok_def split: sum.splits)
  next
    case reply: (Inr raw)
    obtain rv w2 where v: "validated_value E req p prompt raw ?w = (rv, w2)" by fastforce
    note vo = validated_value_outcome [OF v rep [OF reply], simplified]
    have ok2: "store_ok w2" using ok vo by (simp add: store_ok_def stamped_def)
    show ?thesis
    proof (cases rv)
      case (Inl e)
      then show ?thesis using run reply v vo ok2 by (auto simp: defs stamped_def)
    next
      case rv: (Inr val)
      show ?thesis
      proof (cases val)
        case None
        then have "fallback_io E rt req p InvalidOutput ref w2 = (r, w')" using run reply v rv by simp
        from fallback_io_outcome [OF this] ok2 vo show ?thesis
          by (auto simp: defs stamped_def store_ok_def split: sum.splits)
      next
        case (Some x)
        let ?w2 = "w2\<lparr>lw_measures := Suc (lw_measures w2)\<rparr>"
        let ?result = "\<lparr>ar_value = Instance x, ar_reasoning_path = ModelPath,
          ar_token_usage = Some (cm_token_usage raw), ar_cache_hit = cm_cache_hit raw, ar_failure_reason = None,
          ar_model_id = Some (cm_model_id raw), ar_latency_ms = le_latency E (lw_measures w2), ar_prompt_ref = Some ref\<rparr>"
        have "store_ok ?w2" using ok2 by (simp add: store_ok_def)
        from result_store_put_outcome [OF this] obtain w3 where w3:
          "result_store_put E ?S (aq_idempotency_key req) ?result ?w2 = (Inr (), w3)" "store_ok w3"
          "nt_log w3 = nt_log w2" "lw_calls w3 = lw_calls w2"
          "lw_cache w3 = result_cache_put (aq_idempotency_key req) (result_dump ?S ?result) (lw_cache w2)" by fastforce
        obtain w4 where w4: "then_io (emit_audit E rt req ?result p ref) (return_io ?result) w3 = (Inr ?result, w4)"
          "stamped w3 w4" using then_emit [of E rt req ?result p ref ?result w3] by blast
        have "r = Inr ?result \<and> w' = w4"
          using run reply v rv Some w3(1) w4(1) by (simp add: measure_io_def then_io_def bind_io_def)
        then show ?thesis using vo rv Some w3 w4(2) put_newest by (auto simp: defs stamped_def store_ok_def)
      qed
    qed
  qed
qed

lemma result_store_get_hit:
  assumes "map_of (lw_cache w) k = Some d" "result_validate d = Inr c"
  shows "result_store_get k w = (Inr (Some c), w\<lparr>lw_cache := touch_key k d (lw_cache w)\<rparr>)"
  using assms by (simp add: result_store_get_def result_cache_get_def lift_exc_def io_simps)

lemma result_store_get_miss: "map_of (lw_cache w) k = None \<Longrightarrow> result_store_get k w = (Inr None, w)"
  by (simp add: result_store_get_def result_cache_get_def io_simps)

lemma reason_hit:
  fixes req :: "'v AssistiveRequest"
  assumes "map_of (lw_cache w) (aq_idempotency_key req) = Some d" "result_validate d = Inr c"
  shows "\<exists>w'. reason E rt req w = (Inr ((with_value (Plain (ar_value c)) c)
      \<lparr>ar_reasoning_path := CachePath, ar_latency_ms := le_latency E (lw_measures w)\<rparr>), w')
    \<and> stamped (w\<lparr>lw_cache := touch_key (aq_idempotency_key req) d (lw_cache w)\<rparr>) w'"
proof -
  let ?w = "w\<lparr>lw_cache := touch_key (aq_idempotency_key req) d (lw_cache w), lw_measures := Suc (lw_measures w)\<rparr>"
  let ?r = "(with_value (Plain (ar_value c) :: 'v rvalue) c)\<lparr>ar_reasoning_path := CachePath, ar_latency_ms := le_latency E (lw_measures w)\<rparr>"
  obtain w' where "then_io (emit_audit E rt req ?r (request_profile E rt req) []) (return_io ?r) ?w = (Inr ?r, w')"
    "stamped ?w w'" using then_emit [of E rt req ?r "request_profile E rt req" "[]" ?r ?w] by blast
  then show ?thesis using result_store_get_hit [OF assms]
    by (intro exI [of _ w']) (simp add: reason_def serve_cached_def bind_io_def measure_io_def Let_def stamped_def)
qed

section \<open>A concrete runtime\<close>

text \<open>The provider answers its first call with a given text and is unavailable afterwards.\<close>

definition sample_reply :: "string \<Rightarrow> RawCompletion" where
  "sample_reply text = \<lparr>cm_text = text,
     cm_token_usage = \<lparr>tu_input_tokens = 12, tu_output_tokens = 3, tu_cache_read_tokens = 0, tu_cache_write_tokens = 0\<rparr>,
     cm_cache_hit = False, cm_model_id = ''stub''\<rparr>"

definition sample_llm :: "string \<Rightarrow> llm_env" where
  "sample_llm text =
     \<lparr>le_net = sample_env, le_invoke = (\<lambda>n _ _. if n = 0 then Inr (sample_reply text) else Inl (ProviderError ''throttled'')),
      le_in_time = (\<lambda>_. True), le_latency = (\<lambda>_. 5), le_sha256 = (\<lambda>_. replicate 64 CHR ''0''),
      le_json_loads = (\<lambda>s. if s = ''ok'' then Inr (VDict [(''text'', VStr ''fine'')]) else Inl (JSONDecodeError ''Expecting value'')),
      le_environ = (\<lambda>_. None), le_yaml_profiles = [], le_prompt_dir = None, le_yaml = (\<lambda>_. None),
      le_persist_ok = (\<lambda>_. True)\<rparr>"

definition sample_rt :: llm_runtime where
  "sample_rt = \<lparr>rt_config = \<lparr>cf_mode = ''stub'', cf_model_id = ''stub'', cf_region = None, cf_timeout_seconds = 8,
     cf_max_repairs = 2, cf_bootstrap_servers = ''localhost:9092'', cf_log_raw_prompts = False,
     cf_log_raw_outputs = False, cf_redact_pii = True\<rparr>, rt_publisher = True\<rparr>"

definition sample_llm_request :: "TextResult AssistiveRequest" where
  "sample_llm_request = \<lparr>aq_task_kind = SummarizeReasoning, aq_agent_id = ''risk-fraud-agent'', aq_correlation_id = 1,
     aq_causation_id = 2, aq_instructions = ''Summarize.'', aq_grounding_inputs = [], aq_output_schema = text_schema,
     aq_examples = None, aq_idempotency_key = ''k'', aq_fallback = Inr \<lparr>tr_text = ''fallback''\<rparr>\<rparr>"

definition sample_world :: llm_world where
  "sample_world = \<lparr>nt_log = [], nt_ticks = 0, nt_uuids = 0, nt_sends = 0, lw_cache = [], lw_calls = 0, lw_measures = 0,
     lw_persists = 0, lw_topic = []\<rparr>"

definition sample_events :: audit_event_config where
  "sample_events = \<lparr>ec_events_enabled = True, ec_log_raw_prompts = False\<rparr>"

definition sample_result :: "TextResult AssistiveResult" where
  "sample_result = \<lparr>ar_value = \<lparr>tr_text = ''fallback''\<rparr>, ar_reasoning_path = FallbackPath, ar_token_usage = None,
     ar_cache_hit = False, ar_failure_reason = Some Timeout, ar_model_id = None, ar_latency_ms = 8000,
     ar_prompt_ref = None\<rparr>"

lemma sample_world_ok [simp]: "store_ok sample_world" "lw_cache sample_world = []" "lw_calls sample_world = 0"
  by (simp_all add: sample_world_def store_ok_def)

lemma sample_llm_request_key [simp]: "aq_idempotency_key sample_llm_request = ''k''"
  by (simp add: sample_llm_request_def)

lemma sample_validates: "validate_output (sample_llm text) ''ok'' sample_llm_request = Some \<lparr>tr_text = ''fine''\<rparr>"
  "validate_output (sample_llm text) ''no'' sample_llm_request = None"
  by code_simp+

lemma sample_repairs: "mp_max_repairs (request_profile (sample_llm text) sample_rt sample_llm_request) = 2"
  by code_simp

section \<open>The front door\<close>

lemma reason_allowed:
  assumes "store_ok w" and "reason E rt req w = (r, w')"
  shows "step_allowed E rt req w r w'"
proof (cases "map_of (lw_cache w) (aq_idempotency_key req)")
  case None
  then show ?thesis
    using assms ask_model_allowed by (simp add: reason_def bind_io_def result_store_get_miss)
next
  case (Some d)
  then obtain c where c: "result_validate d = Inr c" using assms(1) by (fastforce simp: store_ok_def dest: map_of_SomeD)
  have "store_ok (w\<lparr>lw_cache := touch_key (aq_idempotency_key req) d (lw_cache w)\<rparr>)"
    using assms(1) Some by (rule store_ok_touch)
  with reason_hit [OF Some c, of E rt] assms(2) Some c show ?thesis
    by (auto simp: step_allowed_def Let_def store_ok_def stamped_def with_value_def)
qed

text \<open>C13: the contract of a reasoning step. From a sound store, a step makes at most one call of the
  provider plus one per allowed repair and one more, and never touches the message log. It returns a stored
  result without a call; or the deterministic fallback with a failure reason; or a value that the
  output schema accepted from a reply of this step, checked against the grounding inputs unless it came
  with the first reply. It raises only what the fallback or a call after the first raised.\<close>

theorem reason_contract:
  assumes "store_ok w" and "reason E rt req w = (r, w')"
  shows "step_allowed E rt req w r w'"
  using assms by (rule reason_allowed)

theorem reason_contract_witness:
  "store_ok sample_world \<and> step_allowed (sample_llm ''ok'') sample_rt sample_llm_request sample_world
     (fst (reason (sample_llm ''ok'') sample_rt sample_llm_request sample_world))
     (snd (reason (sample_llm ''ok'') sample_rt sample_llm_request sample_world))"
  using reason_contract [of sample_world "sample_llm ''ok''" sample_rt sample_llm_request] by simp

section \<open>Replay\<close>

text \<open>A first reply that the schema accepts is the result.\<close>

lemma reason_first_reply:
  assumes "map_of (lw_cache w) (aq_idempotency_key req) = None"
    and "le_invoke E (lw_calls w) (render_prompt E req) (request_profile E rt req) = Inr raw"
    and "le_in_time E (lw_calls w)" and "validate_output E (cm_text raw) req = Some v"
  shows "\<exists>res w'. reason E rt req w = (Inr res, w') \<and> ar_reasoning_path res = ModelPath \<and> ar_value res = Instance v"
proof -
  let ?w = "w\<lparr>lw_calls := Suc (lw_calls w), lw_measures := Suc (lw_measures w)\<rparr>"
  have e: "\<exists>w'. emit_audit E rt req result p ref u = (Inr (), w')" for result :: "'a rvalue AssistiveResult" and p ref u
    using emit_audit_silent by blast
  show ?thesis using assms
    by (auto simp: reason_def result_store_get_miss ask_model_def bounded_call_def provider_call_def validated_value_def
        measure_io_def result_store_put_def persist_result_def io_simps Let_def split: prod.split sum.split)
      (metis e Inl_Inr_False Pair_inject)+
qed

text \<open>An operation on the cache: a lookup, or storing a result.\<close>

definition cache_op :: "string \<times> stored option \<Rightarrow> (string \<times> stored) list \<Rightarrow> (string \<times> stored) list" where
  "cache_op = (\<lambda>(k, data) c. case data of None \<Rightarrow> snd (result_cache_get k c) | Some d \<Rightarrow> result_cache_put k d c)"

text \<open>At most the keys of \<open>T\<close> have been used since the entry of \<open>k\<close> was written.\<close>

definition used_since :: "string \<Rightarrow> stored \<Rightarrow> string set \<Rightarrow> (string \<times> stored) list \<Rightarrow> bool" where
  "used_since k d T c \<longleftrightarrow> distinct (map fst c) \<and> (\<exists>older newer. c = older @ (k, d) # newer \<and> fst ` set newer \<subseteq> T)"

lemma used_since_touch:
  assumes "used_since k d T c" "k' \<noteq> k"
  shows "used_since k d (insert k' T) (touch_key k' d' c)"
proof -
  obtain older newer where c: "c = older @ (k, d) # newer" "fst ` set newer \<subseteq> T" "distinct (map fst c)"
    using assms(1) by (auto simp: used_since_def)
  let ?keep = "filter (\<lambda>(x, _). x \<noteq> k')"
  have "touch_key k' d' c = ?keep older @ (k, d) # (?keep newer @ [(k', d')])"
    using assms(2) by (simp add: c(1) touch_key_def)
  moreover have "fst ` set (?keep newer @ [(k', d')]) \<subseteq> insert k' T" using c(2) by auto
  ultimately show ?thesis using touch_distinct [OF c(3)] unfolding used_since_def by blast
qed

lemma used_since_mono: "used_since k d T c \<Longrightarrow> T \<subseteq> U \<Longrightarrow> used_since k d U c"
  unfolding used_since_def using subset_trans [of _ T U] by blast

lemma used_since_evict:
  assumes "used_since k d T c" "RESULT_CACHE_SIZE < length c" "finite T" "card T < RESULT_CACHE_SIZE"
  shows "used_since k d T (tl c)"
proof -
  obtain older newer where c: "c = older @ (k, d) # newer" "fst ` set newer \<subseteq> T" "distinct (map fst c)"
    using assms(1) by (auto simp: used_since_def)
  have "length newer = card (fst ` set newer)" using c(1,3) by (simp add: distinct_card flip: set_map)
  also have "\<dots> \<le> card T" using c(2) assms(3) by (rule card_mono [rotated])
  finally have "older \<noteq> []" using assms(2,4) c(1) by auto
  then show ?thesis using c by (cases older) (auto simp: used_since_def)
qed

lemma used_since_op:
  assumes "used_since k d T c" "fst x \<noteq> k" "finite T" "card (insert (fst x) T) < RESULT_CACHE_SIZE"
  shows "used_since k d (insert (fst x) T) (cache_op x c)"
proof -
  obtain k' data where x: "x = (k', data)" by (cases x)
  have t: "used_since k d (insert k' T) (touch_key k' d' c)" for d'
    using assms(1,2) x by (intro used_since_touch) auto
  then show ?thesis
    using assms x used_since_evict [OF t] used_since_mono [OF assms(1), of "insert k' T"]
    by (auto simp: cache_op_def result_cache_get_def result_cache_put_def Let_def split: option.splits)
qed

lemma used_since_ops:
  assumes "used_since k d T c" "k \<notin> fst ` set ops" "finite T" "card (T \<union> fst ` set ops) < RESULT_CACHE_SIZE"
  shows "used_since k d (T \<union> fst ` set ops) (fold cache_op ops c)"
  using assms
proof (induction ops arbitrary: T c)
  case (Cons x ops)
  have "insert (fst x) T \<subseteq> T \<union> fst ` set (x # ops)" by auto
  then have "card (insert (fst x) T) < RESULT_CACHE_SIZE"
    using Cons.prems(3,4) by (meson List.finite_set card_mono finite_UnI finite_imageI le_less_trans)
  with Cons.prems have "used_since k d (insert (fst x) T) (cache_op x c)" by (intro used_since_op) auto
  from Cons.IH [OF this] Cons.prems show ?case by (simp add: insert_commute)
qed simp

text \<open>C35: replay. Once the model has produced a result, a request with the same idempotency key is
  answered from the store, without a call of the provider, while fewer than 10000 other keys
  have been looked up or stored: by the JSON form of the same value, with the model, usage
  and prompt of the original.\<close>

theorem reason_replay:
  assumes w: "store_ok w" and run: "reason E rt req w = (Inr res, w')"
    and res: "ar_reasoning_path res = ModelPath" "ar_value res = Instance v"
    and ops: "aq_idempotency_key req \<notin> fst ` set ops" "card (fst ` set ops) < 10000"
    and later: "lw_cache w2 = fold cache_op ops (lw_cache w')"
      "aq_idempotency_key again = aq_idempotency_key req"
  shows "\<exists>res2 w3. reason E rt again w2 = (Inr res2, w3) \<and> lw_calls w3 = lw_calls w2
    \<and> ar_reasoning_path res2 = CachePath \<and> ar_value res2 = Plain (VDict (os_dump (aq_output_schema req) v))
    \<and> ar_model_id res2 = ar_model_id res \<and> ar_token_usage res2 = ar_token_usage res
    \<and> ar_prompt_ref res2 = ar_prompt_ref res"
proof -
  let ?k = "aq_idempotency_key req" and ?d = "result_dump (aq_output_schema req) res"
  from reason_allowed [OF w run] res(1) obtain c where c: "lw_cache w' = c @ [(?k, ?d)]" "store_ok w'"
    by (auto simp: step_allowed_def Let_def)
  have "used_since ?k ?d {} (lw_cache w')" using c by (auto simp: used_since_def store_ok_def)
  from used_since_ops [OF this ops(1)] ops(2) later(1) have "used_since ?k ?d (fst ` set ops) (lw_cache w2)"
    by (simp add: RESULT_CACHE_SIZE_def)
  then have m: "map_of (lw_cache w2) ?k = Some ?d" by (auto simp: used_since_def map_add_def split: option.split)
  from reason_hit [OF _ result_roundtrip, of w2 again "aq_output_schema req" res E rt] m later(2) show ?thesis
    by (auto simp: with_value_def value_dump_def res(2) stamped_def)
qed

theorem reason_replay_witness:
  "\<exists>res w' res2 w3. reason (sample_llm ''ok'') sample_rt sample_llm_request sample_world = (Inr res, w')
    \<and> reason (sample_llm ''ok'') sample_rt sample_llm_request (w'\<lparr>lw_cache := fold cache_op [(''x'', None), (''y'', Some [])] (lw_cache w')\<rparr>)
        = (Inr res2, w3)
    \<and> lw_calls w3 = lw_calls w' \<and> ar_value res2 = Plain (VDict [(''text'', VStr ''fine'')])"
proof -
  have v: "validate_output (sample_llm ''ok'') (cm_text (sample_reply ''ok'')) sample_llm_request = Some \<lparr>tr_text = ''fine''\<rparr>"
    using sample_validates by (simp add: sample_reply_def)
  obtain res w' where run: "reason (sample_llm ''ok'') sample_rt sample_llm_request sample_world = (Inr res, w')"
    and res: "ar_reasoning_path res = ModelPath" "ar_value res = Instance \<lparr>tr_text = ''fine''\<rparr>"
    using reason_first_reply [OF _ _ _ v, of sample_world sample_rt] by (auto simp: sample_llm_def)
  from reason_replay [OF sample_world_ok(1) run res, of "[(''x'', None), (''y'', Some [])]"
      "w'\<lparr>lw_cache := fold cache_op [(''x'', None), (''y'', Some [])] (lw_cache w')\<rparr>" sample_llm_request]
  obtain res2 w3 where "reason (sample_llm ''ok'') sample_rt sample_llm_request
      (w'\<lparr>lw_cache := fold cache_op [(''x'', None), (''y'', Some [])] (lw_cache w')\<rparr>) = (Inr res2, w3)"
    "lw_calls w3 = lw_calls w'" "ar_value res2 = Plain (VDict (os_dump (aq_output_schema sample_llm_request) \<lparr>tr_text = ''fine''\<rparr>))"
    by auto
  moreover have "os_dump (aq_output_schema sample_llm_request) \<lparr>tr_text = ''fine''\<rparr> = [(''text'', VStr ''fine'')]"
    by (simp add: sample_llm_request_def text_schema_def)
  ultimately show ?thesis using run by auto
qed

section \<open>Steps that are not audited, and failures that escape\<close>

text \<open>The event types of the optional invocation events are not event types of an envelope: they lack a version.\<close>

lemma invocation_types_refused:
  "\<not> EVENT_TYPE_RE ''audit.llm.invocation.failed''" "\<not> EVENT_TYPE_RE ''audit.llm.invocation.completed''"
  by code_simp+

lemma invocation_envelope_refused:
  "\<not> EVENT_TYPE_RE (en_event_type e) \<Longrightarrow> \<exists>x. validate_envelope env e = Inl x"
  by (simp add: validate_envelope_def)

lemma invocation_event_silent:
  "\<exists>w'. emit_llm_invocation_event E cfg req result prompt w = (Inr (), w') \<and> nt_log w' = nt_log w"
proof (cases "ec_events_enabled cfg")
  case False
  then show ?thesis by (simp add: emit_llm_invocation_event_def Let_def return_io_def)
next
  case True
  then show ?thesis
    by (auto simp: emit_llm_invocation_event_def Let_def bind_io_def try_io_def return_io_def raise_io_def now_io_def
        uuid4_io_def lift_exc_def validate_envelope_def invocation_types_refused split: option.split sum.split)
qed

text \<open>C36: reasoning steps leave no audit. Whatever a step does, with or without a publisher, no
  message is sent: the outcomes of a reasoning step are none of those an audit payload admits, and the
  event types of the optional invocation events fail the envelope's validation, so both records are
  dropped by the handlers that only log.\<close>

theorem reasoning_unaudited:
  assumes "store_ok w"
  shows "nt_log (snd (reason E rt req w)) = nt_log w
    \<and> nt_log (snd (emit_llm_invocation_event E cfg req result prompt w)) = nt_log w"
proof -
  obtain r w' where "reason E rt req w = (r, w')" by fastforce
  moreover from reason_allowed [OF assms this] have "nt_log w' = nt_log w" by (simp add: step_allowed_def Let_def)
  ultimately show ?thesis using invocation_event_silent [of E cfg req result prompt w] by auto
qed

theorem reasoning_unaudited_witness:
  "store_ok sample_world \<and> rt_publisher sample_rt \<and> ec_events_enabled sample_events
   \<and> nt_log (snd (reason (sample_llm ''ok'') sample_rt sample_llm_request sample_world)) = nt_log sample_world
   \<and> nt_log (snd (emit_llm_invocation_event (sample_llm ''ok'') sample_events sample_llm_request sample_result [] sample_world))
       = nt_log sample_world"
  using reasoning_unaudited [of sample_world "sample_llm ''ok''" sample_rt sample_llm_request sample_events sample_result "[]"]
  by (simp add: sample_events_def) (simp add: sample_rt_def)

text \<open>The provider's calls from number \<open>n\<close> on, in a repair loop that has seen the errors \<open>errs\<close>: the next ones are answered
  by replies that are rejected with the messages \<open>rej\<close>, and the one after them raises \<open>e\<close>.\<close>

definition repair_raises ::
  "llm_env \<Rightarrow> 'v output_schema \<Rightarrow> ModelProfile \<Rightarrow> (string, pyval) dict \<Rightarrow> string \<Rightarrow> nat \<Rightarrow> string list \<Rightarrow> string list
   \<Rightarrow> exc \<Rightarrow> bool" where
  "repair_raises E S p g msgs n errs rej e \<longleftrightarrow>
     (\<forall>j < length rej. \<exists>raw. le_invoke E (n + j) (repair_prompt msgs (os_json S) (length errs + j) (errs @ take j rej)) p = Inr raw
        \<and> check_reply E S g (cm_text raw) = Inr (Inl (rej ! j)))
     \<and> le_invoke E (n + length rej) (repair_prompt msgs (os_json S) (length errs + length rej) (errs @ rej)) p = Inl e"

lemma repair_raises_Cons:
  assumes "repair_raises E S p g msgs n errs (m # rej) e"
  obtains raw where "le_invoke E n (repair_prompt msgs (os_json S) (length errs) errs) p = Inr raw"
    "check_reply E S g (cm_text raw) = Inr (Inl m)" "repair_raises E S p g msgs (Suc n) (errs @ [m]) rej e"
proof -
  have "repair_raises E S p g msgs (Suc n) (errs @ [m]) rej e"
    using assms unfolding repair_raises_def
  proof (intro conjI allI impI, elim conjE)
    fix j assume "\<forall>j<length (m # rej). \<exists>raw. le_invoke E (n + j)
        (repair_prompt msgs (os_json S) (length errs + j) (errs @ take j (m # rej))) p = Inr raw
        \<and> check_reply E S g (cm_text raw) = Inr (Inl ((m # rej) ! j))" "j < length rej"
    from this(1) [rule_format, of "Suc j"] this(2)
    show "\<exists>raw. le_invoke E (Suc n + j) (repair_prompt msgs (os_json S) (length (errs @ [m]) + j) ((errs @ [m]) @ take j rej)) p
        = Inr raw \<and> check_reply E S g (cm_text raw) = Inr (Inl (rej ! j))" by simp
  qed simp
  moreover have "\<exists>raw. le_invoke E n (repair_prompt msgs (os_json S) (length errs) errs) p = Inr raw
      \<and> check_reply E S g (cm_text raw) = Inr (Inl m)"
    using assms unfolding repair_raises_def by force
  ultimately show ?thesis using that by blast
qed

lemma repair_loop_raises:
  "repair_raises E S p g msgs (lw_calls w) errs rej e \<Longrightarrow> length rej < left \<Longrightarrow>
     repair_loop E S p g msgs left (length errs) errs w = (Inl e, w\<lparr>lw_calls := Suc (lw_calls w + length rej)\<rparr>)"
proof (induction rej arbitrary: errs w left)
  case Nil
  then obtain l where "left = Suc l" by (cases left) auto
  with Nil show ?case by (simp add: repair_raises_def provider_call_def io_simps)
next
  case (Cons m rej)
  then obtain l where l: "left = Suc l" "length rej < l" by (cases left) auto
  let ?w = "w\<lparr>lw_calls := Suc (lw_calls w)\<rparr>"
  from Cons.prems(1) show ?case
  proof (rule repair_raises_Cons)
    fix raw assume raw: "le_invoke E (lw_calls w) (repair_prompt msgs (os_json S) (length errs) errs) p = Inr raw"
      "check_reply E S g (cm_text raw) = Inr (Inl m)" "repair_raises E S p g msgs (Suc (lw_calls w)) (errs @ [m]) rej e"
    have "repair_loop E S p g msgs l (length (errs @ [m])) (errs @ [m]) ?w
        = (Inl e, ?w\<lparr>lw_calls := Suc (lw_calls ?w + length rej)\<rparr>)"
      using raw(3) l(2) by (intro Cons.IH) simp_all
    then show ?thesis using raw(1,2) by (simp add: l(1) provider_call_def lift_exc_def io_simps)
  qed
qed

text \<open>C37: an outage during repair escapes. Let the first reply come in time but be no value of the schema, let the
  replies to any number of further calls be rejected, and let the next call, still within the allowed
  repairs, raise. Then the step raises the same exception instead of returning the fallback, whichever call
  of the repair loop it is.\<close>

theorem repair_outage_escapes:
  assumes "map_of (lw_cache w) (aq_idempotency_key req) = None"
    and "le_invoke E (lw_calls w) (render_prompt E req) (request_profile E rt req) = Inr raw"
    and "le_in_time E (lw_calls w)" and "validate_output E (cm_text raw) req = None"
    and "repair_raises E (aq_output_schema req) (request_profile E rt req) (aq_grounding_inputs req) (render_prompt E req)
       (Suc (lw_calls w)) [] rej e"
    and "int (length rej) \<le> mp_max_repairs (request_profile E rt req)"
  shows "fst (reason E rt req w) = Inl e \<and> lw_calls (snd (reason E rt req w)) = lw_calls w + length rej + 2"
proof -
  let ?p = "request_profile E rt req" and ?w = "w\<lparr>lw_calls := Suc (lw_calls w)\<rparr>"
  have "length rej < nat (1 + mp_max_repairs ?p)" using assms(6) by linarith
  then have "repair_loop E (aq_output_schema req) ?p (aq_grounding_inputs req) (render_prompt E req) (nat (1 + mp_max_repairs ?p)) 0 [] ?w
      = (Inl e, ?w\<lparr>lw_calls := Suc (lw_calls ?w + length rej)\<rparr>)"
    using repair_loop_raises [of E _ ?p _ _ ?w "[]"] assms(5) by simp
  then show ?thesis
    using assms(1-4) by (simp add: reason_def result_store_get_miss ask_model_def bounded_call_def provider_call_def
        validated_value_def invoke_structured_def io_simps Let_def)
qed

definition tiring_llm :: llm_env where
  "tiring_llm = (sample_llm ''no'')\<lparr>le_invoke := (\<lambda>n _ _. if n < 3 then Inr (sample_reply ''no'') else Inl (ProviderError ''throttled''))\<rparr>"

theorem repair_outage_escapes_witness:
  "aq_fallback sample_llm_request = Inr \<lparr>tr_text = ''fallback''\<rparr>
   \<and> fst (reason tiring_llm sample_rt sample_llm_request sample_world) = Inl (ProviderError ''throttled'')
   \<and> lw_calls (snd (reason tiring_llm sample_rt sample_llm_request sample_world)) = 4"
proof -
  let ?err = "''JSON parse error: Expecting value''" and ?p = "request_profile tiring_llm sample_rt sample_llm_request"
  have "check_reply tiring_llm text_schema [] ''no'' = Inr (Inl ?err)" by code_simp
  then have "repair_raises tiring_llm (aq_output_schema sample_llm_request) ?p (aq_grounding_inputs sample_llm_request)
      (render_prompt tiring_llm sample_llm_request) (Suc (lw_calls sample_world)) [] [?err, ?err] (ProviderError ''throttled'')"
    by (simp add: repair_raises_def All_less_Suc tiring_llm_def sample_reply_def sample_llm_request_def)
  moreover have "validate_output tiring_llm (cm_text (sample_reply ''no'')) sample_llm_request = None" by code_simp
  moreover have "mp_max_repairs ?p = 2" by code_simp
  ultimately show ?thesis
    using repair_outage_escapes [of sample_world sample_llm_request tiring_llm sample_rt "sample_reply ''no''" "[?err, ?err]"
        "ProviderError ''throttled''"]
    by (simp add: tiring_llm_def sample_llm_def sample_llm_request_def)
qed

section \<open>Outages before the first reply\<close>

text \<open>The provider does not answer its \<open>n\<close>-th call in time, or raises.\<close>

definition provider_down :: "llm_env \<Rightarrow> nat \<Rightarrow> bool" where
  "provider_down E n \<longleftrightarrow> \<not> le_in_time E n \<or> (\<forall>prompt p. isl (le_invoke E n prompt p))"

lemma reason_outage:
  assumes "map_of (lw_cache w) (aq_idempotency_key req) = None" "provider_down E (lw_calls w)"
    and "aq_fallback req = Inr v"
  shows "\<exists>res w'. reason E rt req w = (Inr res, w') \<and> ar_reasoning_path res = FallbackPath
    \<and> ar_value res = Instance v \<and> ar_failure_reason res \<noteq> None"
proof -
  let ?p = "request_profile E rt req" and ?prompt = "render_prompt E req"
  let ?ref = "compute_prompt_ref E req ?prompt" and ?w = "w\<lparr>lw_calls := Suc (lw_calls w)\<rparr>"
  have "le_in_time E (lw_calls w) \<Longrightarrow> \<exists>e. le_invoke E (lw_calls w) ?prompt ?p = Inl e"
    using assms(2) by (auto simp: provider_down_def isl_def)
  then obtain f where "bounded_call E ?prompt ?p w = (Inr (Inl f), ?w)"
    by (cases "le_in_time E (lw_calls w)"; cases "le_invoke E (lw_calls w) ?prompt ?p")
      (auto simp: bounded_call_def provider_call_def io_simps)
  then have "reason E rt req w = fallback_io E rt req ?p f ?ref ?w"
    using assms(1) by (simp add: reason_def result_store_get_miss ask_model_def bind_io_def Let_def)
  with fallback_io_outcome [of E rt req ?p f ?ref ?w] assms(3) show ?thesis
    by (cases "fallback_io E rt req ?p f ?ref ?w") (auto split: sum.splits)
qed

lemma assist_outage:
  assumes "parse_task_kind kind = Inr k" "py_strip (aq_instructions req) \<noteq> []" "aq_idempotency_key req = []"
    and "lw_cache w = []" "provider_down E (lw_calls w)" "aq_fallback req = Inr v"
  shows "\<exists>res w'. assist_or_fallback E rt kind req w = (Inr res, w') \<and> ar_reasoning_path res = FallbackPath
    \<and> ar_value res = Instance v"
proof -
  let ?req = "req\<lparr>aq_task_kind := k, aq_idempotency_key :=
    derive_key E (aq_correlation_id req) k (aq_grounding_inputs req)\<rparr>"
  have "assist_or_fallback E rt kind req w = reason E rt ?req w"
    using assms(1-3) by (simp add: assist_or_fallback_def make_request_def lift_exc_def bind_io_def return_io_def)
  with reason_outage [of w ?req E v rt] assms(4-6) show ?thesis by auto
qed

section \<open>Templates and metadata\<close>

definition never_decides :: "templates \<Rightarrow> bool" where
  "never_decides ts \<longleftrightarrow> (\<forall>(k, t) \<in> set ts. fst k = pt_task_kind t
     \<and> (pt_task_kind t = ''summarize_reasoning'' \<longrightarrow> \<not> pt_allows_final_recommendation t))"

lemma dict_set_member: "x \<in> set (dict_set k v d) \<Longrightarrow> x = (k, v) \<or> x \<in> set d"
  by (induction d) (auto split: if_splits)

lemma register_never_decides:
  "never_decides ts \<Longrightarrow> register_template t ts = Inr ts' \<Longrightarrow> never_decides ts'"
  unfolding never_decides_def register_template_def by (fastforce dest!: dict_set_member split: if_splits)

lemma load_files_never_decides:
  "never_decides ts \<Longrightarrow> load_files yaml files ts = Inr ts' \<Longrightarrow> never_decides ts'"
proof (induction yaml files ts rule: load_files.induct)
  case (2 yaml stem content files ts)
  then show ?case
    by (auto simp: bind_exc_def intro: register_never_decides split: if_splits sum.splits option.splits)
qed auto

text \<open>Whatever the prompt directory holds, no summary template that the registry serves may recommend an outcome.\<close>

lemma summary_templates_never_decide:
  assumes "load_templates yaml dir = Inr ts" "resolve_template ts ''summarize_reasoning'' agent = Inr t"
  shows "\<not> pt_allows_final_recommendation t"
proof -
  have "never_decides ts"
    using assms(1) load_files_never_decides [of "[]"]
    by (auto simp: load_templates_def never_decides_def split: option.splits)
  moreover have "((''summarize_reasoning'', agent), t) \<in> set ts"
    using assms(2) by (auto simp: resolve_template_def dest: map_of_SomeD split: option.splits)
  ultimately show ?thesis by (fastforce simp: never_decides_def)
qed

text \<open>The metadata kept for a call names no secret, is drawn from what was given and stays within the size limit.\<close>

lemma safe_metadata_sound:
  "(\<forall>(k, v) \<in> set (safe_metadata (Some items)). \<not> secret_key k)
   \<and> subseq (map fst (safe_metadata (Some items))) (map fst items)
   \<and> sum_list (map (\<lambda>(_, v). py_len (py_str v)) (safe_metadata (Some items))) \<le> MAX_TOTAL_SIZE"
  using safe_items_sound [of 0 items] by (simp add: safe_metadata_def)

end
