(* ===== verification/Llm_Agents.thy ===== *)
theory Llm_Agents
  imports Llm_Contract Resolution_Handlers
begin

text \<open>
  The assistive runtime as the agents use it. The classifier and the drafter of the resolution agent take the
  runtime as the parameter \<open>assist\<close>; here the parameter is the modelled runtime, with the requests that
  \<^verbatim>\<open>classify_with_llm\<close> and \<^verbatim>\<open>draft_with_llm\<close> build. The agents build a fresh runtime, whose store is empty, for every
  call. The only foreign code left is pydantic's validation of the two output schemas.
\<close>

section \<open>Requests\<close>

definition classification_dump :: "TicketClassification \<Rightarrow> (string, pyval) dict" where
  "classification_dump c =
     [(''issue_type'', VStr (tc_issue_type c)), (''needs_refund_review'', VBool (tc_needs_refund_review c)),
      (''confidence'', VFloat (tc_confidence c)), (''rationale'', VStr (tc_rationale c)),
      (''matched_signals'', VList (map VStr (tc_matched_signals c)))]"

definition draft_dump :: "ResponseDraft \<Rightarrow> (string, pyval) dict" where
  "draft_dump d =
     [(''subject'', VStr (rd_subject d)), (''body'', VStr (rd_body d)), (''response_type'', VStr (rd_response_type d)),
      (''requires_human_approval'', VBool (rd_requires_human_approval d))]"

definition facts_dump :: "AllowedFacts \<Rightarrow> pyval" where
  "facts_dump f = VDict
     [(''refund_amount'', opt_val VFloat (af_refund_amount f)), (''currency'', opt_val VStr (af_currency f)),
      (''order_reference'', opt_val VStr (af_order_reference f)),
      (''billing_outcome_summary'', opt_val VStr (af_billing_outcome_summary f)),
      (''eligibility'', opt_val VBool (af_eligibility f))]"

definition tone_dump :: "ToneConfig \<Rightarrow> pyval" where
  "tone_dump t = VDict
     [(''brand_name'', VStr (tn_brand_name t)), (''greeting'', VStr (tn_greeting t)), (''signoff'', VStr (tn_signoff t)),
      (''formality'', VStr (tn_formality t)), (''apologetic'', VBool (tn_apologetic t))]"

text \<open>The JSON schema and the validation of an output type, as pydantic derives them.\<close>

record agent_schemas =
  as_classification_json :: pyval
  as_classification_validate :: "pyval \<Rightarrow> exc + TicketClassification"
  as_draft_json :: pyval
  as_draft_validate :: "pyval \<Rightarrow> exc + ResponseDraft"

definition classify_request ::
  "agent_schemas \<Rightarrow> SupportTicketCreatedPayload \<Rightarrow> uuid \<Rightarrow> uuid \<Rightarrow> (exc + TicketClassification) \<Rightarrow>
   TicketClassification AssistiveRequest" where
  "classify_request A ticket correlation_id causation_id fallback =
     \<lparr>aq_task_kind = Classify, aq_agent_id = AGENT_ID, aq_correlation_id = correlation_id,
      aq_causation_id = causation_id,
      aq_instructions = ''Classify this customer support ticket. Determine the issue_type, ''
        @ ''whether it needs refund review, your confidence level, a rationale, ''
        @ ''and any matched signals from the ticket text.'',
      aq_grounding_inputs = [(''ticket_id'', VStr (tk_ticket_id ticket)), (''customer_id'', VStr (tk_customer_id ticket)),
        (''reason'', VStr (tk_reason ticket)), (''amount'', VFloat (tk_amount ticket)),
        (''currency'', VStr (tk_currency ticket))],
      aq_output_schema = \<lparr>os_json = as_classification_json A, os_validate = as_classification_validate A,
        os_dump = classification_dump\<rparr>,
      aq_examples = None, aq_idempotency_key = [], aq_fallback = fallback\<rparr>"

definition draft_request ::
  "agent_schemas \<Rightarrow> uuid \<Rightarrow> uuid \<Rightarrow> ResolutionOutcome \<Rightarrow> AllowedFacts \<Rightarrow> ToneConfig \<Rightarrow> string \<Rightarrow>
   (exc + ResponseDraft) \<Rightarrow> ResponseDraft AssistiveRequest" where
  "draft_request A correlation_id causation_id outcome facts tone ticket_summary fallback =
     \<lparr>aq_task_kind = DraftResponse, aq_agent_id = AGENT_ID, aq_correlation_id = correlation_id,
      aq_causation_id = causation_id,
      aq_instructions = ''Draft a customer-facing response for this support case. ''
        @ ''Use ONLY the allowed facts provided. Do NOT reveal internal fields, ''
        @ ''risk scores, confidence values, or evidence details. ''
        @ ''The response must be professional and empathetic.'',
      aq_grounding_inputs = [(''outcome'', VStr (outcome_value outcome)), (''allowed_facts'', facts_dump facts),
        (''tone'', tone_dump tone), (''ticket_summary'', VStr ticket_summary)],
      aq_output_schema = \<lparr>os_json = as_draft_json A, os_validate = as_draft_validate A, os_dump = draft_dump\<rparr>,
      aq_examples = None, aq_idempotency_key = [], aq_fallback = fallback\<rparr>"

section \<open>The runtime as the agents' assistant\<close>

text \<open>\<^verbatim>\<open>isinstance(result.value, ...)\<close>: plain JSON is no instance.\<close>

fun instance_of :: "'v rvalue \<Rightarrow> 'v option" where
  "instance_of (Instance v) = Some v"
| "instance_of (Plain _) = None"

definition classify_assistant :: "llm_env \<Rightarrow> llm_runtime \<Rightarrow> agent_schemas \<Rightarrow> llm_world \<Rightarrow> classify_assist" where
  "classify_assistant E rt A w = (\<lambda>ticket correlation_id causation_id fallback.
     map_sum id (\<lambda>result. instance_of (ar_value result))
       (fst (assist_or_fallback E rt ''classify'' (classify_request A ticket correlation_id causation_id fallback) w)))"

definition draft_assistant ::
  "llm_env \<Rightarrow> llm_runtime \<Rightarrow> agent_schemas \<Rightarrow> uuid \<Rightarrow> uuid \<Rightarrow> llm_world \<Rightarrow> draft_assist" where
  "draft_assistant E rt A correlation_id causation_id w = (\<lambda>outcome facts tone ticket_summary fallback.
     map_sum id (\<lambda>result. (ar_reasoning_path result, instance_of (ar_value result)))
       (fst (assist_or_fallback E rt ''draft_response''
          (draft_request A correlation_id causation_id outcome facts tone ticket_summary fallback) w)))"

section \<open>An outage of the model changes no decision\<close>

lemma instructions_present:
  "py_strip (aq_instructions (classify_request A ticket c d fb)) \<noteq> []"
  "py_strip (aq_instructions (draft_request A c d outcome facts tone ts fb')) \<noteq> []"
  by (simp_all add: classify_request_def draft_request_def) code_simp+

lemma classify_assistant_outage:
  assumes "lw_cache w = []" "provider_down E (lw_calls w)"
  shows "classify_assistant E rt A w ticket c d (Inr v) = Inr (Some v)"
proof -
  have k: "parse_task_kind ''classify'' = Inr Classify" by code_simp
  show ?thesis
    using assist_outage [OF k instructions_present(1) _ assms, of A ticket c d "Inr v" v rt]
    by (force simp: classify_assistant_def classify_request_def)
qed

lemma draft_assistant_outage:
  assumes "lw_cache w = []" "provider_down E (lw_calls w)"
  shows "draft_assistant E rt A c d w outcome facts tone ts (Inr v) = Inr (FallbackPath, Some v)"
proof -
  have k: "parse_task_kind ''draft_response'' = Inr DraftResponse" by code_simp
  show ?thesis
    using assist_outage [OF k instructions_present(2) _ assms, of A c d outcome facts tone ts "Inr v" v rt]
    by (force simp: draft_assistant_def draft_request_def)
qed

lemma classification_fallback_returns:
  assumes "iteration_order signals"
  shows "\<exists>c. classification_fallback signals ticket = Inr c"
proof -
  have "in_unit (tg_confidence (classify signals ticket))"
    by (cases rule: classify_cases [OF assms, of ticket]; simp add: in_unit_def)
  then show ?thesis by (simp add: classification_fallback_def validate_classification_def)
qed

lemma structured_draft_valid:
  assumes "draft_structured_response ts outcome facts (Some tone) = Inr dr"
  shows "validate_draft (dr\<lparr>rd_requires_human_approval := b\<rparr>) = Inr (dr\<lparr>rd_requires_human_approval := b\<rparr>)"
  using assms by (auto simp: draft_structured_response_def validate_draft_def Let_def split: sum.splits if_splits)

text \<open>C14: an outage of the model is harmless. If the provider does not answer its first call in time, or
  raises, then the assistive classifier returns the triage of the deterministic classifier and the
  assistive drafter the structured draft, with human approval required.\<close>

theorem outage_is_harmless:
  assumes "iteration_order signals" and "lw_cache w = []" "provider_down E (lw_calls w)"
    and "draft_structured_response ts outcome facts (Some tone) = Inr dr"
  shows "classify_with_llm signals (classify_assistant E rt A w) ticket c d = Inr (classify signals ticket)
    \<and> draft_with_llm (draft_assistant E rt A c d w) outcome facts (Some tone) ts
        = Inr (dr\<lparr>rd_requires_human_approval := True\<rparr>)"
proof
  obtain v where "classification_fallback signals ticket = Inr v"
    using classification_fallback_returns [OF assms(1)] by blast
  with classify_assistant_outage [OF assms(2,3)]
  show "classify_with_llm signals (classify_assistant E rt A w) ticket c d = Inr (classify signals ticket)"
    by (intro classify_fallback_agrees [OF assms(1)]) simp
  show "draft_with_llm (draft_assistant E rt A c d w) outcome facts (Some tone) ts
      = Inr (dr\<lparr>rd_requires_human_approval := True\<rparr>)"
    using draft_assistant_outage [OF assms(2,3)] structured_draft_valid [OF assms(4)]
    by (simp add: draft_with_llm_def Let_def assms(4) split: sum.split)
qed

definition sample_schemas :: agent_schemas where
  "sample_schemas = \<lparr>as_classification_json = VDict [], as_classification_validate = (\<lambda>_. Inl (ValueError ''schema'')),
     as_draft_json = VDict [], as_draft_validate = (\<lambda>_. Inl (ValueError ''schema''))\<rparr>"

definition down_world :: llm_world where
  "down_world = sample_world\<lparr>lw_calls := 1\<rparr>"

theorem outage_is_harmless_witness:
  "classify_with_llm REFUND_INTENT_SIGNALS (classify_assistant (sample_llm ''ok'') sample_rt sample_schemas down_world)
     sample_ticket 1 2 = Inr (classify REFUND_INTENT_SIGNALS sample_ticket)"
proof -
  have "\<not> isl (draft_structured_response [] DENY_REFUND (build_allowed_facts 10 ''USD'' ''T-1'' None) (Some DEFAULT_TONE))"
    by code_simp
  then obtain dr where "draft_structured_response [] DENY_REFUND (build_allowed_facts 10 ''USD'' ''T-1'' None) (Some DEFAULT_TONE)
      = Inr dr" by (auto simp: isl_def) (metis sum.exhaust)
  from outage_is_harmless [OF iteration_order_source(1) _ _ this, of down_world "sample_llm ''ok''" sample_rt sample_schemas
      sample_ticket 1 2]
  show ?thesis by (simp add: down_world_def provider_down_def sample_llm_def)
qed

end
