(* ===== verification/Llm_Config.thy ===== *)
theory Llm_Config
  imports Llm_Runtime
begin

text \<open>
  Configuration of the assistive runtime, \<^verbatim>\<open>llm/config.py\<close>: the runtime configuration from environment variables, the
  profiles of the YAML file with their module-level cache, and the layered \<^verbatim>\<open>load_model_config\<close>; and the
  deterministic offline provider, \<^verbatim>\<open>llm/providers/stub.py\<close>.

  Parameters are the environment variables, the loaded YAML data, \<^verbatim>\<open>float()\<close> on texts and pydantic's construction of a
  profile or a model configuration. A \<^verbatim>\<open>ModelConfigError\<close> is a \<^verbatim>\<open>ValueError\<close>.
\<close>

section \<open>The runtime configuration\<close>

definition env_or :: "(string \<Rightarrow> string option) \<Rightarrow> string \<Rightarrow> string \<Rightarrow> string" where
  "env_or environ name fallback = (case environ name of None \<Rightarrow> fallback | Some s \<Rightarrow> s)"

definition LLM_PROVIDERS :: "string list" where
  "LLM_PROVIDERS = [''stub'', ''bedrock'', ''agentcore'']"

definition config_from_env ::
  "(string \<Rightarrow> pyfloat option) \<Rightarrow> (string \<Rightarrow> string option) \<Rightarrow> exc + RuntimeConfig" where
  "config_from_env float_of environ =
     (let seconds_text = env_or environ ''AGENT_LLM_TIMEOUT_SECONDS'' ''8.0'';
          repairs_text = env_or environ ''AGENT_LLM_MAX_REPAIRS'' ''2'';
          mode = env_or environ ''AGENT_LLM_MODE'' ''stub'' in
      case float_of seconds_text of
        None \<Rightarrow> Inl (ValueError (''could not convert string to float: '' @ repr_str seconds_text))
      | Some timeout \<Rightarrow>
          bind_exc (py_int (VStr repairs_text)) (\<lambda>repairs.
          if mode \<notin> set LLM_PROVIDERS then Inl (ValueError ''mode'')
          else Inr
            \<lparr>cf_mode = mode,
             cf_model_id = env_or environ ''AGENT_LLM_MODEL''
               (env_or environ ''BEDROCK_MODEL_ID'' ''anthropic.claude-3-5-sonnet-20241022-v2:0''),
             cf_region = (case environ ''AGENT_LLM_REGION'' of Some r \<Rightarrow> Some r | None \<Rightarrow> environ ''AWS_REGION''),
             cf_timeout_seconds = timeout, cf_max_repairs = repairs,
             cf_bootstrap_servers = env_or environ ''AGENT_LLM_BOOTSTRAP_SERVERS'' ''localhost:9092'',
             cf_log_raw_prompts = parse_bool (env_or environ ''LOG_RAW_LLM_PROMPTS'' ''false''),
             cf_log_raw_outputs = parse_bool (env_or environ ''LOG_RAW_LLM_OUTPUTS'' ''false''),
             cf_redact_pii = parse_bool (env_or environ ''REDACT_PII'' ''true'')\<rparr>))"

section \<open>Profiles\<close>

definition PROFILE_FIELDS :: "(string \<times> string) list" where
  "PROFILE_FIELDS =
     [(''provider'', ''mode''), (''model_id'', ''model_id''), (''region'', ''region''), (''temperature'', ''temperature''),
      (''max_tokens'', ''max_tokens''), (''top_p'', ''top_p''), (''timeout_seconds'', ''timeout_seconds''),
      (''max_repairs'', ''max_repairs'')]"

definition build_profile ::
  "((string, pyval) dict \<Rightarrow> exc + ModelProfile) \<Rightarrow> (string, pyval) dict \<Rightarrow> exc + ModelProfile" where
  "build_profile build data =
     build (List.map_filter (\<lambda>(yaml_key, field). map_option (Pair field) (dict_get data yaml_key)) PROFILE_FIELDS)"

text \<open>\<^verbatim>\<open>{**a, **b}\<close> and \<^verbatim>\<open>d.get(k, {})\<close>; data that is no mapping has no \<^verbatim>\<open>get\<close>.\<close>

definition dict_merge :: "('k, 'v) dict \<Rightarrow> ('k, 'v) dict \<Rightarrow> ('k, 'v) dict" where
  "dict_merge a b = fold (\<lambda>(k, v) d. dict_set k v d) b a"

definition as_dict :: "pyval \<Rightarrow> exc + (string, pyval) dict" where
  "as_dict v = (case v of VDict d \<Rightarrow> Inr d | _ \<Rightarrow> Inl (ValueError ''object is not a mapping''))"

definition sub_dict :: "(string, pyval) dict \<Rightarrow> string \<Rightarrow> exc + (string, pyval) dict" where
  "sub_dict d k = (case dict_get d k of None \<Rightarrow> Inr [] | Some v \<Rightarrow> as_dict v)"

fun agent_profiles ::
  "((string, pyval) dict \<Rightarrow> exc + ModelProfile) \<Rightarrow> (string, pyval) dict \<Rightarrow> (string, pyval) dict \<Rightarrow>
   (string, ModelProfile) dict \<Rightarrow> exc + (string, ModelProfile) dict" where
  "agent_profiles build default_data [] profiles = Inr profiles"
| "agent_profiles build default_data ((aid, v) # agents) profiles =
     bind_exc (as_dict v) (\<lambda>agent_data.
     bind_exc (build_profile build (dict_merge default_data agent_data)) (\<lambda>p.
     agent_profiles build default_data agents (dict_set aid p profiles)))"

text \<open>What is found at the profiles path: no file or no YAML library, or the parsed data (or the parser's exception).\<close>

type_synonym yaml_file = "(exc + pyval) option"

definition read_profiles ::
  "((string, pyval) dict \<Rightarrow> exc + ModelProfile) \<Rightarrow> yaml_file \<Rightarrow> exc + (string, ModelProfile) dict" where
  "read_profiles build file =
     (case file of
        None \<Rightarrow> Inr []
      | Some loaded \<Rightarrow>
          bind_exc loaded (\<lambda>v.
          bind_exc (as_dict (if truthy v then v else VDict [])) (\<lambda>data.
          bind_exc (sub_dict data ''default'') (\<lambda>default_data.
          bind_exc (if default_data = [] then Inr []
                    else bind_exc (build_profile build default_data) (\<lambda>p. Inr [(''default'', p)])) (\<lambda>profiles.
          bind_exc (sub_dict data ''agents'') (\<lambda>agents.
          agent_profiles build default_data agents profiles))))))"

text \<open>The module-level cache: filled once, by the first load that succeeds.\<close>

definition load_yaml_profiles ::
  "((string, pyval) dict \<Rightarrow> exc + ModelProfile) \<Rightarrow> yaml_file \<Rightarrow>
   ((string, ModelProfile) dict option, (string, ModelProfile) dict) io" where
  "load_yaml_profiles build file =
     (\<lambda>cache. case cache of
        Some profiles \<Rightarrow> (Inr profiles, cache)
      | None \<Rightarrow> (case read_profiles build file of
           Inl e \<Rightarrow> (Inl e, None)
         | Inr profiles \<Rightarrow> (Inr profiles, Some profiles)))"

section \<open>Layered model configuration\<close>

record BedrockModelConfig =
  bm_provider :: string
  bm_region :: string
  bm_model_id :: string
  bm_temperature :: pyfloat
  bm_max_tokens :: int
  bm_timeout_seconds :: int
  bm_retry_max_attempts :: int

definition MODEL_CONFIG_FIELDS :: "string list" where
  "MODEL_CONFIG_FIELDS = [''provider'', ''region'', ''model_id'', ''temperature'', ''max_tokens'', ''timeout_seconds'',
     ''retry_max_attempts'']"

definition merge_layer :: "(string, pyval) dict \<Rightarrow> (string, pyval) dict \<Rightarrow> (string, pyval) dict" where
  "merge_layer layer merged = fold (\<lambda>(k, v) d. if v = VNone then d else dict_set k v d) layer merged"

definition merge_layers :: "(string, pyval) dict list \<Rightarrow> (string, pyval) dict" where
  "merge_layers layers = fold merge_layer layers []"

definition ENV_MAP :: "(string \<times> string) list" where
  "ENV_MAP =
     [(''AGENT_LLM_MODE'', ''provider''), (''AGENT_LLM_MODEL'', ''model_id''), (''BEDROCK_MODEL_ID'', ''model_id''),
      (''AGENT_LLM_REGION'', ''region''), (''AWS_REGION'', ''region''), (''AWS_DEFAULT_REGION'', ''region''),
      (''AGENT_LLM_TIMEOUT_SECONDS'', ''timeout_seconds''), (''BEDROCK_TIMEOUT_SECONDS'', ''timeout_seconds''),
      (''BEDROCK_TEMPERATURE'', ''temperature''), (''BEDROCK_MAX_TOKENS'', ''max_tokens'')]"

definition non_numeric :: "string \<Rightarrow> string \<Rightarrow> exc" where
  "non_numeric env_var val = ValueError (''Non-numeric value for '' @ env_var @ '': '' @ repr_str val)"

definition env_value :: "(string \<Rightarrow> pyfloat option) \<Rightarrow> string \<Rightarrow> string \<Rightarrow> string \<Rightarrow> exc + pyval" where
  "env_value float_of env_var field val =
     (if field \<in> {''timeout_seconds'', ''temperature''}
      then (case float_of val of None \<Rightarrow> Inl (non_numeric env_var val) | Some x \<Rightarrow> Inr (VFloat x))
      else if field = ''max_tokens''
      then (case int_of_text val of None \<Rightarrow> Inl (non_numeric env_var val) | Some i \<Rightarrow> Inr (VInt i))
      else Inr (VStr val))"

fun env_layer_from ::
  "(string \<Rightarrow> pyfloat option) \<Rightarrow> (string \<Rightarrow> string option) \<Rightarrow> (string \<times> string) list \<Rightarrow> (string, pyval) dict \<Rightarrow>
   exc + (string, pyval) dict" where
  "env_layer_from float_of environ [] result = Inr result"
| "env_layer_from float_of environ ((env_var, field) # rest) result =
     (case environ env_var of
        None \<Rightarrow> env_layer_from float_of environ rest result
      | Some val \<Rightarrow>
          if dict_get result field \<noteq> None then env_layer_from float_of environ rest result
          else bind_exc (env_value float_of env_var field val) (\<lambda>v.
               env_layer_from float_of environ rest (dict_set field v result)))"

definition load_env_layer ::
  "(string \<Rightarrow> pyfloat option) \<Rightarrow> (string \<Rightarrow> string option) \<Rightarrow> exc + (string, pyval) dict" where
  "load_env_layer float_of environ = env_layer_from float_of environ ENV_MAP []"

definition load_yaml_layer :: "string \<Rightarrow> yaml_file \<Rightarrow> string \<Rightarrow> exc + (string, pyval) dict" where
  "load_yaml_layer path file agent_id =
     (case file of
        None \<Rightarrow> Inr []
      | Some (Inl e) \<Rightarrow> Inl (ValueError (''Failed to parse YAML config '' @ path @ '': '' @ str_exc e))
      | Some (Inr v) \<Rightarrow>
          bind_exc (as_dict (if truthy v then v else VDict [])) (\<lambda>data.
          bind_exc (sub_dict data ''agents'') (\<lambda>agents.
          bind_exc (sub_dict data ''defaults'') (\<lambda>defaults.
          bind_exc (sub_dict agents agent_id) (\<lambda>section. Inr (dict_merge defaults section))))))"

definition DEFAULT_LAYER :: "(string, pyval) dict" where
  "DEFAULT_LAYER =
     [(''provider'', VStr ''stub''), (''region'', VStr ''us-east-1''),
      (''model_id'', VStr ''anthropic.claude-3-5-sonnet-20241022-v2:0''), (''temperature'', VFloat 0),
      (''max_tokens'', VInt 1024), (''timeout_seconds'', VInt 30), (''retry_max_attempts'', VInt 3)]"

type_synonym overrides = "(string, (string, pyval) dict) dict"

definition register_runtime_override :: "string \<Rightarrow> (string, pyval) dict \<Rightarrow> overrides \<Rightarrow> overrides" where
  "register_runtime_override agent_id fs os = dict_set agent_id fs os"

definition merged_config ::
  "(string, pyval) dict \<Rightarrow> (string, pyval) dict \<Rightarrow> overrides \<Rightarrow> string \<Rightarrow> (string, pyval) dict" where
  "merged_config yaml_layer env_layer os agent_id =
     merge_layers [DEFAULT_LAYER, yaml_layer, env_layer,
       (case dict_get os agent_id of None \<Rightarrow> [] | Some fs \<Rightarrow> fs)]"

definition load_model_config ::
  "((string, pyval) dict \<Rightarrow> exc + BedrockModelConfig) \<Rightarrow> (string \<Rightarrow> pyfloat option) \<Rightarrow> (string \<Rightarrow> string option) \<Rightarrow>
   string \<Rightarrow> yaml_file \<Rightarrow> overrides \<Rightarrow> string \<Rightarrow> exc + BedrockModelConfig" where
  "load_model_config build float_of environ path file os agent_id =
     bind_exc (load_yaml_layer path file agent_id) (\<lambda>yaml_layer.
     bind_exc (load_env_layer float_of environ) (\<lambda>env_layer.
     let merged = merged_config yaml_layer env_layer os agent_id;
         mode = (case dict_get merged ''provider'' of None \<Rightarrow> VStr ''stub'' | Some m \<Rightarrow> m);
         context = ''agent_id='' @ repr_str agent_id @ '' mode='' @ py_repr mode @ '': '' in
     if mode \<in> {VStr ''bedrock'', VStr ''agentcore''}
        \<and> \<not> (case dict_get merged ''model_id'' of None \<Rightarrow> False | Some m \<Rightarrow> truthy m)
     then Inl (ValueError (context @ ''model_id is required for '' @ py_str mode @ '' mode''))
     else case build (filter (\<lambda>(k, _). k \<in> set MODEL_CONFIG_FIELDS) merged) of
       Inl e \<Rightarrow> Inl (ValueError (context @ ''invalid config: '' @ str_exc e))
     | Inr c \<Rightarrow> Inr c))"

section \<open>Precedence of the layers\<close>

text \<open>The last value of a key in a layer that is not \<^verbatim>\<open>None\<close>.\<close>

definition layer_value :: "(string, pyval) dict \<Rightarrow> string \<Rightarrow> pyval option" where
  "layer_value layer k = map_of (rev (filter (\<lambda>(_, v). v \<noteq> VNone) layer)) k"

lemma merge_layer_lookup:
  "dict_get (merge_layer layer d) k = (case layer_value layer k of None \<Rightarrow> dict_get d k | Some v \<Rightarrow> Some v)"
proof (induction layer arbitrary: d)
  case (Cons x layer)
  obtain k' v where x: "x = (k', v)" by (cases x)
  have "merge_layer (x # layer) d = merge_layer layer (if v = VNone then d else dict_set k' v d)"
    by (simp add: merge_layer_def x)
  then show ?case using Cons
    by (auto simp: layer_value_def x map_add_def split: option.splits)
qed (simp add: merge_layer_def layer_value_def)

text \<open>The first layer from the right that has a value for the key decides.\<close>

fun first_value :: "(string, pyval) dict list \<Rightarrow> string \<Rightarrow> pyval option" where
  "first_value [] k = None"
| "first_value (l # ls) k = (case layer_value l k of None \<Rightarrow> first_value ls k | Some v \<Rightarrow> Some v)"

lemma merge_layers_lookup: "dict_get (merge_layers ls) k = first_value (rev ls) k"
proof (induction ls rule: rev_induct)
  case (snoc l ls)
  then show ?case by (simp add: merge_layers_def merge_layer_lookup split: option.split)
qed (simp add: merge_layers_def)

text \<open>Of the environment variables for one field, the first in the table that is set gives the value.\<close>

lemma env_layer_keeps:
  "env_layer_from f environ vars r = Inr r' \<Longrightarrow> dict_get r k = Some v \<Longrightarrow> dict_get r' k = Some v"
proof (induction f environ vars r rule: env_layer_from.induct)
  case (2 f environ var field rest r)
  then show ?case by (cases "k = field") (auto simp: bind_exc_def split: option.splits if_splits sum.splits)
qed simp

lemma env_layer_value:
  assumes "env_layer_from f environ vars r = Inr r'" "dict_get r field = None"
  shows "case find (\<lambda>(var, fd). fd = field \<and> environ var \<noteq> None) vars of
      None \<Rightarrow> dict_get r' field = None
    | Some (var, _) \<Rightarrow> \<exists>v. env_value f var field (the (environ var)) = Inr v \<and> dict_get r' field = Some v"
  using assms
proof (induction f environ vars r rule: env_layer_from.induct)
  case (2 f environ var fd rest r)
  show ?case
  proof (cases "environ var")
    case None
    then show ?thesis using 2 by simp
  next
    case (Some val)
    show ?thesis
    proof (cases "fd = field")
      case True
      then obtain v where "env_value f var field val = Inr v" "env_layer_from f environ rest (dict_set field v r) = Inr r'"
        using 2(4,5) Some by (auto simp: bind_exc_def split: sum.splits)
      then show ?thesis using True Some env_layer_keeps [of f environ rest "dict_set field v r" r' field v] by simp
    next
      case False
      then show ?thesis using 2 Some by (auto simp: bind_exc_def split: if_splits sum.splits)
    qed
  qed
qed simp

text \<open>A runtime override beats the environment, which beats the YAML file, which beats the defaults.\<close>

lemma merged_config_lookup:
  "dict_get (merged_config y e os agent) k =
     first_value [(case dict_get os agent of None \<Rightarrow> [] | Some fs \<Rightarrow> fs), e, y, DEFAULT_LAYER] k"
  by (simp add: merged_config_def merge_layers_lookup)

section \<open>The stub provider\<close>

text \<open>The shortest text up to a closing brace that only white space separates from the end marker or the end.\<close>

definition hint_ends :: "string \<Rightarrow> bool" where
  "hint_ends rest \<longleftrightarrow> (let r = dropWhile is_space rest in r = [] \<or> prefix ''END_SCHEMA'' r)"

fun shortest_hint :: "string \<Rightarrow> string \<Rightarrow> string option" where
  "shortest_hint acc [] = None"
| "shortest_hint acc (c # s) =
     (if c = CHR ''}'' \<and> hint_ends s then Some (rev (c # acc)) else shortest_hint (c # acc) s)"

definition hint_at :: "string \<Rightarrow> string option" where
  "hint_at s =
     (if prefix ''OUTPUT_SCHEMA:'' s
      then case dropWhile is_space (drop 14 s) of
             [] \<Rightarrow> None
           | c # s' \<Rightarrow> if c = CHR ''{'' then shortest_hint [c] s' else None
      else None)"

fun search_hint :: "string \<Rightarrow> string option" where
  "search_hint [] = None"
| "search_hint (c # s) = (case hint_at (c # s) of Some h \<Rightarrow> Some h | None \<Rightarrow> search_hint s)"

definition extract_schema_hint :: "llm_env \<Rightarrow> string \<Rightarrow> exc + pyval option" where
  "extract_schema_hint E prompt =
     (case search_hint prompt of
        None \<Rightarrow> Inr None
      | Some h \<Rightarrow> (case le_json_loads E h of
           Inr v \<Rightarrow> Inr (Some v) | Inl (JSONDecodeError _) \<Rightarrow> Inr None | Inl e \<Rightarrow> Inl e))"

definition digest_number :: "string \<Rightarrow> exc + nat" where
  "digest_number hex = (case read_hex 0 hex of None \<Rightarrow> Inl (ValueError ''invalid literal for int()'') | Some n \<Rightarrow> Inr n)"

definition generate_field :: "string \<Rightarrow> (string, pyval) dict \<Rightarrow> string \<Rightarrow> exc + pyval" where
  "generate_field name info digest =
     (let field_type = (case dict_get info ''type'' of None \<Rightarrow> VStr ''string'' | Some t \<Rightarrow> t);
          text = VStr (''stub-'' @ name @ ''-'' @ take 8 digest) in
      case dict_get info ''enum'' of
        Some (VList vs) \<Rightarrow>
          if vs = [] then Inl (ValueError ''integer modulo by zero'')
          else bind_exc (digest_number (take 4 digest)) (\<lambda>n. Inr (vs ! (n mod length vs)))
      | Some _ \<Rightarrow> Inl (ValueError ''enum'')
      | None \<Rightarrow>
          if field_type = VStr ''string'' then Inr text
          else if field_type = VStr ''number'' \<or> field_type = VStr ''integer''
          then bind_exc (digest_number (take 4 digest)) (\<lambda>n. Inr (VInt (int (n mod 100))))
          else if field_type = VStr ''boolean''
          then bind_exc (digest_number (take 1 digest)) (\<lambda>n. Inr (VBool (n mod 2 = 0)))
          else if field_type = VStr ''array'' then Inr (VList [VStr (''stub-item-'' @ take 6 digest)])
          else Inr text)"

fun generate_fields :: "(string, pyval) dict \<Rightarrow> string \<Rightarrow> exc + (string, pyval) dict" where
  "generate_fields [] digest = Inr []"
| "generate_fields ((name, info) # props) digest =
     bind_exc (as_dict info) (\<lambda>i.
     bind_exc (generate_field name i digest) (\<lambda>v.
     bind_exc (generate_fields props digest) (\<lambda>d. Inr ((name, v) # d))))"

definition fill_schema :: "pyval \<Rightarrow> string \<Rightarrow> exc + string" where
  "fill_schema schema digest =
     bind_exc (as_dict schema) (\<lambda>d.
     bind_exc (sub_dict d ''properties'') (\<lambda>props.
     if props = [] then Inr (json_dumps (VDict [(''text'', VStr (''stub-'' @ take 8 digest))]))
     else bind_exc (generate_fields props digest) (\<lambda>r. Inr (json_dumps (VDict r)))))"

definition generate_from_schema :: "llm_env \<Rightarrow> string \<Rightarrow> string \<Rightarrow> exc + string" where
  "generate_from_schema E prompt digest =
     bind_exc (extract_schema_hint E prompt) (\<lambda>hint.
     case hint of
       Some schema \<Rightarrow>
         if truthy schema then fill_schema schema digest
         else Inr (json_dumps (VDict [(''text'', VStr (''stub-response-'' @ take 8 digest))]))
     | None \<Rightarrow> Inr (json_dumps (VDict [(''text'', VStr (''stub-response-'' @ take 8 digest))])))"

definition stub_invoke :: "llm_env \<Rightarrow> string \<Rightarrow> exc + RawCompletion" where
  "stub_invoke E prompt =
     bind_exc (generate_from_schema E prompt (le_sha256 E prompt)) (\<lambda>output. Inr
       \<lparr>cm_text = output,
        cm_token_usage = \<lparr>tu_input_tokens = int (py_len prompt div 4), tu_output_tokens = int (py_len output div 4),
          tu_cache_read_tokens = 0, tu_cache_write_tokens = 0\<rparr>,
        cm_cache_hit = False, cm_model_id = ''stub''\<rparr>)"

text \<open>The stub makes a number an integer below 100: a schema that bounds a number by 1 is met only by 0 and 1.\<close>

lemma stub_number:
  assumes "dict_get info ''enum'' = None" "dict_get info ''type'' = Some (VStr ''number'')"
    and "generate_field name info digest = Inr v"
  shows "\<exists>n < 100. v = VInt n"
  using assms by (auto simp: generate_field_def bind_exc_def split: sum.splits)

lemma generate_fields_keys: "generate_fields props digest = Inr d \<Longrightarrow> map fst d = map fst props"
proof (induction props arbitrary: d)
  case (Cons x props)
  then show ?case by (cases x) (auto simp: bind_exc_def split: sum.splits)
qed simp

end
