(* ===== verification/Observability.thy ===== *)
theory Observability
  imports Llm_Config
begin

text \<open>
  The observability layer, \<^verbatim>\<open>src/agent_foundation/observability\<close>: its configuration, the capture policy for free
  text, span attributes, the trace context carried in envelopes, spans and generations around program
  code, scores and managed prompts. The telemetry backend is a parameter: a function from the calls the
  program makes to exceptions or success, on a state of its own.
\<close>

section \<open>Configuration\<close>

record ObservabilityConfig =
  oc_enabled :: bool
  oc_public_key :: "string option"
  oc_secret_key :: "string option"
  oc_host :: "string option"
  oc_sample_rate :: pyfloat
  oc_environment :: string
  oc_service_name :: string
  oc_heartbeat_interval_s :: pyfloat
  oc_exporter :: string
  oc_redact_pii :: bool
  oc_log_raw_prompts :: bool
  oc_log_raw_outputs :: bool
  oc_disabled_spans :: "string set"

text \<open>\<^verbatim>\<open>os.environ.get(name) or None\<close> and \<^verbatim>\<open>text.split(",")\<close>.\<close>

definition env_or_none :: "(string \<Rightarrow> string option) \<Rightarrow> string \<Rightarrow> string option" where
  "env_or_none environ name = (case environ name of None \<Rightarrow> None | Some s \<Rightarrow> if s = [] then None else Some s)"

fun split_comma :: "string \<Rightarrow> string list" where
  "split_comma [] = [[]]"
| "split_comma (c # s) =
     (if c = CHR '','' then [] # split_comma s
      else case split_comma s of [] \<Rightarrow> [[c]] | t # ts \<Rightarrow> (c # t) # ts)"

definition switched_off :: "string \<Rightarrow> bool" where
  "switched_off s \<longleftrightarrow> py_lower s \<in> {''false'', ''0'', ''no''}"

definition switched_on :: "string \<Rightarrow> bool" where
  "switched_on s \<longleftrightarrow> py_lower s \<in> {''true'', ''1'', ''yes''}"

definition obs_from_env ::
  "(string \<Rightarrow> pyfloat option) \<Rightarrow> (string \<Rightarrow> string option) \<Rightarrow> string \<Rightarrow> ObservabilityConfig" where
  "obs_from_env float_of environ agent_id =
     (let rate = (case float_of (env_or environ ''AGENT_OBSERVABILITY_SAMPLE_RATE'' ''1.0'') of None \<Rightarrow> 1 | Some r \<Rightarrow> r);
          interval = (case float_of (env_or environ ''AGENT_HEARTBEAT_INTERVAL_S'' ''10'') of None \<Rightarrow> 10 | Some r \<Rightarrow> r)
      in \<lparr>oc_enabled = (\<not> switched_off (env_or environ ''AGENT_OBSERVABILITY_ENABLED'' ''true'')),
          oc_public_key = env_or_none environ ''LANGFUSE_PUBLIC_KEY'',
          oc_secret_key = env_or_none environ ''LANGFUSE_SECRET_KEY'',
          oc_host = env_or_none environ ''LANGFUSE_HOST'',
          oc_sample_rate = max 0 (min 1 rate),
          oc_environment = env_or environ ''AGENT_OBSERVABILITY_ENV'' ''local'',
          oc_service_name = agent_id, oc_heartbeat_interval_s = interval,
          oc_exporter = env_or environ ''AGENT_OBSERVABILITY_EXPORTER'' ''langfuse'',
          oc_redact_pii = (\<not> switched_off (env_or environ ''REDACT_PII'' ''true'')),
          oc_log_raw_prompts = switched_on (env_or environ ''LOG_RAW_LLM_PROMPTS'' ''false''),
          oc_log_raw_outputs = switched_on (env_or environ ''LOG_RAW_LLM_OUTPUTS'' ''false''),
          oc_disabled_spans = set (filter (\<lambda>s. s \<noteq> [])
            (map py_strip (split_comma (env_or environ ''AGENT_OBSERVABILITY_DISABLED_SPANS'' []))))\<rparr>)"

definition truthy_text :: "string option \<Rightarrow> bool" where
  "truthy_text s \<longleftrightarrow> s \<noteq> None \<and> s \<noteq> Some []"

definition is_active :: "bool \<Rightarrow> ObservabilityConfig \<Rightarrow> bool" where
  "is_active importable C \<longleftrightarrow>
     oc_enabled C \<and> truthy_text (oc_public_key C) \<and> truthy_text (oc_secret_key C) \<and> importable"

section \<open>The capture policy\<close>

definition redact_for_export :: "string option \<Rightarrow> string \<Rightarrow> ObservabilityConfig \<Rightarrow> string option" where
  "redact_for_export value0 field C =
     (case value0 of
        None \<Rightarrow> None
      | Some v \<Rightarrow>
          if (field = ''prompt'' \<and> oc_log_raw_prompts C) \<or> (field = ''completion'' \<and> oc_log_raw_outputs C) then Some v
          else if \<not> oc_redact_pii C then None
          else (case scrub True (VStr v) of VStr s \<Rightarrow> Some s | other \<Rightarrow> Some (py_str other)))"

section \<open>Span attributes\<close>

definition SPAN_ATTRS :: "string list" where
  "SPAN_ATTRS = [''correlation_id'', ''causation_id'', ''event_id'', ''case_id'', ''ticket_id'', ''task_id'', ''capability'',
     ''agent_id'', ''model_id'', ''topic'']"

text \<open>The keyword arguments as a dict from names to the text of the value, \<open>None\<close> for \<^verbatim>\<open>None\<close>.\<close>

definition build_span_attrs :: "(string, string option) dict \<Rightarrow> (string, string) dict" where
  "build_span_attrs kwargs =
     List.map_filter (\<lambda>(k, v). if k \<in> set SPAN_ATTRS then map_option (Pair k) v else None) kwargs"

definition attrs_from_envelope :: "EventEnvelope \<Rightarrow> (string, string) dict" where
  "attrs_from_envelope envelope =
     build_span_attrs [(''correlation_id'', Some (show_uuid (en_correlation_id envelope))),
       (''causation_id'', map_option show_uuid (en_causation_id envelope)),
       (''event_id'', Some (show_uuid (en_event_id envelope))),
       (''agent_id'', Some (en_agent_id envelope)), (''topic'', Some (en_event_type envelope))]"

section \<open>Trace context\<close>

definition lower_hex :: "char \<Rightarrow> bool" where
  "lower_hex c \<longleftrightarrow> (let n = of_char c :: nat in (48 \<le> n \<and> n \<le> 57) \<or> (97 \<le> n \<and> n \<le> 102))"

text \<open>\<^verbatim>\<open>^[0-9a-f]{2}-([0-9a-f]{32})-([0-9a-f]{16})-[0-9a-f]{2}$\<close> with its two groups.\<close>

definition match_traceparent :: "string \<Rightarrow> (string \<times> string) option" where
  "match_traceparent text =
     (let s = chop_newline text; version = take 2 s; trace = take 32 (drop 3 s); span0 = take 16 (drop 36 s);
          flags = drop 53 s
      in if length s = 55 \<and> s ! 2 = CHR ''-'' \<and> s ! 35 = CHR ''-'' \<and> s ! 52 = CHR ''-''
            \<and> list_all lower_hex (version @ trace @ span0 @ flags)
         then Some (trace, span0) else None)"

record TraceContextCarrier =
  tc_traceparent :: string
  tc_tracestate :: "string option"

definition trace_id :: "TraceContextCarrier \<Rightarrow> string option" where
  "trace_id c = map_option fst (match_traceparent (tc_traceparent c))"

definition span_id :: "TraceContextCarrier \<Rightarrow> string option" where
  "span_id c = map_option snd (match_traceparent (tc_traceparent c))"

definition to_envelope_dict :: "TraceContextCarrier \<Rightarrow> (string, string) dict" where
  "to_envelope_dict c =
     (''traceparent'', tc_traceparent c) # (case tc_tracestate c of None \<Rightarrow> [] | Some s \<Rightarrow> [(''tracestate'', s)])"

definition from_envelope_dict :: "(string, string) dict option \<Rightarrow> TraceContextCarrier option" where
  "from_envelope_dict d =
     (case d of
        None \<Rightarrow> None
      | Some d \<Rightarrow>
          (let tp = (case dict_get d ''traceparent'' of None \<Rightarrow> [] | Some s \<Rightarrow> s)
           in if d = [] \<or> tp = [] \<or> match_traceparent tp = None then None
              else Some \<lparr>tc_traceparent = tp, tc_tracestate = dict_get d ''tracestate''\<rparr>))"

text \<open>The propagator of the tracing library fills a carrier or raises.\<close>

definition inject :: "exc + (string, string) dict \<Rightarrow> (string, string) dict option" where
  "inject carrier =
     (case carrier of
        Inl _ \<Rightarrow> None
      | Inr d \<Rightarrow> if truthy_text (dict_get d ''traceparent'') then Some d else None)"

section \<open>Spans around program code\<close>

datatype tcall =
    StartSpan string "string option"
  | StartGeneration string "string option" "string option" "string option"
  | UpdateMeta string string
  | UpdateLatency
  | UpdateError string
  | EndObservation
  | Score string string pyfloat
  | Flush

record 'c obs =
  ob_config :: ObservabilityConfig
  ob_client :: bool
  ob_has_update :: bool
  ob_call :: "tcall \<Rightarrow> ('c, unit) io"

text \<open>Program code sees its own state, the backend the other component.\<close>

definition on_program :: "('w, 'a) io \<Rightarrow> ('w \<times> 'c, 'a) io" where
  "on_program m = (\<lambda>(w, c). case m w of (r, w') \<Rightarrow> (r, (w', c)))"

definition on_backend :: "('c, 'a) io \<Rightarrow> ('w \<times> 'c, 'a) io" where
  "on_backend m = (\<lambda>(w, c). case m c of (r, c') \<Rightarrow> (r, (w, c')))"

definition tell :: "'c obs \<Rightarrow> tcall \<Rightarrow> ('w \<times> 'c, unit) io" where
  "tell B call = on_backend (ob_call B call)"

fun tell_all :: "'c obs \<Rightarrow> tcall list \<Rightarrow> ('w \<times> 'c, unit) io" where
  "tell_all B [] = return_io ()"
| "tell_all B (call # calls) = then_io (tell B call) (tell_all B calls)"

text \<open>\<^verbatim>\<open>with suppress(Exception)\<close>.\<close>

definition suppress :: "('w, unit) io \<Rightarrow> ('w, unit) io" where
  "suppress m = try_io m (\<lambda>_. return_io ())"

definition records_span :: "'c obs \<Rightarrow> string \<Rightarrow> bool" where
  "records_span B name \<longleftrightarrow> ob_client B \<and> oc_enabled (ob_config B) \<and> name \<notin> oc_disabled_spans (ob_config B)"

definition span_io ::
  "'c obs \<Rightarrow> string \<Rightarrow> (string, string) dict \<Rightarrow> string option \<Rightarrow> ('w, 'a) io \<Rightarrow> ('w \<times> 'c, 'a) io" where
  "span_io B name attrs trace body =
     bind_io
       (if records_span B name
        then try_io (then_io (tell B (StartSpan name (if truthy_text trace then trace else None)))
               (then_io (tell_all B (if ob_has_update B then map (\<lambda>(k, v). UpdateMeta k v) attrs else [])) (return_io True)))
               (\<lambda>_. return_io False)
        else return_io False) (\<lambda>opened.
     bind_io (try_io (on_program (bind_io body (\<lambda>x. return_io (Inr x))))
               (\<lambda>e. then_io (if opened then suppress (then_io (tell B (UpdateError (str_exc e))) (tell B EndObservation))
                             else return_io ()) (return_io (Inl e)))) (\<lambda>result.
     case result of
       Inl e \<Rightarrow> raise_io e
     | Inr x \<Rightarrow> then_io (if opened then suppress (tell B EndObservation) else return_io ()) (return_io x)))"

definition generation ::
  "'c obs \<Rightarrow> string \<Rightarrow> string option \<Rightarrow> string option \<Rightarrow> (string, string) dict \<Rightarrow> string option \<Rightarrow> ('w, 'a) io \<Rightarrow>
   ('w \<times> 'c, 'a) io" where
  "generation B name model inp attrs trace body =
     bind_io
       (if records_span B name
        then try_io (then_io (tell B (StartGeneration name (if truthy_text model then model else None)
                 (if truthy_text inp then inp else None) (if truthy_text trace then trace else None)))
               (then_io (fold (\<lambda>(k, v) m. then_io m (suppress (tell B (UpdateMeta k v)))) attrs (return_io ())) (return_io True)))
               (\<lambda>_. return_io False)
        else return_io False) (\<lambda>opened.
     bind_io (try_io (on_program (bind_io body (\<lambda>x. return_io (Inr x))))
               (\<lambda>e. then_io (if opened then suppress (then_io (tell B (UpdateError (str_exc e))) (tell B EndObservation))
                             else return_io ()) (return_io (Inl e)))) (\<lambda>result.
     case result of
       Inl e \<Rightarrow> raise_io e
     | Inr x \<Rightarrow> then_io (if opened then suppress (then_io (tell B UpdateLatency) (tell B EndObservation)) else return_io ())
                  (return_io x)))"

definition traced :: "'c obs \<Rightarrow> string \<Rightarrow> ('w, 'a) io \<Rightarrow> ('w \<times> 'c, 'a) io" where
  "traced B span_name body = span_io B span_name [] None body"

definition flush_io :: "'c obs \<Rightarrow> ('w \<times> 'c, unit) io" where
  "flush_io B = (if ob_client B then suppress (tell B Flush) else return_io ())"

definition write_score :: "'c obs \<Rightarrow> string \<Rightarrow> string \<Rightarrow> pyfloat \<Rightarrow> ('w \<times> 'c, unit) io" where
  "write_score B trace name score = (if ob_client B then suppress (tell B (Score trace name score)) else return_io ())"

definition score_schema_valid :: "'c obs \<Rightarrow> string \<Rightarrow> bool \<Rightarrow> ('w \<times> 'c, unit) io" where
  "score_schema_valid B trace valid = write_score B trace ''schema_valid'' (if valid then 1 else 0)"

definition score_used_fallback :: "'c obs \<Rightarrow> string \<Rightarrow> bool \<Rightarrow> ('w \<times> 'c, unit) io" where
  "score_used_fallback B trace used = write_score B trace ''used_fallback'' (if used then 1 else 0)"

definition score_cache_hit :: "'c obs \<Rightarrow> string \<Rightarrow> bool \<Rightarrow> ('w \<times> 'c, unit) io" where
  "score_cache_hit B trace hit = write_score B trace ''cache_hit'' (if hit then 1 else 0)"

definition score_latency_ms :: "'c obs \<Rightarrow> string \<Rightarrow> pyfloat \<Rightarrow> ('w \<times> 'c, unit) io" where
  "score_latency_ms B trace latency_ms = write_score B trace ''latency_ms'' latency_ms"

section \<open>Managed prompts\<close>

text \<open>\<^verbatim>\<open>text.replace(old, new)\<close> for a non-empty \<open>old\<close>.\<close>

function py_replace :: "string \<Rightarrow> string \<Rightarrow> string \<Rightarrow> string" where
  "py_replace old new [] = []"
| "py_replace old new (c # s) =
     (if old \<noteq> [] \<and> prefix old (c # s) then new @ py_replace old new (drop (length old) (c # s))
      else c # py_replace old new s)"
  by pat_completeness auto

termination
  by (relation "measure (\<lambda>(_, _, s). length s)") auto

record LangfusePrompt =
  lp_name :: string
  lp_template :: string
  lp_version :: int

definition render_langfuse :: "LangfusePrompt \<Rightarrow> (string, string) dict \<Rightarrow> string" where
  "render_langfuse p kwargs = fold (\<lambda>(k, v) result. py_replace (''{{'' @ k @ ''}}'') v result) kwargs (lp_template p)"

text \<open>The managed prompt is the client's answer, a template with its version, or an exception.\<close>

definition fetch_prompt ::
  "(exc + string \<times> int) option \<Rightarrow> string \<Rightarrow> LangfusePrompt \<Rightarrow> LangfusePrompt \<times> bool" where
  "fetch_prompt answer name fallback =
     (case answer of
        Some (Inr (template, version)) \<Rightarrow> (\<lparr>lp_name = name, lp_template = template, lp_version = version\<rparr>, True)
      | _ \<Rightarrow> (fallback, False))"

section \<open>Spans do not disturb the program\<close>

text \<open>A computation of the telemetry side leaves the program's state alone; a safe one never raises either.\<close>

definition backend_only :: "('w \<times> 'c, 'a) io \<Rightarrow> bool" where
  "backend_only m \<longleftrightarrow> (\<forall>s. fst (snd (m s)) = fst s)"

definition safe_backend :: "('w \<times> 'c, 'a) io \<Rightarrow> bool" where
  "safe_backend m \<longleftrightarrow> (\<forall>s. fst (snd (m s)) = fst s \<and> \<not> isl (fst (m s)))"

lemma safe_backend_only: "safe_backend m \<Longrightarrow> backend_only m"
  by (simp add: safe_backend_def backend_only_def)

lemma safe_run:
  assumes "safe_backend m" obtains x c' where "m (w, c) = (Inr x, (w, c'))"
  using assms [unfolded safe_backend_def, THEN spec, of "(w, c)"] that by (cases "m (w, c)"; cases "fst (m (w, c))") auto

lemma backend_tell: "backend_only (tell B call)"
  by (auto simp: backend_only_def tell_def on_backend_def split: prod.split)

lemma backend_return: "safe_backend (return_io x)"
  by (simp add: safe_backend_def return_io_def)

lemma backend_then:
  assumes "backend_only m" "backend_only n" shows "backend_only (then_io m n)"
  unfolding backend_only_def
proof
  fix s
  obtain r s' where m: "m s = (r, s')" by (cases "m s")
  have "fst s' = fst s" using assms(1) m unfolding backend_only_def by (metis snd_conv)
  with m assms(2) show "fst (snd (then_io m n s)) = fst s"
    by (cases r; cases s') (simp_all add: then_io_def bind_io_def backend_only_def)
qed

lemma safe_then:
  assumes "safe_backend m" "safe_backend n" shows "safe_backend (then_io m n)"
  unfolding safe_backend_def
proof
  fix s
  obtain x c' where "m s = (Inr x, (fst s, c'))" using safe_run [OF assms(1)] by (metis prod.collapse)
  with assms(2) show "fst (snd (then_io m n s)) = fst s \<and> \<not> isl (fst (then_io m n s))"
    by (simp add: then_io_def bind_io_def safe_backend_def)
qed

lemma safe_try:
  assumes "backend_only m" "\<And>e. safe_backend (h e)" shows "safe_backend (try_io m h)"
  unfolding safe_backend_def
proof
  fix s
  obtain r s' where m: "m s = (r, s')" by (cases "m s")
  have "fst s' = fst s" using assms(1) m unfolding backend_only_def by (metis snd_conv)
  with m assms(2) show "fst (snd (try_io m h s)) = fst s \<and> \<not> isl (fst (try_io m h s))"
    by (cases r; cases s') (simp_all add: try_io_def safe_backend_def)
qed

lemma safe_suppress: "backend_only m \<Longrightarrow> safe_backend (suppress m)"
  unfolding suppress_def by (rule safe_try) (simp_all add: backend_return)

lemma backend_tell_all: "backend_only (tell_all B calls)"
  by (induction calls) (simp_all add: backend_then backend_tell safe_backend_only backend_return)

lemma safe_metas:
  "safe_backend m \<Longrightarrow> safe_backend (fold (\<lambda>(k, v) m. then_io m (suppress (tell B (UpdateMeta k v)))) attrs m)"
  by (induction attrs arbitrary: m) (auto intro: safe_then safe_suppress backend_tell)

lemmas backend_rules = backend_then backend_tell backend_tell_all backend_return safe_backend_only [OF backend_return] safe_suppress

text \<open>The common frame of spans and generations: open, run, close one way or the other.\<close>

lemma framed_run:
  assumes "safe_backend opening" "\<And>b e. safe_backend (on_error b e)" "\<And>b. safe_backend (closing b)" "body w = (r, w')"
  shows "\<exists>c'. bind_io opening (\<lambda>opened.
      bind_io (try_io (on_program (bind_io body (\<lambda>x. return_io (Inr x))))
          (\<lambda>e. then_io (on_error opened e) (return_io (Inl e)))) (\<lambda>result.
      case result of Inl e \<Rightarrow> raise_io e | Inr x \<Rightarrow> then_io (closing opened) (return_io x))) (w, c) = (r, (w', c'))"
proof -
  obtain b c1 where o: "opening (w, c) = (Inr b, (w, c1))" by (rule safe_run [OF assms(1)])
  obtain u c3 where k: "closing b (w', c1) = (Inr u, (w', c3))" by (rule safe_run [OF assms(3)])
  show ?thesis
  proof (cases r)
    case (Inl x)
    obtain u c2 where "on_error b x (w', c1) = (Inr u, (w', c2))" by (rule safe_run [OF assms(2)])
    with Inl o assms(4) show ?thesis
      by (simp add: bind_io_def try_io_def on_program_def then_io_def return_io_def raise_io_def)
  next
    case (Inr x)
    with o k assms(4) show ?thesis
      by (simp add: bind_io_def try_io_def on_program_def then_io_def return_io_def)
  qed
qed

text \<open>C15: observability never disturbs the program. Whatever the telemetry backend does, fail at any call
  included, code run inside a span or a generation returns or raises exactly what it does alone and
  leaves the same state.\<close>

theorem spans_transparent:
  assumes "body w = (r, w')"
  shows "(\<exists>c'. span_io B name attrs trace body (w, c) = (r, (w', c')))
    \<and> (\<exists>c'. generation B name model inp attrs trace body (w, c) = (r, (w', c')))
    \<and> (\<exists>c'. traced B name body (w, c) = (r, (w', c')))"
proof -
  have "\<exists>c'. span_io B name as tr body (w, c) = (r, (w', c'))" for as tr
    unfolding span_io_def
    by (intro framed_run [where on_error = "\<lambda>b e. if b then suppress (then_io (tell B (UpdateError (str_exc e)))
            (tell B EndObservation)) else return_io ()"
          and closing = "\<lambda>b. if b then suppress (tell B EndObservation) else return_io ()"] assms)
      (auto intro!: safe_try backend_rules)
  moreover have "\<exists>c'. generation B name model inp attrs trace body (w, c) = (r, (w', c'))"
    unfolding generation_def
    by (intro framed_run [where on_error = "\<lambda>b e. if b then suppress (then_io (tell B (UpdateError (str_exc e)))
            (tell B EndObservation)) else return_io ()"
          and closing = "\<lambda>b. if b then suppress (then_io (tell B UpdateLatency) (tell B EndObservation)) else return_io ()"] assms)
      (auto intro!: safe_try safe_metas [THEN safe_backend_only] backend_rules)
  ultimately show ?thesis unfolding traced_def by blast
qed

text \<open>A backend that fails at every call, around code that counts.\<close>

definition broken_obs :: "unit obs" where
  "broken_obs = \<lparr>ob_config = (obs_from_env (\<lambda>_. None) (\<lambda>_. None) ''agent''), ob_client = True, ob_has_update = True,
     ob_call = (\<lambda>_. raise_io (ProviderError ''down''))\<rparr>"

theorem spans_transparent_witness:
  "\<exists>c'. span_io broken_obs ''policy.evaluate'' [] None (\<lambda>n :: nat. (Inr n, Suc n)) (4, ()) = (Inr 4, (5, c'))"
proof -
  show ?thesis
    using spans_transparent [of "\<lambda>n :: nat. (Inr n, Suc n)" 4 "Inr 4" 5 broken_obs "''policy.evaluate''" "[]" None "()"]
    by simp
qed

section \<open>What is exported\<close>

text \<open>A backend that records every call.\<close>

definition recording :: "tcall list obs \<Rightarrow> bool" where
  "recording B \<longleftrightarrow> ob_call B = (\<lambda>call c. (Inr (), c @ [call]))"

lemma tell_recording: "recording B \<Longrightarrow> tell B call (w, c) = (Inr (), (w, c @ [call]))"
  by (simp add: recording_def tell_def on_backend_def)

lemma tell_all_recording: "recording B \<Longrightarrow> tell_all B calls (w, c) = (Inr (), (w, c @ calls))"
  by (induction calls arbitrary: c) (simp_all add: tell_recording then_io_def bind_io_def return_io_def)

text \<open>The policy for free text: raw only where a field is opted in, scrubbed otherwise, or dropped. A status
  text is never opted in.\<close>

lemma capture_policy:
  "redact_for_export (Some v) field C =
     (if (field = ''prompt'' \<and> oc_log_raw_prompts C) \<or> (field = ''completion'' \<and> oc_log_raw_outputs C) then Some v
      else if oc_redact_pii C then Some (redact_text v) else None)"
  by (simp add: redact_for_export_def)

text \<open>C40: error texts bypass the capture policy. Whatever the configuration says about redaction, when code
  inside a recorded span raises, the text of the exception reaches the backend unredacted, although the
  policy would have scrubbed it or dropped it.\<close>

theorem error_text_exported_raw:
  assumes "recording B" "records_span B name" "body w = (Inl e, w')"
  shows "\<exists>calls. snd (snd (span_io B name attrs trace body (w, c))) = c @ calls @ [UpdateError (str_exc e), EndObservation]
    \<and> redact_for_export (Some (str_exc e)) ''status'' (ob_config B)
        = (if oc_redact_pii (ob_config B) then Some (redact_text (str_exc e)) else None)"
proof -
  define calls where "calls = StartSpan name (if truthy_text trace then trace else None) #
    (if ob_has_update B then map (\<lambda>(k, v). UpdateMeta k v) attrs else [])"
  have "snd (snd (span_io B name attrs trace body (w, c))) = c @ calls @ [UpdateError (str_exc e), EndObservation]"
    using assms
    by (simp add: span_io_def calls_def bind_io_def try_io_def then_io_def return_io_def raise_io_def on_program_def suppress_def
        tell_recording tell_all_recording)
  then show ?thesis by (auto simp: capture_policy)
qed

definition recording_obs :: "tcall list obs" where
  "recording_obs = \<lparr>ob_config = (obs_from_env (\<lambda>_. None) (\<lambda>_. None) ''agent''), ob_client = True, ob_has_update = True,
     ob_call = (\<lambda>call c. (Inr (), c @ [call]))\<rparr>"

lemma mail_redacted: "redact_text ''a@b.co'' = ''[REDACTED_EMAIL]''"
  by (simp add: redact_text_def PATTERNS_def EMAIL_RE_def PAN_RE_def SSN_RE_def PHONE_RE_def LONG_DIGITS_RE_def phone_sep_def
      rx_digits_def rx_char_def is_alnum_def any_of_def is_word_def is_digit_def word_boundary_def is_space_def Let_def numeral_eq_Suc)

theorem error_text_exported_raw_witness:
  "UpdateError ''a@b.co'' \<in> set (snd (snd (span_io recording_obs ''policy.evaluate'' [] None
      (\<lambda>u :: unit. (Inl (ValueError ''a@b.co'') :: exc + unit, u)) ((), []))))
   \<and> redact_for_export (Some ''a@b.co'') ''status'' (ob_config recording_obs)
     = Some ''[REDACTED_EMAIL]''"
proof -
  have r: "recording recording_obs" by (simp add: recording_def recording_obs_def)
  have s: "records_span recording_obs ''policy.evaluate''" by code_simp
  have "oc_redact_pii (ob_config recording_obs)" by code_simp
  then show ?thesis
    using error_text_exported_raw [OF r s, of "\<lambda>u :: unit. (Inl (ValueError ''a@b.co'') :: exc + unit, u)" "()" "ValueError ''a@b.co''" "()" "[]" None "[]"]
      mail_redacted
    by auto
qed

section \<open>The trace context survives an envelope\<close>

lemma chop_plain: "s \<noteq> [] \<Longrightarrow> last s \<noteq> CHR 0x0A \<Longrightarrow> chop_newline s = s"
  by (simp add: chop_newline_def)

text \<open>Trace contexts survive the envelope. Every carrier with a well-formed traceparent is read back
  unchanged from the envelope it was written to; its trace and span identifiers are those it was made of;
  a carrier whose traceparent is malformed is read back as no context.\<close>

theorem trace_context_roundtrip:
  "(match_traceparent (tc_traceparent c) \<noteq> None \<longrightarrow> from_envelope_dict (Some (to_envelope_dict c)) = Some c)
   \<and> (match_traceparent (tc_traceparent c) = None \<longrightarrow> from_envelope_dict (Some (to_envelope_dict c)) = None)
   \<and> (length v = 2 \<and> length t = 32 \<and> length s = 16 \<and> length f = 2 \<and> list_all lower_hex (v @ t @ s @ f)
      \<and> tc_traceparent c = v @ ''-'' @ t @ ''-'' @ s @ ''-'' @ f
      \<longrightarrow> trace_id c = Some t \<and> span_id c = Some s)"
proof (intro conjI impI)
  assume m: "match_traceparent (tc_traceparent c) \<noteq> None"
  then have "tc_traceparent c \<noteq> []" by (auto simp: match_traceparent_def chop_newline_def Let_def)
  with m show "from_envelope_dict (Some (to_envelope_dict c)) = Some c"
    by (auto simp: from_envelope_dict_def to_envelope_dict_def Let_def split: option.split)
next
  assume "match_traceparent (tc_traceparent c) = None"
  then show "from_envelope_dict (Some (to_envelope_dict c)) = None"
    by (simp add: from_envelope_dict_def to_envelope_dict_def Let_def)
next
  assume *: "length v = 2 \<and> length t = 32 \<and> length s = 16 \<and> length f = 2 \<and> list_all lower_hex (v @ t @ s @ f)
      \<and> tc_traceparent c = v @ ''-'' @ t @ ''-'' @ s @ ''-'' @ f"
  let ?p = "v @ ''-'' @ t @ ''-'' @ s @ ''-'' @ f"
  have "f \<noteq> []" using * by auto
  then have "f \<noteq> []" "lower_hex (last f)" using * last_in_set by (auto simp: list_all_iff)
  moreover have "\<not> lower_hex CHR 0x0A" by code_simp
  ultimately have "chop_newline ?p = ?p" by (intro chop_plain) auto
  then have "match_traceparent ?p = Some (t, s)" using *
    by (simp add: match_traceparent_def Let_def nth_append)
  then show "trace_id c = Some t" "span_id c = Some s" using * by (simp_all add: trace_id_def span_id_def)
qed

theorem trace_context_roundtrip_witness:
  "trace_id \<lparr>tc_traceparent = ''00-'' @ replicate 32 CHR ''a'' @ ''-'' @ replicate 16 CHR ''b'' @ ''-01'', tc_tracestate = None\<rparr>
     = Some (replicate 32 CHR ''a'')
   \<and> from_envelope_dict (Some (to_envelope_dict
       \<lparr>tc_traceparent = ''00-'' @ replicate 32 CHR ''a'' @ ''-'' @ replicate 16 CHR ''b'' @ ''-01'', tc_tracestate = None\<rparr>)) \<noteq> None"
proof -
  let ?c = "\<lparr>tc_traceparent = ''00-'' @ replicate 32 CHR ''a'' @ ''-'' @ replicate 16 CHR ''b'' @ ''-01'', tc_tracestate = None\<rparr>"
  have "list_all lower_hex (''00'' @ replicate 32 CHR ''a'' @ replicate 16 CHR ''b'' @ ''01'')" by code_simp
  then have t: "trace_id ?c = Some (replicate 32 CHR ''a'')"
    using trace_context_roundtrip [of ?c "''00''" "replicate 32 CHR ''a''" "replicate 16 CHR ''b''" "''01''"] by simp
  then have "match_traceparent (tc_traceparent ?c) \<noteq> None" by (auto simp: trace_id_def)
  with trace_context_roundtrip [of ?c] t show ?thesis by blast
qed

section \<open>Two readers of one switch\<close>

text \<open>\<^verbatim>\<open>REDACT_PII\<close> is read twice. The assistive runtime redacts only for the words of agreement, the observability
  layer unless a word of refusal is given; they differ exactly on every other text, where only the
  observability layer redacts.\<close>

lemma switched_off_exclusive: "parse_bool v \<Longrightarrow> \<not> switched_off v"
proof
  assume p: "parse_bool v" and o: "switched_off v"
  have "\<forall>t \<in> {''false'', ''0'', ''no''}. py_strip t \<notin> {''true'', ''1'', ''yes''}" by code_simp
  then show False using p o by (auto simp: parse_bool_def switched_off_def)
qed

lemma redact_readers_differ:
  assumes "config_from_env float_of environ = Inr rc" "v = env_or environ ''REDACT_PII'' ''true''"
  shows "cf_redact_pii rc \<noteq> oc_redact_pii (obs_from_env float_of environ agent) \<longleftrightarrow> \<not> parse_bool v \<and> \<not> switched_off v"
proof -
  have "cf_redact_pii rc = parse_bool v"
    using assms by (auto simp: config_from_env_def Let_def bind_exc_def split: option.splits sum.splits if_splits)
  moreover have "oc_redact_pii (obs_from_env float_of environ agent) = (\<not> switched_off v)"
    using assms(2) by (simp add: obs_from_env_def Let_def)
  ultimately show ?thesis using switched_off_exclusive by auto
qed

end
