(* ===== verification/Case_Trace.thy ===== *)
theory Case_Trace
  imports Case_Store Transport "HOL-Library.Multiset"
begin

text \<open>
  The causal trace of a case, \<^verbatim>\<open>apps/agents/customer_resolution/trace.py\<close>: the envelopes of one
  correlation are ordered breadth-first along the causation chain, starting from the roots; a cause
  that names an A2A task is resolved to the request that carries the task. What cannot be reached is
  appended in the order of time.
\<close>

section \<open>Reading payloads\<close>

definition extract_outcome :: "EventEnvelope \<Rightarrow> string option" where
  "extract_outcome e =
     (case dict_get (en_payload e) ''outcome'' of
        None \<Rightarrow> None | Some VNone \<Rightarrow> None | Some v \<Rightarrow> Some (py_str v))"

definition extract_task_id :: "EventEnvelope \<Rightarrow> uuid option" where
  "extract_task_id e =
     (case dict_get (en_payload e) ''task_id'' of
        None \<Rightarrow> None | Some VNone \<Rightarrow> None | Some v \<Rightarrow> parse_uuid (py_str v))"

section \<open>The trace\<close>

record TraceStep =
  sp_seq :: nat
  sp_actor :: string
  sp_correlation_id :: uuid
  sp_event_type :: string
  sp_outcome :: "string option"
  sp_task_id :: "uuid option"
  sp_timestamp :: instant
  sp_caused_by :: "uuid option"
  sp_parent_event_id :: "uuid option"

text \<open>The first request of each task, in the order of the envelopes.\<close>

definition request_eid_by_task :: "EventEnvelope list \<Rightarrow> uuid \<Rightarrow> uuid option" where
  "request_eid_by_task relevant tid =
     map_option en_event_id
       (find (\<lambda>e. py_in ''task_request'' (en_event_type e) \<and> extract_task_id e = Some tid) relevant)"

definition resolve_parent :: "EventEnvelope list \<Rightarrow> EventEnvelope \<Rightarrow> uuid option" where
  "resolve_parent relevant env =
     (case en_causation_id env of
        None \<Rightarrow> None
      | Some cb \<Rightarrow> if cb \<in> en_event_id ` set relevant then Some cb else request_eid_by_task relevant cb)"

definition trace_roots :: "EventEnvelope list \<Rightarrow> EventEnvelope list" where
  "trace_roots relevant =
     (let roots = filter (\<lambda>e. en_causation_id e = None) relevant
      in sort_key en_timestamp (if roots = [] then [hd (sort_key en_timestamp relevant)] else roots))"

definition trace_children :: "EventEnvelope list \<Rightarrow> uuid \<Rightarrow> EventEnvelope list" where
  "trace_children relevant p = sort_key en_timestamp (filter (\<lambda>e. resolve_parent relevant e = Some p) relevant)"

lemma set_trace_children: "set (trace_children relevant p) = {e \<in> set relevant. resolve_parent relevant e = Some p}"
  by (auto simp: trace_children_def)

text \<open>Every turn either shortens the queue or visits one more of finitely many identifiers.\<close>

function bfs :: "EventEnvelope list \<Rightarrow> EventEnvelope list \<Rightarrow> uuid set \<Rightarrow> EventEnvelope list" where
  "bfs relevant [] visited = []"
| "bfs relevant (env # queue) visited =
     (if en_event_id env \<in> visited then bfs relevant queue visited
      else let visited' = insert (en_event_id env) visited in
           env # bfs relevant
                   (queue @ filter (\<lambda>c. en_event_id c \<notin> visited') (trace_children relevant (en_event_id env))) visited')"
  by pat_completeness auto

termination
proof (relation "measures [\<lambda>(r, q, v). card (en_event_id ` (set r \<union> set q) - v), \<lambda>(r, q, v). length q]")
  fix relevant queue :: "EventEnvelope list" and env :: EventEnvelope and visited :: "uuid set"
  assume "en_event_id env \<in> visited"
  then have "en_event_id ` (set relevant \<union> set queue) - visited
      = en_event_id ` (set relevant \<union> set (env # queue)) - visited" by auto
  then show "((relevant, queue, visited), relevant, env # queue, visited)
    \<in> measures [\<lambda>(r, q, v). card (en_event_id ` (set r \<union> set q) - v), \<lambda>(r, q, v). length q]" by simp
next
  fix relevant queue :: "EventEnvelope list" and env :: EventEnvelope and visited x :: "uuid set"
  assume n: "en_event_id env \<notin> visited" and x: "x = insert (en_event_id env) visited"
  let ?q = "queue @ filter (\<lambda>c. en_event_id c \<notin> x) (trace_children relevant (en_event_id env))"
  have "en_event_id ` (set relevant \<union> set ?q) - x \<subset> en_event_id ` (set relevant \<union> set (env # queue)) - visited"
    using n by (auto simp: x set_trace_children)
  then have "card (en_event_id ` (set relevant \<union> set ?q) - x)
      < card (en_event_id ` (set relevant \<union> set (env # queue)) - visited)"
    by (intro psubset_card_mono) auto
  then show "((relevant, ?q, x), relevant, env # queue, visited)
    \<in> measures [\<lambda>(r, q, v). card (en_event_id ` (set r \<union> set q) - v), \<lambda>(r, q, v). length q]" by simp
qed simp

definition trace_order :: "EventEnvelope list \<Rightarrow> EventEnvelope list" where
  "trace_order relevant =
     (let ordered = bfs relevant (trace_roots relevant) {};
          orphans = filter (\<lambda>e. en_event_id e \<notin> en_event_id ` set ordered) relevant
      in ordered @ sort_key en_timestamp orphans)"

definition trace_step :: "EventEnvelope list \<Rightarrow> nat \<Rightarrow> EventEnvelope \<Rightarrow> TraceStep" where
  "trace_step relevant n env =
     \<lparr>sp_seq = n, sp_actor = en_agent_id env, sp_correlation_id = en_correlation_id env,
      sp_event_type = en_event_type env, sp_outcome = extract_outcome env, sp_task_id = extract_task_id env,
      sp_timestamp = en_timestamp env, sp_caused_by = en_causation_id env,
      sp_parent_event_id =
        (case find (\<lambda>e. en_event_id e = en_event_id env) (rev relevant) of
           None \<Rightarrow> None | Some e \<Rightarrow> resolve_parent relevant e)\<rparr>"

definition case_envelopes :: "uuid \<Rightarrow> EventEnvelope list \<Rightarrow> EventEnvelope list" where
  "case_envelopes correlation_id envelopes = filter (\<lambda>e. en_correlation_id e = correlation_id) envelopes"

definition trace_case :: "uuid \<Rightarrow> EventEnvelope list \<Rightarrow> TraceStep list" where
  "trace_case correlation_id envelopes =
     (let relevant = case_envelopes correlation_id envelopes in
      if relevant = [] then []
      else map (\<lambda>(n, env). trace_step relevant n env) (enumerate 1 (trace_order relevant)))"

section \<open>Facts about the search\<close>

lemma bfs_unvisited: "e \<in> set (bfs relevant q v) \<Longrightarrow> en_event_id e \<notin> v"
proof (induction relevant q v rule: bfs.induct)
  case (2 relevant env queue visited)
  then show ?case by (cases "en_event_id env \<in> visited") (auto simp: Let_def)
qed simp

lemma bfs_distinct: "distinct (map en_event_id (bfs relevant q v))"
proof (induction relevant q v rule: bfs.induct)
  case (2 relevant env queue visited)
  then show ?case
    by (cases "en_event_id env \<in> visited") (auto simp: Let_def dest!: bfs_unvisited)
qed simp

lemma bfs_subset: "set (bfs relevant q v) \<subseteq> set q \<union> set relevant"
  by (induction relevant q v rule: bfs.induct) (auto simp: Let_def set_trace_children)

text \<open>An element of the search comes from the queue or after its parent.\<close>

lemma bfs_causal:
  "i < length (bfs relevant q v) \<Longrightarrow>
     bfs relevant q v ! i \<in> set q
     \<or> (\<exists>j < i. resolve_parent relevant (bfs relevant q v ! i) = Some (en_event_id (bfs relevant q v ! j)))"
proof (induction relevant q v arbitrary: i rule: bfs.induct)
  case (2 relevant env queue visited)
  show ?case
  proof (cases "en_event_id env \<in> visited")
    case True
    with 2 show ?thesis by auto
  next
    case False
    show ?thesis
    proof (cases i)
      case 0
      with False show ?thesis by (simp add: Let_def)
    next
      case (Suc k)
      with 2 False show ?thesis by (fastforce simp: Let_def set_trace_children)
    qed
  qed
qed simp

text \<open>The identifiers of the queue are all visited in the end.\<close>

lemma bfs_covers: "en_event_id ` set q \<subseteq> v \<union> en_event_id ` set (bfs relevant q v)"
  by (induction relevant q v rule: bfs.induct) (auto simp: Let_def)

lemma bfs_closed:
  "env \<in> set (bfs relevant q v) \<Longrightarrow> c \<in> set relevant \<Longrightarrow> resolve_parent relevant c = Some (en_event_id env)
     \<Longrightarrow> en_event_id c \<in> v \<union> en_event_id ` set (bfs relevant q v)"
proof (induction relevant q v rule: bfs.induct)
  case (2 relevant x queue visited)
  show ?case
  proof (cases "en_event_id x \<in> visited")
    case True
    with 2 show ?thesis by simp
  next
    case False
    let ?v = "insert (en_event_id x) visited"
    let ?q = "queue @ filter (\<lambda>c. en_event_id c \<notin> ?v) (trace_children relevant (en_event_id x))"
    have "bfs relevant (x # queue) visited = x # bfs relevant ?q ?v" using False by (simp add: Let_def)
    moreover have "en_event_id c \<in> ?v \<union> en_event_id ` set (bfs relevant ?q ?v)" if "env = x"
    proof (cases "en_event_id c \<in> ?v")
      case f: False
      then have "c \<in> set ?q" using 2 that by (simp add: set_trace_children)
      then show ?thesis using bfs_covers by (metis image_eqI in_mono)
    qed blast
    ultimately show ?thesis using 2(2)[OF False refl] 2(3-) by auto
  qed
qed simp

text \<open>What the roots cause, directly or through others.\<close>

inductive caused :: "EventEnvelope list \<Rightarrow> EventEnvelope \<Rightarrow> bool" for relevant where
  root: "e \<in> set relevant \<Longrightarrow> en_causation_id e = None \<Longrightarrow> caused relevant e"
| effect: "caused relevant e \<Longrightarrow> c \<in> set relevant \<Longrightarrow> resolve_parent relevant c = Some (en_event_id e)
     \<Longrightarrow> caused relevant c"

lemma caused_in: "caused relevant e \<Longrightarrow> e \<in> set relevant"
  by (induction rule: caused.induct) auto

lemma set_trace_roots: "relevant \<noteq> [] \<Longrightarrow> set (trace_roots relevant) \<subseteq> set relevant"
proof (cases "filter (\<lambda>e. en_causation_id e = None) relevant = []")
  case True
  assume "relevant \<noteq> []"
  then have "sort_key en_timestamp relevant \<noteq> []" by (metis mset_sort mset_zero_iff)
  then have "hd (sort_key en_timestamp relevant) \<in> set relevant" by (metis hd_in_set set_sort)
  then show ?thesis using True by (simp add: trace_roots_def)
qed (auto simp: trace_roots_def)

lemma trace_roots_root: "e \<in> set relevant \<Longrightarrow> en_causation_id e = None \<Longrightarrow> e \<in> set (trace_roots relevant)"
  by (auto simp: trace_roots_def filter_empty_conv)

lemma trace_roots_causeless:
  "caused relevant c \<Longrightarrow> e \<in> set (trace_roots relevant) \<Longrightarrow> en_causation_id e = None"
proof (induction rule: caused.induct)
  case (root c)
  then have "filter (\<lambda>e. en_causation_id e = None) relevant \<noteq> []" by (auto simp: filter_empty_conv)
  with root show ?case by (auto simp: trace_roots_def)
qed

lemma caused_reached:
  "caused relevant e \<Longrightarrow> en_event_id e \<in> en_event_id ` set (bfs relevant (trace_roots relevant) {})"
proof (induction rule: caused.induct)
  case (root e)
  then have "e \<in> set (trace_roots relevant)" by (rule trace_roots_root)
  then show ?case using bfs_covers [of "trace_roots relevant" "{}" relevant] by auto
next
  case (effect e c)
  then obtain x where "x \<in> set (bfs relevant (trace_roots relevant) {})" "en_event_id x = en_event_id e" by auto
  then show ?case using bfs_closed [of x relevant _ "{}" c] effect by simp
qed

lemma same_id: "distinct (map f xs) \<Longrightarrow> x \<in> set xs \<Longrightarrow> y \<in> set xs \<Longrightarrow> f x = f y \<Longrightarrow> x = y"
  by (auto simp: distinct_map inj_on_def)

text \<open>With distinct identifiers the order is a rearrangement of the envelopes.\<close>

lemma mset_trace_order:
  assumes "relevant \<noteq> []" and d: "distinct (map en_event_id relevant)"
  shows "mset (trace_order relevant) = mset relevant"
proof -
  let ?o = "bfs relevant (trace_roots relevant) {}"
  have sub: "set ?o \<subseteq> set relevant" using bfs_subset set_trace_roots [OF assms(1)] by blast
  have dr: "distinct relevant" using d by (simp add: distinct_map)
  have "distinct ?o" using bfs_distinct [of relevant "trace_roots relevant" "{}"] by (simp add: distinct_map)
  then have "distinct (trace_order relevant)" using dr by (auto simp: trace_order_def Let_def)
  moreover have "en_event_id e \<in> en_event_id ` set ?o \<longleftrightarrow> e \<in> set ?o" if "e \<in> set relevant" for e
    using that sub same_id [OF d] by blast
  then have "set (trace_order relevant) = set relevant" using sub by (auto simp: trace_order_def Let_def)
  ultimately show ?thesis using dr by (simp add: set_eq_iff_mset_eq_distinct)
qed

lemma trace_step_seq: "sp_seq (trace_step r n e) = n"
  and trace_step_reset: "(trace_step r n e)\<lparr>sp_seq := m\<rparr> = trace_step r m e"
  by (simp_all add: trace_step_def)

lemma trace_step_parent:
  assumes "distinct (map en_event_id r)" and "e \<in> set r"
  shows "sp_parent_event_id (trace_step r n e) = resolve_parent r e"
proof -
  let ?f = "find (\<lambda>x. en_event_id x = en_event_id e) (rev r)"
  have "?f \<noteq> None" using assms(2) by (auto simp: find_None_iff)
  then obtain x where x: "?f = Some x" by blast
  then have "x \<in> set r \<and> en_event_id x = en_event_id e" unfolding find_Some_iff by (metis nth_mem set_rev)
  then have "x = e" using same_id [OF assms(1)] assms(2) by blast
  with x show ?thesis by (simp add: trace_step_def)
qed

section \<open>What the trace shows\<close>

definition sample_event :: "uuid \<Rightarrow> uuid option \<Rightarrow> string \<Rightarrow> instant \<Rightarrow> (string, pyval) dict \<Rightarrow> EventEnvelope" where
  "sample_event eid cause etype stamp payload = \<lparr>en_event_id = eid, en_correlation_id = 5, en_causation_id = cause,
     en_agent_id = ''customer-resolution'', en_tenant_id = ''poc'', en_timestamp = stamp, en_event_type = etype,
     en_schema_version = ''1.0.0'', en_trace_context = None, en_payload = payload\<rparr>"

text \<open>A ticket, the request it caused, and the result, which names the task of the request as its cause.
  The result carries the earliest time stamp.\<close>

definition chain_ticket :: EventEnvelope where
  "chain_ticket = sample_event 1 None ''local.support.ticket.created.v1'' 2 []"

definition chain_request :: EventEnvelope where
  "chain_request = sample_event 2 (Some 1) ''agent.task_request.v1'' 3 [(''task_id'', VStr (show_uuid 77))]"

definition chain_result :: EventEnvelope where
  "chain_result = sample_event 3 (Some 77) ''local.billing.refund-analysis.completed.v1'' 1 []"

definition sample_chain :: "EventEnvelope list" where
  "sample_chain = [chain_result, chain_ticket, chain_request]"

lemma trace_case_order:
  "case_envelopes c es \<noteq> [] \<Longrightarrow>
     trace_case c es = map (\<lambda>(n, e). trace_step (case_envelopes c es) n e)
       (enumerate 1 (trace_order (case_envelopes c es)))"
  by (simp add: trace_case_def Let_def)

lemma trace_case_nth:
  "j < length (trace_order (case_envelopes c es)) \<Longrightarrow> case_envelopes c es \<noteq> [] \<Longrightarrow>
     trace_case c es ! j = trace_step (case_envelopes c es) (Suc j) (trace_order (case_envelopes c es) ! j)"
  by (simp add: trace_case_order nth_enumerate_eq)

text \<open>One step for every envelope. When the envelopes of a case have distinct identifiers, the
  trace numbers its steps 1, 2, 3 and so on, and apart from the numbers it holds exactly one step for
  every envelope of the case, and none for another case.\<close>

theorem trace_one_step_each:
  assumes d: "distinct (map en_event_id (case_envelopes c es))"
  shows "map sp_seq (trace_case c es) = [1..<Suc (length (case_envelopes c es))]
    \<and> mset (map (\<lambda>s. s\<lparr>sp_seq := 0\<rparr>) (trace_case c es))
        = mset (map (trace_step (case_envelopes c es) 0) (case_envelopes c es))"
proof (cases "case_envelopes c es = []")
  case True
  then show ?thesis by (simp add: trace_case_def)
next
  case False
  let ?r = "case_envelopes c es"
  have m: "mset (trace_order ?r) = mset ?r" using False d by (rule mset_trace_order)
  then have l: "length (trace_order ?r) = length ?r" by (rule mset_eq_length)
  have "map sp_seq (trace_case c es) = map fst (enumerate 1 (trace_order ?r))"
    by (simp add: trace_case_order False trace_step_seq case_prod_beta comp_def)
  moreover have "map (\<lambda>s. s\<lparr>sp_seq := 0\<rparr>) (trace_case c es) = map (trace_step ?r 0 \<circ> snd) (enumerate 1 (trace_order ?r))"
    by (simp add: trace_case_order False trace_step_reset case_prod_beta comp_def)
  moreover have "\<dots> = map (trace_step ?r 0) (trace_order ?r)" by (simp flip: map_map)
  ultimately show ?thesis by (simp add: l m)
qed

theorem trace_one_step_each_witness:
  "map sp_seq (trace_case 5 sample_chain) = [1..<Suc (length (case_envelopes 5 sample_chain))]
    \<and> length (case_envelopes 5 sample_chain) = 3"
proof -
  have "distinct (map en_event_id (case_envelopes 5 sample_chain))" "length (case_envelopes 5 sample_chain) = 3"
    by code_simp+
  then show ?thesis using trace_one_step_each by blast
qed

text \<open>Causes come first. Whatever descends from a root of the case, through event identifiers or
  through the task a request carries, is listed after the envelope that caused it, whatever the time
  stamps say, and its step names that envelope as its parent.\<close>

theorem trace_causes_first:
  assumes d: "distinct (map en_event_id (case_envelopes c es))"
    and e: "caused (case_envelopes c es) e"
    and p: "resolve_parent (case_envelopes c es) e = Some p"
  shows "\<exists>i j. i < j \<and> j < length (trace_order (case_envelopes c es))
    \<and> en_event_id (trace_order (case_envelopes c es) ! i) = p \<and> trace_order (case_envelopes c es) ! j = e
    \<and> trace_case c es ! j = trace_step (case_envelopes c es) (Suc j) e
    \<and> sp_parent_event_id (trace_case c es ! j) = Some p"
proof -
  let ?r = "case_envelopes c es" and ?o = "bfs (case_envelopes c es) (trace_roots (case_envelopes c es)) {}"
  have er: "e \<in> set ?r" using e by (rule caused_in)
  then have ne: "?r \<noteq> []" by auto
  obtain x where x: "x \<in> set ?o" "en_event_id x = en_event_id e" using caused_reached [OF e] by auto
  moreover have "set ?o \<subseteq> set ?r" using bfs_subset set_trace_roots [OF ne] by blast
  ultimately have "e \<in> set ?o" using same_id [OF d _ er] by blast
  then obtain j where j: "j < length ?o" "?o ! j = e" by (auto simp: in_set_conv_nth)
  have "e \<notin> set (trace_roots ?r)" using trace_roots_causeless [OF e] p by (auto simp: resolve_parent_def)
  then obtain i where i: "i < j" "en_event_id (?o ! i) = p" using bfs_causal [OF j(1)] j(2) p by auto
  have pre: "k < length ?o \<Longrightarrow> trace_order ?r ! k = ?o ! k \<and> k < length (trace_order ?r)" for k
    by (simp add: trace_order_def Let_def nth_append)
  have "trace_case c es ! j = trace_step ?r (Suc j) e" using trace_case_nth [OF _ ne, of j] pre [OF j(1)] j by simp
  moreover have "sp_parent_event_id (trace_step ?r (Suc j) e) = Some p" using trace_step_parent [OF d er] p by simp
  moreover have "trace_order ?r ! i = ?o ! i" "trace_order ?r ! j = ?o ! j" "j < length (trace_order ?r)"
    using pre [of i] pre [of j] i(1) j(1) by simp_all
  ultimately show ?thesis using i j(2) by (intro exI [of _ i] exI [of _ j]) simp
qed

theorem trace_causes_first_witness:
  "\<exists>i j. i < j \<and> j < length (trace_order (case_envelopes 5 sample_chain))
    \<and> en_event_id (trace_order (case_envelopes 5 sample_chain) ! i) = 2
    \<and> trace_order (case_envelopes 5 sample_chain) ! j = chain_result"
proof -
  let ?r = "case_envelopes 5 sample_chain"
  have r: "?r = [chain_result, chain_ticket, chain_request]" by code_simp
  have d: "distinct (map en_event_id ?r)" by code_simp
  have p: "resolve_parent ?r chain_request = Some (en_event_id chain_ticket)"
    "resolve_parent ?r chain_result = Some (en_event_id chain_request)" by code_simp+
  have "caused ?r chain_ticket" by (rule caused.root) (simp_all add: r chain_ticket_def sample_event_def)
  then have "caused ?r chain_request" by (rule caused.effect [OF _ _ p(1)]) (simp add: r)
  then have "caused ?r chain_result" by (rule caused.effect [OF _ _ p(2)]) (simp add: r)
  from trace_causes_first [OF d this p(2)] show ?thesis by (auto simp: chain_request_def sample_event_def)
qed

end
