(* ===== verification/Demo_Views.thy ===== *)
theory Demo_Views
  imports Case_Trace
begin

text \<open>
  The read side of the demo user interface: the audit stream across cases
  (\<^verbatim>\<open>apps/demo_ui/event_stream.py\<close>, \<^verbatim>\<open>views/stream_view.py\<close>) and the causal timeline of one case
  (\<^verbatim>\<open>apps/demo_ui/timeline.py\<close>). Both work on the audit records read from the broker; a read that fails
  is the value \<open>Inl\<close>.
\<close>

definition outcome_text :: "audit_outcome \<Rightarrow> string" where
  "outcome_text o' = (case o' of Accepted \<Rightarrow> ''accepted'' | AuditRejected \<Rightarrow> ''rejected''
     | DuplicateSkipped \<Rightarrow> ''duplicate_skipped'' | AuditCompleted \<Rightarrow> ''completed'' | AuditFailed \<Rightarrow> ''failed'')"

text \<open>\<^verbatim>\<open>if text:\<close> of an optional text.\<close>

definition given :: "string option \<Rightarrow> bool" where
  "given s \<longleftrightarrow> (case s of None \<Rightarrow> False | Some t \<Rightarrow> t \<noteq> [])"

section \<open>The audit stream\<close>

record StreamEvent =
  se_event_id :: uuid
  se_correlation_id :: uuid
  se_agent_id :: string
  se_event_type :: string
  se_outcome :: "string option"
  se_reason :: "string option"
  se_timestamp :: instant

record StreamView =
  sv_events :: "StreamEvent list"
  sv_filter_agent :: "string option"
  sv_filter_event_type :: "string option"
  sv_filter_correlation_id :: "uuid option"

definition stream_event :: "AuditPayload \<Rightarrow> StreamEvent" where
  "stream_event rec =
     (let env = au_original_envelope rec in
      \<lparr>se_event_id = en_event_id env, se_correlation_id = en_correlation_id env, se_agent_id = en_agent_id env,
       se_event_type = en_event_type env, se_outcome = Some (outcome_text (au_outcome rec)),
       se_reason = au_reason rec, se_timestamp = en_timestamp env\<rparr>)"

text \<open>The loop over the records with the set of identifiers seen.\<close>

fun dedup_events :: "uuid set \<Rightarrow> AuditPayload list \<Rightarrow> StreamEvent list" where
  "dedup_events seen [] = []"
| "dedup_events seen (rec # recs) =
     (if en_event_id (au_original_envelope rec) \<in> seen then dedup_events seen recs
      else stream_event rec # dedup_events (insert (en_event_id (au_original_envelope rec)) seen) recs)"

text \<open>A stable sort by descending time stamp.\<close>

definition newest_first :: "StreamEvent list \<Rightarrow> StreamEvent list" where
  "newest_first events = sort_key (\<lambda>e. - se_timestamp e) events"

definition build_stream_from_records ::
  "AuditPayload list \<Rightarrow> string option \<Rightarrow> string option \<Rightarrow> uuid option \<Rightarrow> StreamView" where
  "build_stream_from_records records filter_agent filter_event_type filter_correlation_id =
     (let events = newest_first (dedup_events {} records);
          events = (if given filter_agent then filter (\<lambda>e. Some (se_agent_id e) = filter_agent) events else events);
          events = (if given filter_event_type then filter (\<lambda>e. Some (se_event_type e) = filter_event_type) events else events);
          events = (if filter_correlation_id \<noteq> None then filter (\<lambda>e. Some (se_correlation_id e) = filter_correlation_id) events
                    else events)
      in \<lparr>sv_events = events, sv_filter_agent = filter_agent, sv_filter_event_type = filter_event_type,
          sv_filter_correlation_id = filter_correlation_id\<rparr>)"

definition build_stream ::
  "exc + AuditPayload list \<Rightarrow> string option \<Rightarrow> string option \<Rightarrow> uuid option \<Rightarrow> StreamView" where
  "build_stream read filter_agent filter_event_type filter_correlation_id =
     build_stream_from_records (case read of Inl _ \<Rightarrow> [] | Inr records \<Rightarrow> records)
       filter_agent filter_event_type filter_correlation_id"

text \<open>The view filters the cached, unfiltered stream in memory.\<close>

definition live_stream :: "StreamView \<Rightarrow> string option \<Rightarrow> string option \<Rightarrow> uuid option \<Rightarrow> StreamView" where
  "live_stream view filter_agent filter_event_type cid =
     \<lparr>sv_events = filter (\<lambda>e. (\<not> given filter_agent \<or> Some (se_agent_id e) = filter_agent)
          \<and> (\<not> given filter_event_type \<or> Some (se_event_type e) = filter_event_type)
          \<and> (cid = None \<or> Some (se_correlation_id e) = cid)) (sv_events view),
      sv_filter_agent = filter_agent, sv_filter_event_type = filter_event_type, sv_filter_correlation_id = cid\<rparr>"

section \<open>The timeline of a case\<close>

record TimelineEntry =
  tl_seq :: nat
  tl_actor :: string
  tl_event_type :: string
  tl_outcome :: "string option"
  tl_reason :: "string option"
  tl_timestamp :: instant
  tl_caused_by :: "uuid option"
  tl_task_id :: "uuid option"
  tl_is_orphan :: bool

record TimelineView =
  tv_correlation_id :: uuid
  tv_entries :: "TimelineEntry list"
  tv_found :: bool

type_synonym step_key = "string \<times> instant \<times> string \<times> uuid option"

definition envelope_key :: "EventEnvelope \<Rightarrow> step_key" where
  "envelope_key e = (en_event_type e, en_timestamp e, en_agent_id e, en_causation_id e)"

definition trace_step_key :: "TraceStep \<Rightarrow> step_key" where
  "trace_step_key s = (sp_event_type s, sp_timestamp s, sp_actor s, sp_caused_by s)"

definition env_by_id :: "AuditPayload list \<Rightarrow> (uuid, EventEnvelope) dict" where
  "env_by_id records =
     fold (\<lambda>rec d. dict_set (en_event_id (au_original_envelope rec)) (au_original_envelope rec) d) records []"

definition audit_by_id :: "AuditPayload list \<Rightarrow> (uuid, AuditPayload) dict" where
  "audit_by_id records = fold (\<lambda>rec d. dict_set (en_event_id (au_original_envelope rec)) rec d) records []"

definition id_by_key :: "EventEnvelope list \<Rightarrow> (step_key, uuid) dict" where
  "id_by_key envelopes = fold (\<lambda>e d. dict_set (envelope_key e) (en_event_id e) d) envelopes []"

definition timeline_entry :: "(step_key, uuid) dict \<Rightarrow> (uuid, AuditPayload) dict \<Rightarrow> TraceStep \<Rightarrow> TimelineEntry" where
  "timeline_entry ids audits step =
     (let audit = Option.bind (dict_get ids (trace_step_key step)) (dict_get audits) in
      \<lparr>tl_seq = sp_seq step, tl_actor = sp_actor step, tl_event_type = sp_event_type step,
       tl_outcome = (case audit of Some a \<Rightarrow> Some (outcome_text (au_outcome a)) | None \<Rightarrow> sp_outcome step),
       tl_reason = (case audit of Some a \<Rightarrow> au_reason a | None \<Rightarrow> None),
       tl_timestamp = sp_timestamp step, tl_caused_by = sp_caused_by step, tl_task_id = sp_task_id step,
       tl_is_orphan = (sp_caused_by step \<noteq> None \<and> sp_parent_event_id step = None)\<rparr>)"

definition build_timeline_from_records :: "uuid \<Rightarrow> AuditPayload list \<Rightarrow> TimelineView" where
  "build_timeline_from_records correlation_id records =
     (if records = [] then \<lparr>tv_correlation_id = correlation_id, tv_entries = [], tv_found = False\<rparr>
      else let envelopes = map snd (env_by_id records) in
        \<lparr>tv_correlation_id = correlation_id,
         tv_entries = map (timeline_entry (id_by_key envelopes) (audit_by_id records)) (trace_case correlation_id envelopes),
         tv_found = True\<rparr>)"

definition build_timeline :: "exc + AuditPayload list \<Rightarrow> uuid \<Rightarrow> TimelineView" where
  "build_timeline read correlation_id =
     build_timeline_from_records correlation_id
       (case read of Inl _ \<Rightarrow> [] | Inr records \<Rightarrow> query_by_correlation records correlation_id)"

section \<open>What the stream shows\<close>

text \<open>The first audit record of an event, and the last.\<close>

definition first_audit :: "AuditPayload list \<Rightarrow> uuid \<Rightarrow> AuditPayload option" where
  "first_audit records i = find (\<lambda>r. en_event_id (au_original_envelope r) = i) records"

definition last_audit :: "AuditPayload list \<Rightarrow> uuid \<Rightarrow> AuditPayload option" where
  "last_audit records i = first_audit (rev records) i"

lemma stream_event_id [simp]: "se_event_id (stream_event r) = en_event_id (au_original_envelope r)"
  by (simp add: stream_event_def Let_def)

lemma set_dedup:
  "e \<in> set (dedup_events seen rs) \<longleftrightarrow> se_event_id e \<notin> seen \<and> map_option stream_event (first_audit rs (se_event_id e)) = Some e"
proof (induction rs arbitrary: seen)
  case (Cons r rs)
  show ?case
    by (cases "en_event_id (au_original_envelope r) = se_event_id e")
      (auto simp: Cons first_audit_def simp del: map_option_eq_Some)
qed (simp add: first_audit_def)

lemma distinct_dedup: "distinct (map se_event_id (dedup_events seen rs))"
  by (induction rs arbitrary: seen) (auto simp: set_dedup)

lemma newest_first_props:
  "set (newest_first es) = set es" "sorted_wrt (\<lambda>a b. se_timestamp b \<le> se_timestamp a) (newest_first es)"
  "distinct (map se_event_id es) \<Longrightarrow> distinct (map se_event_id (newest_first es))"
proof -
  show "set (newest_first es) = set es" by (simp add: newest_first_def)
  have "sorted (map (\<lambda>e. - se_timestamp e) (newest_first es))" by (simp add: newest_first_def)
  then show "sorted_wrt (\<lambda>a b. se_timestamp b \<le> se_timestamp a) (newest_first es)" by (simp add: sorted_wrt_map)
  show "distinct (map se_event_id (newest_first es))" if "distinct (map se_event_id es)"
    using that by (metis distinct_map newest_first_def distinct_sort set_sort)
qed

definition shown :: "string option \<Rightarrow> string option \<Rightarrow> uuid option \<Rightarrow> StreamEvent \<Rightarrow> bool" where
  "shown fa ft fc e \<longleftrightarrow> (given fa \<longrightarrow> Some (se_agent_id e) = fa) \<and> (given ft \<longrightarrow> Some (se_event_type e) = ft)
     \<and> (fc \<noteq> None \<longrightarrow> Some (se_correlation_id e) = fc)"

lemma filter_if: "(if b then filter p xs else xs) = filter (\<lambda>x. b \<longrightarrow> p x) xs"
  by simp

lemma stream_events:
  "sv_events (build_stream_from_records rs fa ft fc) = filter (shown fa ft fc) (newest_first (dedup_events {} rs))"
  unfolding build_stream_from_records_def Let_def filter_if filter_filter
  by (auto simp: shown_def intro!: filter_cong)

text \<open>Filtering while building the stream and filtering the finished stream are the same.\<close>

lemma stream_filters:
  "build_stream_from_records rs fa ft fc = live_stream (build_stream_from_records rs None None None) fa ft fc"
proof -
  have "sv_events (live_stream (build_stream_from_records rs None None None) fa ft fc)
      = filter (shown fa ft fc) (newest_first (dedup_events {} rs))"
    unfolding live_stream_def stream_events filter_filter
    by (auto simp: shown_def given_def intro!: filter_cong)
  then show ?thesis using stream_events [of rs fa ft fc]
    by (simp add: live_stream_def build_stream_from_records_def Let_def)
qed

text \<open>The audit stream. Whatever records were read and whatever filters are set, the stream lists the
  matching events newest first, each event once, as its first audit record tells it; filtering the
  cached unfiltered stream in the view gives the same as filtering while it is built.\<close>

theorem stream_faithful:
  "sorted_wrt (\<lambda>a b. se_timestamp b \<le> se_timestamp a) (sv_events (build_stream (Inr rs) fa ft fc))
   \<and> distinct (map se_event_id (sv_events (build_stream (Inr rs) fa ft fc)))
   \<and> set (sv_events (build_stream (Inr rs) fa ft fc))
       = {e. shown fa ft fc e \<and> map_option stream_event (first_audit rs (se_event_id e)) = Some e}
   \<and> build_stream (Inr rs) fa ft fc = live_stream (build_stream (Inr rs) None None None) fa ft fc"
proof -
  show ?thesis
    unfolding build_stream_def sum.case
  proof (intro conjI stream_filters)
    show "sorted_wrt (\<lambda>a b. se_timestamp b \<le> se_timestamp a) (sv_events (build_stream_from_records rs fa ft fc))"
      unfolding stream_events by (intro sorted_wrt_filter newest_first_props)
    show "distinct (map se_event_id (sv_events (build_stream_from_records rs fa ft fc)))"
      unfolding stream_events by (intro distinct_map_filter newest_first_props distinct_dedup)
    show "set (sv_events (build_stream_from_records rs fa ft fc))
       = {e. shown fa ft fc e \<and> map_option stream_event (first_audit rs (se_event_id e)) = Some e}"
      unfolding stream_events by (auto simp: newest_first_props(1) set_dedup simp del: map_option_eq_Some)
  qed
qed

section \<open>What the timeline shows\<close>

lemma last_audit_snoc:
  "last_audit (rs @ [r]) i = (if en_event_id (au_original_envelope r) = i then Some r else last_audit rs i)"
  by (simp add: last_audit_def first_audit_def)

lemma get_audit_by_id: "dict_get (audit_by_id rs) i = last_audit rs i"
proof (induction rs rule: rev_induct)
  case Nil
  show ?case by (simp add: audit_by_id_def last_audit_def first_audit_def)
next
  case (snoc r rs)
  then show ?case by (auto simp: audit_by_id_def last_audit_snoc)
qed

lemma get_env_by_id: "dict_get (env_by_id rs) i = map_option au_original_envelope (last_audit rs i)"
proof (induction rs rule: rev_induct)
  case Nil
  show ?case by (simp add: env_by_id_def last_audit_def first_audit_def)
next
  case (snoc r rs)
  then show ?case by (auto simp: env_by_id_def last_audit_snoc)
qed

lemma distinct_env_by_id: "distinct (map fst (env_by_id rs))"
proof (induction rs rule: rev_induct)
  case Nil
  show ?case by (simp add: env_by_id_def)
next
  case (snoc r rs)
  then show ?case unfolding env_by_id_def by simp
qed

lemma last_audit_id: "last_audit rs i = Some r \<Longrightarrow> en_event_id (au_original_envelope r) = i"
  by (auto simp: last_audit_def first_audit_def find_Some_iff)

lemma env_by_id_entry:
  assumes "(i, e) \<in> set (env_by_id rs)"
  shows "en_event_id e = i" "\<exists>a. last_audit rs i = Some a \<and> au_original_envelope a = e"
proof -
  have "dict_get (env_by_id rs) i = Some e" using assms distinct_env_by_id by (simp add: map_of_eq_Some_iff)
  then show "\<exists>a. last_audit rs i = Some a \<and> au_original_envelope a = e" by (auto simp: get_env_by_id)
  then show "en_event_id e = i" using last_audit_id by blast
qed

lemma distinct_timeline_ids: "distinct (map en_event_id (map snd (env_by_id rs)))"
proof -
  have "map en_event_id (map snd (env_by_id rs)) = map fst (env_by_id rs)" using env_by_id_entry(1) by fastforce
  then show ?thesis using distinct_env_by_id by metis
qed

lemma get_id_by_key:
  assumes "distinct (map envelope_key es)" "e \<in> set es"
  shows "dict_get (id_by_key es) (envelope_key e) = Some (en_event_id e)"
  using assms
proof (induction es rule: rev_induct)
  case (snoc x es)
  have "envelope_key e \<noteq> envelope_key x" if "e \<in> set es"
    using snoc.prems(1) imageI [OF that, of envelope_key] by auto
  with snoc show ?case by (auto simp: id_by_key_def)
qed simp

text \<open>The part of a timeline entry that repeats the step of the trace.\<close>

definition entry_of_step :: "TimelineEntry \<Rightarrow> TraceStep \<Rightarrow> bool" where
  "entry_of_step t s \<longleftrightarrow> tl_seq t = sp_seq s \<and> tl_actor t = sp_actor s \<and> tl_event_type t = sp_event_type s
     \<and> tl_timestamp t = sp_timestamp s \<and> tl_caused_by t = sp_caused_by s \<and> tl_task_id t = sp_task_id s
     \<and> (tl_is_orphan t \<longleftrightarrow> sp_caused_by s \<noteq> None \<and> sp_parent_event_id s = None)"

lemma trace_step_of_key: "trace_step_key (trace_step r n e) = envelope_key e"
  by (simp add: trace_step_key_def trace_step_def envelope_key_def)

text \<open>The timeline is the trace. The timeline of a case lists exactly the steps of the causal trace of
  its envelopes, in the same order; if no two envelopes of the case agree in type, time, actor and cause,
  every step carries the outcome and the reason of the last audit record of its event.\<close>

theorem timeline_is_trace:
  assumes "rs \<noteq> []" "es = map snd (env_by_id rs)"
  shows "list_all2 entry_of_step (tv_entries (build_timeline_from_records cid rs)) (trace_case cid es)
    \<and> (distinct (map envelope_key es) \<longrightarrow>
        (\<forall>j < length (tv_entries (build_timeline_from_records cid rs)).
          \<exists>a. last_audit rs (en_event_id (trace_order (case_envelopes cid es) ! j)) = Some a
            \<and> tl_outcome (tv_entries (build_timeline_from_records cid rs) ! j) = Some (outcome_text (au_outcome a))
            \<and> tl_reason (tv_entries (build_timeline_from_records cid rs) ! j) = au_reason a))"
proof -
  let ?f = "timeline_entry (id_by_key es) (audit_by_id rs)" and ?o = "trace_order (case_envelopes cid es)"
  have t: "tv_entries (build_timeline_from_records cid rs) = map ?f (trace_case cid es)"
    using assms by (simp add: build_timeline_from_records_def Let_def)
  have "list_all2 entry_of_step (map ?f ss) ss" for ss
    by (induction ss) (simp_all add: entry_of_step_def timeline_entry_def Let_def)
  moreover have "\<exists>a. last_audit rs (en_event_id (?o ! j)) = Some a
      \<and> tl_outcome (?f (trace_case cid es ! j)) = Some (outcome_text (au_outcome a))
      \<and> tl_reason (?f (trace_case cid es ! j)) = au_reason a"
    if "j < length (trace_case cid es)" "distinct (map envelope_key es)" for j
  proof -
    have ne: "case_envelopes cid es \<noteq> []" using that(1) by (auto simp: trace_case_def)
    have j: "j < length ?o" using that(1) by (simp add: trace_case_order [OF ne])
    have "distinct (map en_event_id (case_envelopes cid es))"
      unfolding case_envelopes_def using distinct_timeline_ids assms(2) by (simp add: distinct_map_filter)
    then have "mset ?o = mset (case_envelopes cid es)" by (rule mset_trace_order [OF ne])
    then have "set ?o = set (case_envelopes cid es)" by (rule mset_eq_setD)
    then have "?o ! j \<in> set es" using nth_mem [OF j] by (auto simp: case_envelopes_def)
    then obtain a where a: "last_audit rs (en_event_id (?o ! j)) = Some a"
      using env_by_id_entry assms(2) by fastforce
    have "dict_get (id_by_key es) (trace_step_key (trace_case cid es ! j)) = Some (en_event_id (?o ! j))"
      using get_id_by_key [OF that(2) \<open>?o ! j \<in> set es\<close>] by (simp add: trace_case_nth [OF j ne] trace_step_of_key)
    then show ?thesis using a by (simp add: timeline_entry_def get_audit_by_id Let_def)
  qed
  ultimately show ?thesis unfolding t by simp
qed

text \<open>A ticket and the message it caused; the message is audited twice.\<close>

definition asked_event :: EventEnvelope where
  "asked_event = sample_event 2 (Some 1) ''agent.message.v1'' 3 []"

definition sample_audits :: "AuditPayload list" where
  "sample_audits =
     [\<lparr>au_original_envelope = chain_ticket, au_outcome = AuditCompleted, au_reason = None, au_recorded_at = 1, au_task_id = None\<rparr>,
      \<lparr>au_original_envelope = asked_event, au_outcome = Accepted, au_reason = None, au_recorded_at = 2, au_task_id = None\<rparr>,
      \<lparr>au_original_envelope = asked_event, au_outcome = AuditFailed, au_reason = Some ''timeout'', au_recorded_at = 3,
       au_task_id = None\<rparr>]"

lemma sample_audits_order:
  "map snd (env_by_id sample_audits) = [chain_ticket, asked_event]"
  "distinct (map envelope_key [chain_ticket, asked_event])"
  "length (tv_entries (build_timeline_from_records 5 sample_audits)) = 2"
  "trace_order (case_envelopes 5 [chain_ticket, asked_event]) ! 1 = asked_event"
  "last_audit sample_audits (en_event_id asked_event) = Some (sample_audits ! 2)"
  by code_simp+

theorem timeline_is_trace_witness:
  "tl_outcome (tv_entries (build_timeline_from_records 5 sample_audits) ! 1) = Some ''failed''
   \<and> tl_reason (tv_entries (build_timeline_from_records 5 sample_audits) ! 1) = Some ''timeout''"
proof -
  have "sample_audits \<noteq> []" by (simp add: sample_audits_def)
  from timeline_is_trace [OF this refl, of 5] sample_audits_order show ?thesis
    by (auto simp: outcome_text_def dest!: spec [of _ 1]) (simp_all add: sample_audits_def)
qed

end
