(* ===== verification/A2A_Client.thy ===== *)
theory A2A_Client
  imports Agent_Runtime
begin

text \<open>
  The requester's side of A2A: discovery of agents by their cards
  (\<^verbatim>\<open>src/agent_foundation/runtime/discovery.py\<close>) and the client that submits a task and waits for its
  result (\<^verbatim>\<open>runtime/client.py\<close>). The broker's deliveries are lists: the batches a poll returns, and what
  arrives on the result topic before the deadline. A span is fail-open (\<^verbatim>\<open>observability/tracing.py\<close>):
  it passes the exceptions of its body on and adds none.
\<close>

section \<open>Discovery\<close>

record 'raw card_wire =
  cw_envelope :: "'raw \<Rightarrow> exc + EventEnvelope"
  cw_card :: "(string, pyval) dict \<Rightarrow> exc + AgentCard"

definition read_card :: "string \<Rightarrow> 'raw card_wire \<Rightarrow> 'raw \<Rightarrow> AgentCard option" where
  "read_card env W raw =
     (case cw_envelope W raw of
        Inl _ \<Rightarrow> None
      | Inr e \<Rightarrow>
          (case validate_envelope env e of
             Inl _ \<Rightarrow> None
           | Inr envelope \<Rightarrow>
               (case cw_card W (en_payload envelope) of
                  Inl _ \<Rightarrow> None
                | Inr c \<Rightarrow> (case validate_card c of Inl _ \<Rightarrow> None | Inr c' \<Rightarrow> Some c'))))"

definition collect_card :: "string \<Rightarrow> 'raw card_wire \<Rightarrow> 'raw \<Rightarrow> (string, AgentCard) dict \<Rightarrow> (string, AgentCard) dict" where
  "collect_card env W raw latest =
     (case read_card env W raw of None \<Rightarrow> latest | Some c \<Rightarrow> dict_set (card_agent_id c) c latest)"

fun discover_loop ::
  "string \<Rightarrow> 'raw card_wire \<Rightarrow> 'raw list list \<Rightarrow> (string, AgentCard) dict \<Rightarrow> (string, AgentCard) dict" where
  "discover_loop env W [] latest = latest"
| "discover_loop env W (batch # polls) latest =
     (if batch = [] then latest else discover_loop env W polls (fold (collect_card env W) batch latest))"

definition discover_agents :: "string \<Rightarrow> 'raw card_wire \<Rightarrow> 'raw list list \<Rightarrow> AgentCard list" where
  "discover_agents env W polls = map snd (discover_loop env W polls [])"

definition find_capable :: "string \<Rightarrow> 'raw card_wire \<Rightarrow> string \<Rightarrow> 'raw list list \<Rightarrow> AgentCard list" where
  "find_capable env W capability_id polls =
     filter (\<lambda>c. list_ex (\<lambda>cap. cap_id cap = capability_id) (card_capabilities c)) (discover_agents env W polls)"

section \<open>Submitting a task\<close>

record 'raw result_wire =
  rw_envelope :: "'raw \<Rightarrow> exc + EventEnvelope"
  rw_result :: "(string, pyval) dict \<Rightarrow> exc + TaskResult"

definition read_result :: "string \<Rightarrow> 'raw result_wire \<Rightarrow> 'raw \<Rightarrow> TaskResult option" where
  "read_result env W raw =
     (case rw_envelope W raw of
        Inl _ \<Rightarrow> None
      | Inr e \<Rightarrow>
          (case validate_envelope env e of
             Inl _ \<Rightarrow> None
           | Inr envelope \<Rightarrow>
               (case rw_result W (en_payload envelope) of
                  Inl _ \<Rightarrow> None
                | Inr r \<Rightarrow> (case validate_status_fields r of Inl _ \<Rightarrow> None | Inr r' \<Rightarrow> Some r'))))"

text \<open>What arrives before the deadline: a message, or an error of the broker connection.\<close>

fun await_result :: "string \<Rightarrow> 'raw result_wire \<Rightarrow> uuid \<Rightarrow> rat \<Rightarrow> (exc + 'raw) list \<Rightarrow> exc + TaskResult" where
  "await_result env W task_id timeout_s [] =
     Inl (TimeoutError (''No result for task_id='' @ show_uuid task_id @ '' within '' @ float_repr timeout_s @ ''s''))"
| "await_result env W task_id timeout_s (Inl e # arrivals) = Inl e"
| "await_result env W task_id timeout_s (Inr raw # arrivals) =
     (case read_result env W raw of
        None \<Rightarrow> await_result env W task_id timeout_s arrivals
      | Some r \<Rightarrow> if tr_task_id r = task_id then Inr r else await_result env W task_id timeout_s arrivals)"

definition do_submit ::
  "runtime_env \<Rightarrow> AgentIdentity \<Rightarrow> 'raw result_wire \<Rightarrow> TaskRequest \<Rightarrow> uuid \<Rightarrow> uuid \<Rightarrow> rat \<Rightarrow> (exc + 'raw) list \<Rightarrow>
   ('a net_scheme, TaskResult) io" where
  "do_submit E ident W req corr caus timeout_s arrivals =
     then_io (publish E ident (MTaskRequest req) ''agent.task_request.v1'' corr (Some caus)
                (Some (endpoint_topic (re_environment E) (tq_target_agent_id req))))
       (lift_exc (await_result (re_environment E) W (tq_task_id req) timeout_s arrivals))"

definition or_uuid4 :: "runtime_env \<Rightarrow> uuid option \<Rightarrow> ('a net_scheme, uuid) io" where
  "or_uuid4 E u = (case u of Some x \<Rightarrow> return_io x | None \<Rightarrow> uuid4_io E)"

text \<open>
  \<open>spanned\<close>: whether the span could be built. Inside the span every exception of the submission is
  taken for one of the span, and the submission is repeated; \<open>second\<close> is what arrives then.
\<close>

definition submit ::
  "runtime_env \<Rightarrow> AgentIdentity \<Rightarrow> 'raw result_wire \<Rightarrow> bool \<Rightarrow> string \<Rightarrow> string \<Rightarrow> A2AMessage \<Rightarrow>
   uuid option \<Rightarrow> uuid option \<Rightarrow> uuid option \<Rightarrow> rat \<Rightarrow> (exc + 'raw) list \<Rightarrow> (exc + 'raw) list \<Rightarrow>
   ('a net_scheme, TaskResult) io" where
  "submit E ident W spanned target_agent_id capability inp correlation_id causation_id task_id timeout_s first second =
     bind_io (or_uuid4 E task_id) (\<lambda>tid.
     bind_io (or_uuid4 E correlation_id) (\<lambda>corr.
     let caus = (case causation_id of Some c \<Rightarrow> c | None \<Rightarrow> corr);
         req = \<lparr>tq_task_id = tid, tq_capability = capability, tq_requester_agent_id = id_agent_id ident,
                tq_target_agent_id = target_agent_id, tq_input = inp\<rparr>
     in if spanned
        then try_io (do_submit E ident W req corr caus timeout_s first)
               (\<lambda>_. do_submit E ident W req corr caus timeout_s second)
        else do_submit E ident W req corr caus timeout_s first))"

section \<open>Discovery returns the latest cards\<close>

lemma discover_loop_fold:
  "[] \<notin> set polls \<Longrightarrow> discover_loop env W polls d = fold (collect_card env W) (concat polls) d"
  by (induction polls arbitrary: d) auto

text \<open>The card an agent announced last.\<close>

definition latest_card :: "string \<Rightarrow> 'raw card_wire \<Rightarrow> string \<Rightarrow> 'raw list \<Rightarrow> AgentCard option" where
  "latest_card env W a msgs = find (\<lambda>c. card_agent_id c = a) (rev (List.map_filter (read_card env W) msgs))"

lemma latest_card_snoc:
  "latest_card env W a (msgs @ [raw]) =
     (case read_card env W raw of
        Some c \<Rightarrow> if card_agent_id c = a then Some c else latest_card env W a msgs
      | None \<Rightarrow> latest_card env W a msgs)"
  by (auto simp: latest_card_def map_filter_def split: option.split)

lemma collect_latest: "dict_get (fold (collect_card env W) msgs []) a = latest_card env W a msgs"
proof (induction msgs rule: rev_induct)
  case Nil
  show ?case by (simp add: latest_card_def map_filter_simps)
next
  case (snoc raw msgs)
  then show ?case by (auto simp: latest_card_snoc collect_card_def split: option.split)
qed

lemma collect_distinct: "distinct (map fst (fold (collect_card env W) msgs []))"
proof (induction msgs rule: rev_induct)
  case (snoc raw msgs)
  then show ?case using dict_set_distinct by (auto simp: collect_card_def split: option.split)
qed simp

lemma latest_card_id: "latest_card env W a msgs = Some c \<Longrightarrow> card_agent_id c = a"
  by (auto simp: latest_card_def find_Some_iff)

text \<open>Discovery returns the latest card of every agent. Whatever has been announced, in whatever
  batches it is read and however many records cannot be parsed, the result holds exactly the cards
  that are the last valid announcement of their agent, one for each agent, and a search for a
  capability returns exactly those of them that declare it.\<close>

theorem discovery_latest_wins:
  assumes "[] \<notin> set polls"
  shows "set (discover_agents env W polls) = {c. latest_card env W (card_agent_id c) (concat polls) = Some c}
    \<and> distinct (map card_agent_id (discover_agents env W polls))
    \<and> set (find_capable env W capability polls) =
        {c. latest_card env W (card_agent_id c) (concat polls) = Some c \<and> capability \<in> cap_id ` set (card_capabilities c)}"
proof -
  let ?d = "fold (collect_card env W) (concat polls) []"
  have d: "discover_agents env W polls = map snd ?d" using assms by (simp add: discover_agents_def discover_loop_fold)
  have mem: "(a, c) \<in> set ?d \<longleftrightarrow> latest_card env W a (concat polls) = Some c" for a c
    by (simp flip: collect_latest add: collect_distinct)
  have "map card_agent_id (map snd ?d) = map fst ?d"
    by (auto simp: mem dest!: latest_card_id)
  then have di: "distinct (map card_agent_id (discover_agents env W polls))" by (simp only: d collect_distinct)
  have "c \<in> set (discover_agents env W polls) \<longleftrightarrow> latest_card env W (card_agent_id c) (concat polls) = Some c" for c
    by (auto simp: d mem image_iff intro: bexI [of _ "(card_agent_id c, c)"]) (metis latest_card_id)
  then show ?thesis using di by (auto simp: find_capable_def list_ex_iff)
qed

text \<open>Records that are the card of the billing agent, or unreadable.\<close>

definition sample_cards :: "bool card_wire" where
  "sample_cards = \<lparr>cw_envelope = (\<lambda>b. if b then Inr task_envelope else Inl (ValueError ''not JSON'')),
     cw_card = (\<lambda>_. Inr (billing_card ''local''))\<rparr>"

theorem discovery_latest_wins_witness:
  "billing_card ''local'' \<in> set (find_capable ''local'' sample_cards ''analyze_refund_eligibility'' [[True, False], [True]])"
proof -
  have "validate_envelope ''local'' task_envelope = Inr task_envelope"
    "validate_card (billing_card ''local'') = Inr (billing_card ''local'')" by code_simp+
  then have "latest_card ''local'' sample_cards (card_agent_id (billing_card ''local'')) (concat [[True, False], [True]])
      = Some (billing_card ''local'')"
    by (simp add: latest_card_def map_filter_def read_card_def sample_cards_def)
  moreover have "''analyze_refund_eligibility'' \<in> cap_id ` set (card_capabilities (billing_card ''local''))"
    by (simp add: billing_card_def)
  ultimately show ?thesis using discovery_latest_wins [of "[[True, False], [True]]"] by simp
qed

section \<open>What a submission guarantees\<close>

lemma await_result_own: "await_result env W tid t arrivals = Inr r \<Longrightarrow> tr_task_id r = tid"
  by (induction env W tid t arrivals rule: await_result.induct) (auto split: option.splits if_splits)

lemma task_request_registered [simp]:
  "lookup env ''agent.task_request.v1'' = Inr ''TaskRequest''" "EVENT_TYPE_RE ''agent.task_request.v1''"
proof -
  have "(''agent.task_request.v1'', ''TaskRequest'') \<in> set (PAYLOAD_REGISTRY env)" by (simp add: PAYLOAD_REGISTRY_def)
  then show "lookup env ''agent.task_request.v1'' = Inr ''TaskRequest''"
    using registry_distinct by (simp add: lookup_def)
qed code_simp

definition request_sent :: "runtime_env \<Rightarrow> TaskRequest \<Rightarrow> uuid \<Rightarrow> sent \<Rightarrow> bool" where
  "request_sent E req corr m \<longleftrightarrow> sn_model m = MTaskRequest req \<and> en_correlation_id (sn_envelope m) = corr
     \<and> sn_topic m = endpoint_topic (re_environment E) (tq_target_agent_id req)"

lemma do_submit_sends:
  assumes "AGENT_ID_RE (id_agent_id ident)" "TENANT_ID_RE (id_tenant_id ident)" "\<And>n. re_send_ok E n"
    and "do_submit E ident W req corr caus t arrivals w = (x, w')"
  shows "x = await_result (re_environment E) W (tq_task_id req) t arrivals
    \<and> (\<exists>m. nt_log w' = nt_log w @ [m] \<and> request_sent E req corr m)"
  using assms
  by (auto simp: do_submit_def publish_def build_envelope_def lift_exc_def io_defs uuid4_io_def now_io_def
      validate_envelope_def send_and_wait_def Let_def request_sent_def split: sum.splits)

text \<open>C34: a submission returns its own result, and repeats itself on a timeout. Over a broker that
  acknowledges every send, the request goes to the target's endpoint topic, and whatever is returned
  is the result of this very task. But inside the tracing span a timeout is taken for a failure of the
  span: the request is published a second time under the same task identifier and waited for again.\<close>

theorem submit_own_result:
  assumes "AGENT_ID_RE (id_agent_id ident)" "TENANT_ID_RE (id_tenant_id ident)" and "\<And>n. re_send_ok E n"
    and "submit E ident W spanned target cap inp (Some corr) caus (Some tid) t first second w = (x, w')"
  shows "(\<forall>r. x = Inr r \<longrightarrow> tr_task_id r = tid)
    \<and> (\<exists>req ms. tq_task_id req = tid \<and> tq_target_agent_id req = target \<and> tq_capability req = cap
        \<and> nt_log w' = nt_log w @ ms \<and> list_all (request_sent E req corr) ms
        \<and> length ms = (case await_result (re_environment E) W tid t first of
             Inl _ \<Rightarrow> if spanned then 2 else 1 | Inr _ \<Rightarrow> 1))"
proof -
  let ?req = "\<lparr>tq_task_id = tid, tq_capability = cap, tq_requester_agent_id = id_agent_id ident,
                tq_target_agent_id = target, tq_input = inp\<rparr>"
  define c where "c = (case caus of Some c \<Rightarrow> c | None \<Rightarrow> corr)"
  obtain y w1 where f: "do_submit E ident W ?req corr c t first w = (y, w1)" by fastforce
  obtain z w2 where g: "do_submit E ident W ?req corr c t second w1 = (z, w2)" by fastforce
  obtain m1 where m1: "y = await_result (re_environment E) W tid t first" "nt_log w1 = nt_log w @ [m1]" "request_sent E ?req corr m1"
    using do_submit_sends [OF assms(1-3) f] by auto
  obtain m2 where m2: "z = await_result (re_environment E) W tid t second" "nt_log w2 = nt_log w1 @ [m2]" "request_sent E ?req corr m2"
    using do_submit_sends [OF assms(1-3) g] by auto
  have s: "(x, w') = (case y of Inl e \<Rightarrow> if spanned then (z, w2) else (y, w1) | Inr r \<Rightarrow> (y, w1))"
    using assms(4) f g
    by (cases y; cases spanned) (auto simp: submit_def or_uuid4_def io_defs c_def Let_def)
  define ms where "ms = (case y of Inl e \<Rightarrow> if spanned then [m1, m2] else [m1] | Inr r \<Rightarrow> [m1])"
  have "nt_log w' = nt_log w @ ms" "list_all (request_sent E ?req corr) ms" using s m1 m2 by (auto simp: ms_def split: sum.splits)
  moreover have "length ms = (case await_result (re_environment E) W tid t first of Inl _ \<Rightarrow> if spanned then 2 else 1 | Inr _ \<Rightarrow> 1)"
    by (auto simp: ms_def m1(1) split: sum.splits)
  moreover have "tr_task_id r = tid" if "x = Inr r" for r
  proof -
    have "x = y \<or> x = z" using s by (cases y; cases spanned) auto
    then show ?thesis using that m1(1) m2(1) await_result_own by metis
  qed
  ultimately show ?thesis by (intro conjI exI [of _ ?req] exI [of _ ms]) auto
qed

theorem submit_own_result_witness:
  "\<exists>x w' ms. submit sample_env billing_identity \<lparr>rw_envelope = Inr, rw_result = (\<lambda>_. Inl (ValueError ''no result''))\<rparr> True
       ''risk-fraud-agent'' ''assess_fraud_risk'' (data_message User []) (Some 5) None (Some 7) 1 [] [] sample_net = (x, w')
    \<and> nt_log w' = nt_log sample_net @ ms \<and> length ms = 2"
proof -
  let ?W = "\<lparr>rw_envelope = Inr, rw_result = (\<lambda>_. Inl (ValueError ''no result''))\<rparr> :: EventEnvelope result_wire"
  obtain x w' where s: "submit sample_env billing_identity ?W True ''risk-fraud-agent'' ''assess_fraud_risk''
      (data_message User []) (Some 5) None (Some 7) 1 [] [] sample_net = (x, w')" by fastforce
  have "re_send_ok sample_env n" for n by (simp add: sample_env_def)
  from submit_own_result [OF billing_identity_valid this s] s show ?thesis by auto
qed

end
