(* ===== verification/Demo_Intake.thy ===== *)
theory Demo_Intake
  imports A2A_Client "HOL-Library.Multiset"
begin

text \<open>
  The rest of the demo user interface: the roster of agents (\<^verbatim>\<open>apps/demo_ui/agent_cards.py\<close>), the cache of
  poll results (\<^verbatim>\<open>config.py\<close>) and the form that starts a case (\<^verbatim>\<open>ticket_form.py\<close>,
  \<^verbatim>\<open>views/trigger_view.py\<close>), its only write.
\<close>

section \<open>The roster\<close>

definition EXPECTED_AGENT_IDS :: "string list" where
  "EXPECTED_AGENT_IDS = [''customer-resolution-agent'', ''billing-entitlement-agent'', ''risk-fraud-agent'']"

datatype Liveness = LIVE | UNKNOWN | NOT_ANNOUNCED

record CapabilityView =
  cv_id :: string
  cv_name :: string
  cv_description :: string
  cv_tags :: "string list"

record RosterEntry =
  ro_agent_id :: string
  ro_name :: "string option"
  ro_description :: "string option"
  ro_version :: "string option"
  ro_endpoint_topic :: "string option"
  ro_capabilities :: "CapabilityView list"
  ro_announced :: bool
  ro_last_announced :: "instant option"
  ro_liveness :: Liveness

definition capabilities_of :: "AgentCard \<Rightarrow> CapabilityView list" where
  "capabilities_of agent_card =
     map (\<lambda>c. \<lparr>cv_id = cap_id c, cv_name = cap_name c, cv_description = cap_description c, cv_tags = cap_tags c\<rparr>)
       (card_capabilities agent_card)"

definition roster_entry ::
  "(string, AgentCard) dict \<Rightarrow> (string, instant) dict \<Rightarrow> (string, Liveness) dict \<Rightarrow> string \<Rightarrow> RosterEntry" where
  "roster_entry latest announce_times liveness agent_id =
     (case dict_get latest agent_id of
        None \<Rightarrow> \<lparr>ro_agent_id = agent_id, ro_name = None, ro_description = None, ro_version = None,
          ro_endpoint_topic = None, ro_capabilities = [], ro_announced = False, ro_last_announced = None,
          ro_liveness = NOT_ANNOUNCED\<rparr>
      | Some agent_card \<Rightarrow> \<lparr>ro_agent_id = card_agent_id agent_card, ro_name = Some (card_name agent_card),
          ro_description = Some (card_description agent_card), ro_version = Some (card_version agent_card),
          ro_endpoint_topic = Some (card_endpoint_topic agent_card), ro_capabilities = capabilities_of agent_card,
          ro_announced = True, ro_last_announced = dict_get announce_times agent_id,
          ro_liveness = (case dict_get liveness agent_id of Some l \<Rightarrow> l | None \<Rightarrow> UNKNOWN)\<rparr>)"

definition build_roster_entries ::
  "AgentCard list \<Rightarrow> (string, instant) dict \<Rightarrow> (string, Liveness) dict \<Rightarrow> string list \<Rightarrow> RosterEntry list" where
  "build_roster_entries cards announce_times liveness expected_agent_ids =
     (let latest = fold (\<lambda>agent_card d. dict_set (card_agent_id agent_card) agent_card d) cards []
      in map (roster_entry latest announce_times liveness) expected_agent_ids)"

text \<open>
  One scan of the card topic. A poll returns a batch or raises; an empty batch ends the scan, an
  exception ends it with what has been read, and a message that does not parse is skipped.
\<close>

definition read_announcement :: "string \<Rightarrow> 'raw card_wire \<Rightarrow> 'raw \<Rightarrow> (EventEnvelope \<times> AgentCard) option" where
  "read_announcement env W raw =
     (case cw_envelope W raw of
        Inl _ \<Rightarrow> None
      | Inr e \<Rightarrow>
          (case validate_envelope env e of
             Inl _ \<Rightarrow> None
           | Inr envelope \<Rightarrow>
               (case cw_card W (en_payload envelope) of
                  Inl _ \<Rightarrow> None
                | Inr c \<Rightarrow>
                    (case validate_card c of Inl _ \<Rightarrow> None | Inr agent_card \<Rightarrow> Some (envelope, agent_card)))))"

type_synonym scan = "(string, AgentCard) dict \<times> (string, instant) dict"

definition collect_announcement :: "string \<Rightarrow> 'raw card_wire \<Rightarrow> 'raw \<Rightarrow> scan \<Rightarrow> scan" where
  "collect_announcement env W raw acc =
     (case read_announcement env W raw of
        None \<Rightarrow> acc
      | Some (envelope, agent_card) \<Rightarrow>
          (dict_set (card_agent_id agent_card) agent_card (fst acc), dict_set (en_agent_id envelope) (en_timestamp envelope) (snd acc)))"

fun scan_cards :: "string \<Rightarrow> 'raw card_wire \<Rightarrow> (exc + 'raw list) list \<Rightarrow> scan \<Rightarrow> scan" where
  "scan_cards env W [] acc = acc"
| "scan_cards env W (Inl e # polls) acc = acc"
| "scan_cards env W (Inr batch # polls) acc =
     (if batch = [] then acc else scan_cards env W polls (fold (collect_announcement env W) batch acc))"

definition read_cards_and_times ::
  "string \<Rightarrow> 'raw card_wire \<Rightarrow> (exc + 'raw list) list \<Rightarrow> AgentCard list \<times> (string, instant) dict" where
  "read_cards_and_times env W polls = (let (latest, times) = scan_cards env W polls ([], []) in (map snd latest, times))"

text \<open>The answer of an HTTP request: an exception, or whether the status is a success.\<close>

definition probe_liveness :: "(string \<Rightarrow> exc + bool) \<Rightarrow> string option \<Rightarrow> Liveness" where
  "probe_liveness get url =
     (case url of
        None \<Rightarrow> UNKNOWN
      | Some u \<Rightarrow> if u = [] then UNKNOWN
                  else (case get u of Inl _ \<Rightarrow> UNKNOWN | Inr is_success \<Rightarrow> if is_success then LIVE else UNKNOWN))"

definition build_roster ::
  "string \<Rightarrow> 'raw card_wire \<Rightarrow> (exc + 'raw list) list \<Rightarrow> bool \<Rightarrow> (string, string option) dict \<Rightarrow> (string \<Rightarrow> exc + bool) \<Rightarrow>
   RosterEntry list" where
  "build_roster env W polls in_time endpoints get =
     (let (cards, announce_times) = (if in_time then read_cards_and_times env W polls else ([], []));
          announced_ids = card_agent_id ` set cards;
          liveness = fold (\<lambda>(agent_id, url) d. if agent_id \<in> announced_ids then dict_set agent_id (probe_liveness get url) d else d)
            endpoints []
      in build_roster_entries cards announce_times liveness EXPECTED_AGENT_IDS)"

section \<open>The cache of poll results\<close>

text \<open>The cached values with the time they were read, and the keys a background refresh is running for.\<close>

record 'v poll_cache =
  pc_cache :: "(string, int \<times> 'v) dict"
  pc_inflight :: "string set"

text \<open>A refresh starts a thread unless one is running for the key; the flag says whether it did.\<close>

definition spawn_refresh :: "string \<Rightarrow> 'v poll_cache \<Rightarrow> bool \<times> 'v poll_cache" where
  "spawn_refresh key c = (if key \<in> pc_inflight c then (False, c) else (True, c\<lparr>pc_inflight := insert key (pc_inflight c)\<rparr>))"

definition refresh_done :: "string \<Rightarrow> int \<Rightarrow> exc + 'v \<Rightarrow> 'v poll_cache \<Rightarrow> 'v poll_cache" where
  "refresh_done key now result c =
     (let c' = (case result of Inl _ \<Rightarrow> c | Inr v \<Rightarrow> c\<lparr>pc_cache := dict_set key (now, v) (pc_cache c)\<rparr>)
      in c'\<lparr>pc_inflight := pc_inflight c' - {key}\<rparr>)"

definition cached_call ::
  "string \<Rightarrow> exc + 'v \<Rightarrow> int \<Rightarrow> bool \<Rightarrow> int \<Rightarrow> 'v poll_cache \<Rightarrow> (exc + 'v) \<times> bool \<times> 'v poll_cache" where
  "cached_call key fresh window stale_while_revalidate now c =
     (case dict_get (pc_cache c) key of
        Some (t, v) \<Rightarrow>
          if now - t < window then (Inr v, False, c)
          else if stale_while_revalidate then (let (started, c') = spawn_refresh key c in (Inr v, started, c'))
          else (case fresh of
                  Inl e \<Rightarrow> (Inl e, False, c)
                | Inr v' \<Rightarrow> (Inr v', False, c\<lparr>pc_cache := dict_set key (now, v') (pc_cache c)\<rparr>))
      | None \<Rightarrow>
          (case fresh of
             Inl e \<Rightarrow> (Inl e, False, c)
           | Inr v' \<Rightarrow> (Inr v', False, c\<lparr>pc_cache := dict_set key (now, v') (pc_cache c)\<rparr>)))"

definition clear_cache :: "'v poll_cache \<Rightarrow> 'v poll_cache" where
  "clear_cache c = c\<lparr>pc_cache := []\<rparr>"

section \<open>Starting a case\<close>

definition demo_identity :: AgentIdentity where
  "demo_identity = \<lparr>id_agent_id = ''demo-ui.ticket-producer'', id_display_name = ''Demo UI Ticket Producer'',
     id_tenant_id = ''local''\<rparr>"

record DemoTriggerRequest =
  dq_amount :: pyfloat
  dq_currency :: string
  dq_reason :: string
  dq_ticket_id :: "string option"
  dq_customer_id :: "string option"

definition validate_trigger :: "DemoTriggerRequest \<Rightarrow> exc + DemoTriggerRequest" where
  "validate_trigger req =
     (if \<not> dq_amount req > 0 then Inl (ValueError ''amount'')
      else if py_len (dq_currency req) \<noteq> 3 then Inl (ValueError ''currency'')
      else if dq_reason req = [] then Inl (ValueError ''reason'')
      else Inr req)"

text \<open>The text of the first eight hexadecimal digits of a fresh identifier.\<close>

definition minted_id :: "runtime_env \<Rightarrow> string \<Rightarrow> string option \<Rightarrow> ('a net_scheme, string) io" where
  "minted_id E tag given_id =
     (case given_id of
        Some s \<Rightarrow> if s = [] then bind_io (uuid4_io E) (\<lambda>u. return_io (tag @ take 8 (hex_digits 32 u))) else return_io s
      | None \<Rightarrow> bind_io (uuid4_io E) (\<lambda>u. return_io (tag @ take 8 (hex_digits 32 u))))"

definition to_payload :: "runtime_env \<Rightarrow> DemoTriggerRequest \<Rightarrow> ('a net_scheme, SupportTicketCreatedPayload) io" where
  "to_payload E req =
     bind_io (minted_id E ''TKT-'' (dq_ticket_id req)) (\<lambda>ticket_id.
     bind_io (minted_id E ''CUST-'' (dq_customer_id req)) (\<lambda>customer_id.
     bind_io (now_io E) (\<lambda>created_at.
     return_io \<lparr>tk_ticket_id = ticket_id, tk_customer_id = customer_id, tk_amount = dq_amount req,
       tk_currency = dq_currency req, tk_reason = dq_reason req, tk_created_at = created_at\<rparr>)))"

record DemoTriggerResult =
  dt_correlation_id :: uuid
  dt_event_id :: uuid
  dt_event_type :: string

definition publish_demo_ticket :: "runtime_env \<Rightarrow> DemoTriggerRequest \<Rightarrow> ('a net_scheme, DemoTriggerResult) io" where
  "publish_demo_ticket E req =
     bind_io (to_payload E req) (\<lambda>payload.
     bind_io (uuid4_io E) (\<lambda>correlation_id.
     bind_io (publish E demo_identity (MTicket payload) (TICKET_CREATED (re_environment E)) correlation_id None None)
       (\<lambda>envelope.
     return_io \<lparr>dt_correlation_id = en_correlation_id envelope, dt_event_id = en_event_id envelope,
       dt_event_type = TICKET_CREATED (re_environment E)\<rparr>)))"

section \<open>The roster shows the latest announcements\<close>

lemma read_announcement_card: "map_option snd (read_announcement env W raw) = read_card env W raw"
  by (simp add: read_announcement_def read_card_def split: sum.split)

lemma collect_cards: "fst (collect_announcement env W raw acc) = collect_card env W raw (fst acc)"
  using read_announcement_card [of env W raw]
  by (auto simp: collect_announcement_def collect_card_def split: option.split prod.split)

lemma scan_discover: "fst (scan_cards env W (map Inr polls) acc) = discover_loop env W polls (fst acc)"
proof (induction polls arbitrary: acc)
  case (Cons batch polls)
  have "fst (fold (collect_announcement env W) batch acc) = fold (collect_card env W) batch (fst acc)"
    by (induction batch arbitrary: acc) (simp_all add: collect_cards)
  with Cons show ?case by simp
qed simp

lemma roster_cards: "fst (read_cards_and_times env W (map Inr polls)) = discover_agents env W polls"
  by (simp add: read_cards_and_times_def discover_agents_def case_prod_beta Let_def scan_discover)

lemma find_append: "find P (xs @ ys) = (case find P xs of Some x \<Rightarrow> Some x | None \<Rightarrow> find P ys)"
  by (induction xs) auto

text \<open>Collecting cards again keeps them: discovery has at most one of each agent.\<close>

lemma collect_again:
  assumes "distinct (map card_agent_id cs)"
  shows "dict_get (fold (\<lambda>c d. dict_set (card_agent_id c) c d) cs []) a = find (\<lambda>c. card_agent_id c = a) cs"
  using assms
proof (induction cs rule: rev_induct)
  case (snoc c cs)
  have "card_agent_id x \<noteq> card_agent_id c" if "x \<in> set cs" for x
    using snoc.prems imageI [OF that, of card_agent_id] by auto
  then have "find (\<lambda>c. card_agent_id c = a) cs = None" if "card_agent_id c = a" using that by (auto simp: find_None_iff)
  with snoc show ?case by (auto simp: find_append split: option.split)
qed simp

lemma discover_latest:
  assumes "[] \<notin> set polls"
  shows "distinct (map card_agent_id (discover_agents env W polls))"
    "find (\<lambda>c. card_agent_id c = a) (discover_agents env W polls) = latest_card env W a (concat polls)"
proof -
  let ?d = "fold (collect_card env W) (concat polls) []"
  have d: "discover_agents env W polls = map snd ?d" using assms by (simp add: discover_agents_def discover_loop_fold)
  have m: "(x, c) \<in> set ?d \<longleftrightarrow> latest_card env W x (concat polls) = Some c" for x c
    by (simp flip: collect_latest add: collect_distinct)
  then have i: "map card_agent_id (map snd ?d) = map fst ?d" using latest_card_id by fastforce
  then show dis: "distinct (map card_agent_id (discover_agents env W polls))" using collect_distinct d by metis
  show "find (\<lambda>c. card_agent_id c = a) (discover_agents env W polls) = latest_card env W a (concat polls)"
  proof (cases "latest_card env W a (concat polls)")
    case None
    then have "c \<notin> snd ` set ?d \<or> card_agent_id c \<noteq> a" for c using m latest_card_id by fastforce
    then show ?thesis using None by (auto simp: d find_None_iff)
  next
    case (Some c)
    then have c: "c \<in> set (discover_agents env W polls)" "card_agent_id c = a"
      using m latest_card_id by (force simp: d)+
    have "find (\<lambda>c. card_agent_id c = a) cs = Some c" if "c \<in> set cs" "distinct (map card_agent_id cs)" for cs
      using that c(2) by (induction cs) force+
    then show ?thesis using c(1) dis Some by simp
  qed
qed

text \<open>What an entry of the roster says of the card its agent announced last.\<close>

definition entry_shows :: "AgentCard option \<Rightarrow> RosterEntry \<Rightarrow> bool" where
  "entry_shows announced_card e \<longleftrightarrow>
     (case announced_card of
        None \<Rightarrow> \<not> ro_announced e \<and> ro_liveness e = NOT_ANNOUNCED
      | Some c \<Rightarrow> ro_announced e \<and> ro_name e = Some (card_name c) \<and> ro_version e = Some (card_version c)
          \<and> ro_endpoint_topic e = Some (card_endpoint_topic c) \<and> ro_capabilities e = capabilities_of c
          \<and> ro_liveness e \<noteq> NOT_ANNOUNCED)"

lemma probed:
  assumes "dict_get (fold (\<lambda>(a, url) d. if a \<in> A then dict_set a (probe_liveness get url) d else d) eps []) a = Some l"
  shows "\<exists>url. (a, url) \<in> set eps \<and> l = probe_liveness get url"
  using assms
proof (induction eps rule: rev_induct)
  case (snoc x eps)
  then show ?case by (cases x) (auto split: if_splits)
qed simp

lemma probe_not_announced: "probe_liveness get url \<noteq> NOT_ANNOUNCED"
  by (auto simp: probe_liveness_def split: option.split sum.split)

lemma probe_live: "probe_liveness get url = LIVE \<longleftrightarrow> (\<exists>u. url = Some u \<and> u \<noteq> [] \<and> get u = Inr True)"
  by (auto simp: probe_liveness_def split: option.split sum.split)

text \<open>The roster. Whatever has been announced, the roster has exactly one entry for each of the three
  agents, in the fixed order, and it shows the latest valid card of its agent or that there is none; an
  agent is live only if its endpoint answered with success. If the broker cannot be read in time every
  agent is shown as not announced.\<close>

theorem roster_shows_latest:
  assumes "[] \<notin> set polls"
  shows "map ro_agent_id (build_roster env W (map Inr polls) in_time eps get) = EXPECTED_AGENT_IDS
    \<and> list_all2 (\<lambda>a. entry_shows (if in_time then latest_card env W a (concat polls) else None))
        EXPECTED_AGENT_IDS (build_roster env W (map Inr polls) in_time eps get)
    \<and> (\<forall>e \<in> set (build_roster env W (map Inr polls) in_time eps get). ro_liveness e = LIVE \<longrightarrow>
        (\<exists>url. (ro_agent_id e, Some url) \<in> set eps \<and> get url = Inr True))"
proof -
  let ?cs = "if in_time then discover_agents env W polls else []"
  define ts where "ts = (if in_time then snd (read_cards_and_times env W (map Inr polls)) else [])"
  define lv where "lv = fold (\<lambda>(a, url) d. if a \<in> card_agent_id ` set ?cs then dict_set a (probe_liveness get url) d else d) eps []"
  define latest where "latest = fold (\<lambda>c d. dict_set (card_agent_id c) c d) ?cs []"
  have r: "build_roster env W (map Inr polls) in_time eps get = map (roster_entry latest ts lv) EXPECTED_AGENT_IDS"
    using roster_cards [of env W polls]
    by (cases "read_cards_and_times env W (map Inr polls)")
      (simp add: build_roster_def build_roster_entries_def latest_def ts_def lv_def Let_def)
  have l: "dict_get latest a = (if in_time then latest_card env W a (concat polls) else None)" for a
    unfolding latest_def using discover_latest [OF assms] by (simp add: collect_again)
  have id: "ro_agent_id (roster_entry latest ts lv a) = a" for a
    using latest_card_id by (auto simp: roster_entry_def l split: option.split)
  have live: "ro_liveness (roster_entry latest ts lv a) = LIVE \<Longrightarrow> \<exists>url. (a, Some url) \<in> set eps \<and> get url = Inr True" for a
    unfolding lv_def by (auto simp: roster_entry_def eq_commute [of LIVE] probe_live dest!: probed split: option.splits)
  have "dict_get lv a \<noteq> Some NOT_ANNOUNCED" for a
  proof
    assume "dict_get lv a = Some NOT_ANNOUNCED"
    then obtain url where "NOT_ANNOUNCED = probe_liveness get url" unfolding lv_def by (blast dest: probed)
    then show False using probe_not_announced by metis
  qed
  then have "entry_shows (dict_get latest a) (roster_entry latest ts lv a)" for a
    by (auto simp: entry_shows_def roster_entry_def split: option.split)
  then have "list_all2 (\<lambda>a. entry_shows (dict_get latest a)) as (map (roster_entry latest ts lv) as)" for as
    by (induction as) simp_all
  from this [of EXPECTED_AGENT_IDS, unfolded l] show ?thesis unfolding r using live by (simp add: comp_def id)
qed

text \<open>Two announcements of the billing agent, the second with a new version.\<close>

definition roster_wire :: "AgentCard card_wire" where
  "roster_wire = \<lparr>cw_envelope = (\<lambda>c. Inr \<lparr>en_event_id = 1, en_correlation_id = 1, en_causation_id = None,
       en_agent_id = card_agent_id c, en_tenant_id = ''local'', en_timestamp = 0, en_event_type = ''agent.agent_card.v1'',
       en_schema_version = ''1.0.0'', en_trace_context = None, en_payload = [(''version'', VStr (card_version c))]\<rparr>),
     cw_card = (\<lambda>d. case d of [(_, VStr v)] \<Rightarrow> Inr \<lparr>card_agent_id = ''billing-entitlement-agent'', card_name = ''Billing'',
       card_description = ''Billing'', card_version = v, card_endpoint_topic = ''t'',
       card_capabilities = [\<lparr>cap_id = ''refund'', cap_name = ''c'', cap_description = ''c'', cap_tags = []\<rparr>]\<rparr>
       | _ \<Rightarrow> Inl (ValueError ''card''))\<rparr>"

definition billing_card_v :: "string \<Rightarrow> AgentCard" where
  "billing_card_v v = \<lparr>card_agent_id = ''billing-entitlement-agent'', card_name = ''Billing'', card_description = ''Billing'',
     card_version = v, card_endpoint_topic = ''t'',
     card_capabilities = [\<lparr>cap_id = ''refund'', cap_name = ''c'', cap_description = ''c'', cap_tags = []\<rparr>]\<rparr>"

lemma roster_sample:
  "latest_card ''local'' roster_wire ''billing-entitlement-agent''
     (concat [[billing_card_v ''1.0.0''], [billing_card_v ''1.1.0'']]) = Some (billing_card_v ''1.1.0'')"
  by code_simp

theorem roster_shows_latest_witness:
  "map ro_agent_id (build_roster ''local'' roster_wire (map Inr [[billing_card_v ''1.0.0''], [billing_card_v ''1.1.0'']])
      True [] (\<lambda>_. Inr True)) = EXPECTED_AGENT_IDS
   \<and> ro_version (build_roster ''local'' roster_wire (map Inr [[billing_card_v ''1.0.0''], [billing_card_v ''1.1.0'']])
      True [] (\<lambda>_. Inr True) ! 1) = Some ''1.1.0''"
proof -
  have "[] \<notin> set [[billing_card_v ''1.0.0''], [billing_card_v ''1.1.0'']]" by simp
  from roster_shows_latest [OF this, of "''local''" roster_wire True "[]" "\<lambda>_. Inr True"] roster_sample
  show ?thesis
    by (auto simp: list_all2_conv_all_nth EXPECTED_AGENT_IDS_def entry_shows_def billing_card_v_def dest!: spec [of _ 1])
qed

section \<open>Background refreshes\<close>

text \<open>The poll cache with the threads that are running, by the key they refresh.\<close>

inductive cache_step :: "'v poll_cache \<times> string multiset \<Rightarrow> 'v poll_cache \<times> string multiset \<Rightarrow> bool" where
  step_call: "cached_call key fresh window stale now c = (r, started, c') \<Longrightarrow>
    cache_step (c, running) (c', if started then add_mset key running else running)"
| step_done: "key \<in># running \<Longrightarrow> cache_step (c, running) (refresh_done key now result c, running - {#key#})"
| step_clear: "cache_step (c, running) (clear_cache c, running)"

definition one_refresh :: "'v poll_cache \<times> string multiset \<Rightarrow> bool" where
  "one_refresh s \<longleftrightarrow> (\<forall>key. count (snd s) key = (if key \<in> pc_inflight (fst s) then 1 else 0))"

lemma one_refresh_step: "cache_step s s' \<Longrightarrow> one_refresh s \<Longrightarrow> one_refresh s'"
proof (induction rule: cache_step.induct)
  case (step_call key fresh window stale now c r started c' running)
  then show ?case
    by (auto simp: one_refresh_def cached_call_def spawn_refresh_def split: option.splits prod.splits if_splits sum.splits)
next
  case (step_done key running c now result)
  then show ?case by (auto simp: one_refresh_def refresh_done_def Let_def split: sum.splits if_splits)
next
  case step_clear
  then show ?case by (simp add: one_refresh_def clear_cache_def)
qed

lemma one_refresh_run:
  assumes "cache_step\<^sup>*\<^sup>* (\<lparr>pc_cache = [], pc_inflight = {}\<rparr>, {#}) (c, running)"
  shows "count running key \<le> 1"
proof -
  have "one_refresh (c, running)"
    using assms
  proof (induction rule: rtranclp_induct)
    case (step s s')
    then show ?case by (blast intro: one_refresh_step)
  qed (simp add: one_refresh_def)
  then show ?thesis by (simp add: one_refresh_def)
qed

section \<open>The form writes one root event\<close>

lemma demo_identity_valid: "AGENT_ID_RE (id_agent_id demo_identity)" "TENANT_ID_RE (id_tenant_id demo_identity)"
  by code_simp+

lemma ticket_root: "TICKET_CREATED env \<in> set (ROOT_EVENT_TYPES env)"
  by (simp add: ROOT_EVENT_TYPES_def topic_defs)

text \<open>Minting identifiers draws fresh ones and touches nothing else.\<close>

lemma minted_run:
  "\<exists>s w'. minted_id E tag g w = (Inr s, w') \<and> nt_log w' = nt_log w \<and> nt_sends w' = nt_sends w
     \<and> (\<forall>t. g = Some t \<and> t \<noteq> [] \<longrightarrow> s = t)"
  by (cases g) (auto simp: minted_id_def io_defs uuid4_io_def)

text \<open>Starting a demo case is one root event. Submitting a request publishes exactly one message, the
  created ticket with the amount, currency and reason of the request and the identifiers it names, with no
  cause and under the correlation that is returned; if the broker does not acknowledge it, the submission
  raises and nothing has been written.\<close>

theorem demo_trigger_one_root:
  fixes w :: "'a net_scheme"
  assumes "type_segment (re_environment E)"
  shows "\<exists>r p env w'. publish_demo_ticket E req w = (r, w')
    \<and> (if re_send_ok E (nt_sends w)
       then r = Inr \<lparr>dt_correlation_id = en_correlation_id env, dt_event_id = en_event_id env,
              dt_event_type = TICKET_CREATED (re_environment E)\<rparr>
         \<and> nt_log w' = nt_log w @ [\<lparr>sn_topic = TICKET_CREATED (re_environment E), sn_key = Inl (en_event_id env),
              sn_envelope = env, sn_model = MTicket p\<rparr>]
         \<and> en_causation_id env = None \<and> en_event_type env = TICKET_CREATED (re_environment E)
         \<and> tk_amount p = dq_amount req \<and> tk_currency p = dq_currency req \<and> tk_reason p = dq_reason req
         \<and> (\<forall>t. dq_ticket_id req = Some t \<and> t \<noteq> [] \<longrightarrow> tk_ticket_id p = t)
         \<and> (\<forall>c. dq_customer_id req = Some c \<and> c \<noteq> [] \<longrightarrow> tk_customer_id p = c)
       else isl r \<and> nt_log w' = nt_log w)"
proof -
  let ?et = "TICKET_CREATED (re_environment E)"
  obtain t w1 where t: "minted_id E ''TKT-'' (dq_ticket_id req) w = (Inr t, w1)" "nt_log w1 = nt_log w" "nt_sends w1 = nt_sends w"
    "\<forall>x. dq_ticket_id req = Some x \<and> x \<noteq> [] \<longrightarrow> t = x"
    using minted_run [of E "''TKT-''" "dq_ticket_id req" w] by blast
  obtain c w2 where c: "minted_id E ''CUST-'' (dq_customer_id req) w1 = (Inr c, w2)" "nt_log w2 = nt_log w1" "nt_sends w2 = nt_sends w1"
    "\<forall>x. dq_customer_id req = Some x \<and> x \<noteq> [] \<longrightarrow> c = x"
    using minted_run [of E "''CUST-''" "dq_customer_id req" w1] by blast
  define p where "p = \<lparr>tk_ticket_id = t, tk_customer_id = c, tk_amount = dq_amount req, tk_currency = dq_currency req,
    tk_reason = dq_reason req, tk_created_at = re_clock E (nt_ticks w2)\<rparr>"
  let ?w = "w2\<lparr>nt_ticks := Suc (nt_ticks w2), nt_uuids := Suc (nt_uuids w2)\<rparr>"
  let ?env = "(domain_envelope E demo_identity (MTicket p) ?et (re_uuid4 E (nt_uuids w2)) None ?w)"
  have "(?et, class_name (MTicket p)) \<in> set (domain_topics (re_environment E))" by (simp add: domain_topics_def)
  note reg = domain_topic_valid [OF assms this] domain_topic_registered [OF this]
  obtain r w' where r: "publish E demo_identity (MTicket p) ?et (re_uuid4 E (nt_uuids w2)) None None ?w = (r, w')" by fastforce
  then have pub: "if re_send_ok E (nt_sends w) then r = Inr ?env \<and> nt_log w' = nt_log w @
         [\<lparr>sn_topic = ?et, sn_key = Inl (en_event_id ?env), sn_envelope = ?env, sn_model = MTicket p\<rparr>]
      else isl r \<and> nt_log w' = nt_log w"
    using reg demo_identity_valid ticket_root t(2,3) c(2,3)
    by (auto simp: publish_def build_envelope_def lift_exc_def io_defs uuid4_io_def now_io_def
      validate_envelope_def send_and_wait_def domain_envelope_def Let_def split: if_splits)
  have "publish_demo_ticket E req w = (map_sum id (\<lambda>env. \<lparr>dt_correlation_id = en_correlation_id env, dt_event_id = en_event_id env,
              dt_event_type = ?et\<rparr>) r, w')"
    using t(1) c(1) r
    by (auto simp: publish_demo_ticket_def to_payload_def bind_io_def now_io_def uuid4_io_def return_io_def p_def split: sum.split)
  moreover have "en_causation_id ?env = None" "en_event_type ?env = ?et" by (simp_all add: domain_envelope_def)
  ultimately show ?thesis using pub t(4) c(4)
    by (cases "re_send_ok E (nt_sends w)"; intro exI [of _ "map_sum id _ r"] exI [of _ p] exI [of _ ?env] exI [of _ w'])
      (auto simp: p_def isl_map_sum)
qed

definition demo_request :: DemoTriggerRequest where
  "demo_request = \<lparr>dq_amount = 30, dq_currency = ''USD'', dq_reason = ''Charged twice'', dq_ticket_id = Some ''PR-APPROVE'',
     dq_customer_id = None\<rparr>"

theorem demo_trigger_one_root_witness:
  "\<exists>m. nt_log (snd (publish_demo_ticket sample_env demo_request
        \<lparr>nt_log = [], nt_ticks = 0, nt_uuids = 0, nt_sends = 0\<rparr>)) = [m]
     \<and> en_causation_id (sn_envelope m) = None"
proof -
  have "re_send_ok sample_env 0" by (simp add: sample_env_def)
  with demo_trigger_one_root [OF sample_env_segment, of demo_request "\<lparr>nt_log = [], nt_ticks = 0, nt_uuids = 0, nt_sends = 0\<rparr>"]
  show ?thesis by auto
qed

end
