(* ===== verification/Audit_Timeline.thy ===== *)
theory Audit_Timeline
  imports Case_Trace
begin

text \<open>
  The audit timeline of a case, \<^verbatim>\<open>packages/testing/audit_timeline.py\<close>: the envelopes of one correlation
  are ordered depth-first along their causes by a recursive walk, labelled for a human reader, and closed by
  a synthetic last entry. The recursion limit of the interpreter is an argument: \<open>None\<close> is a walk that
  exceeds it, which raises.
\<close>

section \<open>The causal order\<close>

text \<open>The sibling groups: the children of an envelope, and under \<open>None\<close> those without a known cause.\<close>

definition known_cause :: "EventEnvelope list \<Rightarrow> EventEnvelope \<Rightarrow> uuid option" where
  "known_cause envelopes e =
     (case en_causation_id e of
        None \<Rightarrow> None
      | Some c \<Rightarrow> if c \<in> en_event_id ` set envelopes then Some c else None)"

definition siblings :: "EventEnvelope list \<Rightarrow> uuid option \<Rightarrow> EventEnvelope list" where
  "siblings envelopes parent = sort_key en_timestamp (filter (\<lambda>e. known_cause envelopes e = parent) envelopes)"

text \<open>The loop of one call of \<^verbatim>\<open>_walk\<close> with \<open>depth\<close> further calls allowed on the stack.\<close>

fun walk :: "(uuid option \<Rightarrow> EventEnvelope list) \<Rightarrow> nat \<Rightarrow> EventEnvelope list \<Rightarrow> EventEnvelope list option" where
  "walk children depth [] = Some []"
| "walk children 0 (env # rest) = None"
| "walk children (Suc depth) (env # rest) =
     (case walk children depth (children (Some (en_event_id env))) of
        None \<Rightarrow> None
      | Some below \<Rightarrow> map_option (\<lambda>more. env # below @ more) (walk children (Suc depth) rest))"

definition causal_sort :: "nat \<Rightarrow> EventEnvelope list \<Rightarrow> EventEnvelope list option" where
  "causal_sort depth envelopes =
     map_option
       (\<lambda>result. result @ sort_key en_timestamp (filter (\<lambda>e. en_event_id e \<notin> en_event_id ` set result) envelopes))
       (walk (siblings envelopes) depth (siblings envelopes None))"

section \<open>Labels\<close>

definition is_task_requested :: "string \<Rightarrow> bool" where
  "is_task_requested event_type = suffix ''.task.requested.v1'' event_type"

definition label_map :: "string \<Rightarrow> (string, string) dict" where
  "label_map env =
     [(TOPIC_ISSUE_CLASSIFIED env, ''resolution.customer-issue.classified''),
      (TOPIC_REFUND_REVIEW_REQUESTED env, ''resolution.refund-review.requested''),
      (TOPIC_BILLING_RESULT env, ''billing.refund-analysis.completed''),
      (TOPIC_RISK_RESULT env, ''risk.review.completed''),
      (TOPIC_RESOLUTION_DECIDED env, ''resolution.customer-resolution.decided''),
      (TOPIC_RESPONSE_DRAFTED env, ''resolution.customer-response.drafted'')]"

text \<open>The segments between the first \<^verbatim>\<open>agent\<close> and the next \<^verbatim>\<open>task\<close>.\<close>

definition agent_in_topic :: "string list \<Rightarrow> string option" where
  "agent_in_topic parts =
     (if ''agent'' \<notin> set parts then None
      else let between = tl (dropWhile (\<lambda>p. p \<noteq> ''agent'') parts) in
           if ''task'' \<notin> set between then None
           else let agent_parts = takeWhile (\<lambda>p. p \<noteq> ''task'') between in
                if agent_parts = [] then None else Some (py_join ''.'' agent_parts))"

definition extract_target_agent :: "EventEnvelope \<Rightarrow> string option" where
  "extract_target_agent e =
     (case filter (\<lambda>k. dict_get (en_payload e) k \<noteq> None) [''target_agent_id'', ''agent_id'', ''target''] of
        k # _ \<Rightarrow> Some (py_str (the (dict_get (en_payload e) k)))
      | [] \<Rightarrow> agent_in_topic (split_dots (en_event_type e)))"

definition reconcile_label :: "string \<Rightarrow> EventEnvelope \<Rightarrow> string" where
  "reconcile_label env e =
     (let et = en_event_type e in
      if suffix ''support.ticket.created.v1'' et then ''support.ticket.created''
      else if is_task_requested et \<or> et = TOPIC_TASK_RESULT env
      then (case extract_target_agent e of
              Some target \<Rightarrow> if target \<noteq> [] then ''audit.agent-task.requested '' @ target else ''audit.agent-task.requested''
            | None \<Rightarrow> ''audit.agent-task.requested'')
      else case dict_get (label_map env) et of Some l \<Rightarrow> l | None \<Rightarrow> et)"

section \<open>Entries\<close>

record AuditEntry =
  ae_seq :: nat
  ae_event_type :: string
  ae_label :: string
  ae_actor :: string
  ae_target_agent :: "string option"
  ae_correlation_id :: uuid
  ae_causation_id :: "uuid option"
  ae_task_id :: "uuid option"
  ae_timestamp :: instant
  ae_summary :: string

definition make_summary :: "string \<Rightarrow> EventEnvelope \<Rightarrow> string" where
  "make_summary env e = reconcile_label env e @ '' by '' @ en_agent_id e"

definition audit_entry :: "string \<Rightarrow> nat \<Rightarrow> EventEnvelope \<Rightarrow> AuditEntry" where
  "audit_entry env seq e =
     \<lparr>ae_seq = seq, ae_event_type = en_event_type e, ae_label = reconcile_label env e, ae_actor = en_agent_id e,
      ae_target_agent = (if is_task_requested (en_event_type e) then extract_target_agent e else None),
      ae_correlation_id = en_correlation_id e, ae_causation_id = en_causation_id e, ae_task_id = extract_task_id e,
      ae_timestamp = en_timestamp e, ae_summary = make_summary env e\<rparr>"

definition decided_label :: string where
  "decided_label = ''resolution.customer-resolution.decided''"

definition find_decided_outcome :: "AuditEntry list \<Rightarrow> string option" where
  "find_decided_outcome entries =
     (if list_ex (\<lambda>e. ae_label e = decided_label \<and> py_in ''escalat'' (py_lower (ae_summary e))) entries
      then Some ''escalated'' else None)"

definition make_terminal_entry :: "AuditEntry list \<Rightarrow> AuditEntry option" where
  "make_terminal_entry entries =
     (if entries = [] then None
      else let labels = map ae_label entries; final = last entries;
               decided = decided_label \<in> set labels;
               drafted = ''resolution.customer-response.drafted'' \<in> set labels;
               escalated = find_decided_outcome entries \<in> {Some ''escalated'', Some ''escalate''};
               terminal = (\<lambda>label summary.
                 \<lparr>ae_seq = ae_seq final + 1, ae_event_type = ''audit.synthetic.terminal.v1'', ae_label = label,
                  ae_actor = ''audit-timeline-builder'', ae_target_agent = None,
                  ae_correlation_id = ae_correlation_id final, ae_causation_id = None, ae_task_id = None,
                  ae_timestamp = ae_timestamp final, ae_summary = summary\<rparr>)
           in if escalated then Some (terminal ''resolution.case.escalated'' ''Case escalated'')
              else if decided \<and> drafted then Some (terminal ''resolution.case.closed'' ''Case closed'')
              else if decided then Some (terminal ''resolution.case.closed'' ''Case closed (decision recorded)'')
              else None)"

definition build_audit_timeline :: "string \<Rightarrow> nat \<Rightarrow> EventEnvelope list \<Rightarrow> AuditEntry list option" where
  "build_audit_timeline env depth envelopes =
     (if envelopes = [] then Some []
      else map_option
        (\<lambda>ordered. let entries = map (\<lambda>(n, e). audit_entry env n e) (enumerate 1 ordered)
                   in case make_terminal_entry entries of None \<Rightarrow> entries | Some t \<Rightarrow> entries @ [t])
        (causal_sort depth envelopes))"

definition collect_case :: "uuid \<Rightarrow> EventEnvelope list option \<Rightarrow> EventEnvelope list" where
  "collect_case correlation_id envelopes =
     (case envelopes of None \<Rightarrow> [] | Some es \<Rightarrow> filter (\<lambda>e. en_correlation_id e = correlation_id) es)"

definition render_timeline :: "AuditEntry list \<Rightarrow> string" where
  "render_timeline entries =
     py_join [CHR 0x0A] (map (\<lambda>e. show_int (int (ae_seq e)) @ ''. '' @ ae_label e) entries)"

text \<open>An optional text as JSON sees it: \<^verbatim>\<open>None\<close> or the text.\<close>

definition text_or_none :: "string option \<Rightarrow> pyval" where
  "text_or_none t = (case t of None \<Rightarrow> VNone | Some s \<Rightarrow> VStr s)"

text \<open>A UUID is falsy for no value, so \<^verbatim>\<open>if d["task_id"]\<close> only tests for \<^verbatim>\<open>None\<close>.\<close>

definition entry_dict :: "AuditEntry \<Rightarrow> (string, pyval) dict" where
  "entry_dict e =
     [(''seq'', VInt (int (ae_seq e))), (''event_type'', VStr (ae_event_type e)), (''label'', VStr (ae_label e)),
      (''actor'', VStr (ae_actor e)), (''target_agent'', text_or_none (ae_target_agent e)),
      (''correlation_id'', VStr (show_uuid (ae_correlation_id e))),
      (''causation_id'', text_or_none (map_option show_uuid (ae_causation_id e))),
      (''task_id'', text_or_none (map_option show_uuid (ae_task_id e))),
      (''timestamp'', VStr (isoformat (ae_timestamp e))), (''summary'', VStr (ae_summary e))]"

definition timeline_dicts :: "AuditEntry list \<Rightarrow> (string, pyval) dict list" where
  "timeline_dicts entries = map entry_dict entries"

section \<open>Facts about the walk\<close>

lemma set_siblings: "set (siblings es p) = {e \<in> set es. known_cause es e = p}"
  by (auto simp: siblings_def)

text \<open>A walk that exceeds the limit has gone down a path that is longer than the limit.\<close>

fun descent :: "(uuid option \<Rightarrow> EventEnvelope list) \<Rightarrow> EventEnvelope list \<Rightarrow> EventEnvelope list \<Rightarrow> bool" where
  "descent ch sibs [] = True"
| "descent ch sibs (e # path) \<longleftrightarrow> e \<in> set sibs \<and> descent ch (ch (Some (en_event_id e))) path"

lemma walk_exceeds:
  "walk ch depth sibs = None \<Longrightarrow> \<exists>path. descent ch sibs path \<and> length path = Suc depth"
proof (induction ch depth sibs rule: walk.induct)
  case (2 ch env rest)
  then have "descent ch (env # rest) [env]" by simp
  then show ?case by fastforce
next
  case (3 ch depth env rest)
  show ?case
  proof (cases "walk ch depth (ch (Some (en_event_id env)))")
    case None
    with 3 obtain path where "descent ch (ch (Some (en_event_id env))) path" "length path = Suc depth" by blast
    then have "descent ch (env # rest) (env # path)" "length (env # path) = Suc (Suc depth)" by simp_all
    then show ?thesis by blast
  next
    case (Some below)
    with 3 obtain path where p: "descent ch rest path" "length path = Suc (Suc depth)" by (auto split: option.splits)
    then have "descent ch (env # rest) path" by (cases path) auto
    with p show ?thesis by blast
  qed
qed simp

text \<open>What a walk returns: its siblings, closed under children, every child after its parent.\<close>

lemma walk_SucE:
  assumes "walk ch (Suc depth) (env # rest) = Some ys"
  obtains below more where "walk ch depth (ch (Some (en_event_id env))) = Some below"
    "walk ch (Suc depth) rest = Some more" "ys = env # below @ more"
  using assms by (auto split: option.splits)

lemma walk_covers: "walk ch depth sibs = Some ys \<Longrightarrow> set sibs \<subseteq> set ys"
proof (induction ch depth sibs arbitrary: ys rule: walk.induct)
  case (3 ch depth env rest)
  from 3(3) obtain below more where "walk ch depth (ch (Some (en_event_id env))) = Some below"
    "walk ch (Suc depth) rest = Some more" "ys = env # below @ more" by (rule walk_SucE)
  with 3(2) show ?case by auto
qed auto

lemma walk_closed:
  "walk ch depth sibs = Some ys \<Longrightarrow> e \<in> set ys \<Longrightarrow> set (ch (Some (en_event_id e))) \<subseteq> set ys"
proof (induction ch depth sibs arbitrary: ys rule: walk.induct)
  case (3 ch depth env rest)
  from 3(3) obtain below more where w: "walk ch depth (ch (Some (en_event_id env))) = Some below"
    "walk ch (Suc depth) rest = Some more" "ys = env # below @ more" by (rule walk_SucE)
  with walk_covers [OF w(1)] 3 show ?case by auto
qed auto

lemma walk_causal:
  "walk ch depth sibs = Some (pre @ e # post) \<Longrightarrow>
     e \<in> set sibs \<or> (\<exists>p \<in> set pre. e \<in> set (ch (Some (en_event_id p))))"
proof (induction ch depth sibs arbitrary: pre post rule: walk.induct)
  case (3 ch depth env rest)
  from 3(3) obtain below more where w: "walk ch depth (ch (Some (en_event_id env))) = Some below"
    "walk ch (Suc depth) rest = Some more" "pre @ e # post = env # below @ more" by (rule walk_SucE)
  show ?case
  proof (cases pre)
    case Nil
    with w show ?thesis by simp
  next
    case (Cons x pre')
    then have "pre' @ e # post = below @ more" "x = env" using w by auto
    then consider zs where "below = pre' @ e # zs" | zs where "pre' = below @ zs" "more = zs @ e # post"
      by (auto simp: append_eq_append_conv2 Cons_eq_append_conv)
    then show ?thesis
    proof cases
      case 1
      with 3(1) w(1) have "e \<in> set (ch (Some (en_event_id env))) \<or> (\<exists>p\<in>set pre'. e \<in> set (ch (Some (en_event_id p))))" by blast
      with Cons \<open>x = env\<close> show ?thesis by auto
    next
      case 2
      with 3(2) w have "e \<in> set rest \<or> (\<exists>p\<in>set zs. e \<in> set (ch (Some (en_event_id p))))" by blast
      with Cons 2 show ?thesis by auto
    qed
  qed
qed auto

section \<open>Lines of descent\<close>

text \<open>An envelope, its cause, the cause of that, up to an envelope without a known cause.\<close>

definition cause_of :: "EventEnvelope list \<Rightarrow> uuid option" where
  "cause_of L = (case L of [] \<Rightarrow> None | p # _ \<Rightarrow> Some (en_event_id p))"

fun lineage :: "EventEnvelope list \<Rightarrow> EventEnvelope list \<Rightarrow> bool" where
  "lineage es [] = True"
| "lineage es (e # L) \<longleftrightarrow> e \<in> set (siblings es (cause_of L)) \<and> lineage es L"

lemma cause_of_simps [simp]: "cause_of [] = None" "cause_of (p # L) = Some (en_event_id p)"
  by (simp_all add: cause_of_def)

lemma lineage_suffix: "lineage es (A @ L) \<Longrightarrow> lineage es L"
  by (induction A) auto

lemma lineage_subset: "lineage es L \<Longrightarrow> set L \<subseteq> set es"
  by (induction L) (auto simp: set_siblings)

lemma lineage_unique:
  assumes d: "distinct (map en_event_id es)"
  shows "lineage es (e # L) \<Longrightarrow> lineage es (e # L') \<Longrightarrow> L = L'"
proof (induction L arbitrary: e L')
  case Nil
  then show ?case by (cases L') (auto simp: set_siblings)
next
  case (Cons p L)
  then obtain p' M where L': "L' = p' # M" and i: "en_event_id p = en_event_id p'" by (cases L') (auto simp: set_siblings)
  have "p \<in> set es" "p' \<in> set es" using Cons.prems L' by (auto simp: set_siblings)
  with i have "p = p'" using same_id [OF d] by blast
  with Cons L' show ?case by (metis lineage.simps(2))
qed

lemma lineage_distinct:
  assumes d: "distinct (map en_event_id es)" shows "lineage es L \<Longrightarrow> distinct L"
proof (induction L)
  case (Cons e L)
  have "e \<notin> set L"
  proof
    assume "e \<in> set L"
    then obtain A B where L: "L = A @ e # B" by (meson split_list)
    with Cons.prems have "lineage es (e # B)" by (auto dest: lineage_suffix)
    with Cons.prems L have "A @ e # B = B" using lineage_unique [OF d] by blast
    then show False using arg_cong [of _ _ length] by fastforce
  qed
  with Cons show ?case by simp
qed simp

lemma lineage_length:
  assumes "distinct (map en_event_id es)" "lineage es L" shows "length L \<le> length es"
proof -
  have "length L = card (set L)" using lineage_distinct [OF assms] by (simp add: distinct_card)
  also have "\<dots> \<le> card (set es)" using lineage_subset [OF assms(2)] by (simp add: card_mono)
  finally show ?thesis using card_length [of es] by simp
qed

lemma descent_lineage:
  "descent (siblings es) (siblings es (cause_of P)) path \<Longrightarrow> lineage es P \<Longrightarrow> lineage es (rev path @ P)"
proof (induction path arbitrary: P)
  case (Cons e path)
  then have "lineage es (rev path @ e # P)" by simp
  then show ?case by simp
qed simp

lemma walk_returns:
  assumes "distinct (map en_event_id es)" "length es \<le> depth"
  shows "\<exists>ys. walk (siblings es) depth (siblings es None) = Some ys"
proof (rule ccontr)
  assume "\<nexists>ys. walk (siblings es) depth (siblings es None) = Some ys"
  then obtain path where "descent (siblings es) (siblings es None) path" and l: "length path = Suc depth"
    using walk_exceeds by blast
  then have "lineage es (rev path)" using descent_lineage [of es "[]"] by simp
  from lineage_length [OF assms(1) this] show False using l assms(2) by simp
qed

text \<open>What a walk returns descends from its siblings, so two branches share nothing.\<close>

lemma walk_descends:
  "walk (siblings es) depth sibs = Some ys \<Longrightarrow> lineage es P \<Longrightarrow> set sibs \<subseteq> set (siblings es (cause_of P)) \<Longrightarrow> e \<in> set ys
     \<Longrightarrow> \<exists>s \<in> set sibs. \<exists>A. lineage es (A @ s # P) \<and> hd (A @ s # P) = e"
proof (induction "siblings es" depth sibs arbitrary: ys P rule: walk.induct)
  case (3 depth env rest)
  from 3(3) obtain below more where w: "walk (siblings es) depth (siblings es (Some (en_event_id env))) = Some below"
    "walk (siblings es) (Suc depth) rest = Some more" "ys = env # below @ more" by (rule walk_SucE)
  have l: "lineage es (env # P)" using 3 by simp
  from w 3(6) consider "e = env" | "e \<in> set below" | "e \<in> set more" by auto
  then show ?case
  proof cases
    case 1
    with l show ?thesis by (intro bexI [of _ env] exI [of _ "[]"]) simp_all
  next
    case 2
    then obtain s A where "lineage es (A @ s # env # P) \<and> hd (A @ s # env # P) = e"
      using 3(1) [OF w(1) l] by auto
    then show ?thesis by (intro bexI [of _ env] exI [of _ "A @ [s]"]) simp_all
  next
    case 3
    then show ?thesis using "3.hyps"(2) [OF w(1,2)] "3.prems" by fastforce
  qed
qed auto

lemma same_level: "A @ x # P = B @ y # P \<Longrightarrow> x = y"
  using append_eq_append_conv [of "A @ [x]" "B @ [y]" P P] by simp

lemma walk_distinct:
  assumes d: "distinct (map en_event_id es)"
  shows "walk (siblings es) depth sibs = Some ys \<Longrightarrow> lineage es P \<Longrightarrow> set sibs \<subseteq> set (siblings es (cause_of P))
    \<Longrightarrow> distinct sibs \<Longrightarrow> distinct ys"
proof (induction "siblings es" depth sibs arbitrary: ys P rule: walk.induct)
  case (3 depth env rest)
  from 3(3) obtain below more where w: "walk (siblings es) depth (siblings es (Some (en_event_id env))) = Some below"
    "walk (siblings es) (Suc depth) rest = Some more" "ys = env # below @ more" by (rule walk_SucE)
  have l: "lineage es (env # P)" and r: "set rest \<subseteq> set (siblings es (cause_of P))" using 3 by auto
  have "distinct es" using d by (simp add: distinct_map)
  then have "distinct below" using 3(1) [OF w(1) l] by (simp add: siblings_def)
  moreover have "distinct more" using 3(2) [OF w(1,2)] 3 by auto
  moreover have under: "\<exists>A. lineage es (A @ env # P) \<and> hd (A @ env # P) = e \<and> A \<noteq> []" if "e \<in> set below" for e
    using walk_descends [OF w(1) l _ that] by (metis append.assoc append_Cons append_Nil cause_of_simps(2) order_refl snoc_eq_iff_butlast)
  moreover have one: "M = N" if "lineage es M" "lineage es N" "hd M = hd N" "M \<noteq> []" "N \<noteq> []" for M N
    using that lineage_unique [OF d] by (metis list.collapse)
  have "env \<notin> set below" using under one [OF _ l] by fastforce
  moreover have beside: "\<exists>B. \<exists>s \<in> set rest. lineage es (B @ s # P) \<and> hd (B @ s # P) = e" if "e \<in> set more" for e
    using walk_descends [OF w(2) 3(4) r that] by blast
  have "env \<notin> set more"
  proof
    assume "env \<in> set more"
    from beside [OF this] obtain B s where b: "s \<in> set rest" "lineage es (B @ s # P)" "hd (B @ s # P) = env" by blast
    then have "B @ s # P = [] @ env # P" using one [OF b(2) l] by simp
    then have "s = env" by (rule same_level)
    with b(1) 3 show False by simp
  qed
  moreover have "set below \<inter> set more = {}"
  proof (rule equals0I)
    fix e assume "e \<in> set below \<inter> set more"
    with under beside obtain A B s where "s \<in> set rest" "lineage es (A @ env # P)" "lineage es (B @ s # P)"
      "hd (A @ env # P) = hd (B @ s # P)" by (metis IntE)
    with one have "A @ env # P = B @ s # P" by blast
    then have "env = s" by (rule same_level)
    with \<open>s \<in> set rest\<close> 3 show False by simp
  qed
  ultimately show ?case using w(3) by auto
qed auto

section \<open>What the order shows\<close>

text \<open>Envelopes whose causes lead back to one without a known cause; the others are on or below a cycle.\<close>

inductive rooted :: "EventEnvelope list \<Rightarrow> EventEnvelope \<Rightarrow> bool" for es where
  first: "e \<in> set es \<Longrightarrow> known_cause es e = None \<Longrightarrow> rooted es e"
| later: "rooted es p \<Longrightarrow> e \<in> set es \<Longrightarrow> known_cause es e = Some (en_event_id p) \<Longrightarrow> rooted es e"

lemma rooted_walked:
  assumes "walk (siblings es) depth (siblings es None) = Some ys"
  shows "rooted es e \<Longrightarrow> e \<in> set ys"
proof (induction rule: rooted.induct)
  case (first e)
  then show ?case using walk_covers [OF assms] by (auto simp: set_siblings)
next
  case (later p e)
  then show ?case using walk_closed [OF assms] by (auto simp: set_siblings)
qed

lemma walked_causal:
  assumes w: "walk (siblings es) depth (siblings es None) = Some ys" and "i < length ys"
  shows "known_cause es (ys ! i) = None \<or> (\<exists>j < i. known_cause es (ys ! i) = Some (en_event_id (ys ! j)))"
proof -
  have "ys = take i ys @ ys ! i # drop (Suc i) ys" using assms(2) by (rule id_take_nth_drop)
  with w walk_causal have "ys ! i \<in> set (siblings es None)
      \<or> (\<exists>p \<in> set (take i ys). ys ! i \<in> set (siblings es (Some (en_event_id p))))" by metis
  then show ?thesis using assms(2) by (auto simp: set_siblings in_set_conv_nth; blast)
qed

lemma walked_order:
  assumes d: "distinct (map en_event_id es)" and w: "walk (siblings es) depth (siblings es None) = Some ys"
  shows "distinct ys \<and> set ys \<subseteq> set es"
proof
  have "distinct es" using d by (simp add: distinct_map)
  then show "distinct ys" using walk_distinct [OF d w, of "[]"] by (simp add: siblings_def)
  show "set ys \<subseteq> set es"
  proof
    fix e assume "e \<in> set ys"
    with walk_descends [OF w, of "[]" e] obtain s A where "lineage es (A @ [s])" "hd (A @ [s]) = e" by auto
    then show "e \<in> set es" using lineage_subset by (metis hd_in_set snoc_eq_iff_butlast subset_iff)
  qed
qed

definition stragglers :: "EventEnvelope list \<Rightarrow> EventEnvelope list \<Rightarrow> EventEnvelope list" where
  "stragglers es ws = sort_key en_timestamp (filter (\<lambda>e. en_event_id e \<notin> en_event_id ` set ws) es)"

lemma causal_sort_walk:
  "causal_sort depth es = map_option (\<lambda>ws. ws @ stragglers es ws) (walk (siblings es) depth (siblings es None))"
  by (simp add: causal_sort_def stragglers_def)

lemma walked_rearranged:
  assumes d: "distinct (map en_event_id es)" and w: "walk (siblings es) depth (siblings es None) = Some ws"
  shows "mset (ws @ stragglers es ws) = mset es"
proof -
  have dw: "distinct ws" and sub: "set ws \<subseteq> set es" using walked_order [OF d w] by auto
  have de: "distinct es" using d by (simp add: distinct_map)
  have "en_event_id e \<in> en_event_id ` set ws \<longleftrightarrow> e \<in> set ws" if "e \<in> set es" for e
    using that sub same_id [OF d] by blast
  then have "set (ws @ stragglers es ws) = set es" "distinct (ws @ stragglers es ws)"
    using sub dw de by (auto simp: stragglers_def)
  then show ?thesis using de by (metis set_eq_iff_mset_eq_distinct)
qed

lemma rooted_position:
  assumes w: "walk (siblings es) depth (siblings es None) = Some ws"
    and "i < length (ws @ stragglers es ws)" and r: "rooted es ((ws @ stragglers es ws) ! i)"
  shows "i < length ws"
proof (rule ccontr)
  assume "\<not> i < length ws"
  with assms(2) have "(ws @ stragglers es ws) ! i \<in> set (stragglers es ws)" by (simp add: nth_append)
  with rooted_walked [OF w r] show False by (auto simp: stragglers_def)
qed

text \<open>C20: the timeline of a case terminates and puts causes first. When the envelopes have distinct identifiers
  and the interpreter allows as many nested calls as there are envelopes, the recursive walk returns, whatever
  cycles the causes form; the order is a rearrangement of the envelopes, and every envelope whose causes lead back
  to a first event comes after its cause.\<close>

theorem timeline_order_terminates:
  assumes "distinct (map en_event_id es)" and "length es \<le> depth"
  shows "\<exists>ys. causal_sort depth es = Some ys \<and> mset ys = mset es
    \<and> (\<forall>i < length ys. rooted es (ys ! i) \<longrightarrow>
         known_cause es (ys ! i) = None \<or> (\<exists>j < i. known_cause es (ys ! i) = Some (en_event_id (ys ! j))))"
proof -
  obtain ws where w: "walk (siblings es) depth (siblings es None) = Some ws" using walk_returns [OF assms] by blast
  let ?ys = "ws @ stragglers es ws"
  have "known_cause es (?ys ! i) = None \<or> (\<exists>j < i. known_cause es (?ys ! i) = Some (en_event_id (?ys ! j)))"
    if i: "i < length ?ys" "rooted es (?ys ! i)" for i
    using rooted_position [OF w i] walked_causal [OF w, of i] by (fastforce simp: nth_append)
  then show ?thesis using w walked_rearranged [OF assms(1) w] by (auto simp: causal_sort_walk)
qed

text \<open>A ticket, its classification, and two events that name each other as their causes.\<close>

definition knotted :: "EventEnvelope list" where
  "knotted = [sample_event 3 (Some 4) ''a.b.v1'' 1 [], sample_event 2 (Some 1) ''a.b.v1'' 2 [],
     sample_event 4 (Some 3) ''a.b.v1'' 3 [], sample_event 1 None ''a.b.v1'' 4 []]"

theorem timeline_order_terminates_witness:
  "\<exists>ys. causal_sort 4 knotted = Some ys \<and> mset ys = mset knotted \<and> map en_event_id ys = [1, 2, 3, 4]"
proof -
  have "distinct (map en_event_id knotted)" "length knotted \<le> 4" by code_simp+
  then obtain ys where "causal_sort 4 knotted = Some ys" "mset ys = mset knotted"
    using timeline_order_terminates by blast
  moreover have "map_option (map en_event_id) (causal_sort 4 knotted) = Some [1, 2, 3, 4]" by code_simp
  ultimately show ?thesis by simp
qed

section \<open>Redelivered events\<close>

text \<open>A chain of \<open>n\<close> events, each of which the consumer has received twice.\<close>

definition link :: "nat \<Rightarrow> EventEnvelope" where
  "link i = sample_event i (if i = 0 then None else Some (i - 1)) ''a.b.v1'' (int i) []"

definition redelivered :: "nat \<Rightarrow> EventEnvelope list" where
  "redelivered n = concat (map (\<lambda>i. [link i, link i]) [0..<n])"

lemma link_simps [simp]: "en_event_id (link i) = i" "en_causation_id (link i) = (if i = 0 then None else Some (i - 1))"
  by (simp_all add: link_def sample_event_def)

lemma set_redelivered: "set (redelivered n) = link ` {..<n}"
  by (auto simp: redelivered_def)

lemma filter_redelivered:
  "k < n \<Longrightarrow> filter (\<lambda>e. en_event_id e = k) (redelivered n) = [link k, link k]"
  "n \<le> k \<Longrightarrow> filter (\<lambda>e. en_event_id e = k) (redelivered n) = []"
  by (induction n) (auto simp: redelivered_def less_Suc_eq)

lemma known_cause_link: "i < n \<Longrightarrow> known_cause (redelivered n) (link i) = (if i = 0 then None else Some (i - 1))"
  by (auto simp: known_cause_def set_redelivered image_iff)

lemma siblings_redelivered:
  "siblings (redelivered n) (if k = 0 then None else Some (k - 1)) = (if k < n then [link k, link k] else [])"
proof -
  have "filter (\<lambda>e. known_cause (redelivered n) e = (if k = 0 then None else Some (k - 1))) (redelivered n)
      = filter (\<lambda>e. en_event_id e = k) (redelivered n)"
    by (rule filter_cong) (auto simp: set_redelivered known_cause_link split: if_splits)
  then show ?thesis by (simp add: siblings_def filter_redelivered)
qed

lemma walk_redelivered:
  "k \<le> n \<Longrightarrow> n - k \<le> depth \<Longrightarrow> \<exists>ys. walk (siblings (redelivered n)) depth
     (siblings (redelivered n) (if k = 0 then None else Some (k - 1))) = Some ys
     \<and> length ys = 2 ^ Suc (n - k) - 2 \<and> set ys \<subseteq> link ` {k..<n} \<and> (\<forall>i \<in> {k..<n}. link i \<in> set ys)"
proof (induction "n - k" arbitrary: k depth)
  case 0
  then show ?case by (simp add: siblings_redelivered)
next
  case (Suc m)
  then obtain depth' where depth: "depth = Suc depth'" by (cases depth) auto
  have m: "m = n - Suc k" "Suc k \<le> n" "n - Suc k \<le> depth'" using Suc(2-) depth by auto
  obtain ys where ys: "walk (siblings (redelivered n)) depth' (siblings (redelivered n) (Some k)) = Some ys"
    "length ys = 2 ^ Suc m - 2" "set ys \<subseteq> link ` {Suc k..<n}" "\<forall>i \<in> {Suc k..<n}. link i \<in> set ys"
    using Suc(1) [OF m] unfolding m(1) by auto
  have k: "k < n" "{k..<n} = insert k {Suc k..<n}" using Suc by auto
  have "siblings (redelivered n) (if k = 0 then None else Some (k - 1)) = [link k, link k]"
    using k by (simp only: siblings_redelivered if_True)
  then have "walk (siblings (redelivered n)) depth (siblings (redelivered n) (if k = 0 then None else Some (k - 1)))
      = Some (link k # ys @ link k # ys)" using ys(1) depth by simp
  moreover have "2 * (2 * p - 2) + 2 = 4 * p - 2" if "1 \<le> p" for p :: nat using that by arith
  from this [of "2 ^ m"] have "length (link k # ys @ link k # ys) = 2 ^ Suc (n - k) - 2"
    using ys(2) Suc(2) [symmetric] by simp
  ultimately show ?case using ys(3,4) k by (intro exI [of _ "link k # ys @ link k # ys"]) auto
qed

text \<open>Copies multiply. The builder reads the topics without duplicate detection, and the walk starts the
  branch of a cause again for every copy of it: when each event of a causal chain of length \<open>n\<close> has been
  received twice, the timeline of these \<open>2 n\<close> envelopes has \<open>2 ^ (n + 1) - 2\<close> entries.\<close>

theorem copies_multiply:
  "\<exists>ys. causal_sort n (redelivered n) = Some ys \<and> length (redelivered n) = 2 * n \<and> length ys = 2 ^ Suc n - 2"
proof -
  obtain ys where w: "walk (siblings (redelivered n)) n (siblings (redelivered n) None) = Some ys"
    and ys: "length ys = 2 ^ Suc n - 2" "\<forall>i \<in> {0..<n}. link i \<in> set ys"
    using walk_redelivered [of 0 n n] by auto
  have "filter (\<lambda>e. en_event_id e \<notin> en_event_id ` set ys) (redelivered n) = []"
    using ys(2) by (force simp: filter_empty_conv set_redelivered intro: rev_image_eqI)
  then have "stragglers (redelivered n) ys = []" by (simp add: stragglers_def)
  moreover have "length (redelivered n) = 2 * n" by (induction n) (simp_all add: redelivered_def)
  ultimately show ?thesis using w ys(1) by (simp add: causal_sort_walk)
qed

section \<open>The terminal entry\<close>

lemma sublist_across: "c \<notin> set p \<Longrightarrow> sublist p (A @ c # B) \<longleftrightarrow> sublist p A \<or> sublist p B"
proof
  assume c: "c \<notin> set p" and "sublist p (A @ c # B)"
  then obtain X Y where e: "A @ c # B = X @ p @ Y" by (auto simp: sublist_def)
  then consider U where "A = X @ U" "U @ c # B = p @ Y" | V where "X = A @ V" "c # B = V @ p @ Y"
    by (auto simp: append_eq_append_conv2)
  then show "sublist p A \<or> sublist p B"
  proof cases
    case 1
    then obtain W where "U = p @ W \<or> (p = U @ W \<and> c # B = W @ Y)" by (auto simp: append_eq_append_conv2)
    then show ?thesis
    proof
      assume "U = p @ W"
      with 1 show ?thesis by auto
    next
      assume "p = U @ W \<and> c # B = W @ Y"
      with c have "p = U" by (cases W) auto
      with 1 show ?thesis by auto
    qed
  next
    case 2
    show ?thesis
    proof (cases V)
      case Nil
      with 2 c have "p = []" by (cases p) auto
      then show ?thesis by simp
    next
      case (Cons v V')
      with 2 show ?thesis by auto
    qed
  qed
next
  assume "sublist p A \<or> sublist p B"
  then show "sublist p (A @ c # B)" by (auto simp: sublist_append sublist_Cons_right)
qed

lemma decided_summary:
  assumes "reconcile_label env e = decided_label"
  shows "py_in ''escalat'' (py_lower (make_summary env e)) \<longleftrightarrow> py_in ''escalat'' (py_lower (en_agent_id e))"
proof -
  have "py_lower (make_summary env e) = py_lower (decided_label @ '' by'') @ CHR '' '' # py_lower (en_agent_id e)"
    using assms by (simp add: make_summary_def py_lower_def lower_char_def)
  moreover have "\<not> py_in ''escalat'' (py_lower (decided_label @ '' by''))" by code_simp
  ultimately show ?thesis by (simp add: py_in_iff_sublist sublist_across del: py_in.simps)
qed

lemma decided_topic_label: "en_event_type e = TOPIC_RESOLUTION_DECIDED env \<Longrightarrow> reconcile_label env e = decided_label"
  by (simp add: reconcile_label_def is_task_requested_def label_map_def decided_label_def topic_defs suffix_def)

lemma entry_texts:
  "map (\<lambda>x. (ae_label x, ae_summary x)) (map (\<lambda>(n, e). audit_entry env n e) (enumerate k es))
     = map (\<lambda>e. (reconcile_label env e, make_summary env e)) es"
  by (induction es arbitrary: k) (simp_all add: audit_entry_def)

text \<open>C33: no escalation is ever shown. The builder looks for an escalation in the text \<open>label by agent\<close> of the
  decision and never in its payload. A timeline that holds a decision therefore ends in \<^verbatim>\<open>resolution.case.closed\<close>
  whatever outcome the decision carries, unless the name of a deciding agent itself contains \<^verbatim>\<open>escalat\<close>.\<close>

theorem escalation_shown_as_closed:
  assumes d: "distinct (map en_event_id es)" and b: "build_audit_timeline env depth es = Some entries"
    and e: "e \<in> set es" "en_event_type e = TOPIC_RESOLUTION_DECIDED env"
    and name: "\<forall>e \<in> set es. reconcile_label env e = decided_label \<longrightarrow> \<not> py_in ''escalat'' (py_lower (en_agent_id e))"
  shows "length entries = Suc (length es) \<and> ae_label (last entries) = ''resolution.case.closed''"
proof -
  from b e obtain ws where w: "walk (siblings es) depth (siblings es None) = Some ws"
    and o: "entries = (let entries = map (\<lambda>(n, e). audit_entry env n e) (enumerate 1 (ws @ stragglers es ws))
      in case make_terminal_entry entries of None \<Rightarrow> entries | Some t \<Rightarrow> entries @ [t])"
    by (auto simp: build_audit_timeline_def causal_sort_walk split: if_splits)
  have m: "mset (ws @ stragglers es ws) = mset es" by (rule walked_rearranged [OF d w])
  define body where "body = map (\<lambda>(n, e). audit_entry env n e) (enumerate 1 (ws @ stragglers es ws))"
  have texts: "(\<lambda>x. (ae_label x, ae_summary x)) ` set body = (\<lambda>e. (reconcile_label env e, make_summary env e)) ` set es"
    using arg_cong [OF entry_texts, of set] mset_eq_setD [OF m] unfolding body_def by (metis image_set)
  then have labels: "(ae_label x, ae_summary x) \<in> (\<lambda>e. (reconcile_label env e, make_summary env e)) ` set es"
    if "x \<in> set body" for x using that by blast
  have "(decided_label, make_summary env e) \<in> (\<lambda>x. (ae_label x, ae_summary x)) ` set body"
    unfolding texts using e(1) decided_topic_label [OF e(2)] by force
  then obtain x where x: "x \<in> set body" "ae_label x = decided_label" by auto
  have "find_decided_outcome body = None"
    using labels name decided_summary by (fastforce simp: find_decided_outcome_def list_ex_iff)
  moreover have "body \<noteq> []" using x(1) by (metis list.set(1) empty_iff)
  ultimately have "\<exists>t. make_terminal_entry body = Some t \<and> ae_label t = ''resolution.case.closed''"
    using x by (force simp: make_terminal_entry_def Let_def)
  then show ?thesis using o mset_eq_length [OF m] by (auto simp: Let_def body_def)
qed

definition escalated_case :: "EventEnvelope list" where
  "escalated_case = [sample_event 1 None (TICKET_CREATED ''local'') 1 [],
     sample_event 2 (Some 1) (TOPIC_RESOLUTION_DECIDED ''local'') 2 [(''outcome'', VStr ''escalate_human'')]]"

theorem escalation_shown_as_closed_witness:
  "\<exists>entries. build_audit_timeline ''local'' 2 escalated_case = Some entries
    \<and> length entries = 3 \<and> ae_label (last entries) = ''resolution.case.closed''"
proof -
  have "build_audit_timeline ''local'' 2 escalated_case \<noteq> None" by code_simp
  then obtain entries where b: "build_audit_timeline ''local'' 2 escalated_case = Some entries" by blast
  have "distinct (map en_event_id escalated_case)" by code_simp
  moreover have "list_all (\<lambda>e. \<not> py_in ''escalat'' (py_lower (en_agent_id e))) escalated_case" by code_simp
  ultimately have "length entries = Suc (length escalated_case) \<and> ae_label (last entries) = ''resolution.case.closed''"
    using b by (intro escalation_shown_as_closed [where e = "escalated_case ! 1"])
      (simp_all add: escalated_case_def sample_event_def)
  with b show ?thesis by (simp add: escalated_case_def)
qed

end
