(* ===== verification/Event_Cli.thy ===== *)
theory Event_Cli
  imports Case_Trace A2A_Client
begin

text \<open>
  The command line of the event foundation (\<^verbatim>\<open>agent_foundation/cli.py\<close>), the topics it creates
  (\<^verbatim>\<open>transport/topics.py\<close>), the reader of the audit topic (\<^verbatim>\<open>audit/store.py\<close>), the stand-alone card
  publication (\<^verbatim>\<open>runtime/discovery.py\<close>) and the trace tool (\<^verbatim>\<open>apps/api/trace_case.py\<close>). A command returns
  its exit code and the lines it prints; JSON lines are kept as dictionaries. Broker connections succeed;
  the admin client of the broker is a parameter.
\<close>

section \<open>Topics to create\<close>

record NewTopic =
  tp_name :: string
  tp_partitions :: nat
  tp_replication :: nat
  tp_configs :: "(string, string) dict"

definition ONE_DAY_MS :: int where "ONE_DAY_MS = 86400000"

definition SEVEN_DAYS_MS :: int where "SEVEN_DAYS_MS = 7 * ONE_DAY_MS"

definition retained :: "int \<Rightarrow> string \<Rightarrow> NewTopic" where
  "retained ms name = \<lparr>tp_name = name, tp_partitions = 1, tp_replication = 1,
     tp_configs = [(''retention.ms'', show_int ms)]\<rparr>"

definition compacted :: "string \<Rightarrow> NewTopic" where
  "compacted name = \<lparr>tp_name = name, tp_partitions = 1, tp_replication = 1,
     tp_configs = [(''cleanup.policy'', ''compact'')]\<rparr>"

definition CANONICAL_TOPICS :: "string \<Rightarrow> NewTopic list" where
  "CANONICAL_TOPICS env =
     [retained SEVEN_DAYS_MS (TOPIC_MESSAGE env), compacted (TOPIC_AUDIT env), retained ONE_DAY_MS (TOPIC_SAMPLE env),
      compacted (TOPIC_AGENT_CARD env), retained SEVEN_DAYS_MS (TOPIC_TASK_RESULT env),
      retained SEVEN_DAYS_MS (TOPIC_RESOLUTION_DECIDED env), retained SEVEN_DAYS_MS (TOPIC_ISSUE_CLASSIFIED env),
      retained SEVEN_DAYS_MS (TOPIC_REFUND_REVIEW_REQUESTED env), retained SEVEN_DAYS_MS (TOPIC_BILLING_RESULT env),
      retained SEVEN_DAYS_MS (TOPIC_RISK_RESULT env), retained SEVEN_DAYS_MS (TOPIC_RESPONSE_DRAFTED env),
      compacted (TOPIC_LLM_INVOCATION_COMPLETED env), compacted (TOPIC_LLM_INVOCATION_FAILED env)]"

definition processed_id_new_topic :: "string \<Rightarrow> string \<Rightarrow> NewTopic" where
  "processed_id_new_topic env consumer_name = compacted (processed_id_topic env consumer_name)"

definition endpoint_topic_new_topic :: "string \<Rightarrow> string \<Rightarrow> NewTopic" where
  "endpoint_topic_new_topic env agent_id = retained SEVEN_DAYS_MS (endpoint_topic env agent_id)"

text \<open>The admin client: what a creation request does to the broker \<open>'b\<close>, raising or not.\<close>

definition create_topics :: "string \<Rightarrow> (NewTopic list \<Rightarrow> ('b, unit) io) \<Rightarrow> NewTopic list \<Rightarrow> ('b, unit) io" where
  "create_topics env create extra_topics =
     try_io (create (CANONICAL_TOPICS env @ extra_topics)) (\<lambda>_. return_io ())"

section \<open>Health\<close>

record 'b admin_client =
  ad_describe :: "('b, unit) io"
  ad_create :: "NewTopic list \<Rightarrow> ('b, unit) io"
  ad_list :: "('b, string list) io"

definition health_expected :: "string \<Rightarrow> string list" where
  "health_expected env = [TOPIC_MESSAGE env, TOPIC_AUDIT env, TOPIC_SAMPLE env]"

definition health_topics :: "string \<Rightarrow> 'b admin_client \<Rightarrow> ('b, bool) io" where
  "health_topics env A =
     try_io (bind_io (ad_list A) (\<lambda>existing. return_io (set (health_expected env) \<subseteq> set existing)))
       (\<lambda>_. return_io False)"

text \<open>The exit code.\<close>

definition health :: "string \<Rightarrow> 'b admin_client \<Rightarrow> ('b, nat) io" where
  "health env A =
     bind_io
       (bind_io (try_io (then_io (ad_describe A) (return_io True)) (\<lambda>_. return_io False)) (\<lambda>up.
        if up then then_io (create_topics env (ad_create A) []) (health_topics env A) else return_io False))
       (\<lambda>result. return_io (if result then 0 else 1))"

section \<open>Publishing samples\<close>

definition default_identity :: AgentIdentity where
  "default_identity = \<lparr>id_agent_id = ''cli.agent'', id_display_name = ''CLI Agent'', id_tenant_id = ''poc''\<rparr>"

definition SamplePayload :: "string \<Rightarrow> exc + message" where
  "SamplePayload message =
     (if 1 \<le> py_len message \<and> py_len message \<le> 200 then Inr (MSample message)
      else Inl (ValueError ''1 validation error for SamplePayload''))"

type_synonym cli_exit = "nat \<times> string list"

text \<open>The root of a new correlation, or the one given.\<close>

definition cli_correlation :: "runtime_env \<Rightarrow> string option \<Rightarrow> ('a net_scheme, uuid) io" where
  "cli_correlation E correlation =
     (case correlation of
        None \<Rightarrow> uuid4_io E
      | Some s \<Rightarrow> if s = [] then uuid4_io E
                  else case parse_uuid s of None \<Rightarrow> raise_io (ValueError (uuid_error s)) | Some u \<Rightarrow> return_io u)"

definition refuse_sample :: "runtime_env \<Rightarrow> message \<Rightarrow> uuid \<Rightarrow> ('a net_scheme, cli_exit) io" where
  "refuse_sample E payload corr_id =
     bind_io (uuid4_io E) (\<lambda>eid.
     bind_io (now_io E) (\<lambda>now.
     then_io (write_audit E default_identity
         \<lparr>en_event_id = eid, en_correlation_id = corr_id, en_causation_id = None,
          en_agent_id = id_agent_id default_identity, en_tenant_id = id_tenant_id default_identity,
          en_timestamp = now, en_event_type = ''agent.sample.v1'', en_schema_version = ''1.0.0'',
          en_trace_context = None, en_payload = re_dump E payload\<rparr> AuditRejected (Some ''missing_causation''))
       (return_io (1, [''Rejected: missing_causation '' @ em_dash @ '' audit record written to audit topic'']))))"

definition publish_sample ::
  "runtime_env \<Rightarrow> string \<Rightarrow> bool \<Rightarrow> bool \<Rightarrow> string option \<Rightarrow> ('a net_scheme, cli_exit) io" where
  "publish_sample E message omit_causation non_root correlation =
     bind_io (cli_correlation E correlation) (\<lambda>corr_id.
     bind_io (if omit_causation then return_io None else bind_io (uuid4_io E) (\<lambda>u. return_io (Some u))) (\<lambda>caus_id.
     case SamplePayload message of
       Inl exc \<Rightarrow> return_io (1, [''Payload validation failed: '' @ str_exc exc])
     | Inr payload \<Rightarrow>
         if non_root \<and> omit_causation then refuse_sample E payload corr_id
         else try_io
           (bind_io (publish E default_identity payload ''agent.sample.v1'' corr_id caus_id None) (\<lambda>envelope.
            return_io (0, [''Published event_id='' @ show_uuid (en_event_id envelope)])))
           (\<lambda>exc. return_io (1, [''Publish failed: '' @ str_exc exc]))))"

text \<open>A causal chain: every event is caused by the one before.\<close>

definition chain_text :: "int \<Rightarrow> int \<Rightarrow> string" where
  "chain_text i n = ''chain event '' @ show_int i @ '' of '' @ show_int n"

fun publish_links :: "runtime_env \<Rightarrow> uuid \<Rightarrow> int \<Rightarrow> uuid option \<Rightarrow> int list \<Rightarrow> ('a net_scheme, unit) io" where
  "publish_links E corr_id n prev_id [] = return_io ()"
| "publish_links E corr_id n prev_id (i # is) =
     bind_io (lift_exc (SamplePayload (chain_text i n))) (\<lambda>payload.
     bind_io (publish E default_identity payload ''agent.sample.v1'' corr_id prev_id None) (\<lambda>envelope.
     publish_links E corr_id n (Some (en_event_id envelope)) is))"

definition publish_chain :: "runtime_env \<Rightarrow> int \<Rightarrow> ('a net_scheme, string) io" where
  "publish_chain E n =
     bind_io (uuid4_io E) (\<lambda>corr_id.
     then_io (publish_links E corr_id n None [1..n]) (return_io (show_uuid corr_id)))"

section \<open>Reading the audit topic\<close>

text \<open>A poll raises or returns the messages at hand; a message is an audit record or it is skipped.\<close>

record 'raw audit_wire =
  aw_envelope :: "'raw \<Rightarrow> exc + EventEnvelope"
  aw_payload :: "(string, pyval) dict \<Rightarrow> exc + AuditPayload"

definition read_audit :: "string \<Rightarrow> 'raw audit_wire \<Rightarrow> 'raw \<Rightarrow> AuditPayload option" where
  "read_audit env W raw =
     (case aw_envelope W raw of
        Inl _ \<Rightarrow> None
      | Inr e \<Rightarrow>
          (case validate_envelope env e of
             Inl _ \<Rightarrow> None
           | Inr e' \<Rightarrow>
               (case aw_payload W (en_payload e') of
                  Inl _ \<Rightarrow> None
                | Inr a \<Rightarrow> (case validate_reason_required a of Inl _ \<Rightarrow> None | Inr a' \<Rightarrow> Some a'))))"

fun consume_all_audit_records :: "string \<Rightarrow> 'raw audit_wire \<Rightarrow> (exc + 'raw list) list \<Rightarrow> AuditPayload list" where
  "consume_all_audit_records env W [] = []"
| "consume_all_audit_records env W (Inl _ # polls) = []"
| "consume_all_audit_records env W (Inr [] # polls) = []"
| "consume_all_audit_records env W (Inr (raw # raws) # polls) =
     List.map_filter (read_audit env W) (raw # raws) @ consume_all_audit_records env W polls"

definition uuid_or_none :: "uuid option \<Rightarrow> pyval" where
  "uuid_or_none u = (case u of None \<Rightarrow> VNone | Some v \<Rightarrow> VStr (show_uuid v))"

definition reason_or_none :: "string option \<Rightarrow> pyval" where
  "reason_or_none r = (case r of None \<Rightarrow> VNone | Some s \<Rightarrow> VStr s)"

definition outcome_word :: "audit_outcome \<Rightarrow> string" where
  "outcome_word o' = (case o' of Accepted \<Rightarrow> ''accepted'' | AuditRejected \<Rightarrow> ''rejected''
     | DuplicateSkipped \<Rightarrow> ''duplicate_skipped'' | AuditCompleted \<Rightarrow> ''completed'' | AuditFailed \<Rightarrow> ''failed'')"

text \<open>\<^verbatim>\<open>str(causation_id)\<close> prints a missing cause as \<^verbatim>\<open>None\<close>.\<close>

definition query_audit :: "AuditPayload list \<Rightarrow> string \<Rightarrow> exc + (string, pyval) dict list" where
  "query_audit records correlation =
     (case parse_uuid correlation of
        None \<Rightarrow> Inl (ValueError (uuid_error correlation))
      | Some corr_id \<Rightarrow> Inr (map (\<lambda>rec.
          [(''event_id'', VStr (show_uuid (en_event_id (au_original_envelope rec)))),
           (''causation_id'', VStr (case en_causation_id (au_original_envelope rec) of
              None \<Rightarrow> ''None'' | Some c \<Rightarrow> show_uuid c)),
           (''outcome'', VStr (outcome_word (au_outcome rec))),
           (''recorded_at'', VStr (isoformat (au_recorded_at rec)))]) (query_by_correlation records corr_id)))"

definition rejection_line :: "AuditPayload \<Rightarrow> (string, pyval) dict" where
  "rejection_line rec =
     [(''event_id'', VStr (show_uuid (en_event_id (au_original_envelope rec)))),
      (''reason'', reason_or_none (au_reason rec)), (''recorded_at'', VStr (isoformat (au_recorded_at rec)))]"

definition query_rejections :: "AuditPayload list \<Rightarrow> (string, pyval) dict list" where
  "query_rejections records = map rejection_line (filter (\<lambda>rec. au_outcome rec = AuditRejected) records)"

definition task_audit_line :: "AuditPayload \<Rightarrow> (string, pyval) dict" where
  "task_audit_line rec =
     [(''event_id'', VStr (show_uuid (en_event_id (au_original_envelope rec)))),
      (''agent_id'', VStr (en_agent_id (au_original_envelope rec))),
      (''outcome'', VStr (outcome_word (au_outcome rec))), (''task_id'', uuid_or_none (au_task_id rec)),
      (''reason'', reason_or_none (au_reason rec)), (''recorded_at'', VStr (isoformat (au_recorded_at rec)))]"

text \<open>The exit code with the lines: 1 and none when the task has no records.\<close>

definition query_task_audit :: "AuditPayload list \<Rightarrow> string \<Rightarrow> exc + nat \<times> (string, pyval) dict list" where
  "query_task_audit records task_id =
     (case parse_uuid task_id of
        None \<Rightarrow> Inl (ValueError (uuid_error task_id))
      | Some tid \<Rightarrow> (let recs = query_by_task_id records tid in
          Inr (if recs = [] then (1, []) else (0, map task_audit_line recs))))"

section \<open>The trace tool\<close>

definition step_to_dict :: "TraceStep \<Rightarrow> (string, pyval) dict" where
  "step_to_dict step =
     [(''seq'', VInt (int (sp_seq step))), (''actor'', VStr (sp_actor step)),
      (''case_id'', VStr (show_uuid (sp_correlation_id step))), (''event_type'', VStr (sp_event_type step)),
      (''outcome'', reason_or_none (sp_outcome step)), (''task_id'', uuid_or_none (sp_task_id step)),
      (''timestamp'', VStr (isoformat (sp_timestamp step))), (''caused_by'', uuid_or_none (sp_caused_by step))]"

definition step_text :: "TraceStep \<Rightarrow> string" where
  "step_text step =
     show_int (int (sp_seq step)) @ ''. ['' @ sp_actor step @ ''] -> '' @ sp_event_type step
     @ (case sp_outcome step of None \<Rightarrow> [] | Some o' \<Rightarrow> if o' = [] then [] else '' ['' @ o' @ '']'')
     @ (case sp_task_id step of None \<Rightarrow> [] | Some t \<Rightarrow> '' task='' @ show_uuid t)
     @ '' (causation: '' @ (case sp_caused_by step of None \<Rightarrow> ''root'' | Some c \<Rightarrow> show_uuid c) @ '')''"

definition print_text :: "TraceStep list \<Rightarrow> string list" where
  "print_text steps =
     (if steps = [] then [''No trace steps found for the given correlation_id.''] else map step_text steps)"

definition trace_tool :: "AuditPayload list \<Rightarrow> string \<Rightarrow> bool \<Rightarrow> nat \<times> (string list + (string, pyval) dict list)" where
  "trace_tool records correlation as_json =
     (case parse_uuid correlation of
        None \<Rightarrow> (1, Inl [''Error: '' @ repr_str correlation @ '' is not a valid UUID.''])
      | Some cid \<Rightarrow>
          (let audit_records = query_by_correlation records cid;
               msg = ''No audit records found for correlation_id='' @ show_uuid cid
           in if audit_records = []
              then (1, if as_json then Inr [[(''error'', VStr msg), (''correlation_id'', VStr (show_uuid cid))]] else Inl [msg])
              else let steps = trace_case cid (map au_original_envelope audit_records)
                   in (0, if as_json then Inr (map step_to_dict steps) else Inl (print_text steps))))"

section \<open>Announcing a card\<close>

definition publish_card_alone ::
  "runtime_env \<Rightarrow> (NewTopic list \<Rightarrow> ('a net_scheme, unit) io) \<Rightarrow> AgentCard \<Rightarrow> ('a net_scheme, unit) io" where
  "publish_card_alone E create announced =
     then_io (create_topics (re_environment E) create [])
     (bind_io (uuid4_io E) (\<lambda>eid.
      bind_io (uuid4_io E) (\<lambda>corr.
      bind_io (now_io E) (\<lambda>now.
      bind_io (lift_exc (validate_envelope (re_environment E)
         \<lparr>en_event_id = eid, en_correlation_id = corr, en_causation_id = None, en_agent_id = card_agent_id announced,
          en_tenant_id = ''poc'', en_timestamp = now, en_event_type = ''agent.agent_card.v1'',
          en_schema_version = ''1.0.0'', en_trace_context = None, en_payload = re_dump E (MAgentCard announced)\<rparr>)) (\<lambda>envelope.
      send_and_wait E \<lparr>sn_topic = TOPIC_AGENT_CARD (re_environment E), sn_key = Inr (card_agent_id announced),
        sn_envelope = envelope, sn_model = MAgentCard announced\<rparr>)))))"

section \<open>A published chain is traced back\<close>

fun linked :: "uuid option \<Rightarrow> EventEnvelope list \<Rightarrow> bool" where
  "linked prev [] = True"
| "linked prev (e # es) \<longleftrightarrow> en_causation_id e = prev \<and> linked (Some (en_event_id e)) es"

lemma linked_nth:
  "linked prev es \<Longrightarrow> k < length es \<Longrightarrow>
     en_causation_id (es ! k) = (if k = 0 then prev else Some (en_event_id (es ! (k - 1))))"
proof (induction es arbitrary: prev k)
  case (Cons e es)
  then show ?case by (cases k) (auto simp: nth_Cons')
qed simp

lemma linked_parent:
  assumes "linked None es" "k < length es"
  shows "resolve_parent es (es ! k) = (if k = 0 then None else Some (en_event_id (es ! (k - 1))))"
  using linked_nth [OF assms] assms(2) by (auto simp: resolve_parent_def)

lemma filter_singleton:
  assumes "k < length xs" "\<And>i. i < length xs \<Longrightarrow> P (xs ! i) \<longleftrightarrow> i = k" shows "filter P xs = [xs ! k]"
proof -
  have "filter P xs = filter P (take k xs) @ filter P (xs ! k # drop (Suc k) xs)"
    using id_take_nth_drop [OF assms(1)] by (metis filter_append)
  moreover have "filter P (take k xs) = []" using assms by (auto simp: filter_empty_conv in_set_conv_nth)
  moreover have "filter P (drop (Suc k) xs) = []" using assms by (fastforce simp: filter_empty_conv in_set_conv_nth)
  ultimately show ?thesis using assms by simp
qed

lemma linked_children:
  assumes l: "linked None es" and d: "distinct (map en_event_id es)" and k: "k < length es"
  shows "trace_children es (en_event_id (es ! k)) = (if Suc k < length es then [es ! Suc k] else [])"
proof -
  have p: "resolve_parent es (es ! i) = Some (en_event_id (es ! k)) \<longleftrightarrow> i = Suc k" if "i < length es" for i
    using linked_parent [OF l that] nth_eq_iff_index_eq [OF d, of "i - 1" k] that k by auto
  show ?thesis
  proof (cases "Suc k < length es")
    case True
    with p show ?thesis by (simp add: trace_children_def filter_singleton)
  next
    case False
    then have "filter (\<lambda>e. resolve_parent es e = Some (en_event_id (es ! k))) es = []"
      using p by (auto simp: filter_empty_conv in_set_conv_nth)
    with False show ?thesis by (simp add: trace_children_def)
  qed
qed

lemma bfs_single:
  "en_event_id env \<notin> V \<Longrightarrow> bfs es [env] V = env # bfs es (filter (\<lambda>c. en_event_id c \<notin> insert (en_event_id env) V)
     (trace_children es (en_event_id env))) (insert (en_event_id env) V)"
  by (simp add: Let_def)

lemma linked_bfs:
  assumes l: "linked None es" and d: "distinct (map en_event_id es)"
  shows "k < length es \<Longrightarrow> bfs es [es ! k] (en_event_id ` set (take k es)) = drop k es"
proof (induction "length es - k" arbitrary: k)
  case (Suc m)
  have n: "en_event_id (es ! i) \<notin> en_event_id ` set (take k es)" if "k \<le> i" "i < length es" for i
  proof
    assume "en_event_id (es ! i) \<in> en_event_id ` set (take k es)"
    then obtain j where "j < k" "en_event_id (es ! i) = en_event_id (es ! j)" by (auto simp: in_set_conv_nth)
    then show False using that nth_eq_iff_index_eq [OF d, of i j] by simp
  qed
  have v: "insert (en_event_id (es ! k)) (en_event_id ` set (take k es)) = en_event_id ` set (take (Suc k) es)"
    using Suc.prems by (simp add: take_Suc_conv_app_nth)
  let ?c = "if Suc k < length es then [es ! Suc k] else []"
  have "en_event_id (es ! Suc k) \<noteq> en_event_id (es ! k)" if "Suc k < length es"
    using nth_eq_iff_index_eq [OF d, of "Suc k" k] that by simp
  then have "filter (\<lambda>c. en_event_id c \<notin> insert (en_event_id (es ! k)) (en_event_id ` set (take k es))) ?c = ?c"
    using n [of "Suc k"] by simp
  then have "bfs es [es ! k] (en_event_id ` set (take k es)) = es ! k # bfs es ?c (en_event_id ` set (take (Suc k) es))"
    using bfs_single [OF n [of k], of es] Suc.prems linked_children [OF l d Suc.prems] v by simp
  also have "bfs es ?c (en_event_id ` set (take (Suc k) es)) = drop (Suc k) es"
    using Suc.hyps(1) [of "Suc k"] Suc.hyps(2) by (cases "Suc k < length es") (simp_all del: bfs.simps(2))
  finally show ?case using Suc.prems by (simp add: Cons_nth_drop_Suc)
qed simp

lemma linked_trace_order:
  assumes l: "linked None es" and d: "distinct (map en_event_id es)" and ne: "es \<noteq> []"
  shows "trace_order es = es"
proof -
  have "en_causation_id (es ! i) = None \<longleftrightarrow> i = 0" if "i < length es" for i using linked_nth [OF l that] by simp
  then have "filter (\<lambda>e. en_causation_id e = None) es = [es ! 0]" using ne by (intro filter_singleton) auto
  then have "bfs es (trace_roots es) {} = es" using linked_bfs [OF l d, of 0] ne by (simp add: trace_roots_def)
  then show ?thesis by (simp add: trace_order_def Let_def)
qed

section \<open>Publishing over a working broker\<close>

lemma default_identity_valid: "AGENT_ID_RE (id_agent_id default_identity)" "TENANT_ID_RE (id_tenant_id default_identity)"
  by code_simp+

lemma sample_registered:
  "lookup env ''agent.sample.v1'' = Inr ''SamplePayload''"
  "publisher_resolve_topic env ''agent.sample.v1'' = Inr (TOPIC_SAMPLE env)"
  "EVENT_TYPE_RE ''agent.sample.v1''" "''agent.sample.v1'' \<in> set (ROOT_EVENT_TYPES env)"
  "class_name (MSample t) = ''SamplePayload''"
  by (simp_all add: lookup_def PAYLOAD_REGISTRY_def publisher_resolve_topic_def TOPIC_NAMES_def ROOT_EVENT_TYPES_def)
    code_simp

lemma publish_sample_event:
  assumes "re_send_ok E (nt_sends w)"
  shows "publish E default_identity (MSample t) ''agent.sample.v1'' corr cause None w =
    (let env = domain_envelope E default_identity (MSample t) ''agent.sample.v1'' corr cause w in
     (Inr env, w\<lparr>nt_uuids := Suc (nt_uuids w), nt_ticks := Suc (nt_ticks w), nt_sends := Suc (nt_sends w),
        nt_log := nt_log w @ [\<lparr>sn_topic = TOPIC_SAMPLE (re_environment E), sn_key = Inl (en_event_id env),
          sn_envelope = env, sn_model = MSample t\<rparr>]\<rparr>))"
  using assms default_identity_valid sample_registered
  by (simp add: publish_def build_envelope_def lift_exc_def io_defs uuid4_io_def now_io_def
      validate_envelope_def send_and_wait_def domain_envelope_def Let_def)

lemma chain_text_nonempty: "1 \<le> py_len (chain_text i n)"
  by (simp add: chain_text_def py_len_def)

lemma publish_links_run:
  fixes w :: "'a net_scheme"
  assumes ok: "\<And>k. re_send_ok E k"
  shows "(\<forall>i \<in> set is. py_len (chain_text i n) \<le> 200) \<Longrightarrow>
    \<exists>log w'. publish_links E corr n prev is w = (Inr (), w') \<and> nt_log w' = nt_log w @ log
      \<and> linked prev (map sn_envelope log) \<and> length log = length is
      \<and> (\<forall>s \<in> set log. sn_topic s = TOPIC_SAMPLE (re_environment E) \<and> en_correlation_id (sn_envelope s) = corr)
      \<and> map (en_event_id \<circ> sn_envelope) log = map (re_uuid4 E) [nt_uuids w..<nt_uuids w + length is]"
proof (induction "is" arbitrary: prev w)
  case Nil
  then show ?case by (simp add: return_io_def)
next
  case (Cons i "is")
  let ?env = "domain_envelope E default_identity (MSample (chain_text i n)) ''agent.sample.v1'' corr prev w"
  let ?s = "\<lparr>sn_topic = TOPIC_SAMPLE (re_environment E), sn_key = Inl (en_event_id ?env), sn_envelope = ?env,
    sn_model = MSample (chain_text i n)\<rparr>"
  let ?w = "w\<lparr>nt_uuids := Suc (nt_uuids w), nt_ticks := Suc (nt_ticks w), nt_sends := Suc (nt_sends w), nt_log := nt_log w @ [?s]\<rparr>"
  obtain log w' where r: "publish_links E corr n (Some (en_event_id ?env)) is ?w = (Inr (), w')"
    and log: "nt_log w' = nt_log ?w @ log" "linked (Some (en_event_id ?env)) (map sn_envelope log)" "length log = length is"
      "\<forall>s \<in> set log. sn_topic s = TOPIC_SAMPLE (re_environment E) \<and> en_correlation_id (sn_envelope s) = corr"
      "map (en_event_id \<circ> sn_envelope) log = map (re_uuid4 E) [nt_uuids ?w..<nt_uuids ?w + length is]"
    using Cons.IH [of "Some (en_event_id ?env)" ?w] Cons.prems by (metis (no_types) list.set_intros(2))
  have "publish_links E corr n prev (i # is) w = (Inr (), w')"
    using r Cons.prems chain_text_nonempty [of i n] publish_sample_event [OF ok, where w = w]
    by (simp add: SamplePayload_def lift_exc_def bind_io_def return_io_def Let_def)
  moreover have "[nt_uuids w..<nt_uuids w + length (i # is)] = nt_uuids w # [nt_uuids ?w..<nt_uuids ?w + length is]"
    by (simp add: upt_conv_Cons del: upt_Suc)
  ultimately show ?case using log by (intro exI [of _ "?s # log"] exI [of _ w']) (simp add: comp_def del: upt_Suc)
qed

text \<open>C32: what \<^verbatim>\<open>publish-chain\<close> publishes is traced back as the chain it is. Over a broker that acknowledges every
  send and with fresh identifiers, the command publishes exactly \<open>n\<close> sample events under the one
  correlation whose identifier it prints, each caused by the one before and the first by none; and the trace of
  that correlation shows the events in the order of publication, whatever the clock says.\<close>

theorem chain_traced:
  fixes w :: "'a net_scheme"
  assumes "\<And>k. re_send_ok E k" and "inj (re_uuid4 E)" and "\<forall>i \<in> {1..n}. py_len (chain_text i n) \<le> 200" and "1 \<le> n"
  shows "\<exists>corr log w'. publish_chain E n w = (Inr (show_uuid corr), w') \<and> nt_log w' = nt_log w @ log
    \<and> int (length log) = n
    \<and> (\<forall>s \<in> set log. sn_topic s = TOPIC_SAMPLE (re_environment E) \<and> en_correlation_id (sn_envelope s) = corr)
    \<and> (\<forall>k < length log. en_causation_id (sn_envelope (log ! k))
         = (if k = 0 then None else Some (en_event_id (sn_envelope (log ! (k - 1))))))
    \<and> trace_case corr (map sn_envelope log)
        = map (\<lambda>(k, e). trace_step (map sn_envelope log) k e) (enumerate 1 (map sn_envelope log))"
proof -
  let ?corr = "re_uuid4 E (nt_uuids w)" and ?w = "w\<lparr>nt_uuids := Suc (nt_uuids w)\<rparr>"
  obtain log w' where r: "publish_links E ?corr n None [1..n] ?w = (Inr (), w')" "nt_log w' = nt_log ?w @ log"
    and l: "linked None (map sn_envelope log)" and len: "length log = length [1..n]"
    and t: "\<forall>s \<in> set log. sn_topic s = TOPIC_SAMPLE (re_environment E) \<and> en_correlation_id (sn_envelope s) = ?corr"
    and ids: "map (en_event_id \<circ> sn_envelope) log = map (re_uuid4 E) [nt_uuids ?w..<nt_uuids ?w + length [1..n]]"
    using publish_links_run [OF assms(1), of "[1..n]" n ?corr None ?w] assms(3) by auto
  let ?es = "map sn_envelope log"
  have "distinct (map en_event_id ?es)"
    using ids assms(2) by (simp add: distinct_map inj_on_subset [OF assms(2)] flip: map_map)
  moreover have "case_envelopes ?corr ?es = ?es" using t by (simp add: case_envelopes_def filter_id_conv)
  moreover have "?es \<noteq> []" using len assms(4) by auto
  ultimately have "trace_case ?corr ?es = map (\<lambda>(k, e). trace_step ?es k e) (enumerate 1 ?es)"
    using linked_trace_order [OF l] by (simp add: trace_case_order)
  moreover have "publish_chain E n w = (Inr (show_uuid ?corr), w')"
    using r(1) by (simp add: publish_chain_def io_defs uuid4_io_def)
  moreover have "int (length log) = n" using len assms(4) by simp
  ultimately show ?thesis using t r(2) linked_nth [OF l] by (intro exI [of _ ?corr] exI [of _ log] exI [of _ w']) auto
qed

theorem chain_traced_witness:
  "\<exists>corr log w'. publish_chain sample_env 3 sample_net = (Inr (show_uuid corr), w') \<and> nt_log w' = log \<and> length log = 3
    \<and> map sp_seq (trace_case corr (map sn_envelope log)) = [1, 2, 3]"
proof -
  have "\<forall>i \<in> {1..3}. py_len (chain_text i 3) \<le> 200"
  proof
    fix i :: int assume "i \<in> {1..3}"
    then have "i = 1 \<or> i = 2 \<or> i = 3" by auto
    moreover have "py_len (chain_text 1 3) \<le> 200" "py_len (chain_text 2 3) \<le> 200" "py_len (chain_text 3 3) \<le> 200"
      by code_simp+
    ultimately show "py_len (chain_text i 3) \<le> 200" by auto
  qed
  moreover have "re_send_ok sample_env k" for k by (simp add: sample_env_def)
  moreover have "inj (re_uuid4 sample_env)" by (simp add: sample_env_def)
  ultimately obtain corr log w' where p: "publish_chain sample_env 3 sample_net = (Inr (show_uuid corr), w')"
    "nt_log w' = nt_log sample_net @ log" "int (length log) = 3"
    "trace_case corr (map sn_envelope log) = map (\<lambda>(k, e). trace_step (map sn_envelope log) k e) (enumerate 1 (map sn_envelope log))"
    using chain_traced [of sample_env 3 sample_net] by auto
  then have "map sp_seq (trace_case corr (map sn_envelope log)) = map fst (enumerate 1 (map sn_envelope log))"
    by (simp add: trace_step_seq case_prod_beta comp_def)
  moreover have "length log = 3" using p(3) by simp
  moreover have "map fst (enumerate (1::nat) (map sn_envelope log)) = [1, 2, 3]"
    using \<open>length log = 3\<close> by (simp add: upt_rec)
  moreover have "nt_log sample_net = []" by (simp add: sample_net_def)
  ultimately show ?thesis using p(1,2) by auto
qed

section \<open>What the commands show\<close>

text \<open>A sample that is refused for its missing cause is not published. The command exits with 1 and, if the broker
  acknowledges the audit record, \<^verbatim>\<open>query-rejections\<close> prints one more line, for this sample, with the reason; if
  it does not, nothing is recorded, though the command prints the same text.\<close>

definition audit_records_of :: "string \<Rightarrow> sent list \<Rightarrow> AuditPayload list" where
  "audit_records_of env sends =
     List.map_filter (\<lambda>s. if sn_topic s = TOPIC_AUDIT env
       then (case sn_model s of MAudit a \<Rightarrow> Some a | _ \<Rightarrow> None) else None) sends"

lemma audit_records_append [simp]:
  "audit_records_of env (xs @ ys) = audit_records_of env xs @ audit_records_of env ys"
  by (simp add: audit_records_of_def List.map_filter_def)

theorem refused_sample_recorded:
  fixes w :: "'a net_scheme"
  assumes "1 \<le> py_len message" "py_len message \<le> 200"
  shows "\<exists>eid stamp w'. publish_sample E message True True None w
      = (Inr (1, [''Rejected: missing_causation '' @ em_dash @ '' audit record written to audit topic'']), w')
    \<and> query_rejections (audit_records_of (re_environment E) (nt_log w'))
      = query_rejections (audit_records_of (re_environment E) (nt_log w))
        @ (if re_send_ok E (nt_sends w)
           then [[(''event_id'', VStr (show_uuid eid)), (''reason'', VStr ''missing_causation''), (''recorded_at'', VStr (isoformat stamp))]]
           else [])"
proof -
  have "EVENT_TYPE_RE ''agent.audit.v1''" by code_simp
  then show ?thesis using assms default_identity_valid
    by (simp add: publish_sample_def cli_correlation_def SamplePayload_def refuse_sample_def write_audit_def write_task_audit_def
        validate_reason_required_def validate_envelope_def publish_raw_def send_and_wait_def lift_exc_def io_defs
        uuid4_io_def now_io_def Let_def)
      (auto simp: audit_records_of_def List.map_filter_def query_rejections_def rejection_line_def reason_or_none_def)
qed

text \<open>\<^verbatim>\<open>health\<close> looks at three topics. On a broker that refuses to create topics and has just these three, the
  command exits with 0 while ten of the thirteen canonical topics are missing.\<close>

definition fixed_broker :: "string list admin_client" where
  "fixed_broker = \<lparr>ad_describe = return_io (), ad_create = (\<lambda>_. raise_io (TransportError ''not authorized'')),
     ad_list = get_io id\<rparr>"

theorem health_sees_three_topics:
  "health env fixed_broker (health_expected env) = (Inr 0, health_expected env)
   \<and> length (filter (\<lambda>t. tp_name t \<notin> set (health_expected env)) (CANONICAL_TOPICS env)) = 10"
  by (simp add: health_def fixed_broker_def create_topics_def health_topics_def io_defs health_expected_def
      CANONICAL_TOPICS_def retained_def compacted_def topic_defs)

text \<open>Every topic to which the publisher resolves an event type is created, except the one of the tickets.\<close>

theorem created_topics:
  "{t \<in> snd ` set (TOPIC_NAMES env). t \<notin> tp_name ` set (CANONICAL_TOPICS env)} = {TICKET_CREATED env}"
  by (auto simp: TOPIC_NAMES_def CANONICAL_TOPICS_def retained_def compacted_def topic_defs)

text \<open>The trace tool prints one line for every envelope that has an audit record, and it refuses a correlation
  without records, as it refuses a text that is no UUID.\<close>

theorem trace_tool_outcome:
  "fst (trace_tool records correlation as_json) = 0
   \<longleftrightarrow> (\<exists>cid. parse_uuid correlation = Some cid \<and> query_by_correlation records cid \<noteq> [])"
  by (auto simp: trace_tool_def Let_def split: option.splits)

end
