(* ===== verification/Peer_Findings.thy ===== *)
theory Peer_Findings
  imports Resolution_Handlers Billing_Service Risk_Service
begin

text \<open>
  How the Customer-Resolution agent reads the peers' opinions: off the domain events
  (\<open>billing_finding_of\<close>, \<open>risk_finding_of\<close>) and off the A2A outputs (\<open>normalize_billing_result\<close>,
  \<open>normalize_risk_result\<close>), and the outcome each reading leads to.
\<close>

section \<open>From the peers' engines to the decision\<close>

text \<open>
  The confidence of the risk opinion travels as an uncertainty, \<open>1 - c\<close>, and is turned back by
  \<open>1 - s\<close>. A confidence that reaches the threshold still does after both roundings.
\<close>

lemma confidence_survives:
  assumes "CONFIDENCE_THRESHOLD \<le> c" "c \<le> 1"
  shows "CONFIDENCE_THRESHOLD \<le> f_sub 1 (max 0 (min 1 (f_sub 1 c)))"
proof -
  let ?u = "max 0 (min 1 (f_sub 1 c))" and ?v = "f_sub 1 CONFIDENCE_THRESHOLD"
  have v: "0 \<le> ?v" "f_sub 1 ?v = CONFIDENCE_THRESHOLD" by code_simp+
  have "f_sub 1 c \<le> ?v" unfolding f_sub_def using assms(1) by (intro fl_mono) simp
  then have "?u \<le> ?v" using v(1) by simp
  then have "f_sub 1 ?v \<le> f_sub 1 ?u" unfolding f_sub_def by (intro fl_mono) simp
  with v(2) show ?thesis by simp
qed

text \<open>The words the engines use are the words the agent understands.\<close>

lemma recommendation_words:
  "eligibility_of_recommendation (py_lower (recommendation_value rec)) =
     (case rec of APPROVE_FULL_REFUND \<Rightarrow> Eligible | APPROVE_PARTIAL_REFUND \<Rightarrow> Partial | REC_DENY_REFUND \<Rightarrow> Ineligible
      | _ \<Rightarrow> Indeterminate)"
proof -
  have "\<forall>rec \<in> {APPROVE_FULL_REFUND, APPROVE_PARTIAL_REFUND, REC_DENY_REFUND, REC_REQUEST_MORE_INFORMATION, REC_MANUAL_REVIEW}.
    eligibility_of_recommendation (py_lower (recommendation_value rec)) =
     (case rec of APPROVE_FULL_REFUND \<Rightarrow> Eligible | APPROVE_PARTIAL_REFUND \<Rightarrow> Partial | REC_DENY_REFUND \<Rightarrow> Ineligible
      | _ \<Rightarrow> Indeterminate)" by code_simp
  then show ?thesis by (cases rec) simp_all
qed

lemma level_words:
  "level_of_recommendation (py_lower (risk_level_value l)) =
     Some (case l of LOW \<Rightarrow> Low | ELEVATED \<Rightarrow> Elevated | HIGH \<Rightarrow> High)"
proof -
  have "\<forall>l \<in> {LOW, ELEVATED, HIGH}. level_of_recommendation (py_lower (risk_level_value l)) =
     Some (case l of LOW \<Rightarrow> Low | ELEVATED \<Rightarrow> Elevated | HIGH \<Rightarrow> High)" by code_simp
  then show ?thesis by (cases l) simp_all
qed

text \<open>The outcome the two opinions lead to.\<close>

definition joint_outcome :: "EligibilityRecommendation \<Rightarrow> RiskAssessment \<Rightarrow> ResolutionOutcome" where
  "joint_outcome rec ra =
     (if er_requires_human_review rec \<or> ra_requires_human_review ra then ESCALATE_HUMAN
      else case er_recommendation rec of
             APPROVE_FULL_REFUND \<Rightarrow> if ra_risk_level ra = LOW then APPROVE_REFUND else ESCALATE_HUMAN
           | REC_DENY_REFUND \<Rightarrow>
               if er_usage_level rec = ''heavy''
               then (if ra_risk_level ra = HIGH then ESCALATE_HUMAN else OFFER_PARTIAL_CREDIT)
               else (if ra_risk_level ra = LOW then ESCALATE_HUMAN else DENY_REFUND)
           | APPROVE_PARTIAL_REFUND \<Rightarrow> if ra_risk_level ra = HIGH then ESCALATE_HUMAN else OFFER_PARTIAL_CREDIT
           | _ \<Rightarrow> REQUEST_MORE_INFORMATION)"

lemma joint_outcome_approve:
  "joint_outcome rec ra = APPROVE_REFUND \<longleftrightarrow>
    er_recommendation rec = APPROVE_FULL_REFUND \<and> \<not> er_requires_human_review rec
    \<and> ra_risk_level ra = LOW \<and> \<not> ra_requires_human_review ra"
  by (auto simp: joint_outcome_def split: Recommendation.splits)

lemma finding_fields:
  assumes "build_result_payload rq rec facts n = Inr bp" "to_result_payload ra rk m = Inr rp"
  shows "fb_requires_human_review (billing_finding_of bp tb) = er_requires_human_review rec"
    "fb_confidence (billing_finding_of bp tb) = Some (er_confidence rec)"
    "fb_eligibility (billing_finding_of bp tb) =
       (case er_recommendation rec of APPROVE_FULL_REFUND \<Rightarrow> Eligible | APPROVE_PARTIAL_REFUND \<Rightarrow> Partial
        | REC_DENY_REFUND \<Rightarrow> if er_usage_level rec = ''heavy'' then Partial else Ineligible | _ \<Rightarrow> Indeterminate)"
    "fr_requires_human_review (risk_finding_of rp tr) = ra_requires_human_review ra"
    "fr_score (risk_finding_of rp tr) = Some (max 0 (min 1 (f_sub 1 (ra_confidence ra))))"
    "fr_level (risk_finding_of rp tr) = (case ra_risk_level ra of LOW \<Rightarrow> Low | ELEVATED \<Rightarrow> Elevated | HIGH \<Rightarrow> High)"
proof -
  have b: "bp_recommendation bp = recommendation_value (er_recommendation rec)" "bp_confidence bp = er_confidence rec"
    "bp_requires_human_review bp = er_requires_human_review rec" "bp_usage_level bp = er_usage_level rec"
    using assms(1) by (auto simp: build_result_payload_def validate_billing_payload_def split: if_splits)
  have r: "rp_recommendation rp = risk_level_value (ra_risk_level ra)" "rp_confidence rp = ra_confidence ra"
    "rp_requires_human_review rp = ra_requires_human_review ra"
    using assms(2) by (auto simp: to_result_payload_def validate_risk_payload_def split: if_splits)
  show "fb_requires_human_review (billing_finding_of bp tb) = er_requires_human_review rec"
    "fb_confidence (billing_finding_of bp tb) = Some (er_confidence rec)"
    "fr_requires_human_review (risk_finding_of rp tr) = ra_requires_human_review ra"
    "fr_score (risk_finding_of rp tr) = Some (max 0 (min 1 (f_sub 1 (ra_confidence ra))))"
    by (simp_all add: billing_finding_of_def risk_finding_of_def uncertainty_from_confidence_def b r Let_def)
  show "fb_eligibility (billing_finding_of bp tb) =
       (case er_recommendation rec of APPROVE_FULL_REFUND \<Rightarrow> Eligible | APPROVE_PARTIAL_REFUND \<Rightarrow> Partial
        | REC_DENY_REFUND \<Rightarrow> if er_usage_level rec = ''heavy'' then Partial else Ineligible | _ \<Rightarrow> Indeterminate)"
    by (simp add: billing_finding_of_def b recommendation_words Let_def split: Recommendation.split)
  show "fr_level (risk_finding_of rp tr) = (case ra_risk_level ra of LOW \<Rightarrow> Low | ELEVATED \<Rightarrow> Elevated | HIGH \<Rightarrow> High)"
    by (simp add: risk_finding_of_def r level_words)
qed

section \<open>Opinions read off the A2A outputs\<close>

text \<open>\<^verbatim>\<open>out.parts[0].data\<close>\<close>

definition output_data :: "A2AMessage \<Rightarrow> (string, pyval) dict" where
  "output_data m = (case ms_parts m of [] \<Rightarrow> [] | p # _ \<Rightarrow> (case pt_data p of None \<Rightarrow> [] | Some d \<Rightarrow> d))"

text \<open>What the reading relies on: pydantic and \<^verbatim>\<open>float()\<close> take a float as it is.\<close>

definition reads_floats :: "cr_params \<Rightarrow> bool" where
  "reads_floats P \<longleftrightarrow> (\<forall>c. cp_number_field P (VFloat c) = Some c \<and> cp_float P (VFloat c) = Some c)"

lemma read_billing_output:
  assumes "reads_floats P"
  shows "normalize_billing_result P t performer (output_data (build_a2a_output rec n)) =
    Some \<lparr>fb_eligibility = (case er_recommendation rec of APPROVE_FULL_REFUND \<Rightarrow> Eligible
            | APPROVE_PARTIAL_REFUND \<Rightarrow> Partial | REC_DENY_REFUND \<Rightarrow> Ineligible | _ \<Rightarrow> Indeterminate),
          fb_requires_human_review = er_requires_human_review rec, fb_confidence = Some (er_confidence rec),
          fb_summary = er_reasoning_summary rec, fb_performer_agent_id = performer, fb_task_id = Some t\<rparr>"
  using assms recommendation_words
  by (simp add: normalize_billing_result_def output_data_def build_a2a_output_def data_message_def reads_floats_def
      number_field_def text_field_def review_flag_def)

lemma read_risk_output:
  assumes "reads_floats P"
  shows "normalize_risk_result P t performer (output_data (risk_build_a2a_output ra n)) lo hi =
    Some \<lparr>fr_level = (case ra_risk_level ra of LOW \<Rightarrow> Low | ELEVATED \<Rightarrow> Elevated | HIGH \<Rightarrow> High),
          fr_requires_human_review = ra_requires_human_review ra,
          fr_score = Some (max 0 (min 1 (f_sub 1 (ra_confidence ra)))),
          fr_summary = ra_reasoning_summary ra, fr_performer_agent_id = performer, fr_task_id = Some t\<rparr>"
  using assms level_words
  by (simp add: normalize_risk_result_def output_data_def risk_build_a2a_output_def data_message_def reads_floats_def
      text_field_def review_flag_def uncertainty_from_confidence_def Let_def)

text \<open>The outcome this reading leads to: the joint table without the softening of heavy usage.\<close>

definition thin_outcome :: "EligibilityRecommendation \<Rightarrow> RiskAssessment \<Rightarrow> ResolutionOutcome" where
  "thin_outcome rec ra =
     (if er_requires_human_review rec \<or> ra_requires_human_review ra then ESCALATE_HUMAN
      else case er_recommendation rec of
             APPROVE_FULL_REFUND \<Rightarrow> if ra_risk_level ra = LOW then APPROVE_REFUND else ESCALATE_HUMAN
           | REC_DENY_REFUND \<Rightarrow> if ra_risk_level ra = LOW then ESCALATE_HUMAN else DENY_REFUND
           | APPROVE_PARTIAL_REFUND \<Rightarrow> if ra_risk_level ra = HIGH then ESCALATE_HUMAN else OFFER_PARTIAL_CREDIT
           | _ \<Rightarrow> REQUEST_MORE_INFORMATION)"

lemma thin_differs_iff:
  "thin_outcome rec ra \<noteq> joint_outcome rec ra \<longleftrightarrow>
     er_recommendation rec = REC_DENY_REFUND \<and> er_usage_level rec = ''heavy''
     \<and> \<not> er_requires_human_review rec \<and> \<not> ra_requires_human_review ra"
  by (cases "ra_risk_level ra") (auto simp: thin_outcome_def joint_outcome_def split: Recommendation.splits)

text \<open>An opinion that asks for no human is confident, in both readings.\<close>

lemma unflagged_confidence:
  assumes "CONFIDENCE_THRESHOLD \<le> tg_confidence t" "in_unit (ra_confidence ra)"
    and "CONFIDENCE_THRESHOLD \<le> er_confidence rec" "CONFIDENCE_THRESHOLD \<le> ra_confidence ra"
    and "fb_confidence b = Some (er_confidence rec)" "fr_score r = Some (max 0 (min 1 (f_sub 1 (ra_confidence ra))))"
  shows "CONFIDENCE_THRESHOLD \<le> compute_confidence (Some t) (Some b) (Some r)"
  using assms confidence_survives
  by (simp add: confidence_reaches_iff [OF threshold_unit] confidence_scores_def in_unit_def)

end
