(* ===== verification/Py_Access.thy ===== *)
theory Py_Access
  imports Py_Text
begin

text \<open>
  How Python reads a decoded JSON value whose shape is not known: the attribute \<^verbatim>\<open>get\<close>, iteration, and the
  text of the exception if the value has neither.
\<close>

fun py_type_name :: "pyval \<Rightarrow> string" where
  "py_type_name VNone = ''NoneType''"
| "py_type_name (VBool _) = ''bool''"
| "py_type_name (VInt _) = ''int''"
| "py_type_name (VFloat _) = ''float''"
| "py_type_name (VStr _) = ''str''"
| "py_type_name (VList _) = ''list''"
| "py_type_name (VDict _) = ''dict''"

text \<open>\<^verbatim>\<open>v.get(k, dflt)\<close>, with the text of the exception.\<close>

definition attr_get :: "pyval \<Rightarrow> string \<Rightarrow> pyval \<Rightarrow> string + pyval" where
  "attr_get v k dflt =
     (case v of
        VDict d \<Rightarrow> Inr (case dict_get d k of None \<Rightarrow> dflt | Some x \<Rightarrow> x)
      | _ \<Rightarrow> Inl (quoted (py_type_name v) @ '' object has no attribute '' @ quoted ''get''))"

text \<open>The characters of a text; a character may take several bytes.\<close>

fun py_chars :: "nat \<Rightarrow> string \<Rightarrow> string list" where
  "py_chars 0 s = []"
| "py_chars (Suc n) s = (if s = [] then [] else let c = py_take 1 s in c # py_chars n (drop (length c) s))"

definition py_iter :: "pyval \<Rightarrow> string + pyval list" where
  "py_iter v =
     (case v of
        VList xs \<Rightarrow> Inr xs
      | VDict d \<Rightarrow> Inr (map (VStr \<circ> fst) d)
      | VStr s \<Rightarrow> Inr (map VStr (py_chars (length s) s))
      | _ \<Rightarrow> Inl (quoted (py_type_name v) @ '' object is not iterable''))"

definition dict_or :: "(string, pyval) dict \<Rightarrow> string \<Rightarrow> pyval \<Rightarrow> pyval" where
  "dict_or d k v = (case dict_get d k of None \<Rightarrow> v | Some x \<Rightarrow> x)"

lemma attr_get_dict [simp]: "attr_get (VDict d) k v = Inr (dict_or d k v)"
  by (simp add: attr_get_def dict_or_def)

lemma attr_get_iff: "(\<exists>x. attr_get v k dflt = Inr x) \<longleftrightarrow> (\<exists>d. v = VDict d)"
  by (cases v) (auto simp: attr_get_def)

lemma py_chars_eq_Nil [simp]: "py_chars n s = [] \<longleftrightarrow> n = 0 \<or> s = []"
  by (cases n) (auto simp: Let_def)

end
