(* ===== verification/Entry_Points.thy ===== *)
theory Entry_Points
  imports Peer_Findings Py_Access
begin

text \<open>
  The entry points that call the agents without the broker: the HTTP applications of the peers
  (\<^verbatim>\<open>http_app.py\<close>), the AgentCore applications (\<^verbatim>\<open>agentcore_app.py\<close>) and the AgentCore A2A executors
  (\<^verbatim>\<open>app/*/main.py\<close>). The web framework, the A2A library and pydantic's coercion of fields are parameters: the
  decoded body of a request, the parts of a message, the constructors of the models.
\<close>

section \<open>The HTTP applications of the peers\<close>

text \<open>A response with its status, or an exception that leaves the endpoint, which the framework answers with 500.\<close>

datatype http_response = Response nat "(string, pyval) dict" | ServerError

type_synonym part_model = "pyval \<Rightarrow> exc + A2APart"

definition part_validate :: "part_model \<Rightarrow> pyval \<Rightarrow> exc + A2APart" where
  "part_validate pm v = (case pm v of Inl e \<Rightarrow> Inl e | Inr p \<Rightarrow> validate_conditional_fields p)"

fun validate_all :: "part_model \<Rightarrow> pyval list \<Rightarrow> exc + A2APart list" where
  "validate_all pm [] = Inr []"
| "validate_all pm (v # vs) =
     (case part_validate pm v of
        Inl e \<Rightarrow> Inl e
      | Inr p \<Rightarrow> map_sum id ((#) p) (validate_all pm vs))"

definition task_parts :: "part_model \<Rightarrow> (string, pyval) dict \<Rightarrow> string + A2APart list" where
  "task_parts pm body =
     (case attr_get (case dict_get body ''input'' of None \<Rightarrow> VDict [] | Some v \<Rightarrow> v) ''parts'' (VList []) of
        Inl msg \<Rightarrow> Inl msg
      | Inr raw \<Rightarrow>
          (case py_iter raw of
             Inl msg \<Rightarrow> Inl msg
           | Inr vs \<Rightarrow> map_sum str_exc id (validate_all pm vs)))"

definition http_error :: "string \<Rightarrow> pyval \<Rightarrow> string \<Rightarrow> string \<Rightarrow> (string, pyval) dict" where
  "http_error agent task_id category message =
     [(''task_id'', task_id), (''status'', VStr ''failed''), (''performer_agent_id'', VStr agent),
      (''error'', VDict [(''category'', VStr category), (''message'', VStr message)])]"

definition http_completed :: "runtime_env \<Rightarrow> string \<Rightarrow> pyval \<Rightarrow> A2AMessage \<Rightarrow> (string, pyval) dict" where
  "http_completed E agent task_id output =
     [(''task_id'', task_id), (''status'', VStr ''completed''), (''performer_agent_id'', VStr agent),
      (''output'', VDict (re_dump E (MMessage output)))]"

text \<open>The endpoint, common to both peers: \<open>run\<close> analyses the parts.\<close>

definition http_task ::
  "runtime_env \<Rightarrow> string \<Rightarrow> part_model \<Rightarrow> (A2APart list \<Rightarrow> ('a net_scheme, A2AMessage) io) \<Rightarrow> exc + pyval \<Rightarrow>
   ('a net_scheme, http_response) io" where
  "http_task E agent pm run body =
     (case body of
       Inl _ \<Rightarrow> bind_io (uuid4_io E) (\<lambda>fresh.
         return_io (Response 400 (http_error agent (VStr (show_uuid fresh)) ''validation'' ''Request body is not valid JSON'')))
     | Inr (VDict d) \<Rightarrow> bind_io (uuid4_io E) (\<lambda>fresh.
         let task_id = (case dict_get d ''task_id'' of None \<Rightarrow> VStr (show_uuid fresh) | Some v \<Rightarrow> v) in
          case task_parts pm d of
            Inl msg \<Rightarrow> return_io (Response 200 (http_error agent task_id ''handler_error'' msg))
          | Inr parts \<Rightarrow>
              try_io (bind_io (run parts) (\<lambda>output. return_io (Response 200 (http_completed E agent task_id output))))
                (\<lambda>e. return_io (Response 200 (http_error agent task_id ''handler_error'' (str_exc e)))))
     | Inr _ \<Rightarrow> return_io ServerError)"

definition billing_run :: "runtime_env \<Rightarrow> billing_validate \<Rightarrow> instant \<Rightarrow> A2APart list \<Rightarrow> ('a net_scheme, A2AMessage) io" where
  "billing_run E mv t0 parts =
     bind_io (analyze E mv t0 parts) (\<lambda>(request, rec, facts). return_io (build_a2a_output rec None))"

definition billing_http_task ::
  "runtime_env \<Rightarrow> part_model \<Rightarrow> billing_validate \<Rightarrow> instant \<Rightarrow> exc + pyval \<Rightarrow> ('a net_scheme, http_response) io" where
  "billing_http_task E pm mv t0 = http_task E ''billing-entitlement-agent'' pm (billing_run E mv t0)"

definition risk_run :: "risk_validate \<Rightarrow> A2APart list \<Rightarrow> ('w, A2AMessage) io" where
  "risk_run mv parts = bind_io (lift_exc (assess mv parts)) (\<lambda>(assessment, request). return_io (risk_build_a2a_output assessment None))"

definition risk_http_task ::
  "runtime_env \<Rightarrow> part_model \<Rightarrow> risk_validate \<Rightarrow> exc + pyval \<Rightarrow> ('a net_scheme, http_response) io" where
  "risk_http_task E pm mv = http_task E ''risk-fraud-agent'' pm (risk_run mv)"

definition ping :: "AgentCard \<Rightarrow> (string, pyval) dict" where
  "ping c = [(''status'', VStr ''ok''), (''agent_id'', VStr (card_agent_id c))]"

section \<open>The AgentCore executors of the peers\<close>

text \<open>The parts of an incoming message: structured data, text, anything else.\<close>

datatype sdk_part = SdkData "(string, pyval) dict" | SdkText string | SdkOther

type_synonym json_loads = "string \<Rightarrow> exc + pyval"

definition data_part :: "(string, pyval) dict \<Rightarrow> A2APart" where
  "data_part d = \<lparr>pt_type = DataPart, pt_text = None, pt_data = Some d, pt_file_uri = None\<rparr>"

text \<open>Which exceptions an \<^verbatim>\<open>except ValueError\<close> clause catches; a decoder that runs out of stack raises another one.\<close>

definition is_value_error :: "exc \<Rightarrow> bool" where
  "is_value_error e = (case e of ValueError _ \<Rightarrow> True | JSONDecodeError _ \<Rightarrow> True | MissingCausation _ \<Rightarrow> True | _ \<Rightarrow> False)"

text \<open>A text that is not JSON, or not a JSON object, is skipped: the model's error is a \<^verbatim>\<open>ValueError\<close> too. Any other
  exception of the decoder escapes.\<close>

definition input_part :: "json_loads \<Rightarrow> sdk_part \<Rightarrow> exc + A2APart option" where
  "input_part loads part =
     (case part of
        SdkData d \<Rightarrow> Inr (if d \<noteq> [] then Some (data_part d) else None)
      | SdkText t \<Rightarrow>
          if t = [] then Inr None
          else (case loads t of
                  Inr (VDict d) \<Rightarrow> Inr (Some (data_part d))
                | Inr _ \<Rightarrow> Inr None
                | Inl e \<Rightarrow> if is_value_error e then Inr None else Inl e)
      | SdkOther \<Rightarrow> Inr None)"

fun collect_parts :: "json_loads \<Rightarrow> sdk_part list \<Rightarrow> exc + A2APart list" where
  "collect_parts loads [] = Inr []"
| "collect_parts loads (part # parts) =
     (case input_part loads part of
        Inl e \<Rightarrow> Inl e
      | Inr p \<Rightarrow> map_sum id ((@) (case p of None \<Rightarrow> [] | Some x \<Rightarrow> [x])) (collect_parts loads parts))"

definition input_parts :: "json_loads \<Rightarrow> sdk_part list option \<Rightarrow> exc + A2APart list" where
  "input_parts loads message = (case message of None \<Rightarrow> Inr [] | Some parts \<Rightarrow> collect_parts loads parts)"

datatype exec_outcome = TaskFailed | Artifact "(string, pyval) dict"

definition execute_with ::
  "json_loads \<Rightarrow> (A2APart list \<Rightarrow> ('w, A2AMessage) io) \<Rightarrow> sdk_part list option \<Rightarrow> ('w, exec_outcome) io" where
  "execute_with loads run message =
     try_io (bind_io (lift_exc (input_parts loads message)) (\<lambda>parts.
             bind_io (run parts) (\<lambda>out. return_io (Artifact (output_data out)))))
       (\<lambda>e. if is_value_error e then return_io TaskFailed else raise_io e)"

definition billing_execute ::
  "runtime_env \<Rightarrow> json_loads \<Rightarrow> billing_validate \<Rightarrow> instant \<Rightarrow> sdk_part list option \<Rightarrow> ('a net_scheme, exec_outcome) io" where
  "billing_execute E loads mv t0 = execute_with loads (billing_run E mv t0)"

definition risk_execute :: "json_loads \<Rightarrow> risk_validate \<Rightarrow> sdk_part list option \<Rightarrow> ('w, exec_outcome) io" where
  "risk_execute loads mv = execute_with loads (risk_run mv)"

section \<open>The AgentCore application of the risk agent\<close>

definition failed_dict :: "string \<Rightarrow> string option \<Rightarrow> (string, pyval) dict" where
  "failed_dict err reason =
     [(''status'', VStr ''failed''), (''error'', VStr err)]
     @ (case reason of None \<Rightarrow> [] | Some r \<Rightarrow> [(''reason'', VStr r)])"

definition assessed_dict :: "string \<Rightarrow> pyfloat \<Rightarrow> pyval list \<Rightarrow> string \<Rightarrow> bool \<Rightarrow> string list \<Rightarrow> (string, pyval) dict" where
  "assessed_dict word confidence items summary review refs =
     [(''status'', VStr ''completed''), (''recommendation'', VStr word), (''confidence'', VFloat confidence),
      (''evidence'', VList items), (''reasoning_summary'', VStr summary), (''requires_human_review'', VBool review),
      (''policy_references'', VList (map VStr refs))]"

text \<open>\<^verbatim>\<open>RiskAssessmentRequest.model_validate\<close> is \<open>mv\<close>; it also refuses what is no dictionary.\<close>

definition risk_invoke ::
  "json_loads \<Rightarrow> (pyval \<Rightarrow> exc + RiskAssessmentRequest) \<Rightarrow> pyval \<Rightarrow> exc + (string, pyval) dict" where
  "risk_invoke loads mv payload =
     (case (case payload of VStr s \<Rightarrow> loads s | v \<Rightarrow> Inr v) of
        Inl e \<Rightarrow> if is_value_error e then Inr (failed_dict (''Invalid JSON payload: '' @ str_exc e) None) else Inl e
      | Inr v \<Rightarrow> Inr
          (case mv v of
             Inl e \<Rightarrow> failed_dict (str_exc e) (Some ''Input validation failed (FR-011). No verdict fabricated.'')
           | Inr request \<Rightarrow>
               (case load_signals (rk_customer_id request) of
                  None \<Rightarrow> assessed_dict ''unknown'' (fl (2 / 10))
                    [VDict [(''source'', VStr ''fraud_policy''), (''description'', VStr ''Data-completeness gate: no risk record found''),
                            (''value'', VDict [(''customer_id'', VStr (rk_customer_id request))])]]
                    (''No risk signals found for customer_id='' @ repr_str (rk_customer_id request) @ ''.'') True []
                | Some signals \<Rightarrow>
                    (let a = assess_signals signals request None in
                     assessed_dict (risk_level_value (ra_risk_level a)) (ra_confidence a) (map dump_evidence (ra_evidence a))
                       (ra_reasoning_summary a) (ra_requires_human_review a) (ra_policy_references a)))))"

section \<open>The AgentCore application of the resolution agent\<close>

text \<open>Python's \<^verbatim>\<open>float()\<close> and the constructor of the ticket model, with their exceptions.\<close>

record direct_params =
  di_loads :: json_loads
  di_float :: "pyval \<Rightarrow> exc + pyfloat"
  di_ticket :: "pyval \<Rightarrow> pyval \<Rightarrow> pyfloat \<Rightarrow> pyval \<Rightarrow> pyval \<Rightarrow> instant \<Rightarrow> exc + SupportTicketCreatedPayload"

datatype invoke_result = InvokeFailed string "string option" | InvokeDecided CustomerResponseDecisionPayload

definition dict_item :: "(string, pyval) dict \<Rightarrow> string \<Rightarrow> exc + pyval" where
  "dict_item d k = (case dict_get d k of None \<Rightarrow> Inl (KeyError k) | Some x \<Rightarrow> Inr x)"

definition direct_ticket ::
  "runtime_env \<Rightarrow> direct_params \<Rightarrow> (string, pyval) dict \<Rightarrow> ('a net_scheme, SupportTicketCreatedPayload) io" where
  "direct_ticket E D d =
     bind_io (lift_exc (dict_item d ''ticket_id'')) (\<lambda>ticket_id.
     bind_io (lift_exc (dict_item d ''customer_id'')) (\<lambda>customer_id.
     bind_io (lift_exc (di_float D (dict_or d ''amount'' (VFloat 0)))) (\<lambda>amount.
     bind_io (now_io E) (\<lambda>now.
     lift_exc (di_ticket D ticket_id customer_id amount (dict_or d ''currency'' (VStr ''USD''))
       (dict_or d ''reason'' (VStr [])) now)))))"

definition direct_case_id :: "runtime_env \<Rightarrow> (string, pyval) dict \<Rightarrow> ('a net_scheme, uuid) io" where
  "direct_case_id E d =
     (case dict_get d ''case_id'' of
        Some v \<Rightarrow>
          if truthy v then (case parse_uuid (py_str v) of Some u \<Rightarrow> return_io u | None \<Rightarrow> uuid4_io E)
          else uuid4_io E
      | None \<Rightarrow> uuid4_io E)"

text \<open>A finding from the payload; the finding's model refuses a performer that is no text.\<close>

definition direct_finding ::
  "runtime_env \<Rightarrow> (uuid \<Rightarrow> string \<Rightarrow> (string, pyval) dict \<Rightarrow> 'f option) \<Rightarrow> (string, pyval) dict \<Rightarrow> string \<Rightarrow> string \<Rightarrow>
   string \<Rightarrow> ('a net_scheme, 'f option) io" where
  "direct_finding E norm_of d result_key performer_key peer =
     (case dict_get d result_key of
        Some (VDict data) \<Rightarrow>
          bind_io (uuid4_io E) (\<lambda>task_id.
          return_io (case dict_or d performer_key (VStr peer) of
                       VStr performer \<Rightarrow> norm_of task_id performer data
                     | _ \<Rightarrow> None))
      | _ \<Rightarrow> return_io None)"

text \<open>The default thresholds.\<close>

definition read_risk :: "cr_params \<Rightarrow> uuid \<Rightarrow> string \<Rightarrow> (string, pyval) dict \<Rightarrow> RiskFinding option" where
  "read_risk P t performer data = normalize_risk_result P t performer data (fl (5 / 10)) (fl (8 / 10))"

definition direct_decision ::
  "runtime_env \<Rightarrow> cr_params \<Rightarrow> (string, pyval) dict \<Rightarrow> SupportTicketCreatedPayload \<Rightarrow> ('a net_scheme, invoke_result) io" where
  "direct_decision E P d ticket =
     bind_io (direct_case_id E d) (\<lambda>case_id.
     bind_io (direct_finding E (normalize_billing_result P) d ''billing_result'' ''billing_performer_agent_id''
                BILLING_PEER_AGENT_ID) (\<lambda>billing.
     bind_io (direct_finding E (read_risk P) d
                ''risk_result'' ''risk_performer_agent_id'' RISK_PEER_AGENT_ID) (\<lambda>risk.
     bind_io (lift_exc (decide (classify (cp_signals P) ticket) billing risk None None None (Some case_id)
                (tk_ticket_id ticket) (tk_customer_id ticket))) (\<lambda>decision.
     return_io (InvokeDecided decision)))))"

definition resolution_invoke ::
  "runtime_env \<Rightarrow> cr_params \<Rightarrow> direct_params \<Rightarrow> pyval \<Rightarrow> ('a net_scheme, invoke_result) io" where
  "resolution_invoke E P D payload =
     (case (case payload of VStr s \<Rightarrow> di_loads D s | v \<Rightarrow> Inr v) of
        Inl e \<Rightarrow> if is_value_error e then return_io (InvokeFailed (''Invalid JSON payload: '' @ str_exc e) None) else raise_io e
      | Inr (VDict d) \<Rightarrow>
          bind_io (try_io (bind_io (direct_ticket E D d) (\<lambda>t. return_io (Inr t))) (\<lambda>e. return_io (Inl e))) (\<lambda>ticket.
          case ticket of
            Inl e \<Rightarrow> return_io (InvokeFailed (str_exc e) (Some ''Input validation failed (FR-011). No decision fabricated.''))
          | Inr t \<Rightarrow> direct_decision E P d t)
      | Inr _ \<Rightarrow> return_io (InvokeFailed ''Payload must be a JSON object.'' None))"

text \<open>The executor takes the first part that has data or text.\<close>

fun sdk_payload :: "sdk_part list \<Rightarrow> pyval" where
  "sdk_payload [] = VDict []"
| "sdk_payload (SdkData d # parts) = (if d \<noteq> [] then VDict d else sdk_payload parts)"
| "sdk_payload (SdkText t # parts) = (if t \<noteq> [] then VStr t else sdk_payload parts)"
| "sdk_payload (SdkOther # parts) = sdk_payload parts"

definition resolution_execute ::
  "runtime_env \<Rightarrow> cr_params \<Rightarrow> direct_params \<Rightarrow> sdk_part list option \<Rightarrow>
   ('a net_scheme, CustomerResponseDecisionPayload option) io" where
  "resolution_execute E P D message =
     bind_io (resolution_invoke E P D (case message of None \<Rightarrow> VDict [] | Some parts \<Rightarrow> sdk_payload parts)) (\<lambda>result.
     return_io (case result of InvokeFailed _ _ \<Rightarrow> None | InvokeDecided p \<Rightarrow> Some p))"

section \<open>The HTTP endpoints answer as the task handlers do\<close>

lemma billing_run_result:
  "fst (billing_run E mv t0 parts w) =
     (case validate_input mv parts of
        Inl e \<Rightarrow> Inl e
      | Inr request \<Rightarrow> Inr (build_a2a_output (fst (recommend t0 (re_clock E (nt_ticks w)) request)) None))"
  "nt_log (snd (billing_run E mv t0 parts w)) = nt_log w"
  by (simp_all add: billing_run_def analyze_def recommend_def lift_exc_def io_defs now_io_def split: sum.splits option.splits)

lemma risk_run_result:
  "risk_run mv parts w =
     (case risk_validate_input mv parts of
        Inl e \<Rightarrow> Inl e | Inr request \<Rightarrow> Inr (risk_build_a2a_output (risk_opinion request) None), w)"
  by (simp add: risk_run_def assess_def lift_exc_def io_defs split: sum.splits)

lemma http_task_result:
  fixes w :: "'a net_scheme"
  assumes "task_parts pm d = Inr parts"
  defines "w1 \<equiv> w\<lparr>nt_uuids := Suc (nt_uuids w)\<rparr>"
  shows "\<exists>task_id. fst (http_task E agent pm run (Inr (VDict d)) w) =
      Inr (Response 200 (case fst (run parts w1) of Inr m \<Rightarrow> http_completed E agent task_id m
        | Inl e \<Rightarrow> http_error agent task_id ''handler_error'' (str_exc e)))
    \<and> task_id = (case dict_get d ''task_id'' of None \<Rightarrow> VStr (show_uuid (re_uuid4 E (nt_uuids w))) | Some v \<Rightarrow> v)
    \<and> nt_log (snd (http_task E agent pm run (Inr (VDict d)) w)) = nt_log (snd (run parts w1))"
  using assms(1) unfolding w1_def
  by (cases "run parts (w\<lparr>nt_uuids := Suc (nt_uuids w)\<rparr>)")
    (auto simp: http_task_def io_defs uuid4_io_def Let_def split: sum.splits)

definition http_answer :: "runtime_env \<Rightarrow> string \<Rightarrow> pyval \<Rightarrow> exc + A2AMessage \<Rightarrow> http_response" where
  "http_answer E agent task_id r = Response 200
     (case r of Inr m \<Rightarrow> http_completed E agent task_id m | Inl e \<Rightarrow> http_error agent task_id ''handler_error'' (str_exc e))"

text \<open>C19: the HTTP endpoints of both peers answer as their Kafka task handlers do. For a JSON body whose parts are
  those of a task request, and a broker that acknowledges the handler's event, the endpoint completes with exactly
  the message that the task handler (without the assistive narrative) returns at the same clock reading, and it
  fails with the text of exactly the exception the handler raises; the endpoint itself publishes nothing.\<close>

theorem http_answers_as_handler:
  fixes w :: "'a net_scheme"
  assumes seg: "type_segment (re_environment E)" and ok: "re_send_ok E (nt_sends w)"
    and p: "task_parts pm d = Inr (ms_parts (tq_input req))"
    and t: "task_id = (case dict_get d ''task_id'' of None \<Rightarrow> VStr (show_uuid (re_uuid4 E (nt_uuids w))) | Some v \<Rightarrow> v)"
  shows "(case billing_http_task E pm mv t0 (Inr (VDict d)) w of (r, w') \<Rightarrow>
           r = Inr (http_answer E ''billing-entitlement-agent'' task_id (fst (handle_eligibility E mv t0 False assist req w))) \<and> nt_log w' = nt_log w)
       \<and> (case risk_http_task E pm rv (Inr (VDict d)) w of (r, w') \<Rightarrow>
           r = Inr (http_answer E ''risk-fraud-agent'' task_id (fst (handle_risk E rv False rassist req w))) \<and> nt_log w' = nt_log w)"
proof -
  let ?w = "w\<lparr>nt_uuids := Suc (nt_uuids w)\<rparr>" and ?ps = "ms_parts (tq_input req)"
  have "fst (handle_eligibility E mv t0 False assist req w) = fst (billing_run E mv t0 ?ps ?w)"
  proof (cases "validate_input mv ?ps")
    case (Inl e)
    then show ?thesis by (simp add: billing_run_result handle_eligibility_def analyze_def lift_exc_def io_defs)
  next
    case (Inr request)
    obtain rec facts where r: "recommend t0 (re_clock E (nt_ticks w)) request = (rec, facts)" by fastforce
    have n: "None = narrative_of False assist rec request (tq_task_id req)" by (simp add: narrative_of_def)
    show ?thesis
      by (rule handle_eligibility_valid [OF seg Inr r n]) (simp add: ok Inr r billing_run_result)
  qed
  moreover have "fst (handle_risk E rv False rassist req w) = fst (risk_run rv ?ps ?w)"
  proof (cases "risk_validate_input rv ?ps")
    case (Inl e)
    then show ?thesis by (simp add: risk_run_result handle_risk_def assess_def lift_exc_def io_defs)
  next
    case (Inr request)
    have n: "None = risk_narrative_of False rassist (risk_opinion request) request (tq_task_id req)"
      by (simp add: risk_narrative_of_def)
    show ?thesis by (rule handle_risk_valid [OF seg Inr n, where w = w]) (simp add: ok Inr risk_run_result)
  qed
  ultimately show ?thesis
    using http_task_result [OF p, of E "''billing-entitlement-agent''" "billing_run E mv t0" w]
      http_task_result [OF p, of E "''risk-fraud-agent''" "risk_run rv" w]
    by (auto simp: billing_http_task_def risk_http_task_def http_answer_def t billing_run_result(2) risk_run_result
        case_prod_beta)
qed

theorem http_answers_as_handler_witness:
  "\<exists>w' w''. billing_http_task sample_env (\<lambda>_. Inr (data_part [(''k'', VNone)])) (\<lambda>_. Inr sample_request) 0
       (Inr (VDict [(''input'', VDict [(''parts'', VList [VNone])])])) sample_net =
     (Inr (http_answer sample_env ''billing-entitlement-agent'' (VStr (show_uuid 100))
       (fst (handle_eligibility sample_env (\<lambda>_. Inr sample_request) 0 False (\<lambda>_ _ _ n. Inr n)
          (sample_task ''analyze_refund_eligibility'' [(''k'', VNone)]) sample_net))), w')
    \<and> nt_log w' = []"
proof -
  let ?pm = "\<lambda>_. Inr (data_part [(''k'', VNone)])" and ?req = "sample_task ''analyze_refund_eligibility'' [(''k'', VNone)]"
  have "task_parts ?pm [(''input'', VDict [(''parts'', VList [VNone])])] = Inr (ms_parts (tq_input ?req))"
    by (simp add: task_parts_def attr_get_def py_iter_def part_validate_def data_part_def validate_conditional_fields_def
        sample_task_def data_message_def)
  moreover have "re_send_ok sample_env (nt_sends sample_net)" "nt_log sample_net = []" "re_uuid4 sample_env (nt_uuids sample_net) = 100"
    by (simp_all add: sample_env_def sample_net_def)
  ultimately show ?thesis
    using http_answers_as_handler [OF sample_env_segment, of sample_net ?pm _ ?req _ "\<lambda>_. Inr sample_request" 0 "\<lambda>_ _ _ n. Inr n"
        "\<lambda>_. Inr sample_risk_request" "\<lambda>_ _ _ n. Inr n"]
    by (auto simp: case_prod_beta prod_eq_iff)
qed

section \<open>Deciding without the broker\<close>

lemma direct_case_id_run: "\<exists>u w'. direct_case_id E d w = (Inr u, w') \<and> nt_log w' = nt_log w"
  by (auto simp: direct_case_id_def io_defs uuid4_io_def split: option.split)

lemma direct_finding_run:
  "\<exists>f w' t p. direct_finding E g d k pk peer w = (Inr f, w') \<and> nt_log w' = nt_log w
     \<and> (f \<noteq> None \<longrightarrow> (\<exists>data. dict_get d k = Some (VDict data) \<and> f = g t p data))
     \<and> (\<forall>data. dict_get d k = Some (VDict data) \<and> dict_get d pk = None \<longrightarrow> p = peer \<and> f = g t peer data)"
  by (auto simp: direct_finding_def dict_or_def io_defs uuid4_io_def split: option.split pyval.split)

lemma direct_ticket_run: "nt_log (snd (direct_ticket E D d w)) = nt_log w"
  by (simp add: direct_ticket_def lift_exc_def io_defs now_io_def split: sum.split)

text \<open>A decision is that of the engine on what the payload carries.\<close>

definition supplied :: "cr_params \<Rightarrow> (string, pyval) dict \<Rightarrow> BillingFinding option \<Rightarrow> RiskFinding option \<Rightarrow> bool" where
  "supplied P d b r \<longleftrightarrow> (\<exists>tb pb tr pr.
     (b \<noteq> None \<longrightarrow> (\<exists>data. dict_get d ''billing_result'' = Some (VDict data) \<and> b = normalize_billing_result P tb pb data))
     \<and> (r \<noteq> None \<longrightarrow> (\<exists>data. dict_get d ''risk_result'' = Some (VDict data) \<and> r = read_risk P tr pr data))
     \<and> (\<forall>data. dict_get d ''billing_result'' = Some (VDict data) \<and> dict_get d ''billing_performer_agent_id'' = None
          \<longrightarrow> b = normalize_billing_result P tb BILLING_PEER_AGENT_ID data)
     \<and> (\<forall>data. dict_get d ''risk_result'' = Some (VDict data) \<and> dict_get d ''risk_performer_agent_id'' = None
          \<longrightarrow> r = read_risk P tr RISK_PEER_AGENT_ID data))"

lemma direct_decision_run:
  "\<exists>b r p w'. direct_decision E P d ticket w = (Inr (InvokeDecided p), w') \<and> nt_log w' = nt_log w \<and> supplied P d b r
     \<and> (dp_outcome p, dp_escalation_reason p) = table_row (classify (cp_signals P) ticket) b r None
     \<and> dp_ticket_id p = tk_ticket_id ticket \<and> dp_customer_id p = tk_customer_id ticket"
proof -
  obtain cid w1 where c: "direct_case_id E d w = (Inr cid, w1)" "nt_log w1 = nt_log w" using direct_case_id_run by blast
  obtain b w2 tb pb where b: "direct_finding E (normalize_billing_result P) d ''billing_result'' ''billing_performer_agent_id''
      BILLING_PEER_AGENT_ID w1 = (Inr b, w2)" "nt_log w2 = nt_log w1"
    "b \<noteq> None \<longrightarrow> (\<exists>data. dict_get d ''billing_result'' = Some (VDict data) \<and> b = normalize_billing_result P tb pb data)"
    "\<forall>data. dict_get d ''billing_result'' = Some (VDict data) \<and> dict_get d ''billing_performer_agent_id'' = None
      \<longrightarrow> pb = BILLING_PEER_AGENT_ID \<and> b = normalize_billing_result P tb BILLING_PEER_AGENT_ID data"
    using direct_finding_run [of E "normalize_billing_result P" d "''billing_result''" "''billing_performer_agent_id''"
      BILLING_PEER_AGENT_ID w1] by blast
  obtain r w3 tr pr where r: "direct_finding E (read_risk P) d
      ''risk_result'' ''risk_performer_agent_id'' RISK_PEER_AGENT_ID w2 = (Inr r, w3)" "nt_log w3 = nt_log w2"
    "r \<noteq> None \<longrightarrow> (\<exists>data. dict_get d ''risk_result'' = Some (VDict data)
      \<and> r = read_risk P tr pr data)"
    "\<forall>data. dict_get d ''risk_result'' = Some (VDict data) \<and> dict_get d ''risk_performer_agent_id'' = None
      \<longrightarrow> pr = RISK_PEER_AGENT_ID \<and> r = read_risk P tr RISK_PEER_AGENT_ID data"
    using direct_finding_run [of E "read_risk P" d "''risk_result''" "''risk_performer_agent_id''" RISK_PEER_AGENT_ID w2] by blast
  obtain p where p: "decide (classify (cp_signals P) ticket) b r None None None (Some cid) (tk_ticket_id ticket) (tk_customer_id ticket) = Inr p"
    "(dp_outcome p, dp_escalation_reason p) = table_row (classify (cp_signals P) ticket) b r None"
    "dp_ticket_id p = tk_ticket_id ticket" "dp_customer_id p = tk_customer_id ticket"
    using decide_row [of "Some cid" "tk_ticket_id ticket" "tk_customer_id ticket" "classify (cp_signals P) ticket" b r None None None]
    by (auto simp: follows_row_def)
  have "direct_decision E P d ticket w = (Inr (InvokeDecided p), w3)"
    using c(1) b(1) r(1) p(1) by (simp add: direct_decision_def bind_io_def lift_exc_def return_io_def)
  moreover have "supplied P d b r" unfolding supplied_def using b(3,4) r(3,4)
    by (intro exI [of _ tb] exI [of _ pb] exI [of _ tr] exI [of _ pr]) blast
  ultimately show ?thesis using p(2-) c(2) b(2) r(2) by (intro exI [of _ b] exI [of _ r] exI [of _ p] exI [of _ w3]) simp
qed

lemma resolution_invoke_dict:
  "resolution_invoke E P D (VDict d) w =
     (case direct_ticket E D d w of
        (Inl e, w1) \<Rightarrow> (Inr (InvokeFailed (str_exc e) (Some ''Input validation failed (FR-011). No decision fabricated.'')), w1)
      | (Inr t, w1) \<Rightarrow> direct_decision E P d t w1)"
  by (simp add: resolution_invoke_def io_defs split: prod.split sum.split)

text \<open>The payload is a text on which the decoder raises something that is no \<^verbatim>\<open>ValueError\<close>.\<close>

definition decoder_breaks :: "direct_params \<Rightarrow> pyval \<Rightarrow> exc \<Rightarrow> bool" where
  "decoder_breaks D payload e \<longleftrightarrow> (\<exists>s. payload = VStr s \<and> di_loads D s = Inl e \<and> \<not> is_value_error e)"

lemma resolution_invoke_breaks: "decoder_breaks D payload e \<Longrightarrow> resolution_invoke E P D payload w = (Inl e, w)"
  by (auto simp: decoder_breaks_def resolution_invoke_def raise_io_def)

lemma resolution_invoke_result:
  assumes "\<nexists>e. decoder_breaks D payload e"
  shows "\<exists>x w'. resolution_invoke E P D payload w = (Inr x, w') \<and> nt_log w' = nt_log w
     \<and> (\<forall>p. x = InvokeDecided p \<longrightarrow> (\<exists>d ticket w1. (payload = VDict d \<or> (\<exists>s. payload = VStr s \<and> di_loads D s = Inr (VDict d)))
          \<and> nt_log w1 = nt_log w \<and> direct_decision E P d ticket w1 = (Inr (InvokeDecided p), w')))"
proof -
  have step: "\<exists>x w'. resolution_invoke E P D (VDict d) w = (Inr x, w') \<and> nt_log w' = nt_log w
     \<and> (\<forall>p. x = InvokeDecided p \<longrightarrow> (\<exists>ticket w1. nt_log w1 = nt_log w \<and> direct_decision E P d ticket w1 = (Inr (InvokeDecided p), w')))" for d
  proof -
    obtain t w1 where t: "direct_ticket E D d w = (t, w1)" by fastforce
    then have l: "nt_log w1 = nt_log w" using direct_ticket_run [of E D d w] by simp
    show ?thesis
    proof (cases t)
      case (Inl e)
      with t l show ?thesis by (simp add: resolution_invoke_dict)
    next
      case (Inr ticket)
      obtain p w' where "direct_decision E P d ticket w1 = (Inr (InvokeDecided p), w')" "nt_log w' = nt_log w1"
        using direct_decision_run [of E P d ticket w1] by blast
      with t l Inr show ?thesis by (auto simp: resolution_invoke_dict)
    qed
  qed
  have other: "\<exists>e r. resolution_invoke E P D payload w = (Inr (InvokeFailed e r), w)"
    if "\<forall>d. (case payload of VStr s \<Rightarrow> di_loads D s | v \<Rightarrow> Inr v) \<noteq> Inr (VDict d)"
    using that assms by (auto simp: resolution_invoke_def decoder_breaks_def io_defs split: sum.split pyval.splits)
  show ?thesis
  proof (cases "\<exists>d. (case payload of VStr s \<Rightarrow> di_loads D s | v \<Rightarrow> Inr v) = Inr (VDict d)")
    case True
    then obtain d where d: "(case payload of VStr s \<Rightarrow> di_loads D s | v \<Rightarrow> Inr v) = Inr (VDict d)" by blast
    then have p: "payload = VDict d \<or> (\<exists>s. payload = VStr s \<and> di_loads D s = Inr (VDict d))" by (cases payload) auto
    have "resolution_invoke E P D payload = resolution_invoke E P D (VDict d)" using d by (simp add: resolution_invoke_def)
    with step [of d] p show ?thesis by metis
  next
    case False
    then show ?thesis using other by fastforce
  qed
qed

text \<open>C18: nothing is decided without the findings. If the payload of the direct entry point of the resolution agent is a
  text on which the JSON decoder raises something that is no \<^verbatim>\<open>ValueError\<close>, such as running out of stack on deep nesting,
  that exception leaves the entry point. On every other payload it returns a result, raises nothing and publishes
  nothing; a decision other than a direct response or an escalation then requires that the payload carries both
  findings, and a refund is only approved if the billing finding reads as eligible and the risk finding as low.\<close>

theorem direct_needs_findings:
  "(\<forall>e. decoder_breaks D payload e \<longrightarrow> resolution_invoke E P D payload w = (Inl e, w))
   \<and> ((\<nexists>e. decoder_breaks D payload e) \<longrightarrow> (\<exists>x w'. resolution_invoke E P D payload w = (Inr x, w') \<and> nt_log w' = nt_log w
    \<and> (\<forall>p. x = InvokeDecided p \<and> dp_outcome p \<notin> {DIRECT_RESPONSE, ESCALATE_HUMAN} \<longrightarrow>
        (\<exists>d bd rd tb pb tr pr b r. (payload = VDict d \<or> (\<exists>s. payload = VStr s \<and> di_loads D s = Inr (VDict d)))
          \<and> dict_get d ''billing_result'' = Some (VDict bd) \<and> normalize_billing_result P tb pb bd = Some b
          \<and> dict_get d ''risk_result'' = Some (VDict rd) \<and> read_risk P tr pr rd = Some r
          \<and> (dp_outcome p = APPROVE_REFUND \<longrightarrow> fb_eligibility b = Eligible \<and> fr_level r = Low)))))"
proof (intro conjI impI allI)
  fix e assume "decoder_breaks D payload e"
  then show "resolution_invoke E P D payload w = (Inl e, w)" by (rule resolution_invoke_breaks)
next
  assume ok: "\<nexists>e. decoder_breaks D payload e"
  obtain x w' where x: "resolution_invoke E P D payload w = (Inr x, w')" "nt_log w' = nt_log w"
    and dec: "\<forall>p. x = InvokeDecided p \<longrightarrow> (\<exists>d ticket w1. (payload = VDict d \<or> (\<exists>s. payload = VStr s \<and> di_loads D s = Inr (VDict d)))
        \<and> nt_log w1 = nt_log w \<and> direct_decision E P d ticket w1 = (Inr (InvokeDecided p), w'))"
    using resolution_invoke_result [OF ok] by blast
  have "\<exists>d bd rd tb pb tr pr b r. (payload = VDict d \<or> (\<exists>s. payload = VStr s \<and> di_loads D s = Inr (VDict d)))
      \<and> dict_get d ''billing_result'' = Some (VDict bd) \<and> normalize_billing_result P tb pb bd = Some b
      \<and> dict_get d ''risk_result'' = Some (VDict rd) \<and> read_risk P tr pr rd = Some r
      \<and> (dp_outcome p = APPROVE_REFUND \<longrightarrow> fb_eligibility b = Eligible \<and> fr_level r = Low)"
    if p: "x = InvokeDecided p" "dp_outcome p \<notin> {DIRECT_RESPONSE, ESCALATE_HUMAN}" for p
  proof -
    obtain d ticket w1 where d: "payload = VDict d \<or> (\<exists>s. payload = VStr s \<and> di_loads D s = Inr (VDict d))"
      "direct_decision E P d ticket w1 = (Inr (InvokeDecided p), w')" using dec p(1) by blast
    obtain b r where o: "(dp_outcome p, dp_escalation_reason p) = table_row (classify (cp_signals P) ticket) b r None"
      and f: "supplied P d b r" using direct_decision_run [of E P d ticket w1] d(2) by auto
    have row: "dp_outcome p = fst (table_row (classify (cp_signals P) ticket) b r None)" using o by (metis fst_conv)
    have "b \<noteq> None" "r \<noteq> None" using row p(2) by (auto simp: table_row_def split: if_splits)
    then obtain b' r' where br: "b = Some b'" "r = Some r'" by blast
    have "fb_eligibility b' = Eligible \<and> fr_level r' = Low" if "dp_outcome p = APPROVE_REFUND"
      using row that br by (cases "fb_eligibility b'"; cases "fr_level r'") (auto simp: table_row_def split: if_splits)
    with br f d(1) show ?thesis unfolding supplied_def by (metis option.distinct(1))
  qed
  with x show "\<exists>x w'. resolution_invoke E P D payload w = (Inr x, w') \<and> nt_log w' = nt_log w
    \<and> (\<forall>p. x = InvokeDecided p \<and> dp_outcome p \<notin> {DIRECT_RESPONSE, ESCALATE_HUMAN} \<longrightarrow>
        (\<exists>d bd rd tb pb tr pr b r. (payload = VDict d \<or> (\<exists>s. payload = VStr s \<and> di_loads D s = Inr (VDict d)))
          \<and> dict_get d ''billing_result'' = Some (VDict bd) \<and> normalize_billing_result P tb pb bd = Some b
          \<and> dict_get d ''risk_result'' = Some (VDict rd) \<and> read_risk P tr pr rd = Some r
          \<and> (dp_outcome p = APPROVE_REFUND \<longrightarrow> fb_eligibility b = Eligible \<and> fr_level r = Low)))" by blast
qed

definition no_params :: cr_params where
  "no_params = \<lparr>cp_signals = [''refund''], cp_llm_enabled = False, cp_assist = (\<lambda>_ _ _ fb. map_sum id Some fb),
     cp_find_capable = (\<lambda>_ _. Inr []), cp_uuid5 = (\<lambda>u s. u), cp_deadline_seconds = 15,
     cp_validate_ticket = (\<lambda>_. None), cp_validate_task_result = (\<lambda>_. None), cp_validate_billing = (\<lambda>_. None),
     cp_validate_risk = (\<lambda>_. None), cp_number_field = (\<lambda>v. case v of VFloat c \<Rightarrow> Some c | _ \<Rightarrow> None),
     cp_float = (\<lambda>v. case v of VFloat c \<Rightarrow> Some c | _ \<Rightarrow> None)\<rparr>"

definition plain_direct :: direct_params where
  "plain_direct = \<lparr>di_loads = (\<lambda>_. Inl (JSONDecodeError ''Expecting value'')),
     di_float = (\<lambda>v. case v of VFloat c \<Rightarrow> Inr c | _ \<Rightarrow> Inl (ValueError ''could not convert'')),
     di_ticket = (\<lambda>t c amount currency reason now. case (t, c, currency, reason) of
       (VStr t', VStr c', VStr cur, VStr rs) \<Rightarrow> Inr \<lparr>tk_ticket_id = t', tk_customer_id = c', tk_amount = amount,
          tk_currency = cur, tk_reason = rs, tk_created_at = now\<rparr>
     | _ \<Rightarrow> Inl (ValueError ''string_type''))\<rparr>"

definition supplied_payload :: "(string, pyval) dict" where
  "supplied_payload = [(''ticket_id'', VStr ''T-1''), (''customer_id'', VStr ''CUS-1''), (''reason'', VStr ''refund please''),
     (''billing_result'', VDict [(''eligible'', VBool True)]), (''risk_result'', VDict [(''risk'', VStr ''low'')])]"

theorem direct_needs_findings_witness:
  "resolution_invoke sample_env no_params (plain_direct\<lparr>di_loads := (\<lambda>_. Inl (RecursionError ''maximum recursion depth exceeded''))\<rparr>)
      (VStr ''[[[['') sample_net = (Inl (RecursionError ''maximum recursion depth exceeded''), sample_net)
   \<and> (\<exists>p w' bd. resolution_invoke sample_env no_params plain_direct (VDict supplied_payload) sample_net = (Inr (InvokeDecided p), w')
    \<and> dp_outcome p = APPROVE_REFUND \<and> dict_get supplied_payload ''billing_result'' = Some (VDict bd))"
proof -
  have deep: "resolution_invoke sample_env no_params (plain_direct\<lparr>di_loads := (\<lambda>_. Inl (RecursionError ''maximum recursion depth exceeded''))\<rparr>)
      (VStr ''[[[['') sample_net = (Inl (RecursionError ''maximum recursion depth exceeded''), sample_net)"
    by (rule direct_needs_findings [THEN conjunct1, rule_format]) (simp add: decoder_breaks_def is_value_error_def)
  have fine: "\<nexists>e. decoder_breaks plain_direct (VDict supplied_payload) e" by (simp add: decoder_breaks_def)
  obtain x w' where r: "resolution_invoke sample_env no_params plain_direct (VDict supplied_payload) sample_net = (Inr x, w')"
    and need: "\<forall>p. x = InvokeDecided p \<and> dp_outcome p \<notin> {DIRECT_RESPONSE, ESCALATE_HUMAN} \<longrightarrow>
        (\<exists>d bd rd tb pb tr pr b r. (VDict supplied_payload = VDict d \<or> (\<exists>s. VDict supplied_payload = VStr s \<and> di_loads plain_direct s = Inr (VDict d)))
          \<and> dict_get d ''billing_result'' = Some (VDict bd) \<and> normalize_billing_result no_params tb pb bd = Some b
          \<and> dict_get d ''risk_result'' = Some (VDict rd) \<and> read_risk no_params tr pr rd = Some r
          \<and> (dp_outcome p = APPROVE_REFUND \<longrightarrow> fb_eligibility b = Eligible \<and> fr_level r = Low))"
    using direct_needs_findings [of plain_direct "VDict supplied_payload" sample_env no_params sample_net] fine by blast
  have "case fst (resolution_invoke sample_env no_params plain_direct (VDict supplied_payload) sample_net) of
      Inr (InvokeDecided p) \<Rightarrow> dp_outcome p = APPROVE_REFUND | _ \<Rightarrow> False" by code_simp
  with r obtain p where p: "x = InvokeDecided p" "dp_outcome p = APPROVE_REFUND"
    by (simp split: invoke_result.splits)
  with need obtain bd where "dict_get supplied_payload ''billing_result'' = Some (VDict bd)" by auto
  with r p deep show ?thesis by blast
qed

text \<open>C17: deciding directly is deciding without the softening of heavy usage. Feed the direct entry point a ticket with
  a refund word and the A2A outputs of both engines. The decision is the joint table of the two opinions without its
  row for heavy usage: it differs from the table, which is what the decision engine gives on the findings read
  from the events, exactly for a heavy user whom billing denies when neither engine asks for a human. (The handlers on
  the event path may escalate such a customer earlier, when the risk opinion arrives first: \<open>Resolution_Order\<close>.)\<close>

theorem direct_path_outcome:
  assumes P: "reads_floats P" and ticket: "direct_ticket E D d w = (Inr ticket, w1)"
    and word: "matched_signals (cp_signals P) (py_lower (tk_reason ticket)) \<noteq> []"
    and rec: "rec = evaluate now bf rq REFUND_POLICY" and ra: "ra = assess_signals s rk pol"
    and d: "dict_get d ''billing_result'' = Some (VDict (output_data (build_a2a_output rec n)))"
      "dict_get d ''risk_result'' = Some (VDict (output_data (risk_build_a2a_output ra m)))"
      "dict_get d ''billing_performer_agent_id'' = None" "dict_get d ''risk_performer_agent_id'' = None"
  shows "\<exists>p w'. resolution_invoke E P D (VDict d) w = (Inr (InvokeDecided p), w') \<and> dp_outcome p = thin_outcome rec ra
    \<and> (dp_outcome p \<noteq> joint_outcome rec ra \<longleftrightarrow>
         er_recommendation rec = REC_DENY_REFUND \<and> er_usage_level rec = ''heavy''
         \<and> \<not> er_requires_human_review rec \<and> \<not> ra_requires_human_review ra)"
proof -
  let ?t = "classify (cp_signals P) ticket"
  have t: "tg_needs_refund_review ?t" "CONFIDENCE_THRESHOLD \<le> tg_confidence ?t"
    using word threshold_unit(2) by (simp_all add: classify_def Let_def)
  obtain b r p w' where p: "direct_decision E P d ticket w1 = (Inr (InvokeDecided p), w')"
    and o: "(dp_outcome p, dp_escalation_reason p) = table_row ?t b r None" and f: "supplied P d b r"
    using direct_decision_run [of E P d ticket w1] by blast
  from f obtain tb tr where b: "b = normalize_billing_result P tb BILLING_PEER_AGENT_ID (output_data (build_a2a_output rec n))"
    and r: "r = read_risk P tr RISK_PEER_AGENT_ID (output_data (risk_build_a2a_output ra m))"
    unfolding supplied_def using d by blast
  note br = b [unfolded read_billing_output [OF P]] r [unfolded read_risk_def read_risk_output [OF P]]
  have "CONFIDENCE_THRESHOLD \<le> compute_confidence (Some ?t) b r"
    if "\<not> er_requires_human_review rec" "\<not> ra_requires_human_review ra"
    unfolding br using t(2) that billing_peer.unflagged_confident [of "(now, bf, rq)"] risk_peer.unflagged_confident [of "(s, rk, pol)"]
      risk_peer.conf_unit [of "(s, rk, pol)"]
    by (intro unflagged_confidence) (simp_all add: rec ra)
  then have "fst (table_row ?t b r None) = thin_outcome rec ra"
    using t(1) br
    by (auto simp: table_row_def thin_outcome_def is_missing_def not_le [symmetric] split: Recommendation.splits RiskLevel.splits)
  then have "dp_outcome p = thin_outcome rec ra" using o by (metis fst_conv)
  moreover have "resolution_invoke E P D (VDict d) w = (Inr (InvokeDecided p), w')"
    using p ticket by (simp add: resolution_invoke_dict)
  ultimately show ?thesis using thin_differs_iff [of rec ra] by auto
qed

definition engine_payload :: "EligibilityRecommendation \<Rightarrow> RiskAssessment \<Rightarrow> (string, pyval) dict" where
  "engine_payload rec ra =
     [(''ticket_id'', VStr ''T-1''), (''customer_id'', VStr ''CUS-1''), (''reason'', VStr ''refund please''),
      (''billing_result'', VDict (output_data (build_a2a_output rec None))),
      (''risk_result'', VDict (output_data (risk_build_a2a_output ra None)))]"

lemma engine_payload_get:
  "dict_get (engine_payload rec ra) ''billing_result'' = Some (VDict (output_data (build_a2a_output rec None)))"
  "dict_get (engine_payload rec ra) ''risk_result'' = Some (VDict (output_data (risk_build_a2a_output ra None)))"
  "dict_get (engine_payload rec ra) ''billing_performer_agent_id'' = None"
  "dict_get (engine_payload rec ra) ''risk_performer_agent_id'' = None"
  by (simp_all add: engine_payload_def)

lemma engine_payload_ticket:
  "\<exists>ticket w1. direct_ticket sample_env plain_direct (engine_payload rec ra) sample_net = (Inr ticket, w1)
    \<and> tk_reason ticket = ''refund please''"
  by (simp add: direct_ticket_def engine_payload_def dict_item_def dict_or_def plain_direct_def io_defs
    lift_exc_def now_io_def)

theorem direct_path_outcome_witness:
  "\<exists>p w'. resolution_invoke sample_env no_params plain_direct
      (VDict (engine_payload (evaluate (25 * day_us) fact_approve sample_request REFUND_POLICY)
        (assess_signals (clean_signals ''C'' []) sample_risk_request None))) sample_net = (Inr (InvokeDecided p), w')
    \<and> dp_outcome p = APPROVE_REFUND"
proof -
  let ?e = "evaluate (25 * day_us) fact_approve sample_request REFUND_POLICY"
  let ?a = "assess_signals (clean_signals ''C'' []) sample_risk_request None"
  have "er_recommendation ?e = APPROVE_FULL_REFUND" by (rule fact_approve_day25)
  moreover from this have "\<not> er_requires_human_review ?e"
    by (simp add: evaluate_gate gate_approve_iff gate_review_def)
  moreover have "ra_risk_level ?a = LOW" "\<not> ra_requires_human_review ?a" by code_simp+
  ultimately have "thin_outcome ?e ?a = APPROVE_REFUND" by (simp add: thin_outcome_def)
  moreover obtain ticket w1 where t: "direct_ticket sample_env plain_direct (engine_payload ?e ?a) sample_net = (Inr ticket, w1)"
    "tk_reason ticket = ''refund please''" using engine_payload_ticket by blast
  moreover have "matched_signals (cp_signals no_params) (py_lower (tk_reason ticket)) \<noteq> []"
    unfolding t(2) by code_simp
  moreover have "reads_floats no_params" by (simp add: reads_floats_def no_params_def)
  ultimately show ?thesis
    using direct_path_outcome [OF _ _ _ refl refl engine_payload_get] by metis
qed

end
