(* ===== verification/Cloud_Providers.thy ===== *)
theory Cloud_Providers
  imports Llm_Agents Llm_Config Py_Access
begin

text \<open>
  The cloud side of the assistive runtime: the Bedrock client factory and provider (\<^verbatim>\<open>llm/providers/bedrock.py\<close>), the
  AgentCore provider, the selection of a provider and the assembly of a runtime (\<^verbatim>\<open>providers/__init__.py\<close>,
  \<^verbatim>\<open>factory.py\<close>) and the client wrapper \<^verbatim>\<open>AgentLLM\<close> (\<^verbatim>\<open>llm/client.py\<close>). The AWS library and pydantic's reading
  of the token counts are parameters. An exception of a class the handlers do not tell apart is a \<^verbatim>\<open>ValueError\<close> with its text.
\<close>

section \<open>The AWS library\<close>

text \<open>Its exceptions, as far as the code distinguishes them, with their texts.\<close>

datatype boto_error = NoCredentialsError string | ProfileNotFound string | NoRegionError string | BotoError string

fun str_boto :: "boto_error \<Rightarrow> string" where
  "str_boto (NoCredentialsError m) = m"
| "str_boto (ProfileNotFound m) = m"
| "str_boto (NoRegionError m) = m"
| "str_boto (BotoError m) = m"

record bedrock_client =
  bc_region :: string
  bc_timeout :: int
  bc_attempts :: int

text \<open>
  Whether the library is installed, whether it accepts a configuration and creates a client, the answer to the
  \<open>n\<close>-th call (an exception of the call, or what reading the body gives), and the constructor of \<^verbatim>\<open>TokenUsage\<close>.
\<close>

record boto_lib =
  bo_installed :: bool
  bo_config :: "int \<Rightarrow> int \<Rightarrow> boto_error option"
  bo_client :: "bedrock_client \<Rightarrow> boto_error option"
  bo_invoke :: "nat \<Rightarrow> bedrock_client \<Rightarrow> string \<Rightarrow> (string, pyval) dict \<Rightarrow> boto_error + (exc + string)"
  bo_loads :: "string \<Rightarrow> exc + pyval"
  bo_usage :: "pyval \<Rightarrow> pyval \<Rightarrow> pyval \<Rightarrow> pyval \<Rightarrow> exc + TokenUsage"
  bo_latency :: "nat \<Rightarrow> int"

text \<open>The object whose attributes the factory reads.\<close>

datatype client_config = NoConfig | FromModelConfig BedrockModelConfig | FromRuntime RuntimeConfig | FromProfile ModelProfile

definition py_trunc :: "pyfloat \<Rightarrow> int" where
  "py_trunc x = (if 0 \<le> x then \<lfloor>x\<rfloor> else \<lceil>x\<rceil>)"

fun config_region :: "client_config \<Rightarrow> string option" where
  "config_region NoConfig = None"
| "config_region (FromModelConfig c) = Some (bm_region c)"
| "config_region (FromRuntime c) = cf_region c"
| "config_region (FromProfile p) = mp_region p"

fun config_timeout :: "client_config \<Rightarrow> int" where
  "config_timeout NoConfig = 30"
| "config_timeout (FromModelConfig c) = bm_timeout_seconds c"
| "config_timeout (FromRuntime c) = py_trunc (cf_timeout_seconds c)"
| "config_timeout (FromProfile p) = py_trunc (mp_timeout_seconds p)"

fun config_attempts :: "client_config \<Rightarrow> int" where
  "config_attempts (FromModelConfig c) = bm_retry_max_attempts c"
| "config_attempts _ = 3"

definition client_of :: "client_config \<Rightarrow> bedrock_client" where
  "client_of config =
     \<lparr>bc_region = (case config_region config of None \<Rightarrow> ''us-east-1'' | Some r \<Rightarrow> if r = [] then ''us-east-1'' else r),
      bc_timeout = config_timeout config, bc_attempts = config_attempts config\<rparr>"

definition check_credentials_error :: "boto_error \<Rightarrow> exc option" where
  "check_credentials_error e =
     (case e of
        NoCredentialsError _ \<Rightarrow> Some (ProviderError (''AWS credentials not found. Configure with: aws configure, '' @
          ''or set AWS_PROFILE / AWS_ACCESS_KEY_ID + AWS_SECRET_ACCESS_KEY''))
      | ProfileNotFound m \<Rightarrow> Some (ProviderError (''AWS profile not found: '' @ m @ ''. Run: aws configure --profile <name>''))
      | NoRegionError _ \<Rightarrow> Some (ProviderError ''AWS region not set. Set AWS_REGION or AGENT_LLM_REGION'')
      | BotoError _ \<Rightarrow> None)"

definition provider_failure :: "string \<Rightarrow> boto_error \<Rightarrow> exc" where
  "provider_failure what e = (case check_credentials_error e of Some x \<Rightarrow> x | None \<Rightarrow> ProviderError (what @ str_boto e))"

definition create_bedrock_client :: "boto_lib \<Rightarrow> client_config \<Rightarrow> exc + bedrock_client" where
  "create_bedrock_client B config =
     (if \<not> bo_installed B
      then Inl (ProviderError (''boto3 is required for the Bedrock provider. Install with: pip install -e '' @ quoted ''.[llm]''))
      else let c = client_of config in
        case bo_config B (bc_timeout c) (bc_attempts c) of
          Some e \<Rightarrow> Inl (ValueError (str_boto e))
        | None \<Rightarrow>
            (case bo_client B c of
               Some e \<Rightarrow> Inl (provider_failure ''Failed to create Bedrock client: '' e)
             | None \<Rightarrow> Inr c))"

section \<open>Reading a response\<close>

definition lift_text :: "string + 'a \<Rightarrow> exc + 'a" where
  "lift_text r = map_sum ValueError id r"

fun text_parts :: "pyval list \<Rightarrow> exc + pyval list" where
  "text_parts [] = Inr []"
| "text_parts (block # blocks) =
     bind_exc (lift_text (attr_get block ''type'' VNone)) (\<lambda>t.
     if t = VStr ''text''
     then bind_exc (lift_text (attr_get block ''text'' (VStr []))) (\<lambda>x. bind_exc (text_parts blocks) (\<lambda>xs. Inr (x # xs)))
     else text_parts blocks)"

fun join_texts :: "nat \<Rightarrow> pyval list \<Rightarrow> exc + string" where
  "join_texts i [] = Inr []"
| "join_texts i (x # xs) =
     (case x of
        VStr s \<Rightarrow> bind_exc (join_texts (Suc i) xs) (\<lambda>t. Inr (s @ t))
      | _ \<Rightarrow> Inl (ValueError (''sequence item '' @ show_nat i @ '': expected str instance, '' @ py_type_name x @ '' found'')))"

definition read_tokens :: "boto_lib \<Rightarrow> pyval \<Rightarrow> exc + TokenUsage" where
  "read_tokens B usage =
     bind_exc (lift_text (attr_get usage ''input_tokens'' (VInt 0))) (\<lambda>a.
     bind_exc (lift_text (attr_get usage ''output_tokens'' (VInt 0))) (\<lambda>b.
     bind_exc (lift_text (attr_get usage ''cache_read_input_tokens'' (VInt 0))) (\<lambda>c.
     bind_exc (lift_text (attr_get usage ''cache_creation_input_tokens'' (VInt 0))) (\<lambda>d.
     bo_usage B a b c d))))"

text \<open>The collected text parts and the token usage; joining the parts comes later.\<close>

definition read_message :: "boto_lib \<Rightarrow> pyval \<Rightarrow> exc + pyval list \<times> TokenUsage" where
  "read_message B body =
     bind_exc (lift_text (attr_get body ''content'' (VList []))) (\<lambda>content.
     bind_exc (lift_text (py_iter content)) (\<lambda>blocks.
     bind_exc (text_parts blocks) (\<lambda>parts.
     bind_exc (lift_text (attr_get body ''usage'' (VDict []))) (\<lambda>usage.
     bind_exc (read_tokens B usage) (\<lambda>tokens. Inr (parts, tokens))))))"

definition read_completion :: "boto_lib \<Rightarrow> string \<Rightarrow> pyval \<Rightarrow> exc + RawCompletion" where
  "read_completion B model_id body =
     bind_exc (read_message B body) (\<lambda>(parts, tokens).
     bind_exc (join_texts 0 parts) (\<lambda>text.
     bind_exc (lift_text (attr_get body ''model'' (VStr model_id))) (\<lambda>model.
     bind_exc (need ''model_id'' (read_str model)) (\<lambda>m.
     Inr \<lparr>cm_text = text, cm_token_usage = tokens, cm_cache_hit = (0 < tu_cache_read_tokens tokens), cm_model_id = m\<rparr>))))"

section \<open>The providers\<close>

record cloud_world =
  cw_client :: "bedrock_client option"
  cw_calls :: "(bedrock_client \<times> string \<times> (string, pyval) dict) list"

definition get_client :: "boto_lib \<Rightarrow> client_config \<Rightarrow> (cloud_world, bedrock_client) io" where
  "get_client B config =
     bind_io (get_io cw_client) (\<lambda>cached.
     case cached of
       Some c \<Rightarrow> return_io c
     | None \<Rightarrow>
         bind_io (lift_exc (create_bedrock_client B config)) (\<lambda>c.
         then_io (modify_io (\<lambda>w. w\<lparr>cw_client := Some c\<rparr>)) (return_io c)))"

definition request_body :: "string \<Rightarrow> int \<Rightarrow> pyfloat \<Rightarrow> (string, pyval) dict" where
  "request_body prompt max_tokens temperature =
     [(''anthropic_version'', VStr ''bedrock-2023-05-31''),
      (''messages'', VList [VDict [(''role'', VStr ''user''), (''content'', VStr prompt)]]),
      (''max_tokens'', VInt max_tokens), (''temperature'', VFloat temperature)]"

definition invoke_model ::
  "boto_lib \<Rightarrow> bedrock_client \<Rightarrow> string \<Rightarrow> (string, pyval) dict \<Rightarrow> (cloud_world, boto_error + (exc + string)) io" where
  "invoke_model B c model_id body =
     (\<lambda>w. (Inr (bo_invoke B (length (cw_calls w)) c model_id body), w\<lparr>cw_calls := cw_calls w @ [(c, model_id, body)]\<rparr>))"

definition bedrock_invoke :: "boto_lib \<Rightarrow> client_config \<Rightarrow> string \<Rightarrow> ModelProfile \<Rightarrow> (cloud_world, RawCompletion) io" where
  "bedrock_invoke B config prompt profile =
     bind_io (get_client B config) (\<lambda>c.
     bind_io (invoke_model B c (mp_model_id profile) (request_body prompt (mp_max_tokens profile) (mp_temperature profile)))
       (\<lambda>response.
     case response of
       Inl e \<Rightarrow> raise_io (provider_failure ''Bedrock invocation failed: '' e)
     | Inr raw \<Rightarrow> lift_exc (bind_exc raw (\<lambda>text. bind_exc (bo_loads B text) (read_completion B (mp_model_id profile))))))"

fun is_provider_error :: "exc \<Rightarrow> bool" where
  "is_provider_error (ProviderError _) = True"
| "is_provider_error _ = False"

definition agentcore_invoke :: "boto_lib \<Rightarrow> client_config \<Rightarrow> string \<Rightarrow> ModelProfile \<Rightarrow> (cloud_world, RawCompletion) io" where
  "agentcore_invoke B config prompt profile =
     try_io (bedrock_invoke B config prompt profile)
       (\<lambda>e. if is_provider_error e then raise_io e else raise_io (ProviderError (''AgentCore invocation failed: '' @ str_exc e)))"

datatype model_provider = Stub | Bedrock client_config | AgentCore client_config

definition select_provider :: "string \<Rightarrow> exc + model_provider" where
  "select_provider mode =
     (if mode = ''stub'' then Inr Stub
      else if mode = ''bedrock'' then Inr (Bedrock NoConfig)
      else if mode = ''agentcore'' then Inr (AgentCore NoConfig)
      else Inl (ProviderError (''Unknown provider mode: '' @ repr_str mode @ ''. Use '' @ quoted ''stub'' @ '', '' @ quoted ''bedrock'' @
        '', or '' @ quoted ''agentcore'' @ ''.'')))"

definition build_runtime ::
  "exc + RuntimeConfig \<Rightarrow> RuntimeConfig option \<Rightarrow> bool \<Rightarrow> exc + model_provider \<times> llm_runtime" where
  "build_runtime from_env config publisher =
     bind_exc (case config of Some c \<Rightarrow> Inr c | None \<Rightarrow> from_env) (\<lambda>cfg.
     bind_exc (select_provider (cf_mode cfg)) (\<lambda>provider. Inr (provider, \<lparr>rt_config = cfg, rt_publisher = publisher\<rparr>)))"

fun provider_invoke ::
  "llm_env \<Rightarrow> boto_lib \<Rightarrow> model_provider \<Rightarrow> string \<Rightarrow> ModelProfile \<Rightarrow> (cloud_world, RawCompletion) io" where
  "provider_invoke E B Stub prompt profile = lift_exc (stub_invoke E prompt)"
| "provider_invoke E B (Bedrock config) prompt profile = bedrock_invoke B config prompt profile"
| "provider_invoke E B (AgentCore config) prompt profile = agentcore_invoke B config prompt profile"

section \<open>The client wrapper\<close>

text \<open>Its own exception, or any other that escapes.\<close>

datatype client_exc = LLMClientError string | Escaped exc

record LLMResponse =
  lr_text :: string
  lr_model_id :: "string option"
  lr_latency_ms :: int
  lr_token_usage :: TokenUsage
  lr_cache_hit :: bool
  lr_stop_reason :: "string option"
  lr_metadata :: "(string, pyval) dict"

record 'v StructuredLLMResponse =
  sr_response :: LLMResponse
  sr_value :: "'v option"
  sr_raw_json :: "(string, pyval) dict option"
  sr_parse_error :: "string option"

definition build_request_body ::
  "pyval list \<Rightarrow> int \<Rightarrow> pyfloat \<Rightarrow> pyfloat option \<Rightarrow> string option \<Rightarrow> (string, pyval) dict" where
  "build_request_body messages max_tokens temperature top_p system =
     [(''anthropic_version'', VStr ''bedrock-2023-05-31''), (''messages'', VList messages),
      (''max_tokens'', VInt max_tokens), (''temperature'', VFloat temperature)]
     @ (case top_p of None \<Rightarrow> [] | Some p \<Rightarrow> [(''top_p'', VFloat p)])
     @ (case system of None \<Rightarrow> [] | Some t \<Rightarrow> if t = [] then [] else [(''system'', VStr t)])"

text \<open>Only the decoding of the body is guarded.\<close>

definition parse_response ::
  "boto_lib \<Rightarrow> exc + string \<Rightarrow> int \<Rightarrow> (string, pyval) dict \<Rightarrow> client_exc + LLMResponse" where
  "parse_response B raw latency_ms meta =
     (case bind_exc raw (bo_loads B) of
        Inl e \<Rightarrow> Inl (LLMClientError (''Failed to parse Bedrock response: '' @ str_exc e))
      | Inr body \<Rightarrow> map_sum Escaped id
          (bind_exc (read_message B body) (\<lambda>(parts, tokens).
           bind_exc (join_texts 0 parts) (\<lambda>text.
           bind_exc (lift_text (attr_get body ''model'' VNone)) (\<lambda>model.
           bind_exc (lift_text (attr_get body ''stop_reason'' VNone)) (\<lambda>stop.
           bind_exc (need ''model_id'' (read_opt read_str model)) (\<lambda>m.
           bind_exc (need ''stop_reason'' (read_opt read_str stop)) (\<lambda>st.
           Inr \<lparr>lr_text = text, lr_model_id = m, lr_latency_ms = latency_ms, lr_token_usage = tokens,
                lr_cache_hit = (0 < tu_cache_read_tokens tokens), lr_stop_reason = st, lr_metadata = meta\<rparr>))))))))"

record agent_llm =
  al_config :: client_config
  al_profile :: "ModelProfile option"

definition llm_config :: "agent_llm \<Rightarrow> client_config" where
  "llm_config L =
     (if al_config L \<noteq> NoConfig then al_config L
      else case al_profile L of None \<Rightarrow> NoConfig | Some p \<Rightarrow> FromProfile p)"

definition llm_invoke ::
  "boto_lib \<Rightarrow> agent_llm \<Rightarrow> pyval list \<Rightarrow> (string, pyval) dict option \<Rightarrow> cloud_world \<Rightarrow>
   (client_exc + LLMResponse) \<times> cloud_world" where
  "llm_invoke B L messages metadata w =
     (let safe_meta = safe_metadata metadata in
      case get_client B (llm_config L) w of
        (Inl e, w1) \<Rightarrow> (Inl (Escaped e), w1)
      | (Inr c, w1) \<Rightarrow>
          (let p = (case al_profile L of None \<Rightarrow> DEFAULT_PROFILE | Some q \<Rightarrow> q);
               body = build_request_body messages (mp_max_tokens p) (mp_temperature p) None None;
               n = length (cw_calls w1);
               w2 = w1\<lparr>cw_calls := cw_calls w1 @ [(c, mp_model_id p, body)]\<rparr> in
           case bo_invoke B n c (mp_model_id p) body of
             Inl e \<Rightarrow> (Inl (LLMClientError (''Bedrock invocation failed: '' @ str_boto e)), w2)
           | Inr raw \<Rightarrow> (parse_response B raw (bo_latency B n) safe_meta, w2)))"

definition schema_message :: "pyval \<Rightarrow> pyval" where
  "schema_message schema =
     VDict [(''role'', VStr ''user''),
            (''content'', VStr (''Respond with valid JSON matching this schema:'' @ LF @ json_indent 0 schema))]"

definition structured_of :: "boto_lib \<Rightarrow> 'v output_schema \<Rightarrow> LLMResponse \<Rightarrow> 'v StructuredLLMResponse" where
  "structured_of B S resp =
     (case bind_exc (bo_loads B (lr_text resp)) (\<lambda>raw.
           bind_exc (os_validate S raw) (\<lambda>v.
           case raw of VDict d \<Rightarrow> Inr (v, d) | _ \<Rightarrow> Inl (ValueError ''raw_json''))) of
        Inr (v, d) \<Rightarrow> \<lparr>sr_response = resp, sr_value = Some v, sr_raw_json = Some d, sr_parse_error = None\<rparr>
      | Inl e \<Rightarrow> \<lparr>sr_response = resp, sr_value = None, sr_raw_json = None, sr_parse_error = Some (str_exc e)\<rparr>)"

definition llm_invoke_structured ::
  "boto_lib \<Rightarrow> agent_llm \<Rightarrow> pyval list \<Rightarrow> 'v output_schema \<Rightarrow> (string, pyval) dict option \<Rightarrow> cloud_world \<Rightarrow>
   (client_exc + 'v StructuredLLMResponse) \<times> cloud_world" where
  "llm_invoke_structured B L messages S metadata w =
     (case llm_invoke B L (messages @ [schema_message (os_json S)]) metadata w of
        (Inl e, w1) \<Rightarrow> (Inl e, w1)
      | (Inr resp, w1) \<Rightarrow> (Inr (structured_of B S resp), w1))"

section \<open>Which responses are read\<close>

text \<open>The shape of a response: content blocks, token usage and the optional text fields.\<close>

definition block_text :: "(string, pyval) dict \<Rightarrow> pyval option" where
  "block_text d = (if dict_or d ''type'' VNone = VStr ''text'' then Some (dict_or d ''text'' (VStr [])) else None)"

fun block_ok :: "pyval \<Rightarrow> bool" where
  "block_ok (VDict d) = (case block_text d of None \<Rightarrow> True | Some v \<Rightarrow> read_str v \<noteq> None)"
| "block_ok _ = False"

fun block_string :: "pyval \<Rightarrow> string" where
  "block_string (VDict d) = (case block_text d of Some (VStr s) \<Rightarrow> s | _ \<Rightarrow> [])"
| "block_string _ = []"

fun content_blocks :: "pyval \<Rightarrow> pyval list option" where
  "content_blocks (VList bs) = (if list_all block_ok bs then Some bs else None)"
| "content_blocks (VDict d) = (if d = [] then Some [] else None)"
| "content_blocks (VStr s) = (if s = [] then Some [] else None)"
| "content_blocks _ = None"

definition usage_counts :: "boto_lib \<Rightarrow> pyval \<Rightarrow> TokenUsage option" where
  "usage_counts B v =
     (case v of
        VDict u \<Rightarrow>
          (case bo_usage B (dict_or u ''input_tokens'' (VInt 0)) (dict_or u ''output_tokens'' (VInt 0))
             (dict_or u ''cache_read_input_tokens'' (VInt 0)) (dict_or u ''cache_creation_input_tokens'' (VInt 0)) of
             Inr t \<Rightarrow> Some t | Inl _ \<Rightarrow> None)
      | _ \<Rightarrow> None)"

text \<open>A readable message: its text and its usage.\<close>

definition message_of :: "boto_lib \<Rightarrow> pyval \<Rightarrow> (string \<times> TokenUsage) option" where
  "message_of B body =
     (case body of
        VDict d \<Rightarrow>
          (case content_blocks (dict_or d ''content'' (VList [])) of
             None \<Rightarrow> None
           | Some bs \<Rightarrow> map_option (Pair (concat (map block_string bs))) (usage_counts B (dict_or d ''usage'' (VDict []))))
      | _ \<Rightarrow> None)"

lemma bind_exc_simps [simp]: "bind_exc (Inr x) f = f x" "bind_exc (Inl e) f = Inl e"
  by (simp_all add: bind_exc_def)

lemma bind_exc_Inr: "bind_exc r f = Inr y \<longleftrightarrow> (\<exists>x. r = Inr x \<and> f x = Inr y)"
  by (cases r) simp_all

lemma lift_text_Inr [simp]: "lift_text r = Inr x \<longleftrightarrow> r = Inr x"
  by (cases r) (simp_all add: lift_text_def)

lemma map_sum_Inr [simp]: "map_sum f id r = Inr y \<longleftrightarrow> r = Inr y"
  by (cases r) simp_all

lemma attr_get_Inr: "attr_get v k dflt = Inr x \<longleftrightarrow> (\<exists>d. v = VDict d \<and> x = dict_or d k dflt)"
  by (cases v) (auto simp: attr_get_def dict_or_def)

lemma text_joined:
  "(\<exists>parts. text_parts bs = Inr parts \<and> join_texts i parts = Inr s) \<longleftrightarrow>
     list_all block_ok bs \<and> s = concat (map block_string bs)"
proof (induction bs arbitrary: i s)
  case (Cons b bs)
  show ?case
  proof (cases b)
    case (VDict d)
    show ?thesis
    proof (cases "block_text d")
      case None
      with VDict Cons show ?thesis by (simp add: block_text_def lift_text_def split: if_splits)
    next
      case (Some v)
      then have d: "dict_or d ''type'' VNone = VStr ''text''" "dict_or d ''text'' (VStr []) = v"
        by (simp_all add: block_text_def split: if_splits)
      show ?thesis
      proof (cases v)
        case (VStr t)
        have "(\<exists>parts. text_parts (b # bs) = Inr parts \<and> join_texts i parts = Inr s) \<longleftrightarrow>
          (\<exists>s'. s = t @ s' \<and> (\<exists>parts. text_parts bs = Inr parts \<and> join_texts (Suc i) parts = Inr s'))"
          using VDict d VStr by (auto simp: lift_text_def bind_exc_Inr)
        then show ?thesis using VDict Some VStr Cons by auto
      qed (use VDict d Some in \<open>auto simp: lift_text_def bind_exc_Inr\<close>)
    qed
  qed (auto simp: attr_get_def lift_text_def)
qed auto

lemma content_iter:
  "(\<exists>bs. py_iter v = Inr bs \<and> list_all block_ok bs \<and> s = concat (map block_string bs)) \<longleftrightarrow>
     (\<exists>bs. content_blocks v = Some bs \<and> s = concat (map block_string bs))"
proof (cases v)
  case (VStr t)
  then show ?thesis by (cases "py_chars (length t) t") (auto simp: py_iter_def)
next
  case (VDict d)
  then show ?thesis by (cases d) (auto simp: py_iter_def)
qed (auto simp: py_iter_def)

lemma read_tokens_Inr: "read_tokens B v = Inr t \<longleftrightarrow> usage_counts B v = Some t"
  by (cases v) (auto simp: read_tokens_def usage_counts_def attr_get_def lift_text_def dict_or_def split: sum.splits)

lemma read_message_Inr:
  "(\<exists>parts. read_message B body = Inr (parts, t) \<and> join_texts 0 parts = Inr s) \<longleftrightarrow> message_of B body = Some (s, t)"
proof (cases body)
  case (VDict d)
  have "(\<exists>parts. read_message B body = Inr (parts, t) \<and> join_texts 0 parts = Inr s) \<longleftrightarrow>
      (\<exists>bs. py_iter (dict_or d ''content'' (VList [])) = Inr bs
        \<and> (\<exists>parts. text_parts bs = Inr parts \<and> join_texts 0 parts = Inr s))
      \<and> usage_counts B (dict_or d ''usage'' (VDict [])) = Some t"
    using VDict by (auto simp: read_message_def bind_exc_Inr read_tokens_Inr)
  also have "\<dots> \<longleftrightarrow> message_of B body = Some (s, t)"
    unfolding text_joined content_iter using VDict
    by (auto simp: message_of_def split: option.splits)
  finally show ?thesis .
qed (auto simp: read_message_def bind_exc_Inr attr_get_def message_of_def lift_text_def)

lemma message_of_dict: "message_of B body = Some x \<Longrightarrow> \<exists>d. body = VDict d"
  by (cases body) (auto simp: message_of_def)

lemma read_completion_Inr:
  "read_completion B m body = Inr c \<longleftrightarrow>
     (\<exists>d s t n. body = VDict d \<and> message_of B body = Some (s, t) \<and> dict_or d ''model'' (VStr m) = VStr n
       \<and> c = \<lparr>cm_text = s, cm_token_usage = t, cm_cache_hit = (0 < tu_cache_read_tokens t), cm_model_id = n\<rparr>)"
proof -
  have r: "need f (read_str v) = Inr n \<longleftrightarrow> v = VStr n" for f v n by (cases v) (auto simp: need_def)
  have "read_completion B m body = Inr c \<longleftrightarrow>
     (\<exists>s t. (\<exists>parts. read_message B body = Inr (parts, t) \<and> join_texts 0 parts = Inr s)
       \<and> (\<exists>d n. body = VDict d \<and> dict_or d ''model'' (VStr m) = VStr n
       \<and> c = \<lparr>cm_text = s, cm_token_usage = t, cm_cache_hit = (0 < tu_cache_read_tokens t), cm_model_id = n\<rparr>))"
    by (auto simp: read_completion_def bind_exc_Inr attr_get_Inr r)
  then show ?thesis unfolding read_message_Inr by blast
qed

definition optional_text :: "pyval \<Rightarrow> bool" where
  "optional_text v \<longleftrightarrow> v = VNone \<or> (\<exists>s. v = VStr s)"

lemma need_optional: "(\<exists>x. need f (read_opt read_str v) = Inr x) \<longleftrightarrow> optional_text v"
  by (cases v) (auto simp: need_def read_opt_def optional_text_def)

lemma parse_response_body:
  assumes "bo_loads B text = Inr body"
  shows "(\<exists>r. parse_response B (Inr text) l meta = Inr r \<and> lr_text r = s \<and> lr_token_usage r = t
      \<and> lr_cache_hit r = (0 < tu_cache_read_tokens t)) \<longleftrightarrow>
    (\<exists>d. body = VDict d \<and> message_of B body = Some (s, t) \<and> optional_text (dict_or d ''model'' VNone)
       \<and> optional_text (dict_or d ''stop_reason'' VNone))"
proof -
  have "(\<exists>r. parse_response B (Inr text) l meta = Inr r \<and> lr_text r = s \<and> lr_token_usage r = t
      \<and> lr_cache_hit r = (0 < tu_cache_read_tokens t)) \<longleftrightarrow>
    (\<exists>parts. read_message B body = Inr (parts, t) \<and> join_texts 0 parts = Inr s) \<and>
    (\<exists>d. body = VDict d \<and> (\<exists>m. need ''model_id'' (read_opt read_str (dict_or d ''model'' VNone)) = Inr m)
       \<and> (\<exists>st. need ''stop_reason'' (read_opt read_str (dict_or d ''stop_reason'' VNone)) = Inr st))"
    using assms by (auto simp: parse_response_def bind_exc_Inr attr_get_Inr lift_text_def map_sum_def split: sum.splits)
  then show ?thesis unfolding read_message_Inr need_optional by blast
qed

text \<open>C39: which responses of the model are read. The Bedrock provider returns a completion for exactly the bodies that
  are objects with readable content blocks, readable token usage and a text (or none) as model, and the completion
  is the joined text blocks, the usage and whether tokens were read from the cache. The client wrapper reads
  exactly the same text and usage if model and stop reason are texts or absent; every other body it can decode makes
  it raise an exception that is not its own error class.\<close>

theorem response_typing:
  assumes "bo_loads B text = Inr body"
  shows "(read_completion B m body = Inr c \<longleftrightarrow>
      (\<exists>d s t n. body = VDict d \<and> message_of B body = Some (s, t) \<and> dict_or d ''model'' (VStr m) = VStr n
        \<and> c = \<lparr>cm_text = s, cm_token_usage = t, cm_cache_hit = (0 < tu_cache_read_tokens t), cm_model_id = n\<rparr>))
    \<and> (if \<exists>d. body = VDict d \<and> message_of B body \<noteq> None \<and> optional_text (dict_or d ''model'' VNone)
           \<and> optional_text (dict_or d ''stop_reason'' VNone)
       then \<exists>r. parse_response B (Inr text) l meta = Inr r \<and> message_of B body = Some (lr_text r, lr_token_usage r)
         \<and> lr_cache_hit r = (0 < tu_cache_read_tokens (lr_token_usage r)) \<and> lr_metadata r = meta
       else \<exists>e. parse_response B (Inr text) l meta = Inl (Escaped e))"
proof -
  have meta: "lr_metadata r = meta" if "parse_response B (Inr text) l meta = Inr r" for r
    using that assms by (auto simp: parse_response_def bind_exc_Inr split: sum.splits)
  have hit: "lr_cache_hit r = (0 < tu_cache_read_tokens (lr_token_usage r))" if "parse_response B (Inr text) l meta = Inr r" for r
    using that assms by (auto simp: parse_response_def bind_exc_Inr split: sum.splits)
  have escaped: "\<exists>e. parse_response B (Inr text) l meta = Inl (Escaped e)" if "\<nexists>r. parse_response B (Inr text) l meta = Inr r"
    using that assms
    by (cases "parse_response B (Inr text) l meta") (auto simp: parse_response_def map_sum_def split: sum.splits)
  note body = parse_response_body [OF assms, of l meta]
  show ?thesis
  proof (intro conjI read_completion_Inr, split if_split, intro conjI impI)
    assume "\<exists>d. body = VDict d \<and> message_of B body \<noteq> None \<and> optional_text (dict_or d ''model'' VNone)
           \<and> optional_text (dict_or d ''stop_reason'' VNone)"
    then obtain s t d where d: "body = VDict d" "message_of B body = Some (s, t)" "optional_text (dict_or d ''model'' VNone)"
      "optional_text (dict_or d ''stop_reason'' VNone)" by auto
    then obtain r where "parse_response B (Inr text) l meta = Inr r" "lr_text r = s" "lr_token_usage r = t"
      using body [of s t] by blast
    with d(2) meta hit show "\<exists>r. parse_response B (Inr text) l meta = Inr r \<and> message_of B body = Some (lr_text r, lr_token_usage r)
         \<and> lr_cache_hit r = (0 < tu_cache_read_tokens (lr_token_usage r)) \<and> lr_metadata r = meta" by blast
  next
    assume "\<nexists>d. body = VDict d \<and> message_of B body \<noteq> None \<and> optional_text (dict_or d ''model'' VNone)
           \<and> optional_text (dict_or d ''stop_reason'' VNone)"
    moreover have "\<exists>d. body = VDict d \<and> message_of B body \<noteq> None \<and> optional_text (dict_or d ''model'' VNone)
           \<and> optional_text (dict_or d ''stop_reason'' VNone)" if r: "parse_response B (Inr text) l meta = Inr r" for r
    proof -
      have "\<exists>d. body = VDict d \<and> message_of B body = Some (lr_text r, lr_token_usage r)
          \<and> optional_text (dict_or d ''model'' VNone) \<and> optional_text (dict_or d ''stop_reason'' VNone)"
        unfolding body [symmetric] using r hit [OF r] by blast
      then show ?thesis by fastforce
    qed
    ultimately show "\<exists>e. parse_response B (Inr text) l meta = Inl (Escaped e)" using escaped by blast
  qed
qed

definition count_usage :: "pyval \<Rightarrow> pyval \<Rightarrow> pyval \<Rightarrow> pyval \<Rightarrow> exc + TokenUsage" where
  "count_usage a b c d =
     (case (a, b, c, d) of
        (VInt i, VInt k, VInt m, VInt n) \<Rightarrow>
          Inr \<lparr>tu_input_tokens = i, tu_output_tokens = k, tu_cache_read_tokens = m, tu_cache_write_tokens = n\<rparr>
      | _ \<Rightarrow> Inl (ValueError ''int_type''))"

definition sample_body :: pyval where
  "sample_body = VDict
     [(''content'', VList [VDict [(''type'', VStr ''text''), (''text'', VStr ''Hel'')], VDict [(''type'', VStr ''image'')],
        VDict [(''type'', VStr ''text''), (''text'', VStr ''lo'')]]),
      (''usage'', VDict [(''input_tokens'', VInt 7), (''cache_read_input_tokens'', VInt 3)])]"

definition sample_boto :: boto_lib where
  "sample_boto =
     \<lparr>bo_installed = True, bo_config = (\<lambda>_ _. None), bo_client = (\<lambda>_. None), bo_invoke = (\<lambda>_ _ _ _. Inr (Inr ''body'')),
      bo_loads = (\<lambda>t. if t = ''body'' then Inr sample_body else Inl (JSONDecodeError ''Expecting value'')),
      bo_usage = count_usage, bo_latency = (\<lambda>_. 12)\<rparr>"

theorem response_typing_witness:
  "message_of sample_boto sample_body = Some (''Hello'', \<lparr>tu_input_tokens = 7, tu_output_tokens = 0,
      tu_cache_read_tokens = 3, tu_cache_write_tokens = 0\<rparr>)
   \<and> (\<exists>r. parse_response sample_boto (Inr ''body'') 12 [] = Inr r \<and> lr_text r = ''Hello'' \<and> lr_cache_hit r)"
proof -
  have m: "message_of sample_boto sample_body = Some (''Hello'', \<lparr>tu_input_tokens = 7, tu_output_tokens = 0,
      tu_cache_read_tokens = 3, tu_cache_write_tokens = 0\<rparr>)" by code_simp
  have load: "bo_loads sample_boto ''body'' = Inr sample_body" by (simp add: sample_boto_def)
  have "\<exists>d. sample_body = VDict d \<and> message_of sample_boto sample_body \<noteq> None
      \<and> optional_text (dict_or d ''model'' VNone) \<and> optional_text (dict_or d ''stop_reason'' VNone)"
    unfolding m by (simp add: sample_body_def optional_text_def dict_or_def)
  with response_typing [OF load, of "''m''" undefined 12 "[]", THEN conjunct2]
  obtain r where "parse_response sample_boto (Inr ''body'') 12 [] = Inr r"
    "message_of sample_boto sample_body = Some (lr_text r, lr_token_usage r)"
    "lr_cache_hit r = (0 < tu_cache_read_tokens (lr_token_usage r))" by (simp only: if_True) blast
  with m show ?thesis by auto
qed

section \<open>Which client the runtime uses\<close>

text \<open>The state after the runtime has sent a list of prompts; a failed call leaves what it did.\<close>

definition send_prompts ::
  "llm_env \<Rightarrow> boto_lib \<Rightarrow> model_provider \<Rightarrow> (string \<times> ModelProfile) list \<Rightarrow> cloud_world \<Rightarrow> cloud_world" where
  "send_prompts E B p = fold (\<lambda>(prompt, profile) w. snd (provider_invoke E B p prompt profile w))"

definition fresh_cloud :: cloud_world where
  "fresh_cloud = \<lparr>cw_client = None, cw_calls = []\<rparr>"

definition sent_to :: "client_config \<Rightarrow> (string \<times> ModelProfile) set \<Rightarrow> cloud_world \<Rightarrow> bool" where
  "sent_to config sent w \<longleftrightarrow>
     (\<forall>c. cw_client w = Some c \<longrightarrow> c = client_of config)
     \<and> (\<forall>(c, m, body) \<in> set (cw_calls w). c = client_of config \<and> (\<exists>(prompt, profile) \<in> sent. m = mp_model_id profile
          \<and> body = request_body prompt (mp_max_tokens profile) (mp_temperature profile)))"

lemma sent_to_insert: "sent_to config S w \<Longrightarrow> sent_to config (insert x S) w"
  by (auto simp: sent_to_def)

lemma create_client_of: "create_bedrock_client B config = Inr c \<Longrightarrow> c = client_of config"
  by (auto simp: create_bedrock_client_def Let_def split: if_splits option.splits)

lemma get_client_sent:
  assumes "sent_to config S w"
  shows "sent_to config S (snd (get_client B config w)) \<and> (\<forall>c. fst (get_client B config w) = Inr c \<longrightarrow> c = client_of config)"
  using assms create_client_of
  by (auto simp: get_client_def sent_to_def io_defs lift_exc_def split: option.splits sum.splits)

lemma bedrock_invoke_sent:
  assumes "sent_to config S w"
  shows "sent_to config (insert (prompt, profile) S) (snd (bedrock_invoke B config prompt profile w))"
proof -
  obtain r w1 where g: "get_client B config w = (r, w1)" by fastforce
  with get_client_sent [OF assms, of B]
  have w1: "sent_to config S w1" "\<And>c. r = Inr c \<Longrightarrow> c = client_of config" by auto
  show ?thesis
  proof (cases r)
    case (Inl e)
    with g w1(1) show ?thesis by (auto simp: bedrock_invoke_def io_defs sent_to_def)
  next
    case (Inr c)
    with w1 show ?thesis
      by (auto simp: bedrock_invoke_def io_defs g invoke_model_def lift_exc_def sent_to_def split: sum.splits)
  qed
qed

lemma agentcore_state: "snd (agentcore_invoke B config prompt profile w) = snd (bedrock_invoke B config prompt profile w)"
  by (simp add: agentcore_invoke_def io_defs split: prod.split sum.split)

text \<open>C38: the configured region never reaches Bedrock. Whatever configuration a runtime is assembled from, every
  call it ever makes goes to a client for us-east-1 with 30 second timeouts and 3 attempts; model, token limit
  and temperature are those of the profile of the call.\<close>

theorem region_not_configurable:
  assumes "build_runtime env config publisher = Inr (p, rt)"
  shows "\<forall>(c, m, body) \<in> set (cw_calls (send_prompts E B p prompts fresh_cloud)).
    c = \<lparr>bc_region = ''us-east-1'', bc_timeout = 30, bc_attempts = 3\<rparr>
    \<and> (\<exists>(prompt, profile) \<in> set prompts. m = mp_model_id profile
         \<and> body = request_body prompt (mp_max_tokens profile) (mp_temperature profile))"
proof -
  have p: "p \<in> {Stub, Bedrock NoConfig, AgentCore NoConfig}"
    using assms by (auto simp: build_runtime_def bind_exc_Inr select_provider_def split: if_splits)
  have step: "sent_to NoConfig (insert (prompt, profile) S) (snd (provider_invoke E B p prompt profile w))"
    if "sent_to NoConfig S w" for prompt profile S w
    using p that bedrock_invoke_sent [OF that] sent_to_insert [OF that] by (auto simp: agentcore_state lift_exc_def io_defs split: sum.splits)
  have "sent_to NoConfig (S \<union> set prompts) (send_prompts E B p prompts w)" if "sent_to NoConfig S w" for S w
    using that
  proof (induction prompts arbitrary: S w)
    case (Cons x prompts)
    obtain prompt profile where x: "x = (prompt, profile)" by fastforce
    from Cons.IH [OF step [OF Cons.prems]] x show ?case by (simp add: send_prompts_def insert_commute)
  qed (simp add: send_prompts_def)
  from this [of "{}" fresh_cloud] show ?thesis
    by (auto simp: sent_to_def fresh_cloud_def client_of_def)
qed

definition europe_config :: RuntimeConfig where
  "europe_config = \<lparr>cf_mode = ''bedrock'', cf_model_id = ''m'', cf_region = Some ''eu-west-1'', cf_timeout_seconds = 5,
     cf_max_repairs = 2, cf_bootstrap_servers = ''b'', cf_log_raw_prompts = False, cf_log_raw_outputs = False, cf_redact_pii = True\<rparr>"

theorem region_not_configurable_witness:
  "\<exists>p rt c m body. build_runtime (Inr europe_config) None False = Inr (p, rt) \<and> cf_region (rt_config rt) = Some ''eu-west-1''
    \<and> cw_calls (send_prompts (sample_llm ''ok'') sample_boto p [(''hi'', DEFAULT_PROFILE)] fresh_cloud) = [(c, m, body)]
    \<and> bc_region c = ''us-east-1''"
proof -
  let ?rt = "\<lparr>rt_config = europe_config, rt_publisher = False\<rparr>"
  have b: "build_runtime (Inr europe_config) None False = Inr (Bedrock NoConfig, ?rt)"
    by (simp add: build_runtime_def europe_config_def select_provider_def)
  let ?calls = "cw_calls (send_prompts (sample_llm ''ok'') sample_boto (Bedrock NoConfig) [(''hi'', DEFAULT_PROFILE)] fresh_cloud)"
  have "length ?calls = 1"
    by (simp add: send_prompts_def bedrock_invoke_def get_client_def create_bedrock_client_def sample_boto_def fresh_cloud_def
      invoke_model_def io_defs lift_exc_def split: sum.split)
  then obtain c m body where "?calls = [(c, m, body)]" by (cases ?calls) auto
  with b region_not_configurable [OF b, of "sample_llm ''ok''" sample_boto "[(''hi'', DEFAULT_PROFILE)]"] show ?thesis
    by (intro exI [of _ "Bedrock NoConfig"] exI [of _ ?rt] exI [of _ c] exI [of _ m] exI [of _ body]) (simp add: europe_config_def)
qed

text \<open>The AgentCore provider answers as the Bedrock provider and raises provider errors only.\<close>

lemma agentcore_normalises:
  "(\<forall>c. fst (agentcore_invoke B config prompt profile w) = Inr c \<longleftrightarrow> fst (bedrock_invoke B config prompt profile w) = Inr c)
   \<and> (\<forall>e. fst (agentcore_invoke B config prompt profile w) = Inl e \<longrightarrow> is_provider_error e)"
  by (auto simp: agentcore_invoke_def io_defs split: prod.split sum.split if_splits)

text \<open>Without the AWS library no call is made and every prompt fails with a provider error, which is an outage.\<close>

lemma uninstalled_is_outage:
  assumes "\<not> bo_installed B" "cw_client w = None"
  shows "\<exists>e. bedrock_invoke B config prompt profile w = (Inl e, w) \<and> is_provider_error e"
    "\<exists>e. llm_invoke B L messages meta w = (Inl (Escaped e), w) \<and> is_provider_error e"
  using assms
  by (simp_all add: bedrock_invoke_def llm_invoke_def get_client_def create_bedrock_client_def io_defs lift_exc_def)

end
