(* ===== verification/Graph_Nodes.thy ===== *)
theory Graph_Nodes
  imports Llm_Contract Observability
begin

text \<open>
  The adapter of the graph library (\<^verbatim>\<open>llm/langgraph.py\<close>): nodes that read a graph state, run one reasoning step and return
  the state with the result.
\<close>

section \<open>Graph states\<close>

text \<open>A value of the state: a UUID object, or a plain value.\<close>

datatype gval = GUuid uuid | GVal pyval

type_synonym graph_state = "(string, gval) dict"

fun plain_of :: "gval \<Rightarrow> pyval" where
  "plain_of (GVal v) = v"
| "plain_of (GUuid u) = VStr (show_uuid u)"

definition node_id :: "uuid \<Rightarrow> graph_state \<Rightarrow> string \<Rightarrow> exc + gval" where
  "node_id fresh state k =
     (case dict_get state k of
        None \<Rightarrow> Inr (GUuid fresh)
      | Some (GVal (VStr s)) \<Rightarrow>
          (case parse_uuid s of
             Some u \<Rightarrow> Inr (GUuid u)
           | None \<Rightarrow> Inl (ValueError ''badly formed hexadecimal UUID string''))
      | Some v \<Rightarrow> Inr v)"

text \<open>The request's field takes a UUID.\<close>

fun uuid_field :: "gval \<Rightarrow> exc + uuid" where
  "uuid_field (GUuid u) = Inr u"
| "uuid_field (GVal _) = Inl (ValueError ''uuid_type'')"

definition grounding_of :: "graph_state \<Rightarrow> (string, pyval) dict" where
  "grounding_of state = [(k, plain_of v). (k, v) \<leftarrow> state, k \<notin> {''correlation_id'', ''causation_id''}]"

definition node_request ::
  "llm_env \<Rightarrow> string \<Rightarrow> string \<Rightarrow> 'v output_schema \<Rightarrow> (exc + 'v) \<Rightarrow> gval \<Rightarrow> gval \<Rightarrow> string \<Rightarrow> (string, pyval) dict \<Rightarrow>
   exc + 'v AssistiveRequest" where
  "node_request E agent_id task_kind S fb correlation causation instructions grounding =
     bind_exc (parse_task_kind task_kind) (\<lambda>kind.
     bind_exc (uuid_field correlation) (\<lambda>corr.
     bind_exc (uuid_field causation) (\<lambda>caus.
     make_request E \<lparr>aq_task_kind = kind, aq_agent_id = agent_id, aq_correlation_id = corr, aq_causation_id = caus,
       aq_instructions = instructions, aq_grounding_inputs = grounding, aq_output_schema = S, aq_examples = None,
       aq_idempotency_key = [], aq_fallback = fb\<rparr>)))"

text \<open>The fallback of a node without one, for the default schema.\<close>

definition text_fallback :: "(exc + TextResult) option \<Rightarrow> exc + TextResult" where
  "text_fallback fallback = (case fallback of Some f \<Rightarrow> f | None \<Rightarrow> Inr \<lparr>tr_text = ''fallback''\<rparr>)"

definition result_entries :: "'v output_schema \<Rightarrow> string \<Rightarrow> 'v rvalue AssistiveResult \<Rightarrow> graph_state" where
  "result_entries S state_key r =
     [(state_key, GVal (value_dump S (ar_value r))),
      (state_key @ ''_reasoning_path'', GVal (VStr (path_value (ar_reasoning_path r)))),
      (state_key @ ''_token_usage'', GVal (case ar_token_usage r of None \<Rightarrow> VNone | Some u \<Rightarrow> usage_dump u)),
      (state_key @ ''_model_id'', GVal (case ar_model_id r of None \<Rightarrow> VNone | Some m \<Rightarrow> VStr m)),
      (state_key @ ''_cache_hit'', GVal (VBool (ar_cache_hit r))),
      (state_key @ ''_latency_ms'', GVal (VInt (ar_latency_ms r)))]"

definition with_entries :: "graph_state \<Rightarrow> graph_state \<Rightarrow> graph_state" where
  "with_entries state entries = fold (\<lambda>(k, v) d. dict_set k v d) entries state"

section \<open>The nodes\<close>

definition as_node ::
  "llm_env \<Rightarrow> llm_runtime \<Rightarrow> string \<Rightarrow> string \<Rightarrow> 'v output_schema \<Rightarrow> string \<Rightarrow> (exc + 'v) \<Rightarrow> string \<Rightarrow> graph_state \<Rightarrow>
   (llm_world, graph_state) io" where
  "as_node E rt agent_id task_kind S instructions fb state_key state =
     bind_io (uuid4_io (le_net E)) (\<lambda>f1.
     bind_io (uuid4_io (le_net E)) (\<lambda>f2.
     bind_io (lift_exc (node_id f1 state ''correlation_id'')) (\<lambda>correlation.
     bind_io (lift_exc (node_id f2 state ''causation_id'')) (\<lambda>causation.
     bind_io (lift_exc (node_request E agent_id task_kind S fb correlation causation instructions (grounding_of state))) (\<lambda>request.
     bind_io (reason E rt request) (\<lambda>result.
     return_io (with_entries state (result_entries S state_key result))))))))"

definition fill_template :: "string \<Rightarrow> (string, pyval) dict \<Rightarrow> string" where
  "fill_template template grounding =
     fold (\<lambda>(k, v) text. py_replace (''{'' @ k @ ''}'') (py_str v) text) grounding template"

text \<open>A runtime that is assembled on the spot has an empty result store, which nobody uses afterwards.\<close>

definition with_new_store :: "(llm_world, 'a) io \<Rightarrow> (llm_world, 'a) io" where
  "with_new_store m =
     (\<lambda>w. case m (w\<lparr>lw_cache := []\<rparr>) of (r, w') \<Rightarrow> (r, w'\<lparr>lw_cache := lw_cache w\<rparr>))"

definition langgraph_node ::
  "llm_env \<Rightarrow> exc + llm_runtime \<Rightarrow> string \<Rightarrow> string \<Rightarrow> 'v output_schema \<Rightarrow> llm_runtime option \<Rightarrow> string \<Rightarrow> (exc + 'v) \<Rightarrow>
   string \<Rightarrow> graph_state \<Rightarrow> (llm_world, graph_state) io" where
  "langgraph_node E build agent_id template S runtime task_kind fb state_key state =
     bind_io (lift_exc (case runtime of Some rt \<Rightarrow> Inr rt | None \<Rightarrow> build)) (\<lambda>rt.
     bind_io (uuid4_io (le_net E)) (\<lambda>f1.
     bind_io (uuid4_io (le_net E)) (\<lambda>f2.
     bind_io (lift_exc (node_id f1 state ''correlation_id'')) (\<lambda>correlation.
     bind_io (lift_exc (node_id f2 state ''causation_id'')) (\<lambda>causation.
     let grounding = grounding_of state in
     bind_io (lift_exc (node_request E agent_id task_kind S fb correlation causation (fill_template template grounding)
       grounding)) (\<lambda>request.
     bind_io (if runtime = None then with_new_store (reason E rt request) else reason E rt request) (\<lambda>result.
     return_io (with_entries state (result_entries S state_key result)))))))))"

section \<open>What a node does\<close>

lemma with_entries_keep: "k \<notin> fst ` set es \<Longrightarrow> dict_get (with_entries state es) k = dict_get state k"
proof (induction es arbitrary: state)
  case (Cons e es)
  then show ?case by (cases e) (simp add: with_entries_def)
qed (simp add: with_entries_def)

lemma with_entries_get: "distinct (map fst es) \<Longrightarrow> (k, v) \<in> set es \<Longrightarrow> dict_get (with_entries state es) k = Some v"
proof (induction es arbitrary: state)
  case (Cons e es)
  obtain a b where e: "e = (a, b)" by fastforce
  have s: "with_entries state (e # es) = with_entries (dict_set a b state) es" by (simp add: with_entries_def e)
  show ?case
  proof (cases "(k, v) \<in> set es")
    case True
    with Cons s show ?thesis by simp
  next
    case False
    with Cons.prems e have "k = a" "v = b" "k \<notin> fst ` set es" by force+
    with s with_entries_keep show ?thesis by fastforce
  qed
qed simp

lemma result_entries_distinct: "distinct (map fst (result_entries S k r))"
  by (simp add: result_entries_def)

lemma with_new_store_result: "with_new_store m w = (r, w') \<Longrightarrow> \<exists>u. m (w\<lparr>lw_cache := []\<rparr>) = (r, u) \<and> lw_calls w' = lw_calls u"
  by (auto simp: with_new_store_def split: prod.splits)

text \<open>A bound node is the simple node on the filled template.\<close>

theorem bound_node_is_as_node:
  "langgraph_node E build agent_id template S (Some rt) task_kind fb state_key state =
     as_node E rt agent_id task_kind S (fill_template template (grounding_of state)) fb state_key state"
  by (rule ext) (simp add: langgraph_node_def as_node_def io_defs lift_exc_def Let_def)

text \<open>
  A node without a runtime never replays: whatever has been computed before, it asks the model again, and its own
  result is lost to later steps. Apart from the entries of the result it returns the state as it was.
\<close>

theorem unbound_node_never_replays:
  assumes "langgraph_node E build agent_id template S None task_kind fb state_key state w = (Inr out, w')"
  shows "dict_get out (state_key @ ''_reasoning_path'') \<in> {Some (GVal (VStr ''model'')), Some (GVal (VStr ''fallback''))}
    \<and> lw_cache w' = lw_cache w
    \<and> (\<forall>k. k \<noteq> state_key \<and> \<not> (\<exists>suffix. k = state_key @ ''_'' @ suffix) \<longrightarrow> dict_get out k = dict_get state k)"
proof -
  obtain rt req result u w2 where run: "reason E rt req (u\<lparr>lw_cache := []\<rparr>) = (Inr result, w2)" "lw_cache u = lw_cache w"
    and w': "w' = w2\<lparr>lw_cache := lw_cache u\<rparr>" and out: "out = with_entries state (result_entries S state_key result)"
    using assms
    by (auto simp: langgraph_node_def io_defs lift_exc_def Let_def uuid4_io_def with_new_store_def split: prod.splits sum.splits)
  have "store_ok (u\<lparr>lw_cache := []\<rparr>)" by (simp add: store_ok_def)
  from reason_allowed [OF this run(1)] have "ar_reasoning_path result \<noteq> CachePath"
    by (auto simp: step_allowed_def Let_def split: ReasoningPath.splits)
  moreover have "dict_get out (state_key @ ''_reasoning_path'') = Some (GVal (VStr (path_value (ar_reasoning_path result))))"
    unfolding out by (rule with_entries_get [OF result_entries_distinct]) (simp add: result_entries_def)
  moreover have "dict_get out k = dict_get state k" if "k \<noteq> state_key" "\<not> (\<exists>suffix. k = state_key @ ''_'' @ suffix)" for k
    unfolding out using that by (intro with_entries_keep) (auto simp: result_entries_def)
  ultimately show ?thesis using w' run(2) by (cases "ar_reasoning_path result") auto
qed

end
