(* ===== verification/Peer_Narratives.thy ===== *)
theory Peer_Narratives
  imports Llm_Agents Billing_Service Risk_Service
begin

text \<open>
  The assistive narratives of the peers over the reasoning runtime (\<^verbatim>\<open>llm_summary.py\<close> of both peers): what the model is
  told, the instructions, the request, and what comes back. The two peer theories take the narrative's origin as a
  parameter; here it is the runtime of \<open>Llm_Runtime\<close>.
\<close>

section \<open>What the model is told\<close>

text \<open>
  The JSON schemas and the validation of the narratives are pydantic's; \<open>ps_amount\<close> is the text of a decimal, which
  depends on the scale it was written with.
\<close>

record peer_schemas =
  ps_billing_json :: pyval
  ps_billing_validate :: "pyval \<Rightarrow> exc + BillingNarrative"
  ps_risk_json :: pyval
  ps_risk_validate :: "pyval \<Rightarrow> exc + RiskNarrative"
  ps_amount :: "decimal \<Rightarrow> string"

definition billing_grounding ::
  "peer_schemas \<Rightarrow> EligibilityRecommendation \<Rightarrow> RefundEligibilityRequest \<Rightarrow> (string, pyval) dict" where
  "billing_grounding A rec request =
     [(''recommendation'', VStr (recommendation_value (er_recommendation rec))),
      (''confidence'', VFloat (er_confidence rec)),
      (''reasoning_summary'', VStr (er_reasoning_summary rec)),
      (''requires_human_review'', VBool (er_requires_human_review rec)),
      (''eligible_refund_amount'', VStr (ps_amount A (er_eligible_refund_amount rec))),
      (''evidence'', VList (map dump_evidence (er_evidence rec))),
      (''policy_references'', VList (map VStr (er_policy_references rec))),
      (''subscription_status'', VStr (er_subscription_status rec)),
      (''invoice_status'', VStr (er_invoice_status rec)),
      (''payment_status'', VStr (er_payment_status rec)),
      (''entitlement_status'', VStr (er_entitlement_status rec)),
      (''usage_level'', VStr (er_usage_level rec)),
      (''refund_window_status'', VStr (er_refund_window_status rec)),
      (''ticket_id'', VStr (rq_ticket_id request)),
      (''customer_id'', VStr (rq_customer_id request)),
      (''case_id'', VStr (show_uuid (rq_case_id request)))]"

fun risk_action_value :: "RecommendedAction \<Rightarrow> string" where
  "risk_action_value APPROVE_RISK_CLEARANCE = ''approve_risk_clearance''"
| "risk_action_value ALLOW_WITH_CAUTION = ''allow_with_caution''"
| "risk_action_value DENY_OR_ESCALATE = ''deny_or_escalate''"
| "risk_action_value RA_REQUEST_MORE_INFORMATION = ''request_more_information''"
| "risk_action_value RA_MANUAL_REVIEW = ''manual_review''"

definition text_lines :: "string list \<Rightarrow> string" where
  "text_lines ls = concat (map (\<lambda>l. l @ LF) ls)"

definition billing_instructions :: string where
  "billing_instructions = text_lines
     [''You are a billing-analysis assistant for a refund eligibility system.'',
      [],
      ''Given a deterministic refund eligibility recommendation (recommendation, confidence,'',
      ''eligible_refund_amount, evidence items, and policy references), produce a clear,'',
      ''concise narrative that:'',
      [],
      ''1. **polished_summary**: Rewrite the reasoning_summary into a polished 2-4 sentence'',
      ''   paragraph suitable for a human reviewer. Reference the fired policy rules by ID'',
      ''   (e.g. RP-001, RP-002) and explain WHY they contribute to the overall recommendation.'',
      ''   Include the subscription, invoice, payment, and entitlement statuses in context.'',
      ''   Do NOT invent facts '' @ em_dash @ '' ground every claim in the provided evidence.'',
      [],
      ''2. **evidence_explanation**: Summarize the evidence items into a cohesive explanation'',
      ''   that a non-technical reviewer can understand. Group related billing signals'',
      ''   (e.g. subscription status + payment status = account health). Keep it factual'',
      ''   and grounded.'',
      [],
      ''CONSTRAINTS:'',
      ''- Do NOT suggest a different recommendation, confidence, or eligible_refund_amount.'',
      ''- Do NOT fabricate evidence or policy rules not present in the input.'',
      ''- Keep each field under 500 characters.'',
      ''- Return valid JSON matching the output schema.'']"

definition billing_narrative_dump :: "BillingNarrative \<Rightarrow> (string, pyval) dict" where
  "billing_narrative_dump n =
     [(''polished_summary'', VStr (bn_polished_summary n)), (''evidence_explanation'', VStr (bn_evidence_explanation n))]"

definition billing_request ::
  "peer_schemas \<Rightarrow> EligibilityRecommendation \<Rightarrow> RefundEligibilityRequest \<Rightarrow> uuid \<Rightarrow> BillingNarrative \<Rightarrow>
   BillingNarrative AssistiveRequest" where
  "billing_request A rec request causation_id fallback =
     \<lparr>aq_task_kind = SummarizeReasoning, aq_agent_id = ''billing-entitlement-agent'',
      aq_correlation_id = rq_case_id request, aq_causation_id = causation_id, aq_instructions = billing_instructions,
      aq_grounding_inputs = billing_grounding A rec request,
      aq_output_schema = \<lparr>os_json = ps_billing_json A, os_validate = ps_billing_validate A, os_dump = billing_narrative_dump\<rparr>,
      aq_examples = None, aq_idempotency_key = [], aq_fallback = Inr fallback\<rparr>"

definition risk_grounding :: "RiskAssessment \<Rightarrow> RiskAssessmentRequest \<Rightarrow> (string, pyval) dict" where
  "risk_grounding assessment request =
     [(''risk_level'', VStr (risk_level_value (ra_risk_level assessment))),
      (''recommended_action'', VStr (risk_action_value (ra_recommended_action assessment))),
      (''confidence'', VFloat (ra_confidence assessment)),
      (''reasoning_summary'', VStr (ra_reasoning_summary assessment)),
      (''requires_human_review'', VBool (ra_requires_human_review assessment)),
      (''evidence'', VList (map dump_evidence (ra_evidence assessment))),
      (''policy_references'', VList (map VStr (ra_policy_references assessment))),
      (''ticket_id'', VStr (rk_ticket_id request)),
      (''customer_id'', VStr (rk_customer_id request)),
      (''case_id'', VStr (show_uuid (rk_case_id request)))]"

definition risk_instructions :: string where
  "risk_instructions = text_lines
     [''You are a risk-analysis assistant for a refund-fraud detection system.'',
      [],
      ''Given a deterministic risk assessment (risk_level, recommended_action, confidence,'',
      ''evidence items, and policy references), produce a clear, concise narrative that:'',
      [],
      ''1. **polished_summary**: Rewrite the reasoning_summary into a polished 2-4 sentence'',
      ''   paragraph suitable for a human reviewer. Reference the fired policy rules by ID'',
      ''   (e.g. FP-002, FP-003) and explain WHY they contribute to the overall risk level.'',
      ''   Do NOT invent facts '' @ em_dash @ '' ground every claim in the provided evidence.'',
      [],
      ''2. **evidence_explanation**: Summarize the evidence items into a cohesive explanation'',
      ''   that a non-technical reviewer can understand. Group related signals (e.g. velocity'',
      ''   + anomaly = behavioral concern). Keep it factual and grounded.'',
      [],
      ''CONSTRAINTS:'',
      ''- Do NOT suggest a different risk_level, recommended_action, or confidence.'',
      ''- Do NOT fabricate evidence or policy rules not present in the input.'',
      ''- Keep each field under 500 characters.'',
      ''- Return valid JSON matching the output schema.'']"

definition risk_narrative_dump :: "RiskNarrative \<Rightarrow> (string, pyval) dict" where
  "risk_narrative_dump n =
     [(''polished_summary'', VStr (rn_polished_summary n)), (''evidence_explanation'', VStr (rn_evidence_explanation n))]"

definition risk_request ::
  "peer_schemas \<Rightarrow> RiskAssessment \<Rightarrow> RiskAssessmentRequest \<Rightarrow> uuid \<Rightarrow> RiskNarrative \<Rightarrow> RiskNarrative AssistiveRequest" where
  "risk_request A assessment request causation_id fallback =
     \<lparr>aq_task_kind = SummarizeReasoning, aq_agent_id = ''risk-fraud-agent'',
      aq_correlation_id = rk_case_id request, aq_causation_id = causation_id, aq_instructions = risk_instructions,
      aq_grounding_inputs = risk_grounding assessment request,
      aq_output_schema = \<lparr>os_json = ps_risk_json A, os_validate = ps_risk_validate A, os_dump = risk_narrative_dump\<rparr>,
      aq_examples = None, aq_idempotency_key = [], aq_fallback = Inr fallback\<rparr>"

section \<open>The runtime as the peers' assistant\<close>

text \<open>What the enrichment returns is the value of the result, whatever it is.\<close>

definition enriched_value :: "llm_env \<Rightarrow> llm_runtime \<Rightarrow> 'v AssistiveRequest \<Rightarrow> (llm_world, 'v rvalue) io" where
  "enriched_value E rt req =
     bind_io (assist_or_fallback E rt ''summarize_reasoning'' req) (\<lambda>result. return_io (ar_value result))"

text \<open>
  The handler builds a runtime, with an empty store, for every task; a value that is no instance has no
  narrative fields to read.
\<close>

definition instance_or_fail :: "'v rvalue \<Rightarrow> exc + 'v" where
  "instance_or_fail v = (case v of Instance n \<Rightarrow> Inr n | Plain _ \<Rightarrow> Inl (ValueError ''no attribute polished_summary''))"

definition billing_assistant :: "llm_env \<Rightarrow> llm_runtime \<Rightarrow> peer_schemas \<Rightarrow> llm_world \<Rightarrow> billing_assist" where
  "billing_assistant E rt A w = (\<lambda>rec request causation_id fallback.
     bind_exc (fst (enriched_value E rt (billing_request A rec request causation_id fallback) (w\<lparr>lw_cache := []\<rparr>))) instance_or_fail)"

definition risk_assistant :: "llm_env \<Rightarrow> llm_runtime \<Rightarrow> peer_schemas \<Rightarrow> llm_world \<Rightarrow> risk_assist" where
  "risk_assistant E rt A w = (\<lambda>assessment request causation_id fallback.
     bind_exc (fst (enriched_value E rt (risk_request A assessment request causation_id fallback) (w\<lparr>lw_cache := []\<rparr>))) instance_or_fail)"

section \<open>Where a narrative comes from\<close>

definition keyed :: "llm_env \<Rightarrow> 'v AssistiveRequest \<Rightarrow> 'v AssistiveRequest" where
  "keyed E req = req\<lparr>aq_idempotency_key := derive_key E (aq_correlation_id req) (aq_task_kind req) (aq_grounding_inputs req)\<rparr>"

lemma summarize_kind: "parse_task_kind ''summarize_reasoning'' = Inr SummarizeReasoning"
  by code_simp

lemma peer_instructions:
  "py_strip (aq_instructions (billing_request A rec request c n)) \<noteq> []"
  "py_strip (aq_instructions (risk_request A a request' c m)) \<noteq> []"
  by (simp_all add: billing_request_def risk_request_def) code_simp+

lemma enriched_value_reason:
  assumes "py_strip (aq_instructions req) \<noteq> []" "aq_idempotency_key req = []" "aq_task_kind req = SummarizeReasoning"
  shows "enriched_value E rt req = bind_io (reason E rt (keyed E req)) (\<lambda>result. return_io (ar_value result))"
  using assms by (cases req)
    (auto simp: enriched_value_def assist_or_fallback_def summarize_kind make_request_def keyed_def lift_exc_def io_defs)

text \<open>From an empty store the value is an instance: the fallback, or what the schema accepted from a reply.\<close>

definition narrative_origin :: "llm_env \<Rightarrow> llm_runtime \<Rightarrow> 'v AssistiveRequest \<Rightarrow> nat \<Rightarrow> 'v \<Rightarrow> bool" where
  "narrative_origin E rt req calls n \<longleftrightarrow>
     aq_fallback req = Inr n
     \<or> (\<exists>i raw. calls \<le> i \<and> replied E (request_profile E rt req) i raw \<and> conforms E (aq_output_schema req) (cm_text raw) n
          \<and> (i = calls \<or> grounded (aq_output_schema req) (aq_grounding_inputs req) n))"

lemma enriched_fresh:
  assumes req: "py_strip (aq_instructions req) \<noteq> []" "aq_idempotency_key req = []" "aq_task_kind req = SummarizeReasoning"
    and w: "lw_cache w = []" and run: "enriched_value E rt req w = (Inr v, w')"
  shows "\<exists>n. v = Instance n \<and> narrative_origin E rt req (lw_calls w) n"
proof -
  obtain result where r: "reason E rt (keyed E req) w = (Inr result, w')" "v = ar_value result"
    using run by (auto simp: enriched_value_reason [OF req] io_defs split: prod.splits sum.splits)
  have "store_ok w" using w by (simp add: store_ok_def)
  from reason_allowed [OF this r(1)] w r(2) show ?thesis
    by (auto simp: step_allowed_def Let_def keyed_def request_profile_def narrative_origin_def split: ReasoningPath.splits)
qed

lemma enriched_outage:
  assumes req: "py_strip (aq_instructions req) \<noteq> []" "aq_idempotency_key req = []" "aq_fallback req = Inr n"
    and w: "lw_cache w = []" "provider_down E (lw_calls w)"
  shows "\<exists>w'. enriched_value E rt req w = (Inr (Instance n), w')"
  using assist_outage [OF summarize_kind req(1,2) w req(3), of rt] by (auto simp: enriched_value_def io_defs)

text \<open>
  The narratives that the peers attach to their events come from the deterministic fallback or from a reply that the
  narrative's schema accepted, and a repaired reply is grounded in what the model was told.
\<close>

theorem peer_narrative_origin:
  "narrative_of True (billing_assistant E rt A w) rec request tid = Some n \<Longrightarrow>
     narrative_origin E rt (billing_request A rec request tid (make_fallback rec)) (lw_calls w) n"
  "risk_narrative_of True (risk_assistant E rt A w) a request' tid = Some m \<Longrightarrow>
     narrative_origin E rt (risk_request A a request' tid (risk_make_fallback a)) (lw_calls w) m"
proof -
  let ?b = "billing_request A rec request tid (make_fallback rec)"
  assume "narrative_of True (billing_assistant E rt A w) rec request tid = Some n"
  then obtain w' where "enriched_value E rt ?b (w\<lparr>lw_cache := []\<rparr>) = (Inr (Instance n), w')"
    by (auto simp: narrative_of_def enrich_recommendation_def billing_assistant_def bind_exc_def instance_or_fail_def
        split: sum.splits rvalue.splits) (metis prod.collapse)
  from enriched_fresh [OF peer_instructions(1) _ _ _ this] show "narrative_origin E rt ?b (lw_calls w) n"
    by (simp add: billing_request_def)
next
  let ?r = "risk_request A a request' tid (risk_make_fallback a)"
  assume "risk_narrative_of True (risk_assistant E rt A w) a request' tid = Some m"
  then obtain w' where "enriched_value E rt ?r (w\<lparr>lw_cache := []\<rparr>) = (Inr (Instance m), w')"
    by (auto simp: risk_narrative_of_def enrich_assessment_def risk_assistant_def bind_exc_def instance_or_fail_def
        split: sum.splits rvalue.splits) (metis prod.collapse)
  from enriched_fresh [OF peer_instructions(2) _ _ _ this] show "narrative_origin E rt ?r (lw_calls w) m"
    by (simp add: risk_request_def)
qed

text \<open>During an outage both narratives repeat the deterministic summary.\<close>

theorem peer_narrative_outage:
  assumes "provider_down E (lw_calls w)"
  shows "narrative_of True (billing_assistant E rt A w) rec request tid = Some (make_fallback rec)"
    "risk_narrative_of True (risk_assistant E rt A w) a request' tid = Some (risk_make_fallback a)"
proof -
  have w: "lw_cache (w\<lparr>lw_cache := []\<rparr>) = []" "provider_down E (lw_calls (w\<lparr>lw_cache := []\<rparr>))" using assms by simp_all
  show "narrative_of True (billing_assistant E rt A w) rec request tid = Some (make_fallback rec)"
    using enriched_outage [OF peer_instructions(1) _ _ w, of A rec request tid "make_fallback rec" "make_fallback rec" rt]
    by (auto simp: narrative_of_def enrich_recommendation_def billing_assistant_def bind_exc_def instance_or_fail_def billing_request_def)
  show "risk_narrative_of True (risk_assistant E rt A w) a request' tid = Some (risk_make_fallback a)"
    using enriched_outage [OF peer_instructions(2) _ _ w, of A a request' tid "risk_make_fallback a" "risk_make_fallback a" rt]
    by (auto simp: risk_narrative_of_def enrich_assessment_def risk_assistant_def bind_exc_def instance_or_fail_def risk_request_def)
qed

text \<open>With a store that already holds the result, the enrichment returns a plain dictionary, which is no narrative.\<close>

theorem stored_narrative_is_plain:
  assumes "map_of (lw_cache w) (aq_idempotency_key (keyed E (billing_request A rec request c n))) = Some d"
    and "result_validate d = Inr stored"
  shows "\<exists>w'. enriched_value E rt (billing_request A rec request c n) w = (Inr (Plain (ar_value stored)), w')"
proof -
  have "aq_idempotency_key (billing_request A rec request c n) = []" "aq_task_kind (billing_request A rec request c n) = SummarizeReasoning"
    by (simp_all add: billing_request_def)
  from enriched_value_reason [OF peer_instructions(1) this] reason_hit [OF assms, of E rt] show ?thesis
    by (auto simp: io_defs with_value_def)
qed

end
