(* ===== verification/Demo_Reasoning.thy ===== *)
theory Demo_Reasoning
  imports Demo_Views Llm_Text Py_Access
begin

text \<open>
  The case view of the demo user interface: the rows of the timeline, the failures under it and the reasoning steps
  (\<^verbatim>\<open>demo_ui/views/case_view.py\<close>, \<^verbatim>\<open>demo_ui/reasoning_summary.py\<close>). Drawing the rows is left out.
\<close>

section \<open>Rows for reasoning steps\<close>

definition format_usage :: "pyval \<Rightarrow> string + string" where
  "format_usage usage =
     (if \<not> truthy usage then Inr em_dash
      else case usage of
        VDict u \<Rightarrow>
          (let parts = (case dict_or u ''input_tokens'' VNone of VNone \<Rightarrow> [] | v \<Rightarrow> [''in:'' @ py_str v])
                 @ (case dict_or u ''output_tokens'' VNone of VNone \<Rightarrow> [] | v \<Rightarrow> [''out:'' @ py_str v])
                 @ (let c = dict_or u ''cache_read_tokens'' VNone in if truthy c then [''cache:'' @ py_str c] else [])
           in Inr (if parts = [] then em_dash else py_join '' '' parts))
      | _ \<Rightarrow> map_sum id py_str (attr_get usage ''input_tokens'' VNone))"

definition short_value :: "pyval \<Rightarrow> string" where
  "short_value v = (let sv = py_str v in if 60 < py_len sv then py_take 57 sv @ ''...'' else sv)"

definition compact_summary :: "pyval \<Rightarrow> string" where
  "compact_summary summary =
     (case summary of
        VStr s \<Rightarrow> py_take 200 s
      | VDict d \<Rightarrow>
          (case dict_get d ''text'' of
             Some v \<Rightarrow> py_take 200 (py_str v)
           | None \<Rightarrow>
               (let parts = map (\<lambda>(k, v). k @ ''='' @ short_value v) (take 4 d)
                in if parts = [] then em_dash else py_join '', '' parts))
      | v \<Rightarrow> py_take 200 (py_str v))"

definition format_reasoning_step :: "(string, pyval) dict \<Rightarrow> string + (string, pyval) dict" where
  "format_reasoning_step record =
     (let model_id = dict_or record ''model_id'' VNone;
          failure_reason = dict_or record ''failure_reason'' VNone;
          summary_text = redact_text (compact_summary (dict_or record ''result_summary'' (VDict []))) in
      case format_usage (dict_or record ''token_usage'' VNone) of
        Inl e \<Rightarrow> Inl e
      | Inr usage_display \<Rightarrow> Inr
         ([(''agent'', dict_or record ''agent_id'' (VStr ''unknown'')),
           (''task'', dict_or record ''task_kind'' (VStr ''unknown'')),
           (''path'', dict_or record ''reasoning_path'' (VStr ''--'')),
           (''outcome'', dict_or record ''outcome'' (VStr ''--'')),
           (''model'', if truthy model_id then model_id else VStr ''stub''),
           (''latency_ms'', dict_or record ''latency_ms'' (VInt 0)),
           (''cache'', VStr (if truthy (dict_or record ''cache_hit'' (VBool False)) then ''yes'' else ''no'')),
           (''tokens'', VStr usage_display),
           (''summary'', VStr summary_text)]
          @ (if truthy failure_reason then [(''failure'', VStr (py_str failure_reason))] else [])))"

section \<open>The case view\<close>

definition REASONING_EVENT_TYPE :: string where
  "REASONING_EVENT_TYPE = ''agent.llm.reasoning.v1''"

definition FAILURE_OUTCOMES :: "string list" where
  "FAILURE_OUTCOMES = [''failed'', ''rejected'']"

definition text_or :: "string option \<Rightarrow> string \<Rightarrow> string" where
  "text_or x dflt = (case x of None \<Rightarrow> dflt | Some s \<Rightarrow> if s = [] then dflt else s)"

definition reasoning_record :: "TimelineEntry \<Rightarrow> (string, pyval) dict" where
  "reasoning_record e =
     [(''agent_id'', VStr (tl_actor e)), (''task_kind'', VStr (text_or (tl_outcome e) ''unknown'')),
      (''reasoning_path'', VStr em_dash), (''outcome'', VStr (text_or (tl_outcome e) em_dash)),
      (''latency_ms'', VInt 0), (''model_id'', VStr em_dash), (''cache_hit'', VBool False),
      (''token_usage'', VNone), (''result_summary'', VDict [])]"

definition extract_reasoning_records :: "TimelineView \<Rightarrow> (string, pyval) dict list" where
  "extract_reasoning_records view =
     (if \<not> tv_found view \<or> tv_entries view = [] then []
      else map reasoning_record (filter (\<lambda>e. tl_event_type e = REASONING_EVENT_TYPE) (tv_entries view)))"

definition failed_entry :: "TimelineEntry \<Rightarrow> bool" where
  "failed_entry e \<longleftrightarrow> (\<exists>x \<in> set FAILURE_OUTCOMES. tl_outcome e = Some x)"

definition timeline_row :: "TimelineEntry \<Rightarrow> (string, pyval) dict" where
  "timeline_row e =
     [(''#'', VInt (int (tl_seq e))), (''actor'', VStr (tl_actor e)),
      (''event'', VStr (tl_event_type e @ (if tl_is_orphan e then ''  orphan (parent not found)'' else []))),
      (''outcome'', VStr (text_or (tl_outcome e) em_dash)),
      (''reason'', if failed_entry e then (case tl_reason e of None \<Rightarrow> VNone | Some r \<Rightarrow> VStr r) else VStr []),
      (''timestamp'', VStr (isoformat (tl_timestamp e))),
      (''caused_by'', VStr (case tl_caused_by e of None \<Rightarrow> em_dash | Some u \<Rightarrow> show_uuid u))]"

definition failure_line :: "TimelineEntry \<Rightarrow> string" where
  "failure_line e =
     ''Step '' @ show_nat (tl_seq e) @ '' `'' @ tl_event_type e @ ''` '' @ text_or (tl_outcome e) ''None'' @ '': ''
       @ text_or (tl_reason e) ''(no reason given)''"

text \<open>What the view shows: nothing found, or the rows, the failures and the reasoning rows.\<close>

datatype case_view = NoEvents | CaseView "(string, pyval) dict list" "string list" "(string + (string, pyval) dict) list"

definition render_case_timeline :: "TimelineView \<Rightarrow> case_view" where
  "render_case_timeline view =
     (if \<not> tv_found view \<or> tv_entries view = [] then NoEvents
      else CaseView (map timeline_row (tv_entries view)) (map failure_line (filter failed_entry (tv_entries view)))
             (map format_reasoning_step (extract_reasoning_records view)))"

text \<open>The typed identifier of the case, if it is one.\<close>

definition resolve_case :: "string \<Rightarrow> uuid option" where
  "resolve_case raw = (if py_strip raw = [] then None else parse_uuid (py_strip raw))"

section \<open>What the reasoning rows tell\<close>

lemma redact_dash: "redact_text em_dash = em_dash"
  by code_simp

text \<open>
  The reasoning rows tell nothing about the reasoning: path, model, latency, tokens and summary are placeholders in every
  row, whatever the step did, and the task is the outcome.
\<close>

theorem reasoning_rows_empty:
  assumes "render_case_timeline view = CaseView rows failures steps" "Inr row \<in> set steps"
  shows "\<exists>e \<in> set (tv_entries view). tl_event_type e = REASONING_EVENT_TYPE
    \<and> row = [(''agent'', VStr (tl_actor e)), (''task'', VStr (text_or (tl_outcome e) ''unknown'')), (''path'', VStr em_dash),
        (''outcome'', VStr (text_or (tl_outcome e) em_dash)), (''model'', VStr em_dash), (''latency_ms'', VInt 0),
        (''cache'', VStr ''no''), (''tokens'', VStr em_dash), (''summary'', VStr em_dash)]"
proof -
  obtain e where e: "e \<in> set (tv_entries view)" "tl_event_type e = REASONING_EVENT_TYPE"
    "Inr row = format_reasoning_step (reasoning_record e)"
    using assms by (auto simp: render_case_timeline_def extract_reasoning_records_def split: if_splits)
  moreover have "truthy (VStr em_dash)" "\<not> truthy VNone" "\<not> truthy (VBool False)" by (simp_all add: em_dash_def)
  ultimately show ?thesis
    by (intro bexI [of _ e]) (auto simp: format_reasoning_step_def reasoning_record_def dict_or_def format_usage_def
      compact_summary_def redact_dash Let_def)
qed

end
