(* ===== verification/Spec2Isabelle.thy ===== *)
theory Spec2Isabelle
  imports Resolution_Parked Resolution_Race Resolution_Service Consumer Llm_Agents Observability Demo_Views Demo_Intake
    Audit_Timeline Event_Cli Entry_Points Cloud_Providers Graph_Nodes
    Peer_Narratives Demo_Reasoning
begin

text \<open>
  Refund operations by three agents that talk over an event broker, without a supervisor. A support
  ticket reaches the Customer-Resolution agent, which triages it, asks the Billing-Entitlement agent
  and the Risk-Fraud agent for their opinions by A2A tasks, combines the opinions into one decision
  and drafts the answer to the customer; a reaper decides the cases that wait too long. This library
  models the program under \<^verbatim>\<open>src/\<close> and states what it guarantees.

  \<^bold>\<open>How the program is modelled.\<close> Pure functions are HOL functions, classes with fields are records,
  enums are datatypes. Python floats are rationals rounded to binary64 (\<open>fl\<close>), decimals are exact,
  instants are integers in microseconds, UUIDs are natural numbers, dicts are association lists in
  insertion order. A coroutine is a function from a world to a result or an exception and the next
  world (\<open>('w, 'a) io\<close>); a world extends \<open>net\<close>, which counts the clock readings, fresh UUIDs and
  sends used and keeps the log of acknowledged sends. Code outside the repository is a parameter:
  which sends the broker acknowledges, what a consumer polls, the clock, \<^verbatim>\<open>uuid4\<close> and \<^verbatim>\<open>uuid5\<close>, pydantic's
  decoding and dumping, and the answers of the language model. Log lines and tracing spans have no effect.

  \<^bold>\<open>Foundation.\<close> \<open>Prelude\<close>: strings, dicts, exceptions, the io combinators and their assertion calculus.
  \<open>PyFloat\<close>, \<open>PyDecimal\<close>: float rounding, \<^verbatim>\<open>round\<close>, \<^verbatim>\<open>str\<close> and \<^verbatim>\<open>Decimal\<close>. \<open>Py_Text\<close>: the text of values and
  UUIDs. \<open>Py_Access\<close>: reading values of unknown shape. \<open>Contracts\<close>: topics, payloads, A2A messages and tasks (\<^verbatim>\<open>packages/contracts\<close>, \<^verbatim>\<open>a2a.py\<close>,
  \<^verbatim>\<open>payloads/task.py\<close>). \<open>Transport\<close>: envelopes, registry, publisher and audit (\<^verbatim>\<open>envelope.py\<close>,
  \<^verbatim>\<open>payloads\<close>, \<^verbatim>\<open>transport/publisher.py\<close>, \<^verbatim>\<open>audit/store.py\<close>).

  \<^bold>\<open>Delivery.\<close> \<open>Idempotency\<close> models the LRU tracker of processed identifiers: over any additions and lookups
  it is a window of the most recently used ones, how long a duplicate is recognised, and what a restart
  recovers from the topic the tracker wrote. Its contract is the locale \<open>dedup_memory\<close>. \<open>Consumer\<close> models the event loop and shows that every valid event is
  completed exactly once. \<open>Agent_Runtime\<close> models the A2A endpoint: the answers to a task refine a protocol,
  a redelivered task is skipped without running its handler, and what a malformed request does; what it needs of a
  task handler is the locale \<open>task_handler\<close>, interpreted on both peers' handlers. \<open>A2A_Client\<close> models
  discovery (the latest card of every agent) and the submission of a task.

  \<^bold>\<open>Billing.\<close> \<open>Billing_Engine\<close> is the rules engine gate by gate; \<open>Billing_Service\<close> the seeded facts, the
  service and the task handler. Shown: when a refund is approved, the comparison with an independent reading of the contract
  \<^verbatim>\<open>refund-policy.md\<close> (\<open>refund_contract\<close>) and the readings in which the code differs, that time only withdraws approvals, exact amounts, and that event and reply carry the deterministic verdict.

  \<^bold>\<open>Risk.\<close> \<open>Risk_Engine\<close> is the additive score with its gates, \<open>Risk_Exact\<close> relates the float score to
  exact tenths, \<open>Risk_Service\<close> is the service and the task handler. Shown: the float score decides as exact
  arithmetic, the comparison with the weights the rule texts of \<^verbatim>\<open>fraud-policy.md\<close> and \<^verbatim>\<open>policy.py\<close> state (\<open>fraud_contract\<close>)
  and the five deviations of the code, monotonicity, agreement of event and reply.

  \<open>Peer_Contract\<close> is the locale \<open>peer_engine\<close> both engines interpret: unit confidence, evidence,
  distinct references, and that an unsure opinion is flagged for review.

  \<^bold>\<open>Resolution.\<close> \<open>Case_Store\<close>: the case, its lifecycle and the store; invariant, exclusive claim (locale
  \<open>exclusive_claim\<close>), how many claims succeed over any sequence of store operations, commuting results. \<open>Ticket_Classifier\<close>, \<open>Response_Drafter\<close>, \<open>Decision_Engine\<close>: triage,
  templates and the leak guard (of the body, not the subject), the decision table. \<open>Resolution_Handlers\<close>: intake, result handlers,
  delegation and the reaper, as whole handlers on the agent's world. \<open>Resolution_Once\<close>: over any
  sequence of handler runs at most one decision is published for a case, and why the proviso is needed.
  \<open>Resolution_Effects\<close>: a decision is published with the draft that cites it, and the reaper settles every
  timed-out case. \<open>Resolution_Order\<close>: a waiting case gets one decision from its two opinions, and how it depends on
  which comes first. \<open>Resolution_Parked\<close>: a result that arrives before its case has no effect on anything, by a
  simulation between worlds that differ in parked results only. \<open>Resolution_Service\<close>:
  the agent's four consumers and the reaper over one store still decide once, in every serial schedule of whole messages
  and sweeps. \<open>Resolution_Race\<close>: intake overtaken by another loop while it awaits the broker; then a second decision is possible.
  \<open>Case_Trace\<close>: the causal trace of a case, with the
  termination of its search.

  \<^bold>\<open>Assistive reasoning.\<close> \<open>Llm_Text\<close>: JSON texts, redaction, metadata, prices, the grounding check. \<open>Llm_Runtime\<close>:
  requests, profiles, templates, the result store, the repair loop, the audit of a step and \<^verbatim>\<open>LLMRuntime.reason\<close>.
  \<open>Llm_Contract\<close>: what a step may do (calls, origin of the result, exceptions), replay from the store, that no step
  is ever audited, and how an outage during repair escapes. \<open>Llm_Config\<close>: configuration layers, YAML profiles and the
  offline provider. \<open>Llm_Agents\<close>: the resolution agent's classifier and drafter over this runtime; an outage of
  the model changes no triage and no draft. \<open>Cloud_Providers\<close>: the Bedrock and AgentCore providers, the assembly of a
  runtime and the client wrapper; exactly which responses are read, and that the configured region has no effect.
  \<open>Peer_Narratives\<close>: the narratives of the peers over this runtime, where they come from and what an outage leaves.
  \<open>Graph_Nodes\<close>: the nodes for the graph library; a node without a runtime never replays a result.

  \<^bold>\<open>Around the agents.\<close> \<open>Observability\<close>: configuration, capture policy, trace contexts, spans and generations over an
  arbitrary backend. Shown: spans never disturb the program, which is why the other theories leave them out; trace
  contexts survive the envelope; error texts bypass the capture policy. \<open>Demo_Views\<close>: the audit stream and the
  timeline of the demo user interface; the timeline is the causal trace. \<open>Demo_Reasoning\<close>: the rows of its
  case view; the rows of reasoning steps hold placeholders. \<open>Demo_Intake\<close>: its roster, poll cache and ticket
  form; every expected agent has one entry with its latest card, at most one refresh runs for a key, and starting a case
  writes one root event. \<open>Audit_Timeline\<close>: the depth-first timeline of a case, whose recursive walk returns whatever cycles
  the causes form, and why it never shows an escalation. \<open>Event_Cli\<close>: the command line, the topics to create, the
  reader of the audit topic and the trace tool; a chain that the command line publishes is traced back in its order.

  \<^bold>\<open>Entry points.\<close> \<open>Entry_Points\<close>: the HTTP applications of the peers, the AgentCore executors of all three agents and
  the direct invocation of the risk and the resolution agent. Shown: the HTTP endpoint answers what the task handler
  would, nothing is decided without the findings of both peers, which exceptions of the JSON decoder escape, and where a direct
  decision differs from the joint table.

  \<^bold>\<open>Composition.\<close> \<open>Peer_Findings\<close> states the joint table of the two opinions and how the agent reads each engine's event
  and A2A output. This theory joins the engines, the events their opinions travel in, their normalisation and
  the decision engine.

  \<^bold>\<open>Bounds and loops.\<close> No fuel is used: loops over the broker are recursion over the list of deliveries, the
  breadth-first search terminates because every turn shortens the queue or visits a new identifier. The recursion of the
  audit timeline is bounded by the recursion limit of the interpreter, an argument; as many nested calls as there are
  envelopes are enough. The
  tracker's size 10000 is the program's own.

  \<^bold>\<open>Interleaving.\<close> In the models of whole handlers (\<open>Resolution_Once\<close>, \<open>Resolution_Service\<close>) each handler runs to its end
  before the next begins. The code gathers the loops of an agent concurrently, so a handler that awaits the broker can be
  overtaken. Two theories go beyond serial schedules: \<open>Case_Store\<close> treats arbitrary sequences of store operations,
  which are atomic under the store's lock, and \<open>Resolution_Race\<close> lets another loop run inside intake, where the bound of one
  decision fails. Other overlaps are not treated.

  \<^bold>\<open>Not modelled.\<close> Logging, the consuming commands of the command line and the rendering of the demo user interface
  are input and output around the parts above; the AWS library is a parameter. Timers (heartbeat, card republication,
  sleep between reaper sweeps), broker connections, the start of the servers and the set-up of the tracing client are
  left out. \<^verbatim>\<open>UUID(text)\<close> is modelled on texts whose 32 digits are plain hexadecimal.
\<close>

section \<open>From the peers' engines to the decision\<close>

text \<open>C2: from the engines to the decision table. Let the billing engine and the risk engine give their
  opinions, let both travel as domain events and be read back by the Customer-Resolution agent, and
  let the case be under refund review, complete and triaged with enough confidence. Then what the
  decision engine decides on the two findings is the joint table of the opinions: a human decides if
  either engine asks for one; otherwise a denial is passed on if the risk is not low and softened to a
  partial credit for heavy usage. A refund is approved exactly if billing approves, the risk is low and
  neither engine asks for a human; so a customer of a segment that risk always flags is not
  approved even at low risk. The confidence row never fires: the rounding on the way does not push a
  confident opinion below the threshold. This is about \<open>decide\<close> on both findings; that the risk handler
  may escalate before the billing opinion is there is the matter of \<open>Resolution_Order\<close>.\<close>

theorem end_to_end_outcome:
  assumes "tg_needs_refund_review t" and "\<not> is_missing ts" and "CONFIDENCE_THRESHOLD \<le> tg_confidence t"
  shows "\<exists>bp rp p. build_result_payload rq (evaluate now bf rq REFUND_POLICY) facts n = Inr bp
    \<and> to_result_payload (assess_signals s rk pol) rk m = Inr rp
    \<and> decide t (Some (billing_finding_of bp tb)) (Some (risk_finding_of rp tr)) pc ts dt cid tk cu = Inr p
    \<and> dp_outcome p = joint_outcome (evaluate now bf rq REFUND_POLICY) (assess_signals s rk pol)
    \<and> (dp_outcome p = APPROVE_REFUND \<longleftrightarrow>
        er_recommendation (evaluate now bf rq REFUND_POLICY) = APPROVE_FULL_REFUND
        \<and> \<not> er_requires_human_review (evaluate now bf rq REFUND_POLICY)
        \<and> ra_risk_level (assess_signals s rk pol) = LOW \<and> \<not> ra_requires_human_review (assess_signals s rk pol))"
proof -
  let ?e = "evaluate now bf rq REFUND_POLICY" and ?a = "assess_signals s rk pol"
  have u: "in_unit (er_confidence ?e)" "in_unit (ra_confidence ?a)"
    using billing_peer.conf_unit [of "(now, bf, rq)"] risk_peer.conf_unit [of "(s, rk, pol)"] by simp_all
  then obtain bp rp where p: "build_result_payload rq ?e facts n = Inr bp" "to_result_payload ?a rk m = Inr rp"
    by (auto simp: build_result_payload_def validate_billing_payload_def to_result_payload_def validate_risk_payload_def)
  let ?b = "billing_finding_of bp tb" and ?r = "risk_finding_of rp tr"
  note f = finding_fields [OF p]
  have "CONFIDENCE_THRESHOLD \<le> compute_confidence (Some t) (Some ?b) (Some ?r)"
    if "\<not> er_requires_human_review ?e" "\<not> ra_requires_human_review ?a"
  proof -
    have "CONFIDENCE_THRESHOLD \<le> er_confidence ?e" using billing_peer.unflagged_confident [of "(now, bf, rq)"] that(1) by simp
    moreover have "CONFIDENCE_THRESHOLD \<le> ra_confidence ?a"
      using risk_peer.unflagged_confident [of "(s, rk, pol)"] that(2) by simp
    ultimately show ?thesis using assms(3) f u confidence_survives
      by (simp add: confidence_reaches_iff [OF threshold_unit] confidence_scores_def in_unit_def)
  qed
  then have "fst (table_row t (Some ?b) (Some ?r) ts) = joint_outcome ?e ?a"
    using assms(1,2) f
    by (auto simp: table_row_def joint_outcome_def not_le [symmetric] split: Recommendation.splits RiskLevel.splits)
  with decide_row [of cid tk cu t "Some ?b" "Some ?r" ts pc dt] p obtain d
    where "decide t (Some ?b) (Some ?r) pc ts dt cid tk cu = Inr d" "dp_outcome d = joint_outcome ?e ?a"
    by (auto simp: follows_row_def)
  with p show ?thesis using joint_outcome_approve [of ?e ?a] by auto
qed

theorem end_to_end_outcome_witness:
  "\<exists>bp rp p. build_result_payload sample_request (evaluate (25 * day_us) fact_approve sample_request REFUND_POLICY) None None = Inr bp
    \<and> to_result_payload (assess_signals (clean_signals ''C'' []) sample_risk_request None) sample_risk_request None = Inr rp
    \<and> decide no_triage (Some (billing_finding_of bp 7)) (Some (risk_finding_of rp 8)) None None None None ''T-1'' ''CUS-1'' = Inr p
    \<and> dp_outcome p = APPROVE_REFUND"
proof -
  let ?e = "evaluate (25 * day_us) fact_approve sample_request REFUND_POLICY"
  let ?a = "assess_signals (clean_signals ''C'' []) sample_risk_request None"
  have "er_recommendation ?e = APPROVE_FULL_REFUND" by (rule fact_approve_day25)
  moreover from this have "\<not> er_requires_human_review ?e"
    by (simp add: evaluate_gate gate_approve_iff gate_review_def)
  moreover have "ra_risk_level ?a = LOW" "\<not> ra_requires_human_review ?a" by code_simp+
  ultimately have "joint_outcome ?e ?a = APPROVE_REFUND" by (simp add: joint_outcome_def)
  moreover have "tg_needs_refund_review no_triage" "\<not> is_missing None" "CONFIDENCE_THRESHOLD \<le> tg_confidence no_triage"
    using threshold_unit(2) by (simp_all add: no_triage_def is_missing_def)
  ultimately show ?thesis using end_to_end_outcome [of no_triage None] by metis
qed

end
